(* ===== verification/Prelude.thy ===== *)
theory Prelude
  imports Main "HOL-Library.Word" "HOL-Library.Sublist"
begin

text \<open>
  The vocabulary every other theory shares: JavaScript strings as lists of 16-bit code units
  with the string operations the console uses, the truthiness operators of the language
  (\<open>||\<close>, \<open>??\<close> on optional strings), the bookkeeping of suspended asynchronous handlers, and
  the state-machine locales from which each component obtains its invariants over runs.
\<close>

named_theorems js_defs "definitions of the string and truthiness operators"

section \<open>Strings\<close>

text \<open>
  A JavaScript string is a sequence of 16-bit code units, so \<open>length\<close>, \<open>slice\<close> and
  \<open>charAt\<close> count and index units. \<open>js\<close> turns an ASCII literal into such a string; a
  character outside ASCII is written as its unit, for instance \<open>0x2026\<close> for an ellipsis.
\<close>

type_synonym code_unit = "16 word"
type_synonym jstr = "code_unit list"

definition js :: "string \<Rightarrow> jstr" where
  "js s = map of_char s"

lemma of_char_nat_less: "(of_char c :: nat) < 256"
  by (metis mod_less_divisor of_char_mod_256 zero_less_numeral)

lemma of_char_unit_inject [simp]: "(of_char c :: code_unit) = of_char d \<longleftrightarrow> c = d"
proof
  assume eq: "(of_char c :: code_unit) = of_char d"
  have u: "unat (of_char e :: code_unit) = of_char e" for e :: char
  proof -
    have "(of_char e :: nat) mod 65536 = of_char e"
      using of_char_nat_less [of e] by (intro mod_less) linarith
    then have "unat (of_nat (of_char e) :: code_unit) = (of_char e :: nat)"
      by (simp add: unat_of_nat del: of_nat_of_char)
    then show ?thesis by (simp only: of_nat_of_char)
  qed
  from eq have "(of_char c :: nat) = of_char d" by (metis u)
  then show "c = d" by simp
qed simp

lemma js_inject [simp]: "js s = js t \<longleftrightarrow> s = t"
proof -
  have "inj (of_char :: char \<Rightarrow> code_unit)" by (rule injI) simp
  then show ?thesis by (simp add: js_def inj_map_eq_map)
qed

lemma js_prefix_neq: "\<not> prefix s t \<Longrightarrow> js s @ x \<noteq> js t"
proof
  assume np: "\<not> prefix s t" and eq: "js s @ x = js t"
  then have "take (length s) (js s @ x) = take (length s) (js t)" by simp
  then have "js s = js (take (length s) t)" by (simp add: js_def take_map)
  then have "s = take (length s) t" by simp
  then have "prefix s t" by (metis take_is_prefix)
  with np show False by simp
qed

lemma js_Nil [simp]: "js [] = []" by (simp add: js_def)
lemma js_eq_Nil [simp]: "js s = [] \<longleftrightarrow> s = []" by (simp add: js_def)
lemma Nil_eq_js [simp]: "[] = js s \<longleftrightarrow> s = []" by (auto simp: js_def)
lemma length_js [simp]: "length (js s) = length s" by (simp add: js_def)
lemma js_append: "js (s @ t) = js s @ js t" by (simp add: js_def)

text \<open>\<open>String.prototype.trim\<close>: white space and line terminators of ECMAScript.\<close>

definition ws_units :: "code_unit list" where
  "ws_units = [9, 10, 11, 12, 13, 32, 0xA0, 0x1680, 0x2000, 0x2001, 0x2002, 0x2003, 0x2004,
     0x2005, 0x2006, 0x2007, 0x2008, 0x2009, 0x200A, 0x2028, 0x2029, 0x202F, 0x205F, 0x3000,
     0xFEFF]"

definition is_ws :: "code_unit \<Rightarrow> bool" where
  "is_ws u \<longleftrightarrow> u \<in> set ws_units"

definition trim :: "jstr \<Rightarrow> jstr" where
  "trim s = rev (dropWhile is_ws (rev (dropWhile is_ws s)))"

lemma trim_Nil [simp]: "trim [] = []" by (simp add: trim_def)

lemma trim_eq_Nil: "trim s = [] \<longleftrightarrow> (\<forall>u\<in>set s. is_ws u)"
proof -
  have "trim s = [] \<longleftrightarrow> (\<forall>u\<in>set (dropWhile is_ws s). is_ws u)"
    by (simp add: trim_def)
  also have "\<dots> \<longleftrightarrow> (\<forall>u\<in>set s. is_ws u)"
    by (induction s) auto
  finally show ?thesis .
qed

lemma trim_nonempty_imp: "trim s \<noteq> [] \<Longrightarrow> s \<noteq> []" by auto

lemma dropWhile_idem_rev: "dropWhile P (rev (dropWhile P (rev (dropWhile P s))))
  = rev (dropWhile P (rev (dropWhile P s)))"
proof (cases "dropWhile P s")
  case Nil
  show ?thesis by (simp only: Nil rev.simps dropWhile.simps)
next
  case (Cons x xs)
  then have nx: "\<not> P x" by (metis dropWhile_eq_Cons_conv)
  then have "dropWhile P (rev xs @ [x]) = dropWhile P (rev xs) @ [x]"
    by (metis dropWhile.simps(2) dropWhile_append3)
  with Cons nx show ?thesis by simp
qed

lemma trim_idem [simp]: "trim (trim s) = trim s"
  by (simp add: trim_def dropWhile_idem_rev)

text \<open>\<open>includes\<close>, \<open>startsWith\<close>, \<open>split\<close> on a one-unit separator and \<open>join\<close>.\<close>

fun js_includes :: "jstr \<Rightarrow> jstr \<Rightarrow> bool" where
  "js_includes [] t = (t = [])"
| "js_includes (u # s) t = (prefix t (u # s) \<or> js_includes s t)"

lemma js_includes_sublist: "js_includes s t \<longleftrightarrow> sublist t s"
  by (induction s) (auto simp: sublist_Cons_right)

lemma js_includes_Nil [simp]: "js_includes s []"
  by (cases s) auto

lemma js_includes_refl [simp]: "js_includes s s"
  by (cases s) auto

fun split_on :: "code_unit \<Rightarrow> jstr \<Rightarrow> jstr list" where
  "split_on c [] = [[]]"
| "split_on c (u # s) =
     (if u = c then [] # split_on c s
      else (case split_on c s of [] \<Rightarrow> [[u]] | p # ps \<Rightarrow> (u # p) # ps))"

fun join_with :: "jstr \<Rightarrow> jstr list \<Rightarrow> jstr" where
  "join_with sep [] = []"
| "join_with sep [p] = p"
| "join_with sep (p # q # ps) = p @ sep @ join_with sep (q # ps)"

lemma split_on_nonempty [simp]: "split_on c s \<noteq> []"
  by (cases s) (auto split: list.splits)

lemma join_split_on: "join_with [c] (split_on c s) = s"
proof (induction s)
  case Nil
  then show ?case by simp
next
  case (Cons u s)
  obtain p ps where sp: "split_on c s = p # ps" by (cases "split_on c s") auto
  with Cons show ?case by (cases ps) auto
qed

lemma split_on_parts_free: "p \<in> set (split_on c s) \<Longrightarrow> c \<notin> set p"
proof (induction s arbitrary: p)
  case Nil
  then show ?case by simp
next
  case (Cons u s)
  obtain q qs where sp: "split_on c s = q # qs" by (cases "split_on c s") auto
  with Cons show ?case by (auto split: if_splits)
qed

lemma split_on_free: "c \<notin> set s \<Longrightarrow> split_on c s = [s]"
  by (induction s) auto

lemma split_on_append_sep: "split_on c (s @ c # t) = split_on c s @ split_on c t"
proof (induction s)
  case Nil
  then show ?case by simp
next
  case (Cons u s)
  obtain q qs where sp: "split_on c s = q # qs" by (cases "split_on c s") auto
  with Cons show ?case by simp
qed

lemma split_on_append:
  "split_on c (s @ t) =
     butlast (split_on c s) @ (last (split_on c s) @ hd (split_on c t)) # tl (split_on c t)"
proof (induction s)
  case Nil
  then show ?case by (cases "split_on c t") auto
next
  case (Cons u s)
  obtain q qs where sp: "split_on c s = q # qs" by (cases "split_on c s") auto
  with Cons show ?case by (cases qs) auto
qed

text \<open>
  Case mapping, written out for Basic Latin and Latin-1 (with the three Latin-1 letters whose
  upper case lies outside); units beyond U+00FF map to themselves, so a statement about the
  mapping is about text of that range.
\<close>

definition upper_unit :: "code_unit \<Rightarrow> jstr" where
  "upper_unit u =
     (if 97 \<le> u \<and> u \<le> 122 \<or> 0xE0 \<le> u \<and> u \<le> 0xFE \<and> u \<noteq> 0xF7 then [u - 32]
      else if u = 0xB5 then [0x39C] else if u = 0xDF then [83, 83]
      else if u = 0xFF then [0x178] else [u])"

definition lower_unit :: "code_unit \<Rightarrow> code_unit" where
  "lower_unit u =
     (if 65 \<le> u \<and> u \<le> 90 \<or> 0xC0 \<le> u \<and> u \<le> 0xDE \<and> u \<noteq> 0xD7 then u + 32 else u)"

definition to_upper :: "jstr \<Rightarrow> jstr" where "to_upper s = concat (map upper_unit s)"
definition to_lower :: "jstr \<Rightarrow> jstr" where "to_lower s = map lower_unit s"

text \<open>Decimal text of an integer, as a template literal or a JSX child prints it.\<close>

fun nat_text :: "nat \<Rightarrow> jstr" where
  "nat_text n = (if n < 10 then [of_nat (48 + n)] else nat_text (n div 10) @ [of_nat (48 + n mod 10)])"

declare nat_text.simps [simp del]

definition int_text :: "int \<Rightarrow> jstr" where
  "int_text i = (if i < 0 then 45 # nat_text (nat (- i)) else nat_text (nat i))"

text \<open>\<open>%\<close> takes the sign of the dividend.\<close>

definition js_rem :: "int \<Rightarrow> int \<Rightarrow> int" where
  "js_rem a b = (if a < 0 then - ((- a) mod b) else a mod b)"

definition array_at :: "'a list \<Rightarrow> int \<Rightarrow> 'a option" where
  "array_at xs i = (if 0 \<le> i \<and> nat i < length xs then Some (xs ! nat i) else None)"

lemma nat_text_nonempty [simp]: "nat_text n \<noteq> []"
  by (subst nat_text.simps) simp

lemma Nil_neq_nat_text [simp]: "[] \<noteq> nat_text n"
  by (metis nat_text_nonempty)

lemma digit_unit_inject: "a < 10 \<Longrightarrow> b < 10 \<Longrightarrow>
    (of_nat (48 + a) :: code_unit) = of_nat (48 + b) \<longleftrightarrow> a = b"
proof -
  assume "a < 10" "b < 10"
  then have "unat (of_nat (48 + a) :: code_unit) = 48 + a"
    and "unat (of_nat (48 + b) :: code_unit) = 48 + b"
    by (simp_all add: unat_of_nat del: of_nat_add of_nat_numeral)
  then show ?thesis by (metis add_left_cancel)
qed

lemma nat_text_inject [simp]: "nat_text m = nat_text n \<longleftrightarrow> m = n"
proof (induction m arbitrary: n rule: nat_text.induct)
  case (1 m)
  have last: "nat_text k = (if k < 10 then [] else nat_text (k div 10)) @ [of_nat (48 + k mod 10)]"
    for k by (subst nat_text.simps) simp
  have d: "(of_nat (48 + m mod 10) :: code_unit) = of_nat (48 + n mod 10) \<longleftrightarrow> m mod 10 = n mod 10"
    by (rule digit_unit_inject) auto
  show ?case
  proof
    assume eq: "nat_text m = nat_text n"
    have both: "(if m < 10 then [] else nat_text (m div 10)) @ [of_nat (48 + m mod 10)]
        = (if n < 10 then [] else nat_text (n div 10)) @ [of_nat (48 + n mod 10)]"
      using eq by (simp only: last [of m, symmetric] last [of n, symmetric])
    then have pre: "(if m < 10 then [] else nat_text (m div 10)) = (if n < 10 then [] else nat_text (n div 10))"
      and "(of_nat (48 + m mod 10) :: code_unit) = of_nat (48 + n mod 10)"
      by (simp_all only: append1_eq_conv)
    then have mod: "m mod 10 = n mod 10" using d by blast
    have "m div 10 = n div 10"
    proof (cases "m < 10")
      case True
      with pre have "n < 10" by (auto split: if_splits)
      with True show ?thesis by simp
    next
      case False
      with pre have "\<not> n < 10" by (auto split: if_splits)
      with False pre "1.IH" show ?thesis by simp
    qed
    with mod show "m = n" by (metis div_mult_mod_eq)
  qed simp
qed

section \<open>Optional strings: truthiness, \<open>||\<close> and \<open>??\<close>\<close>

text \<open>
  A field typed \<open>string | undefined\<close> (or \<open>| null\<close>) is a \<open>jstr option\<close>; it is falsy when
  absent or empty. \<open>or_str\<close> and \<open>or_opt\<close> are \<open>a || b\<close> with a string and with an
  optional string on the right, \<open>nullish\<close> is \<open>a ?? b\<close>.
\<close>

definition truthy :: "jstr option \<Rightarrow> bool" where
  "truthy v \<longleftrightarrow> v \<noteq> None \<and> v \<noteq> Some []"

definition or_str :: "jstr option \<Rightarrow> jstr \<Rightarrow> jstr" where
  "or_str v d = (case v of None \<Rightarrow> d | Some s \<Rightarrow> if s = [] then d else s)"

definition or_opt :: "jstr option \<Rightarrow> jstr option \<Rightarrow> jstr option" where
  "or_opt v w = (if truthy v then v else w)"

definition nullish :: "'a option \<Rightarrow> 'a \<Rightarrow> 'a" where
  "nullish v d = (case v of None \<Rightarrow> d | Some x \<Rightarrow> x)"

lemma truthy_simps [simp]:
  "truthy None = False" "truthy (Some s) \<longleftrightarrow> s \<noteq> []"
  by (simp_all add: truthy_def)

lemma or_str_simps [simp]:
  "or_str None d = d" "or_str (Some []) d = d" "or_str (Some (u # s)) d = u # s"
  by (simp_all add: or_str_def)

lemma or_str_Some: "s \<noteq> [] \<Longrightarrow> or_str (Some s) d = s"
  by (simp add: or_str_def)

lemma or_str_nonempty: "d \<noteq> [] \<Longrightarrow> or_str v d \<noteq> []"
  by (simp add: or_str_def split: option.splits)

lemma nullish_simps [simp]: "nullish None d = d" "nullish (Some x) d = x"
  by (simp_all add: nullish_def)

text \<open>An optional string inside a template literal: an absent one prints as \<open>undefined\<close>.\<close>

definition template :: "jstr option \<Rightarrow> jstr" where
  "template v = nullish v (js ''undefined'')"

section \<open>Suspended handlers\<close>

text \<open>
  An asynchronous handler that reaches an \<open>await\<close> leaves a continuation behind; a component
  keeps its continuations in a list, in the order they were suspended, and a settle event
  names the one that resumes. Resuming removes exactly that entry.
\<close>

definition remove_nth :: "nat \<Rightarrow> 'a list \<Rightarrow> 'a list" where
  "remove_nth i xs = take i xs @ drop (Suc i) xs"

lemma length_remove_nth: "i < length xs \<Longrightarrow> length (remove_nth i xs) = length xs - 1"
  by (simp add: remove_nth_def)

lemma remove_nth_simps [simp]:
  "remove_nth 0 (x # xs) = xs"
  "remove_nth (Suc i) (x # xs) = x # remove_nth i xs"
  "remove_nth i [] = []"
  by (simp_all add: remove_nth_def)

lemma remove_nth_subset: "set (remove_nth i xs) \<subseteq> set xs"
  unfolding remove_nth_def using set_take_subset set_drop_subset by fastforce

lemma in_remove_nthD: "x \<in> set (remove_nth i xs) \<Longrightarrow> x \<in> set xs"
  using remove_nth_subset by fastforce

lemma in_remove_nth:
  assumes "x \<in> set xs" "xs ! i \<noteq> x"
  shows "x \<in> set (remove_nth i xs)"
proof (cases "i < length xs")
  case True
  then have "xs = take i xs @ xs ! i # drop (Suc i) xs" by (simp add: id_take_nth_drop [symmetric])
  with assms have "x \<in> set (take i xs) \<union> set (drop (Suc i) xs)"
    by (metis UnCI UnE set_append set_ConsD)
  then show ?thesis by (auto simp: remove_nth_def)
next
  case False
  with assms show ?thesis by (simp add: remove_nth_def)
qed

lemma filter_remove_nth_le: "length (filter P (remove_nth i xs)) \<le> length (filter P xs)"
proof (cases "i < length xs")
  case True
  then have "xs = take i xs @ xs ! i # drop (Suc i) xs" by (simp add: id_take_nth_drop [symmetric])
  then have "length (filter P xs) = length (filter P (take i xs)) + length (filter P (xs ! i # drop (Suc i) xs))"
    by (metis filter_append length_append)
  then show ?thesis by (simp add: remove_nth_def split: if_splits)
next
  case False
  then show ?thesis by (simp add: remove_nth_def)
qed

lemma filter_remove_nth: "i < length xs \<Longrightarrow> P (xs ! i) \<Longrightarrow> length (filter P xs) \<le> 1 \<Longrightarrow>
    filter P (remove_nth i xs) = []"
proof -
  assume "i < length xs" "P (xs ! i)" and le: "length (filter P xs) \<le> 1"
  then have "xs = take i xs @ xs ! i # drop (Suc i) xs" by (simp add: id_take_nth_drop [symmetric])
  then have "length (filter P xs)
      = length (filter P (take i xs)) + (1 + length (filter P (drop (Suc i) xs)))"
    using \<open>P (xs ! i)\<close> by (metis (no_types, lifting) filter.simps(2) filter_append length_Cons length_append plus_1_eq_Suc)
  with le show ?thesis by (simp add: remove_nth_def)
qed

lemma remove_nth_length1: "length xs = 1 \<Longrightarrow> i < length xs \<Longrightarrow> remove_nth i xs = []"
  by (cases xs) auto

section \<open>Machines\<close>

text \<open>
  Every component is a state, a total step function on its events and an initial state; a run
  is a fold of the step function over a list of events. A \<open>machine\<close> owes an invariant that
  holds at the start and that every step keeps; its clients get the invariant in every state
  a run can reach.
\<close>

abbreviation run :: "('s \<Rightarrow> 'e \<Rightarrow> 's) \<Rightarrow> 's \<Rightarrow> 'e list \<Rightarrow> 's" where
  "run step s es \<equiv> foldl step s es"

locale machine =
  fixes init :: "'s" and step :: "'s \<Rightarrow> 'e \<Rightarrow> 's" and inv :: "'s \<Rightarrow> bool"
  assumes inv_init: "inv init"
    and inv_step: "inv s \<Longrightarrow> inv (step s e)"
begin

lemma inv_run_from: "inv s \<Longrightarrow> inv (run step s es)"
  by (induction es arbitrary: s) (simp_all add: inv_step)

lemma inv_run: "inv (run step init es)"
  by (rule inv_run_from [OF inv_init])

end

text \<open>
  A \<open>tracker\<close> is a component that hosts another one: some of its events are passed on to
  the hosted component, and no event touches the hosted state otherwise. What a run of the
  host does to the hosted state is then a run of the hosted component.
\<close>

locale tracker =
  fixes hstep :: "'h \<Rightarrow> 'e \<Rightarrow> 'h" and step :: "'s \<Rightarrow> 'f \<Rightarrow> 's"
    and hosted :: "'h \<Rightarrow> 's" and route :: "'h \<Rightarrow> 'e \<Rightarrow> 'f list"
  assumes hosted_step: "hosted (hstep h e) = run step (hosted h) (route h e)"
begin

lemma hosted_run: "\<exists>fs. hosted (run hstep h es) = run step (hosted h) fs"
proof (induction es arbitrary: h)
  case Nil
  have "hosted (run hstep h []) = run step (hosted h) []" by simp
  then show ?case by blast
next
  case (Cons e es)
  obtain fs where "hosted (run hstep (hstep h e) es) = run step (hosted (hstep h e)) fs"
    using Cons by blast
  then have "hosted (run hstep h (e # es)) = run step (hosted h) (route h e @ fs)"
    by (simp add: hosted_step)
  then show ?case by blast
qed

end

end
