(* ===== verification/Json.thy ===== *)
theory Json
  imports Prelude
begin

text \<open>
  JavaScript values as the console meets them: JSON data from the API and caught exceptions,
  with the truthiness test, field access, \<open>JSON.stringify\<close> (compact and with an indent of
  two) and \<open>JSON.parse\<close> of the language's standard library. A number is kept as its decimal
  text. \<open>JExn\<close> is an \<open>Error\<close> instance with its name and message.
\<close>

datatype jsval =
    JUndef
  | JNull
  | JBool bool
  | JNum jstr
  | JStr jstr
  | JArr "jsval list"
  | JObj "(jstr \<times> jsval) list"
  | JExn jstr jstr

text \<open>A number is falsy when it is zero (or NaN): no digit 1 to 9 before an exponent.\<close>

definition num_falsy :: "jstr \<Rightarrow> bool" where
  "num_falsy l \<longleftrightarrow> (\<forall>u\<in>set (takeWhile (\<lambda>u. u \<noteq> 101 \<and> u \<noteq> 69) l). \<not> (49 \<le> u \<and> u \<le> 57))"

fun js_truthy :: "jsval \<Rightarrow> bool" where
  "js_truthy JUndef = False"
| "js_truthy JNull = False"
| "js_truthy (JBool b) = b"
| "js_truthy (JNum l) = (\<not> num_falsy l)"
| "js_truthy (JStr s) = (s \<noteq> [])"
| "js_truthy (JArr _) = True"
| "js_truthy (JObj _) = True"
| "js_truthy (JExn _ _) = True"

text \<open>Property access on a value; a string-typed property that holds no string reads as absent.\<close>

definition get_field :: "jsval \<Rightarrow> jstr \<Rightarrow> jsval" where
  "get_field v k = (case v of
     JObj fs \<Rightarrow> (case map_of fs k of None \<Rightarrow> JUndef | Some x \<Rightarrow> x)
   | JExn n m \<Rightarrow> if k = js ''message'' then JStr m else if k = js ''name'' then JStr n else JUndef
   | _ \<Rightarrow> JUndef)"

definition str_field :: "jsval \<Rightarrow> jstr \<Rightarrow> jstr option" where
  "str_field v k = (case get_field v k of JStr s \<Rightarrow> Some s | _ \<Rightarrow> None)"

section \<open>\<open>JSON.stringify\<close>\<close>

definition hex_unit :: "nat \<Rightarrow> code_unit" where
  "hex_unit d = (if d < 10 then of_nat (48 + d) else of_nat (87 + d))"

definition u_escape :: "code_unit \<Rightarrow> jstr" where
  "u_escape u = (let n = unat u in
     [92, 117] @ [hex_unit (n div 4096 mod 16), hex_unit (n div 256 mod 16),
       hex_unit (n div 16 mod 16), hex_unit (n mod 16)])"

definition high_surrogate :: "code_unit \<Rightarrow> bool" where
  "high_surrogate u \<longleftrightarrow> 0xD800 \<le> u \<and> u \<le> 0xDBFF"

definition low_surrogate :: "code_unit \<Rightarrow> bool" where
  "low_surrogate u \<longleftrightarrow> 0xDC00 \<le> u \<and> u \<le> 0xDFFF"

definition escape_unit :: "code_unit \<Rightarrow> jstr" where
  "escape_unit u =
     (if u = 34 then [92, 34] else if u = 92 then [92, 92]
      else if u = 8 then [92, 98] else if u = 12 then [92, 102]
      else if u = 10 then [92, 110] else if u = 13 then [92, 114]
      else if u = 9 then [92, 116]
      else if u < 32 then u_escape u else [u])"

fun escape_units :: "jstr \<Rightarrow> jstr" where
  "escape_units [] = []"
| "escape_units [u] =
     (if high_surrogate u \<or> low_surrogate u then u_escape u else escape_unit u)"
| "escape_units (u # v # s) =
     (if high_surrogate u \<and> low_surrogate v then u # v # escape_units s
      else if high_surrogate u \<or> low_surrogate u then u_escape u @ escape_units (v # s)
      else escape_unit u @ escape_units (v # s))"

definition quote_str :: "jstr \<Rightarrow> jstr" where
  "quote_str s = 34 # escape_units s @ [34]"

text \<open>Inside an array \<open>undefined\<close> prints as \<open>null\<close>; an object drops undefined fields.\<close>

fun stringify :: "jsval \<Rightarrow> jstr"
  and stringify_list :: "jsval list \<Rightarrow> jstr list"
  and stringify_fields :: "(jstr \<times> jsval) list \<Rightarrow> jstr list" where
  "stringify JUndef = js ''null''"
| "stringify JNull = js ''null''"
| "stringify (JBool b) = (if b then js ''true'' else js ''false'')"
| "stringify (JNum l) = l"
| "stringify (JStr s) = quote_str s"
| "stringify (JArr vs) = [91] @ join_with [44] (stringify_list vs) @ [93]"
| "stringify (JObj fs) = [123] @ join_with [44] (stringify_fields fs) @ [125]"
| "stringify (JExn _ _) = [123, 125]"
| "stringify_list [] = []"
| "stringify_list (v # vs) = stringify v # stringify_list vs"
| "stringify_fields [] = []"
| "stringify_fields ((k, v) # fs) =
     (if v = JUndef then stringify_fields fs
      else (quote_str k @ [58] @ stringify v) # stringify_fields fs)"

text \<open>With an indent of \<open>g\<close> spaces, \<open>g\<close> not 0, after \<open>n\<close> spaces.\<close>

fun stringify_by :: "nat \<Rightarrow> nat \<Rightarrow> jsval \<Rightarrow> jstr"
  and stringify_by_list :: "nat \<Rightarrow> nat \<Rightarrow> jsval list \<Rightarrow> jstr list"
  and stringify_by_fields :: "nat \<Rightarrow> nat \<Rightarrow> (jstr \<times> jsval) list \<Rightarrow> jstr list" where
  "stringify_by g n (JArr vs) =
     (let ps = stringify_by_list g (n + g) vs in
      if ps = [] then js ''[]''
      else [91] @ join_with [44] ps @ [10] @ replicate n 32 @ [93])"
| "stringify_by g n (JObj fs) =
     (let ps = stringify_by_fields g (n + g) fs in
      if ps = [] then js ''{}''
      else [123] @ join_with [44] ps @ [10] @ replicate n 32 @ [125])"
| "stringify_by g n v = stringify v"
| "stringify_by_list g n [] = []"
| "stringify_by_list g n (v # vs) =
     ([10] @ replicate n 32 @ stringify_by g n v) # stringify_by_list g n vs"
| "stringify_by_fields g n [] = []"
| "stringify_by_fields g n ((k, v) # fs) =
     (if v = JUndef then stringify_by_fields g n fs
      else ([10] @ replicate n 32 @ quote_str k @ [58, 32] @ stringify_by g n v) # stringify_by_fields g n fs)"

abbreviation stringify2 :: "nat \<Rightarrow> jsval \<Rightarrow> jstr" where
  "stringify2 \<equiv> stringify_by 2"

lemma stringify_nonempty:
  assumes "\<And>l. v = JNum l \<Longrightarrow> l \<noteq> []"
  shows "stringify v \<noteq> []"
  using assms by (cases v) (auto simp: quote_str_def)

section \<open>\<open>JSON.parse\<close>\<close>

definition json_ws :: "code_unit \<Rightarrow> bool" where
  "json_ws u \<longleftrightarrow> u = 32 \<or> u = 9 \<or> u = 10 \<or> u = 13"

abbreviation skip_ws :: "jstr \<Rightarrow> jstr" where
  "skip_ws s \<equiv> dropWhile json_ws s"

definition is_digit :: "code_unit \<Rightarrow> bool" where
  "is_digit u \<longleftrightarrow> 48 \<le> u \<and> u \<le> 57"

definition hex_digit :: "code_unit \<Rightarrow> nat option" where
  "hex_digit u =
     (if is_digit u then Some (unat u - 48)
      else if 97 \<le> u \<and> u \<le> 102 then Some (unat u - 87)
      else if 65 \<le> u \<and> u \<le> 70 then Some (unat u - 55) else None)"

definition hex4 :: "code_unit \<Rightarrow> code_unit \<Rightarrow> code_unit \<Rightarrow> code_unit \<Rightarrow> code_unit option" where
  "hex4 a b c d = (case (hex_digit a, hex_digit b, hex_digit c, hex_digit d) of
     (Some p, Some q, Some r, Some t) \<Rightarrow> Some (of_nat (4096 * p + 256 * q + 16 * r + t))
   | _ \<Rightarrow> None)"

definition unescape :: "code_unit \<Rightarrow> code_unit option" where
  "unescape u =
     (if u = 34 \<or> u = 92 \<or> u = 47 then Some u
      else if u = 98 then Some 8 else if u = 102 then Some 12 else if u = 110 then Some 10
      else if u = 114 then Some 13 else if u = 116 then Some 9 else None)"

text \<open>The body of a string literal, from behind its opening quote: the value and the rest.\<close>

fun parse_str :: "jstr \<Rightarrow> (jstr \<times> jstr) option" where
  "parse_str [] = None"
| "parse_str (u # s) =
     (if u = 34 then Some ([], s)
      else if u < 32 then None
      else if u \<noteq> 92 then map_option (apfst (Cons u)) (parse_str s)
      else (case s of
          [] \<Rightarrow> None
        | e # s' \<Rightarrow>
            if e = 117 then
              (case s' of
                 a # b # c # d # s'' \<Rightarrow>
                   (case hex4 a b c d of
                      None \<Rightarrow> None
                    | Some x \<Rightarrow> map_option (apfst (Cons x)) (parse_str s''))
               | _ \<Rightarrow> None)
            else (case unescape e of
                None \<Rightarrow> None
              | Some x \<Rightarrow> map_option (apfst (Cons x)) (parse_str s'))))"

definition num_unit :: "code_unit \<Rightarrow> bool" where
  "num_unit u \<longleftrightarrow> is_digit u \<or> u = 45 \<or> u = 43 \<or> u = 46 \<or> u = 101 \<or> u = 69"

definition valid_exp :: "jstr \<Rightarrow> bool" where
  "valid_exp s \<longleftrightarrow> (case s of
     [] \<Rightarrow> True
   | e # r \<Rightarrow> (e = 101 \<or> e = 69)
       \<and> (let ds = (case r of [] \<Rightarrow> [] | g # r' \<Rightarrow> if g = 43 \<or> g = 45 then r' else r)
          in ds \<noteq> [] \<and> list_all is_digit ds))"

definition valid_frac :: "jstr \<Rightarrow> bool" where
  "valid_frac s \<longleftrightarrow> (case s of
     [] \<Rightarrow> True
   | d # r \<Rightarrow> if d = 46
       then takeWhile is_digit r \<noteq> [] \<and> valid_exp (dropWhile is_digit r)
       else valid_exp s)"

definition valid_num :: "jstr \<Rightarrow> bool" where
  "valid_num l = (let m = (case l of [] \<Rightarrow> [] | u # r \<Rightarrow> if u = 45 then r else l) in
     case m of
       [] \<Rightarrow> False
     | u # r \<Rightarrow> if u = 48 then valid_frac r
         else is_digit u \<and> valid_frac (dropWhile is_digit r))"

text \<open>A repeated key keeps its first position and takes the last value.\<close>

fun put_field :: "jstr \<Rightarrow> jsval \<Rightarrow> (jstr \<times> jsval) list \<Rightarrow> (jstr \<times> jsval) list" where
  "put_field k v [] = [(k, v)]"
| "put_field k v ((k', v') # fs) = (if k = k' then (k, v) # fs else (k', v') # put_field k v fs)"

definition parse_word :: "jstr \<Rightarrow> jsval \<Rightarrow> jstr \<Rightarrow> (jsval \<times> jstr) option" where
  "parse_word w v s = (if prefix w s then Some (v, drop (length w) s) else None)"

text \<open>Each call consumes a unit of fuel and at least one unit of input is read per value.\<close>

fun parse_value :: "nat \<Rightarrow> jstr \<Rightarrow> (jsval \<times> jstr) option"
  and parse_items :: "nat \<Rightarrow> jsval list \<Rightarrow> jstr \<Rightarrow> (jsval \<times> jstr) option"
  and parse_members :: "nat \<Rightarrow> (jstr \<times> jsval) list \<Rightarrow> jstr \<Rightarrow> (jsval \<times> jstr) option" where
  "parse_value 0 s = None"
| "parse_value (Suc n) s = (case skip_ws s of
     [] \<Rightarrow> None
   | u # r \<Rightarrow>
       if u = 34 then map_option (apfst JStr) (parse_str r)
       else if u = 91 then
         (case skip_ws r of
            w # r' \<Rightarrow> if w = 93 then Some (JArr [], r') else parse_items n [] r
          | [] \<Rightarrow> None)
       else if u = 123 then
         (case skip_ws r of
            w # r' \<Rightarrow> if w = 125 then Some (JObj [], r') else parse_members n [] r
          | [] \<Rightarrow> None)
       else if u = 116 then parse_word (js ''true'') (JBool True) (u # r)
       else if u = 102 then parse_word (js ''false'') (JBool False) (u # r)
       else if u = 110 then parse_word (js ''null'') JNull (u # r)
       else let l = takeWhile num_unit (u # r) in
         if valid_num l then Some (JNum l, dropWhile num_unit (u # r)) else None)"
| "parse_items 0 acc s = None"
| "parse_items (Suc n) acc s = (case parse_value n s of
     None \<Rightarrow> None
   | Some (v, r) \<Rightarrow> (case skip_ws r of
       [] \<Rightarrow> None
     | w # r' \<Rightarrow> if w = 44 then parse_items n (acc @ [v]) r'
         else if w = 93 then Some (JArr (acc @ [v]), r') else None))"
| "parse_members 0 acc s = None"
| "parse_members (Suc n) acc s = (case skip_ws s of
     [] \<Rightarrow> None
   | q # s' \<Rightarrow> if q \<noteq> 34 then None else
       (case parse_str s' of
          None \<Rightarrow> None
        | Some (k, r) \<Rightarrow> (case skip_ws r of
            [] \<Rightarrow> None
          | c # r' \<Rightarrow> if c \<noteq> 58 then None else
              (case parse_value n r' of
                 None \<Rightarrow> None
               | Some (v, t) \<Rightarrow> (case skip_ws t of
                   [] \<Rightarrow> None
                 | w # t' \<Rightarrow> if w = 44 then parse_members n (put_field k v acc) t'
                     else if w = 125 then Some (JObj (put_field k v acc), t') else None)))))"

text \<open>\<open>JSON.parse\<close>: \<open>None\<close> is the \<open>SyntaxError\<close>. Twice the input length plus two is enough fuel:
  a value, an item or a member spends at most two units per unit of input it reads.\<close>

definition json_parse :: "jstr \<Rightarrow> jsval option" where
  "json_parse s = (case parse_value (2 * length s + 2) s of
     Some (v, r) \<Rightarrow> if skip_ws r = [] then Some v else None
   | None \<Rightarrow> None)"

lemma json_parse_examples:
  "json_parse (js ''{\"a\": [1, -2.5e3, \"x\"], \"b\": null}'')
     = Some (JObj [(js ''a'', JArr [JNum (js ''1''), JNum (js ''-2.5e3''), JStr (js ''x'')]),
                   (js ''b'', JNull)])"
  "json_parse (js ''{'') = None"
  "json_parse (js ''01'') = None"
  by code_simp+

end
