(* ===== verification/JsonRound.thy ===== *)
theory JsonRound
  imports Json
begin

text \<open>
  \<open>JSON.parse\<close> undoes \<open>JSON.stringify(v, null, 2)\<close> on JSON data: the text the console
  prints and downloads reads back as the same value. The proof also shows that the fuel of
  \<open>json_parse\<close> is enough for such a text.
\<close>

section \<open>JSON data\<close>

text \<open>A value \<open>JSON.parse\<close> can return: numbers are number texts, keys are distinct.\<close>

fun json_data :: "jsval \<Rightarrow> bool" where
  "json_data JUndef = False"
| "json_data JNull = True"
| "json_data (JBool b) = True"
| "json_data (JNum l) = (valid_num l \<and> list_all num_unit l)"
| "json_data (JStr s) = True"
| "json_data (JArr vs) = list_all json_data vs"
| "json_data (JObj fs) = (distinct (map fst fs) \<and> list_all (\<lambda>f. json_data (snd f)) fs)"
| "json_data (JExn n m) = False"

section \<open>Strings\<close>

lemma hex_digit_unit: "d < 16 \<Longrightarrow> hex_digit (hex_unit d) = Some d"
proof -
  assume "d < 16"
  moreover have "list_all (\<lambda>d. hex_digit (hex_unit d) = Some d) [0..<16]" by code_simp
  ultimately show ?thesis by (simp add: list_all_iff)
qed

lemma hex_digits_sum:
  assumes "n < (65536::nat)"
  shows "4096 * (n div 4096 mod 16) + 256 * (n div 256 mod 16) + 16 * (n div 16 mod 16) + n mod 16 = n"
proof -
  have "n div 4096 < 16" using assms by (simp add: less_mult_imp_div_less)
  then have a: "n div 4096 mod 16 = n div 4096" by simp
  have "n div 4096 = n div 256 div 16" "n div 256 = n div 16 div 16"
    by (simp_all add: div_mult2_eq [symmetric])
  with a show ?thesis
    using div_mult_mod_eq [of "n div 256" 16] div_mult_mod_eq [of "n div 16" 16] div_mult_mod_eq [of n 16]
    by linarith
qed

lemma hex4_unit: "hex4 (hex_unit (unat u div 4096 mod 16)) (hex_unit (unat u div 256 mod 16))
    (hex_unit (unat u div 16 mod 16)) (hex_unit (unat u mod 16)) = Some (u :: code_unit)"
proof -
  have "unat u < 65536" using unsigned_less [of u, where ?'a = nat] by simp
  then have "of_nat (4096 * (unat u div 4096 mod 16) + 256 * (unat u div 256 mod 16)
      + 16 * (unat u div 16 mod 16) + unat u mod 16) = u"
    by (simp only: hex_digits_sum of_nat_unat ucast_id)
  then show ?thesis by (simp add: hex4_def hex_digit_unit del: of_nat_add of_nat_mult)
qed

lemma parse_u_escape: "parse_str (u_escape u @ t) = map_option (apfst (Cons u)) (parse_str t)"
  by (simp add: u_escape_def Let_def hex4_unit)

lemma parse_escape_unit: "parse_str (escape_unit u @ t) = map_option (apfst (Cons u)) (parse_str t)"
  by (simp add: escape_unit_def unescape_def parse_u_escape)

lemma surrogate_plain: "high_surrogate u \<or> low_surrogate u \<Longrightarrow> u \<noteq> 34 \<and> u \<noteq> 92 \<and> \<not> u < 32"
  unfolding high_surrogate_def low_surrogate_def
  by (auto simp: word_le_nat_alt word_less_nat_alt)

lemma parse_escape_units: "parse_str (escape_units s @ 34 # t) = Some (s, t)"
proof (induction s rule: escape_units.induct)
  case 1
  then show ?case by simp
next
  case (2 u)
  then show ?case
    using parse_u_escape [of u "34 # t"] parse_escape_unit [of u "34 # t"] by simp
next
  case (3 u v s)
  show ?case
  proof (cases "high_surrogate u \<and> low_surrogate v")
    case True
    then have "u \<noteq> 34" "u \<noteq> 92" "\<not> u < 32" "v \<noteq> 34" "v \<noteq> 92" "\<not> v < 32"
      using surrogate_plain by blast+
    with True 3(1) show ?thesis by simp
  next
    case False
    then have ih: "parse_str (escape_units (v # s) @ 34 # t) = Some (v # s, t)" using 3 by blast
    have "escape_units (u # v # s) =
        (if high_surrogate u \<or> low_surrogate u then u_escape u else escape_unit u) @ escape_units (v # s)"
      using False by (auto simp only: escape_units.simps if_False split: if_splits)
    then show ?thesis by (simp only: append_assoc parse_u_escape parse_escape_unit ih split: if_split) simp
  qed
qed

section \<open>Values\<close>

lemma parse_value_ws: "list_all json_ws w \<Longrightarrow> parse_value m (w @ s) = parse_value m s"
proof -
  assume "list_all json_ws w"
  then have "skip_ws (w @ s) = skip_ws s" by (induction w) auto
  then show ?thesis by (cases m) simp_all
qed

lemma parse_members_ws: "list_all json_ws w \<Longrightarrow> parse_members m acc (w @ s) = parse_members m acc s"
proof -
  assume "list_all json_ws w"
  then have "skip_ws (w @ s) = skip_ws s" by (induction w) auto
  then show ?thesis by (cases m) simp_all
qed

lemma skip_indent: "list_all json_ws w \<Longrightarrow> \<not> json_ws u \<Longrightarrow> skip_ws (w @ u # s) = u # s"
  by (induction w) auto

definition ends_number :: "jstr \<Rightarrow> bool" where
  "ends_number r \<longleftrightarrow> (case r of [] \<Rightarrow> True | u # s \<Rightarrow> \<not> num_unit u)"

lemma num_unit_head: "num_unit u \<Longrightarrow> \<not> json_ws u \<and> u \<noteq> 34 \<and> u \<noteq> 91 \<and> u \<noteq> 93 \<and> u \<noteq> 123 \<and> u \<noteq> 125
    \<and> u \<noteq> 116 \<and> u \<noteq> 102 \<and> u \<noteq> 110"
  unfolding num_unit_def is_digit_def json_ws_def by (auto simp: word_le_nat_alt)

lemma valid_num_nonempty: "valid_num l \<Longrightarrow> l \<noteq> []"
  by (auto simp: valid_num_def Let_def)

lemma take_number: "list_all num_unit l \<Longrightarrow> ends_number r \<Longrightarrow>
    takeWhile num_unit (l @ r) = l \<and> dropWhile num_unit (l @ r) = r"
  by (induction l) (auto simp: ends_number_def split: list.splits)

lemma parse_number:
  assumes "valid_num l" "list_all num_unit l" "ends_number r"
  shows "parse_value (Suc m) (l @ r) = Some (JNum l, r)"
proof -
  obtain u l' where l: "l = u # l'" using valid_num_nonempty [OF assms(1)] by (cases l) auto
  with assms(2) have u: "num_unit u" by simp
  have t: "takeWhile num_unit (u # l' @ r) = l" "dropWhile num_unit (u # l' @ r) = r"
    using take_number [OF assms(2,3)] l by simp_all
  have s: "skip_ws (l @ r) = u # l' @ r" using l num_unit_head [OF u] by simp
  show ?thesis
    using num_unit_head [OF u] assms(1) by (simp add: s t Let_def del: takeWhile.simps dropWhile.simps)
qed

lemma stringify_by_head:
  assumes "json_data v"
  shows "\<exists>u s. stringify_by g n v = u # s \<and> \<not> json_ws u \<and> u \<noteq> 93 \<and> u \<noteq> 125"
proof (cases v)
  case (JNum l)
  with assms have "l \<noteq> []" "list_all num_unit l" using valid_num_nonempty by auto
  then show ?thesis using JNum num_unit_head by (cases l) auto
qed (use assms in \<open>auto simp: js_def json_ws_def quote_str_def Let_def\<close>)

lemma put_field_new: "k \<notin> set (map fst acc) \<Longrightarrow> put_field k v acc = acc @ [(k, v)]"
  by (induction k v acc rule: put_field.induct) auto

lemma indent_ws: "list_all json_ws (10 # replicate n 32)"
  by (simp add: json_ws_def list_all_iff)

lemma indent_ws2: "list_all json_ws (replicate n 32)"
  by (simp add: json_ws_def list_all_iff)

lemma not_ws_units [simp]: "\<not> json_ws 44" "\<not> json_ws 93" "\<not> json_ws 125" "\<not> json_ws 34"
  "\<not> json_ws 58" "\<not> json_ws 91" "\<not> json_ws 123"
  by (simp_all add: json_ws_def)

lemma skip_indent_units: "list_all json_ws w \<Longrightarrow> skip_ws (w @ 93 # r) = 93 # r"
  "list_all json_ws w \<Longrightarrow> skip_ws (w @ 125 # r) = 125 # r"
  by (simp_all add: skip_indent)

lemma ends_after: "list_all json_ws w \<Longrightarrow> \<not> num_unit u \<Longrightarrow> ends_number (w @ u # r)"
  by (cases w) (auto simp: ends_number_def dest: num_unit_head)

lemma not_num_units [simp]: "\<not> num_unit 44" "\<not> num_unit 93" "\<not> num_unit 125"
  by (simp_all add: num_unit_def is_digit_def)

text \<open>The steps of the two list parsers on a printed element.\<close>

lemma parse_items_last:
  "parse_value m (p @ w @ 93 # r) = Some (v, w @ 93 # r) \<Longrightarrow> list_all json_ws w \<Longrightarrow>
   parse_items (Suc m) acc (p @ w @ 93 # r) = Some (JArr (acc @ [v]), r)"
  by (simp add: skip_indent_units)

lemma parse_items_more:
  "parse_value m (p @ 44 # t) = Some (v, 44 # t) \<Longrightarrow>
   parse_items (Suc m) acc (p @ 44 # t) = parse_items m (acc @ [v]) t"
  by simp

definition member_text :: "nat \<Rightarrow> jstr \<Rightarrow> jstr \<Rightarrow> jstr" where
  "member_text n k t = [10] @ replicate n 32 @ quote_str k @ [58, 32] @ t"

lemma parse_member:
  assumes "parse_value m (t @ z) = Some (v, z)"
  shows "parse_members (Suc m) acc (member_text n k t @ z) = (case skip_ws z of
       [] \<Rightarrow> None
     | w # t' \<Rightarrow> if w = 44 then parse_members m (put_field k v acc) t'
         else if w = 125 then Some (JObj (put_field k v acc), t') else None)"
proof -
  let ?w = "10 # replicate n 32" and ?s = "34 # escape_units k @ 34 # 58 # 32 # t @ z"
  have e: "member_text n k t @ z = ?w @ ?s" by (simp add: member_text_def quote_str_def)
  have sp: "parse_value m (32 # t @ z) = Some (v, z)"
    using parse_value_ws [of "[32]" m "t @ z"] assms by (simp add: json_ws_def)
  have str: "parse_str (escape_units k @ 34 # 58 # 32 # t @ z) = Some (k, 58 # 32 # t @ z)"
    by (rule parse_escape_units)
  show ?thesis
    unfolding e parse_members_ws [OF indent_ws] by (simp add: str sp)
qed

lemma parse_leaf:
  assumes "json_data v" "\<And>vs. v \<noteq> JArr vs" "\<And>fs. v \<noteq> JObj fs" "ends_number r"
  shows "parse_value (Suc m) (stringify v @ r) = Some (v, r)"
proof (cases v)
  case (JStr s)
  then show ?thesis by (simp add: quote_str_def parse_escape_units)
next
  case (JNum l)
  then show ?thesis using assms parse_number by simp
qed (use assms in \<open>auto simp: js_def parse_word_def json_ws_def\<close>)

lemma leaf_length: "json_data v \<Longrightarrow> 1 \<le> length (stringify_by g n v)"
  using stringify_by_head [of v g n] by auto

text \<open>A printed element after its line break and indent.\<close>

lemma parse_indented:
  assumes "parse_value m (t @ z) = Some (v, z)"
  shows "parse_value m (([10] @ replicate n 32 @ t) @ z) = Some (v, z)"
  using parse_value_ws [OF indent_ws, of m n "t @ z"] assms by simp

lemma Suc_fuel: "1 \<le> m \<Longrightarrow> \<exists>k. m = Suc k"
  by (cases m) auto

lemma stringify_by_list_shape: "stringify_by_list g n (v # vs) = ([10] @ replicate n 32 @ stringify_by g n v) # stringify_by_list g n vs"
  by simp

lemma stringify_by_fields_shape: "v \<noteq> JUndef \<Longrightarrow>
    stringify_by_fields g n ((k, v) # fs) = member_text n k (stringify_by g n v) # stringify_by_fields g n fs"
  by (simp add: member_text_def)

lemma stringify_by_list_eq_Nil: "stringify_by_list g n vs = [] \<longleftrightarrow> vs = []"
  by (cases vs) auto

lemma join_Cons: "ps \<noteq> [] \<Longrightarrow> join_with [c] (p # ps) = p @ c # join_with [c] ps"
  by (cases ps) auto

section \<open>The round trip\<close>

text \<open>What the round trip needs of the fuel for values, elements and members.\<close>

definition value_reads :: "nat \<Rightarrow> nat \<Rightarrow> jsval \<Rightarrow> bool" where
  "value_reads g n v \<longleftrightarrow> (\<forall>r m. ends_number r \<longrightarrow> 2 * length (stringify_by g n v) \<le> m \<longrightarrow>
     parse_value m (stringify_by g n v @ r) = Some (v, r))"

definition items_read :: "nat \<Rightarrow> nat \<Rightarrow> jsval list \<Rightarrow> bool" where
  "items_read g n vs \<longleftrightarrow> (\<forall>w r m acc. list_all json_ws w \<longrightarrow>
     2 * length (join_with [44] (stringify_by_list g n vs)) \<le> m \<longrightarrow>
     parse_items m acc (join_with [44] (stringify_by_list g n vs) @ w @ 93 # r) = Some (JArr (acc @ vs), r))"

definition members_read :: "nat \<Rightarrow> nat \<Rightarrow> (jstr \<times> jsval) list \<Rightarrow> bool" where
  "members_read g n fs \<longleftrightarrow> (\<forall>w r m acc. list_all json_ws w \<longrightarrow> distinct (map fst (acc @ fs)) \<longrightarrow>
     2 * length (join_with [44] (stringify_by_fields g n fs)) \<le> m \<longrightarrow>
     parse_members m acc (join_with [44] (stringify_by_fields g n fs) @ w @ 125 # r) = Some (JObj (acc @ fs), r))"

lemma value_readsD: "value_reads g n v \<Longrightarrow> ends_number r \<Longrightarrow> 2 * length (stringify_by g n v) \<le> m \<Longrightarrow>
    parse_value m (stringify_by g n v @ r) = Some (v, r)"
  by (simp add: value_reads_def)

lemma items_readD: "items_read g n vs \<Longrightarrow> list_all json_ws w \<Longrightarrow>
    2 * length (join_with [44] (stringify_by_list g n vs)) \<le> m \<Longrightarrow>
    parse_items m acc (join_with [44] (stringify_by_list g n vs) @ w @ 93 # r) = Some (JArr (acc @ vs), r)"
  by (simp add: items_read_def)

lemma members_readD: "members_read g n fs \<Longrightarrow> list_all json_ws w \<Longrightarrow> distinct (map fst (acc @ fs)) \<Longrightarrow>
    2 * length (join_with [44] (stringify_by_fields g n fs)) \<le> m \<Longrightarrow>
    parse_members m acc (join_with [44] (stringify_by_fields g n fs) @ w @ 125 # r) = Some (JObj (acc @ fs), r)"
  by (simp add: members_read_def)

lemma items_read_Cons:
  assumes v: "value_reads g n v" "json_data v" and vs: "vs \<noteq> [] \<Longrightarrow> items_read g n vs"
  shows "items_read g n (v # vs)"
  unfolding items_read_def
proof (intro allI impI)
  fix w r :: jstr and m :: nat and acc :: "jsval list"
  let ?p = "[10] @ replicate n 32 @ stringify_by g n v"
  assume w: "list_all json_ws w"
    and m: "2 * length (join_with [44] (stringify_by_list g n (v # vs))) \<le> m"
  show "parse_items m acc (join_with [44] (stringify_by_list g n (v # vs)) @ w @ 93 # r)
      = Some (JArr (acc @ v # vs), r)"
  proof (cases "vs = []")
    case True
    with m have l: "2 * length ?p \<le> m" by simp
    then obtain k where k: "m = Suc k" using Suc_fuel [of m] by auto
    have "parse_value k (?p @ w @ 93 # r) = Some (v, w @ 93 # r)"
      using l k w by (intro parse_indented value_readsD [OF v(1)] ends_after) auto
    then have "parse_items (Suc k) acc (?p @ w @ 93 # r) = Some (JArr (acc @ [v]), r)"
      using w by (rule parse_items_last)
    then show ?thesis using True k by (simp del: parse_items.simps)
  next
    case False
    let ?q = "join_with [44] (stringify_by_list g n vs)"
    have j: "join_with [44] (stringify_by_list g n (v # vs)) = ?p @ 44 # ?q"
      unfolding stringify_by_list_shape using False by (intro join_Cons) (simp add: stringify_by_list_eq_Nil)
    with m have l: "2 * length ?p + 2 + 2 * length ?q \<le> m" by simp
    then obtain k where k: "m = Suc k" using Suc_fuel [of m] by auto
    have "parse_value k (?p @ 44 # ?q @ w @ 93 # r) = Some (v, 44 # ?q @ w @ 93 # r)"
      using l k ends_after [of "[]" 44]
      by (intro parse_indented value_readsD [OF v(1)]) auto
    then have "parse_items (Suc k) acc (?p @ 44 # ?q @ w @ 93 # r) = parse_items k (acc @ [v]) (?q @ w @ 93 # r)"
      by (rule parse_items_more)
    also have "\<dots> = Some (JArr ((acc @ [v]) @ vs), r)"
      using vs [OF False] w l k by (simp add: items_read_def)
    finally show ?thesis using j k by (simp del: parse_items.simps)
  qed
qed

lemma members_read_Cons:
  assumes v: "value_reads g n v" "json_data v" and fs: "fs \<noteq> [] \<Longrightarrow> members_read g n fs"
    and ne: "fs \<noteq> [] \<Longrightarrow> stringify_by_fields g n fs \<noteq> []"
  shows "members_read g n ((k, v) # fs)"
  unfolding members_read_def
proof (intro allI impI)
  fix w r :: jstr and m :: nat and acc :: "(jstr \<times> jsval) list"
  let ?p = "member_text n k (stringify_by g n v)"
  have sh: "stringify_by_fields g n ((k, v) # fs) = ?p # stringify_by_fields g n fs"
    using v(2) by (intro stringify_by_fields_shape) auto
  assume w: "list_all json_ws w" and d: "distinct (map fst (acc @ (k, v) # fs))"
    and m: "2 * length (join_with [44] (stringify_by_fields g n ((k, v) # fs))) \<le> m"
  have put: "put_field k v acc = acc @ [(k, v)]" using d by (intro put_field_new) auto
  have pl: "length (stringify_by g n v) + 1 \<le> length ?p" by (simp add: member_text_def)
  show "parse_members m acc (join_with [44] (stringify_by_fields g n ((k, v) # fs)) @ w @ 125 # r)
      = Some (JObj (acc @ (k, v) # fs), r)"
  proof (cases "fs = []")
    case True
    with m sh have l: "2 * length ?p \<le> m" by simp
    with pl obtain j where j: "m = Suc j" using Suc_fuel [of m] by auto
    have "parse_value j (stringify_by g n v @ w @ 125 # r) = Some (v, w @ 125 # r)"
      using l pl j w by (intro value_readsD [OF v(1)] ends_after) auto
    from parse_member [OF this, of acc n k] show ?thesis
      using True sh j w put by (simp add: skip_indent_units del: parse_members.simps)
  next
    case False
    let ?q = "join_with [44] (stringify_by_fields g n fs)"
    have e: "join_with [44] (stringify_by_fields g n ((k, v) # fs)) = ?p @ 44 # ?q"
      unfolding sh using ne [OF False] by (rule join_Cons)
    with m have l: "2 * length ?p + 2 + 2 * length ?q \<le> m" by simp
    with pl obtain j where j: "m = Suc j" using Suc_fuel [of m] by auto
    have "parse_value j (stringify_by g n v @ 44 # ?q @ w @ 125 # r) = Some (v, 44 # ?q @ w @ 125 # r)"
      using l pl j ends_after [of "[]" 44] by (intro value_readsD [OF v(1)]) auto
    from parse_member [OF this, of acc n k]
    have "parse_members (Suc j) acc (?p @ 44 # ?q @ w @ 125 # r) =
        parse_members j (acc @ [(k, v)]) (?q @ w @ 125 # r)"
      using put by simp
    also have "\<dots> = Some (JObj ((acc @ [(k, v)]) @ fs), r)"
      using fs [OF False] w l j d by (simp add: members_read_def)
    finally show ?thesis using e j by (simp del: parse_members.simps)
  qed
qed

lemma value_reads_leaf:
  assumes "json_data v" "\<And>vs. v \<noteq> JArr vs" "\<And>fs. v \<noteq> JObj fs"
  shows "value_reads g n v"
  unfolding value_reads_def
proof (intro allI impI)
  fix r m
  have s: "stringify_by g n v = stringify v" using assms by (cases v) auto
  assume r: "ends_number r" and m: "2 * length (stringify_by g n v) \<le> m"
  have "1 \<le> length (stringify_by g n v)" using assms(1) by (rule leaf_length)
  with m obtain k where "m = Suc k" using Suc_fuel [of m] by auto
  with parse_leaf [OF assms r] s show "parse_value m (stringify_by g n v @ r) = Some (v, r)" by simp
qed

lemma value_reads_array:
  assumes "vs \<noteq> [] \<Longrightarrow> items_read g (n + g) vs" "list_all json_data vs"
  shows "value_reads g n (JArr vs)"
  unfolding value_reads_def
proof (intro allI impI)
  fix r m
  assume m: "2 * length (stringify_by g n (JArr vs)) \<le> m"
  show "parse_value m (stringify_by g n (JArr vs) @ r) = Some (JArr vs, r)"
  proof (cases "vs")
    case Nil
    with m obtain k where "m = Suc k" using Suc_fuel [of m] by (auto simp: js_def)
    with Nil show ?thesis by (simp add: js_def)
  next
    case (Cons v vs')
    let ?j = "join_with [44] (stringify_by_list g (n + g) vs)" and ?w = "10 # replicate n 32"
    have e: "stringify_by g n (JArr vs) = 91 # ?j @ ?w @ [93]"
      using Cons by (simp add: Let_def)
    with m obtain k where k: "m = Suc k" "2 * length ?j \<le> k" using Suc_fuel [of m] by auto
    have it: "parse_items k [] (?j @ ?w @ 93 # r) = Some (JArr vs, r)"
      using items_readD [OF assms(1) indent_ws k(2), where acc = "[]" and r = r] Cons by (simp only: append_Nil list.distinct not_False_eq_True)
    obtain u s where us: "stringify_by g (n + g) v = u # s" "\<not> json_ws u" "u \<noteq> 93"
      using stringify_by_head [of v g "n + g"] assms(2) Cons by auto
    have "\<exists>z. ?j = (10 # replicate (n + g) 32) @ u # z"
      using Cons us by (cases vs') auto
    then obtain z where z: "?j = (10 # replicate (n + g) 32) @ u # z" by blast
    have "skip_ws (?j @ ?w @ 93 # r) = u # z @ ?w @ 93 # r"
      using skip_indent [OF indent_ws us(2), of "n + g" "z @ ?w @ 93 # r"]
      by (simp only: z append_assoc append_Cons)
    with it us(3) show ?thesis unfolding e k(1) by simp
  qed
qed

lemma value_reads_object:
  assumes "fs \<noteq> [] \<Longrightarrow> members_read g (n + g) fs" "json_data (JObj fs)"
  shows "value_reads g n (JObj fs)"
  unfolding value_reads_def
proof (intro allI impI)
  fix r m
  assume m: "2 * length (stringify_by g n (JObj fs)) \<le> m"
  show "parse_value m (stringify_by g n (JObj fs) @ r) = Some (JObj fs, r)"
  proof (cases "fs")
    case Nil
    with m obtain k where "m = Suc k" using Suc_fuel [of m] by (auto simp: js_def)
    with Nil show ?thesis by (simp add: js_def)
  next
    case (Cons f fs')
    obtain k v where f: "f = (k, v)" by (cases f)
    have sh: "stringify_by_fields g (n + g) fs =
        member_text (n + g) k (stringify_by g (n + g) v) # stringify_by_fields g (n + g) fs'"
      unfolding Cons f using assms(2) Cons f by (intro stringify_by_fields_shape) auto
    let ?j = "join_with [44] (stringify_by_fields g (n + g) fs)" and ?w = "10 # replicate n 32"
    have "stringify_by_fields g (n + g) fs \<noteq> []" unfolding sh by simp
    then have e: "stringify_by g n (JObj fs) = 123 # ?j @ ?w @ [125]"
      by (simp only: stringify_by.simps Let_def if_False append_Cons append_Nil)
    with m obtain l where l: "m = Suc l" "2 * length ?j \<le> l" using Suc_fuel [of m] by auto
    have it: "parse_members l [] (?j @ ?w @ 125 # r) = Some (JObj fs, r)"
      using members_readD [OF assms(1) indent_ws _ l(2), where acc = "[]" and r = r] assms(2) Cons
      by (simp only: append_Nil list.distinct not_False_eq_True json_data.simps)
    have "\<exists>z. ?j = (10 # replicate (n + g) 32) @ 34 # z"
      unfolding sh by (cases "stringify_by_fields g (n + g) fs'") (auto simp: member_text_def quote_str_def)
    then obtain z where z: "?j = (10 # replicate (n + g) 32) @ 34 # z" by blast
    have "skip_ws (?j @ ?w @ 125 # r) = 34 # z @ ?w @ 125 # r"
      using skip_indent [OF indent_ws not_ws_units(4), of "n + g" "z @ ?w @ 125 # r"]
      by (simp only: z append_assoc append_Cons)
    with it show ?thesis unfolding e l(1) by simp
  qed
qed

lemma stringify_by_reads:
  "json_data v \<Longrightarrow> value_reads g n v"
  "list_all json_data vs \<Longrightarrow> vs \<noteq> [] \<Longrightarrow> items_read g n vs"
  "list_all (\<lambda>f. json_data (snd f)) fs \<Longrightarrow> fs \<noteq> [] \<Longrightarrow> members_read g n fs \<and> stringify_by_fields g n fs \<noteq> []"
proof (induction g n v and g n vs and g n fs rule: stringify_by_stringify_by_list_stringify_by_fields.induct)
  case (1 g n vs)
  then show ?case by (intro value_reads_array) auto
next
  case (2 g n fs)
  then show ?case by (intro value_reads_object) auto
next
  case (5 g n v vs)
  then show ?case by (intro items_read_Cons) auto
next
  case (7 g n k v fs)
  then have "v \<noteq> JUndef" by auto
  with 7 show ?case by (auto intro!: members_read_Cons)
qed (auto intro!: value_reads_leaf)

lemma parse_stringify_by: "json_data v \<Longrightarrow> json_parse (stringify_by g 0 v) = Some v"
proof -
  assume "json_data v"
  then have "parse_value (2 * length (stringify_by g 0 v) + 2) (stringify_by g 0 v @ []) = Some (v, [])"
    by (intro value_readsD stringify_by_reads(1)) (auto simp: ends_number_def)
  then show ?thesis by (simp add: json_parse_def)
qed

end
