(* ===== verification/Api.thy ===== *)
theory Api
  imports Json
begin

text \<open>
  The API boundary of the console: the response types of \<open>src/api/schema.d.ts\<close> as records
  (every field optional, as the schema has it; a string-literal union is the string it is at
  run time), the requests the console sends, the outcome of a call to the generated client,
  and \<open>src/api/client.ts\<close>: the bearer token the client holds, the headers a request carries
  and the text an error is shown with.
\<close>

section \<open>Schema types\<close>

record v1Scope =
  sc_resource_globs :: "jstr list option"
  sc_max_value_cents :: "jstr option"
  sc_max_depth :: "int option"

record v1Grant =
  gr_grant_id :: "jstr option"
  gr_project_id :: "jstr option"
  gr_parent_grant_id :: "jstr option"
  gr_principal_id :: "jstr option"
  gr_subject_id :: "jstr option"
  gr_capabilities :: "jstr list option"
  gr_scope :: "v1Scope option"
  gr_expires_at :: "jstr option"
  gr_parent_signature :: "jstr option"

record v1ActionEvent =
  ev_event_id :: "jstr option"
  ev_project_id :: "jstr option"
  ev_session_id :: "jstr option"
  ev_sequence :: "jstr option"
  ev_surface :: "jstr option"
  ev_action_type :: "jstr option"
  ev_action_payload :: "jstr option"
  ev_grant_id :: "jstr option"
  ev_pre_state_hash :: "jstr option"
  ev_post_state_hash :: "jstr option"
  ev_recording_ref :: "jstr option"
  ev_occurred_at :: "jstr option"
  ev_content_hash :: "jstr option"
  ev_prev_hash :: "jstr option"
  ev_notary_signature :: "jstr option"

record v1Anchor =
  an_kind :: "jstr option"
  an_root :: "jstr option"
  an_anchor_receipt :: "jstr option"
  an_anchored_at :: "jstr option"

record v1ApiKey =
  ak_id :: "jstr option"
  ak_project_id :: "jstr option"
  ak_name :: "jstr option"
  ak_prefix :: "jstr option"
  ak_last4 :: "jstr option"
  ak_revoked :: "bool option"
  ak_created_at :: "jstr option"

record v1Branding =
  br_company_name :: "jstr option"
  br_logo_url :: "jstr option"
  br_brand_color :: "jstr option"

record v1SurfaceCount =
  su_surface :: "jstr option"
  su_count :: "jstr option"

record v1DayCount =
  dc_date :: "jstr option"
  dc_count :: "jstr option"

record v1TopLink =
  tl_url :: "jstr option"
  tl_count :: "jstr option"

record v1GetOverviewResponse =
  ov_total_events :: "jstr option"
  ov_total_sessions :: "jstr option"
  ov_total_grants :: "jstr option"
  ov_revoked_grants :: "jstr option"
  ov_by_surface :: "v1SurfaceCount list option"
  ov_over_time :: "v1DayCount list option"
  ov_top_links :: "v1TopLink list option"

record v1GetPublicKeyResponse =
  pk_key_id :: "jstr option"
  pk_public_key :: "jstr option"

record v1GetReplayResponse =
  rp_event :: "v1ActionEvent option"
  rp_frame :: "jstr option"

record v1Project =
  pj_id :: "jstr option"
  pj_name :: "jstr option"
  pj_active_keys :: "jstr option"
  pj_created_at :: "jstr option"

record v1Proof =
  pf_event :: "v1ActionEvent option"
  pf_merkle_path :: "jstr list option"
  pf_merkle_root :: "jstr option"
  pf_anchor :: "v1Anchor option"
  pf_delegation_chain :: "v1Grant list option"

record v1Session =
  se_session_id :: "jstr option"
  se_project_id :: "jstr option"
  se_root_grant_id :: "jstr option"
  se_surface :: "jstr option"
  se_started_at :: "jstr option"
  se_ended_at :: "jstr option"
  se_event_count :: "jstr option"

record v1User =
  us_id :: "jstr option"
  us_email :: "jstr option"
  us_account_type :: "jstr option"
  us_org_name :: "jstr option"
  us_org_domain :: "jstr option"
  us_industry :: "jstr option"
  us_created_at :: "jstr option"

text \<open>\<open>v1LoginResponse\<close> and \<open>v1SignupResponse\<close> have the same two fields.\<close>

record v1LoginResponse =
  lr_token :: "jstr option"
  lr_user :: "v1User option"

record v1MeResponse =
  me_user :: "v1User option"
  me_branding :: "v1Branding option"

record v1CreateApiKeyResponse =
  ck_key :: "v1ApiKey option"
  ck_secret :: "jstr option"

record v1VerifyChainResponse =
  vc_valid :: "bool option"
  vc_chain :: "v1Grant list option"
  vc_reason :: "jstr option"

record v1VerifyProofResponse =
  vp_valid :: "bool option"
  vp_chain_intact :: "bool option"
  vp_signature_valid :: "bool option"
  vp_anchored :: "bool option"
  vp_authority_valid :: "bool option"
  vp_reason :: "jstr option"

text \<open>The five list responses: the items under their own name, and the next page's token.\<close>

record 'a v1ListResponse =
  ls_items :: "'a list option"
  ls_next_page_token :: "jstr option"

section \<open>Requests and replies\<close>

record signup_body =
  sg_email :: jstr
  sg_password :: jstr
  sg_account_type :: jstr
  sg_org_name :: "jstr option"
  sg_org_domain :: "jstr option"
  sg_industry :: "jstr option"

datatype api_request =
    GetOverview nat
  | PostLogin jstr jstr
  | PostLogout
  | GetMe
  | PatchMe jstr jstr jstr
  | PostSignup signup_body
  | ListEvents nat jstr jstr
  | GetProof jstr
  | ListGrants nat jstr jstr
  | RevokeGrant jstr
  | VerifyGrant jstr
  | RevokeKey jstr
  | GetPublicKey
  | ListProjects nat jstr
  | CreateProject jstr
  | ListKeys jstr nat
  | CreateKey jstr jstr
  | VerifyProof jsval
  | ListSessions nat jstr jstr
  | GetAnchor jstr
  | GetReplay jstr

text \<open>
  A call of the generated client resolves with a \<open>data\<close> and an \<open>error\<close> field (both may be
  undefined, for a response without a body) or rejects with an exception.
\<close>

datatype 'd reply = Resolved "'d option" jsval | Rejected jsval

section \<open>\<open>client.ts\<close>\<close>

record client =
  cl_api_key :: "jstr option"
  cl_auth_token :: "jstr option"
  cl_logouts :: nat

definition setAuthToken :: "jstr option \<Rightarrow> client \<Rightarrow> client" where
  "setAuthToken token c = c\<lparr>cl_auth_token := token\<rparr>"

definition getAuthToken :: "client \<Rightarrow> jstr option" where
  "getAuthToken c = cl_auth_token c"

text \<open>The logout request is fired and its outcome ignored.\<close>

definition clearSessionCookie :: "client \<Rightarrow> client" where
  "clearSessionCookie c = c\<lparr>cl_logouts := cl_logouts c + 1\<rparr>"

type_synonym headers = "(string \<times> jstr) list"

definition set_header :: "string \<Rightarrow> jstr \<Rightarrow> headers \<Rightarrow> headers" where
  "set_header k v hs = (k, v) # filter (\<lambda>(k', _). k' \<noteq> k) hs"

definition client_headers :: "client \<Rightarrow> headers" where
  "client_headers c = (if truthy (cl_api_key c) then [(''x-api-key'', the (cl_api_key c))] else [])"

definition onRequest :: "client \<Rightarrow> headers \<Rightarrow> headers" where
  "onRequest c hs = (let token = getAuthToken c in
     if truthy token then set_header ''Authorization'' (js ''Bearer '' @ the token) hs else hs)"

definition request_headers :: "client \<Rightarrow> headers" where
  "request_headers c = onRequest c (client_headers c)"

definition errText :: "jsval \<Rightarrow> jstr" where
  "errText error =
     (if \<not> js_truthy error then js ''request failed''
      else case error of
        JStr s \<Rightarrow> s
      | _ \<Rightarrow> or_str (str_field error (js ''message''))
               (or_str (str_field error (js ''error'')) (stringify error)))"

lemma stringify_truthy_nonempty: "js_truthy v \<Longrightarrow> stringify v = [] \<longleftrightarrow> v = JNum []"
  by (cases v) (auto simp: quote_str_def)

lemma errText_nonempty [simp]: "errText e \<noteq> []"
proof (cases "js_truthy e")
  case False
  then show ?thesis by (simp add: errText_def)
next
  case True
  then have "stringify e \<noteq> []"
    by (auto simp: stringify_truthy_nonempty num_falsy_def)
  with True show ?thesis
    by (cases e) (auto simp: errText_def intro!: or_str_nonempty)
qed

lemma errText_falsy [simp]: "\<not> js_truthy e \<Longrightarrow> errText e = js ''request failed''"
  by (simp add: errText_def)

lemma or_str_errText [simp]: "or_str (Some (errText e)) d = errText e"
  by (simp add: or_str_Some)

section \<open>Records as JSON\<close>

text \<open>
  A proof is sent back to the API and printed as it came: the JSON object with the fields that
  are present, in the order of the schema.
\<close>

definition opt_json :: "string \<Rightarrow> ('a \<Rightarrow> jsval) \<Rightarrow> 'a option \<Rightarrow> (jstr \<times> jsval) list" where
  "opt_json k f v = (case v of None \<Rightarrow> [] | Some x \<Rightarrow> [(js k, f x)])"

definition json_of_scope :: "v1Scope \<Rightarrow> jsval" where
  "json_of_scope s = JObj (
     opt_json ''resource_globs'' (JArr \<circ> map JStr) (sc_resource_globs s)
     @ opt_json ''max_value_cents'' JStr (sc_max_value_cents s)
     @ opt_json ''max_depth'' (JNum \<circ> int_text) (sc_max_depth s))"

definition json_of_grant :: "v1Grant \<Rightarrow> jsval" where
  "json_of_grant g = JObj (
     opt_json ''grant_id'' JStr (gr_grant_id g)
     @ opt_json ''project_id'' JStr (gr_project_id g)
     @ opt_json ''parent_grant_id'' JStr (gr_parent_grant_id g)
     @ opt_json ''principal_id'' JStr (gr_principal_id g)
     @ opt_json ''subject_id'' JStr (gr_subject_id g)
     @ opt_json ''capabilities'' (JArr \<circ> map JStr) (gr_capabilities g)
     @ opt_json ''scope'' json_of_scope (gr_scope g)
     @ opt_json ''expires_at'' JStr (gr_expires_at g)
     @ opt_json ''parent_signature'' JStr (gr_parent_signature g))"

definition json_of_event :: "v1ActionEvent \<Rightarrow> jsval" where
  "json_of_event e = JObj (
     opt_json ''event_id'' JStr (ev_event_id e)
     @ opt_json ''project_id'' JStr (ev_project_id e)
     @ opt_json ''session_id'' JStr (ev_session_id e)
     @ opt_json ''sequence'' JStr (ev_sequence e)
     @ opt_json ''surface'' JStr (ev_surface e)
     @ opt_json ''action_type'' JStr (ev_action_type e)
     @ opt_json ''action_payload'' JStr (ev_action_payload e)
     @ opt_json ''grant_id'' JStr (ev_grant_id e)
     @ opt_json ''pre_state_hash'' JStr (ev_pre_state_hash e)
     @ opt_json ''post_state_hash'' JStr (ev_post_state_hash e)
     @ opt_json ''recording_ref'' JStr (ev_recording_ref e)
     @ opt_json ''occurred_at'' JStr (ev_occurred_at e)
     @ opt_json ''content_hash'' JStr (ev_content_hash e)
     @ opt_json ''prev_hash'' JStr (ev_prev_hash e)
     @ opt_json ''notary_signature'' JStr (ev_notary_signature e))"

definition json_of_anchor :: "v1Anchor \<Rightarrow> jsval" where
  "json_of_anchor a = JObj (
     opt_json ''kind'' JStr (an_kind a)
     @ opt_json ''root'' JStr (an_root a)
     @ opt_json ''anchor_receipt'' JStr (an_anchor_receipt a)
     @ opt_json ''anchored_at'' JStr (an_anchored_at a))"

definition json_of_proof :: "v1Proof \<Rightarrow> jsval" where
  "json_of_proof p = JObj (
     opt_json ''event'' json_of_event (pf_event p)
     @ opt_json ''merkle_path'' (JArr \<circ> map JStr) (pf_merkle_path p)
     @ opt_json ''merkle_root'' JStr (pf_merkle_root p)
     @ opt_json ''anchor'' json_of_anchor (pf_anchor p)
     @ opt_json ''delegation_chain'' (JArr \<circ> map json_of_grant) (pf_delegation_chain p))"

end
