(* ===== verification/Dom.thy ===== *)
theory Dom
  imports Prelude
begin

text \<open>
  What a component renders: a tree of elements and text whose event handlers carry the message
  the handler hands to the component's step function. \<open>can_fire t e\<close> says that some user
  action on the rendered tree \<open>t\<close> produces the message \<open>e\<close>: a disabled element fires
  nothing, and a form submits only through an enabled submit button. \<open>ui_reach\<close> is the set of
  states a component reaches when every step is either such a user action or an outside event
  (a settled promise, a changed context value).

  An element keeps its tag, its semantic attributes and its handlers. Constant
  \<open>className\<close> and \<open>style\<close> values are presentation and are left out; where a style or class
  depends on the state, the deciding value is kept as an attribute. Icons are leaves named
  after their component.
\<close>

datatype 'e attr =
    Attr string jstr
  | Flag string bool
  | Disabled bool
  | OnClick 'e
  | OnSubmit 'e
  | OnBlur 'e
  | OnFocus 'e
  | OnMouseEnter 'e
  | OnError 'e
  | OnDragOver 'e
  | OnDragLeave 'e
  | OnChange "jstr \<Rightarrow> 'e"
  | OnKeyDown "jstr \<Rightarrow> 'e option"
  | OnFile "jstr option \<Rightarrow> 'e"
  | OnDrop "jstr option \<Rightarrow> 'e"

datatype 'e node =
    Text jstr
  | El string "'e attr list" "'e node list"

definition tx :: "string \<Rightarrow> 'e node" where
  "tx s = Text (js s)"

definition icon :: "string \<Rightarrow> 'e node" where
  "icon n = El n [] []"

text \<open>\<open>{cond && ...}\<close> among the children of an element.\<close>

definition only_if :: "bool \<Rightarrow> 'a list \<Rightarrow> 'a list" where
  "only_if c xs = (if c then xs else [])"

lemma only_if_simps [simp]: "only_if True xs = xs" "only_if False xs = []"
  by (simp_all add: only_if_def)

lemma set_only_if [simp]: "set (only_if c xs) = (if c then set xs else {})"
  by (simp add: only_if_def)

text \<open>\<open>{opt && ...}\<close> for an optional string: nothing when it is absent or empty.\<close>

definition if_truthy :: "jstr option \<Rightarrow> (jstr \<Rightarrow> 'a list) \<Rightarrow> 'a list" where
  "if_truthy v f = (case v of None \<Rightarrow> [] | Some s \<Rightarrow> if s = [] then [] else f s)"

lemma if_truthy_simps [simp]:
  "if_truthy None f = []" "if_truthy (Some []) f = []" "if_truthy (Some (u # s)) f = f (u # s)"
  by (simp_all add: if_truthy_def)

lemma if_truthy_Some: "s \<noteq> [] \<Longrightarrow> if_truthy (Some s) f = f s"
  by (simp add: if_truthy_def)

definition if_some :: "'b option \<Rightarrow> ('b \<Rightarrow> 'a list) \<Rightarrow> 'a list" where
  "if_some v f = (case v of None \<Rightarrow> [] | Some x \<Rightarrow> f x)"

lemma if_some_simps [simp]: "if_some None f = []" "if_some (Some x) f = f x"
  by (simp_all add: if_some_def)

text \<open>\<open>{opt}\<close> as a child: an absent value renders nothing.\<close>

definition opt_text :: "jstr option \<Rightarrow> 'e node list" where
  "opt_text v = if_some v (\<lambda>s. [Text s])"

section \<open>The text of a tree\<close>

fun texts :: "'e node \<Rightarrow> jstr list" and texts_of :: "'e node list \<Rightarrow> jstr list" where
  "texts (Text s) = [s]"
| "texts (El _ _ ks) = texts_of ks"
| "texts_of [] = []"
| "texts_of (k # ks) = texts k @ texts_of ks"

lemma texts_of_append [simp]: "texts_of (xs @ ys) = texts_of xs @ texts_of ys"
  by (induction xs) auto

lemma texts_of_concat_map: "texts_of (map f xs) = concat (map (\<lambda>x. texts (f x)) xs)"
  by (induction xs) auto

lemma texts_tx [simp]: "texts (tx s) = [js s]"
  by (simp add: tx_def)

lemma texts_icon [simp]: "texts (icon n) = []"
  by (simp add: icon_def)

lemma texts_of_only_if [simp]: "texts_of (only_if c xs) = (if c then texts_of xs else [])"
  by (simp add: only_if_def)

section \<open>The events of a tree\<close>

definition disabled :: "'e attr list \<Rightarrow> bool" where
  "disabled as \<longleftrightarrow> Disabled True \<in> set as"

lemma disabled_simps [simp]:
  "disabled [] = False"
  "disabled (Disabled b # as) \<longleftrightarrow> b \<or> disabled as"
  "disabled (Attr k v # as) = disabled as"
  "disabled (Flag k b # as) = disabled as"
  "disabled (OnClick e # as) = disabled as"
  "disabled (OnSubmit e # as) = disabled as"
  "disabled (OnBlur e # as) = disabled as"
  "disabled (OnFocus e # as) = disabled as"
  "disabled (OnMouseEnter e # as) = disabled as"
  "disabled (OnError e # as) = disabled as"
  "disabled (OnDragOver e # as) = disabled as"
  "disabled (OnDragLeave e # as) = disabled as"
  "disabled (OnChange f # as) = disabled as"
  "disabled (OnKeyDown g # as) = disabled as"
  "disabled (OnFile h # as) = disabled as"
  "disabled (OnDrop h # as) = disabled as"
  "disabled (as @ bs) \<longleftrightarrow> disabled as \<or> disabled bs"
  by (auto simp: disabled_def)

definition is_submit :: "'e attr list \<Rightarrow> bool" where
  "is_submit as \<longleftrightarrow> Attr ''type'' (js ''submit'') \<in> set as"

lemma is_submit_simps [simp]:
  "is_submit [] = False"
  "is_submit (Attr k v # as) \<longleftrightarrow> k = ''type'' \<and> v = js ''submit'' \<or> is_submit as"
  "is_submit (Disabled b # as) = is_submit as"
  "is_submit (Flag k b # as) = is_submit as"
  "is_submit (OnClick e # as) = is_submit as"
  "is_submit (OnSubmit e # as) = is_submit as"
  "is_submit (OnBlur e # as) = is_submit as"
  "is_submit (OnFocus e # as) = is_submit as"
  "is_submit (OnMouseEnter e # as) = is_submit as"
  "is_submit (OnError e # as) = is_submit as"
  "is_submit (OnDragOver e # as) = is_submit as"
  "is_submit (OnDragLeave e # as) = is_submit as"
  "is_submit (OnChange f # as) = is_submit as"
  "is_submit (OnKeyDown g # as) = is_submit as"
  "is_submit (OnFile h # as) = is_submit as"
  "is_submit (OnDrop h # as) = is_submit as"
  "is_submit (as @ bs) \<longleftrightarrow> is_submit as \<or> is_submit bs"
  by (auto simp: is_submit_def)

text \<open>A tree holds an enabled submit button, so the form around it can be submitted.\<close>

fun submit_ready :: "'e node \<Rightarrow> bool" and submit_ready_in :: "'e node list \<Rightarrow> bool" where
  "submit_ready (Text s) = False"
| "submit_ready (El t as ks) =
     (t = ''button'' \<and> is_submit as \<and> \<not> disabled as \<or> submit_ready_in ks)"
| "submit_ready_in [] = False"
| "submit_ready_in (k # ks) = (submit_ready k \<or> submit_ready_in ks)"

fun attr_fires :: "bool \<Rightarrow> 'e attr \<Rightarrow> 'e \<Rightarrow> bool" where
  "attr_fires r (Attr k v) e = False"
| "attr_fires r (Flag k b) e = False"
| "attr_fires r (Disabled b) e = False"
| "attr_fires r (OnClick m) e = (e = m)"
| "attr_fires r (OnSubmit m) e = (r \<and> e = m)"
| "attr_fires r (OnBlur m) e = (e = m)"
| "attr_fires r (OnFocus m) e = (e = m)"
| "attr_fires r (OnMouseEnter m) e = (e = m)"
| "attr_fires r (OnError m) e = (e = m)"
| "attr_fires r (OnDragOver m) e = (e = m)"
| "attr_fires r (OnDragLeave m) e = (e = m)"
| "attr_fires r (OnChange f) e = (\<exists>v. e = f v)"
| "attr_fires r (OnKeyDown g) e = (\<exists>k. g k = Some e)"
| "attr_fires r (OnFile h) e = (\<exists>v. e = h v)"
| "attr_fires r (OnDrop h) e = (\<exists>v. e = h v)"

fun attrs_fire :: "bool \<Rightarrow> 'e attr list \<Rightarrow> 'e \<Rightarrow> bool" where
  "attrs_fire r [] e = False"
| "attrs_fire r (a # as) e = (attr_fires r a e \<or> attrs_fire r as e)"

lemma attrs_fire_append [simp]:
  "attrs_fire r (as @ bs) e \<longleftrightarrow> attrs_fire r as e \<or> attrs_fire r bs e"
  by (induction as) auto

fun can_fire :: "'e node \<Rightarrow> 'e \<Rightarrow> bool" and fires_in :: "'e node list \<Rightarrow> 'e \<Rightarrow> bool" where
  "can_fire (Text s) e = False"
| "can_fire (El t as ks) e =
     (\<not> disabled as \<and> attrs_fire (submit_ready_in ks) as e \<or> fires_in ks e)"
| "fires_in [] e = False"
| "fires_in (k # ks) e = (can_fire k e \<or> fires_in ks e)"

lemma fires_in_append [simp]: "fires_in (xs @ ys) e \<longleftrightarrow> fires_in xs e \<or> fires_in ys e"
  by (induction xs) auto

lemma fires_in_map: "fires_in (map f xs) e \<longleftrightarrow> (\<exists>x\<in>set xs. can_fire (f x) e)"
  by (induction xs) auto

lemma fires_in_only_if [simp]: "fires_in (only_if c xs) e \<longleftrightarrow> c \<and> fires_in xs e"
  by (simp add: only_if_def)

lemma fires_in_if_some [simp]: "fires_in (if_some v f) e \<longleftrightarrow> (\<exists>x. v = Some x \<and> fires_in (f x) e)"
  by (cases v) auto

lemma fires_in_if_truthy [simp]:
  "fires_in (if_truthy v f) e \<longleftrightarrow> (\<exists>s. v = Some s \<and> s \<noteq> [] \<and> fires_in (f s) e)"
  by (cases v) (auto simp: if_truthy_def)

lemma fires_opt_text [simp]: "\<not> fires_in (opt_text v) e"
  by (auto simp: opt_text_def)

lemma can_fire_tx [simp]: "\<not> can_fire (tx s) e"
  by (simp add: tx_def)

lemma can_fire_icon [simp]: "\<not> can_fire (icon n) e"
  by (simp add: icon_def)

lemma submit_ready_in_append [simp]:
  "submit_ready_in (xs @ ys) \<longleftrightarrow> submit_ready_in xs \<or> submit_ready_in ys"
  by (induction xs) auto

lemma submit_ready_tx [simp]: "\<not> submit_ready (tx s)" "\<not> submit_ready (icon n)"
  by (simp_all add: tx_def icon_def)

lemma submit_ready_in_only_if [simp]:
  "submit_ready_in (only_if c xs) \<longleftrightarrow> c \<and> submit_ready_in xs"
  by (simp add: only_if_def)

text \<open>A tree without handlers, such as a static card, fires nothing.\<close>

definition inert :: "'e node list \<Rightarrow> bool" where
  "inert ks \<longleftrightarrow> (\<forall>e. \<not> fires_in ks e)"

text \<open>The messages of plain clicks, in document order, as an executable list.\<close>

fun attr_clicks :: "'e attr list \<Rightarrow> 'e list" where
  "attr_clicks [] = []"
| "attr_clicks (OnClick m # as) = m # attr_clicks as"
| "attr_clicks (_ # as) = attr_clicks as"

fun clicks :: "'e node \<Rightarrow> 'e list" and clicks_in :: "'e node list \<Rightarrow> 'e list" where
  "clicks (Text s) = []"
| "clicks (El t as ks) = (if disabled as then [] else attr_clicks as) @ clicks_in ks"
| "clicks_in [] = []"
| "clicks_in (k # ks) = clicks k @ clicks_in ks"

lemma clicks_in_append [simp]: "clicks_in (xs @ ys) = clicks_in xs @ clicks_in ys"
  by (induction xs) auto

lemma attr_clicks_fire: "e \<in> set (attr_clicks as) \<Longrightarrow> attrs_fire r as e"
proof (induction as)
  case Nil
  then show ?case by simp
next
  case (Cons a as)
  then show ?case by (cases a) auto
qed

lemma clicks_fire:
  "e \<in> set (clicks n) \<Longrightarrow> can_fire n e"
  "e \<in> set (clicks_in ks) \<Longrightarrow> fires_in ks e"
  by (induction n and ks rule: clicks_clicks_in.induct)
     (auto intro: attr_clicks_fire split: if_splits)

section \<open>Embedding a component's tree in another component's tree\<close>

lemma disabled_map [simp]: "disabled (map (map_attr f) as) = disabled as"
proof (induction as)
  case (Cons a as)
  then show ?case by (cases a) auto
qed simp

lemma is_submit_map [simp]: "is_submit (map (map_attr f) as) = is_submit as"
proof (induction as)
  case (Cons a as)
  then show ?case by (cases a) auto
qed simp

lemma submit_ready_map [simp]:
  "submit_ready (map_node f n) = submit_ready n"
  "submit_ready_in (map (map_node f) ks) = submit_ready_in ks"
  by (induction n and ks rule: submit_ready_submit_ready_in.induct) auto

lemma attrs_fire_map: "attrs_fire r (map (map_attr f) as) e \<longleftrightarrow> (\<exists>m. e = f m \<and> attrs_fire r as m)"
proof (induction as)
  case Nil
  then show ?case by simp
next
  case (Cons a as)
  have "attr_fires r (map_attr f a) e \<longleftrightarrow> (\<exists>m. e = f m \<and> attr_fires r a m)"
    by (cases a) auto
  with Cons show ?case by auto
qed

lemma can_fire_map:
  "can_fire (map_node f n) e \<longleftrightarrow> (\<exists>m. e = f m \<and> can_fire n m)"
  "fires_in (map (map_node f) ks) e \<longleftrightarrow> (\<exists>m. e = f m \<and> fires_in ks m)"
  by (induction n and ks rule: submit_ready_submit_ready_in.induct) (auto simp: attrs_fire_map)

section \<open>States reachable through the user interface\<close>

inductive ui_reach :: "'s \<Rightarrow> ('s \<Rightarrow> 'e \<Rightarrow> 's) \<Rightarrow> ('s \<Rightarrow> 'e node) \<Rightarrow> ('e \<Rightarrow> bool) \<Rightarrow> 's \<Rightarrow> bool"
  for init step view outside where
  ui_init: "ui_reach init step view outside init"
| ui_user: "ui_reach init step view outside s \<Longrightarrow> can_fire (view s) e \<Longrightarrow>
     ui_reach init step view outside (step s e)"
| ui_outside: "ui_reach init step view outside s \<Longrightarrow> outside e \<Longrightarrow>
     ui_reach init step view outside (step s e)"

text \<open>
  A \<open>screen\<close> adds the view to a machine whose invariant needs the user to act through it: the
  steps owe the invariant only for messages the view can fire and for outside events.
\<close>

locale screen =
  fixes init :: "'s" and step :: "'s \<Rightarrow> 'e \<Rightarrow> 's" and view :: "'s \<Rightarrow> 'e node"
    and outside :: "'e \<Rightarrow> bool" and inv :: "'s \<Rightarrow> bool"
  assumes scr_init: "inv init"
    and scr_user: "inv s \<Longrightarrow> can_fire (view s) e \<Longrightarrow> inv (step s e)"
    and scr_outside: "inv s \<Longrightarrow> outside e \<Longrightarrow> inv (step s e)"
begin

lemma reach_inv: "ui_reach init step view outside s \<Longrightarrow> inv s"
  by (induction rule: ui_reach.induct) (auto intro: scr_init scr_user scr_outside)

end

end
