(* ===== verification/Ui.thy ===== *)
theory Ui
  imports Dom Json
begin

text \<open>
  The shared interface components of \<open>src/lib/ui.tsx\<close> and
  \<open>src/components/LoadMoreButton.tsx\<close>: what each renders from its properties, the copy
  button's state, and the confirmation dialog with its keyboard handler, focus trap and the
  page state it saves and restores. Each component comes with simplification rules for the
  messages it fires and the text it shows, so that pages are read through these and not
  through the markup.
\<close>

section \<open>Headers and cards\<close>

definition page_header :: "jstr \<Rightarrow> jstr option \<Rightarrow> jstr option \<Rightarrow> 'e node list \<Rightarrow> 'e node" where
  "page_header title description eyebrow action =
     El ''div'' []
      ([El ''div'' []
         (if_truthy eyebrow (\<lambda>t. [El ''span'' [] [Text t]])
          @ [El ''h1'' [] [Text title]]
          @ if_truthy description (\<lambda>t. [El ''p'' [] [Text t]]))]
       @ only_if (action \<noteq> []) [El ''div'' [] action])"

definition card :: "jstr option \<Rightarrow> jstr option \<Rightarrow> 'e node list \<Rightarrow> 'e node list \<Rightarrow> 'e node" where
  "card title subtitle action children =
     El ''section'' []
      (if_truthy title (\<lambda>t.
         [El ''header'' []
           ([El ''div'' []
              ([El ''h2'' [] [Text t]]
               @ if_truthy subtitle (\<lambda>u. [El ''p'' [] [Text u]]))]
            @ only_if (action \<noteq> []) [El ''div'' [] action])])
       @ [El ''div'' [] children])"

lemma fires_page_header [simp]:
  "can_fire (page_header t d y a) e \<longleftrightarrow> fires_in a e"
  by (cases a) (auto simp: page_header_def)

lemma fires_card [simp]:
  "can_fire (card t s a ks) e \<longleftrightarrow> truthy t \<and> fires_in a e \<or> fires_in ks e"
  by (cases a; cases t) (auto simp: card_def)

section \<open>Form fields\<close>

text \<open>\<open>label.toLowerCase().replace(/\s+/g, "-")\<close>: each run of white space becomes one hyphen.\<close>

fun hyphenate :: "jstr \<Rightarrow> jstr" where
  "hyphenate [] = []"
| "hyphenate [u] = (if is_ws u then [45] else [u])"
| "hyphenate (u # v # s) =
     (if is_ws u then (if is_ws v then hyphenate (v # s) else 45 # hyphenate (v # s))
      else u # hyphenate (v # s))"

definition field_id :: "jstr option \<Rightarrow> jstr \<Rightarrow> jstr" where
  "field_id i label = or_str i (js ''field-'' @ hyphenate (to_lower label))"

text \<open>\<open>React.cloneElement\<close> merges attributes into the one child of the field.\<close>

fun clone_with :: "'e attr list \<Rightarrow> 'e node \<Rightarrow> 'e node" where
  "clone_with as (El t bs ks) = El t (bs @ as) ks"
| "clone_with as (Text s) = Text s"

definition field :: "jstr \<Rightarrow> 'e node list \<Rightarrow> jstr option \<Rightarrow> jstr option \<Rightarrow> 'e node \<Rightarrow> 'e node" where
  "field label hint error i child =
     (let fieldId = field_id i label;
          errorId = fieldId @ js ''-error'';
          hintId = fieldId @ js ''-hint'';
          describedBy = join_with [32]
            (only_if (truthy error) [errorId] @ only_if (hint \<noteq> []) [hintId])
      in El ''label'' []
       ([El ''div'' []
          ([El ''span'' [] [Text label]]
           @ only_if (hint \<noteq> []) [El ''span'' [Attr ''id'' hintId] hint])]
        @ if_truthy error (\<lambda>t.
            [El ''span'' [Attr ''id'' errorId, Attr ''aria-live'' (js ''assertive'')] [Text t]])
        @ [clone_with
            ([Attr ''id'' fieldId]
             @ only_if (describedBy \<noteq> []) [Attr ''aria-describedby'' describedBy]
             @ only_if (truthy error) [Flag ''aria-invalid'' True]) child]
        @ if_truthy error (\<lambda>t. [El ''span'' [] [icon ''IconAlertCircle'', Text t]])))"

definition text_input :: "'e attr list \<Rightarrow> 'e node" where
  "text_input props = El ''input'' props []"

definition text_area :: "'e attr list \<Rightarrow> 'e node" where
  "text_area props = El ''textarea'' props []"

definition select :: "'e attr list \<Rightarrow> 'e node list \<Rightarrow> 'e node" where
  "select props children = El ''select'' props children"

lemma fires_clone_with [simp]: "can_fire (clone_with
    (Attr k v # only_if c [Attr k' v'] @ only_if d [Flag k'' b]) n) e \<longleftrightarrow> can_fire n e"
  by (cases n) (auto simp: only_if_def)

lemma fires_field [simp]: "can_fire (field l h er i n) e \<longleftrightarrow> fires_in h e \<or> can_fire n e"
  by (cases h) (auto simp: field_def Let_def)

lemma fires_text_input [simp]:
  "can_fire (text_input ps) e \<longleftrightarrow> \<not> disabled ps \<and> attrs_fire False ps e"
  by (simp add: text_input_def)

lemma fires_text_area [simp]:
  "can_fire (text_area ps) e \<longleftrightarrow> \<not> disabled ps \<and> attrs_fire False ps e"
  by (simp add: text_area_def)

section \<open>Buttons\<close>

definition spinner :: "'e node" where
  "spinner = El ''svg'' [] [El ''circle'' [] [], El ''path'' [] []]"

text \<open>
  \<open>dis\<close> is the caller's \<open>disabled\<close> property, \<open>props\<close> the remaining ones; the button is
  disabled while it is loading.
\<close>

definition button ::
  "string \<Rightarrow> string \<Rightarrow> bool \<Rightarrow> bool \<Rightarrow> 'e attr list \<Rightarrow> 'e node list \<Rightarrow> 'e node" where
  "button variant sz loading dis props children =
     El ''button''
      (props @ [Disabled (dis \<or> loading), Attr ''size'' (js sz), Attr ''variant'' (js variant)])
      (only_if loading [spinner] @ children)"

lemma fires_spinner [simp]: "\<not> can_fire spinner e"
  by (simp add: spinner_def)

lemma fires_button [simp]:
  "can_fire (button v s l d ps ks) e \<longleftrightarrow>
     \<not> disabled ps \<and> \<not> d \<and> \<not> l \<and> attrs_fire (submit_ready_in ks) ps e \<or> fires_in ks e"
proof -
  have "submit_ready_in (only_if l [spinner] @ ks) = submit_ready_in ks"
    by (simp add: spinner_def)
  then show ?thesis by (auto simp: button_def)
qed

lemma submit_ready_button [simp]:
  "submit_ready (button v s l d ps ks) \<longleftrightarrow>
     is_submit ps \<and> \<not> disabled ps \<and> \<not> d \<and> \<not> l \<or> submit_ready_in ks"
  by (auto simp: button_def spinner_def)

text \<open>\<open>LoadMoreButton\<close> renders nothing when disabled.\<close>

definition load_more_button :: "'e \<Rightarrow> bool \<Rightarrow> bool \<Rightarrow> 'e node list" where
  "load_more_button onClick loading dis =
     (if dis then []
      else [El ''div'' []
             [El ''button'' [OnClick onClick, Disabled loading]
               [if loading then Text (js ''Loading'' @ [0x2026]) else tx ''Load more'']]])"

lemma fires_load_more [simp]:
  "fires_in (load_more_button m l d) e \<longleftrightarrow> \<not> d \<and> \<not> l \<and> e = m"
  by (auto simp: load_more_button_def)

section \<open>The copy button\<close>

text \<open>
  \<open>copied\<close> is set by a click and cleared by every timer that runs out; \<open>timers\<close> counts the
  timers in flight, \<open>clipboard\<close> the last text written.
\<close>

record copyable_state =
  cp_copied :: bool
  cp_timers :: nat
  cp_clipboard :: "jstr option"

datatype copyable_event = CopyClick | CopyTimer

definition copyable_display :: "jstr \<Rightarrow> bool \<Rightarrow> jstr" where
  "copyable_display val trunc =
     (if trunc \<and> length val > 22
      then take 10 val @ [0x2026] @ drop (length val - 8) val else val)"

fun copyable_step :: "jstr \<Rightarrow> copyable_state \<Rightarrow> copyable_event \<Rightarrow> copyable_state" where
  "copyable_step val s CopyClick =
     s\<lparr>cp_clipboard := Some val, cp_copied := True, cp_timers := cp_timers s + 1\<rparr>"
| "copyable_step val s CopyTimer =
     (if cp_timers s = 0 then s else s\<lparr>cp_copied := False, cp_timers := cp_timers s - 1\<rparr>)"

definition copyable_view :: "jstr \<Rightarrow> bool \<Rightarrow> copyable_state \<Rightarrow> copyable_event node" where
  "copyable_view val trunc s =
     El ''button'' [Attr ''type'' (js ''button''), OnClick CopyClick, Attr ''title'' (js ''Copy: '' @ val)]
      [El ''span'' [] [Text (copyable_display val trunc)],
       El ''span'' []
        [if cp_copied s then El ''span'' [] [icon ''IconCheck''] else icon ''IconCopy'']]"

text \<open>A parent that embeds the button shows its text; the clicks belong to the button itself.\<close>

definition copyable :: "jstr \<Rightarrow> bool \<Rightarrow> 'e node" where
  "copyable val trunc =
     El ''Copyable'' [Attr ''value'' val] [Text (copyable_display val trunc)]"

definition monospace_hash :: "jstr \<Rightarrow> 'e node" where
  "monospace_hash hash = copyable hash True"

lemma fires_copyable [simp]: "\<not> can_fire (copyable v t) e" "\<not> can_fire (monospace_hash v) e"
  by (simp_all add: copyable_def monospace_hash_def)

lemma copyable_display_length:
  "length (copyable_display v t) \<le> max 22 (if t then 0 else length v)"
  by (auto simp: copyable_display_def)

section \<open>Status, metrics, messages\<close>

datatype pill_status = VERIFIED | FAILED | PENDING | ACTIVE | REVOKED | UNKNOWN

fun pill_status_text :: "pill_status \<Rightarrow> jstr" where
  "pill_status_text VERIFIED = js ''VERIFIED''"
| "pill_status_text FAILED = js ''FAILED''"
| "pill_status_text PENDING = js ''PENDING''"
| "pill_status_text ACTIVE = js ''ACTIVE''"
| "pill_status_text REVOKED = js ''REVOKED''"
| "pill_status_text UNKNOWN = js ''UNKNOWN''"

definition pill_label :: "pill_status option \<Rightarrow> jstr option \<Rightarrow> bool option \<Rightarrow> jstr" where
  "pill_label status label ok =
     (case label of Some l \<Rightarrow> l
      | None \<Rightarrow> (case status of Some s \<Rightarrow> pill_status_text s
                | None \<Rightarrow> if ok = Some True then js ''VERIFIED'' else js ''FAILED''))"

definition pill_color :: "pill_status option \<Rightarrow> bool option \<Rightarrow> string \<times> bool" where
  "pill_color status ok =
     (if ok = Some True \<or> status = Some VERIFIED \<or> status = Some ACTIVE
      then (''var(--color-verified)'', True)
      else if ok = Some False \<or> status = Some FAILED \<or> status = Some REVOKED
      then (''var(--color-failed)'', True)
      else if status = Some PENDING then (''var(--color-pending)'', True)
      else (''var(--muted)'', False))"

definition status_pill :: "pill_status option \<Rightarrow> jstr option \<Rightarrow> bool option \<Rightarrow> 'e node" where
  "status_pill status label ok =
     (let (color, tint) = pill_color status ok in
      El ''span''
       (if tint
        then [Attr ''color'' (js color),
              Attr ''backgroundColor'' (js ''color-mix(in srgb, '' @ js color @ js '' 12%, transparent)''),
              Attr ''borderColor'' (js ''color-mix(in srgb, '' @ js color @ js '' 32%, transparent)'')]
        else [Attr ''color'' (js ''var(--muted)''),
              Attr ''backgroundColor'' (js ''var(--secondary)''),
              Attr ''borderColor'' (js ''var(--border)'')])
       [El ''span'' [Attr ''backgroundColor'' (if tint then js color else js ''var(--muted)'')] [],
        Text (pill_label status label ok)])"

lemma fires_status_pill [simp]: "\<not> can_fire (status_pill s l k) e"
  by (auto simp: status_pill_def split: prod.splits)

lemma texts_status_pill [simp]: "texts (status_pill s l k) = [pill_label s l k]"
  by (auto simp: status_pill_def split: prod.splits)

definition metric_card ::
  "jstr \<Rightarrow> jstr \<Rightarrow> jstr option \<Rightarrow> jstr option \<Rightarrow> 'e node list \<Rightarrow> 'e node" where
  "metric_card label val change sublabel ic =
     El ''div'' []
      ([El ''div'' []
         ([El ''span'' [] [Text label]] @ only_if (ic \<noteq> []) [El ''span'' [] ic]),
        El ''div'' []
         ([El ''span'' [] [Text val]]
          @ if_truthy change (\<lambda>t. [El ''span'' [] [Text t]]))]
       @ if_truthy sublabel (\<lambda>t. [El ''p'' [] [Text t]]))"

lemma fires_metric_card [simp]: "can_fire (metric_card l v c s ic) e \<longleftrightarrow> fires_in ic e"
  by (cases ic) (auto simp: metric_card_def)

text \<open>\<open>JSON.stringify(data, null, 2)\<close> of \<open>undefined\<close> is \<open>undefined\<close>, which renders nothing.\<close>

definition json_view :: "jsval \<Rightarrow> 'e node" where
  "json_view data = El ''pre'' [] (if data = JUndef then [] else [Text (stringify2 0 data)])"

definition error_box :: "jstr \<Rightarrow> 'e node" where
  "error_box message = El ''div'' [] [icon ''IconAlertCircle'', El ''span'' [] [Text message]]"

definition empty_state ::
  "'e node list \<Rightarrow> jstr \<Rightarrow> jstr option \<Rightarrow> 'e node list \<Rightarrow> 'e node" where
  "empty_state ic title description action =
     El ''div'' []
      (only_if (ic \<noteq> []) [El ''div'' [] ic]
       @ [El ''h3'' [] [Text title]]
       @ if_truthy description (\<lambda>t. [El ''p'' [] [Text t]])
       @ only_if (action \<noteq> []) [El ''div'' [] action])"

lemma fires_json_view [simp]: "\<not> can_fire (json_view d) e"
  by (simp add: json_view_def)

lemma fires_error_box [simp]: "\<not> can_fire (error_box m) e"
  by (simp add: error_box_def)

lemma texts_error_box [simp]: "texts (error_box m) = [m]"
  by (simp add: error_box_def)

lemma fires_empty_state [simp]:
  "can_fire (empty_state ic t d a) e \<longleftrightarrow> fires_in ic e \<or> fires_in a e"
  by (cases ic; cases a) (auto simp: empty_state_def)

definition skeleton :: "int \<Rightarrow> int \<Rightarrow> 'e node" where
  "skeleton height width =
     El ''div'' [Attr ''height'' (int_text height), Attr ''width'' (int_text width)] []"

definition table_skeleton :: "nat \<Rightarrow> nat \<Rightarrow> 'e node" where
  "table_skeleton rows cols =
     El ''div'' []
      [El ''table'' []
        [El ''thead'' [] [El ''tr'' [] (map (\<lambda>i. El ''th'' [] [skeleton 10 60]) [0..<cols])],
         El ''tbody'' []
          (map (\<lambda>r. El ''tr'' [Flag ''borderBottom'' (r + 1 < rows)]
             (map (\<lambda>c. El ''td'' []
                [skeleton 10 (if c = 0 then 100 else if c + 1 = cols then 40 else 80)]) [0..<cols]))
            [0..<rows])]]"

lemma fires_skeleton [simp]: "\<not> can_fire (skeleton h w) e"
  by (simp add: skeleton_def)

lemma fires_table_skeleton [simp]: "\<not> can_fire (table_skeleton r c) e"
  by (simp add: table_skeleton_def fires_in_map)

lemma texts_table_skeleton [simp]: "texts (table_skeleton r c) = []"
proof -
  have cell: "texts_of (map (\<lambda>x. El t (f x) [skeleton 10 (w x)]) xs) = []" for t f w and xs :: "nat list"
    by (induction xs) (auto simp: skeleton_def)
  have rows: "texts_of (map (\<lambda>r. El ''tr'' (g r)
      (map (\<lambda>c. El ''td'' [] [skeleton 10 (w c)]) ys)) xs) = []" for g w and ys xs :: "nat list"
    by (induction xs) (auto simp: cell)
  show ?thesis by (simp add: table_skeleton_def cell rows)
qed

section \<open>The confirmation dialog\<close>

text \<open>
  Elements are numbered. \<open>page_dom\<close> is what the dialog's effect touches: the focused element,
  the body's overflow style, the key listeners on the document, and what the effect saved. The
  effect runs when the dialog opens, its cleanup when it closes (or before the effect reruns).
\<close>

record page_dom =
  pd_active :: nat
  pd_overflow :: jstr
  pd_listeners :: nat
  pd_previous :: "nat option"
  pd_prev_overflow :: jstr

definition dialog_setup :: "nat option \<Rightarrow> page_dom \<Rightarrow> page_dom" where
  "dialog_setup cancelBtn d = d\<lparr>
     pd_previous := Some (pd_active d),
     pd_active := (case cancelBtn of None \<Rightarrow> pd_active d | Some b \<Rightarrow> b),
     pd_listeners := pd_listeners d + 1,
     pd_prev_overflow := pd_overflow d,
     pd_overflow := js ''hidden''\<rparr>"

definition dialog_cleanup :: "page_dom \<Rightarrow> page_dom" where
  "dialog_cleanup d = d\<lparr>
     pd_listeners := pd_listeners d - 1,
     pd_overflow := pd_prev_overflow d,
     pd_active := (case pd_previous d of None \<Rightarrow> pd_active d | Some p \<Rightarrow> p)\<rparr>"

lemma dialog_setup_cleanup:
  "pd_active (dialog_cleanup (dialog_setup b d)) = pd_active d"
  "pd_overflow (dialog_cleanup (dialog_setup b d)) = pd_overflow d"
  "pd_listeners (dialog_cleanup (dialog_setup b d)) = pd_listeners d"
  by (simp_all add: dialog_setup_def dialog_cleanup_def)

datatype key_effect = PreventDefault | CallCancel | FocusOn nat

definition dialog_keydown :: "nat list \<Rightarrow> nat \<Rightarrow> string \<Rightarrow> bool \<Rightarrow> key_effect list" where
  "dialog_keydown focusable active key shift =
     (if key = ''Escape'' then [PreventDefault, CallCancel]
      else if key = ''Tab'' then
        (if focusable = [] then []
         else if shift \<and> active = hd focusable then [PreventDefault, FocusOn (last focusable)]
         else if \<not> shift \<and> active = last focusable then [PreventDefault, FocusOn (hd focusable)]
         else [])
      else [])"

fun moved_focus :: "key_effect list \<Rightarrow> nat option" where
  "moved_focus [] = None"
| "moved_focus (FocusOn x # es) = Some x"
| "moved_focus (_ # es) = moved_focus es"

definition confirm_dialog ::
  "bool \<Rightarrow> jstr \<Rightarrow> jstr \<Rightarrow> jstr \<Rightarrow> jstr \<Rightarrow> 'e \<Rightarrow> 'e \<Rightarrow> bool \<Rightarrow> bool \<Rightarrow> 'e node list" where
  "confirm_dialog open title message confirmLabel cancelLabel onConfirm onCancel loading danger =
     (if \<not> open then []
      else [El ''div'' []
        [El ''div'' [OnClick onCancel] [],
         El ''div'' [Attr ''role'' (js ''dialog''), Attr ''aria-modal'' (js ''true''),
             Attr ''aria-labelledby'' (js ''confirm-dialog-title''),
             Attr ''aria-describedby'' (js ''confirm-dialog-message'')]
          [El ''div'' []
            (only_if danger [El ''div'' [] [El ''span'' [] [icon ''IconAlertCircle'']]]
             @ [El ''div'' []
                 [El ''h3'' [Attr ''id'' (js ''confirm-dialog-title'')] [Text title],
                  El ''p'' [Attr ''id'' (js ''confirm-dialog-message'')] [Text message]]]),
           El ''div'' []
            [button ''secondary'' ''md'' False loading
               [Flag ''data-cancel'' True, OnClick onCancel] [Text cancelLabel],
             button (if danger then ''danger'' else ''brand'') ''md'' loading False
               [OnClick onConfirm]
               (only_if danger [icon ''IconShieldCheck''] @ [Text confirmLabel])]]]])"

lemma fires_confirm_dialog [simp]:
  "fires_in (confirm_dialog op t m cl xl c x l d) e \<longleftrightarrow> op \<and> (e = x \<or> \<not> l \<and> e = c)"
  by (auto simp: confirm_dialog_def)

subsection \<open>Focus traps\<close>

text \<open>
  Between the first and the last focusable element the browser moves the focus to the
  neighbour in document order; from the ends it would leave the dialog.
\<close>

fun next_of :: "nat \<Rightarrow> nat list \<Rightarrow> nat option" where
  "next_of x (y # z # ys) = (if x = y then Some z else next_of x (z # ys))"
| "next_of x _ = None"

definition native_tab :: "nat list \<Rightarrow> nat \<Rightarrow> bool \<Rightarrow> nat option" where
  "native_tab fs x shift = next_of x (if shift then rev fs else fs)"

definition tab_target :: "(nat list \<Rightarrow> nat \<Rightarrow> bool \<Rightarrow> nat option) \<Rightarrow> nat list \<Rightarrow> nat \<Rightarrow> bool \<Rightarrow> nat option" where
  "tab_target handler fs x shift = (case handler fs x shift of
     Some y \<Rightarrow> Some y | None \<Rightarrow> native_tab fs x shift)"

lemma next_of_in: "x \<in> set fs \<Longrightarrow> x \<noteq> last fs \<Longrightarrow> \<exists>z\<in>set fs. next_of x fs = Some z"
  by (induction x fs rule: next_of.induct) auto

text \<open>
  What a keyboard handler owes to keep the focus inside: from the first element backwards it
  goes to the last, from the last forwards to the first, and it never focuses anything else.
\<close>

locale focus_trap =
  fixes handler :: "nat list \<Rightarrow> nat \<Rightarrow> bool \<Rightarrow> nat option"
  assumes wrap_back: "fs \<noteq> [] \<Longrightarrow> handler fs (hd fs) True = Some (last fs)"
    and wrap_forth: "fs \<noteq> [] \<Longrightarrow> handler fs (last fs) False = Some (hd fs)"
    and target_in: "handler fs x sh = Some y \<Longrightarrow> y \<in> set fs"
begin

lemma focus_stays:
  assumes "x \<in> set fs"
  shows "\<exists>y\<in>set fs. tab_target handler fs x sh = Some y"
proof (cases "handler fs x sh")
  case (Some y)
  then show ?thesis using target_in by (auto simp: tab_target_def)
next
  case None
  from assms have ne: "fs \<noteq> []" by auto
  show ?thesis
  proof (cases sh)
    case True
    with None ne have "x \<noteq> hd fs" using wrap_back by auto
    then have "x \<noteq> last (rev fs)" by (simp add: last_rev)
    with assms have "\<exists>z\<in>set (rev fs). next_of x (rev fs) = Some z" by (intro next_of_in) auto
    with None True show ?thesis by (auto simp: tab_target_def native_tab_def)
  next
    case False
    with None ne have "x \<noteq> last fs" using wrap_forth by auto
    with assms have "\<exists>z\<in>set fs. next_of x fs = Some z" by (rule next_of_in)
    with None False show ?thesis by (auto simp: tab_target_def native_tab_def)
  qed
qed

end

definition dialog_tab :: "nat list \<Rightarrow> nat \<Rightarrow> bool \<Rightarrow> nat option" where
  "dialog_tab fs x sh = moved_focus (dialog_keydown fs x ''Tab'' sh)"

interpretation dlg: focus_trap dialog_tab
proof
  show "fs \<noteq> [] \<Longrightarrow> dialog_tab fs (hd fs) True = Some (last fs)" for fs
    by (simp add: dialog_tab_def dialog_keydown_def)
  show "fs \<noteq> [] \<Longrightarrow> dialog_tab fs (last fs) False = Some (hd fs)" for fs
    by (simp add: dialog_tab_def dialog_keydown_def)
  show "dialog_tab fs x sh = Some y \<Longrightarrow> y \<in> set fs" for fs x sh y
    by (auto simp: dialog_tab_def dialog_keydown_def split: if_splits)
qed

text \<open>The element that has the focus after a sequence of Tab presses, each with or without Shift.\<close>

definition after_tabs :: "(nat list \<Rightarrow> nat \<Rightarrow> bool \<Rightarrow> nat option) \<Rightarrow> nat list \<Rightarrow> nat \<Rightarrow> bool list \<Rightarrow> nat option" where
  "after_tabs handler fs x shs = foldl (\<lambda>f sh. Option.bind f (\<lambda>y. tab_target handler fs y sh)) (Some x) shs"

text \<open>The focus never leaves an open dialog: from any element of it, any sequence of Tab and
  Shift+Tab presses, through the dialog's key handler and the browser's own order, ends on an
  element of the dialog.
\<close>
theorem dialog_traps_focus:
  assumes "x \<in> set fs"
  shows "\<exists>y\<in>set fs. after_tabs dialog_tab fs x shs = Some y"
proof (induction shs rule: rev_induct)
  case Nil
  then show ?case using assms by (simp add: after_tabs_def)
next
  case (snoc sh shs)
  then obtain y where "y \<in> set fs" "after_tabs dialog_tab fs x shs = Some y" by blast
  then show ?case using dlg.focus_stays [of y fs sh] by (simp add: after_tabs_def)
qed

theorem dialog_traps_focus_witness:
  "\<exists>y\<in>set [1, 2, 3]. after_tabs dialog_tab [1, 2, 3] 3 [False, False, True, True] = Some y"
  by (rule dialog_traps_focus) simp

end
