(* ===== verification/Verify.thy ===== *)
theory Verify
  imports Api Ui
begin

text \<open>
  \<open>src/screens/Verify.tsx\<close>: the public verification screen. A receipt is verified by event id
  (its proof is fetched first), from a dropped or chosen file, or from pasted JSON; each way
  ends in \<open>verifyProof\<close>, which posts the proof to the API. The state keeps the suspended
  handlers, the files being read and the requests sent; the view is the rendered tree, so the
  user's actions are the messages it can fire.
\<close>

section \<open>State and handlers\<close>

datatype vf_wait = VfGetProof | VfPostVerify

record verify_screen =
  vf_eventId :: jstr
  vf_receipt :: jstr
  vf_loading :: bool
  vf_error :: "jstr option"
  vf_result :: "v1VerifyProofResponse option"
  vf_showPaste :: bool
  vf_dragActive :: bool
  vf_fileName :: "jstr option"
  vf_pending :: "vf_wait list"
  vf_reading :: "jstr list"
  vf_requests :: "api_request list"

definition verify_init :: verify_screen where
  "verify_init = \<lparr>vf_eventId = [], vf_receipt = [], vf_loading = False, vf_error = None,
     vf_result = None, vf_showPaste = False, vf_dragActive = False, vf_fileName = None,
     vf_pending = [], vf_reading = [], vf_requests = []\<rparr>"

definition verifyProof :: "jsval \<Rightarrow> verify_screen \<Rightarrow> verify_screen" where
  "verifyProof proof s = s\<lparr>vf_loading := True, vf_error := None, vf_result := None,
     vf_pending := vf_pending s @ [VfPostVerify],
     vf_requests := vf_requests s @ [VerifyProof proof]\<rparr>"

definition verifyProof_settled ::
  "v1VerifyProofResponse reply \<Rightarrow> verify_screen \<Rightarrow> verify_screen" where
  "verifyProof_settled r s =
     (case r of
        Resolved data err \<Rightarrow>
          if js_truthy err \<or> data = None then s\<lparr>vf_error := Some (errText err)\<rparr>
          else s\<lparr>vf_result := data\<rparr>
      | Rejected e \<Rightarrow> s\<lparr>vf_error := Some (errText e)\<rparr>)\<lparr>vf_loading := False\<rparr>"

definition fetchAndVerify :: "verify_screen \<Rightarrow> verify_screen" where
  "fetchAndVerify s = s\<lparr>vf_error := None, vf_pending := vf_pending s @ [VfGetProof],
     vf_requests := vf_requests s @ [GetProof (vf_eventId s)]\<rparr>"

text \<open>The rejection of the proof request is not caught: the handler ends there.\<close>

definition fetchAndVerify_settled :: "v1Proof option reply \<Rightarrow> verify_screen \<Rightarrow> verify_screen" where
  "fetchAndVerify_settled r s = (case r of
     Rejected e \<Rightarrow> s
   | Resolved data err \<Rightarrow>
       (let proof = (case data of None \<Rightarrow> None | Some p \<Rightarrow> p) in
        if js_truthy err \<or> proof = None
        then s\<lparr>vf_error := Some (or_str (Some (errText err))
                 (js ''No inclusion proof found for that event ID.''))\<rparr>
        else verifyProof (json_of_proof (the proof)) s))"

text \<open>\<open>parsed.proof ?? parsed\<close>; reading a property of \<open>null\<close> throws inside the \<open>try\<close>.\<close>

definition verifyPasted :: "jstr \<Rightarrow> verify_screen \<Rightarrow> verify_screen" where
  "verifyPasted text s =
     (let s' = s\<lparr>vf_error := None\<rparr>;
          invalid = s'\<lparr>vf_error := Some (js ''Provided receipt is not valid JSON.'')\<rparr> in
      case json_parse text of
        None \<Rightarrow> invalid
      | Some JNull \<Rightarrow> invalid
      | Some parsed \<Rightarrow>
          (let p = get_field parsed (js ''proof'') in
           verifyProof (if p = JUndef \<or> p = JNull then parsed else p) s'))"

definition handleFile :: "jstr \<Rightarrow> verify_screen \<Rightarrow> verify_screen" where
  "handleFile name s = s\<lparr>vf_reading := vf_reading s @ [name]\<rparr>"

definition file_loaded :: "jstr \<Rightarrow> jstr \<Rightarrow> verify_screen \<Rightarrow> verify_screen" where
  "file_loaded name content s =
     verifyPasted content (s\<lparr>vf_receipt := content, vf_fileName := Some name\<rparr>)"

datatype verify_event =
    VfEventId jstr
  | VfFetch
  | VfDragOver
  | VfDragLeave
  | VfDrop "jstr option"
  | VfFile "jstr option"
  | VfTogglePaste
  | VfReceipt jstr
  | VfPasted
  | VfFileLoaded nat jstr
  | VfProofReply nat "v1Proof option reply"
  | VfVerifyReply nat "v1VerifyProofResponse reply"

fun verify_step :: "verify_screen \<Rightarrow> verify_event \<Rightarrow> verify_screen" where
  "verify_step s (VfEventId v) = s\<lparr>vf_eventId := v\<rparr>"
| "verify_step s VfFetch = fetchAndVerify s"
| "verify_step s VfDragOver = s\<lparr>vf_dragActive := True\<rparr>"
| "verify_step s VfDragLeave = s\<lparr>vf_dragActive := False\<rparr>"
| "verify_step s (VfDrop f) =
     (let s' = s\<lparr>vf_dragActive := False\<rparr> in
      case f of None \<Rightarrow> s' | Some name \<Rightarrow> handleFile name s')"
| "verify_step s (VfFile f) = (case f of None \<Rightarrow> s | Some name \<Rightarrow> handleFile name s)"
| "verify_step s VfTogglePaste = s\<lparr>vf_showPaste := \<not> vf_showPaste s\<rparr>"
| "verify_step s (VfReceipt v) = s\<lparr>vf_receipt := v\<rparr>"
| "verify_step s VfPasted = verifyPasted (vf_receipt s) s"
| "verify_step s (VfFileLoaded i content) =
     (if i < length (vf_reading s)
      then file_loaded (vf_reading s ! i) content (s\<lparr>vf_reading := remove_nth i (vf_reading s)\<rparr>)
      else s)"
| "verify_step s (VfProofReply i r) =
     (if i < length (vf_pending s) \<and> vf_pending s ! i = VfGetProof
      then fetchAndVerify_settled r (s\<lparr>vf_pending := remove_nth i (vf_pending s)\<rparr>) else s)"
| "verify_step s (VfVerifyReply i r) =
     (if i < length (vf_pending s) \<and> vf_pending s ! i = VfPostVerify
      then verifyProof_settled r (s\<lparr>vf_pending := remove_nth i (vf_pending s)\<rparr>) else s)"

fun verify_outside :: "verify_event \<Rightarrow> bool" where
  "verify_outside (VfFileLoaded i c) = True"
| "verify_outside (VfProofReply i r) = True"
| "verify_outside (VfVerifyReply i r) = True"
| "verify_outside _ = False"

section \<open>The report\<close>

definition verify_checks :: "((v1VerifyProofResponse \<Rightarrow> bool option) \<times> jstr \<times> jstr) list" where
  "verify_checks =
     [(vp_signature_valid, js ''Notary signature'',
         js ''Signature matches the notary's public key''),
      (vp_chain_intact, js ''Hash chain'',
         js ''Each entry links to the one before it with an unbroken SHA-256 chain''),
      (vp_authority_valid, js ''Delegation authority'',
         js ''The action stays within the granted resource scope and depth limits''),
      (vp_anchored, js ''External anchor'',
         js ''An independent timestamp confirms when the receipt was recorded'')]"

definition check_row :: "v1VerifyProofResponse \<Rightarrow>
  (v1VerifyProofResponse \<Rightarrow> bool option) \<times> jstr \<times> jstr \<Rightarrow> 'e node" where
  "check_row result c =
     (let (key, label, desc) = c; ok = (key result = Some True) in
      El ''div'' []
       [El ''div'' [] [El ''span'' [] [Text label], El ''p'' [] [Text desc]],
        status_pill None (Some (if ok then js ''VALID'' else js ''FAILED'')) (Some ok)])"

definition verification_report :: "v1VerifyProofResponse \<Rightarrow> 'e node" where
  "verification_report result =
     (let ok = (vp_valid result = Some True);
          verdictColor = (if ok then js ''var(--color-verified)'' else js ''var(--color-failed)'') in
      card (Some (js ''Verification report''))
       (Some (js ''Recomputed independently, so no trust in Babit is required.'')) []
       [El ''div'' []
         ([El ''div'' [Attr ''color'' verdictColor]
            [icon (if ok then ''IconShieldCheck'' else ''IconShieldAlert''),
             El ''div'' []
              [El ''div'' []
                [tx (if ok then ''Verified. All checks passed.'' else ''Verification failed'')],
               El ''div'' []
                [tx (if ok then ''This receipt is cryptographically sound.''
                     else ''One or more cryptographic checks did not pass.'')]]],
           El ''div'' [] (map (check_row result) verify_checks)]
          @ if_truthy (vp_reason result) (\<lambda>t. [error_box (js ''Failure reason: '' @ t)])
          @ [El ''div'' []
              [El ''span'' [] [icon ''IconCheck''],
               El ''span'' [] [tx ''Independent verification complete'']]])])"

lemma fires_verification_report [simp]: "\<not> can_fire (verification_report r) e"
  by (auto simp: verification_report_def Let_def check_row_def verify_checks_def)

section \<open>The view\<close>

definition enter_key :: "jstr \<Rightarrow> jstr \<Rightarrow> verify_event option" where
  "enter_key eventId k =
     (if k = js ''Enter'' \<and> trim eventId \<noteq> [] then Some VfFetch else None)"

definition by_id_card :: "verify_screen \<Rightarrow> verify_event node" where
  "by_id_card s = card None None []
     [El ''div'' []
       [El ''div'' [] [],
        El ''div'' []
         [El ''h2'' [] [tx ''Verify by event ID''],
          El ''p'' []
           [tx ''Enter an event ID and we'll pull its proof from the ledger and check it for you.'']],
        El ''div'' []
         [El ''div'' []
           [field (js ''Event ID'') [] None None
             (text_input [Attr ''value'' (vf_eventId s), OnChange VfEventId,
                OnKeyDown (enter_key (vf_eventId s)), Attr ''placeholder'' (js ''e.g. BAL-778812'')])],
          button ''primary'' ''md'' (vf_loading s) (trim (vf_eventId s) = []) [OnClick VfFetch]
            [icon ''IconShieldCheck'', El ''span'' [] [tx ''Verify'']]]]]"

definition upload_card :: "verify_screen \<Rightarrow> verify_event node" where
  "upload_card s = card None None []
     [El ''div'' []
       [El ''div'' []
         [El ''h2'' [] [tx ''Upload a receipt file''],
          El ''p'' [] [tx ''Have a receipt saved as a file? Drop it here to verify it locally.'']],
        El ''label'' [OnDragOver VfDragOver, OnDragLeave VfDragLeave, OnDrop VfDrop,
            Flag ''dragActive'' (vf_dragActive s)]
         [El ''input'' [Attr ''type'' (js ''file''), Attr ''accept'' (js ''.json,application/json''),
            OnFile VfFile] [],
          El ''div'' [] [icon ''IconFileText''],
          El ''div'' []
           [if truthy (vf_fileName s) then Text (the (vf_fileName s))
            else tx ''Drop a .json receipt here''],
          El ''div'' [] [tx ''or click to choose a file'']]]]"

definition paste_card :: "verify_screen \<Rightarrow> verify_event node" where
  "paste_card s = card None None []
     ([El ''button'' [Attr ''type'' (js ''button''), OnClick VfTogglePaste]
        [El ''div'' []
          [El ''span'' [] [tx ''Paste receipt JSON''],
           El ''p'' [] [tx ''For advanced use. Paste the raw receipt or proof JSON directly.'']],
         El ''span'' [Attr ''transform''
            (js (if vf_showPaste s then ''rotate(180deg)'' else ''none''))] [icon ''IconChevronDown'']]]
      @ only_if (vf_showPaste s)
        [El ''div'' []
          [text_area [Attr ''value'' (vf_receipt s), OnChange VfReceipt,
             Attr ''placeholder''
               (js ''Paste receipt or proof JSON here: {\"event\": { ... }, \"merkle_root\": \"...\"}'')],
           button ''secondary'' ''md'' (vf_loading s) (trim (vf_receipt s) = []) [OnClick VfPasted]
             [icon ''IconShieldCheck'', El ''span'' [] [tx ''Verify pasted receipt'']]]])"

definition verify_view :: "verify_screen \<Rightarrow> verify_event node" where
  "verify_view s = El ''div'' []
     ([page_header (js ''Verify a receipt'')
         (Some (js ''Verify it yourself. Recompute a receipt's cryptographic proofs against the notary's public key and its external anchor, right here in your browser.''))
         None [],
       by_id_card s, upload_card s, paste_card s]
      @ if_truthy (vf_error s) (\<lambda>m. [error_box m])
      @ if_some (vf_result s) (\<lambda>r. [verification_report r]))"

lemma fires_verify_view: "can_fire (verify_view s) e \<Longrightarrow>
   (\<exists>v. e = VfEventId v) \<or> (e = VfFetch \<and> trim (vf_eventId s) \<noteq> [])
   \<or> e = VfDragOver \<or> e = VfDragLeave \<or> (\<exists>f. e = VfDrop f) \<or> (\<exists>f. e = VfFile f)
   \<or> e = VfTogglePaste \<or> (\<exists>v. e = VfReceipt v)
   \<or> (e = VfPasted \<and> \<not> vf_loading s \<and> trim (vf_receipt s) \<noteq> [])"
  by (auto simp: verify_view_def by_id_card_def upload_card_def paste_card_def enter_key_def
      split: if_splits)

lemmas verify_defs =
  verifyProof_def verifyProof_settled_def fetchAndVerify_def fetchAndVerify_settled_def
  verifyPasted_def handleFile_def file_loaded_def

section \<open>What the report says\<close>

lemma texts_card_report: "texts (card (Some (js t)) (Some (js u)) [] ks) =
    (if t = [] then [] else js t # (if u = [] then [] else [js u])) @ texts_of ks"
  by (cases t; cases u) (auto simp: card_def js_def)

lemma report_texts:
  "texts (verification_report r) =
     [js ''Verification report'', js ''Recomputed independently, so no trust in Babit is required.'']
     @ (if vp_valid r = Some True
        then [js ''Verified. All checks passed.'', js ''This receipt is cryptographically sound.'']
        else [js ''Verification failed'', js ''One or more cryptographic checks did not pass.''])
     @ concat (map (\<lambda>(key, label, desc). [label, desc,
          js (if key r = Some True then ''VALID'' else ''FAILED'')]) verify_checks)
     @ (case vp_reason r of None \<Rightarrow> [] | Some t \<Rightarrow>
          if t = [] then [] else [js ''Failure reason: '' @ t])
     @ [js ''Independent verification complete'']"
  by (cases "vp_reason r")
     (auto simp: verification_report_def Let_def texts_card_report verify_checks_def check_row_def
        pill_label_def if_truthy_def)

text \<open>The mark a reader finds at a label: the text after the label and its description.\<close>

definition mark_at :: "string \<Rightarrow> jstr list \<Rightarrow> jstr option" where
  "mark_at label ts = (case dropWhile (\<lambda>t. t \<noteq> js label) ts of l # description # m # _ \<Rightarrow> Some m | _ \<Rightarrow> None)"

text \<open>C19. What a reader of a report finds: "Verified" exactly when the answer's \<open>valid\<close> is true, whatever
  the checks are, and "Verification failed" otherwise; at "Notary signature", "Hash chain", "Delegation
  authority" and "External anchor" the mark VALID exactly when the answer's \<open>signature_valid\<close>,
  \<open>chain_intact\<close>, \<open>authority_valid\<close> and \<open>anchored\<close>, in this order, is true, an absent flag being marked
  FAILED; a failure reason exactly when there is one that is not empty; and at the end
  "Independent verification complete" whatever the outcome was.\<close>
theorem texts_verification_report:
  "let ts = texts (verification_report r);
       mark = (\<lambda>flag. Some (js (if flag = Some True then ''VALID'' else ''FAILED''))) in
   (js ''Verified. All checks passed.'' \<in> set ts \<longleftrightarrow> vp_valid r = Some True)
   \<and> (js ''Verification failed'' \<in> set ts \<longleftrightarrow> vp_valid r \<noteq> Some True)
   \<and> mark_at ''Notary signature'' ts = mark (vp_signature_valid r)
   \<and> mark_at ''Hash chain'' ts = mark (vp_chain_intact r)
   \<and> mark_at ''Delegation authority'' ts = mark (vp_authority_valid r)
   \<and> mark_at ''External anchor'' ts = mark (vp_anchored r)
   \<and> (js ''Failure reason: '' @ t \<in> set ts \<longleftrightarrow> vp_reason r = Some t \<and> t \<noteq> [])
   \<and> last ts = js ''Independent verification complete''"
proof -
  define reason where "reason = (case vp_reason r of None \<Rightarrow> [] | Some t \<Rightarrow> if t = [] then [] else [js ''Failure reason: '' @ t])"
  define ok where "ok flag = js (if flag = Some True then ''VALID'' else ''FAILED'')" for flag
  have ts: "texts (verification_report r) =
      [js ''Verification report'', js ''Recomputed independently, so no trust in Babit is required.'']
      @ (if vp_valid r = Some True
         then [js ''Verified. All checks passed.'', js ''This receipt is cryptographically sound.'']
         else [js ''Verification failed'', js ''One or more cryptographic checks did not pass.''])
      @ [js ''Notary signature'', js ''Signature matches the notary's public key'', ok (vp_signature_valid r),
         js ''Hash chain'', js ''Each entry links to the one before it with an unbroken SHA-256 chain'',
         ok (vp_chain_intact r),
         js ''Delegation authority'', js ''The action stays within the granted resource scope and depth limits'',
         ok (vp_authority_valid r),
         js ''External anchor'', js ''An independent timestamp confirms when the receipt was recorded'',
         ok (vp_anchored r)]
      @ reason @ [js ''Independent verification complete'']"
    by (simp add: report_texts verify_checks_def reason_def ok_def)
  have ok: "ok flag \<noteq> js x" "js x \<noteq> ok flag" if "x \<noteq> ''VALID''" "x \<noteq> ''FAILED''" for flag x
    using that by (simp_all add: ok_def)
  have ok': "js ''Failure reason: '' @ x \<noteq> ok flag" for flag x
    using js_prefix_neq [of "''Failure reason: ''"] by (simp add: ok_def)
  have why: "js y \<notin> set reason" if "\<not> prefix ''Failure reason: '' y" for y
    using js_prefix_neq [OF that] not_sym [OF js_prefix_neq [OF that]] by (cases "vp_reason r") (simp_all add: reason_def)
  have why': "js ''Failure reason: '' @ t \<in> set reason \<longleftrightarrow> vp_reason r = Some t \<and> t \<noteq> []"
    by (cases "vp_reason r") (auto simp: reason_def)
  have head: "js ''Verified. All checks passed.'' \<in> set (texts (verification_report r)) \<longleftrightarrow> vp_valid r = Some True"
    "js ''Verification failed'' \<in> set (texts (verification_report r)) \<longleftrightarrow> vp_valid r \<noteq> Some True"
    by (cases "vp_valid r = Some True"; simp add: ts ok why)+
  have marks: "mark_at ''Notary signature'' (texts (verification_report r)) = Some (ok (vp_signature_valid r))"
    "mark_at ''Hash chain'' (texts (verification_report r)) = Some (ok (vp_chain_intact r))"
    "mark_at ''Delegation authority'' (texts (verification_report r)) = Some (ok (vp_authority_valid r))"
    "mark_at ''External anchor'' (texts (verification_report r)) = Some (ok (vp_anchored r))"
    by (cases "vp_valid r = Some True"; simp add: ts mark_at_def ok)+
  have "js ''Failure reason: '' @ t \<in> set (texts (verification_report r)) \<longleftrightarrow> vp_reason r = Some t \<and> t \<noteq> []"
    by (cases "vp_valid r = Some True"; simp add: ts ok' why' js_prefix_neq)
  moreover have "last (texts (verification_report r)) = js ''Independent verification complete''"
    by (simp add: ts)
  ultimately show ?thesis using head marks unfolding Let_def ok_def by blast
qed

section \<open>Invariant\<close>

text \<open>
  No proof is requested for a blank event id; the screen loads only while a verification is
  pending, and shows no result then; a result comes from a verification that was requested.
\<close>

definition verify_inv :: "verify_screen \<Rightarrow> bool" where
  "verify_inv s \<longleftrightarrow>
     (\<forall>i. GetProof i \<in> set (vf_requests s) \<longrightarrow> trim i \<noteq> [])
     \<and> (\<forall>q\<in>set (vf_requests s). (\<exists>i. q = GetProof i) \<or> (\<exists>p. q = VerifyProof p))
     \<and> (vf_loading s \<longrightarrow> VfPostVerify \<in> set (vf_pending s) \<and> vf_result s = None)
     \<and> (VfPostVerify \<in> set (vf_pending s) \<or> vf_result s \<noteq> None \<longrightarrow>
          (\<exists>p. VerifyProof p \<in> set (vf_requests s)))"

lemma verify_inv_init: "verify_inv verify_init"
  by (simp add: verify_inv_def verify_init_def)

lemma verify_inv_verifyProof: "verify_inv s \<Longrightarrow> verify_inv (verifyProof p s)"
  by (auto simp: verify_inv_def verifyProof_def)

lemma verify_inv_error [simp]: "verify_inv (s\<lparr>vf_error := x\<rparr>) = verify_inv s"
  "verify_inv (s\<lparr>vf_receipt := y\<rparr>) = verify_inv s"
  "verify_inv (s\<lparr>vf_fileName := x\<rparr>) = verify_inv s"
  "verify_inv (s\<lparr>vf_reading := z\<rparr>) = verify_inv s"
  by (simp_all add: verify_inv_def)

lemma verify_inv_pasted: "verify_inv s \<Longrightarrow> verify_inv (verifyPasted t s)"
  by (auto simp: verifyPasted_def Let_def verify_inv_verifyProof split: option.splits jsval.splits)

lemma verify_inv_loaded: "verify_inv s \<Longrightarrow> verify_inv (file_loaded n c s)"
  by (simp add: file_loaded_def verify_inv_pasted)

lemma verify_inv_settled:
  assumes "verify_inv s" "i < length (vf_pending s)" "vf_pending s ! i = VfPostVerify"
  shows "verify_inv (verifyProof_settled r (s\<lparr>vf_pending := remove_nth i (vf_pending s)\<rparr>))"
proof -
  from assms(2,3) have "VfPostVerify \<in> set (vf_pending s)" by (metis nth_mem)
  with assms(1) show ?thesis
    by (auto simp: verify_inv_def verifyProof_settled_def split: reply.splits dest: in_remove_nthD)
qed

lemma verify_inv_fetch_settled:
  assumes "verify_inv s" "i < length (vf_pending s)" "vf_pending s ! i = VfGetProof"
  shows "verify_inv (fetchAndVerify_settled r (s\<lparr>vf_pending := remove_nth i (vf_pending s)\<rparr>))"
proof -
  have "VfPostVerify \<in> set (remove_nth i (vf_pending s)) \<longleftrightarrow> VfPostVerify \<in> set (vf_pending s)"
    using assms(3) by (auto intro: in_remove_nth dest: in_remove_nthD)
  with assms(1) have "verify_inv (s\<lparr>vf_pending := remove_nth i (vf_pending s)\<rparr>)"
    by (auto simp: verify_inv_def)
  then show ?thesis
    by (auto simp: fetchAndVerify_settled_def Let_def verify_inv_verifyProof split: reply.splits)
qed

lemma verify_inv_user: "verify_inv s \<Longrightarrow> can_fire (verify_view s) e \<Longrightarrow> verify_inv (verify_step s e)"
  by (drule fires_verify_view)
     (auto simp: Let_def handleFile_def fetchAndVerify_def verify_inv_pasted split: option.splits,
      auto simp: verify_inv_def)

lemma verify_inv_outside: "verify_inv s \<Longrightarrow> verify_outside e \<Longrightarrow> verify_inv (verify_step s e)"
  by (cases e) (auto intro: verify_inv_settled verify_inv_fetch_settled simp: verify_inv_loaded)

interpretation vfs: screen verify_init verify_step verify_view verify_outside verify_inv
  by unfold_locales (auto intro: verify_inv_init verify_inv_user verify_inv_outside)

text \<open>C15. No action of the user and no answer, in any order, brings the verification screen to ask
  for the proof of a blank event id, to load without a verification in flight, to show a result
  while it loads, or to show a result when no verification was ever posted.
\<close>
theorem verify_screen_reachable:
  assumes "ui_reach verify_init verify_step verify_view verify_outside s"
  shows "(\<forall>i. GetProof i \<in> set (vf_requests s) \<longrightarrow> trim i \<noteq> [])
     \<and> (vf_loading s \<longrightarrow> VfPostVerify \<in> set (vf_pending s) \<and> vf_result s = None)
     \<and> (vf_result s \<noteq> None \<longrightarrow> (\<exists>p. VerifyProof p \<in> set (vf_requests s)))"
  using vfs.reach_inv [OF assms] by (simp add: verify_inv_def)

theorem verify_screen_reachable_witness:
  "\<exists>s. ui_reach verify_init verify_step verify_view verify_outside s \<and> vf_eventId s = js ''BAL-1''
     \<and> vf_requests s = [GetProof (js ''BAL-1'')] \<and> \<not> vf_loading s"
proof -
  let ?s = "verify_step verify_init (VfEventId (js ''BAL-1''))"
  have "ui_reach verify_init verify_step verify_view verify_outside ?s"
    by (rule ui_user [OF ui_init]) (simp add: verify_view_def by_id_card_def)
  then have r: "ui_reach verify_init verify_step verify_view verify_outside (verify_step ?s VfFetch)"
    by (rule ui_user) (simp add: verify_view_def by_id_card_def verify_init_def trim_def is_ws_def ws_units_def js_def)
  moreover have "vf_requests (verify_step ?s VfFetch) = [GetProof (js ''BAL-1'')]"
    "vf_eventId (verify_step ?s VfFetch) = js ''BAL-1''"
    "VfPostVerify \<notin> set (vf_pending (verify_step ?s VfFetch))"
    by (simp_all add: verify_init_def fetchAndVerify_def)
  ultimately show ?thesis using verify_screen_reachable [OF r] by blast
qed

section \<open>A whole verification\<close>

text \<open>Sample values, for concrete instances.\<close>

definition demo_proof :: v1Proof where
  "demo_proof = \<lparr>pf_event = None, pf_merkle_path = Some [js ''ab'', js ''cd''],
     pf_merkle_root = Some (js ''ef''), pf_anchor = None, pf_delegation_chain = None\<rparr>"

definition demo_answer :: v1VerifyProofResponse where
  "demo_answer = \<lparr>vp_valid = Some True, vp_chain_intact = Some True, vp_signature_valid = Some True,
     vp_anchored = Some False, vp_authority_valid = Some True, vp_reason = None\<rparr>"

text \<open>C6. Verification by event id, end to end: fetching asks the API for the proof of the entered
  id, the proof that comes back is posted for verification unchanged, and the answer is what the
  screen then reports, with nothing loading, no error and nothing pending.\<close>
theorem verify_by_id:
  assumes "vf_pending s = []" "\<not> js_truthy err" "\<not> js_truthy err'"
  shows "let s' = run verify_step s [VfFetch, VfProofReply 0 (Resolved (Some (Some p)) err),
             VfVerifyReply 0 (Resolved (Some d) err')] in
         vf_result s' = Some d \<and> vf_error s' = None \<and> \<not> vf_loading s' \<and> vf_pending s' = []
         \<and> vf_requests s' = vf_requests s @ [GetProof (vf_eventId s), VerifyProof (json_of_proof p)]
         \<and> suffix (texts (verification_report d :: verify_event node)) (texts (verify_view s'))"
proof -
  have "suffix (texts (verification_report d :: verify_event node)) (texts (verify_view t))"
    if "vf_result t = Some d" for t
    by (simp only: verify_view_def texts.simps texts_of_append that if_some_simps texts_of.simps
        append_Nil2 append_assoc [symmetric]) (rule suffixI, rule refl)
  moreover have "let s' = run verify_step s [VfFetch, VfProofReply 0 (Resolved (Some (Some p)) err),
             VfVerifyReply 0 (Resolved (Some d) err')] in
         vf_result s' = Some d \<and> vf_error s' = None \<and> \<not> vf_loading s' \<and> vf_pending s' = []
         \<and> vf_requests s' = vf_requests s @ [GetProof (vf_eventId s), VerifyProof (json_of_proof p)]"
    using assms by (simp add: verify_defs)
  ultimately show ?thesis by (simp add: Let_def)
qed

theorem verify_by_id_witness:
  "let s' = run verify_step (verify_init\<lparr>vf_eventId := js ''BAL-1''\<rparr>)
         [VfFetch, VfProofReply 0 (Resolved (Some (Some demo_proof)) JUndef),
          VfVerifyReply 0 (Resolved (Some demo_answer) JUndef)] in
     vf_result s' = Some demo_answer
     \<and> vf_requests s' = [GetProof (js ''BAL-1''), VerifyProof (json_of_proof demo_proof)]
     \<and> suffix (texts (verification_report demo_answer :: verify_event node)) (texts (verify_view s'))"
  using verify_by_id [of "verify_init\<lparr>vf_eventId := js ''BAL-1''\<rparr>" JUndef JUndef demo_proof demo_answer]
  by (simp add: verify_init_def Let_def)

text \<open>A pasted receipt and a pasted proof post the same proof.\<close>

lemma pasted_receipt:
  assumes "json_parse t = Some v" "v \<noteq> JNull" "\<And>m n. v \<noteq> JExn m n"
  shows "vf_requests (verifyPasted t s) = vf_requests s @
    [VerifyProof (case v of JObj fs \<Rightarrow>
        (case map_of fs (js ''proof'') of None \<Rightarrow> v | Some JUndef \<Rightarrow> v | Some JNull \<Rightarrow> v | Some p \<Rightarrow> p)
      | _ \<Rightarrow> v)]"
  using assms
  by (auto simp: verifyPasted_def verifyProof_def get_field_def Let_def
      split: jsval.splits option.splits)

text \<open>A failure that looks like a success: the screen keeps the report of an earlier receipt
  when the fetch for another id fails, and shows it below the new error.\<close>
theorem stale_report:
  assumes "vf_result s = Some d" "vf_pending s = []"
  shows "let s' = run verify_step s [VfFetch, VfProofReply 0 (Resolved None err)] in
         vf_result s' = Some d \<and> vf_error s' = Some (errText err)"
  using assms by (simp add: verify_defs)

theorem stale_report_witness:
  "vf_result (run verify_step (verify_init\<lparr>vf_result := Some demo_answer\<rparr>)
     [VfFetch, VfProofReply 0 (Resolved None (JStr (js ''no such event'')))]) = Some demo_answer"
  using stale_report [of "verify_init\<lparr>vf_result := Some demo_answer\<rparr>" demo_answer
      "JStr (js ''no such event'')"]
  by (simp add: verify_init_def Let_def)

end
