(* ===== verification/Router.thy ===== *)
theory Router
  imports Dom
begin

text \<open>
  \<open>src/lib/router.tsx\<close>: the path state kept beside the browser's session history. The history
  is the list of visited URLs, the current one first, and the list ahead of it; a URL carries
  a path, a search and possibly a fragment, and \<open>location.pathname + location.search\<close> is the
  URL without its fragment. A URL is stored as it is given: the browser leaves the plain addresses
  defined below as they are; its rewriting of others (spaces, dot segments, repeated slashes) and its
  refusal of another host are not modelled, and what is proved of addresses assumes plain ones.
  The \<open>history_nav\<close> locale is what the rest of the console relies
  on: where a navigation leads and that repeating it changes nothing.
\<close>

record router =
  rt_entries :: "jstr list"
  rt_ahead :: "jstr list"
  rt_path :: jstr
  rt_scrolls :: nat

definition strip_hash :: "jstr \<Rightarrow> jstr" where
  "strip_hash url = takeWhile (\<lambda>u. u \<noteq> 35) url"

definition location :: "router \<Rightarrow> jstr" where
  "location r = strip_hash (hd (rt_entries r))"

definition getPath :: "router \<Rightarrow> jstr" where
  "getPath r = or_str (Some (location r)) (js ''/'')"

definition to_url :: "jstr \<Rightarrow> jstr" where
  "to_url to = (if prefix (js ''/'') to then to else js ''/'' @ to)"

definition navigate :: "jstr \<Rightarrow> router \<Rightarrow> router" where
  "navigate to r =
     (let url = to_url to in
      if url = location r then r
      else r\<lparr>rt_entries := url # rt_entries r, rt_ahead := [], rt_path := url,
             rt_scrolls := rt_scrolls r + 1\<rparr>)"

text \<open>The browser's back and forward buttons move along the history and fire \<open>popstate\<close>.\<close>

definition handlePop :: "router \<Rightarrow> router" where
  "handlePop r = r\<lparr>rt_path := getPath r\<rparr>"

definition go_back :: "router \<Rightarrow> router" where
  "go_back r = (case rt_entries r of
     u # v # us \<Rightarrow> handlePop (r\<lparr>rt_entries := v # us, rt_ahead := u # rt_ahead r\<rparr>)
   | _ \<Rightarrow> r)"

definition go_forward :: "router \<Rightarrow> router" where
  "go_forward r = (case rt_ahead r of
     [] \<Rightarrow> r
   | u # us \<Rightarrow> handlePop (r\<lparr>rt_entries := u # rt_entries r, rt_ahead := us\<rparr>))"

definition router_start :: "jstr \<Rightarrow> router" where
  "router_start url = handlePop \<lparr>rt_entries = [url], rt_ahead = [], rt_path = [], rt_scrolls = 0\<rparr>"

datatype router_event = Navigate jstr | Back | Forward

fun router_step :: "router \<Rightarrow> router_event \<Rightarrow> router" where
  "router_step r (Navigate to) = navigate to r"
| "router_step r Back = go_back r"
| "router_step r Forward = go_forward r"

section \<open>Links\<close>

record mouse_event =
  me_metaKey :: bool
  me_ctrlKey :: bool
  me_shiftKey :: bool
  me_altKey :: bool
  me_button :: nat

text \<open>
  The click handler of \<open>Link\<close>: a modified or non-primary click is left to the browser
  (\<open>None\<close>); otherwise the default is prevented, the router navigates and the caller's own
  handler runs after it.
\<close>

definition link_click :: "mouse_event \<Rightarrow> jstr \<Rightarrow> (router \<Rightarrow> router) \<Rightarrow> router \<Rightarrow> router option" where
  "link_click e to onClick r =
     (if me_metaKey e \<or> me_ctrlKey e \<or> me_shiftKey e \<or> me_altKey e \<or> me_button e \<noteq> 0 then None
      else Some (onClick (navigate to r)))"

definition link :: "(jstr \<Rightarrow> 'e) \<Rightarrow> jstr \<Rightarrow> 'e attr list \<Rightarrow> 'e node list \<Rightarrow> 'e node" where
  "link nav to props children = El ''a'' ([Attr ''href'' (to_url to), OnClick (nav to)] @ props) children"

lemma fires_link [simp]:
  "can_fire (link nav to ps ks) e \<longleftrightarrow>
     \<not> disabled ps \<and> (e = nav to \<or> attrs_fire (submit_ready_in ks) ps e) \<or> fires_in ks e"
  by (simp add: link_def)

section \<open>The path follows the address bar\<close>

lemma strip_hash_idem [simp]: "strip_hash (strip_hash u) = strip_hash u"
  by (simp add: strip_hash_def takeWhile_idem)

lemma strip_hash_id: "35 \<notin> set u \<Longrightarrow> strip_hash u = u"
  by (auto simp: strip_hash_def takeWhile_eq_all_conv)

lemma to_url_slash: "prefix (js ''/'') (to_url to)"
  by (simp add: to_url_def)

lemma to_url_idem [simp]: "to_url (to_url to) = to_url to"
  by (simp add: to_url_def)

lemma strip_hash_slash: "prefix (js ''/'') u \<Longrightarrow> prefix (js ''/'') (strip_hash u)"
  by (cases u) (auto simp: js_def strip_hash_def)

definition router_inv :: "router \<Rightarrow> bool" where
  "router_inv r \<longleftrightarrow> rt_entries r \<noteq> []
     \<and> (\<forall>u\<in>set (rt_entries r) \<union> set (rt_ahead r). prefix (js ''/'') u)
     \<and> strip_hash (rt_path r) = location r"

lemma getPath_location: "rt_entries r \<noteq> [] \<Longrightarrow> prefix (js ''/'') (hd (rt_entries r)) \<Longrightarrow>
    getPath r = location r"
proof -
  assume "prefix (js ''/'') (hd (rt_entries r))"
  then have "prefix (js ''/'') (location r)" by (simp add: location_def strip_hash_slash)
  then have "location r \<noteq> []" by (auto simp: js_def)
  then show ?thesis by (simp add: getPath_def or_str_Some)
qed

lemma router_inv_navigate: "router_inv r \<Longrightarrow> router_inv (navigate to r)"
  using to_url_slash [of to] by (auto simp: router_inv_def navigate_def Let_def location_def)

lemma router_inv_pop:
  "rt_entries r \<noteq> [] \<Longrightarrow> (\<forall>u\<in>set (rt_entries r) \<union> set (rt_ahead r). prefix (js ''/'') u) \<Longrightarrow>
   router_inv (handlePop r)"
proof -
  assume ne: "rt_entries r \<noteq> []"
    and sl: "\<forall>u\<in>set (rt_entries r) \<union> set (rt_ahead r). prefix (js ''/'') u"
  then have "getPath r = location r" by (intro getPath_location) auto
  then show ?thesis using ne sl by (simp add: router_inv_def handlePop_def location_def)
qed

lemma router_inv_back: "router_inv r \<Longrightarrow> router_inv (go_back r)"
  by (auto simp: go_back_def split: list.splits intro!: router_inv_pop) (auto simp: router_inv_def)

lemma router_inv_forward: "router_inv r \<Longrightarrow> router_inv (go_forward r)"
  by (auto simp: go_forward_def split: list.splits intro!: router_inv_pop) (auto simp: router_inv_def)

lemma router_inv_start: "prefix (js ''/'') url \<Longrightarrow> router_inv (router_start url)"
  unfolding router_start_def by (rule router_inv_pop) auto

lemma router_inv_step: "router_inv r \<Longrightarrow> router_inv (router_step r e)"
  by (cases e) (auto intro: router_inv_navigate router_inv_back router_inv_forward)

section \<open>The interface of the router\<close>

text \<open>
  \<open>nav\<close> leads to its target, and repeated to a target without a fragment it is a no-op, so a
  handler that navigates twice leaves one history entry.
\<close>

locale history_nav =
  fixes nav :: "jstr \<Rightarrow> 'r \<Rightarrow> 'r" and loc :: "'r \<Rightarrow> jstr" and url :: "jstr \<Rightarrow> jstr"
  assumes nav_at: "35 \<notin> set to \<Longrightarrow> loc (nav to r) = url to"
    and nav_stay: "url to = loc r \<Longrightarrow> nav to r = r"
begin

lemma nav_twice: "35 \<notin> set to \<Longrightarrow> nav to (nav to r) = nav to r"
  by (rule nav_stay) (simp add: nav_at)

lemma nav_last: "35 \<notin> set a \<Longrightarrow> 35 \<notin> set b \<Longrightarrow> loc (nav b (nav a r)) = url b"
  by (simp add: nav_at)

end

lemma to_url_no_hash: "35 \<notin> set to \<Longrightarrow> 35 \<notin> set (to_url to)"
  by (auto simp: to_url_def js_def)

interpretation hist: history_nav navigate location to_url
proof
  show "35 \<notin> set to \<Longrightarrow> location (navigate to r) = to_url to" for to r
    by (auto simp: navigate_def Let_def location_def strip_hash_id to_url_no_hash)
  show "to_url to = location r \<Longrightarrow> navigate to r = r" for to r
    by (simp add: navigate_def)
qed

interpretation rtm: machine "router_start (js ''/'')" router_step router_inv
  by unfold_locales (simp_all add: router_inv_start router_inv_step)

section \<open>Plain addresses\<close>

text \<open>
  The addresses that a browser takes over as they are: absolute, of unreserved units, with no
  \<open>.\<close> or \<open>..\<close> among the segments, no host (\<open>//\<close>) and no empty query. What
  \<open>pushState\<close> makes of others (it resolves dots, escapes spaces and refuses another host) is
  not modelled, so a claim about the address bar is made for plain addresses only.
\<close>

definition plain_unit :: "code_unit \<Rightarrow> bool" where
  "plain_unit u \<longleftrightarrow> 48 \<le> u \<and> u \<le> 57 \<or> 65 \<le> u \<and> u \<le> 90 \<or> 97 \<le> u \<and> u \<le> 122
     \<or> u \<in> set (js ''-_~!$&()*+,;=:@./'')"

definition plain_address :: "jstr \<Rightarrow> bool" where
  "plain_address url =
     (let loc = strip_hash url; path = takeWhile (\<lambda>u. u \<noteq> 63) loc;
          query = drop (length path) loc; fragment = drop (length loc) url in
      prefix (js ''/'') path \<and> \<not> prefix (js ''//'') path \<and> list_all plain_unit path
      \<and> list_all (\<lambda>seg. seg \<noteq> js ''.'' \<and> seg \<noteq> js ''..'') (split_on 47 path)
      \<and> (query = [] \<or> tl query \<noteq> [] \<and> list_all plain_unit (tl query))
      \<and> list_all plain_unit (tl fragment))"

lemma plain_address_slash: "plain_address u \<Longrightarrow> prefix (js ''/'') u"
proof -
  have "prefix (takeWhile P (takeWhile Q xs)) xs" for P Q and xs :: jstr
    by (meson prefix_order.trans takeWhile_is_prefix)
  then show "plain_address u \<Longrightarrow> ?thesis"
    by (auto simp: plain_address_def Let_def strip_hash_def intro: prefix_order.trans)
qed

lemma plain_strip_hash: "plain_address u \<Longrightarrow> plain_address (strip_hash u)"
  by (simp add: plain_address_def Let_def)

fun plain_event :: "router_event \<Rightarrow> bool" where
  "plain_event (Navigate to) \<longleftrightarrow> plain_address (to_url to)"
| "plain_event e \<longleftrightarrow> True"

definition plain_history :: "router \<Rightarrow> bool" where
  "plain_history r \<longleftrightarrow> router_inv r \<and> (\<forall>u\<in>set (rt_entries r) \<union> set (rt_ahead r). plain_address u)"

lemma plain_history_start: "plain_address url \<Longrightarrow> plain_history (router_start url)"
  using router_inv_start [OF plain_address_slash, of url]
  by (auto simp: plain_history_def) (auto simp: router_start_def handlePop_def)

lemma plain_history_step: "plain_history r \<Longrightarrow> plain_event e \<Longrightarrow> plain_history (router_step r e)"
  using router_inv_step [of r e]
  by (cases e)
     (auto simp: plain_history_def navigate_def Let_def go_back_def go_forward_def handlePop_def split: list.splits)

lemma plain_history_run:
  "plain_history r \<Longrightarrow> list_all plain_event es \<Longrightarrow> plain_history (run router_step r es)"
  by (induction es arbitrary: r) (simp_all add: plain_history_step del: router_step.simps)

section \<open>The address bar over a whole visit\<close>

text \<open>C25. A visit starts at any plain address (absolute, unreserved units, no dot segments, no host)
  and follows links to plain addresses and the browser's back and forward buttons in any order.
  Then the path the router renders agrees with the address bar up to the fragment, which the
  router does not render; the address is plain, and is what a reload would render. A navigation to
  the address shown, its fragment aside, changes nothing; one to another address shows it,
  and going back from there restores the history and renders the address before it.
\<close>
theorem path_follows_address:
  assumes "plain_address url" and "list_all plain_event es" and "plain_address (to_url to)"
    and "r = run router_step (router_start url) es"
  shows "strip_hash (rt_path r) = location r \<and> getPath r = location r \<and> plain_address (location r)
    \<and> (if to_url to = location r then navigate to r = r
       else rt_path (navigate to r) = to_url to \<and> location (navigate to r) = strip_hash (to_url to)
         \<and> rt_entries (go_back (navigate to r)) = rt_entries r
         \<and> rt_path (go_back (navigate to r)) = location r)"
proof -
  have h: "plain_history r"
    unfolding assms(4) using assms(1,2) by (intro plain_history_run plain_history_start)
  then obtain u us where e: "rt_entries r = u # us" by (auto simp: plain_history_def router_inv_def neq_Nil_conv)
  with h have u: "plain_address u" "router_inv r" by (simp_all add: plain_history_def)
  then have path: "getPath r = location r"
    using e plain_address_slash by (intro getPath_location) simp_all
  then have "getPath (go_back (navigate to r)) = location r" if "to_url to \<noteq> location r"
    using that e by (simp add: navigate_def Let_def go_back_def handlePop_def getPath_def location_def)
  then show ?thesis using u e path plain_strip_hash [OF u(1)]
    by (simp add: router_inv_def location_def) (simp add: navigate_def Let_def go_back_def handlePop_def location_def getPath_def)
qed

theorem path_follows_address_witness:
  "let r = run router_step (router_start (js ''/pricing?plan=team'')) [Navigate (js ''/login''), Back, Forward] in
   rt_path (navigate (js ''dashboard/verify'') r) = js ''/dashboard/verify''
     \<and> rt_path (go_back (navigate (js ''dashboard/verify'') r)) = js ''/login''"
proof -
  let ?r = "run router_step (router_start (js ''/pricing?plan=team'')) [Navigate (js ''/login''), Back, Forward]"
  have l: "location ?r = js ''/login''" by code_simp
  have "plain_address (js ''/pricing?plan=team'') \<and> plain_address (to_url (js ''/login''))
      \<and> plain_address (to_url (js ''dashboard/verify''))" by code_simp
  moreover have "to_url (js ''dashboard/verify'') = js ''/dashboard/verify''"
    "js ''/dashboard/verify'' \<noteq> js ''/login''" by (simp_all add: to_url_def js_def)
  ultimately show ?thesis
    using path_follows_address [of "js ''/pricing?plan=team''" _ "js ''dashboard/verify''", OF _ _ _ refl] l
    by (simp add: Let_def del: foldl_Cons)
qed

end
