(* ===== verification/Auth.thy ===== *)
theory Auth
  imports Api Router
begin

text \<open>
  \<open>src/lib/auth.tsx\<close>: the session of the console. The provider's state is the client it
  shares with every request, the token, user and branding it renders with, the loading flag,
  the brand colours it writes on the document, and the handlers that are suspended in an
  \<open>await\<close>, in the order they were issued. A reply resumes one of them; \<open>refreshMe\<close> is called
  on its own or awaited by a login, which then returns to its caller.
\<close>

section \<open>Brand colours\<close>

definition is_hex_unit :: "code_unit \<Rightarrow> bool" where
  "is_hex_unit u \<longleftrightarrow> hex_digit u \<noteq> None"

definition isValidHexColor :: "jstr \<Rightarrow> bool" where
  "isValidHexColor s = (case s of
     [] \<Rightarrow> False
   | u # ds \<Rightarrow> u = 35 \<and> list_all is_hex_unit ds \<and> length ds \<in> {3, 6, 8})"

record brand_css =
  bc_accent :: "jstr option"
  bc_subtle :: "jstr option"
  bc_border :: "jstr option"

definition brand_effect :: "v1Branding option \<Rightarrow> brand_css" where
  "brand_effect branding =
     (let color = Option.bind branding br_brand_color in
      if truthy color \<and> isValidHexColor (the color)
      then \<lparr>bc_accent = color, bc_subtle = Some (the color @ js ''14''),
            bc_border = Some (the color @ js ''33'')\<rparr>
      else \<lparr>bc_accent = None, bc_subtle = None, bc_border = None\<rparr>)"

section \<open>The provider\<close>

datatype login_outcome = LoginSuccess | LoginFailure jstr

text \<open>
  A suspended handler: \<open>refreshMe\<close> waits for its reply, on its own or for a login handler;
  a login or signup handler waits for the session.
\<close>

datatype auth_wait = WaitMe bool | WaitSession

record auth =
  au_client :: client
  au_token :: "jstr option"
  au_user :: "v1User option"
  au_branding :: "v1Branding option"
  au_loading :: bool
  au_css :: brand_css
  au_pending :: "auth_wait list"
  au_requests :: "api_request list"
  au_returned :: "login_outcome list"

text \<open>Every update of the branding is followed by the effect on it.\<close>

definition setBranding :: "v1Branding option \<Rightarrow> auth \<Rightarrow> auth" where
  "setBranding b a = a\<lparr>au_branding := b, au_css := brand_effect b\<rparr>"

definition set_session :: "jstr option \<Rightarrow> auth \<Rightarrow> auth" where
  "set_session t a = a\<lparr>au_client := setAuthToken t (au_client a), au_token := t\<rparr>"

definition drop_session :: "auth \<Rightarrow> auth" where
  "drop_session a = setBranding None ((set_session None a)\<lparr>au_user := None\<rparr>)"

definition refreshMe :: "bool \<Rightarrow> auth \<Rightarrow> auth" where
  "refreshMe awaited a = a\<lparr>au_loading := True, au_pending := au_pending a @ [WaitMe awaited],
     au_requests := au_requests a @ [GetMe]\<rparr>"

definition refreshMe_settled :: "v1MeResponse reply \<Rightarrow> auth \<Rightarrow> auth" where
  "refreshMe_settled r a =
     (case r of
        Resolved (Some d) err \<Rightarrow> setBranding (me_branding d) (a\<lparr>au_user := me_user d\<rparr>)
      | Resolved None err \<Rightarrow> drop_session a
      | Rejected e \<Rightarrow> drop_session a)\<lparr>au_loading := False\<rparr>"

text \<open>The mount effect runs \<open>refreshMe\<close>; the token state starts as the client's token.\<close>

definition auth_mount :: "client \<Rightarrow> auth" where
  "auth_mount c = refreshMe False
     \<lparr>au_client = c, au_token = getAuthToken c, au_user = None, au_branding = None,
      au_loading = True, au_css = brand_effect None, au_pending = [], au_requests = [],
      au_returned = []\<rparr>"

definition login :: "jstr \<Rightarrow> jstr \<Rightarrow> auth \<Rightarrow> auth" where
  "login email password a = a\<lparr>au_pending := au_pending a @ [WaitSession],
     au_requests := au_requests a @ [PostLogin email password]\<rparr>"

definition signup :: "signup_body \<Rightarrow> auth \<Rightarrow> auth" where
  "signup params a = a\<lparr>au_pending := au_pending a @ [WaitSession],
     au_requests := au_requests a @ [PostSignup params]\<rparr>"

text \<open>\<open>login\<close> and \<open>signup\<close> continue alike once the session request settles.\<close>

definition session_settled :: "v1LoginResponse reply \<Rightarrow> auth \<Rightarrow> auth" where
  "session_settled r a = (case r of
     Rejected e \<Rightarrow> a\<lparr>au_returned := au_returned a @ [LoginFailure (errText e)]\<rparr>
   | Resolved data err \<Rightarrow>
       if js_truthy err \<or> \<not> truthy (Option.bind data lr_token)
       then a\<lparr>au_returned := au_returned a @ [LoginFailure (errText err)]\<rparr>
       else (let a' = set_session (lr_token (the data)) a in
         refreshMe True
           (if lr_user (the data) \<noteq> None then a'\<lparr>au_user := lr_user (the data)\<rparr> else a')))"

definition logout :: "auth \<Rightarrow> auth" where
  "logout a = drop_session (a\<lparr>au_client := clearSessionCookie (au_client a)\<rparr>)"

definition isAuthenticated :: "auth \<Rightarrow> bool" where
  "isAuthenticated a \<longleftrightarrow> truthy (au_token a) \<or> au_user a \<noteq> None"

datatype auth_event =
    Login jstr jstr
  | Signup signup_body
  | Logout
  | RefreshMe
  | MeReply nat "v1MeResponse reply"
  | SessionReply nat "v1LoginResponse reply"

fun auth_step :: "auth \<Rightarrow> auth_event \<Rightarrow> auth" where
  "auth_step a (Login email password) = login email password a"
| "auth_step a (Signup params) = signup params a"
| "auth_step a Logout = logout a"
| "auth_step a RefreshMe = refreshMe False a"
| "auth_step a (MeReply i r) =
     (if i < length (au_pending a) then
        (case au_pending a ! i of
           WaitMe awaited \<Rightarrow>
             (let a' = refreshMe_settled r (a\<lparr>au_pending := remove_nth i (au_pending a)\<rparr>) in
              if awaited then a'\<lparr>au_returned := au_returned a' @ [LoginSuccess]\<rparr> else a')
         | WaitSession \<Rightarrow> a)
      else a)"
| "auth_step a (SessionReply i r) =
     (if i < length (au_pending a) \<and> au_pending a ! i = WaitSession
      then session_settled r (a\<lparr>au_pending := remove_nth i (au_pending a)\<rparr>)
      else a)"

text \<open>The effect of \<open>useRequireAuth\<close>.\<close>

definition useRequireAuth :: "auth \<Rightarrow> router \<Rightarrow> router" where
  "useRequireAuth a r =
     (if \<not> au_loading a \<and> \<not> isAuthenticated a then navigate (js ''/login'') r else r)"

lemmas auth_defs =
  setBranding_def set_session_def drop_session_def refreshMe_def refreshMe_settled_def
  login_def signup_def session_settled_def logout_def setAuthToken_def getAuthToken_def
  clearSessionCookie_def

section \<open>Invariant\<close>

text \<open>
  The token the screen believes in is the token requests carry, the document wears the colours
  of the current branding, and the screen is loading only while a \<open>refreshMe\<close> is pending.
\<close>

definition auth_inv :: "auth \<Rightarrow> bool" where
  "auth_inv a \<longleftrightarrow>
     cl_auth_token (au_client a) = au_token a
     \<and> au_css a = brand_effect (au_branding a)
     \<and> (au_loading a \<longrightarrow> (\<exists>b. WaitMe b \<in> set (au_pending a)))"

lemma auth_inv_mount: "auth_inv (auth_mount c)"
  by (auto simp: auth_inv_def auth_mount_def auth_defs)

lemma auth_inv_login: "auth_inv a \<Longrightarrow> auth_inv (login e p a)" "auth_inv a \<Longrightarrow> auth_inv (signup b a)"
  by (auto simp: auth_inv_def auth_defs)

lemma auth_inv_refresh: "auth_inv a \<Longrightarrow> auth_inv (refreshMe b a)"
  by (auto simp: auth_inv_def auth_defs)

lemma auth_inv_logout: "auth_inv a \<Longrightarrow> auth_inv (logout a)"
  by (simp add: auth_inv_def auth_defs)

lemma auth_inv_me:
  "cl_auth_token (au_client a) = au_token a \<Longrightarrow> au_css a = brand_effect (au_branding a) \<Longrightarrow>
   auth_inv (refreshMe_settled r a)"
  by (auto simp: auth_inv_def auth_defs split: reply.splits option.splits)

lemma auth_inv_session: "auth_inv a \<Longrightarrow> auth_inv (session_settled r a)"
  by (auto simp: auth_inv_def auth_defs Let_def split: reply.splits)

lemma auth_inv_resume:
  assumes "auth_inv a" "i < length (au_pending a)" "au_pending a ! i = WaitSession"
  shows "auth_inv (a\<lparr>au_pending := remove_nth i (au_pending a)\<rparr>)"
proof -
  have "WaitMe b \<in> set (remove_nth i (au_pending a))" if "WaitMe b \<in> set (au_pending a)" for b
    using that assms by (simp add: in_remove_nth)
  with assms(1) show ?thesis by (auto simp: auth_inv_def)
qed

lemma auth_inv_returned [simp]: "auth_inv (a\<lparr>au_returned := x\<rparr>) = auth_inv a"
  by (simp add: auth_inv_def)

lemma auth_inv_step: "auth_inv a \<Longrightarrow> auth_inv (auth_step a e)"
proof (cases e)
  case (MeReply i r)
  then show "auth_inv a \<Longrightarrow> ?thesis"
    by (auto simp: Let_def split: auth_wait.splits intro!: auth_inv_me) (auto simp: auth_inv_def)
next
  case (SessionReply i r)
  then show "auth_inv a \<Longrightarrow> ?thesis"
    by (auto intro!: auth_inv_session auth_inv_resume)
qed (auto intro: auth_inv_login auth_inv_logout auth_inv_refresh)

section \<open>Races\<close>

text \<open>Sample values, for concrete instances.\<close>

definition demo_client :: client where
  "demo_client = \<lparr>cl_api_key = None, cl_auth_token = None, cl_logouts = 0\<rparr>"

definition demo_user :: v1User where
  "demo_user = \<lparr>us_id = Some (js ''u1''), us_email = Some (js ''a@b.c''), us_account_type = None,
     us_org_name = None, us_org_domain = None, us_industry = None,
     us_created_at = None\<rparr>"

text \<open>A race the provider loses: a profile request that is in flight when the user signs out
  and is answered afterwards signs the user in again on the screen, although the token is gone.\<close>
theorem logout_then_late_me:
  assumes "au_pending a = [WaitMe False]" "me_user d \<noteq> None"
  shows "let a' = auth_step (auth_step a Logout) (MeReply 0 (Resolved (Some d) err)) in
     isAuthenticated a' \<and> au_token a' = None"
  using assms by (simp add: auth_defs isAuthenticated_def)

theorem logout_then_late_me_witness:
  "isAuthenticated (auth_step (auth_step (auth_mount demo_client) Logout)
     (MeReply 0 (Resolved (Some \<lparr>me_user = Some demo_user, me_branding = None\<rparr>) JUndef)))"
proof -
  have "au_pending (auth_mount demo_client) = [WaitMe False]"
    by (simp add: auth_mount_def refreshMe_def)
  then show ?thesis
    using logout_then_late_me [of "auth_mount demo_client"
        "\<lparr>me_user = Some demo_user, me_branding = None\<rparr>" JUndef]
    by (simp add: Let_def del: auth_step.simps)
qed

lemma isAuthenticated_logout [simp]: "\<not> isAuthenticated (logout a)"
  by (simp add: isAuthenticated_def auth_defs)

interpretation aut: machine "auth_mount c" auth_step auth_inv for c
  by unfold_locales (simp_all add: auth_inv_mount auth_inv_step)

section \<open>The session over a whole visit\<close>

text \<open>C8. At any moment of a visit, whatever the order of sign-ins, sign-ups, sign-outs and answers:
  requests carry exactly the token the screen believes in, the document wears the colours of the
  current branding, and the provider says it is loading only while a profile request is pending.
\<close>
theorem session_consistent:
  "let a = run auth_step (auth_mount c) es in
     map_of (request_headers (au_client a)) ''Authorization'' =
       (if truthy (au_token a) then Some (js ''Bearer '' @ the (au_token a)) else None)
     \<and> au_css a = brand_effect (au_branding a)
     \<and> (au_loading a \<longrightarrow> (\<exists>b. WaitMe b \<in> set (au_pending a)))"
  using aut.inv_run [of c es]
  by (auto simp: Let_def auth_inv_def request_headers_def onRequest_def client_headers_def
      getAuthToken_def set_header_def split: if_splits)

theorem session_consistent_witness:
  "let a = run auth_step (auth_mount demo_client) [Login (js ''a@b.c'') (js ''pw'')] in
     au_loading a \<and> (\<exists>b. WaitMe b \<in> set (au_pending a))"
proof -
  have "au_loading (run auth_step (auth_mount demo_client) [Login (js ''a@b.c'') (js ''pw'')])"
    by (simp add: auth_mount_def auth_defs)
  then show ?thesis
    using session_consistent [of demo_client "[Login (js ''a@b.c'') (js ''pw'')]"] by (simp add: Let_def)
qed

end
