(* ===== verification/Hooks.thy ===== *)
theory Hooks
  imports Api
begin

text \<open>
  The data hooks of \<open>src/lib\<close>: \<open>usePagination\<close>, the cursor-based list state behind every
  dashboard page, and \<open>useCall\<close>, a single call with its loading, error and data state.

  A pager is generic in its items and in the fetcher it is given; a fetcher is identified by
  what it closes over (the project), so that a request in flight records for whom it was sent;
  \<open>pg_inflight\<close> are the requests without an answer, \<open>pg_asked\<close> is the history of all of them.
  The abstract view of a pager is the walk along the server's pages (\<open>served\<close>); the main
  theorems say when the list shown is such a walk.
\<close>

section \<open>\<open>usePagination\<close>\<close>

record ('k, 'a) pager =
  pg_items :: "'a list"
  pg_nextPageToken :: jstr
  pg_loading :: bool
  pg_error :: "jstr option"
  pg_hasInitialLoaded :: bool
  pg_currentPageToken :: jstr
  pg_inflight :: "('k \<times> nat \<times> jstr) list"
  pg_asked :: "('k \<times> nat \<times> jstr) list"

definition pager_init :: "('k, 'a) pager" where
  "pager_init = \<lparr>pg_items = [], pg_nextPageToken = [], pg_loading = False, pg_error = None,
     pg_hasInitialLoaded = False, pg_currentPageToken = [], pg_inflight = [],
     pg_asked = []\<rparr>"

definition hasMore :: "('k, 'a) pager \<Rightarrow> bool" where
  "hasMore p \<longleftrightarrow> pg_nextPageToken p \<noteq> []"

text \<open>What awaiting the fetcher gives: a page, or a thrown value.\<close>

datatype 'a fetch_outcome = FetchOk "'a list" "jstr option" | FetchThrew jsval

text \<open>\<open>fetchPage\<close> up to its \<open>await\<close>: the token is read from the ref and captured.\<close>

definition fetchPage :: "'k \<Rightarrow> nat \<Rightarrow> ('k, 'a) pager \<Rightarrow> ('k, 'a) pager" where
  "fetchPage fetcher pageSize p = p\<lparr>
     pg_loading := True,
     pg_error := None,
     pg_inflight := pg_inflight p @ [(fetcher, pageSize, pg_currentPageToken p)],
     pg_asked := pg_asked p @ [(fetcher, pageSize, pg_currentPageToken p)]\<rparr>"

definition thrown_message :: "jsval \<Rightarrow> jstr" where
  "thrown_message e = (case e of JExn n m \<Rightarrow> m | _ \<Rightarrow> js ''failed to load'')"

text \<open>\<open>fetchPage\<close> after its \<open>await\<close>, for the request whose captured token is \<open>pageToken\<close>.\<close>

definition fetched :: "jstr \<Rightarrow> 'a fetch_outcome \<Rightarrow> ('k, 'a) pager \<Rightarrow> ('k, 'a) pager" where
  "fetched pageToken out p = (case out of
     FetchOk items next \<Rightarrow> p\<lparr>
       pg_items := (if pageToken = [] then items else pg_items p @ items),
       pg_nextPageToken := nullish next [],
       pg_hasInitialLoaded := True,
       pg_loading := False\<rparr>
   | FetchThrew e \<Rightarrow> p\<lparr>
       pg_error := Some (thrown_message e),
       pg_hasInitialLoaded := True,
       pg_loading := False\<rparr>)"

definition loadMore :: "'k \<Rightarrow> nat \<Rightarrow> ('k, 'a) pager \<Rightarrow> ('k, 'a) pager" where
  "loadMore fetcher pageSize p =
     (if pg_nextPageToken p = [] \<or> pg_loading p then p
      else fetchPage fetcher pageSize (p\<lparr>pg_currentPageToken := pg_nextPageToken p\<rparr>))"

definition reset :: "('k, 'a) pager \<Rightarrow> ('k, 'a) pager" where
  "reset p = p\<lparr>
     pg_currentPageToken := [],
     pg_items := [],
     pg_nextPageToken := [],
     pg_error := None,
     pg_hasInitialLoaded := False\<rparr>"

definition refresh :: "'k \<Rightarrow> nat \<Rightarrow> ('k, 'a) pager \<Rightarrow> ('k, 'a) pager" where
  "refresh fetcher pageSize p =
     fetchPage fetcher pageSize ((reset p)\<lparr>pg_currentPageToken := []\<rparr>)"

definition settle :: "nat \<Rightarrow> 'a fetch_outcome \<Rightarrow> ('k, 'a) pager \<Rightarrow> ('k, 'a) pager" where
  "settle i out p =
     (if i < length (pg_inflight p)
      then fetched (snd (snd (pg_inflight p ! i))) out
             (p\<lparr>pg_inflight := remove_nth i (pg_inflight p)\<rparr>)
      else p)"

datatype ('k, 'a) pager_event =
    Refresh 'k nat
  | LoadMore 'k nat
  | FetchPage 'k nat
  | ResetPager
  | Settled nat "'a fetch_outcome"

fun pager_step :: "('k, 'a) pager \<Rightarrow> ('k, 'a) pager_event \<Rightarrow> ('k, 'a) pager" where
  "pager_step p (Refresh k n) = refresh k n p"
| "pager_step p (LoadMore k n) = loadMore k n p"
| "pager_step p (FetchPage k n) = fetchPage k n p"
| "pager_step p ResetPager = reset p"
| "pager_step p (Settled i out) = settle i out p"

lemmas pager_defs =
  fetchPage_def loadMore_def reset_def refresh_def settle_def fetched_def hasMore_def

text \<open>
  The fetchers of the list pages share one shape: an error reply is rethrown as an \<open>Error\<close>
  with its text, a good one gives its items (none when the field is absent) and its token.
\<close>

definition fetcher_result :: "'a v1ListResponse reply \<Rightarrow> 'a fetch_outcome" where
  "fetcher_result r = (case r of
     Rejected e \<Rightarrow> FetchThrew e
   | Resolved data err \<Rightarrow>
       if js_truthy err then FetchThrew (JExn (js ''Error'') (errText err))
       else FetchOk (nullish (Option.bind data ls_items) [])
              (Option.bind data ls_next_page_token))"

subsection \<open>Invariant\<close>

text \<open>
  Nothing loads without a request in flight, and before the first answer there is neither an
  error nor an item nor a next page.
\<close>

definition pager_inv :: "('k, 'a) pager \<Rightarrow> bool" where
  "pager_inv p \<longleftrightarrow>
     (pg_loading p \<longrightarrow> pg_inflight p \<noteq> [])
     \<and> (\<not> pg_hasInitialLoaded p \<longrightarrow>
          pg_error p = None \<and> pg_items p = [] \<and> pg_nextPageToken p = [])"

lemma pager_inv_fetchPage: "pager_inv p \<Longrightarrow> pager_inv (fetchPage k n p)"
  by (simp add: pager_inv_def fetchPage_def)

lemma pager_inv_loadMore: "pager_inv p \<Longrightarrow> pager_inv (loadMore k n p)"
  by (auto simp: pager_inv_def loadMore_def fetchPage_def)

lemma pager_inv_reset: "pager_inv p \<Longrightarrow> pager_inv (reset p)"
  by (simp add: pager_inv_def reset_def)

lemma pager_inv_refresh: "pager_inv (refresh k n p)"
  by (simp add: pager_inv_def refresh_def reset_def fetchPage_def)

lemma pager_inv_settle: "pager_inv p \<Longrightarrow> pager_inv (settle i out p)"
  by (cases out) (auto simp: pager_inv_def settle_def fetched_def)

lemmas pager_inv_ops =
  pager_inv_fetchPage pager_inv_loadMore pager_inv_reset pager_inv_refresh pager_inv_settle

lemma pager_inv_step: "pager_inv p \<Longrightarrow> pager_inv (pager_step p e)"
  by (cases e) (auto intro: pager_inv_ops)

interpretation pgr: machine pager_init pager_step pager_inv
  by unfold_locales (simp_all add: pager_inv_step, simp add: pager_inv_def pager_init_def)

subsection \<open>The list as a walk along the server's pages\<close>

text \<open>
  A server answers a token with a page and the token of the next one. \<open>served srv m\<close> is what a
  reader has who took the first page and then \<open>m\<close> more, as far as there are any.
\<close>

type_synonym 'a server = "jstr \<Rightarrow> 'a list \<times> jstr option"

fun served :: "'a server \<Rightarrow> nat \<Rightarrow> 'a list \<times> jstr" where
  "served srv 0 = (fst (srv []), nullish (snd (srv [])) [])"
| "served srv (Suc m) =
     (let (xs, t) = served srv m in
      if t = [] then (xs, t) else (xs @ fst (srv t), nullish (snd (srv t)) []))"

text \<open>
  \<open>orderly srv k p\<close>: the pager got into state \<open>p\<close> by a refresh with fetcher \<open>k\<close>, issued
  when nothing was in flight, followed by any load-more clicks and answers in any order,
  each answer being the server's page for the fetcher and token of its request, or a failure.
\<close>

inductive orderly :: "('k \<Rightarrow> 'a server) \<Rightarrow> 'k \<Rightarrow> ('k, 'a) pager \<Rightarrow> bool" for srv k where
  ord_refresh: "pg_inflight p = [] \<Longrightarrow> orderly srv k (refresh k n p)"
| ord_more: "orderly srv k p \<Longrightarrow> orderly srv k (loadMore k n p)"
| ord_page: "orderly srv k p \<Longrightarrow> i < length (pg_inflight p) \<Longrightarrow> pg_inflight p ! i = (k', n, t) \<Longrightarrow>
     orderly srv k (settle i (FetchOk (fst (srv k' t)) (snd (srv k' t))) p)"
| ord_fail: "orderly srv k p \<Longrightarrow> orderly srv k (settle i (FetchThrew e) p)"

definition walk_inv :: "('k \<Rightarrow> 'a server) \<Rightarrow> 'k \<Rightarrow> ('k, 'a) pager \<Rightarrow> bool" where
  "walk_inv srv k p \<longleftrightarrow>
     (pg_inflight p = [] \<and> \<not> pg_loading p
      \<or> (\<exists>n t. pg_inflight p = [(k, n, t)] \<and> pg_loading p \<and> t = pg_nextPageToken p))
     \<and> (pg_items p = [] \<and> pg_nextPageToken p = []
        \<or> (pg_inflight p \<noteq> [] \<longrightarrow> pg_nextPageToken p \<noteq> [])
          \<and> (\<exists>m. (pg_items p, pg_nextPageToken p) = served (srv k) m))"

lemma walk_inv_refresh: "pg_inflight p = [] \<Longrightarrow> walk_inv srv k (refresh k n p)"
  by (simp add: walk_inv_def refresh_def reset_def fetchPage_def)

lemma walk_inv_more: "walk_inv srv k p \<Longrightarrow> walk_inv srv k (loadMore k n p)"
  by (auto simp: walk_inv_def loadMore_def fetchPage_def)

lemma walk_inv_fail: "walk_inv srv k p \<Longrightarrow> walk_inv srv k (settle i (FetchThrew e) p)"
  by (auto simp: walk_inv_def settle_def fetched_def)

lemma walk_inv_page:
  assumes "walk_inv srv k p" "i < length (pg_inflight p)" "pg_inflight p ! i = (k', n, t)"
  shows "walk_inv srv k (settle i (FetchOk (fst (srv k' t)) (snd (srv k' t))) p)"
proof -
  from assms obtain n' where fl: "pg_inflight p = [(k, n', pg_nextPageToken p)]"
    unfolding walk_inv_def by fastforce
  with assms(2,3) have i: "i = 0" and k: "k' = k" and t: "t = pg_nextPageToken p" by auto
  show ?thesis
  proof (cases "pg_nextPageToken p = []")
    case True
    then have "\<exists>m. (fst (srv k []), nullish (snd (srv k [])) []) = served (srv k) m"
      by (metis served.simps(1))
    with True fl show ?thesis by (auto simp: walk_inv_def settle_def fetched_def i k t)
  next
    case False
    with assms(1) fl obtain m where "(pg_items p, pg_nextPageToken p) = served (srv k) m"
      by (auto simp: walk_inv_def)
    with False have "(pg_items p @ fst (srv k (pg_nextPageToken p)),
        nullish (snd (srv k (pg_nextPageToken p))) []) = served (srv k) (Suc m)"
      by (simp add: Let_def split: prod.splits) (metis prod.inject)
    with False fl show ?thesis
      by (auto simp: walk_inv_def settle_def fetched_def i k t intro!: exI [of _ "Suc m"])
  qed
qed

lemma orderly_walk: "orderly srv k p \<Longrightarrow> walk_inv srv k p"
  by (induction rule: orderly.induct)
     (auto intro: walk_inv_refresh walk_inv_more walk_inv_fail walk_inv_page)

text \<open>C1. The list on a page is a prefix of what the server holds. After a refresh issued while no
  request was in flight, whatever the order of load-more clicks, answers and failures, the items and the next token
  are those of a walk along the server's pages from the first one, no page skipped, repeated or
  out of order, or nothing is shown yet; and at most one request is in flight. A refresh issued over
  a request in flight is outside the claim: there an answer to the old request can replace the
  items of the new one, as \<open>stale_reply_wins\<close> shows.\<close>
theorem list_walks_pages:
  assumes "orderly srv k p"
  shows "(pg_items p = [] \<and> pg_nextPageToken p = []
      \<or> (\<exists>m. (pg_items p, pg_nextPageToken p) = served (srv k) m))
    \<and> length (pg_inflight p) \<le> 1"
  using orderly_walk [OF assms] by (auto simp: walk_inv_def)

theorem list_walks_pages_witness:
  "\<exists>p. orderly (\<lambda>_ t. if t = [] then ([1::nat], Some (js ''a'')) else ([2], None)) () p
     \<and> pg_items p = [1]
     \<and> (\<exists>m. (pg_items p, pg_nextPageToken p) =
          served (\<lambda>t. if t = [] then ([1::nat], Some (js ''a'')) else ([2], None)) m)"
proof -
  let ?srv = "\<lambda>(_::unit) t. if t = [] then ([1::nat], Some (js ''a'')) else ([2], None)"
  define p :: "(unit, nat) pager" where "p = settle 0 (FetchOk [1] (Some (js ''a''))) (refresh () 20 pager_init)"
  have o: "orderly ?srv () p"
    using ord_page [OF ord_refresh [of pager_init ?srv "()" 20], of 0 "()" 20 "[]"]
    by (simp add: p_def pager_defs pager_init_def)
  have i: "pg_items p = [1]" by (simp add: p_def pager_defs pager_init_def)
  then have "\<exists>m. (pg_items p, pg_nextPageToken p) = served (?srv ()) m"
    using list_walks_pages [OF o] by auto
  with o i show ?thesis by blast
qed

text \<open>
  A click on load more whose request is answered at once: where no request starts (the last
  page is shown, or one is loading) nothing happens.
\<close>

definition click_answered :: "('k \<Rightarrow> 'a server) \<Rightarrow> 'k \<Rightarrow> nat \<Rightarrow> ('k, 'a) pager \<Rightarrow> ('k, 'a) pager" where
  "click_answered srv k n p =
     (let p' = loadMore k n p in
      case pg_inflight p' of
        [] \<Rightarrow> p'
      | (k', n', t) # _ \<Rightarrow> settle 0 (FetchOk (fst (srv k' t)) (snd (srv k' t))) p')"

lemma click_answered_walks:
  assumes "pg_inflight p = []" "\<not> pg_loading p" "(pg_items p, pg_nextPageToken p) = served (srv k) m"
  shows "let q = click_answered srv k n p in pg_inflight q = [] \<and> \<not> pg_loading q
    \<and> (pg_items q, pg_nextPageToken q) = served (srv k) (Suc m)"
  using assms(3) [symmetric]
  by (auto simp: assms(1,2) click_answered_def pager_defs Let_def)

text \<open>C7. Every page is reached: after a refresh and \<open>m\<close> clicks on load more, each answered by the
  server, the list is the server's first page followed by its next \<open>m\<close> pages (all of them when
  there are fewer), nothing is loading and no request is left.
\<close>
theorem clicks_reach_every_page:
  assumes "pg_inflight p = []"
  shows "let q = (click_answered srv k n ^^ m)
      (settle 0 (FetchOk (fst (srv k [])) (snd (srv k []))) (refresh k n p)) in
    (pg_items q, pg_nextPageToken q) = served (srv k) m \<and> pg_inflight q = [] \<and> \<not> pg_loading q"
proof (induction m)
  case 0
  then show ?case using assms by (simp add: pager_defs)
next
  case (Suc m)
  then show ?case using click_answered_walks [of _ srv k m n] by (simp add: Let_def)
qed

theorem clicks_reach_every_page_witness:
  "pg_items ((click_answered (\<lambda>_ t. if t = [] then ([1::nat], Some (js ''a'')) else ([2], None)) () 20 ^^ 5)
     (settle 0 (FetchOk [1] (Some (js ''a''))) (refresh () 20 pager_init))) = [1, 2]"
  using clicks_reach_every_page
    [of pager_init 5 "\<lambda>(_::unit) t. if t = [] then ([1::nat], Some (js ''a'')) else ([2], None)" "()" 20]
  by (simp add: pager_init_def Let_def numeral_eq_Suc)

subsection \<open>Changing the fetcher with a request in flight\<close>

text \<open>A list can show another project's data: when the fetcher changes (the user selects
  another project) with a request in flight, and that request is answered after the new one,
  its items replace the new project's items. Neither \<open>refresh\<close> nor the continuation of
  \<open>fetchPage\<close> looks at whose answer arrives.\<close>
theorem stale_reply_wins:
  assumes "pg_inflight p = []"
  shows "pg_items (run pager_step p
      [Refresh old n, Refresh new n, Settled 1 (FetchOk xs t), Settled 0 (FetchOk ys u)]) = ys"
  using assms by (simp add: pager_defs)

theorem stale_reply_wins_witness:
  "pg_items (run pager_step pager_init [Refresh (js ''old'') 20, Refresh (js ''new'') 20,
     Settled 1 (FetchOk [1::nat] None), Settled 0 (FetchOk [2] None)]) = [2]"
  by (rule stale_reply_wins) (simp add: pager_init_def)

text \<open>What hosts of a pager use: a reply leaves the other flags alone and ends the loading.\<close>

lemma pg_loading_settle: "i < length (pg_inflight p) \<Longrightarrow> \<not> pg_loading (settle i out p)"
  by (cases out) (auto simp: settle_def fetched_def)

lemma pg_loading_refresh [simp]: "pg_loading (refresh k n p)"
  by (simp add: refresh_def fetchPage_def)

subsection \<open>For whom a list was asked\<close>

text \<open>The last page request of a list was sent by the fetcher \<open>k\<close>.\<close>

definition asked_for :: "'k \<Rightarrow> ('k, 'a) pager \<Rightarrow> bool" where
  "asked_for k p \<longleftrightarrow> pg_asked p \<noteq> [] \<and> fst (last (pg_asked p)) = k"

lemma asked_for_ops [simp]:
  "asked_for k (refresh k n p)" "asked_for k p \<Longrightarrow> asked_for k (loadMore k n p)"
  "asked_for k (settle i out p) = asked_for k p"
  by (auto simp: asked_for_def pager_defs split: fetch_outcome.split)

text \<open>A failed load-more loses nothing: the items and the next token stay, the message of
  what was thrown is shown, loading ends, and clicking again asks for the same page.\<close>
theorem load_more_retry:
  assumes "pg_inflight p = []" "\<not> pg_loading p" "hasMore p"
  shows "let p' = settle 0 (FetchThrew e) (loadMore k n p) in
    pg_items p' = pg_items p \<and> hasMore p' \<and> \<not> pg_loading p'
    \<and> pg_error p' = Some (thrown_message e)
    \<and> pg_inflight (loadMore k n p') = [(k, n, pg_nextPageToken p)]"
  using assms by (simp add: pager_defs Let_def)

theorem load_more_retry_witness:
  "let p = pager_init\<lparr>pg_items := [1::nat], pg_nextPageToken := js ''t''\<rparr>;
       p' = settle 0 (FetchThrew (JStr (js ''x''))) (loadMore () 20 p) in
   pg_items p' = [1] \<and> pg_inflight (loadMore () 20 p') = [((), 20, js ''t'')]"
  using load_more_retry [of "pager_init\<lparr>pg_items := [1::nat], pg_nextPageToken := js ''t''\<rparr>"
      "JStr (js ''x'')" "()" 20]
  by (simp add: Let_def pager_init_def hasMore_def)

section \<open>\<open>useCall\<close>\<close>

record call_state =
  ca_loading :: bool
  ca_error :: "jstr option"
  ca_data :: "jsval option"
  ca_pending :: nat

definition call_init :: call_state where
  "call_init = \<lparr>ca_loading = False, ca_error = None, ca_data = None, ca_pending = 0\<rparr>"

definition call_run :: "call_state \<Rightarrow> call_state" where
  "call_run s = s\<lparr>ca_loading := True, ca_error := None, ca_pending := ca_pending s + 1\<rparr>"

definition call_settled :: "jsval reply \<Rightarrow> call_state \<Rightarrow> call_state" where
  "call_settled r s =
     (if ca_pending s = 0 then s
      else (let s' = s\<lparr>ca_pending := ca_pending s - 1, ca_loading := False\<rparr> in
        case r of
          Resolved data err \<Rightarrow>
            if js_truthy err \<or> data = None
            then s'\<lparr>ca_error := Some (errText err), ca_data := None\<rparr>
            else s'\<lparr>ca_data := data\<rparr>
        | Rejected e \<Rightarrow> s'\<lparr>ca_error := Some (errText e), ca_data := None\<rparr>))"

end
