(* ===== verification/ListPage.thy ===== *)
theory ListPage
  imports Auth Hooks Ui
begin

text \<open>
  What the list pages of the dashboard share: the choice between skeleton, failure, empty state
  and table, the line below a table, and the project a page's fetcher closes over. A page that
  hosts a pager changes it only through \<open>usePagination\<close>'s operations; \<open>hosted_pager\<close> is the
  contract that gives it the pager's invariant.
\<close>

section \<open>Rendering a list\<close>

definition pager_body ::
  "nat \<Rightarrow> jstr \<Rightarrow> 'e node \<Rightarrow> 'e node list \<Rightarrow> ('k, 'a) pager \<Rightarrow> 'e node list" where
  "pager_body cols failed none_yet table p =
     [El ''div'' [] []] @
     (if pg_loading p \<and> \<not> pg_hasInitialLoaded p then [table_skeleton 8 cols]
      else if truthy (pg_error p) then [El ''p'' [] [Text failed]]
      else if pg_items p = [] then [none_yet]
      else table)"

definition showing :: "nat \<Rightarrow> string \<Rightarrow> 'e node" where
  "showing n noun = El ''p'' []
     [tx ''Showing '', Text (nat_text n), tx ('' '' @ noun), tx (if n \<noteq> 1 then ''s'' else ''''), tx ''.'']"

definition table_head :: "string list \<Rightarrow> 'e node" where
  "table_head cols = El ''thead'' [] [El ''tr'' [] (map (\<lambda>c. El ''th'' [] [tx c]) cols)]"

lemma fires_pager_body: "fires_in (pager_body c f em t p) e \<Longrightarrow>
    can_fire em e \<or> pg_items p \<noteq> [] \<and> fires_in t e"
  by (auto simp: pager_body_def split: if_splits)

lemma fires_showing [simp]: "\<not> can_fire (showing n s) e"
  by (simp add: showing_def)

lemma fires_table_head [simp]: "\<not> can_fire (table_head cs) e"
  by (auto simp: table_head_def fires_in_map)

text \<open>\<open>replace\<close> with a string pattern of one unit: the first occurrence only.\<close>

fun replace_first :: "code_unit \<Rightarrow> code_unit \<Rightarrow> jstr \<Rightarrow> jstr" where
  "replace_first c d [] = []"
| "replace_first c d (u # s) = (if u = c then d # s else u # replace_first c d s)"

text \<open>\<open>occurred_at?.slice(0, 19).replace("T", " ") || "-"\<close>\<close>

definition short_time :: "jstr option \<Rightarrow> jstr" where
  "short_time t = or_str (map_option (\<lambda>s. replace_first 84 32 (take 19 s)) t) (js ''-'')"

section \<open>The project of a page\<close>

definition project_key :: "jstr option \<Rightarrow> jstr" where
  "project_key pid = nullish pid []"

definition PAGE_SIZE :: nat where
  "PAGE_SIZE = 50"

section \<open>Hosting a pager\<close>

text \<open>
  A host starts its pager with a refresh and moves it by pager events only, so the pager's
  invariant holds in every state a run of the host reaches.
\<close>

locale hosted_pager = tracker hstep pager_step hosted route
  for hstep :: "'h \<Rightarrow> 'e \<Rightarrow> 'h" and hosted :: "'h \<Rightarrow> ('k, 'a) pager"
    and route :: "'h \<Rightarrow> 'e \<Rightarrow> ('k, 'a) pager_event list" +
  fixes hinit :: 'h
  assumes starts: "pager_inv (hosted hinit)"
begin

lemma hosted_inv: "pager_inv (hosted (run hstep hinit es))"
proof -
  obtain fs where "hosted (run hstep hinit es) = run pager_step (hosted hinit) fs"
    using hosted_run by blast
  then show ?thesis using starts by (simp add: pgr.inv_run_from)
qed

text \<open>The page never shows a skeleton and an error at once, and it loads only for a request.\<close>

lemma hosted_error_loaded:
  "pg_error (hosted (run hstep hinit es)) \<noteq> None \<Longrightarrow> pg_hasInitialLoaded (hosted (run hstep hinit es))"
  using hosted_inv [of es] by (auto simp: pager_inv_def)

lemma hosted_loading:
  "pg_loading (hosted (run hstep hinit es)) \<Longrightarrow> pg_inflight (hosted (run hstep hinit es)) \<noteq> []"
  using hosted_inv [of es] by (auto simp: pager_inv_def)

end

end
