(* ===== verification/Activity.thy ===== *)
theory Activity
  imports ListPage
begin

text \<open>
  \<open>src/pages/dashboard/Activity.tsx\<close>: the audit log of the selected project, a paged table of
  events and the detail of one event.
\<close>

record activity =
  ac_project :: "jstr option"
  ac_pager :: "(jstr, v1ActionEvent) pager"
  ac_selected :: "v1ActionEvent option"

definition ac_mount :: "jstr option \<Rightarrow> activity" where
  "ac_mount pid = \<lparr>ac_project = pid, ac_pager = refresh (project_key pid) PAGE_SIZE pager_init,
     ac_selected = None\<rparr>"

definition events_request :: "jstr \<times> nat \<times> jstr \<Rightarrow> api_request" where
  "events_request q = (case q of (pid, n, t) \<Rightarrow> ListEvents n t pid)"

datatype activity_event =
    AcSelect v1ActionEvent
  | AcBack
  | AcLoadMore
  | AcProject "jstr option"
  | AcPage nat "v1ActionEvent v1ListResponse reply"

fun ac_step :: "activity \<Rightarrow> activity_event \<Rightarrow> activity" where
  "ac_step s (AcSelect ev) = s\<lparr>ac_selected := Some ev\<rparr>"
| "ac_step s AcBack = s\<lparr>ac_selected := None\<rparr>"
| "ac_step s AcLoadMore =
     s\<lparr>ac_pager := loadMore (project_key (ac_project s)) PAGE_SIZE (ac_pager s)\<rparr>"
| "ac_step s (AcProject pid) =
     (if pid = ac_project s then s
      else s\<lparr>ac_project := pid, ac_pager := refresh (project_key pid) PAGE_SIZE (ac_pager s)\<rparr>)"
| "ac_step s (AcPage i r) = s\<lparr>ac_pager := settle i (fetcher_result r) (ac_pager s)\<rparr>"

fun ac_route :: "activity \<Rightarrow> activity_event \<Rightarrow> (jstr, v1ActionEvent) pager_event list" where
  "ac_route s AcLoadMore = [LoadMore (project_key (ac_project s)) PAGE_SIZE]"
| "ac_route s (AcProject pid) =
     (if pid = ac_project s then [] else [Refresh (project_key pid) PAGE_SIZE])"
| "ac_route s (AcPage i r) = [Settled i (fetcher_result r)]"
| "ac_route s _ = []"

fun ac_outside :: "activity_event \<Rightarrow> bool" where
  "ac_outside (AcProject p) = True"
| "ac_outside (AcPage i r) = True"
| "ac_outside _ = False"

section \<open>The view\<close>

definition activity_row :: "string \<Rightarrow> 'e node list \<Rightarrow> 'e node" where
  "activity_row label children = El ''div'' [] [El ''span'' [] [tx label], El ''div'' [] children]"

definition hash_or_dash :: "jstr option \<Rightarrow> 'e node list" where
  "hash_or_dash v = (if truthy v then [monospace_hash (the v)] else [tx ''-''])"

definition ac_detail :: "v1ActionEvent \<Rightarrow> activity_event node" where
  "ac_detail ev = card (ev_event_id ev) (ev_action_type ev)
     [El ''div'' []
       [status_pill None
          (Some (js (if truthy (ev_notary_signature ev) then ''SIGNED'' else ''UNSIGNED'')))
          (Some (truthy (ev_notary_signature ev))),
        button ''secondary'' ''sm'' False False [OnClick AcBack] [tx ''Back'']]]
     [activity_row ''Session'' [copyable (or_str (ev_session_id ev) (js ''-'')) True],
      activity_row ''Sequence'' [El ''span'' [] [Text (nullish (ev_sequence ev) (js ''-''))]],
      activity_row ''Surface'' [Text (or_str (ev_surface ev) (js ''-''))],
      activity_row ''Grant'' [copyable (or_str (ev_grant_id ev) (js ''-'')) True],
      activity_row ''Recording'' [Text (or_str (ev_recording_ref ev) (js ''-''))],
      activity_row ''Occurred At'' [El ''span'' [] [Text (or_str (ev_occurred_at ev) (js ''-''))]],
      activity_row ''Content Hash'' (hash_or_dash (ev_content_hash ev)),
      activity_row ''Prev Hash'' (hash_or_dash (ev_prev_hash ev)),
      activity_row ''Notary Signature''
       (if truthy (ev_notary_signature ev)
        then [El ''span'' [] [Text (the (ev_notary_signature ev))]] else [tx ''-''])]"

definition ac_row :: "nat \<Rightarrow> nat \<times> v1ActionEvent \<Rightarrow> activity_event node" where
  "ac_row n ie = (let (i, ev) = ie in
     El ''tr'' [Flag ''borderBottom'' (i + 1 < n)]
      [El ''td'' [] (opt_text (ev_event_id ev)),
       El ''td'' [] (opt_text (ev_action_type ev)),
       El ''td'' [] (opt_text (ev_session_id ev)),
       El ''td'' [] [Text (short_time (ev_occurred_at ev))],
       El ''td'' []
        [El ''button'' [Attr ''type'' (js ''button''), OnClick (AcSelect ev),
            Attr ''aria-label'' (js ''View event '' @ nullish (ev_event_id ev) (nat_text (i + 1)))]
          [icon ''IconSearch'', tx '' View'']]])"

definition ac_table :: "activity \<Rightarrow> activity_event node list" where
  "ac_table s = (let p = ac_pager s; events = pg_items p in
     [El ''div'' [] [El ''table'' []
        [table_head [''Event ID'', ''Action'', ''Session'', ''When'', ''View''],
         El ''tbody'' [] (map (ac_row (length events)) (zip [0..<length events] events))]],
      showing (length events) ''event'']
     @ load_more_button AcLoadMore (pg_loading p) (\<not> hasMore p))"

definition ac_view :: "activity \<Rightarrow> activity_event node" where
  "ac_view s = El ''div'' []
     ([page_header (js ''Audit log'')
        (Some (js ''Every recorded action, notarized and auditable. Each row is signed and bound to a grant.''))
        None []]
      @ if_truthy (pg_error (ac_pager s)) (\<lambda>m. [error_box m])
      @ [case ac_selected s of
           Some ev \<Rightarrow> ac_detail ev
         | None \<Rightarrow> card None None []
            (pager_body 5 (js ''Couldn't load events. Try refreshing.'')
              (empty_state [icon ''IconActivity''] (js ''No events recorded yet'')
                (Some (js ''Start a capture session and record an agent action to see it appear here.'')) [])
              (ac_table s) (ac_pager s))])"

lemma fires_activity_row [simp]: "can_fire (activity_row l ks) e \<longleftrightarrow> fires_in ks e"
  by (simp add: activity_row_def)

lemma fires_hash_or_dash [simp]: "\<not> fires_in (hash_or_dash v) e"
  by (auto simp: hash_or_dash_def)

lemma fires_ac_detail: "can_fire (ac_detail ev) e \<Longrightarrow> e = AcBack"
  by (auto simp: ac_detail_def split: if_splits)

lemma fires_ac_table: "fires_in (ac_table s) e \<Longrightarrow>
   (\<exists>ev\<in>set (pg_items (ac_pager s)). e = AcSelect ev)
   \<or> e = AcLoadMore \<and> hasMore (ac_pager s) \<and> \<not> pg_loading (ac_pager s)"
  by (auto simp: ac_table_def Let_def ac_row_def fires_in_map set_zip split: prod.splits)

lemma fires_ac_view: "can_fire (ac_view s) e \<Longrightarrow>
   (case ac_selected s of
      Some ev \<Rightarrow> e = AcBack
    | None \<Rightarrow> (\<exists>ev\<in>set (pg_items (ac_pager s)). e = AcSelect ev)
        \<or> e = AcLoadMore \<and> hasMore (ac_pager s) \<and> \<not> pg_loading (ac_pager s))"
  by (auto simp: ac_view_def dest!: fires_ac_detail fires_pager_body fires_ac_table
      split: option.splits)

section \<open>The hosted pager\<close>

interpretation acp: hosted_pager ac_step ac_pager ac_route "ac_mount pid" for pid
proof
  show "ac_pager (ac_step h e) = run pager_step (ac_pager h) (ac_route h e)" for h e
    by (cases e) auto
  show "pager_inv (ac_pager (ac_mount pid))"
    by (simp add: ac_mount_def pager_inv_refresh)
qed

text \<open>The page's last list request names its project.\<close>

lemma ac_asked_step:
  "asked_for (project_key (ac_project s)) (ac_pager s) \<Longrightarrow>
   asked_for (project_key (ac_project (ac_step s e))) (ac_pager (ac_step s e))"
  by (cases e) (simp_all)

lemma ac_asked_mount: "asked_for (project_key pid) (ac_pager (ac_mount pid))"
  by (simp add: ac_mount_def)

end
