(* ===== verification/Receipts.thy ===== *)
theory Receipts
  imports Activity
begin

text \<open>
  \<open>src/pages/dashboard/Receipts.tsx\<close> and \<open>ReceiptDetail.tsx\<close>: the events of the selected project,
  the inclusion proof of one of them fetched on request, its rendering, and the file it is
  downloaded as.
\<close>

section \<open>The list and the proof\<close>

record receipts =
  rc_project :: "jstr option"
  rc_pager :: "(jstr, v1ActionEvent) pager"
  rc_proof :: "v1Proof option"
  rc_fetchingProof :: bool
  rc_proofError :: "jstr option"
  rc_pending :: nat
  rc_requests :: "api_request list"

definition rc_mount :: "jstr option \<Rightarrow> receipts" where
  "rc_mount pid = \<lparr>rc_project = pid, rc_pager = refresh (project_key pid) PAGE_SIZE pager_init,
     rc_proof = None, rc_fetchingProof = False, rc_proofError = None, rc_pending = 0,
     rc_requests = []\<rparr>"

definition fetchProof :: "jstr \<Rightarrow> receipts \<Rightarrow> receipts" where
  "fetchProof eventId s = s\<lparr>rc_fetchingProof := True, rc_proofError := None, rc_proof := None,
     rc_pending := rc_pending s + 1, rc_requests := rc_requests s @ [GetProof eventId]\<rparr>"

definition fetchProof_settled :: "v1Proof option reply \<Rightarrow> receipts \<Rightarrow> receipts" where
  "fetchProof_settled r s = (case r of
     Rejected e \<Rightarrow> s
   | Resolved data err \<Rightarrow>
       (let proof = Option.bind data (\<lambda>p. p) in
        if js_truthy err \<or> proof = None
        then s\<lparr>rc_proofError := Some (or_str (Some (errText err))
                 (js ''No inclusion proof found for that event ID.''))\<rparr>
        else s\<lparr>rc_proof := proof\<rparr>)\<lparr>rc_fetchingProof := False\<rparr>)"

datatype receipts_event =
    RcFetch v1ActionEvent
  | RcBack
  | RcDownload
  | RcLoadMore
  | RcProject "jstr option"
  | RcPage nat "v1ActionEvent v1ListResponse reply"
  | RcProofReply "v1Proof option reply"

fun rc_step :: "receipts \<Rightarrow> receipts_event \<Rightarrow> receipts" where
  "rc_step s (RcFetch ev) =
     (if truthy (ev_event_id ev) then fetchProof (the (ev_event_id ev)) s else s)"
| "rc_step s RcBack = s\<lparr>rc_proof := None\<rparr>"
| "rc_step s RcDownload = s"
| "rc_step s RcLoadMore =
     s\<lparr>rc_pager := loadMore (project_key (rc_project s)) PAGE_SIZE (rc_pager s)\<rparr>"
| "rc_step s (RcProject pid) =
     (if pid = rc_project s then s
      else s\<lparr>rc_project := pid, rc_pager := refresh (project_key pid) PAGE_SIZE (rc_pager s)\<rparr>)"
| "rc_step s (RcPage i r) = s\<lparr>rc_pager := settle i (fetcher_result r) (rc_pager s)\<rparr>"
| "rc_step s (RcProofReply r) =
     (if rc_pending s = 0 then s
      else fetchProof_settled r (s\<lparr>rc_pending := rc_pending s - 1\<rparr>))"

fun rc_route :: "receipts \<Rightarrow> receipts_event \<Rightarrow> (jstr, v1ActionEvent) pager_event list" where
  "rc_route s RcLoadMore = [LoadMore (project_key (rc_project s)) PAGE_SIZE]"
| "rc_route s (RcProject pid) =
     (if pid = rc_project s then [] else [Refresh (project_key pid) PAGE_SIZE])"
| "rc_route s (RcPage i r) = [Settled i (fetcher_result r)]"
| "rc_route s _ = []"

fun rc_outside :: "receipts_event \<Rightarrow> bool" where
  "rc_outside (RcProject p) = True"
| "rc_outside (RcPage i r) = True"
| "rc_outside (RcProofReply r) = True"
| "rc_outside _ = False"

section \<open>\<open>ReceiptDetail\<close>\<close>

definition rd_row :: "string \<Rightarrow> jstr option \<Rightarrow> bool \<Rightarrow> 'e node" where
  "rd_row label val is_mono = (let blank = (\<not> truthy val) in
     El ''div'' []
      [El ''span'' [] [tx label],
       El ''span'' [Flag ''mono'' is_mono, Flag ''empty'' blank]
        [if blank then tx ''-'' else Text (the val)]])"

definition hash_row :: "string \<Rightarrow> jstr option \<Rightarrow> 'e node" where
  "hash_row label val =
     El ''div'' []
      [El ''span'' [] [tx label],
       El ''span'' []
        [if truthy val then monospace_hash (the val) else El ''span'' [] [Text [0x2014]]]]"

definition empty_event :: v1ActionEvent where
  "empty_event = \<lparr>ev_event_id = None, ev_project_id = None, ev_session_id = None,
     ev_sequence = None, ev_surface = None, ev_action_type = None, ev_action_payload = None,
     ev_grant_id = None, ev_pre_state_hash = None, ev_post_state_hash = None,
     ev_recording_ref = None, ev_occurred_at = None, ev_content_hash = None,
     ev_prev_hash = None, ev_notary_signature = None\<rparr>"

definition proof_event :: "v1Proof \<Rightarrow> v1ActionEvent" where
  "proof_event p = nullish (pf_event p) empty_event"

text \<open>The downloaded file: its name and its text.\<close>

definition downloadJSON :: "v1Proof \<Rightarrow> jstr \<times> jstr" where
  "downloadJSON p =
     (or_str (ev_event_id (proof_event p)) (js ''receipt'') @ js ''.json'',
      stringify2 0 (json_of_proof p))"

definition receipt_summary :: "v1ActionEvent \<Rightarrow> jstr" where
  "receipt_summary ev =
     (if truthy (ev_action_type ev)
      then the (ev_action_type ev) @
        (if truthy (ev_surface ev) then [32, 0xB7, 32] @ the (ev_surface ev) else [])
      else js ''Notarized action event'')"

definition link_row :: "nat \<times> v1Grant \<Rightarrow> 'e node" where
  "link_row il = (let (idx, l) = il in El ''div'' []
     [El ''div'' []
       [El ''div'' []
         [El ''span'' [] [Text (or_str (gr_principal_id l) (js ''?''))],
          El ''span'' [] [Text [32, 0x2192, 32]],
          El ''span'' [] [Text (or_str (gr_subject_id l) (js ''?''))]],
        El ''span'' [] [tx ''Grant '', Text (or_str (gr_grant_id l) (js ''-''))]],
      El ''span'' [] [tx ''Depth '', Text (nat_text (idx + 1))]])"

definition receipt_head :: "v1ActionEvent \<Rightarrow> receipts_event node" where
  "receipt_head ev = El ''div'' []
     [El ''div'' [] [],
      El ''div'' []
       [El ''div'' []
         [button ''ghost'' ''sm'' False False [OnClick RcBack] [Text (0x2190 # js '' Back'')],
          button ''secondary'' ''sm'' False False [OnClick RcDownload] [tx ''Download JSON'']],
        El ''div'' []
         [El ''div'' []
           [El ''span'' [] [tx ''Receipt''],
            El ''h1'' [] [Text (or_str (ev_event_id ev) (js ''Receipt''))],
            El ''p'' [] [Text (receipt_summary ev)]],
          status_pill (Some VERIFIED) (Some (js ''SEALED'')) None]]]"

definition receipt_delegation :: "v1Grant list \<Rightarrow> receipts_event node" where
  "receipt_delegation chain =
     card (Some (js ''Authority & delegation''))
      (Some (js ''The chain of grants that authorized this action.''))
      [El ''span'' [] [Text (nat_text (length chain)), tx '' '',
         tx (if length chain = 1 then ''grant'' else ''grants'')]]
      (if chain = []
       then [El ''p'' [] [tx ''No delegation chain included in this proof.'']]
       else [El ''div'' [] (map link_row (zip [0..<length chain] chain))])"

definition receipt_evidence :: "v1Proof \<Rightarrow> receipts_event node" where
  "receipt_evidence p = (let ev = proof_event p; n = length (nullish (pf_merkle_path p) []) in
     card (Some (js ''Evidence & verification''))
      (Some (js ''Cryptographic seal binding this event into the ledger.''))
      [El ''span'' [] [icon ''IconShieldCheck'', tx '' Notarized'']]
      [El ''div'' []
        [hash_row ''Content hash'' (ev_content_hash ev),
         hash_row ''Previous link hash'' (ev_prev_hash ev),
         hash_row ''Merkle root'' (pf_merkle_root p),
         hash_row ''Notary signature'' (ev_notary_signature ev),
         rd_row ''Merkle path''
          (if n > 0 then Some (nat_text n @ js (if n = 1 then '' node'' else '' nodes'')) else None)
          True]])"

definition receipt_anchor :: "v1Anchor \<Rightarrow> receipts_event node" where
  "receipt_anchor a =
     card (Some (js ''External anchor''))
      (Some (js ''Independent timestamp anchoring the ledger root.'')) []
      [El ''div'' []
        [rd_row ''Kind'' (an_kind a) False,
         rd_row ''Anchored at'' (an_anchored_at a) True,
         hash_row ''Anchored root'' (an_root a),
         hash_row ''Anchor receipt'' (an_anchor_receipt a)]]"

definition receipt_detail :: "v1Proof \<Rightarrow> receipts_event node" where
  "receipt_detail p = (let ev = proof_event p; chain = nullish (pf_delegation_chain p) [] in
     El ''div'' []
      ([receipt_head ev,
        card (Some (js ''Action'')) (Some (js ''What the agent did, captured at effect.'')) []
         [El ''div'' []
           [rd_row ''Action type'' (ev_action_type ev) False,
            rd_row ''Surface'' (ev_surface ev) False,
            rd_row ''Session'' (ev_session_id ev) True,
            rd_row ''Sequence'' (ev_sequence ev) True,
            rd_row ''Grant'' (ev_grant_id ev) True,
            rd_row ''Occurred at'' (ev_occurred_at ev) True,
            rd_row ''Recording reference'' (ev_recording_ref ev) True]],
        receipt_delegation chain,
        card (Some (js ''Execution'')) (Some (js ''State transition recorded around the action.'')) []
         [El ''div'' []
           [hash_row ''Pre-state hash'' (ev_pre_state_hash ev),
            hash_row ''Post-state hash'' (ev_post_state_hash ev)]],
        receipt_evidence p]
       @ if_some (pf_anchor p) (\<lambda>a. [receipt_anchor a])
       @ [card (Some (js ''Technical'')) (Some (js ''Complete proof payload as returned by the API.'')) []
           [json_view (json_of_proof p)]]))"

section \<open>The view of the list\<close>

definition rc_row :: "receipts \<Rightarrow> nat \<Rightarrow> nat \<times> v1ActionEvent \<Rightarrow> receipts_event node" where
  "rc_row s n ie = (let (i, ev) = ie in
     El ''tr'' [Flag ''borderBottom'' (i + 1 < n)]
      [El ''td'' [] (opt_text (ev_event_id ev)),
       El ''td'' [] (opt_text (ev_action_type ev)),
       El ''td'' [] (opt_text (ev_session_id ev)),
       El ''td'' []
        [El ''button'' [OnClick (RcFetch ev), Disabled (rc_fetchingProof s)]
          [icon ''IconShieldCheck'', El ''span'' [] [tx ''Proof'']]]])"

definition rc_table :: "receipts \<Rightarrow> receipts_event node list" where
  "rc_table s = (let p = rc_pager s; events = pg_items p in
     [El ''div'' [] [El ''table'' []
        [table_head [''Event ID'', ''Action'', ''Session'', ''Proof''],
         El ''tbody'' [] (map (rc_row s (length events)) (zip [0..<length events] events))]],
      showing (length events) ''event'']
     @ load_more_button RcLoadMore (pg_loading p) (\<not> hasMore p))"

definition rc_view :: "receipts \<Rightarrow> receipts_event node" where
  "rc_view s = (case rc_proof s of
     Some p \<Rightarrow> receipt_detail p
   | None \<Rightarrow> El ''div'' []
      ([page_header (js ''Receipts'')
         (Some (js ''Retrieve the cryptographic inclusion proof for any recorded action. Click Fetch Proof to get the signed receipt.''))
         None []]
       @ if_truthy (pg_error (rc_pager s)) (\<lambda>m. [error_box m])
       @ if_truthy (rc_proofError s) (\<lambda>m. [error_box m])
       @ [card None None []
           (pager_body 4 (js ''Couldn't load events. Try refreshing.'')
             (empty_state [icon ''IconFileText''] (js ''No events recorded yet'')
               (Some (js ''Record an agent action to generate a cryptographic inclusion proof you can verify offline.'')) [])
             (rc_table s) (rc_pager s))]))"

lemma fires_rd_row [simp]: "\<not> can_fire (rd_row l v m) e"
  by (simp add: rd_row_def Let_def)

lemma fires_hash_row [simp]: "\<not> can_fire (hash_row l v) e"
  by (simp add: hash_row_def)

lemma fires_link_rows [simp]: "\<not> fires_in (map link_row ls) e"
  by (auto simp: fires_in_map link_row_def Let_def split: prod.splits)

lemma fires_receipt_detail: "can_fire (receipt_detail p) e \<longleftrightarrow> e = RcBack \<or> e = RcDownload"
  by (auto simp: receipt_detail_def Let_def receipt_head_def receipt_delegation_def
      receipt_evidence_def receipt_anchor_def)

lemma fires_rc_table: "fires_in (rc_table s) e \<Longrightarrow>
   (\<exists>ev\<in>set (pg_items (rc_pager s)). e = RcFetch ev) \<and> \<not> rc_fetchingProof s
   \<or> e = RcLoadMore \<and> hasMore (rc_pager s) \<and> \<not> pg_loading (rc_pager s)"
  by (auto simp: rc_table_def Let_def rc_row_def fires_in_map set_zip split: prod.splits)

lemma fires_rc_view: "can_fire (rc_view s) e \<Longrightarrow>
   (case rc_proof s of
      Some p \<Rightarrow> e = RcBack \<or> e = RcDownload
    | None \<Rightarrow> (\<exists>ev\<in>set (pg_items (rc_pager s)). e = RcFetch ev) \<and> \<not> rc_fetchingProof s
        \<or> e = RcLoadMore \<and> hasMore (rc_pager s) \<and> \<not> pg_loading (rc_pager s))"
  by (auto simp: rc_view_def fires_receipt_detail dest!: fires_pager_body fires_rc_table
      split: option.splits)

section \<open>Invariants\<close>

text \<open>
  Through the interface at most one proof is being fetched at a time, and while it is, neither
  a proof nor an error of an earlier one is on the screen; every request names a nonempty id.
\<close>

definition receipts_inv :: "receipts \<Rightarrow> bool" where
  "receipts_inv s \<longleftrightarrow>
     pager_inv (rc_pager s)
     \<and> rc_pending s \<le> 1
     \<and> (rc_pending s = 1 \<longrightarrow> rc_fetchingProof s)
     \<and> (rc_fetchingProof s \<longrightarrow> rc_proof s = None \<and> rc_proofError s = None)
     \<and> (rc_proof s \<noteq> None \<longrightarrow> rc_proofError s = None)
     \<and> (\<forall>q\<in>set (rc_requests s). \<exists>i. q = GetProof i \<and> i \<noteq> [])"

lemma receipts_inv_mount: "receipts_inv (rc_mount pid)"
  by (simp add: receipts_inv_def rc_mount_def pager_inv_refresh)

lemma receipts_inv_pager: "receipts_inv s \<Longrightarrow> pager_inv p \<Longrightarrow> receipts_inv (s\<lparr>rc_pager := p\<rparr>)"
  "receipts_inv (s\<lparr>rc_project := pid\<rparr>) = receipts_inv s"
  by (simp_all add: receipts_inv_def)

lemma receipts_inv_pagerD: "receipts_inv s \<Longrightarrow> pager_inv (rc_pager s)"
  by (simp add: receipts_inv_def)

lemma receipts_inv_user:
  assumes "receipts_inv s" "can_fire (rc_view s) e"
  shows "receipts_inv (rc_step s e)"
proof (cases "rc_proof s")
  case (Some p)
  with fires_rc_view [OF assms(2)] assms(1) show ?thesis by (auto simp: receipts_inv_def)
next
  case None
  with fires_rc_view [OF assms(2)]
  consider ev where "e = RcFetch ev" "\<not> rc_fetchingProof s" | "e = RcLoadMore" by auto
  then show ?thesis
  proof cases
    case 1
    with assms(1) None show ?thesis
      by (auto simp: receipts_inv_def fetchProof_def truthy_def)
  next
    case 2
    with assms(1) show ?thesis
      by (simp add: receipts_inv_pager receipts_inv_pagerD pager_inv_ops)
  qed
qed

lemma receipts_inv_reply:
  "receipts_inv s \<Longrightarrow> receipts_inv (rc_step s (RcProofReply r))"
  by (auto simp: receipts_inv_def fetchProof_settled_def Let_def split: reply.splits)

lemma receipts_inv_outside: "receipts_inv s \<Longrightarrow> rc_outside e \<Longrightarrow> receipts_inv (rc_step s e)"
proof (cases e)
  case (RcProofReply r)
  then show "receipts_inv s \<Longrightarrow> ?thesis" by (simp only: receipts_inv_reply)
next
  case (RcProject pid)
  then show "receipts_inv s \<Longrightarrow> ?thesis"
    using receipts_inv_pager(1) [of "s\<lparr>rc_project := pid\<rparr>"]
    by (simp add: receipts_inv_pager pager_inv_ops)
qed (simp_all add: receipts_inv_pager receipts_inv_pagerD pager_inv_ops)

interpretation rcs: screen "rc_mount pid" rc_step rc_view rc_outside receipts_inv for pid
  by unfold_locales
     (simp_all add: receipts_inv_mount receipts_inv_user receipts_inv_outside del: rc_step.simps)

interpretation rcp: hosted_pager rc_step rc_pager rc_route "rc_mount pid" for pid
proof
  show "rc_pager (rc_step h e) = run pager_step (rc_pager h) (rc_route h e)" for h e
    by (cases e)
       (auto simp: fetchProof_def fetchProof_settled_def Let_def split: reply.splits)
  show "pager_inv (rc_pager (rc_mount pid))"
    by (simp add: rc_mount_def pager_inv_refresh)
qed

text \<open>The page's last list request names its project.\<close>

lemma rc_asked_step:
  "asked_for (project_key (rc_project s)) (rc_pager s) \<Longrightarrow>
   asked_for (project_key (rc_project (rc_step s e))) (rc_pager (rc_step s e))"
  by (cases e) (auto simp: fetchProof_def fetchProof_settled_def Let_def split: reply.splits)

lemma rc_asked_mount: "asked_for (project_key pid) (rc_pager (rc_mount pid))"
  by (simp add: rc_mount_def)

text \<open>A request that fails on the network blocks the page: the rejection of a proof request is not
  caught, so the page goes on loading with nothing in flight, and no proof button can be pressed.\<close>
theorem rejected_fetch_blocks:
  assumes "rc_pending s = 1" "rc_fetchingProof s" "rc_proof s = None"
  shows "let s' = rc_step s (RcProofReply (Rejected x)) in
    rc_fetchingProof s' \<and> rc_pending s' = 0 \<and> \<not> can_fire (rc_view s') (RcFetch ev)"
proof -
  let ?s = "rc_step s (RcProofReply (Rejected x))"
  have "rc_fetchingProof ?s" "rc_pending ?s = 0" "rc_proof ?s = None"
    using assms by (simp_all add: fetchProof_settled_def)
  then show ?thesis using fires_rc_view [of ?s "RcFetch ev"] by (auto simp: Let_def)
qed

theorem rejected_fetch_blocks_witness:
  "let s = fetchProof (js ''e1'') (rc_mount None); s' = rc_step s (RcProofReply (Rejected JUndef)) in
     rc_fetchingProof s' \<and> \<not> can_fire (rc_view s') (RcFetch ev)"
  using rejected_fetch_blocks [of "fetchProof (js ''e1'') (rc_mount None)" JUndef ev]
  by (simp add: fetchProof_def rc_mount_def Let_def del: rc_step.simps)

text \<open>The seal is shown for every proof, signed or not.\<close>

lemma sealed_always: "js ''SEALED'' \<in> set (texts (receipt_detail p))"
  by (simp add: receipt_detail_def Let_def receipt_head_def pill_label_def)

section \<open>The page over a whole visit\<close>

text \<open>A sample event, for concrete instances.\<close>

definition demo_event :: v1ActionEvent where
  "demo_event = \<lparr>ev_event_id = Some (js ''e1''), ev_project_id = None, ev_session_id = None,
     ev_sequence = None, ev_surface = None, ev_action_type = None, ev_action_payload = None,
     ev_grant_id = None, ev_pre_state_hash = None, ev_post_state_hash = None,
     ev_recording_ref = None, ev_occurred_at = None, ev_content_hash = None, ev_prev_hash = None,
     ev_notary_signature = None\<rparr>"

text \<open>C21. Whatever the user does and whenever answers come, the receipts page fetches at most one proof
  at a time, shows neither a proof nor an error of an earlier fetch while it does, never shows a
  proof together with an error, and never asks for the proof of a blank id.
\<close>
theorem receipts_page_reachable:
  assumes "ui_reach (rc_mount pid) rc_step rc_view rc_outside s"
  shows "rc_pending s \<le> 1
     \<and> (rc_fetchingProof s \<longrightarrow> rc_proof s = None \<and> rc_proofError s = None)
     \<and> (rc_proof s = None \<or> rc_proofError s = None)
     \<and> (\<forall>q\<in>set (rc_requests s). \<exists>i. q = GetProof i \<and> i \<noteq> [])"
  using rcs.reach_inv [OF assms] by (auto simp: receipts_inv_def)

theorem receipts_page_reachable_witness:
  "\<exists>s. ui_reach (rc_mount None) rc_step rc_view rc_outside s \<and> rc_pending s = 1
     \<and> rc_requests s = [GetProof (js ''e1'')] \<and> rc_proof s = None"
proof -
  let ?ev = "demo_event"
  let ?s = "rc_step (rc_mount None)
     (RcPage 0 (Resolved (Some \<lparr>ls_items = Some [?ev], ls_next_page_token = None\<rparr>) JUndef))"
  have "ui_reach (rc_mount None) rc_step rc_view rc_outside ?s"
    by (rule ui_outside [OF ui_init]) simp
  moreover have "can_fire (rc_view ?s) (RcFetch ?ev)"
    by (simp add: rc_view_def rc_table_def rc_row_def rc_mount_def pager_defs pager_init_def fetcher_result_def
        pager_body_def Let_def demo_event_def)
  ultimately have r: "ui_reach (rc_mount None) rc_step rc_view rc_outside (rc_step ?s (RcFetch ?ev))"
    by (rule ui_user)
  have "rc_fetchingProof (rc_step ?s (RcFetch ?ev))" "rc_pending (rc_step ?s (RcFetch ?ev)) = 1"
    "rc_requests (rc_step ?s (RcFetch ?ev)) = [GetProof (js ''e1'')]"
    by (simp_all add: demo_event_def fetchProof_def rc_mount_def truthy_def js_def)
  with r receipts_page_reachable [OF r] show ?thesis by blast
qed

end
