(* ===== verification/App.thy ===== *)
theory App
  imports Auth
begin

text \<open>
  \<open>src/App.tsx\<close>: which screen a path shows. The splash screen covers the landing page until its
  timer has run and the dashboard until the session is known.
\<close>

datatype app_screen =
    SplashScreen
  | LandingScreen
  | ProfileScreen
  | LoginScreen
  | SignupScreen
  | ForgotPasswordScreen
  | SecurityScreen
  | ContactScreen
  | PricingScreen
  | ApiReferenceScreen
  | DashboardScreen jstr
  | NotFoundScreen

definition app_route :: "jstr \<Rightarrow> jstr" where
  "app_route path = hd (split_on 63 path)"

text \<open>\<open>route.split("/")[2] || "overview"\<close>\<close>

definition active_tab :: "jstr \<Rightarrow> jstr" where
  "active_tab route = (let parts = split_on 47 route in
     or_str (if 2 < length parts then Some (parts ! 2) else None) (js ''overview''))"

definition app_render :: "bool \<Rightarrow> bool \<Rightarrow> jstr \<Rightarrow> app_screen" where
  "app_render splashDone isLoading path =
     (let route = app_route path; isLanding = (route = js ''/'' \<or> route = []) in
      if \<not> splashDone \<and> isLanding then SplashScreen
      else if isLoading \<and> prefix (js ''/dashboard'') route then SplashScreen
      else if route = js ''/'' \<or> route = [] then LandingScreen
      else if route = js ''/profile'' then ProfileScreen
      else if route = js ''/login'' then LoginScreen
      else if route = js ''/signup'' then SignupScreen
      else if route = js ''/forgot-password'' then ForgotPasswordScreen
      else if route = js ''/security'' then SecurityScreen
      else if route = js ''/contact'' then ContactScreen
      else if route = js ''/pricing'' then PricingScreen
      else if route = js ''/api'' \<or> route = js ''/docs/api'' then ApiReferenceScreen
      else if prefix (js ''/dashboard'') route then DashboardScreen (active_tab route)
      else NotFoundScreen)"

definition handleTabChange :: "jstr \<Rightarrow> router \<Rightarrow> router" where
  "handleTabChange tab r = navigate (js ''/dashboard/'' @ tab) r"

text \<open>The component rendered inside the layout for a tab; an unknown tab renders none.\<close>

definition dashboard_child :: "jstr \<Rightarrow> string option" where
  "dashboard_child tab =
     (if tab = js ''overview'' then Some ''Overview''
      else if tab = js ''analytics'' then Some ''Analytics''
      else if tab = js ''activity'' then Some ''Activity''
      else if tab = js ''agents'' then Some ''Agents''
      else if tab = js ''delegations'' then Some ''Delegations''
      else if tab = js ''sessions'' then Some ''Sessions''
      else if tab = js ''receipts'' then Some ''Receipts''
      else if tab = js ''verify'' then Some ''Verify''
      else if tab = js ''projects'' then Some ''Projects''
      else if tab = js ''apikeys'' then Some ''ApiKeys''
      else if tab = js ''settings'' then Some ''Settings''
      else None)"

text \<open>A dashboard screen with a page inside the layout.\<close>

definition shows_page :: "app_screen \<Rightarrow> bool" where
  "shows_page s = (case s of DashboardScreen tab \<Rightarrow> dashboard_child tab \<noteq> None | _ \<Rightarrow> False)"

section \<open>Tabs\<close>

lemma split_hd_append: "c \<notin> set s \<Longrightarrow> hd (split_on c (s @ t)) = s @ hd (split_on c t)"
proof (induction s)
  case (Cons u s)
  obtain p ps where "split_on c (s @ t) = p # ps" by (cases "split_on c (s @ t)") auto
  with Cons show ?case by auto
qed simp

lemma app_route_free: "63 \<notin> set p \<Longrightarrow> app_route p = p"
  by (simp add: app_route_def split_on_free)

lemma dashboard_parts: "47 \<notin> set tab \<Longrightarrow>
    split_on 47 (js ''/dashboard/'' @ tab) = [[], js ''dashboard'', tab]"
proof -
  assume "47 \<notin> set tab"
  moreover have "js ''/dashboard/'' @ tab = [] @ 47 # (js ''dashboard'' @ 47 # tab)"
    by (simp add: js_def)
  moreover have "47 \<notin> set (js ''dashboard'')" by (simp add: js_def)
  ultimately show ?thesis by (simp only: split_on_append_sep) (simp add: split_on_free)
qed

lemma active_tab_dashboard:
  "47 \<notin> set tab \<Longrightarrow> tab \<noteq> [] \<Longrightarrow> active_tab (js ''/dashboard/'' @ tab) = tab"
  by (simp add: active_tab_def dashboard_parts or_str_Some)

lemma app_render_dashboard:
  assumes "63 \<notin> set tab"
  shows "app_render splashDone False (js ''/dashboard/'' @ tab)
           = DashboardScreen (active_tab (js ''/dashboard/'' @ tab))"
proof -
  have "63 \<notin> set (js ''/dashboard/'' @ tab)" using assms by (simp add: js_def)
  then have "app_route (js ''/dashboard/'' @ tab) = js ''/dashboard/'' @ tab"
    by (rule app_route_free)
  moreover have "prefix (js ''/dashboard'') (js ''/dashboard/'' @ tab)"
    by (simp add: js_def)
  moreover have "js ''/dashboard/'' @ tab \<noteq> js p" if "\<not> prefix ''/dashboard/'' p" for p
    using that by (rule js_prefix_neq)
  ultimately show ?thesis by (simp add: app_render_def Let_def)
qed

text \<open>From anywhere, \<open>handleTabChange\<close> leads to the tab's screen.\<close>

lemma handleTabChange_shows:
  assumes "tab \<noteq> []" "47 \<notin> set tab" "63 \<notin> set tab" "35 \<notin> set tab"
  shows "app_render splashDone False (getPath (handleTabChange tab r)) = DashboardScreen tab"
proof -
  let ?to = "js ''/dashboard/'' @ tab"
  have nh: "35 \<notin> set ?to" using assms(4) by (simp add: js_def)
  have "to_url ?to = ?to" by (simp add: to_url_def js_def)
  then have "location (handleTabChange tab r) = ?to"
    using hist.nav_at [OF nh] by (simp add: handleTabChange_def)
  then have "getPath (handleTabChange tab r) = ?to"
    by (simp add: getPath_def or_str_Some)
  then show ?thesis using assms by (simp add: app_render_dashboard active_tab_dashboard)
qed

lemma dashboard_prefix_screen:
  "app_render splashDone False (js ''/dashboardxyz'') = DashboardScreen (js ''overview'')"
  by code_simp

end
