(* ===== verification/AuthPages.thy ===== *)
theory AuthPages
  imports App Ui
begin

text \<open>
  The pages around the session: \<open>src/pages/auth/Login.tsx\<close>, \<open>Signup.tsx\<close>,
  \<open>ForgotPassword.tsx\<close> and their \<open>AuthLayout.tsx\<close>. The sign-in and sign-up pages await the
  session provider of \<open>Auth\<close>, so their states carry it and the router: a step of the provider
  that returns an outcome resumes the page's handler.
\<close>

section \<open>\<open>AuthLayout\<close>\<close>

definition auth_visual :: "'e node" where
  "auth_visual = El ''aside'' []
     [El ''div'' [] [El ''div'' [] [icon ''AnchorGlobe'']],
      El ''div'' []
       [El ''h2'' [] [tx ''Proof, not promises.''],
        El ''p'' [] [tx ''Babit gives you cryptographic evidence for every action your AI agents take.'']],
      El ''div'' []
       (map (\<lambda>b. El ''div'' [] [El ''div'' [] [El ''span'' [] [icon ''IconCheck'']], El ''p'' [] [tx b]])
          [''Every agent action is recorded with proof'',
           ''Anyone can verify what happened. Independently auditable.'',
           ''Works with any agent, any language, any platform'']
        @ [El ''div'' [] [icon ''IconCheck'', El ''span'' [] [tx ''Cryptographically verifiable'']]])]"

definition auth_layout ::
  "(jstr \<Rightarrow> 'e) \<Rightarrow> jstr \<Rightarrow> jstr \<Rightarrow> 'e node list \<Rightarrow> 'e node list \<Rightarrow> 'e node" where
  "auth_layout nav title subtitle children footer = El ''div'' []
     [El ''main'' []
       [link nav (js ''/'') [] [icon ''BabitLogo'', El ''span'' [] [tx ''babit'']],
        El ''div'' [] [El ''div'' []
          ([El ''h1'' [] [Text title]]
           @ if_truthy (Some subtitle) (\<lambda>t. [El ''p'' [] [Text t]])
           @ [El ''div'' [] children]
           @ only_if (footer \<noteq> []) [El ''div'' [] footer])],
        El ''p'' [] [tx ''Receipts stay verifiable without an account.'']],
      auth_visual]"

lemma fires_auth_visual [simp]: "\<not> can_fire auth_visual e"
  by (simp add: auth_visual_def)

lemma fires_auth_layout [simp]: "can_fire (auth_layout nav t s ks f) e \<longleftrightarrow>
    e = nav (js ''/'') \<or> fires_in ks e \<or> fires_in f e"
  by (cases f) (auto simp: auth_layout_def)

definition footer_link :: "(jstr \<Rightarrow> 'e) \<Rightarrow> string \<Rightarrow> string \<Rightarrow> string \<Rightarrow> 'e node" where
  "footer_link nav ask to label = El ''p'' [] [tx ask, tx '' '', link nav (js to) [] [tx label]]"

lemma fires_footer_link [simp]: "can_fire (footer_link nav a to l) e \<longleftrightarrow> e = nav (js to)"
  by (auto simp: footer_link_def)

section \<open>\<open>Login\<close>\<close>

record login_page =
  lg_email :: jstr
  lg_password :: jstr
  lg_loading :: bool
  lg_error :: "jstr option"
  lg_waiting :: nat
  lg_auth :: auth
  lg_router :: router

definition login_mount :: "auth \<Rightarrow> router \<Rightarrow> login_page" where
  "login_mount a r = \<lparr>lg_email = [], lg_password = [], lg_loading = False, lg_error = None,
     lg_waiting = 0, lg_auth = a, lg_router = r\<rparr>"

definition login_submit :: "login_page \<Rightarrow> login_page" where
  "login_submit s =
     (if lg_email s = [] \<or> lg_password s = []
      then s\<lparr>lg_error := Some (js ''Please fill in all fields.'')\<rparr>
      else s\<lparr>lg_loading := True, lg_error := None, lg_waiting := lg_waiting s + 1,
             lg_auth := login (lg_email s) (lg_password s) (lg_auth s)\<rparr>)"

definition login_returned :: "login_outcome \<Rightarrow> login_page \<Rightarrow> login_page" where
  "login_returned out s =
     (let s' = s\<lparr>lg_loading := False, lg_waiting := lg_waiting s - 1\<rparr> in
      case out of
        LoginSuccess \<Rightarrow> s'\<lparr>lg_router := navigate (js ''/dashboard'') (lg_router s')\<rparr>
      | LoginFailure m \<Rightarrow> s'\<lparr>lg_error :=
          Some (or_str (Some m) (js ''Failed to sign in. Please check your credentials.''))\<rparr>)"

text \<open>A step of the provider; an outcome it returns goes to the waiting handler.\<close>

definition login_auth :: "auth_event \<Rightarrow> login_page \<Rightarrow> login_page" where
  "login_auth e s =
     (let a = auth_step (lg_auth s) e; s' = s\<lparr>lg_auth := a\<rparr> in
      if length (au_returned (lg_auth s)) < length (au_returned a) \<and> lg_waiting s \<noteq> 0
      then login_returned (last (au_returned a)) s' else s')"

datatype login_event =
    LgEmail jstr
  | LgPassword jstr
  | LgSubmit
  | LgGo jstr
  | LgAuth auth_event

fun login_step :: "login_page \<Rightarrow> login_event \<Rightarrow> login_page" where
  "login_step s (LgEmail v) = s\<lparr>lg_email := v\<rparr>"
| "login_step s (LgPassword v) = s\<lparr>lg_password := v\<rparr>"
| "login_step s LgSubmit = login_submit s"
| "login_step s (LgGo to) = s\<lparr>lg_router := navigate to (lg_router s)\<rparr>"
| "login_step s (LgAuth e) = login_auth e s"

definition password_dots :: jstr where
  "password_dots = replicate 12 0x2022"

definition login_view :: "login_page \<Rightarrow> login_event node" where
  "login_view s = auth_layout LgGo (js ''Sign in to babit'')
     (js ''Pick up the evidence trail where you left it.'')
     [El ''form'' [OnSubmit LgSubmit]
       (if_truthy (lg_error s) (\<lambda>m. [error_box m])
        @ [field (js ''Work email'') [] None None
             (text_input [Attr ''type'' (js ''email''), Attr ''value'' (lg_email s), OnChange LgEmail,
                Attr ''placeholder'' (js ''alice@company.com''), Attr ''autoComplete'' (js ''email''),
                Flag ''required'' True]),
           field (js ''Password'')
             [link LgGo (js ''/forgot-password'') [] [tx ''Forgot password?'']] None None
             (text_input [Attr ''type'' (js ''password''), Attr ''value'' (lg_password s),
                OnChange LgPassword, Attr ''placeholder'' password_dots,
                Attr ''autoComplete'' (js ''current-password''), Flag ''required'' True]),
           button ''brand'' ''md'' (lg_loading s) False [Attr ''type'' (js ''submit'')] [tx ''Sign in'']])]
     [footer_link LgGo ''Don't have an account?'' ''/signup'' ''Create One'']"

lemma submit_ready_field_input [simp]:
  "submit_ready (field l h er i (text_input as)) \<longleftrightarrow> submit_ready_in h"
  by (cases h; cases er) (auto simp: field_def Let_def text_input_def if_truthy_def split: list.splits)

lemma submit_ready_link [simp]: "submit_ready (link nav to ps ks) \<longleftrightarrow> submit_ready_in ks"
  by (simp add: link_def)

lemma submit_ready_error_box [simp]: "\<not> submit_ready (error_box m)"
  by (simp add: error_box_def)

lemma submit_ready_if_error [simp]: "\<not> submit_ready_in (if_truthy v (\<lambda>m. [error_box m]))"
  by (cases v) (auto simp: if_truthy_def)

lemma fires_login_view: "can_fire (login_view s) e \<longleftrightarrow>
   (\<exists>v. e = LgEmail v) \<or> (\<exists>v. e = LgPassword v) \<or> e = LgSubmit \<and> \<not> lg_loading s
   \<or> e = LgGo (js ''/'') \<or> e = LgGo (js ''/forgot-password'') \<or> e = LgGo (js ''/signup'')"
  by (auto simp: login_view_def)

fun login_outside :: "login_event \<Rightarrow> bool" where
  "login_outside (LgAuth e) = (\<forall>e' p b. e \<noteq> Login e' p \<and> e \<noteq> Signup b)"
| "login_outside _ = False"

subsection \<open>Signing in\<close>

text \<open>A sample page, for concrete instances: the form filled in, the session idle.\<close>

definition demo_login :: login_page where
  "demo_login = (login_mount (auth_step (auth_mount demo_client) (MeReply 0 (Resolved None JUndef)))
     (router_start (js ''/login'')))\<lparr>lg_email := js ''a@b.c'', lg_password := js ''pw''\<rparr>"

lemma demo_login_filled:
  "lg_email demo_login = js ''a@b.c''" "lg_password demo_login = js ''pw''"
  "lg_waiting demo_login = 0" "au_pending (lg_auth demo_login) = []" "\<not> js_truthy JUndef"
  by (simp_all add: demo_login_def login_mount_def auth_mount_def auth_defs)

text \<open>
  From an idle page: the session reply stores the token, the profile reply the user, and the
  page leaves for the dashboard, signed in, with the token on every further request.
\<close>

lemma login_flow:
  assumes "lg_email s \<noteq> []" "lg_password s \<noteq> []" "lg_waiting s = 0"
    and "au_pending (lg_auth s) = []" "\<not> js_truthy err"
    and "lr_token d = Some tok" "tok \<noteq> []"
  shows "let s' = run login_step s [LgSubmit, LgAuth (SessionReply 0 (Resolved (Some d) err)),
             LgAuth (MeReply 0 (Resolved (Some m) err'))] in
     isAuthenticated (lg_auth s') \<and> au_token (lg_auth s') = Some tok
     \<and> au_user (lg_auth s') = me_user m \<and> \<not> lg_loading s' \<and> \<not> au_loading (lg_auth s') \<and> lg_error s' = None
     \<and> location (lg_router s') = js ''/dashboard''
     \<and> map_of (request_headers (au_client (lg_auth s'))) ''Authorization'' = Some (js ''Bearer '' @ tok)"
proof -
  let ?s1 = "login_step s LgSubmit"
  have s1: "au_pending (lg_auth ?s1) = [WaitSession]" "lg_waiting ?s1 = 1"
    "au_returned (lg_auth ?s1) = au_returned (lg_auth s)" "lg_router ?s1 = lg_router s" "lg_error ?s1 = None"
    using assms by (simp_all add: login_submit_def login_def)
  let ?s2 = "login_step ?s1 (LgAuth (SessionReply 0 (Resolved (Some d) err)))"
  have s2: "au_pending (lg_auth ?s2) = [WaitMe True]" "lg_waiting ?s2 = 1"
    "au_returned (lg_auth ?s2) = au_returned (lg_auth s)" "au_token (lg_auth ?s2) = Some tok"
    "cl_auth_token (au_client (lg_auth ?s2)) = Some tok" "lg_router ?s2 = lg_router s"
    "lg_error ?s2 = None"
    using s1 assms(5-7) by (simp_all add: login_auth_def Let_def auth_defs del: login_step.simps(3))
  have loc: "location (navigate (js ''/dashboard'') (lg_router s)) = js ''/dashboard''"
    using hist.nav_at [of "js ''/dashboard''" "lg_router s"] by (simp add: js_def to_url_def)
  have "navigate (js ''/dashboard'') (lg_router ?s2) = navigate (js ''/dashboard'') (lg_router s)"
    by (simp only: s2)
  then show ?thesis
    using s2 loc assms(7)
    by (simp add: login_auth_def Let_def auth_defs login_returned_def isAuthenticated_def
        request_headers_def onRequest_def set_header_def del: login_step.simps(3))
qed

text \<open>The session is dropped by a failed profile request, and the page reports success all the same.\<close>

text \<open>C40. A sign-in whose profile request fails ends signed out without a word: the session is
  dropped, no error is shown, the page navigates to the dashboard as if it had succeeded, and the
  dashboard's guard sends the user back to the login page.\<close>
theorem login_despite_failed_profile:
  assumes "lg_email s \<noteq> []" "lg_password s \<noteq> []" "lg_waiting s = 0"
    and "au_pending (lg_auth s) = []" "\<not> js_truthy err"
    and "lr_token d = Some tok" "tok \<noteq> []"
  shows "let s' = run login_step s [LgSubmit, LgAuth (SessionReply 0 (Resolved (Some d) err)),
             LgAuth (MeReply 0 (Resolved None err'))] in
     \<not> isAuthenticated (lg_auth s') \<and> lg_error s' = None
     \<and> location (lg_router s') = js ''/dashboard''
     \<and> location (useRequireAuth (lg_auth s') (lg_router s')) = js ''/login''"
proof -
  let ?s1 = "login_step s LgSubmit"
  have s1: "au_pending (lg_auth ?s1) = [WaitSession]" "lg_waiting ?s1 = 1"
    "au_returned (lg_auth ?s1) = au_returned (lg_auth s)" "lg_router ?s1 = lg_router s" "lg_error ?s1 = None"
    using assms by (simp_all add: login_submit_def login_def)
  let ?s2 = "login_step ?s1 (LgAuth (SessionReply 0 (Resolved (Some d) err)))"
  have s2: "au_pending (lg_auth ?s2) = [WaitMe True]" "lg_waiting ?s2 = 1"
    "au_returned (lg_auth ?s2) = au_returned (lg_auth s)" "lg_error ?s2 = None"
    using s1 assms(5-7) by (simp_all add: login_auth_def Let_def auth_defs del: login_step.simps(3))
  have loc: "location (navigate to r) = to" if "35 \<notin> set to" "prefix (js ''/'') to" for to r
    using hist.nav_at [OF that(1)] that(2) by (simp add: to_url_def)
  have ok: "35 \<notin> set (js ''/dashboard'')" "prefix (js ''/'') (js ''/dashboard'')"
    "35 \<notin> set (js ''/login'')" "prefix (js ''/'') (js ''/login'')"
    by (simp_all add: js_def)
  show ?thesis
    using s2 loc [OF ok(1,2)] loc [OF ok(3,4)]
    by (simp add: login_auth_def Let_def auth_defs login_returned_def isAuthenticated_def
        useRequireAuth_def del: login_step.simps(3))
qed

theorem login_despite_failed_profile_witness:
  "let s' = run login_step demo_login [LgSubmit,
         LgAuth (SessionReply 0 (Resolved (Some \<lparr>lr_token = Some (js ''t''), lr_user = None\<rparr>) JUndef)),
         LgAuth (MeReply 0 (Resolved None (JStr (js ''boom''))))] in
     \<not> isAuthenticated (lg_auth s') \<and> lg_error s' = None"
  using login_despite_failed_profile [of demo_login JUndef "\<lparr>lr_token = Some (js ''t''), lr_user = None\<rparr>"
      "js ''t''" "JStr (js ''boom'')"]
  by (simp add: demo_login_filled js_def Let_def)

section \<open>\<open>Signup\<close>\<close>

definition INDUSTRIES :: "string list" where
  "INDUSTRIES =
     [''Technology & Software'', ''Financial Services & Banking'', ''Healthcare & Life Sciences'',
      ''Insurance'', ''Enterprise Software & SaaS'', ''AI & Autonomous Infrastructure'',
      ''Government & Defense'', ''Legal & Compliance'', ''Manufacturing & Logistics'',
      ''Retail & E-Commerce'', ''Energy & Utilities'', ''Consulting & Professional Services'',
      ''Other'']"

definition ORGANIZATION :: jstr where "ORGANIZATION = js ''ACCOUNT_TYPE_ORGANIZATION''"
definition PERSONAL :: jstr where "PERSONAL = js ''ACCOUNT_TYPE_PERSONAL''"

record signup_page =
  sp_accountType :: jstr
  sp_email :: jstr
  sp_fullName :: jstr
  sp_password :: jstr
  sp_orgName :: jstr
  sp_orgDomain :: jstr
  sp_industry :: jstr
  sp_loading :: bool
  sp_error :: "jstr option"
  sp_waiting :: nat
  sp_auth :: auth
  sp_router :: router

definition signup_mount :: "auth \<Rightarrow> router \<Rightarrow> signup_page" where
  "signup_mount a r = \<lparr>sp_accountType = ORGANIZATION, sp_email = [], sp_fullName = [],
     sp_password = [], sp_orgName = [], sp_orgDomain = [],
     sp_industry = js ''Technology & Software'', sp_loading = False, sp_error = None,
     sp_waiting = 0, sp_auth = a, sp_router = r\<rparr>"

definition free_mail :: "jstr list" where
  "free_mail = [js ''gmail.com'', js ''yahoo.com'', js ''hotmail.com'', js ''outlook.com'']"

definition capitalize :: "jstr \<Rightarrow> jstr" where
  "capitalize s = to_upper (take 1 s) @ drop 1 s"

definition handleEmailBlur :: "signup_page \<Rightarrow> signup_page" where
  "handleEmailBlur s =
     (if js_includes (sp_email s) [64] \<and> sp_orgDomain s = []
      then (let parts = split_on 64 (sp_email s);
                domain = (if 1 < length parts then parts ! 1 else []) in
        if domain \<noteq> [] \<and> domain \<notin> set free_mail
        then (let s' = s\<lparr>sp_orgDomain := domain\<rparr> in
          if sp_orgName s = [] then s'\<lparr>sp_orgName := capitalize (hd (split_on 46 domain))\<rparr> else s')
        else s)
      else s)"

definition signup_params :: "signup_page \<Rightarrow> signup_body" where
  "signup_params s = (let org = (sp_accountType s = ORGANIZATION) in
     \<lparr>sg_email = sp_email s, sg_password = sp_password s, sg_account_type = sp_accountType s,
      sg_org_name = (if org then Some (sp_orgName s) else None),
      sg_org_domain = (if org then Some (sp_orgDomain s) else None),
      sg_industry = (if org then Some (sp_industry s) else None)\<rparr>)"

definition signup_submit :: "signup_page \<Rightarrow> signup_page" where
  "signup_submit s =
     (if sp_email s = [] \<or> sp_password s = []
      then s\<lparr>sp_error := Some (js ''Email and password are required.'')\<rparr>
      else if length (sp_password s) < 8
      then s\<lparr>sp_error := Some (js ''Password must be at least 8 characters.'')\<rparr>
      else s\<lparr>sp_loading := True, sp_error := None, sp_waiting := sp_waiting s + 1,
             sp_auth := signup (signup_params s) (sp_auth s)\<rparr>)"

definition signup_returned :: "login_outcome \<Rightarrow> signup_page \<Rightarrow> signup_page" where
  "signup_returned out s =
     (let s' = s\<lparr>sp_loading := False, sp_waiting := sp_waiting s - 1\<rparr> in
      case out of
        LoginSuccess \<Rightarrow> s'\<lparr>sp_router := navigate (js ''/dashboard'') (sp_router s')\<rparr>
      | LoginFailure m \<Rightarrow> s'\<lparr>sp_error :=
          Some (or_str (Some m) (js ''Couldn't create the workspace. Please try again.''))\<rparr>)"

definition signup_auth :: "auth_event \<Rightarrow> signup_page \<Rightarrow> signup_page" where
  "signup_auth e s =
     (let a = auth_step (sp_auth s) e; s' = s\<lparr>sp_auth := a\<rparr> in
      if length (au_returned (sp_auth s)) < length (au_returned a) \<and> sp_waiting s \<noteq> 0
      then signup_returned (last (au_returned a)) s' else s')"

datatype signup_event =
    SpType jstr
  | SpEmail jstr
  | SpEmailBlur
  | SpFullName jstr
  | SpPassword jstr
  | SpOrgName jstr
  | SpOrgDomain jstr
  | SpIndustry jstr
  | SpSubmit
  | SpGo jstr
  | SpAuth auth_event

fun signup_step :: "signup_page \<Rightarrow> signup_event \<Rightarrow> signup_page" where
  "signup_step s (SpType t) = s\<lparr>sp_accountType := t\<rparr>"
| "signup_step s (SpEmail v) = s\<lparr>sp_email := v\<rparr>"
| "signup_step s SpEmailBlur = handleEmailBlur s"
| "signup_step s (SpFullName v) = s\<lparr>sp_fullName := v\<rparr>"
| "signup_step s (SpPassword v) = s\<lparr>sp_password := v\<rparr>"
| "signup_step s (SpOrgName v) = s\<lparr>sp_orgName := v\<rparr>"
| "signup_step s (SpOrgDomain v) = s\<lparr>sp_orgDomain := v\<rparr>"
| "signup_step s (SpIndustry v) = s\<lparr>sp_industry := v\<rparr>"
| "signup_step s SpSubmit = signup_submit s"
| "signup_step s (SpGo to) = s\<lparr>sp_router := navigate to (sp_router s)\<rparr>"
| "signup_step s (SpAuth e) = signup_auth e s"

definition account_type_card ::
  "bool \<Rightarrow> signup_event \<Rightarrow> string \<Rightarrow> string \<Rightarrow> string \<Rightarrow> signup_event node" where
  "account_type_card selected onClick ic label description =
     El ''button'' [Attr ''type'' (js ''button''), OnClick onClick, Flag ''aria-pressed'' selected]
      [El ''div'' [] [icon ic, El ''span'' [] [tx label]], El ''span'' [] [tx description]]"

definition password_hint :: "jstr \<Rightarrow> signup_event node list" where
  "password_hint p = (if p = [] then [] else
     [tx (if 8 \<le> length p then ''Strong password'' else ''Min 8 chars'')])"

definition org_fields :: "signup_page \<Rightarrow> signup_event node" where
  "org_fields s = El ''div'' []
     [El ''div'' []
       [icon ''IconSparkles'',
        El ''span'' [] [tx ''We'll pull your logo and colours from your domain to brand the console.'']],
      El ''div'' []
       [field (js ''Company name'') [] None None
         (text_input [Attr ''type'' (js ''text''), Attr ''value'' (sp_orgName s), OnChange SpOrgName,
            Attr ''placeholder'' (js ''Acme Corp'')]),
        field (js ''Domain'') [] None None
         (text_input [Attr ''type'' (js ''text''), Attr ''value'' (sp_orgDomain s), OnChange SpOrgDomain,
            Attr ''placeholder'' (js ''acme.corp'')])],
      field (js ''Industry sector'') [] None None
       (select [Attr ''value'' (sp_industry s), OnChange SpIndustry]
         (map (\<lambda>i. El ''option'' [Attr ''value'' (js i)] [tx i]) INDUSTRIES))]"

definition signup_view :: "signup_page \<Rightarrow> signup_event node" where
  "signup_view s = auth_layout SpGo (js ''Create your babit workspace'')
     (js ''Start recording what your agents do, and who allowed it.'')
     [El ''form'' [OnSubmit SpSubmit]
       (if_truthy (sp_error s) (\<lambda>m. [error_box m])
        @ [El ''div'' []
            [El ''label'' [] [tx ''Account structure''],
             El ''div'' []
              [account_type_card (sp_accountType s = ORGANIZATION) (SpType ORGANIZATION) ''IconBuilding''
                 ''Organization'' ''A team and its agents, under one domain'',
               account_type_card (sp_accountType s = PERSONAL) (SpType PERSONAL) ''IconUser''
                 ''Personal'' ''Just you and your own agents'']],
           field (js ''Work email'') [] None None
            (text_input [Attr ''type'' (js ''email''), Attr ''value'' (sp_email s), OnChange SpEmail,
               OnBlur SpEmailBlur, Attr ''placeholder'' (js ''yusuf@acme.corp''),
               Attr ''autoComplete'' (js ''email''), Flag ''required'' True]),
           field (js ''Full name'') [] None None
            (text_input [Attr ''type'' (js ''text''), Attr ''value'' (sp_fullName s), OnChange SpFullName,
               Attr ''placeholder'' (js ''Yusuf Sterling''), Attr ''autoComplete'' (js ''name'')]),
           field (js ''Password'') (password_hint (sp_password s)) None None
            (text_input [Attr ''type'' (js ''password''), Attr ''value'' (sp_password s),
               OnChange SpPassword, Attr ''placeholder'' password_dots,
               Attr ''autoComplete'' (js ''new-password''), Flag ''required'' True])]
        @ only_if (sp_accountType s = ORGANIZATION) [org_fields s]
        @ [button ''brand'' ''md'' (sp_loading s) False [Attr ''type'' (js ''submit'')]
            [tx ''Create workspace'']])]
     [footer_link SpGo ''Already have an account?'' ''/login'' ''Sign in'']"

section \<open>\<open>ForgotPassword\<close>\<close>

record forgot_page =
  fp_email :: jstr
  fp_loading :: bool
  fp_sent :: bool
  fp_error :: "jstr option"
  fp_timers :: nat

definition forgot_mount :: forgot_page where
  "forgot_mount = \<lparr>fp_email = [], fp_loading = False, fp_sent = False, fp_error = None, fp_timers = 0\<rparr>"

text \<open>The link is not requested from the API: a timer pretends that it was sent.\<close>

datatype forgot_event = FpEmail jstr | FpSubmit | FpTimer | FpGo jstr

fun forgot_step :: "forgot_page \<Rightarrow> forgot_event \<Rightarrow> forgot_page" where
  "forgot_step s (FpEmail v) = s\<lparr>fp_email := v\<rparr>"
| "forgot_step s FpSubmit =
     (if fp_email s = [] then s\<lparr>fp_error := Some (js ''Please provide your account email.'')\<rparr>
      else s\<lparr>fp_loading := True, fp_error := None, fp_timers := fp_timers s + 1\<rparr>)"
| "forgot_step s FpTimer =
     (if fp_timers s = 0 then s
      else s\<lparr>fp_timers := fp_timers s - 1, fp_loading := False, fp_sent := True\<rparr>)"
| "forgot_step s (FpGo to) = s"

definition forgot_view :: "forgot_page \<Rightarrow> forgot_event node" where
  "forgot_view s = auth_layout FpGo (js ''Reset your password'')
     (js ''Enter your work email and we'll send you a reset link.'')
     [if fp_sent s
      then El ''div'' []
        [El ''div'' []
          [El ''div'' [] [icon ''IconCheck'', El ''span'' [] [tx ''Reset link sent'']],
           El ''p'' []
            [tx ''If an account exists for '', El ''strong'' [] [Text (fp_email s)],
             tx '', the reset instructions are on their way.'']],
         link FpGo (js ''/login'') [] [tx ''Back to sign in'']]
      else El ''form'' [OnSubmit FpSubmit]
        (if_truthy (fp_error s) (\<lambda>m. [error_box m])
         @ [field (js ''Work email'') [] None None
              (text_input [Attr ''type'' (js ''email''), Attr ''value'' (fp_email s), OnChange FpEmail,
                 Attr ''placeholder'' (js ''alice@company.com''), Attr ''autoComplete'' (js ''email''),
                 Flag ''required'' True]),
            button ''brand'' ''md'' (fp_loading s) False [Attr ''type'' (js ''submit'')]
             [tx ''Send reset link'']])]
     [footer_link FpGo ''Remembered it?'' ''/login'' ''Sign in'']"

lemma fires_forgot_view: "can_fire (forgot_view s) e \<longleftrightarrow>
   \<not> fp_sent s \<and> ((\<exists>v. e = FpEmail v) \<or> e = FpSubmit \<and> \<not> fp_loading s)
   \<or> e = FpGo (js ''/'') \<or> e = FpGo (js ''/login'')"
  by (auto simp: forgot_view_def)

text \<open>At most one timer runs, exactly while the page loads, and it always ends in "sent".\<close>

definition forgot_inv :: "forgot_page \<Rightarrow> bool" where
  "forgot_inv s \<longleftrightarrow> fp_timers s = (if fp_loading s then 1 else 0) \<and> (fp_sent s \<longrightarrow> \<not> fp_loading s)"

interpretation fps: screen forgot_mount forgot_step forgot_view "\<lambda>e. e = FpTimer" forgot_inv
  by unfold_locales
     (auto simp: forgot_inv_def forgot_mount_def fires_forgot_view split: if_splits)

section \<open>What is sent to sign up\<close>

lemma submit_ready_select [simp]:
  "\<not> submit_ready (field l [] None None (select as (map (\<lambda>i. El ''option'' (f i) [tx i]) is)))"
proof -
  have "\<not> submit_ready_in (map (\<lambda>i. El ''option'' (f i) [tx i]) is)" by (induction "is") auto
  then show ?thesis by (simp add: field_def Let_def select_def)
qed

lemma fires_org_fields: "can_fire (org_fields s) e \<longleftrightarrow>
   (\<exists>v. e = SpOrgName v) \<or> (\<exists>v. e = SpOrgDomain v) \<or> (\<exists>v. e = SpIndustry v)"
proof -
  have "\<not> fires_in (map (\<lambda>i. El ''option'' [Attr ''value'' (js i)] [tx i]) is) e" for "is"
    by (auto simp: fires_in_map)
  then show ?thesis by (auto simp: org_fields_def select_def)
qed

lemma fires_account_card [simp]: "can_fire (account_type_card b m ic l d) e \<longleftrightarrow> e = m"
  by (auto simp: account_type_card_def)

lemma submit_ready_account_card [simp]: "\<not> submit_ready (account_type_card b m ic l d)"
  by (simp add: account_type_card_def)

lemma submit_ready_org_fields [simp]: "\<not> submit_ready (org_fields s)"
  by (simp add: org_fields_def)

lemma fires_password_hint [simp]: "\<not> fires_in (password_hint p) e" "\<not> submit_ready_in (password_hint p)"
  by (auto simp: password_hint_def)

lemma fires_signup_view: "can_fire (signup_view s) e \<Longrightarrow>
   e = SpType ORGANIZATION \<or> e = SpType PERSONAL \<or> (\<exists>v. e = SpEmail v) \<or> e = SpEmailBlur
   \<or> (\<exists>v. e = SpFullName v) \<or> (\<exists>v. e = SpPassword v)
   \<or> sp_accountType s = ORGANIZATION \<and> ((\<exists>v. e = SpOrgName v) \<or> (\<exists>v. e = SpOrgDomain v) \<or> (\<exists>v. e = SpIndustry v))
   \<or> e = SpSubmit \<and> \<not> sp_loading s \<or> (\<exists>to. e = SpGo to)"
  by (auto simp: signup_view_def fires_org_fields split: if_splits)

fun signup_outside :: "signup_event \<Rightarrow> bool" where
  "signup_outside (SpAuth e) = (\<forall>e' p b. e \<noteq> Login e' p \<and> e \<noteq> Signup b)"
| "signup_outside _ = False"

text \<open>
  Every sign-up request carries an email, a password of eight units at least, one of the two
  account types, and organization data exactly for an organization.
\<close>

definition good_signup :: "signup_body \<Rightarrow> bool" where
  "good_signup b \<longleftrightarrow> sg_email b \<noteq> [] \<and> 8 \<le> length (sg_password b)
     \<and> (sg_account_type b = ORGANIZATION \<and> sg_org_name b \<noteq> None \<and> sg_org_domain b \<noteq> None
          \<and> sg_industry b \<noteq> None
        \<or> sg_account_type b = PERSONAL \<and> sg_org_name b = None \<and> sg_org_domain b = None
          \<and> sg_industry b = None)"

definition signup_inv :: "signup_page \<Rightarrow> bool" where
  "signup_inv s \<longleftrightarrow>
     (sp_accountType s = ORGANIZATION \<or> sp_accountType s = PERSONAL)
     \<and> (\<forall>b. PostSignup b \<in> set (au_requests (sp_auth s)) \<longrightarrow> good_signup b)"

lemma ORGANIZATION_PERSONAL [simp]: "ORGANIZATION \<noteq> PERSONAL" "PERSONAL \<noteq> ORGANIZATION"
  by (simp_all add: ORGANIZATION_def PERSONAL_def)

lemma auth_requests_step:
  "\<forall>e' p b. e \<noteq> Login e' p \<and> e \<noteq> Signup b \<Longrightarrow>
   set (au_requests (auth_step a e)) \<subseteq> insert GetMe (set (au_requests a))"
  by (cases e)
     (auto simp: auth_defs Let_def split: auth_wait.splits reply.splits option.splits if_splits)

lemma signup_inv_submit: "signup_inv s \<Longrightarrow> signup_inv (signup_submit s)"
proof -
  assume inv: "signup_inv s"
  have "good_signup (signup_params s)" if "sp_email s \<noteq> []" "\<not> length (sp_password s) < 8"
    using inv that by (auto simp: signup_inv_def good_signup_def signup_params_def Let_def)
  with inv show ?thesis by (auto simp: signup_submit_def signup_inv_def signup_def)
qed

lemma signup_inv_blur: "signup_inv (handleEmailBlur s) = signup_inv s"
  by (simp add: handleEmailBlur_def Let_def signup_inv_def)

lemma signup_inv_user:
  assumes "signup_inv s" "can_fire (signup_view s) e"
  shows "signup_inv (signup_step s e)"
  using fires_signup_view [OF assms(2)] assms(1)
  by (elim disjE exE conjE) (simp_all add: signup_inv_submit signup_inv_blur, simp_all add: signup_inv_def)

lemma signup_inv_outside:
  assumes "signup_inv s" "signup_outside e"
  shows "signup_inv (signup_step s e)"
proof (cases e)
  case (SpAuth x)
  then have sub: "set (au_requests (auth_step (sp_auth s) x)) \<subseteq> insert GetMe (set (au_requests (sp_auth s)))"
    using assms(2) by (intro auth_requests_step) simp
  have "sp_auth (signup_auth x s) = auth_step (sp_auth s) x"
    "sp_accountType (signup_auth x s) = sp_accountType s"
    by (auto simp: signup_auth_def signup_returned_def Let_def split: login_outcome.splits)
  with SpAuth sub assms(1) show ?thesis by (auto simp: signup_inv_def)
qed (use assms in auto)

interpretation sps: screen "signup_mount (auth_mount c) (router_start (js ''/signup''))"
  signup_step signup_view signup_outside signup_inv for c
proof
  show "signup_inv (signup_mount (auth_mount c) (router_start (js ''/signup'')))"
    by (simp add: signup_inv_def signup_mount_def auth_mount_def refreshMe_def)
qed (simp_all add: signup_inv_user signup_inv_outside del: signup_step.simps)

lemma demo_signup_reached:
  defines "m \<equiv> signup_mount (auth_mount demo_client) (router_start (js ''/signup''))"
  shows "ui_reach m signup_step signup_view signup_outside
     (run signup_step m [SpEmail (js ''a@b.c''), SpPassword (js ''long enough''), SpSubmit])"
proof -
  have em: "can_fire (signup_view s) (SpEmail v)" "can_fire (signup_view s) (SpPassword v)" for s v
    by (simp_all add: signup_view_def)
  have "can_fire (signup_view s) SpSubmit" if "sp_email s \<noteq> []" "sp_password s \<noteq> []" "\<not> sp_loading s" for s
    using that by (auto simp: signup_view_def)
  then show ?thesis
    unfolding foldl.simps
    by (intro ui_user ui_init em) (auto simp: m_def signup_mount_def js_def)
qed

text \<open>C20. Every sign-up the page ever sends is well formed: with an email, a password of at least
  eight units, one of the two account types, and the organization's name, domain and industry
  exactly when the account is an organization's.
\<close>
theorem signup_requests_well_formed:
  assumes "ui_reach (signup_mount (auth_mount c) (router_start (js ''/signup'')))
      signup_step signup_view signup_outside s"
    and "PostSignup b \<in> set (au_requests (sp_auth s))"
  shows "sg_email b \<noteq> [] \<and> 8 \<le> length (sg_password b)
     \<and> (sg_account_type b = ORGANIZATION \<and> sg_org_name b \<noteq> None \<and> sg_org_domain b \<noteq> None
          \<and> sg_industry b \<noteq> None
        \<or> sg_account_type b = PERSONAL \<and> sg_org_name b = None \<and> sg_org_domain b = None
          \<and> sg_industry b = None)"
  using sps.reach_inv [OF assms(1)] assms(2) by (auto simp: signup_inv_def good_signup_def)

theorem signup_requests_well_formed_witness:
  "\<exists>b. PostSignup b \<in> set (au_requests (sp_auth (run signup_step
       (signup_mount (auth_mount demo_client) (router_start (js ''/signup'')))
       [SpEmail (js ''a@b.c''), SpPassword (js ''long enough''), SpSubmit])))
     \<and> sg_email b = js ''a@b.c'' \<and> 8 \<le> length (sg_password b)"
proof -
  let ?s = "run signup_step (signup_mount (auth_mount demo_client) (router_start (js ''/signup'')))
       [SpEmail (js ''a@b.c''), SpPassword (js ''long enough''), SpSubmit]"
  let ?b = "signup_params (run signup_step (signup_mount (auth_mount demo_client)
       (router_start (js ''/signup''))) [SpEmail (js ''a@b.c''), SpPassword (js ''long enough'')])"
  have b: "PostSignup ?b \<in> set (au_requests (sp_auth ?s))"
    by (simp add: signup_mount_def signup_submit_def signup_def js_def)
  moreover have "sg_email ?b = js ''a@b.c''"
    by (simp add: signup_params_def Let_def signup_mount_def)
  ultimately show ?thesis
    using signup_requests_well_formed [OF demo_signup_reached b] by blast
qed

text \<open>Leaving the email field never overwrites a domain, and never guesses a free mail host.\<close>

lemma blur_keeps_domain: "sp_orgDomain s \<noteq> [] \<Longrightarrow> handleEmailBlur s = s"
  by (simp add: handleEmailBlur_def)

lemma blur_no_free_mail: "sp_orgDomain s = [] \<Longrightarrow> sp_orgDomain (handleEmailBlur s) \<notin> set free_mail"
  by (auto simp: handleEmailBlur_def Let_def free_mail_def)

text \<open>The sign-up page guesses the organization from a work email: for an address at a domain
  that is no free mail host, leaving the field fills in an empty domain with the part after the
  at sign, and an empty company name with its first label, capitalized.\<close>
theorem blur_domain:
  assumes "sp_email s = user @ 64 # domain" "64 \<notin> set user" "64 \<notin> set domain"
    and "domain \<noteq> []" "domain \<notin> set free_mail" "sp_orgDomain s = []"
  shows "sp_orgDomain (handleEmailBlur s) = domain
    \<and> sp_orgName (handleEmailBlur s) =
        (if sp_orgName s = [] then capitalize (hd (split_on 46 domain)) else sp_orgName s)"
proof -
  have "js_includes (sp_email s) [64]" using assms(1) by (auto simp: js_includes_sublist sublist_def)
  moreover have "split_on 64 (sp_email s) = [user, domain]"
    by (simp add: assms(1) split_on_append_sep split_on_free [OF assms(2)] split_on_free [OF assms(3)])
  ultimately show ?thesis using assms(4-6) by (simp add: handleEmailBlur_def Let_def)
qed

theorem blur_domain_witness:
  "let s = (signup_mount (auth_mount demo_client) (router_start (js ''/signup'')))\<lparr>sp_email := js ''yusuf@acme.corp''\<rparr> in
     sp_orgDomain (handleEmailBlur s) = js ''acme.corp'' \<and> sp_orgName (handleEmailBlur s) = js ''Acme''"
proof -
  let ?s = "(signup_mount (auth_mount demo_client) (router_start (js ''/signup'')))\<lparr>sp_email := js ''yusuf@acme.corp''\<rparr>"
  have "js ''yusuf@acme.corp'' = js ''yusuf'' @ 64 # js ''acme.corp''" by (simp add: js_def)
  then have "sp_email ?s = js ''yusuf'' @ 64 # js ''acme.corp''" by simp
  moreover have "64 \<notin> set (js ''yusuf'')" "64 \<notin> set (js ''acme.corp'')" "js ''acme.corp'' \<noteq> []"
    by (simp_all add: js_def)
  moreover have "js ''acme.corp'' \<notin> set free_mail" by (simp add: free_mail_def)
  moreover have "sp_orgDomain ?s = []" "sp_orgName ?s = []" by (simp_all add: signup_mount_def)
  moreover have "capitalize (hd (split_on 46 (js ''acme.corp''))) = js ''Acme''" by code_simp
  ultimately show ?thesis using blur_domain [of ?s "js ''yusuf''" "js ''acme.corp''"] by (simp add: Let_def)
qed

end
