(* ===== verification/Crypto.thy ===== *)
theory Crypto
  imports Json
begin

text \<open>
  \<open>src/lib/crypto.ts\<close>: hexadecimal digests, the shortened form of a hash, and the demonstration
  receipts of the landing page. The digest function is the browser's \<open>crypto.subtle\<close> and a
  parameter (\<open>digest\<close>, from bytes to bytes); time and randomness are arguments too. Strings are
  hashed in UTF-8, with a lone surrogate replaced by U+FFFD as \<open>TextEncoder\<close> does.
\<close>

type_synonym byte = "8 word"

section \<open>UTF-8\<close>

definition utf8_point :: "nat \<Rightarrow> byte list" where
  "utf8_point c =
     (if c < 0x80 then [of_nat c]
      else if c < 0x800 then [of_nat (0xC0 + c div 64), of_nat (0x80 + c mod 64)]
      else if c < 0x10000 then
        [of_nat (0xE0 + c div 4096), of_nat (0x80 + c div 64 mod 64), of_nat (0x80 + c mod 64)]
      else [of_nat (0xF0 + c div 262144), of_nat (0x80 + c div 4096 mod 64),
            of_nat (0x80 + c div 64 mod 64), of_nat (0x80 + c mod 64)])"

fun utf8_encode :: "jstr \<Rightarrow> byte list" where
  "utf8_encode [] = []"
| "utf8_encode [u] =
     utf8_point (if high_surrogate u \<or> low_surrogate u then 0xFFFD else unat u)"
| "utf8_encode (u # v # s) =
     (if high_surrogate u \<and> low_surrogate v
      then utf8_point (0x10000 + (unat u - 0xD800) * 1024 + (unat v - 0xDC00)) @ utf8_encode s
      else utf8_point (if high_surrogate u \<or> low_surrogate u then 0xFFFD else unat u)
           @ utf8_encode (v # s))"

section \<open>Digests in hexadecimal\<close>

text \<open>\<open>b.toString(16).padStart(2, "0")\<close>\<close>

definition byte_hex :: "byte \<Rightarrow> jstr" where
  "byte_hex b = [hex_unit (unat b div 16), hex_unit (unat b mod 16)]"

definition hex_of_bytes :: "byte list \<Rightarrow> jstr" where
  "hex_of_bytes bs = concat (map byte_hex bs)"

definition sha256Hex :: "(byte list \<Rightarrow> byte list) \<Rightarrow> jstr \<Rightarrow> jstr" where
  "sha256Hex digest s = hex_of_bytes (digest (utf8_encode s))"

fun bytes_of_hex :: "jstr \<Rightarrow> byte list option" where
  "bytes_of_hex [] = Some []"
| "bytes_of_hex [u] = None"
| "bytes_of_hex (u # v # s) = (case (hex_digit u, hex_digit v, bytes_of_hex s) of
     (Some a, Some b, Some bs) \<Rightarrow> Some (of_nat (16 * a + b) # bs) | _ \<Rightarrow> None)"

lemma hex_digit_hex_unit: "d < 16 \<Longrightarrow> hex_digit (hex_unit d) = Some d"
proof -
  assume "d < 16"
  then have "d \<in> set [0..<16]" by simp
  moreover have "list_all (\<lambda>d. hex_digit (hex_unit d) = Some d) [0..<16]" by code_simp
  ultimately show ?thesis by (simp only: list_all_iff)
qed

lemma bytes_of_hex_of_bytes: "bytes_of_hex (hex_of_bytes bs) = Some bs"
proof (induction bs)
  case Nil
  then show ?case by (simp add: hex_of_bytes_def)
next
  case (Cons b bs)
  have "unat b < 256" using unsigned_less [of b, where ?'a = nat] by simp
  then have "hex_digit (hex_unit (unat b div 16)) = Some (unat b div 16)"
    by (intro hex_digit_hex_unit) auto
  moreover have "hex_digit (hex_unit (unat b mod 16)) = Some (unat b mod 16)"
    by (intro hex_digit_hex_unit) auto
  moreover have "(of_nat (16 * (unat b div 16) + unat b mod 16) :: byte) = b"
    by (simp only: mult_div_mod_eq) simp
  ultimately show ?case using Cons by (simp add: hex_of_bytes_def byte_hex_def)
qed

lemma length_hex_of_bytes: "length (hex_of_bytes bs) = 2 * length bs"
  by (induction bs) (auto simp: hex_of_bytes_def byte_hex_def)

lemma hex_of_bytes_inject: "hex_of_bytes bs = hex_of_bytes cs \<longleftrightarrow> bs = cs"
  by (metis bytes_of_hex_of_bytes option.inject)

lemma hex_unit_digit: "d < 16 \<Longrightarrow> hex_digit (hex_unit d) \<noteq> None"
  by (simp add: hex_digit_hex_unit)

lemma hex_of_bytes_digits: "u \<in> set (hex_of_bytes bs) \<Longrightarrow> hex_digit u \<noteq> None"
proof (induction bs)
  case (Cons b bs)
  have "unat b div 16 < 16" using unsigned_less [of b, where ?'a = nat] by (simp add: less_mult_imp_div_less)
  with Cons show ?case
    by (auto simp: hex_of_bytes_def byte_hex_def hex_digit_hex_unit)
qed (simp add: hex_of_bytes_def)

section \<open>Shortened hashes\<close>

text \<open>\<open>slice(-tail)\<close>; with \<open>tail = 0\<close> it is \<open>slice(0)\<close>, the whole string.\<close>

definition slice_tail :: "nat \<Rightarrow> jstr \<Rightarrow> jstr" where
  "slice_tail tail s = (if tail = 0 then s else drop (length s - tail) s)"

definition truncateHash :: "nat \<Rightarrow> nat \<Rightarrow> jstr \<Rightarrow> jstr" where
  "truncateHash lead tail hash =
     (if hash = [] \<or> length hash \<le> lead + tail then hash
      else take lead hash @ [0x2026] @ slice_tail tail hash)"

lemma truncateHash_short: "length h \<le> lead + tail \<Longrightarrow> truncateHash lead tail h = h"
  by (simp add: truncateHash_def)

lemma truncateHash_length:
  "0 < tail \<Longrightarrow> length (truncateHash lead tail h) \<le> lead + tail + 1"
  by (auto simp: truncateHash_def slice_tail_def)

lemma truncateHash_shape:
  assumes "0 < tail" "lead + tail < length h"
  shows "prefix (take lead h) (truncateHash lead tail h)"
    and "suffix (drop (length h - tail) h) (truncateHash lead tail h)"
    and "length (truncateHash lead tail h) = lead + tail + 1"
  using assms by (auto simp: truncateHash_def slice_tail_def suffix_def)

section \<open>Demonstration receipts\<close>

record live_params =
  lp_actionName :: jstr
  lp_agent :: jstr
  lp_principal :: jstr
  lp_grantId :: jstr
  lp_resource :: jstr
  lp_amountUsd :: "jstr option"
  lp_customPayload :: "(jstr \<times> jsval) list option"
  lp_prevHash :: "jstr option"

record live_event =
  le_actionId :: jstr
  le_actionName :: jstr
  le_agent :: jstr
  le_principal :: jstr
  le_grantId :: jstr
  le_resource :: jstr
  le_amountUsd :: "jstr option"
  le_payload :: jsval
  le_timestamp :: jstr
  le_prevHash :: jstr
  le_eventHash :: jstr
  le_merkleRoot :: jstr
  le_notarySignature :: jstr
  le_receiptId :: jstr

definition genesis_hash :: jstr where
  "genesis_hash = js ''0x44d019ac77102948192ba4810294810244d019ac77102948192ba48102948102''"

definition default_payload :: "live_params \<Rightarrow> jsval" where
  "default_payload p = JObj
     [(js ''action'', JStr (lp_actionName p)),
      (js ''agent_id'', JStr (lp_agent p)),
      (js ''resource'', JStr (lp_resource p)),
      (js ''amount_usd'', case lp_amountUsd p of None \<Rightarrow> JUndef | Some n \<Rightarrow> JNum n),
      (js ''authorized_by'', JStr (lp_principal p)),
      (js ''grant_ticket'', JStr (lp_grantId p))]"

text \<open>\<open>now\<close> is the ISO time, \<open>r36\<close> the random base-36 text, \<open>serial\<close> the six-digit number.\<close>

definition event_hash ::
  "(byte list \<Rightarrow> byte list) \<Rightarrow> jstr \<Rightarrow> jstr \<Rightarrow> jsval \<Rightarrow> jstr \<Rightarrow> jstr" where
  "event_hash digest prevHash actionId payload now = js ''0x'' @
     sha256Hex digest (prevHash @ [58] @ actionId @ [58] @ stringify payload @ [58] @ now)"

definition computeLiveReceipt ::
  "(byte list \<Rightarrow> byte list) \<Rightarrow> jstr \<Rightarrow> jstr \<Rightarrow> nat \<Rightarrow> live_params \<Rightarrow> live_event" where
  "computeLiveReceipt digest now r36 serial p =
     (let actionId = js ''act_'' @ r36;
          receiptId = js ''rcpt_BAL_'' @ nat_text serial;
          prevHash = or_str (lp_prevHash p) genesis_hash;
          payload = (case lp_customPayload p of
             Some fs \<Rightarrow> JObj fs | None \<Rightarrow> default_payload p);
          eventHash = event_hash digest prevHash actionId payload now;
          merkleRoot = js ''0x'' @
             sha256Hex digest (eventHash @ [58] @ prevHash @ js '':merkle_root_attestation'');
          notarySignature = js ''ed25519:'' @
             sha256Hex digest (js ''notary_ed25519_sig:'' @ merkleRoot)
      in \<lparr>le_actionId = actionId, le_actionName = lp_actionName p, le_agent = lp_agent p,
          le_principal = lp_principal p, le_grantId = lp_grantId p,
          le_resource = lp_resource p, le_amountUsd = lp_amountUsd p, le_payload = payload,
          le_timestamp = now, le_prevHash = prevHash, le_eventHash = eventHash,
          le_merkleRoot = merkleRoot, le_notarySignature = notarySignature,
          le_receiptId = receiptId\<rparr>)"

text \<open>
  A receipt can be checked from its own fields, and receipts computed each on the hash of the
  one before form a chain back to the genesis hash.
\<close>

definition receipt_ok :: "(byte list \<Rightarrow> byte list) \<Rightarrow> live_event \<Rightarrow> bool" where
  "receipt_ok digest e \<longleftrightarrow>
     le_eventHash e = event_hash digest (le_prevHash e) (le_actionId e) (le_payload e) (le_timestamp e)
     \<and> le_merkleRoot e = js ''0x'' @
         sha256Hex digest (le_eventHash e @ [58] @ le_prevHash e @ js '':merkle_root_attestation'')
     \<and> le_notarySignature e = js ''ed25519:'' @
         sha256Hex digest (js ''notary_ed25519_sig:'' @ le_merkleRoot e)"

fun live_chain ::
  "(byte list \<Rightarrow> byte list) \<Rightarrow> jstr option \<Rightarrow> (jstr \<times> jstr \<times> nat \<times> live_params) list \<Rightarrow> live_event list" where
  "live_chain digest prev [] = []"
| "live_chain digest prev ((now, r36, serial, p) # rest) =
     (let e = computeLiveReceipt digest now r36 serial (p\<lparr>lp_prevHash := prev\<rparr>) in
      e # live_chain digest (Some (le_eventHash e)) rest)"

fun linked_from :: "jstr \<Rightarrow> live_event list \<Rightarrow> bool" where
  "linked_from h [] = True"
| "linked_from h (e # es) = (le_prevHash e = h \<and> linked_from (le_eventHash e) es)"

lemma computeLiveReceipt_ok: "receipt_ok digest (computeLiveReceipt digest now r36 serial p)"
  by (simp add: receipt_ok_def computeLiveReceipt_def Let_def)

lemma eventHash_nonempty: "le_eventHash (computeLiveReceipt digest now r36 serial p) \<noteq> []"
  by (simp add: computeLiveReceipt_def Let_def event_hash_def)

lemma live_chain_linked: "linked_from (or_str prev genesis_hash) (live_chain digest prev steps)"
proof (induction digest prev steps rule: live_chain.induct)
  case (2 digest prev now r36 serial p rest)
  let ?e = "computeLiveReceipt digest now r36 serial (p\<lparr>lp_prevHash := prev\<rparr>)"
  have "or_str (Some (le_eventHash ?e)) genesis_hash = le_eventHash ?e"
    by (rule or_str_Some) (rule eventHash_nonempty)
  moreover have "le_prevHash ?e = or_str prev genesis_hash"
    by (simp add: computeLiveReceipt_def Let_def)
  ultimately show ?case using 2 by (simp add: Let_def)
qed simp

lemma live_chain_ok: "e \<in> set (live_chain digest prev steps) \<Longrightarrow> receipt_ok digest e"
  by (induction digest prev steps rule: live_chain.induct)
     (auto simp: Let_def computeLiveReceipt_ok)

text \<open>A chain of demonstration receipts is what it claims to be: there is one receipt for each
  step, each is linked to the hash of the one before it (the first to the given hash or to the
  genesis hash), and the event hash, Merkle root and signature text of each can be recomputed
  from its own fields, whatever the digest function.
\<close>
theorem live_receipts_chain:
  "let es = live_chain digest prev steps in
     length es = length steps \<and> linked_from (or_str prev genesis_hash) es
     \<and> list_all (receipt_ok digest) es"
proof -
  have "length (live_chain digest prev steps) = length steps"
    by (induction digest prev steps rule: live_chain.induct) (auto simp: Let_def)
  then show ?thesis
    using live_chain_ok [of _ digest prev steps] by (simp add: Let_def live_chain_linked list_all_iff)
qed

text \<open>A shortened hash keeps its ends and its length is bounded: at most \<open>lead + tail + 1\<close> units,
  the first \<open>lead\<close> and the last \<open>tail\<close> of the hash around one ellipsis, and a hash that is short
  enough is not touched.
\<close>
theorem truncateHash_keeps_ends:
  assumes "0 < tail"
  shows "length (truncateHash lead tail h) \<le> lead + tail + 1
     \<and> prefix (take lead h) (truncateHash lead tail h)
     \<and> suffix (drop (length h - tail) h) (truncateHash lead tail h)
     \<and> (length h \<le> lead + tail \<longrightarrow> truncateHash lead tail h = h)"
  using assms truncateHash_length [OF assms, of lead h]
  by (auto simp: truncateHash_def slice_tail_def take_is_prefix suffix_drop
      intro: suffix_appendI suffix_ConsI)

theorem truncateHash_keeps_ends_witness:
  "length (truncateHash 2 2 (js ''abcdefgh'')) \<le> 5 \<and> truncateHash 6 4 (js ''abcdefgh'') = js ''abcdefgh''"
  using truncateHash_keeps_ends [of 2 2 "js ''abcdefgh''"] truncateHash_keeps_ends [of 4 6 "js ''abcdefgh''"]
  by (simp add: js_def)

end
