(* ===== verification/Settings.thy ===== *)
theory Settings
  imports AuthPages Crypto
begin

text \<open>
  \<open>src/pages/dashboard/Settings.tsx\<close>: the profile form, the branding panel and the notary's public
  key. The user and the branding come from the session provider; \<open>save\<close> awaits the request
  and then the provider's \<open>refreshMe\<close>. The key is loaded by an effect that is cancelled when
  the section changes.
\<close>

section \<open>State and handlers\<close>

datatype settings_section = General | Workspace | Notary

datatype st_wait = StSave | StRefresh | StKey bool

record settings =
  st_user :: "v1User option"
  st_branding :: "v1Branding option"
  st_section :: settings_section
  st_keyId :: "jstr option"
  st_publicKey :: "jstr option"
  st_keyError :: bool
  st_logoError :: bool
  st_orgName :: jstr
  st_orgDomain :: jstr
  st_industry :: jstr
  st_saving :: bool
  st_saved :: bool
  st_saveError :: "jstr option"
  st_pending :: "st_wait list"
  st_requests :: "api_request list"
  st_refreshes :: nat

text \<open>The effect that fills the form from the profile.\<close>

definition prefill :: "settings \<Rightarrow> settings" where
  "prefill s = (let user = st_user s in
     s\<lparr>st_orgName := nullish (Option.bind user us_org_name) [],
       st_orgDomain := nullish (Option.bind user us_org_domain) [],
       st_industry := nullish (Option.bind user us_industry) []\<rparr>)"

definition st_mount :: "v1User option \<Rightarrow> v1Branding option \<Rightarrow> settings" where
  "st_mount user b = prefill \<lparr>st_user = user, st_branding = b, st_section = General,
     st_keyId = None, st_publicKey = None, st_keyError = False, st_logoError = False,
     st_orgName = [], st_orgDomain = [], st_industry = [], st_saving = False, st_saved = False,
     st_saveError = None, st_pending = [], st_requests = [], st_refreshes = 0\<rparr>"

definition profile_fields :: "v1User option \<Rightarrow> jstr option \<times> jstr option \<times> jstr option" where
  "profile_fields user =
     (Option.bind user us_org_name, Option.bind user us_org_domain, Option.bind user us_industry)"

definition set_profile :: "v1User option \<Rightarrow> v1Branding option \<Rightarrow> settings \<Rightarrow> settings" where
  "set_profile user b s =
     (let s' = s\<lparr>st_user := user, st_branding := b\<rparr> in
      if profile_fields user = profile_fields (st_user s) then s' else prefill s')"

definition save :: "settings \<Rightarrow> settings" where
  "save s = s\<lparr>st_saving := True, st_saved := False, st_saveError := None,
     st_pending := st_pending s @ [StSave],
     st_requests := st_requests s @ [PatchMe (st_orgName s) (st_orgDomain s) (st_industry s)]\<rparr>"

definition save_settled :: "unit reply \<Rightarrow> settings \<Rightarrow> settings" where
  "save_settled r s = (case r of
     Rejected e \<Rightarrow> s\<lparr>st_saveError := Some (errText e), st_saving := False\<rparr>
   | Resolved data err \<Rightarrow>
       if js_truthy err then s\<lparr>st_saveError := Some (errText err), st_saving := False\<rparr>
       else s\<lparr>st_refreshes := st_refreshes s + 1, st_pending := st_pending s @ [StRefresh]\<rparr>)"

definition refresh_settled :: "settings \<Rightarrow> settings" where
  "refresh_settled s = s\<lparr>st_saved := True, st_saving := False\<rparr>"

text \<open>The effect on the section and the key: its cleanup, then the request.\<close>

fun cancelled :: "st_wait \<Rightarrow> st_wait" where
  "cancelled (StKey b) = StKey False"
| "cancelled StSave = StSave"
| "cancelled StRefresh = StRefresh"

definition cancel_key :: "settings \<Rightarrow> settings" where
  "cancel_key s = s\<lparr>st_pending := map cancelled (st_pending s)\<rparr>"

definition load_key_effect :: "settings \<Rightarrow> settings" where
  "load_key_effect s =
     (if st_section s \<noteq> Notary \<or> truthy (st_publicKey s) then s
      else s\<lparr>st_pending := st_pending s @ [StKey True],
             st_requests := st_requests s @ [GetPublicKey]\<rparr>)"

definition setSection :: "settings_section \<Rightarrow> settings \<Rightarrow> settings" where
  "setSection x s = (if x = st_section s then s else load_key_effect (cancel_key (s\<lparr>st_section := x\<rparr>)))"

definition key_settled :: "bool \<Rightarrow> v1GetPublicKeyResponse reply \<Rightarrow> settings \<Rightarrow> settings" where
  "key_settled active r s =
     (if \<not> active then s
      else case r of
        Rejected e \<Rightarrow> s\<lparr>st_keyError := True\<rparr>
      | Resolved data err \<Rightarrow>
          if truthy (Option.bind data pk_public_key)
          then load_key_effect (cancel_key (s\<lparr>st_keyId := Option.bind data pk_key_id,
                 st_publicKey := Option.bind data pk_public_key\<rparr>))
          else s\<lparr>st_keyError := True\<rparr>)"

datatype settings_event =
    StSection settings_section
  | StOrgName jstr
  | StOrgDomain jstr
  | StIndustry jstr
  | StSubmit
  | StLogoError
  | StProfile "v1User option" "v1Branding option"
  | StSaveReply nat "unit reply"
  | StRefreshed nat
  | StKeyReply nat "v1GetPublicKeyResponse reply"

fun st_step :: "settings \<Rightarrow> settings_event \<Rightarrow> settings" where
  "st_step s (StSection x) = setSection x s"
| "st_step s (StOrgName v) = s\<lparr>st_orgName := v, st_saved := False\<rparr>"
| "st_step s (StOrgDomain v) = s\<lparr>st_orgDomain := v, st_saved := False\<rparr>"
| "st_step s (StIndustry v) = s\<lparr>st_industry := v, st_saved := False\<rparr>"
| "st_step s StSubmit = save s"
| "st_step s StLogoError = s\<lparr>st_logoError := True\<rparr>"
| "st_step s (StProfile u b) = set_profile u b s"
| "st_step s (StSaveReply i r) =
     (if i < length (st_pending s) \<and> st_pending s ! i = StSave
      then save_settled r (s\<lparr>st_pending := remove_nth i (st_pending s)\<rparr>) else s)"
| "st_step s (StRefreshed i) =
     (if i < length (st_pending s) \<and> st_pending s ! i = StRefresh
      then refresh_settled (s\<lparr>st_pending := remove_nth i (st_pending s)\<rparr>) else s)"
| "st_step s (StKeyReply i r) =
     (if i < length (st_pending s) then
        (case st_pending s ! i of
           StKey active \<Rightarrow> key_settled active r (s\<lparr>st_pending := remove_nth i (st_pending s)\<rparr>)
         | _ \<Rightarrow> s)
      else s)"

fun st_outside :: "settings_event \<Rightarrow> bool" where
  "st_outside (StProfile u b) = True"
| "st_outside (StSaveReply i r) = True"
| "st_outside (StRefreshed i) = True"
| "st_outside (StKeyReply i r) = True"
| "st_outside _ = False"

section \<open>The view\<close>

definition readonly_row :: "string \<Rightarrow> jstr \<Rightarrow> bool \<Rightarrow> 'e node" where
  "readonly_row label val is_mono = El ''div'' []
     [El ''span'' [] [tx label], El ''span'' [Flag ''mono'' is_mono] [Text val]]"

definition section_head :: "string \<Rightarrow> string \<Rightarrow> 'e node list \<Rightarrow> 'e node" where
  "section_head title description ic = El ''div'' []
     [El ''h2'' [] (ic @ [tx title]), El ''p'' [] [tx description]]"

definition settings_nav :: "settings \<Rightarrow> settings_event node" where
  "settings_nav s = El ''nav'' []
     (map (\<lambda>(key, label, ic). El ''button''
         [OnClick (StSection key), Flag ''active'' (st_section s = key)]
         [icon ic, El ''span'' [] [tx label]])
       [(General, ''General'', ''IconBuilding''),
        (Workspace, ''Workspace & Branding'', ''IconBuilding''),
        (Notary, ''Notary Key'', ''IconShieldCheck'')])"

definition account_type_text :: "v1User option \<Rightarrow> string" where
  "account_type_text user =
     (if Option.bind user us_account_type = Some (js ''ACCOUNT_TYPE_ORGANIZATION'')
      then ''Organization'' else ''Personal'')"

definition industry_select :: "settings \<Rightarrow> settings_event node" where
  "industry_select s = select [Attr ''value'' (st_industry s), OnChange StIndustry]
     ([El ''option'' [Attr ''value'' []] [tx ''Not set'']]
      @ only_if (st_industry s \<noteq> [] \<and> st_industry s \<notin> set (map js INDUSTRIES))
          [El ''option'' [Attr ''value'' (st_industry s)] [Text (st_industry s)]]
      @ map (\<lambda>i. El ''option'' [Attr ''value'' (js i)] [tx i]) INDUSTRIES)"

definition general_section :: "settings \<Rightarrow> settings_event node list" where
  "general_section s = (let user = st_user s in
     [section_head ''Account''
        ''Update the organization details on your profile. Email and account type are fixed.'' [],
      readonly_row ''Email'' (or_str (Option.bind user us_email) (js ''-'')) True,
      readonly_row ''Account type'' (js (account_type_text user)) False,
      El ''form'' [OnSubmit StSubmit]
       ([field (js ''Organization name'') [tx ''Optional''] None None
          (text_input [Attr ''value'' (st_orgName s), OnChange StOrgName,
             Attr ''placeholder'' (js ''Acme Inc.''), Attr ''autoComplete'' (js ''organization'')]),
         field (js ''Domain'') [tx ''Optional''] None None
          (text_input [Attr ''value'' (st_orgDomain s), OnChange StOrgDomain,
             Attr ''placeholder'' (js ''acme.com''), Attr ''autoComplete'' (js ''url'')]),
         field (js ''Industry'') [tx ''Optional''] None None (industry_select s)]
        @ if_truthy (st_saveError s) (\<lambda>m. [error_box m])
        @ only_if (st_saved s)
            [El ''div'' [] [icon ''IconCheck'', El ''span'' [] [tx ''Profile saved.'']]]
        @ [El ''div'' []
            [button ''brand'' ''md'' (st_saving s) (st_saving s) [Attr ''type'' (js ''submit'')]
              [tx ''Save changes'']]])])"

definition branding_panel :: "settings \<Rightarrow> v1Branding \<Rightarrow> settings_event node" where
  "branding_panel s b = El ''div'' []
     [El ''div'' []
       ((if truthy (br_logo_url b) \<and> \<not> st_logoError s
         then [El ''img'' [Attr ''src'' (the (br_logo_url b)), Attr ''alt'' (js ''Logo''),
                OnError StLogoError] []]
         else if truthy (br_logo_url b) \<and> st_logoError s then [El ''div'' [] [icon ''BabitLogo'']]
         else [])
        @ [El ''div'' []
            ([El ''span'' [] (if truthy (br_company_name b) then [Text (the (br_company_name b))]
                else opt_text (Option.bind (st_user s) us_org_domain))]
             @ if_truthy (br_brand_color b)
                 (\<lambda>c. [El ''span'' [] [El ''span'' [Attr ''backgroundColor'' c] [], Text c]]))])]"

definition workspace_section :: "settings \<Rightarrow> settings_event node list" where
  "workspace_section s = (let user = st_user s in
     [section_head ''Workspace & Branding''
        ''Branding is resolved from your organization domain and applied to this console at runtime.'' [],
      readonly_row ''Organization'' (or_str (Option.bind user us_org_name) (js ''-'')) False,
      readonly_row ''Domain'' (or_str (Option.bind user us_org_domain) (js ''-'')) True,
      (case st_branding s of
         Some b \<Rightarrow> branding_panel s b
       | None \<Rightarrow> El ''p'' [] [tx ''No branding resolved for this account.''])])"

definition notary_section :: "settings \<Rightarrow> settings_event node list" where
  "notary_section s =
     [section_head ''Notary public key''
        ''The public key used to verify notary signatures on action events.'' [icon ''IconKey''],
      (if truthy (st_publicKey s)
       then El ''div'' []
         (if_truthy (st_keyId s) (\<lambda>k. [readonly_row ''Key ID'' k True])
          @ [El ''div'' [] [El ''span'' [] [tx ''Public key''], copyable (the (st_publicKey s)) True]])
       else El ''p'' []
         [Text (if st_keyError s
           then js ''Notary key unavailable, the ledger service may be unreachable.''
           else js ''Loading notary key'' @ [0x2026])])]"

definition st_view :: "settings \<Rightarrow> settings_event node" where
  "st_view s = El ''div'' []
     [page_header (js ''Settings'')
        (Some (js ''Your account profile and the notary key backing your evidence. Fields reflect what the Babit API returns and are read-only where no write endpoint exists.''))
        None [],
      El ''div'' []
       [settings_nav s,
        El ''div'' []
         (only_if (st_section s = General) (general_section s)
          @ only_if (st_section s = Workspace) (workspace_section s)
          @ only_if (st_section s = Notary) (notary_section s))]]"

lemma fires_readonly_row [simp]: "\<not> can_fire (readonly_row l v m) e"
  by (simp add: readonly_row_def)

lemma fires_section_head [simp]: "can_fire (section_head t d ic) e \<longleftrightarrow> fires_in ic e"
  by (simp add: section_head_def)

lemma fires_settings_nav [simp]: "can_fire (settings_nav s) e \<longleftrightarrow> (\<exists>x. e = StSection x)"
  by (auto simp: settings_nav_def intro: settings_section.exhaust)

lemma fires_industry_select [simp]: "can_fire (industry_select s) e \<longleftrightarrow> (\<exists>v. e = StIndustry v)"
proof -
  have "\<not> fires_in (map (\<lambda>i. El ''option'' [Attr ''value'' (js i)] [tx i]) is) e" for "is"
    by (auto simp: fires_in_map)
  then show ?thesis by (auto simp: industry_select_def select_def)
qed

lemma submit_ready_industry [simp]: "\<not> submit_ready (field l [tx h] None None (industry_select s))"
proof -
  have "\<not> submit_ready_in (map (\<lambda>i. El ''option'' [Attr ''value'' (js i)] [tx i]) is)" for "is"
    by (induction "is") auto
  then show ?thesis by (simp add: field_def Let_def industry_select_def select_def)
qed

lemma fires_branding_panel: "can_fire (branding_panel s b) e \<Longrightarrow> e = StLogoError"
  by (auto simp: branding_panel_def split: if_splits)

lemma fires_st_view: "can_fire (st_view s) e \<Longrightarrow>
   (\<exists>x. e = StSection x) \<or> (\<exists>v. e = StOrgName v) \<or> (\<exists>v. e = StOrgDomain v) \<or> (\<exists>v. e = StIndustry v)
   \<or> e = StSubmit \<and> \<not> st_saving s \<or> e = StLogoError"
  by (auto simp: st_view_def general_section_def workspace_section_def notary_section_def Let_def
      dest: fires_branding_panel split: if_splits option.splits)

section \<open>Invariant\<close>

text \<open>
  A save is in flight exactly while the button is loading, one at most; a saved mark is never
  shown beside a save error or during a save; at most one key request is current, and it
  belongs to the open section.
\<close>

definition saving_wait :: "st_wait \<Rightarrow> bool" where
  "saving_wait w \<longleftrightarrow> w = StSave \<or> w = StRefresh"

definition st_inv :: "settings \<Rightarrow> bool" where
  "st_inv s \<longleftrightarrow>
     length (filter saving_wait (st_pending s)) = (if st_saving s then 1 else 0)
     \<and> (st_saved s \<longrightarrow> \<not> st_saving s \<and> st_saveError s = None)
     \<and> (st_saving s \<longrightarrow> st_saveError s = None)
     \<and> length (filter (\<lambda>w. w = StKey True) (st_pending s)) \<le> 1
     \<and> (StKey True \<in> set (st_pending s) \<longrightarrow> st_section s = Notary \<and> \<not> truthy (st_publicKey s))"

lemma st_inv_mount: "st_inv (st_mount u b)"
  by (simp add: st_inv_def st_mount_def prefill_def Let_def)

lemma st_inv_prefill [simp]: "st_inv (prefill s) = st_inv s"
  by (simp add: st_inv_def prefill_def Let_def)

lemma st_inv_profile: "st_inv s \<Longrightarrow> st_inv (set_profile u b s)"
  by (simp add: set_profile_def Let_def) (simp add: st_inv_def)

lemma saving_wait_simps [simp]:
  "saving_wait StSave" "saving_wait StRefresh" "\<not> saving_wait (StKey b)"
  by (simp_all add: saving_wait_def)

lemma cancelled_simps [simp]:
  "saving_wait (cancelled w) = saving_wait w" "cancelled w \<noteq> StKey True"
  by (cases w; simp)+

lemma filter_cancelled:
  "length (filter saving_wait (map cancelled ws)) = length (filter saving_wait ws)"
  "filter (\<lambda>w. w = StKey True) (map cancelled ws) = []"
  by (induction ws) auto

lemma no_key_cancelled: "StKey True \<notin> set (map cancelled ws)"
  using cancelled_simps(2) by (auto simp del: cancelled_simps(2) dest: sym)

text \<open>What the effect needs of the state before it: everything but the last two conjuncts.\<close>

lemma st_inv_key_effect:
  assumes "length (filter saving_wait (st_pending s)) = (if st_saving s then 1 else 0)"
    and "st_saved s \<longrightarrow> \<not> st_saving s \<and> st_saveError s = None"
    and "st_saving s \<longrightarrow> st_saveError s = None"
  shows "st_inv (load_key_effect (cancel_key s))"
proof -
  define ws where "ws = map cancelled (st_pending s)"
  have "length (filter saving_wait ws) = (if st_saving s then 1 else 0)"
    "filter (\<lambda>w. w = StKey True) ws = []" "StKey True \<notin> set ws"
    unfolding ws_def using assms(1) filter_cancelled no_key_cancelled by auto
  with assms(2,3) show ?thesis
    by (auto simp: st_inv_def load_key_effect_def cancel_key_def simp flip: ws_def)
qed

lemma st_inv_section: "st_inv s \<Longrightarrow> st_inv (setSection x s)"
  unfolding setSection_def
  by (auto intro!: st_inv_key_effect) (auto simp: st_inv_def)

lemma st_inv_submit: "st_inv s \<Longrightarrow> \<not> st_saving s \<Longrightarrow> st_inv (save s)"
  by (simp add: st_inv_def save_def)

lemma saving_remove:
  assumes "i < length ws" "saving_wait (ws ! i)" "length (filter saving_wait ws) = (if b then 1 else 0)"
  shows "b" "filter saving_wait (remove_nth i ws) = []"
proof -
  from assms(1,2) have "ws ! i \<in> set (filter saving_wait ws)" by simp
  then have "length (filter saving_wait ws) \<noteq> 0" by (metis length_0_conv list.size(3) list.set(1) empty_iff)
  with assms(3) show b by (auto split: if_splits)
  with assms show "filter saving_wait (remove_nth i ws) = []" by (intro filter_remove_nth) auto
qed

lemma key_remove_le: "length (filter (\<lambda>w. w = StKey True) ws) \<le> 1 \<Longrightarrow>
    length (filter (\<lambda>w. w = StKey True) (remove_nth i ws)) \<le> 1"
  using filter_remove_nth_le [of "\<lambda>w. w = StKey True" i ws] by linarith

lemma st_inv_save_reply:
  assumes "st_inv s" "i < length (st_pending s)" "st_pending s ! i = StSave"
  shows "st_inv (save_settled r (s\<lparr>st_pending := remove_nth i (st_pending s)\<rparr>))"
proof -
  have sv: "st_saving s" "filter saving_wait (remove_nth i (st_pending s)) = []"
    using saving_remove [of i "st_pending s" "st_saving s"] assms by (auto simp: st_inv_def)
  have k: "length (filter (\<lambda>w. w = StKey True) (remove_nth i (st_pending s))) \<le> 1"
    using assms(1) by (intro key_remove_le) (simp add: st_inv_def)
  have m: "StKey True \<in> set (remove_nth i (st_pending s)) \<Longrightarrow> StKey True \<in> set (st_pending s)"
    by (rule in_remove_nthD)
  show ?thesis
    using assms(1) sv k m by (auto simp: st_inv_def save_settled_def split: reply.splits)
qed

lemma st_inv_refreshed:
  assumes "st_inv s" "i < length (st_pending s)" "st_pending s ! i = StRefresh"
  shows "st_inv (refresh_settled (s\<lparr>st_pending := remove_nth i (st_pending s)\<rparr>))"
proof -
  have sv: "st_saving s" "filter saving_wait (remove_nth i (st_pending s)) = []"
    using saving_remove [of i "st_pending s" "st_saving s"] assms by (auto simp: st_inv_def)
  have k: "length (filter (\<lambda>w. w = StKey True) (remove_nth i (st_pending s))) \<le> 1"
    using assms(1) by (intro key_remove_le) (simp add: st_inv_def)
  have m: "StKey True \<in> set (remove_nth i (st_pending s)) \<Longrightarrow> StKey True \<in> set (st_pending s)"
    by (rule in_remove_nthD)
  show ?thesis
    using assms(1) sv k m by (auto simp: st_inv_def refresh_settled_def)
qed

lemma saving_filter_other:
  assumes "i < length ws" "\<not> P (ws ! i)"
  shows "length (filter P (remove_nth i ws)) = length (filter P ws)"
proof -
  have "ws = take i ws @ ws ! i # drop (Suc i) ws" using assms(1) by (simp add: id_take_nth_drop [symmetric])
  then have "length (filter P ws) = length (filter P (take i ws)) + length (filter P (ws ! i # drop (Suc i) ws))"
    by (metis filter_append length_append)
  with assms(2) show ?thesis by (simp add: remove_nth_def)
qed

lemma st_inv_key_reply:
  assumes "st_inv s" "i < length (st_pending s)" "st_pending s ! i = StKey active"
  shows "st_inv (key_settled active r (s\<lparr>st_pending := remove_nth i (st_pending s)\<rparr>))"
proof -
  have sv: "length (filter saving_wait (remove_nth i (st_pending s))) = length (filter saving_wait (st_pending s))"
    using assms by (intro saving_filter_other) auto
  have k: "length (filter (\<lambda>w. w = StKey True) (remove_nth i (st_pending s))) \<le> 1"
    using assms(1) by (intro key_remove_le) (simp add: st_inv_def)
  have m: "StKey True \<in> set (remove_nth i (st_pending s)) \<Longrightarrow> StKey True \<in> set (st_pending s)"
    by (rule in_remove_nthD)
  show ?thesis
    using assms(1) sv k m
    by (auto simp: key_settled_def split: reply.splits intro!: st_inv_key_effect)
       (auto simp: st_inv_def)
qed

lemma st_inv_user:
  assumes "st_inv s" "can_fire (st_view s) e"
  shows "st_inv (st_step s e)"
  using fires_st_view [OF assms(2)] assms(1)
  by (elim disjE exE conjE) (simp_all add: st_inv_section st_inv_submit, simp_all add: st_inv_def)

lemma st_inv_outside: "st_inv s \<Longrightarrow> st_outside e \<Longrightarrow> st_inv (st_step s e)"
  by (cases e)
     (auto simp: st_inv_profile st_inv_save_reply st_inv_refreshed st_inv_key_reply split: st_wait.splits)

interpretation sts: screen "st_mount u b" st_step st_view st_outside st_inv for u b
  by unfold_locales (simp_all add: st_inv_mount st_inv_user st_inv_outside del: st_step.simps)

section \<open>Saving\<close>

text \<open>The profile comes back and fills the form again; the mark shows once it is there.\<close>

lemma save_flow:
  assumes "st_pending s = []" "\<not> js_truthy err"
  shows "let s' = run st_step s [StSubmit, StSaveReply 0 (Resolved x err), StProfile u b, StRefreshed 0] in
    st_saved s' \<and> \<not> st_saving s' \<and> st_user s' = u \<and> st_refreshes s' = st_refreshes s + 1
    \<and> st_requests s' = st_requests s @ [PatchMe (st_orgName s) (st_orgDomain s) (st_industry s)]"
  using assms
  by (simp add: save_def save_settled_def refresh_settled_def set_profile_def prefill_def Let_def)

text \<open>An industry outside the list is offered as an option of its own, so the form shows it.\<close>

fun option_values :: "'e node list \<Rightarrow> jstr list" where
  "option_values [] = []"
| "option_values (El t as ks # ns) =
     map (\<lambda>a. case a of Attr k v \<Rightarrow> v | _ \<Rightarrow> []) (take 1 as) @ option_values ns"
| "option_values (Text s # ns) = option_values ns"

lemma option_values_append: "option_values (xs @ ys) = option_values xs @ option_values ys"
  by (induction xs rule: option_values.induct) auto

lemma option_values_industries:
  "option_values (map (\<lambda>i. El ''option'' [Attr ''value'' (js i)] [tx i]) is) = map js is"
  by (induction "is") auto

lemma industry_offered:
  "\<exists>as ks. industry_select s = El ''select'' as ks \<and> st_industry s \<in> set (option_values ks)"
  by (cases "st_industry s \<in> set (map js INDUSTRIES)")
     (auto simp: industry_select_def select_def option_values_append option_values_industries)

end
