(* ===== verification/Streams.thy ===== *)
theory Streams
  imports Crypto
begin

text \<open>
  The decoders of the web platform the replay reads through: the streaming UTF-8 decoder
  (\<open>TextDecoder\<close> with \<open>stream: true\<close>) as a machine that takes one byte at a time, and
  \<open>atob\<close>. \<open>stream_decoder\<close> is the law the replay relies on: decoding two chunks one after
  the other is decoding their concatenation.
\<close>

section \<open>Streaming UTF-8\<close>

record utf8_state =
  u8_needed :: nat
  u8_point :: nat
  u8_lower :: nat
  u8_upper :: nat
  u8_started :: bool

definition utf8_start :: utf8_state where
  "utf8_start = \<lparr>u8_needed = 0, u8_point = 0, u8_lower = 0x80, u8_upper = 0xBF, u8_started = False\<rparr>"

definition units_of_point :: "nat \<Rightarrow> jstr" where
  "units_of_point c =
     (if c < 0x10000 then [of_nat c]
      else [of_nat (0xD800 + (c - 0x10000) div 1024), of_nat (0xDC00 + (c - 0x10000) mod 1024)])"

text \<open>A byte-order mark is dropped when it is the first code point.\<close>

definition emit_point :: "nat \<Rightarrow> utf8_state \<Rightarrow> jstr \<times> utf8_state" where
  "emit_point c st =
     (if c = 0xFEFF \<and> \<not> u8_started st then [] else units_of_point c,
      st\<lparr>u8_needed := 0, u8_point := 0, u8_lower := 0x80, u8_upper := 0xBF, u8_started := True\<rparr>)"

definition lead_byte :: "utf8_state \<Rightarrow> nat \<Rightarrow> jstr \<times> utf8_state" where
  "lead_byte st b =
     (if b < 0x80 then emit_point b st
      else if 0xC2 \<le> b \<and> b \<le> 0xDF then ([], st\<lparr>u8_needed := 1, u8_point := b mod 32\<rparr>)
      else if 0xE0 \<le> b \<and> b \<le> 0xEF then
        ([], st\<lparr>u8_needed := 2, u8_point := b mod 16,
               u8_lower := (if b = 0xE0 then 0xA0 else 0x80),
               u8_upper := (if b = 0xED then 0x9F else 0xBF)\<rparr>)
      else if 0xF0 \<le> b \<and> b \<le> 0xF4 then
        ([], st\<lparr>u8_needed := 3, u8_point := b mod 8,
               u8_lower := (if b = 0xF0 then 0x90 else 0x80),
               u8_upper := (if b = 0xF4 then 0x8F else 0xBF)\<rparr>)
      else emit_point 0xFFFD st)"

definition utf8_step :: "utf8_state \<Rightarrow> byte \<Rightarrow> jstr \<times> utf8_state" where
  "utf8_step st w = (let b = unat w in
     if u8_needed st = 0 then lead_byte st b
     else if b < u8_lower st \<or> u8_upper st < b then
       (let (t, st') = emit_point 0xFFFD st; (t', st'') = lead_byte st' b in (t @ t', st''))
     else (let c = u8_point st * 64 + b mod 64 in
       if u8_needed st = 1 then emit_point c st
       else ([], st\<lparr>u8_needed := u8_needed st - 1, u8_point := c, u8_lower := 0x80, u8_upper := 0xBF\<rparr>)))"

fun utf8_decode :: "utf8_state \<Rightarrow> byte list \<Rightarrow> jstr \<times> utf8_state" where
  "utf8_decode st [] = ([], st)"
| "utf8_decode st (b # bs) =
     (let (t, st') = utf8_step st b; (t', st'') = utf8_decode st' bs in (t @ t', st''))"

text \<open>The texts of a list of chunks, the decoder's state carried along.\<close>

fun dec_chunks :: "('s \<Rightarrow> 'b list \<Rightarrow> 'u list \<times> 's) \<Rightarrow> 's \<Rightarrow> 'b list list \<Rightarrow> 'u list list \<times> 's" where
  "dec_chunks dec st [] = ([], st)"
| "dec_chunks dec st (c # cs) =
     (fst (dec st c) # fst (dec_chunks dec (snd (dec st c)) cs),
      snd (dec_chunks dec (snd (dec st c)) cs))"

locale stream_decoder =
  fixes dec :: "'s \<Rightarrow> 'b list \<Rightarrow> 'u list \<times> 's"
  assumes dec_Nil: "dec st [] = ([], st)"
    and dec_append: "dec st (xs @ ys) =
      (fst (dec st xs) @ fst (dec (snd (dec st xs)) ys), snd (dec (snd (dec st xs)) ys))"
begin

lemma dec_concat: "dec st (concat cs) = (concat (fst (dec_chunks dec st cs)), snd (dec_chunks dec st cs))"
  by (induction cs arbitrary: st) (simp_all add: dec_Nil dec_append)

lemma dec_cut: "concat cs = concat ds \<Longrightarrow>
    concat (fst (dec_chunks dec st cs)) = concat (fst (dec_chunks dec st ds))"
  using dec_concat [of st cs] dec_concat [of st ds] by simp

end

lemma utf8_decode_append: "utf8_decode st (xs @ ys) =
    (fst (utf8_decode st xs) @ fst (utf8_decode (snd (utf8_decode st xs)) ys),
     snd (utf8_decode (snd (utf8_decode st xs)) ys))"
  by (induction xs arbitrary: st) (simp_all add: Let_def split_beta)

interpretation utf8: stream_decoder utf8_decode
  by unfold_locales (simp_all add: utf8_decode_append)

section \<open>\<open>atob\<close>\<close>

definition b64_value :: "code_unit \<Rightarrow> nat option" where
  "b64_value u =
     (if 65 \<le> u \<and> u \<le> 90 then Some (unat u - 65)
      else if 97 \<le> u \<and> u \<le> 122 then Some (unat u - 71)
      else if 48 \<le> u \<and> u \<le> 57 then Some (unat u + 4)
      else if u = 43 then Some 62 else if u = 47 then Some 63 else None)"

definition b64_ws :: "code_unit \<Rightarrow> bool" where
  "b64_ws u \<longleftrightarrow> u = 9 \<or> u = 10 \<or> u = 12 \<or> u = 13 \<or> u = 32"

text \<open>One or two \<open>=\<close> at the end of a string whose length is a multiple of four.\<close>

definition strip_padding :: "jstr \<Rightarrow> jstr" where
  "strip_padding s =
     (if length s mod 4 = 0 \<and> s \<noteq> [] \<and> last s = 61
      then (let t = butlast s in if t \<noteq> [] \<and> last t = 61 then butlast t else t)
      else s)"

fun b64_groups :: "nat list \<Rightarrow> nat list option" where
  "b64_groups [] = Some []"
| "b64_groups [a] = None"
| "b64_groups [a, b] = Some [a * 4 + b div 16]"
| "b64_groups [a, b, c] = Some [a * 4 + b div 16, b mod 16 * 16 + c div 4]"
| "b64_groups (a # b # c # d # s) =
     map_option (\<lambda>r. [a * 4 + b div 16, b mod 16 * 16 + c div 4, c mod 4 * 64 + d] @ r) (b64_groups s)"

text \<open>\<open>None\<close> is the \<open>InvalidCharacterError\<close>; the result is a string of units below 256.\<close>

definition atob :: "jstr \<Rightarrow> nat list option" where
  "atob s = Option.bind (those (map b64_value (strip_padding (filter (\<lambda>u. \<not> b64_ws u) s)))) b64_groups"

definition b64_unit :: "nat \<Rightarrow> code_unit" where
  "b64_unit n = (if n < 26 then of_nat (n + 65) else if n < 52 then of_nat (n + 71)
     else if n < 62 then of_nat (n - 4) else if n = 62 then 43 else 47)"

fun btoa :: "nat list \<Rightarrow> jstr" where
  "btoa [] = []"
| "btoa [x] = [b64_unit (x div 4), b64_unit (x mod 4 * 16), 61, 61]"
| "btoa [x, y] = [b64_unit (x div 4), b64_unit (x mod 4 * 16 + y div 16), b64_unit (y mod 16 * 4), 61]"
| "btoa (x # y # z # s) = [b64_unit (x div 4), b64_unit (x mod 4 * 16 + y div 16),
     b64_unit (y mod 16 * 4 + z div 64), b64_unit (z mod 64)] @ btoa s"

lemma b64_unit_facts: "n < 64 \<Longrightarrow> b64_value (b64_unit n) = Some n \<and> b64_unit n \<noteq> 61 \<and> \<not> b64_ws (b64_unit n)"
proof -
  have "list_all (\<lambda>n. b64_value (b64_unit n) = Some n \<and> b64_unit n \<noteq> 61
      \<and> \<not> b64_ws (b64_unit n)) [0..<64]" by code_simp
  then have "\<forall>n\<in>set [0..<64]. b64_value (b64_unit n) = Some n \<and> b64_unit n \<noteq> 61
      \<and> \<not> b64_ws (b64_unit n)" by (simp only: list_all_iff)
  then show "n < 64 \<Longrightarrow> ?thesis" by (metis atLeastLessThan_iff set_upt zero_le)
qed

text \<open>The sextets of a byte list, and \<open>btoa\<close> as their letters with the padding.\<close>

fun sextets :: "nat list \<Rightarrow> nat list" where
  "sextets [] = []"
| "sextets [x] = [x div 4, x mod 4 * 16]"
| "sextets [x, y] = [x div 4, x mod 4 * 16 + y div 16, y mod 16 * 4]"
| "sextets (x # y # z # s) =
     [x div 4, x mod 4 * 16 + y div 16, y mod 16 * 4 + z div 64, z mod 64] @ sextets s"

fun b64_pad :: "nat list \<Rightarrow> jstr" where
  "b64_pad [] = []"
| "b64_pad [x] = [61, 61]"
| "b64_pad [x, y] = [61]"
| "b64_pad (x # y # z # s) = b64_pad s"

lemma btoa_sextets: "btoa xs = map b64_unit (sextets xs) @ b64_pad xs"
  by (induction xs rule: btoa.induct) auto

lemma byte_parts:
  "x < 256 \<Longrightarrow> x div 4 < (64::nat)" "x < 256 \<Longrightarrow> x div 16 < (16::nat)" "x < 256 \<Longrightarrow> x div 64 < (4::nat)"
  "x mod 4 < (4::nat)" "x mod 16 < (16::nat)" "x mod 64 < (64::nat)"
  by (simp_all add: less_mult_imp_div_less)

lemma sextet_bounds:
  "y < 256 \<Longrightarrow> x mod 4 * 16 + y div 16 < (64::nat)"
  "z < 256 \<Longrightarrow> y mod 16 * 4 + z div 64 < (64::nat)"
proof -
  have le: "a \<le> 3 \<Longrightarrow> b < 16 \<Longrightarrow> a * 16 + b < (64::nat)" for a b by simp
  have le': "a \<le> 15 \<Longrightarrow> b < 4 \<Longrightarrow> a * 4 + b < (64::nat)" for a b by simp
  have "x mod 4 \<le> 3" "y mod 16 \<le> 15"
    using byte_parts(4) [of x] byte_parts(5) [of y] by linarith+
  then show "y < 256 \<Longrightarrow> x mod 4 * 16 + y div 16 < (64::nat)"
    "z < 256 \<Longrightarrow> y mod 16 * 4 + z div 64 < (64::nat)"
    using le [OF _ byte_parts(2) [of y]] le' [OF _ byte_parts(3) [of z]] by blast+
qed

lemma sextets_small: "list_all (\<lambda>x. x < 256) xs \<Longrightarrow> list_all (\<lambda>n. n < 64) (sextets xs)"
proof (induction xs rule: sextets.induct)
  case (2 x)
  with byte_parts [of x] show ?case by simp
next
  case (3 x y)
  with byte_parts [of x] byte_parts [of y] sextet_bounds(1) [of y x] show ?case by simp
next
  case (4 x y z s)
  with byte_parts [of x] byte_parts [of z] sextet_bounds(1) [of y x] sextet_bounds(2) [of z y]
  show ?case by simp
qed simp

lemma sextets_back: "list_all (\<lambda>x. x < 256) xs \<Longrightarrow> b64_groups (sextets xs) = Some xs"
proof (induction xs rule: sextets.induct)
  case (3 x y)
  then have "y div 16 < 16" using byte_parts [of y] by simp
  with 3 show ?case by simp
next
  case (4 x y z s)
  then have "y div 16 < 16" "z div 64 < 4" using byte_parts [of y] byte_parts [of z] by simp_all
  with 4 show ?case by simp
qed simp_all

lemma sextets_length: "(length (sextets xs) + length (b64_pad xs)) mod 4 = 0"
proof (induction xs rule: b64_pad.induct)
  case (4 x y z s)
  have "length (sextets (x # y # z # s)) + length (b64_pad (x # y # z # s))
      = 4 + (length (sextets s) + length (b64_pad s))" by simp
  with 4 show ?case by presburger
qed simp_all

lemma b64_pad_cases: "b64_pad xs = [] \<or> b64_pad xs = [61] \<or> b64_pad xs = [61, 61]"
  by (induction xs rule: b64_pad.induct) auto

lemma sextets_Nil: "sextets xs = [] \<longleftrightarrow> xs = []"
  by (cases xs rule: sextets.cases) auto

lemma strip_btoa: "list_all (\<lambda>x. x < 256) xs \<Longrightarrow> strip_padding (btoa xs) = map b64_unit (sextets xs)"
proof (cases "xs = []")
  case True
  then show ?thesis by (simp add: strip_padding_def)
next
  case False
  assume small: "list_all (\<lambda>x. x < 256) xs"
  from False have ne: "sextets xs \<noteq> []" by (simp add: sextets_Nil)
  have "last (sextets xs) < 64"
    using sextets_small [OF small] ne last_in_set by (fastforce simp: list_all_iff)
  then have last: "last (map b64_unit (sextets xs)) \<noteq> 61"
    using ne by (simp add: last_map b64_unit_facts)
  have "length (btoa xs) mod 4 = 0"
    using sextets_length [of xs] by (simp add: btoa_sextets)
  moreover have "map b64_unit (sextets xs) \<noteq> []" using ne by simp
  ultimately show ?thesis
    using b64_pad_cases [of xs] last
    by (auto simp: strip_padding_def btoa_sextets butlast_append)
qed

lemma those_map_Some: "(\<And>x. x \<in> set xs \<Longrightarrow> f x = Some (g x)) \<Longrightarrow> those (map f xs) = Some (map g xs)"
  by (induction xs) auto

lemma atob_btoa: "list_all (\<lambda>x. x < 256) xs \<Longrightarrow> atob (btoa xs) = Some xs"
proof -
  assume small: "list_all (\<lambda>x. x < 256) xs"
  have "\<not> b64_ws u" if "u \<in> set (btoa xs)" for u
  proof -
    from that have "u \<in> b64_unit ` set (sextets xs) \<or> u = 61"
      using b64_pad_cases [of xs] by (auto simp: btoa_sextets)
    then show ?thesis
    proof
      assume "u \<in> b64_unit ` set (sextets xs)"
      then show ?thesis using sextets_small [OF small] by (auto simp: list_all_iff b64_unit_facts)
    qed (simp add: b64_ws_def)
  qed
  then have "filter (\<lambda>u. \<not> b64_ws u) (btoa xs) = btoa xs" by simp
  moreover have "those (map b64_value (map b64_unit (sextets xs))) = Some (map id (sextets xs))"
    unfolding map_map
    by (rule those_map_Some) (use sextets_small [OF small] in \<open>simp add: list_all_iff b64_unit_facts\<close>)
  ultimately show ?thesis
    using small by (simp add: atob_def strip_btoa sextets_back)
qed

end
