(* ===== verification/Replay.thy ===== *)
theory Replay
  imports Streams Api Ui
begin

text \<open>
  \<open>src/pages/dashboard/ReplayModal.tsx\<close>: the replay of a session, read from the API as a stream
  of newline-delimited JSON. The reader's state is the decoder, the text left over from the
  last chunk and the events shown so far; the main theorem says that how the network cuts the
  stream into chunks changes nothing. A frame is decoded to an image, text or a byte count, a
  payload to a link, a command or its JSON.
\<close>

section \<open>Reading the stream\<close>

datatype replay_phase = RyAwaitResponse | RyAwaitText nat | RyReading | RySettled

record replay =
  ry_events :: "jsval list"
  ry_loading :: bool
  ry_error :: "jstr option"
  ry_done :: bool
  ry_phase :: replay_phase
  ry_decoder :: utf8_state
  ry_buffer :: jstr

definition replay_mount :: replay where
  "replay_mount = \<lparr>ry_events = [], ry_loading = True, ry_error = None, ry_done = False,
     ry_phase = RyAwaitResponse, ry_decoder = utf8_start, ry_buffer = []\<rparr>"

text \<open>The request of the mount effect: its path and its headers.\<close>

definition replay_headers :: "client \<Rightarrow> headers" where
  "replay_headers c = (let token = getAuthToken c in
     if truthy token then [(''Authorization'', js ''Bearer '' @ the token)] else [])"

text \<open>
  One line: blank lines and lines that are no JSON are skipped, \<open>null\<close> throws inside the
  \<open>try\<close>, and a value wrapped in \<open>result\<close> is unwrapped.
\<close>

definition parse_line :: "jstr \<Rightarrow> jsval list" where
  "parse_line line = (let trimmed = trim line in
     if trimmed = [] then []
     else (case json_parse trimmed of
         None \<Rightarrow> []
       | Some JNull \<Rightarrow> []
       | Some parsed \<Rightarrow>
           (let r = get_field parsed (js ''result'');
                result = (if r = JUndef \<or> r = JNull then parsed else r)
            in if js_truthy result then [result] else [])))"

definition read_text :: "jstr \<Rightarrow> replay \<Rightarrow> replay" where
  "read_text t s =
     (let lines = split_on 10 (ry_buffer s @ t) in
      s\<lparr>ry_buffer := last lines,
        ry_events := ry_events s @ concat (map parse_line (butlast lines))\<rparr>)"

definition read_chunk :: "byte list \<Rightarrow> replay \<Rightarrow> replay" where
  "read_chunk bs s = (let (t, d) = utf8_decode (ry_decoder s) bs in
     read_text t (s\<lparr>ry_decoder := d\<rparr>))"

text \<open>The \<open>catch\<close> and the \<open>finally\<close> at the end of the promise chain.\<close>

definition replay_failed :: "jstr \<Rightarrow> jstr \<Rightarrow> replay \<Rightarrow> replay" where
  "replay_failed name message s =
     (if name = js ''AbortError'' then s
      else s\<lparr>ry_error := Some (or_str (Some message) (js ''Replay stream failed''))\<rparr>)
     \<lparr>ry_loading := False, ry_phase := RySettled\<rparr>"

datatype replay_event =
    RyResponse bool nat bool
  | RyText jstr
  | RyChunk "byte list"
  | RyEnd
  | RyThrew jstr jstr
  | RyClose

fun replay_step :: "replay \<Rightarrow> replay_event \<Rightarrow> replay" where
  "replay_step s (RyResponse is_ok status has_body) =
     (if ry_phase s \<noteq> RyAwaitResponse then s
      else if \<not> is_ok then s\<lparr>ry_phase := RyAwaitText status\<rparr>
      else if \<not> has_body then replay_failed (js ''Error'') (js ''No response body'') s
      else s\<lparr>ry_phase := RyReading\<rparr>)"
| "replay_step s (RyText t) = (case ry_phase s of
     RyAwaitText status \<Rightarrow>
       replay_failed (js ''Error'') (js ''Replay failed: '' @ nat_text status @ [32] @ t) s
   | _ \<Rightarrow> s)"
| "replay_step s (RyChunk bs) = (if ry_phase s = RyReading then read_chunk bs s else s)"
| "replay_step s RyEnd =
     (if ry_phase s = RyReading
      then s\<lparr>ry_done := True, ry_loading := False, ry_phase := RySettled\<rparr> else s)"
| "replay_step s (RyThrew name message) =
     (if ry_phase s = RySettled then s else replay_failed name message s)"
| "replay_step s RyClose = s"

section \<open>Frames\<close>

datatype frame = FrameImage jstr | FrameText jstr | FrameBinary jstr | FrameEmpty

definition printable_byte :: "nat \<Rightarrow> bool" where
  "printable_byte b \<longleftrightarrow> b = 10 \<or> b = 13 \<or> 32 \<le> b \<and> b < 127"

definition decodeFrame :: "jstr option \<Rightarrow> frame" where
  "decodeFrame b64 =
     (if \<not> truthy b64 then FrameEmpty
      else case atob (the b64) of
        None \<Rightarrow> FrameEmpty
      | Some bytes \<Rightarrow>
          if length bytes \<ge> 8 \<and> take 4 bytes = [0x89, 0x50, 0x4E, 0x47]
          then FrameImage (js ''data:image/png;base64,'' @ the b64)
          else if length bytes \<ge> 2 \<and> take 2 bytes = [0xFF, 0xD8]
          then FrameImage (js ''data:image/jpeg;base64,'' @ the b64)
          else if list_all printable_byte bytes then FrameText (map of_nat bytes)
          else FrameBinary (js ''binary frame ('' @ nat_text (length bytes) @ js '' bytes)''))"

section \<open>Payloads\<close>

text \<open>\<open>String(v)\<close>; numbers keep the notation they were written in.\<close>

fun js_string :: "jsval \<Rightarrow> jstr" and js_join :: "jsval list \<Rightarrow> jstr list" where
  "js_string JUndef = js ''undefined''"
| "js_string JNull = js ''null''"
| "js_string (JBool b) = (if b then js ''true'' else js ''false'')"
| "js_string (JNum l) = l"
| "js_string (JStr s) = s"
| "js_string (JArr vs) = join_with [44] (js_join vs)"
| "js_string (JObj fs) = js ''[object Object]''"
| "js_string (JExn n m) = n @ [58, 32] @ m"
| "js_join [] = []"
| "js_join (v # vs) = (if v = JUndef \<or> v = JNull then [] else js_string v) # js_join vs"

text \<open>
  \<open>None\<close>: reading a property of \<open>null\<close> throws, outside the \<open>try\<close>, and takes the render down.
  The text \<open>atob\<close> gives is one unit per byte.
\<close>

definition payload_summary :: "jstr \<Rightarrow> 'e node list option" where
  "payload_summary b64 =
     (case Option.bind (atob b64) (\<lambda>bytes. json_parse (map of_nat bytes)) of
        None \<Rightarrow> Some []
      | Some JNull \<Rightarrow> None
      | Some parsed \<Rightarrow>
          (let url = get_field parsed (js ''url''); label = get_field parsed (js ''label'');
               cmd = get_field parsed (js ''cmd''); args = get_field parsed (js ''args'');
               selector = get_field parsed (js ''selector''); t = get_field parsed (js ''text'') in
           if js_truthy url then
             Some [El ''a'' [Attr ''href'' (js_string url), Attr ''target'' (js ''_blank'')]
               [Text (if js_truthy label then js_string label @ js '': '' else []), Text (js_string url)]]
           else if js_truthy cmd then
             Some [El ''pre'' [] [tx ''$ '', Text (js_string cmd), tx '' '',
               Text (case args of JArr vs \<Rightarrow> join_with [32] (map js_string vs) | _ \<Rightarrow> [])]]
           else if js_truthy selector then
             Some [El ''pre'' [] [tx ''selector: '', Text (js_string selector),
               Text (if t \<noteq> JUndef then 10 # js ''text: '' @ js_string t else [])]]
           else Some [El ''pre'' [] [Text (stringify2 0 parsed)]]))"

section \<open>The view\<close>

text \<open>\<open>clock\<close> is \<open>new Date(t).toLocaleTimeString()\<close>. \<open>None\<close> when a payload's summary throws.\<close>

definition replay_event_view :: "(jstr \<Rightarrow> jstr) \<Rightarrow> nat \<Rightarrow> jsval \<Rightarrow> 'e node option" where
  "replay_event_view clock index data =
     (let event = get_field data (js ''event'');
          frame = decodeFrame (str_field data (js ''frame''));
          at = str_field event (js ''occurred_at'');
          payload = str_field event (js ''action_payload'') in
      case (if truthy payload then payload_summary (the payload) else Some []) of
        None \<Rightarrow> None
      | Some summary \<Rightarrow> Some (El ''div'' []
         ([El ''div'' []
            [El ''span'' []
              [tx ''#'', Text (nat_text index), tx '' '',
               Text (or_str (str_field event (js ''action_type'')) (js ''unknown''))],
             El ''span'' []
              [tx ''seq '', Text (nullish (str_field event (js ''sequence'')) (js ''-'')),
               Text [32, 0xB7, 32], Text (if truthy at then clock (the at) else js ''-'')]]]
          @ if_truthy (str_field event (js ''recording_ref'')) (\<lambda>r. [El ''p'' [] [Text r]])
          @ summary
          @ (case frame of
               FrameImage d \<Rightarrow> [El ''img'' [Attr ''src'' d,
                 Attr ''alt'' (js ''Replay frame '' @ nat_text index)] []]
             | FrameText d \<Rightarrow> [El ''pre'' [] [Text d]]
             | FrameBinary d \<Rightarrow> [El ''p'' [] [Text d]]
             | FrameEmpty \<Rightarrow> []))))"

definition replay_view :: "(jstr \<Rightarrow> jstr) \<Rightarrow> jstr \<Rightarrow> replay \<Rightarrow> replay_event node option" where
  "replay_view clock sessionId s =
     map_option (\<lambda>rows. El ''div'' [OnClick RyClose]
       [El ''div'' []
         [El ''header'' []
           [El ''div'' []
             [icon ''IconPlay'', El ''h2'' [] [tx ''Replay''], El ''span'' [] [Text sessionId]],
            button ''ghost'' ''sm'' False False
             [OnClick RyClose, Attr ''aria-label'' (js ''Close replay'')] [icon ''IconXCircle'']],
          El ''div'' []
           (if_truthy (ry_error s) (\<lambda>m. [error_box m])
            @ only_if (ry_events s = [] \<and> \<not> ry_loading s \<and> \<not> truthy (ry_error s))
                [El ''p'' [] [tx ''No replay events for this session.'']]
            @ rows
            @ only_if (ry_loading s)
                [El ''div'' [] [El ''div'' [] [], Text (js ''Streaming replay'' @ [0x2026])]]
            @ only_if (ry_done s \<and> ry_events s \<noteq> []) [El ''p'' [] [tx ''End of replay'']])]])
      (those (map (\<lambda>(i, ev). replay_event_view clock (i + 1) ev)
        (zip [0..<length (ry_events s)] (ry_events s))))"

section \<open>The cuts of the stream do not matter\<close>

lemma read_text_append: "read_text t (read_text u s) = read_text (u @ t) s"
proof -
  let ?a = "split_on 10 (ry_buffer s @ u)"
  have ne: "?a \<noteq> []" by simp
  have free: "10 \<notin> set (last ?a)"
    using split_on_parts_free ne last_in_set by blast
  have cut: "split_on 10 (ry_buffer s @ u @ t)
      = butlast ?a @ (last ?a @ hd (split_on 10 t)) # tl (split_on 10 t)"
    using split_on_append [of 10 "ry_buffer s @ u" t] by simp
  have rest: "split_on 10 (last ?a @ t) = (last ?a @ hd (split_on 10 t)) # tl (split_on 10 t)"
    using split_on_append [of 10 "last ?a" t] by (simp add: split_on_free [OF free])
  show ?thesis
    unfolding read_text_def Let_def
    by (simp add: cut rest butlast_append)
qed

lemma read_text_Nil: "10 \<notin> set (ry_buffer s) \<Longrightarrow> read_text [] s = s"
  by (simp add: read_text_def split_on_free)

lemma read_text_decoder: "read_text t (s\<lparr>ry_decoder := d\<rparr>) = (read_text t s)\<lparr>ry_decoder := d\<rparr>"
  "ry_decoder (read_text t s) = ry_decoder s" "ry_phase (read_text t s) = ry_phase s"
  by (simp_all add: read_text_def Let_def)

lemma read_chunk_def': "read_chunk bs s =
    (read_text (fst (utf8_decode (ry_decoder s) bs)) s)\<lparr>ry_decoder := snd (utf8_decode (ry_decoder s) bs)\<rparr>"
  by (simp add: read_chunk_def split_beta read_text_decoder)

lemma read_chunk_append: "read_chunk ys (read_chunk xs s) = read_chunk (xs @ ys) s"
  by (simp add: read_chunk_def' read_text_decoder read_text_append utf8_decode_append
        flip: read_text_decoder(1))

lemma read_chunks_concat:
  "10 \<notin> set (ry_buffer s) \<Longrightarrow> foldl (\<lambda>s c. read_chunk c s) s cs = read_chunk (concat cs) s"
proof (induction cs rule: rev_induct)
  case Nil
  then show ?case by (simp add: read_chunk_def' read_text_Nil)
next
  case (snoc c cs)
  then show ?case by (simp add: read_chunk_append)
qed

lemma run_chunks:
  "ry_phase s = RyReading \<Longrightarrow> run replay_step s (map RyChunk cs) = foldl (\<lambda>s c. read_chunk c s) s cs"
proof (induction cs arbitrary: s)
  case (Cons c cs)
  then show ?case by (simp add: read_chunk_def' read_text_decoder)
qed simp

lemma replay_chunking:
  assumes "ry_phase s = RyReading" "10 \<notin> set (ry_buffer s)" "concat cs = concat ds"
  shows "run replay_step s (map RyChunk cs) = run replay_step s (map RyChunk ds)"
  using assms by (simp add: run_chunks read_chunks_concat)

text \<open>What a whole replay shows: the events of the terminated lines, in order.\<close>

definition stream_events :: "byte list \<Rightarrow> jsval list" where
  "stream_events bs = concat (map parse_line (butlast (split_on 10 (fst (utf8_decode utf8_start bs)))))"

lemma replay_complete:
  "ry_events (run replay_step replay_mount
      ([RyResponse True 200 True] @ map RyChunk cs @ [RyEnd])) = stream_events (concat cs)"
proof -
  let ?s = "replay_step replay_mount (RyResponse True 200 True)"
  have "ry_phase ?s = RyReading" "10 \<notin> set (ry_buffer ?s)" by (simp_all add: replay_mount_def)
  then have "run replay_step ?s (map RyChunk cs) = read_chunk (concat cs) ?s"
    by (simp add: run_chunks read_chunks_concat)
  moreover have "ry_events (replay_step t RyEnd) = ry_events t" for t by simp
  ultimately show ?thesis
    by (simp add: read_chunk_def' read_text_def Let_def stream_events_def replay_mount_def)
qed

text \<open>A last line without a newline is not shown.\<close>

lemma unterminated_line_lost:
  "10 \<notin> set (fst (utf8_decode utf8_start bs)) \<Longrightarrow> stream_events bs = []"
  by (simp add: stream_events_def split_on_free)

section \<open>Invariant\<close>

text \<open>
  The modal loads until its promise chain has settled, it is done only after a whole stream,
  and the text kept between chunks never holds a line break.
\<close>

definition replay_inv :: "replay \<Rightarrow> bool" where
  "replay_inv s \<longleftrightarrow>
     (ry_loading s \<longleftrightarrow> ry_phase s \<noteq> RySettled)
     \<and> (ry_done s \<longrightarrow> ry_phase s = RySettled \<and> ry_error s = None)
     \<and> (ry_error s \<noteq> None \<longrightarrow> ry_phase s = RySettled)
     \<and> 10 \<notin> set (ry_buffer s)"

lemma replay_inv_text: "replay_inv s \<Longrightarrow> ry_phase s = RyReading \<Longrightarrow> replay_inv (read_text t s)"
  using split_on_parts_free [OF last_in_set [OF split_on_nonempty], of 10 "ry_buffer s @ t"]
  by (simp add: replay_inv_def read_text_def Let_def)

lemma replay_inv_step: "replay_inv s \<Longrightarrow> replay_inv (replay_step s e)"
proof (cases e)
  case (RyChunk bs)
  assume inv: "replay_inv s"
  show ?thesis
  proof (cases "ry_phase s = RyReading")
    case True
    then have "replay_inv (read_text (fst (utf8_decode (ry_decoder s) bs)) s)"
      using inv by (intro replay_inv_text)
    then have "replay_inv (read_chunk bs s)" by (simp add: read_chunk_def' replay_inv_def)
    with RyChunk True show ?thesis by simp
  qed (use RyChunk inv in simp)
qed (auto simp: replay_inv_def replay_failed_def split: replay_phase.splits)

interpretation rym: machine replay_mount replay_step replay_inv
  by unfold_locales (simp_all add: replay_inv_step del: replay_step.simps, simp add: replay_inv_def replay_mount_def)

section \<open>Frames and payloads\<close>

text \<open>A recorded frame is shown as what it is: of the bytes that were encoded, a PNG or JPEG signature
  makes an image of the unchanged encoding, printable bytes make their text, and anything else is
  reported with its exact number of bytes.\<close>
theorem decodeFrame_btoa:
  assumes "list_all (\<lambda>x. x < 256) bs" "bs \<noteq> []"
  shows "decodeFrame (Some (btoa bs)) =
    (if length bs \<ge> 8 \<and> take 4 bs = [0x89, 0x50, 0x4E, 0x47]
     then FrameImage (js ''data:image/png;base64,'' @ btoa bs)
     else if length bs \<ge> 2 \<and> take 2 bs = [0xFF, 0xD8]
     then FrameImage (js ''data:image/jpeg;base64,'' @ btoa bs)
     else if list_all printable_byte bs then FrameText (map of_nat bs)
     else FrameBinary (js ''binary frame ('' @ nat_text (length bs) @ js '' bytes)''))"
proof -
  have "btoa bs \<noteq> []" using assms(2) by (cases bs rule: btoa.cases) auto
  with assms(1) show ?thesis by (simp add: decodeFrame_def atob_btoa)
qed

theorem decodeFrame_btoa_witness:
  "decodeFrame (Some (btoa [0xFF, 0xD8, 0])) = FrameImage (js ''data:image/jpeg;base64,'' @ btoa [0xFF, 0xD8, 0])
   \<and> decodeFrame (Some (btoa [104, 105])) = FrameText [104, 105]"
  using decodeFrame_btoa [of "[0xFF, 0xD8, 0]"] decodeFrame_btoa [of "[104, 105]"]
  by (simp add: printable_byte_def)

text \<open>A payload that is the JSON text \<open>null\<close> takes the render down, and the modal with it.\<close>

lemma payload_null_throws: "payload_summary (js ''bnVsbA=='') = None"
  by code_simp

lemma those_None: "None \<in> set xs \<Longrightarrow> those xs = None"
  by (induction xs) (auto split: option.splits)

lemma replay_view_throws:
  assumes "ev \<in> set (ry_events s)" "\<And>n. (replay_event_view clock n ev :: replay_event node option) = None"
  shows "replay_view clock sid s = None"
proof -
  from assms(1) obtain i where "i < length (ry_events s)" "ry_events s ! i = ev"
    by (auto simp: in_set_conv_nth)
  then have "(i, ev) \<in> set (zip [0..<length (ry_events s)] (ry_events s))"
    by (auto simp: set_zip intro!: exI [of _ i])
  then have "None \<in> set (map (\<lambda>(i, ev). replay_event_view clock (i + 1) ev :: replay_event node option)
      (zip [0..<length (ry_events s)] (ry_events s)))"
  proof -
    have "(\<lambda>(i, ev). replay_event_view clock (i + 1) ev :: replay_event node option) (i, ev) = None" using assms(2) by simp
    with \<open>(i, ev) \<in> _\<close> show ?thesis unfolding set_map by (metis (no_types, lifting) image_eqI)
  qed
  then show ?thesis by (simp add: replay_view_def those_None)
qed

section \<open>A whole replay\<close>

lemma replay_ends:
  "let s = run replay_step replay_mount ([RyResponse True 200 True] @ map RyChunk cs @ [RyEnd]) in
     ry_done s \<and> \<not> ry_loading s \<and> ry_error s = None"
proof -
  let ?s = "replay_step replay_mount (RyResponse True 200 True)"
  have s: "ry_phase ?s = RyReading" "ry_error ?s = None" "10 \<notin> set (ry_buffer ?s)"
    by (simp_all add: replay_mount_def)
  then have r: "run replay_step ?s (map RyChunk cs) = read_chunk (concat cs) ?s"
    by (simp add: run_chunks read_chunks_concat)
  have "ry_phase (read_chunk bs t) = ry_phase t" "ry_error (read_chunk bs t) = ry_error t" for bs t
    by (simp_all add: read_chunk_def' read_text_def Let_def)
  with s r show ?thesis by (simp add: Let_def del: replay_step.simps(1))
qed

text \<open>C4. How the network cuts the stream changes nothing: whatever the chunks, also inside a line, a
  JSON text or a character, a replay that ends shows the events of the lines of the whole stream,
  in order, is marked done and no longer loads.
\<close>
theorem replay_is_stream:
  "let s = run replay_step replay_mount ([RyResponse True 200 True] @ map RyChunk cs @ [RyEnd]) in
     ry_events s = stream_events (concat cs) \<and> ry_done s \<and> \<not> ry_loading s \<and> ry_error s = None"
  using replay_complete [of cs] replay_ends [of cs] by (simp add: Let_def)

end
