(* ===== verification/Pages.thy ===== *)
theory Pages
  imports Auth Ui
begin

text \<open>
  Smaller pages and guards: \<open>src/pages/ProfilePage.tsx\<close>, \<open>src/lib/ErrorBoundary.tsx\<close>,
  \<open>src/lib/SkipLink.tsx\<close> and \<open>src/pages/NotFound.tsx\<close>. A child whose render throws is \<open>None\<close>;
  the boundary catches it and shows its fallback until the page is reloaded.
\<close>

section \<open>\<open>ProfilePage\<close>\<close>

record github_profile =
  gp_login :: jstr
  gp_name :: "jstr option"
  gp_avatar_url :: jstr
  gp_bio :: "jstr option"
  gp_company :: "jstr option"
  gp_blog :: "jstr option"
  gp_location :: "jstr option"
  gp_twitter_username :: "jstr option"
  gp_public_repos :: nat
  gp_followers :: nat
  gp_following :: nat
  gp_html_url :: jstr
  gp_created_at :: jstr

text \<open>\<open>fixed1 n d\<close> is \<open>(n / d).toFixed(1)\<close>, a floating-point division.\<close>

definition formatNumber :: "(nat \<Rightarrow> nat \<Rightarrow> jstr) \<Rightarrow> nat \<Rightarrow> jstr" where
  "formatNumber fixed1 n =
     (if n \<ge> 1000000 then fixed1 n 1000000 @ js ''M''
      else if n \<ge> 1000 then fixed1 n 1000 @ js ''k''
      else nat_text n)"

definition blog_href :: "jstr \<Rightarrow> jstr" where
  "blog_href b = (if prefix (js ''http'') b then b else js ''https://'' @ b)"

text \<open>\<open>blog.replace(/^https?:\/\//, "")\<close>\<close>

definition blog_label :: "jstr \<Rightarrow> jstr" where
  "blog_label b =
     (if prefix (js ''http://'') b then drop 7 b
      else if prefix (js ''https://'') b then drop 8 b else b)"

record profile_page =
  gh_profile :: "github_profile option"
  gh_loading :: bool

definition profile_mount :: profile_page where
  "profile_mount = \<lparr>gh_profile = None, gh_loading = True\<rparr>"

text \<open>The fetch settles with the parsed file, or fails (\<open>None\<close>) on any error.\<close>

definition profile_settled :: "github_profile option \<Rightarrow> profile_page \<Rightarrow> profile_page" where
  "profile_settled r s = (case r of
     Some p \<Rightarrow> s\<lparr>gh_profile := Some p, gh_loading := False\<rparr>
   | None \<Rightarrow> s\<lparr>gh_loading := False\<rparr>)"

definition profile_stats :: "(nat \<Rightarrow> nat \<Rightarrow> jstr) \<Rightarrow> github_profile \<Rightarrow> 'e node" where
  "profile_stats fixed1 p = El ''div'' []
     (map (\<lambda>(label, n). El ''div'' []
        [El ''div'' [] [Text (formatNumber fixed1 n)], El ''div'' [] [tx label]])
      [(''Repos'', gp_public_repos p), (''Followers'', gp_followers p), (''Following'', gp_following p)])"

definition profile_card :: "(nat \<Rightarrow> nat \<Rightarrow> jstr) \<Rightarrow> (jstr \<Rightarrow> jstr) \<Rightarrow> github_profile \<Rightarrow> 'e node" where
  "profile_card fixed1 month p = El ''div'' []
     [El ''div'' []
       ([El ''img'' [Attr ''src'' (gp_avatar_url p), Attr ''alt'' (or_str (gp_name p) (gp_login p))] [],
         El ''div'' []
          [El ''h1'' [] [Text (or_str (gp_name p) (gp_login p))],
           El ''p'' [] [tx ''@'', Text (gp_login p)]]]
        @ if_truthy (gp_bio p) (\<lambda>b. [El ''p'' [] [Text b]])),
      El ''div'' []
       (if_truthy (gp_location p) (\<lambda>l. [El ''span'' [] [Text l]])
        @ if_truthy (gp_company p) (\<lambda>c. [El ''span'' [] [Text c]])
        @ if_truthy (gp_blog p) (\<lambda>b. [El ''a'' [Attr ''href'' (blog_href b)] [Text (blog_label b)]])),
      profile_stats fixed1 p,
      El ''div'' []
       ([El ''a'' [Attr ''href'' (gp_html_url p)] [icon ''IconGitHub'', tx ''GitHub'']]
        @ if_truthy (gp_twitter_username p)
            (\<lambda>t. [El ''a'' [Attr ''href'' (js ''https://x.com/'' @ t)] [icon ''IconXLogo'', tx ''X'']])),
      El ''div'' [] [tx ''On GitHub since '', Text (month (gp_created_at p))]]"

definition profile_view ::
  "(nat \<Rightarrow> nat \<Rightarrow> jstr) \<Rightarrow> (jstr \<Rightarrow> jstr) \<Rightarrow> (jstr \<Rightarrow> 'e) \<Rightarrow> 'e node \<Rightarrow> profile_page \<Rightarrow> 'e node" where
  "profile_view fixed1 month nav toggle s = El ''div'' []
     [El ''header'' []
       [link nav (js ''/'') [] [icon ''BabitLogo'', El ''span'' [] [tx ''babit'']], toggle],
      El ''main'' []
       [if gh_loading s \<or> gh_profile s = None
        then El ''div'' [] [El ''div'' [] [], El ''span'' [] [Text (js ''Loading profile'' @ [0x2026])]]
        else profile_card fixed1 month (the (gh_profile s))]]"

lemma formatNumber_small: "n < 1000 \<Longrightarrow> formatNumber f n = nat_text n"
  by (simp add: formatNumber_def)

text \<open>The label is the address without its scheme, and the link leads there.\<close>

lemma blog_href_label: "prefix (js ''http://'') b \<or> prefix (js ''https://'') b \<Longrightarrow>
    blog_href b = b \<and> (b = js ''http://'' @ blog_label b \<or> b = js ''https://'' @ blog_label b)"
  by (auto simp: blog_href_def blog_label_def prefix_def js_def)

text \<open>A failed fetch leaves the page on its loading message.\<close>

lemma profile_failed_loading:
  "gh_profile (profile_settled None profile_mount) = None"
  by (simp add: profile_settled_def profile_mount_def)

section \<open>\<open>ErrorBoundary\<close>\<close>

record boundary =
  eb_hasError :: bool
  eb_message :: "jstr option"

definition boundary_init :: boundary where
  "boundary_init = \<lparr>eb_hasError = False, eb_message = None\<rparr>"

definition getDerivedStateFromError :: "jstr option \<Rightarrow> boundary" where
  "getDerivedStateFromError m = \<lparr>eb_hasError = True, eb_message = m\<rparr>"

datatype 'e boundary_event = EbReload | EbChild 'e

definition boundary_fallback :: "jstr option \<Rightarrow> 'e boundary_event node" where
  "boundary_fallback m = El ''div'' []
     [El ''div'' []
       ([El ''div'' [] [icon ''BabitLogo''],
         El ''div'' []
          [El ''h1'' [] [tx ''Something went wrong''],
           El ''p'' [] [tx ''The console hit an unexpected error. Your data is safe on the ledger.'']]]
        @ if_truthy m (\<lambda>t. [El ''p'' [] [Text t]])
        @ [El ''div'' []
            [El ''button'' [Attr ''type'' (js ''button''), OnClick EbReload] [tx ''Reload console''],
             El ''a'' [Attr ''href'' (js ''/'')] [tx ''Go home'']]])]"

text \<open>
  A render pass: without an error the children are rendered; a child that throws puts the
  boundary into the error state, in which it renders its own fallback (or the one it was given).
\<close>

definition boundary_render ::
  "'e boundary_event node option \<Rightarrow> jstr option \<Rightarrow> 'e node option \<Rightarrow> boundary \<Rightarrow> boundary \<times> 'e boundary_event node" where
  "boundary_render fallback message children b =
     (let shown = (\<lambda>b'. case fallback of Some f \<Rightarrow> f | None \<Rightarrow> boundary_fallback (eb_message b')) in
      if eb_hasError b then (b, shown b)
      else case children of
        Some t \<Rightarrow> (b, map_node EbChild t)
      | None \<Rightarrow> (let b' = getDerivedStateFromError message in (b', shown b')))"

lemma boundary_sticks:
  assumes "eb_hasError b"
  shows "boundary_render fb m (Some t) b = boundary_render fb m None b"
  using assms by (simp add: boundary_render_def)

lemma boundary_catches:
  "eb_hasError (fst (boundary_render fb m None b)) \<and> (fb = None \<longrightarrow> \<not> eb_hasError b \<longrightarrow>
     js ''Something went wrong'' \<in> set (texts (snd (boundary_render fb m None b))))"
  by (auto simp: boundary_render_def boundary_fallback_def getDerivedStateFromError_def Let_def)

section \<open>\<open>SkipLink\<close>\<close>

record skip_link =
  sk_visible :: bool
  sk_focused :: bool

datatype skip_event = SkKey string | SkFocus | SkBlur | SkClick

text \<open>\<open>has_main\<close>: the page has an element to skip to.\<close>

fun skip_step :: "bool \<Rightarrow> skip_link \<Rightarrow> skip_event \<Rightarrow> skip_link" where
  "skip_step has_main s (SkKey k) = (if k = ''Tab'' then s\<lparr>sk_visible := True\<rparr> else s)"
| "skip_step has_main s SkFocus = s\<lparr>sk_visible := True\<rparr>"
| "skip_step has_main s SkBlur = s\<lparr>sk_visible := False\<rparr>"
| "skip_step has_main s SkClick = (if has_main then s\<lparr>sk_focused := True\<rparr> else s)"

definition skip_view :: "skip_link \<Rightarrow> skip_event node" where
  "skip_view s = El ''a'' [Attr ''href'' (js ''#main-content''), OnClick SkClick,
     Attr ''opacity'' (if sk_visible s then js ''1'' else js ''0''),
     Attr ''pointerEvents'' (if sk_visible s then js ''auto'' else js ''none''),
     OnFocus SkFocus, OnBlur SkBlur] [tx ''Skip to main content'']"

section \<open>\<open>NotFound\<close>\<close>

definition not_found :: "(jstr \<Rightarrow> 'e) \<Rightarrow> 'e node" where
  "not_found nav = El ''main'' []
     [El ''div'' []
       [El ''div'' [] [icon ''BabitLogo''],
        El ''div'' []
         [El ''h1'' [] [tx ''404. Page not found.''], El ''p'' [] [tx ''That page does not exist.'']],
        El ''div'' []
         [link nav (js ''/'') [] [tx ''Go home''],
          link nav (js ''/dashboard'') [] [tx ''Open console'']]]]"

lemma fires_not_found: "can_fire (not_found nav) e \<longleftrightarrow> e = nav (js ''/'') \<or> e = nav (js ''/dashboard'')"
  by (auto simp: not_found_def)

end
