(* ===== verification/Numbers.thy ===== *)
theory Numbers
  imports Complex_Main Json
begin

text \<open>
  Numbers as JavaScript reads and rounds them. \<open>Number\<close> is modelled for optional white space, an
  optional sign and digits (the API's int64 text); the other numeric literals (fractions,
  exponents, radix prefixes) read as no number here. Integers beyond 53 bits are rounded as
  doubles are. \<open>parseInt(s, 16)\<close> is modelled in full.
\<close>

section \<open>Numbers\<close>

fun bit_len :: "nat \<Rightarrow> nat" where
  "bit_len n = (if n = 0 then 0 else bit_len (n div 2) + 1)"

declare bit_len.simps [simp del]

text \<open>Rounding to 53 significant bits, ties to even.\<close>

definition round_double :: "nat \<Rightarrow> nat" where
  "round_double n =
     (if n < 2 ^ 53 then n
      else (let k = bit_len n - 53; q = n div 2 ^ k; r = 2 * (n mod 2 ^ k) in
        (if r > 2 ^ k \<or> r = 2 ^ k \<and> odd q then q + 1 else q) * 2 ^ k))"

definition round_int :: "int \<Rightarrow> int" where
  "round_int i = (if i < 0 then - int (round_double (nat (- i))) else int (round_double (nat i)))"

fun digits_value :: "nat \<Rightarrow> jstr \<Rightarrow> nat option" where
  "digits_value a [] = Some a"
| "digits_value a (u # s) =
     (if 48 \<le> u \<and> u \<le> 57 then digits_value (10 * a + (unat u - 48)) s else None)"

definition finite_double :: "nat \<Rightarrow> nat option" where
  "finite_double n = (let d = round_double n in if d < 2 ^ 1024 then Some d else None)"

text \<open>\<open>Number(s)\<close> when it is finite.\<close>

definition number_of :: "jstr \<Rightarrow> int option" where
  "number_of s = (let t = trim s in
     if t = [] then Some 0
     else if tl t \<noteq> [] \<and> hd t = 45 then
       map_option (\<lambda>d. - int d) (Option.bind (digits_value 0 (tl t)) finite_double)
     else if tl t \<noteq> [] \<and> hd t = 43 then
       map_option int (Option.bind (digits_value 0 (tl t)) finite_double)
     else map_option int (Option.bind (digits_value 0 t) finite_double))"

text \<open>\<open>n\<close> of the overview, \<open>num\<close> of the analytics page.\<close>

definition num :: "jstr option \<Rightarrow> int" where
  "num v = (case v of None \<Rightarrow> 0 | Some s \<Rightarrow> nullish (number_of s) 0)"

lemma round_double_small: "n < 2 ^ 53 \<Longrightarrow> round_double n = n"
  by (simp add: round_double_def)

lemma round_double_0 [simp]: "round_double 0 = 0"
  by (simp add: round_double_def)

lemma round_int_small: "\<bar>i\<bar> < 2 ^ 53 \<Longrightarrow> round_int i = i"
  by (auto simp: round_int_def round_double_def nat_less_iff)

lemma round_int_nonneg: "0 \<le> i \<Longrightarrow> 0 \<le> round_int i"
  by (simp add: round_int_def)

lemma digit_unit:
  assumes "d < 10"
  shows "(48::code_unit) \<le> of_nat (48 + d) \<and> (of_nat (48 + d) :: code_unit) \<le> 57
     \<and> unat (of_nat (48 + d) :: code_unit) - 48 = d"
proof -
  have "unat (of_nat (48 + d) :: code_unit) = 48 + d"
    using assms by (simp add: unat_of_nat del: of_nat_add of_nat_numeral)
  then show ?thesis using assms by (simp add: word_le_nat_alt)
qed

lemma digits_value_append:
  "digits_value a (s @ t) = Option.bind (digits_value a s) (\<lambda>b. digits_value b t)"
  by (induction a s rule: digits_value.induct) auto

lemma digits_value_nat_text: "digits_value 0 (nat_text n) = Some n"
proof (induction n rule: nat_text.induct)
  case (1 n)
  show ?case
  proof (cases "n < 10")
    case True
    with digit_unit [of n] show ?thesis by (subst nat_text.simps) simp
  next
    case False
    with 1 digit_unit [of "n mod 10"] show ?thesis
      by (subst nat_text.simps) (simp add: digits_value_append)
  qed
qed

lemma nat_text_digits: "u \<in> set (nat_text n) \<Longrightarrow> 48 \<le> u \<and> u \<le> 57"
proof (induction n rule: nat_text.induct)
  case (1 n)
  have t: "nat_text n = (if n < 10 then [of_nat (48 + n)]
      else nat_text (n div 10) @ [of_nat (48 + n mod 10)])" by (rule nat_text.simps)
  show ?case
  proof (cases "n < 10")
    case True
    with 1(2) t digit_unit [of n] show ?thesis by simp
  next
    case False
    with 1 t digit_unit [of "n mod 10"] show ?thesis by auto
  qed
qed

lemma digit_not_ws: "48 \<le> u \<Longrightarrow> u \<le> 57 \<Longrightarrow> \<not> is_ws (u :: code_unit)"
  unfolding is_ws_def ws_units_def by (auto simp: word_le_nat_alt)

lemma trim_no_ws: "(\<And>u. u \<in> set s \<Longrightarrow> \<not> is_ws u) \<Longrightarrow> trim s = s"
proof -
  assume a: "\<And>u. u \<in> set s \<Longrightarrow> \<not> is_ws u"
  have "dropWhile is_ws s = s" using a by (cases s) auto
  moreover have "dropWhile is_ws (rev s) = rev s" using a by (cases "rev s") (auto simp: rev_eq_Cons_iff)
  ultimately show ?thesis by (simp add: trim_def)
qed

lemma number_of_nat_text:
  assumes "n < 2 ^ 53"
  shows "number_of (nat_text n) = Some (int n)"
proof -
  have t: "trim (nat_text n) = nat_text n"
    using nat_text_digits digit_not_ws by (intro trim_no_ws) blast
  have "hd (nat_text n) \<in> set (nat_text n)" by simp
  then have "48 \<le> hd (nat_text n)" using nat_text_digits by blast
  then have h: "hd (nat_text n) \<noteq> 45" "hd (nat_text n) \<noteq> 43" by (auto simp: word_le_nat_alt)
  have "n < 2 ^ 1024" using assms by (rule less_le_trans) (rule power_increasing, simp_all)
  then show ?thesis
    using t h assms by (simp add: number_of_def digits_value_nat_text finite_double_def round_double_small Let_def)
qed

text \<open>Above 2^53 two different counts can read as one number.\<close>

lemma bit_len_num [simp]:
  "bit_len 0 = 0" "bit_len 1 = 1" "bit_len (Suc 0) = 1"
  "bit_len (numeral (Num.Bit0 b)) = bit_len (numeral b) + 1"
  "bit_len (numeral (Num.Bit1 b)) = bit_len (numeral b) + 1"
proof -
  show "bit_len 0 = 0" by (simp add: bit_len.simps)
  then show "bit_len 1 = 1" "bit_len (Suc 0) = 1" by (simp_all add: bit_len.simps [of 1] bit_len.simps [of "Suc 0"])
  show "bit_len (numeral (Num.Bit0 b)) = bit_len (numeral b) + 1"
    "bit_len (numeral (Num.Bit1 b)) = bit_len (numeral b) + 1"
    by (subst bit_len.simps, simp)+
qed

lemma round_double_ties: "round_double 9007199254740993 = 9007199254740992"
  by (simp add: round_double_def Let_def)

section \<open>\<open>parseInt(s, 16)\<close>\<close>

text \<open>\<open>None\<close> is \<open>NaN\<close>: no digit after optional white space, sign and \<open>0x\<close>.\<close>

fun hex_value :: "nat \<Rightarrow> jstr \<Rightarrow> nat" where
  "hex_value a [] = a"
| "hex_value a (u # s) = hex_value (16 * a + nullish (hex_digit u) 0) s"

definition parse_int16 :: "jstr \<Rightarrow> int option" where
  "parse_int16 s =
     (let t = dropWhile is_ws s;
          neg = (take 1 t = [45]);
          u = (if take 1 t = [45] \<or> take 1 t = [43] then drop 1 t else t);
          v = (if take 2 u = [48, 120] \<or> take 2 u = [48, 88] then drop 2 u else u);
          ds = takeWhile (\<lambda>c. hex_digit c \<noteq> None) v
      in if ds = [] then None
         else Some ((if neg then - 1 else 1) * int (hex_value 0 ds)))"

section \<open>Remainder and 32-bit integers\<close>

text \<open>
  \<open>%\<close> on doubles takes the sign of the dividend; time and coordinates are exact rationals in
  place of doubles. \<open>x >>> 0\<close> is the word of an integer.
\<close>

definition js_fmod :: "rat \<Rightarrow> rat \<Rightarrow> rat" where
  "js_fmod a b =
     (if a < 0 then - (- a - b * of_int \<lfloor>- a / b\<rfloor>) else a - b * of_int \<lfloor>a / b\<rfloor>)"

type_synonym uint32 = "32 word"

definition to_uint32 :: "int \<Rightarrow> uint32" where
  "to_uint32 i = word_of_int i"

definition js_xor :: "int \<Rightarrow> int \<Rightarrow> int" where
  "js_xor a b = sint (xor (to_uint32 a) (to_uint32 b))"

lemma js_fmod_range:
  assumes "0 \<le> a" "0 < b"
  shows "0 \<le> js_fmod a b" "js_fmod a b < b"
proof -
  have "of_int \<lfloor>a / b\<rfloor> \<le> a / b" "a / b < of_int \<lfloor>a / b\<rfloor> + 1" by linarith+
  with assms(2) have "of_int \<lfloor>a / b\<rfloor> * b \<le> a" "a < (of_int \<lfloor>a / b\<rfloor> + 1) * b"
    by (simp_all only: pos_le_divide_eq pos_divide_less_eq)
  with assms(1) show "0 \<le> js_fmod a b" "js_fmod a b < b"
    by (simp_all add: js_fmod_def algebra_simps)
qed

lemma js_fmod_add: "0 \<le> a \<Longrightarrow> 0 < b \<Longrightarrow> js_fmod (a + b) b = js_fmod a b"
  by (simp add: js_fmod_def add_divide_distrib algebra_simps)

end
