(* ===== verification/Analytics.thy ===== *)
theory Analytics
  imports Auth Ui Numbers
begin

text \<open>
  The two pages of figures: \<open>src/pages/dashboard/Overview.tsx\<close> and
  \<open>src/pages/dashboard/Analytics.tsx\<close>. Figures arrive as decimal text and are read by
  \<open>Number\<close> (theory \<open>Numbers\<close>). \<open>fmt\<close> is \<open>toLocaleString\<close>
  and \<open>day\<close> the local text of a date, \<open>None\<close> when the date is invalid; both depend on the
  user's locale and are parameters. A chart is a leaf that holds the series it is given.
\<close>

section \<open>The figures\<close>

definition active_grants :: "v1GetOverviewResponse option \<Rightarrow> int" where
  "active_grants d = max 0 (round_int
     (num (Option.bind d ov_total_grants) - num (Option.bind d ov_revoked_grants)))"

lemma active_grants_nonneg: "0 \<le> active_grants d"
  by (simp add: active_grants_def)

definition SURFACE_LABELS :: "jstr \<Rightarrow> jstr option" where
  "SURFACE_LABELS s =
     (if s = js ''browser'' then Some (js ''Browser'')
      else if s = js ''sandbox'' then Some (js ''Sandbox'')
      else if s = js ''desktop'' then Some (js ''Desktop'')
      else if s = js ''unspecified'' then Some (js ''Unspecified'')
      else None)"

definition surfaceLabel :: "jstr \<Rightarrow> jstr" where
  "surfaceLabel s = nullish (SURFACE_LABELS s)
     (if s \<noteq> [] then to_upper [hd s] @ tl s else js ''Unknown'')"

definition shortDate :: "(jstr \<Rightarrow> jstr option) \<Rightarrow> jstr \<Rightarrow> jstr" where
  "shortDate day date = nullish (day (date @ js ''T00:00:00'')) date"

definition timeSeries :: "(jstr \<Rightarrow> jstr option) \<Rightarrow> v1GetOverviewResponse option \<Rightarrow> (jstr \<times> int) list" where
  "timeSeries day d = map (\<lambda>x. (shortDate day (nullish (dc_date x) []), num (dc_count x)))
     (nullish (Option.bind d ov_over_time) [])"

definition surfaceSeries :: "v1GetOverviewResponse option \<Rightarrow> (jstr \<times> int) list" where
  "surfaceSeries d = map (\<lambda>x. (surfaceLabel (nullish (su_surface x) []), num (su_count x)))
     (nullish (Option.bind d ov_by_surface) [])"

definition has_counts :: "('a \<times> int) list \<Rightarrow> bool" where
  "has_counts xs \<longleftrightarrow> list_ex (\<lambda>x. snd x > 0) xs"

definition topLinks :: "v1GetOverviewResponse option \<Rightarrow> (jstr \<times> int) list" where
  "topLinks d = map (\<lambda>l. (nullish (tl_url l) [], num (tl_count l)))
     (nullish (Option.bind d ov_top_links) [])"

definition STATIC_EXTENSIONS :: "string list" where
  "STATIC_EXTENSIONS = [''png'', ''jpg'', ''jpeg'', ''gif'', ''svg'', ''css'', ''js'', ''ico'',
     ''woff'', ''woff2'', ''ttf'', ''pdf'', ''mp4'', ''webm'', ''ogg'']"

text \<open>The pattern is anchored at the end and ignores case.\<close>

definition isStatic :: "jstr \<Rightarrow> bool" where
  "isStatic url \<longleftrightarrow> list_ex (\<lambda>x. suffix (46 # js x) (to_lower url)) STATIC_EXTENSIONS"

definition linksOnly :: "v1GetOverviewResponse option \<Rightarrow> (jstr \<times> int) list" where
  "linksOnly d = filter (\<lambda>l. \<not> isStatic (fst l)) (topLinks d)"

definition staticsOnly :: "v1GetOverviewResponse option \<Rightarrow> (jstr \<times> int) list" where
  "staticsOnly d = filter (\<lambda>l. isStatic (fst l)) (topLinks d)"

text \<open>
  The quotient of two doubles is at least one half exactly when twice the dividend reaches the
  divisor: the quotients below one half round to doubles below one half.
\<close>

definition surface_note :: "v1GetOverviewResponse option \<Rightarrow> jstr list" where
  "surface_note d = (let series = surfaceSeries d in
     if \<not> has_counts series then []
     else (let lead = hd (sort_key (\<lambda>x. - snd x) series);
               total = foldl (\<lambda>a b. round_int (a + snd b)) 0 series in
       if total > 0 \<and> total \<le> 2 * snd lead
       then [js ''Most activity is on the '' @ to_lower (fst lead) @ js '' surface.''] else []))"

definition grants_note :: "(int \<Rightarrow> jstr) \<Rightarrow> v1GetOverviewResponse option \<Rightarrow> jstr list" where
  "grants_note fmt d =
     (if num (Option.bind d ov_total_grants) > 0
      then [fmt (active_grants d) @ js '' active grant'' @
              (if active_grants d = 1 then [] else js ''s'') @ js '', '' @
              fmt (num (Option.bind d ov_revoked_grants)) @ js '' revoked.'']
      else [])"

definition number_notes :: "(int \<Rightarrow> jstr) \<Rightarrow> v1GetOverviewResponse option \<Rightarrow> jstr list" where
  "number_notes fmt d = surface_note d @ grants_note fmt d"

text \<open>The surface named in the note has the most activity, at least half of it.\<close>

lemma sort_key_hd_min:
  fixes f :: "'a \<Rightarrow> 'b::linorder"
  assumes "x \<in> set xs"
  shows "f (hd (sort_key f xs)) \<le> f x" "hd (sort_key f xs) \<in> set xs"
proof -
  have ne: "sort_key f xs \<noteq> []" using assms by (metis empty_iff empty_set set_sort)
  then obtain y ys where c: "sort_key f xs = y # ys" by (cases "sort_key f xs") auto
  have "x \<in> set (y # ys)" using assms c by (metis set_sort)
  moreover have "sorted (map f (y # ys))" using c by (metis sorted_sort_key)
  ultimately show "f (hd (sort_key f xs)) \<le> f x" by (auto simp: c)
  show "hd (sort_key f xs) \<in> set xs" using ne by (metis hd_in_set set_sort)
qed

lemma surface_note_top:
  assumes "t \<in> set (surface_note d)"
  shows "\<exists>l c. (l, c) \<in> set (surfaceSeries d) \<and> (\<forall>x\<in>set (surfaceSeries d). snd x \<le> c) \<and> 0 < c
    \<and> t = js ''Most activity is on the '' @ to_lower l @ js '' surface.''"
proof -
  let ?s = "surfaceSeries d" and ?f = "\<lambda>x::jstr \<times> int. - snd x"
  define lead where "lead = hd (sort_key ?f ?s)"
  from assms have h: "has_counts ?s" and t: "t = js ''Most activity is on the '' @ to_lower (fst lead) @ js '' surface.''"
    by (auto simp: surface_note_def Let_def lead_def split: if_splits)
  from h obtain x where x: "x \<in> set ?s" "snd x > 0" by (auto simp: has_counts_def list_ex_iff)
  have lead: "lead \<in> set ?s" "y \<in> set ?s \<Longrightarrow> snd y \<le> snd lead" for y
    using sort_key_hd_min [of y ?s ?f] sort_key_hd_min [OF x(1), of ?f] by (auto simp: lead_def)
  with x have "0 < snd lead" by (metis less_le_trans)
  with lead t show ?thesis by (metis prod.collapse)
qed

text \<open>Every link is listed by exactly one of the two panels, in the order received.\<close>

lemma links_partition:
  "length (linksOnly d) + length (staticsOnly d) = length (topLinks d)"
  "set (linksOnly d) \<inter> set (staticsOnly d) = {}"
  using sum_length_filter_compl [of "\<lambda>l. isStatic (fst l)" "topLinks d"]
  by (auto simp: linksOnly_def staticsOnly_def)

section \<open>The analytics page\<close>

text \<open>
  One request is active at a time: a change of the session flags deactivates the one in flight
  and starts another when there is a session.
\<close>

record analytics =
  ay_authed :: bool
  ay_authLoading :: bool
  ay_data :: "v1GetOverviewResponse option"
  ay_loading :: bool
  ay_error :: "jstr option"
  ay_pending :: "bool list"
  ay_requests :: "api_request list"

definition ay_effect :: "analytics \<Rightarrow> analytics" where
  "ay_effect s =
     (if ay_authLoading s \<or> \<not> ay_authed s then s
      else s\<lparr>ay_loading := True, ay_pending := ay_pending s @ [True],
             ay_requests := ay_requests s @ [GetOverview 14]\<rparr>)"

definition ay_mount :: "bool \<Rightarrow> bool \<Rightarrow> analytics" where
  "ay_mount authed authLoading = ay_effect \<lparr>ay_authed = authed, ay_authLoading = authLoading,
     ay_data = None, ay_loading = True, ay_error = None, ay_pending = [], ay_requests = []\<rparr>"

definition ay_settled :: "bool \<Rightarrow> v1GetOverviewResponse reply \<Rightarrow> analytics \<Rightarrow> analytics" where
  "ay_settled active r s = (case r of
     Rejected e \<Rightarrow> s
   | Resolved data err \<Rightarrow>
       if \<not> active then s
       else if js_truthy err
       then s\<lparr>ay_error := Some (js ''Analytics is unavailable right now.''), ay_loading := False\<rparr>
       else s\<lparr>ay_data := data, ay_loading := False\<rparr>)"

datatype analytics_event =
    AySession bool bool
  | AyReply nat "v1GetOverviewResponse reply"

fun ay_step :: "analytics \<Rightarrow> analytics_event \<Rightarrow> analytics" where
  "ay_step s (AySession authed authLoading) =
     (if (authed, authLoading) = (ay_authed s, ay_authLoading s) then s
      else ay_effect (s\<lparr>ay_authed := authed, ay_authLoading := authLoading,
             ay_pending := map (\<lambda>w. False) (ay_pending s)\<rparr>))"
| "ay_step s (AyReply i r) =
     (if i < length (ay_pending s)
      then ay_settled (ay_pending s ! i) r (s\<lparr>ay_pending := remove_nth i (ay_pending s)\<rparr>)
      else s)"

definition chart :: "string \<Rightarrow> (jstr \<times> int) list \<Rightarrow> 'e node" where
  "chart kind series = El kind []
     (map (\<lambda>x. El ''datum'' [Attr ''label'' (fst x), Attr ''value'' (int_text (snd x))] []) series)"

definition empty_chart :: "'e node" where
  "empty_chart = El ''div'' [] [El ''span'' [] [tx ''-'']]"

definition panel :: "string \<Rightarrow> string \<Rightarrow> string \<Rightarrow> 'e node \<Rightarrow> 'e node" where
  "panel title subtitle ic child = card None None []
     [El ''div'' []
       [El ''div'' [] [El ''h3'' [] [tx title], El ''p'' [] [tx subtitle]],
        El ''span'' [] [icon ic]],
      child]"

definition legend_row :: "(int \<Rightarrow> jstr) \<Rightarrow> string \<Rightarrow> string \<Rightarrow> int \<Rightarrow> 'e node" where
  "legend_row fmt color label n = El ''div'' []
     [El ''span'' [Attr ''backgroundColor'' (js color)] [],
      El ''span'' [] [tx label], El ''span'' [] [Text (fmt n)]]"

definition link_list :: "(int \<Rightarrow> jstr) \<Rightarrow> (jstr \<times> int) list \<Rightarrow> 'e node" where
  "link_list fmt ls = El ''ul'' []
     (map (\<lambda>l. El ''li'' [] [El ''span'' [] [Text (fst l)], El ''span'' [] [Text (fmt (snd l))]])
       (take 10 ls))"

text \<open>The chart library hands the tooltip the point under the pointer.\<close>

record tooltip_item =
  ti_color :: "jstr option"
  ti_fill :: "jstr option"
  ti_name :: "jstr option"
  ti_value :: "jstr option"

definition chart_tooltip ::
  "(int \<Rightarrow> jstr) \<Rightarrow> bool \<Rightarrow> tooltip_item list \<Rightarrow> jstr option \<Rightarrow> jstr option \<Rightarrow> 'e node list" where
  "chart_tooltip fmt active payload label unit_text = (case payload of
     [] \<Rightarrow> []
   | p # ps \<Rightarrow>
       if \<not> active then []
       else [El ''div'' []
         (if_some label (\<lambda>t. [El ''div'' [] [Text t]])
          @ [El ''div'' []
              [El ''span'' [Attr ''backgroundColor''
                 (or_str (or_opt (ti_color p) (ti_fill p)) (js ''var(--brand-accent)''))] [],
               El ''span'' [] [Text (case ti_name p of Some n \<Rightarrow> n | None \<Rightarrow> nullish unit_text (js ''count''))],
               El ''span'' [] [Text (fmt (num (ti_value p)))]]])])"

definition delegation_health :: "(int \<Rightarrow> jstr) \<Rightarrow> v1GetOverviewResponse option \<Rightarrow> 'e node" where
  "delegation_health fmt d =
     (let active = active_grants d; revoked = num (Option.bind d ov_revoked_grants) in
      El ''div'' []
       [chart ''PieChart'' [(js ''Active'', active), (js ''Revoked'', revoked)],
        El ''div'' []
         [legend_row fmt ''var(--brand-accent)'' ''Active'' active,
          legend_row fmt ''var(--color-failed)'' ''Revoked'' revoked,
          El ''div'' [] [El ''span'' [] [Text (fmt (num (Option.bind d ov_total_grants)))],
            tx '' '', tx ''total'']]])"

definition ay_metrics :: "(int \<Rightarrow> jstr) \<Rightarrow> analytics \<Rightarrow> 'e node" where
  "ay_metrics fmt s = (let d = ay_data s;
       shown = (\<lambda>x. if ay_loading s then js ''...'' else fmt x) in
     El ''div'' []
      [metric_card (js ''Total events'') (shown (num (Option.bind d ov_total_events))) None None
         [icon ''IconActivity''],
       metric_card (js ''Sessions'') (shown (num (Option.bind d ov_total_sessions))) None None
         [icon ''IconLayers''],
       metric_card (js ''Active grants'') (shown (active_grants d)) None None
         [icon ''IconGitBranch''],
       metric_card (js ''Revoked grants'') (shown (num (Option.bind d ov_revoked_grants))) None None
         [icon ''IconShieldCheck'']])"

definition notes_card :: "(int \<Rightarrow> jstr) \<Rightarrow> v1GetOverviewResponse option \<Rightarrow> 'e node" where
  "notes_card fmt d = card None None []
     [El ''div'' []
       [El ''span'' [] [icon ''IconActivity''],
        El ''div'' []
         [El ''h3'' [] [tx ''What the numbers say''],
          El ''ul'' [] (map (\<lambda>n. El ''li'' [] [Text n]) (number_notes fmt d))]]]"

definition ay_panels ::
  "(int \<Rightarrow> jstr) \<Rightarrow> (jstr \<Rightarrow> jstr option) \<Rightarrow> analytics \<Rightarrow> 'e node list" where
  "ay_panels fmt day s = (let d = ay_data s;
       unless = (\<lambda>has t. if ay_loading s \<or> \<not> has then empty_chart else t) in
     [ay_metrics fmt s,
      panel ''Actions notarized over time'' ''Notarized action events per day'' ''IconActivity''
        (unless (has_counts (timeSeries day d)) (chart ''AreaChart'' (timeSeries day d))),
      El ''div'' []
       [panel ''By surface'' ''Where agents acted'' ''IconLayers''
          (unless (has_counts (surfaceSeries d)) (chart ''BarChart'' (surfaceSeries d))),
        panel ''Delegation health'' ''Active versus revoked grants'' ''IconGitBranch''
          (unless (num (Option.bind d ov_total_grants) > 0) (delegation_health fmt d))],
      El ''div'' []
       [panel ''Top links'' ''Most recorded URLs and pages'' ''IconActivity''
          (unless (linksOnly d \<noteq> []) (link_list fmt (linksOnly d))),
        panel ''Top statics'' ''Most accessed images, styles and assets'' ''IconMonitor''
          (unless (staticsOnly d \<noteq> []) (link_list fmt (staticsOnly d)))],
      notes_card fmt d])"

definition ay_view ::
  "(int \<Rightarrow> jstr) \<Rightarrow> (jstr \<Rightarrow> jstr option) \<Rightarrow> analytics \<Rightarrow> 'e node list" where
  "ay_view fmt day s =
     (if ay_authLoading s \<or> \<not> ay_authed s then []
      else [El ''div'' []
        ([page_header (js ''Analytics'')
           (Some (js ''Activity across your notarized actions, delegations, and verifications.'')) None [],
          El ''div'' []
           [El ''span'' [] [icon ''IconAlertCircle''],
            El ''span'' [] [tx ''These figures come straight from the ledger. babit never shows numbers it cannot derive from real data.'']]]
         @ (if truthy (ay_error s)
            then [card None None []
              [empty_state [icon ''IconActivity''] (js ''Analytics unavailable'') (ay_error s) []]]
            else ay_panels fmt day s))])"

text \<open>At most one request is active, and there is one only while the page is loading.\<close>

definition ay_inv :: "analytics \<Rightarrow> bool" where
  "ay_inv s \<longleftrightarrow>
     length (filter id (ay_pending s)) \<le> 1
     \<and> (True \<in> set (ay_pending s) \<longrightarrow> ay_loading s \<and> ay_authed s \<and> \<not> ay_authLoading s)
     \<and> (\<forall>q\<in>set (ay_requests s). q = GetOverview 14)"

lemma ay_inv_effect:
  "True \<notin> set (ay_pending s) \<Longrightarrow> \<forall>q\<in>set (ay_requests s). q = GetOverview 14 \<Longrightarrow> ay_inv (ay_effect s)"
proof -
  assume a: "True \<notin> set (ay_pending s)" "\<forall>q\<in>set (ay_requests s). q = GetOverview 14"
  then have "filter id (ay_pending s) = []" by (auto simp: filter_empty_conv)
  with a show ?thesis by (simp add: ay_inv_def ay_effect_def)
qed

lemma ay_inv_mount: "ay_inv (ay_mount a l)"
  by (simp add: ay_mount_def ay_inv_effect)

lemma active_removed:
  assumes "i < length ws" "ws ! i" "length (filter id ws) \<le> 1"
  shows "True \<notin> set (remove_nth i ws)"
proof -
  have "filter id (remove_nth i ws) = []" using assms by (intro filter_remove_nth) auto
  then show ?thesis by (auto simp: filter_empty_conv)
qed

lemma ay_inv_step: "ay_inv s \<Longrightarrow> ay_inv (ay_step s e)"
proof (cases e)
  case (AySession a l)
  assume "ay_inv s"
  then have "\<forall>q\<in>set (ay_requests s). q = GetOverview 14" by (simp add: ay_inv_def)
  then have "ay_inv (ay_effect (s\<lparr>ay_authed := a, ay_authLoading := l,
      ay_pending := map (\<lambda>w. False) (ay_pending s)\<rparr>))" by (intro ay_inv_effect) auto
  with AySession \<open>ay_inv s\<close> show ?thesis by simp
next
  case (AyReply i r)
  assume inv: "ay_inv s"
  have le: "length (filter id (remove_nth i (ay_pending s))) \<le> 1"
    using inv filter_remove_nth_le [of id i "ay_pending s"] by (simp add: ay_inv_def)
  have sub: "True \<in> set (remove_nth i (ay_pending s)) \<Longrightarrow> True \<in> set (ay_pending s)"
    by (rule in_remove_nthD)
  consider "\<not> i < length (ay_pending s)" | "i < length (ay_pending s)" "\<not> ay_pending s ! i"
    | "i < length (ay_pending s)" "ay_pending s ! i" by blast
  then show ?thesis
  proof cases
    case 3
    then have "True \<notin> set (remove_nth i (ay_pending s))"
      using inv by (intro active_removed) (simp_all add: ay_inv_def)
    with 3 AyReply inv le show ?thesis by (simp add: ay_inv_def ay_settled_def split: reply.split)
  qed (use AyReply inv le sub in \<open>simp_all add: ay_inv_def ay_settled_def split: reply.split\<close>)
qed

interpretation ays: machine "ay_mount a l" ay_step ay_inv for a l
  by unfold_locales (simp_all add: ay_inv_mount ay_inv_step del: ay_step.simps)

text \<open>The active reply fills the page; a failed one hides every figure.\<close>

lemma analytics_answer:
  assumes "ay_mount True False = s"
  shows "ay_step s (AyReply 0 (Resolved d err)) =
    (if js_truthy err then s\<lparr>ay_pending := [], ay_loading := False, ay_error := Some (js ''Analytics is unavailable right now.'')\<rparr>
     else s\<lparr>ay_pending := [], ay_loading := False, ay_data := d\<rparr>)"
  using assms by (auto simp: ay_mount_def ay_effect_def ay_settled_def)

text \<open>The error is never cleared: no later answer brings the figures back.\<close>

lemma analytics_error_sticks:
  "truthy (ay_error s) \<Longrightarrow> truthy (ay_error (run ay_step s es))"
proof (induction es arbitrary: s)
  case (Cons e es)
  have "truthy (ay_error (ay_step s e))"
    using Cons.prems by (cases e) (auto simp: ay_effect_def ay_settled_def js_def split: reply.splits)
  with Cons.IH show ?case by simp
qed simp

text \<open>A rejected request leaves the page loading.\<close>

lemma analytics_rejected:
  "ay_loading (ay_step (ay_mount True False) (AyReply 0 (Rejected x)))"
  by (simp add: ay_mount_def ay_effect_def ay_settled_def)

section \<open>What the figures say\<close>

text \<open>The note under the numbers names a surface that leads: it is absent, or it is one sentence
  naming a surface whose count is positive and not exceeded by any other surface's.
\<close>
theorem surface_note_names_leader:
  "surface_note d = []
   \<or> (\<exists>l c. (l, c) \<in> set (surfaceSeries d) \<and> list_all (\<lambda>x. snd x \<le> c) (surfaceSeries d) \<and> 0 < c
        \<and> surface_note d = [js ''Most activity is on the '' @ to_lower l @ js '' surface.''])"
proof (cases "surface_note d")
  case (Cons t ts)
  then have "ts = []" by (auto simp: surface_note_def Let_def split: if_splits)
  with Cons surface_note_top [of t d] show ?thesis by (auto simp: list_all_iff)
qed simp

text \<open>The counts of the API, 64-bit integers sent as decimal text, are read exactly as long as they
  are below 2^53.
\<close>
theorem counts_exact:
  assumes "n < 2 ^ 53"
  shows "num (Some (nat_text n)) = int n"
  using number_of_nat_text [OF assms] by (simp add: num_def)

theorem counts_exact_witness: "num (Some (nat_text 1234567)) = 1234567"
  using counts_exact [of 1234567] by simp

end
