(* ===== verification/Console.thy ===== *)
theory Console
  imports JsonRound Verify Receipts Settings Replay Pages App AuthPages Analytics
begin

text \<open>
  Behaviour that spans components: a receipt downloaded from the receipts page and dropped on
  the verification screen; the settings page under the screen choice of \<open>App.tsx\<close>; a replay
  event inside the error boundary of \<open>src/main.tsx\<close>; the way from the sign-in page into the
  console.
\<close>

section \<open>A proof is JSON data\<close>

lemma nat_text_head: "\<exists>u r. nat_text n = u # r \<and> (u = 48 \<longrightarrow> n = 0 \<and> r = [])"
proof (induction n rule: nat_text.induct)
  case (1 n)
  have t: "nat_text n = (if n < 10 then [of_nat (48 + n)]
      else nat_text (n div 10) @ [of_nat (48 + n mod 10)])" by (rule nat_text.simps)
  show ?case
  proof (cases "n < 10")
    case True
    then have "(of_nat (48 + n) :: code_unit) = of_nat (48 + 0) \<longleftrightarrow> n = 0"
      by (intro digit_unit_inject) auto
    with True t show ?thesis by simp
  next
    case False
    then obtain u r where "nat_text (n div 10) = u # r" "u = 48 \<longrightarrow> n div 10 = 0 \<and> r = []"
      using 1 by blast
    with False t show ?thesis by auto
  qed
qed

lemma nat_text_number: "valid_num (nat_text n)" "list_all num_unit (nat_text n)"
proof -
  have d: "list_all is_digit (nat_text n)"
    using nat_text_digits by (auto simp: list_all_iff is_digit_def)
  then show "list_all num_unit (nat_text n)" by (auto simp: list_all_iff num_unit_def)
  obtain u r where ur: "nat_text n = u # r" "u = 48 \<longrightarrow> n = 0 \<and> r = []" using nat_text_head by blast
  with d have u: "is_digit u" and "dropWhile is_digit r = []"
    by (simp_all add: list_all_iff del: dropWhile_eq_Nil_conv) (simp add: dropWhile_eq_Nil_conv)
  then have "valid_frac (dropWhile is_digit r)" by (simp only: valid_frac_def list.case)
  moreover have "u \<noteq> 45" using u by (auto simp: is_digit_def)
  moreover have "valid_frac []" by (simp add: valid_frac_def)
  ultimately show "valid_num (nat_text n)"
    using ur u by (cases "u = 48") (simp_all add: valid_num_def Let_def)
qed

lemma int_text_number: "valid_num (int_text i)" "list_all num_unit (int_text i)"
proof -
  obtain u r where ur: "nat_text (nat (- i)) = u # r" using nat_text_head by blast
  have "u \<noteq> 45"
    using nat_text_digits [of u "nat (- i)"] ur by auto
  then have "valid_num (45 # nat_text (nat (- i)))"
    using nat_text_number(1) [of "nat (- i)"] ur by (simp add: valid_num_def Let_def)
  then show "valid_num (int_text i)" using nat_text_number(1) by (simp add: int_text_def)
  show "list_all num_unit (int_text i)"
    using nat_text_number(2) by (simp add: int_text_def num_unit_def)
qed

text \<open>
  A record prints as an object whose keys are a subsequence of the schema's keys: they are
  distinct, whatever fields are present.
\<close>

definition keys_within :: "(jstr \<times> jsval) list \<Rightarrow> string list \<Rightarrow> bool" where
  "keys_within fs ks \<longleftrightarrow> list_all (\<lambda>f. json_data (snd f)) fs \<and> subseq (map fst fs) (map js ks)"

lemma keys_within_Nil: "keys_within [] ks"
  by (simp add: keys_within_def)

lemma keys_within_opt:
  assumes "\<And>x. v = Some x \<Longrightarrow> json_data (f x)"
  shows "keys_within (opt_json k f v) [k]"
  using assms by (simp add: keys_within_def opt_json_def split: option.split)

lemma keys_within_append:
  assumes "keys_within fs ks" "\<And>x. v = Some x \<Longrightarrow> json_data (f x)"
  shows "keys_within (opt_json k f v @ fs) (k # ks)"
  using assms by (auto simp: keys_within_def opt_json_def split: option.split)

lemma subseq_distinct: "subseq xs ys \<Longrightarrow> distinct ys \<Longrightarrow> distinct xs"
  by (induction rule: list_emb.induct) (auto dest: list_emb_set)

lemma json_data_object: "keys_within fs ks \<Longrightarrow> distinct ks \<Longrightarrow> json_data (JObj fs)"
proof -
  assume "keys_within fs ks" "distinct ks"
  moreover then have "distinct (map js ks)" by (simp add: distinct_map inj_on_def)
  ultimately show ?thesis by (auto simp: keys_within_def dest: subseq_distinct)
qed

lemma json_data_strings: "json_data (JArr (map JStr ss))"
  by (simp add: list_all_iff)

lemma json_data_grant: "json_data (json_of_grant g)"
proof -
  have sc: "json_data (json_of_scope s)" for s
    unfolding json_of_scope_def
    by (rule json_data_object, (rule keys_within_append keys_within_opt)+)
       (auto simp: list_all_iff int_text_number int_text_number(2) [unfolded list_all_iff, rule_format])
  show ?thesis
    unfolding json_of_grant_def
    by (rule json_data_object, (rule keys_within_append keys_within_opt)+)
       (auto simp: list_all_iff sc)
qed

lemma json_data_event: "json_data (json_of_event e)"
  unfolding json_of_event_def
  by (rule json_data_object, (rule keys_within_append keys_within_opt)+) auto

lemma json_data_anchor: "json_data (json_of_anchor a)"
  unfolding json_of_anchor_def
  by (rule json_data_object, (rule keys_within_append keys_within_opt)+) auto

lemma json_data_proof: "json_data (json_of_proof p)"
  unfolding json_of_proof_def
  by (rule json_data_object, (rule keys_within_append keys_within_opt)+)
     (auto simp: list_all_iff json_data_event json_data_anchor json_data_grant)

section \<open>A downloaded receipt verifies\<close>

lemma proof_no_wrapper: "get_field (json_of_proof p) (js ''proof'') = JUndef"
proof -
  have "map_of (opt_json k f v @ fs) x = (if x = js k \<and> v \<noteq> None then map_option f v else map_of fs x)"
    for k and f :: "'a \<Rightarrow> jsval" and v fs x
    by (auto simp: opt_json_def split: option.splits)
  then show ?thesis
    by (simp add: get_field_def json_of_proof_def opt_json_def split: option.split)
qed

text \<open>C3. A receipt downloaded from the receipts page verifies as what it is: dropping the file the
  page wrote on the verification screen posts exactly the proof it was written from (the JSON text
  is read back without loss) and shows the file's name, in any state of the screen.\<close>
theorem downloaded_receipt_posts_proof:
  "let s' = run verify_step s [VfDrop (Some (fst (downloadJSON p))),
       VfFileLoaded (length (vf_reading s)) (snd (downloadJSON p))] in
     vf_requests s' = vf_requests s @ [VerifyProof (json_of_proof p)]
     \<and> vf_fileName s' = Some (fst (downloadJSON p)) \<and> vf_loading s' \<and> vf_error s' = None"
proof -
  have "json_parse (snd (downloadJSON p)) = Some (json_of_proof p)"
    by (simp add: downloadJSON_def parse_stringify_by json_data_proof)
  moreover obtain fs where "json_of_proof p = JObj fs" by (simp add: json_of_proof_def)
  ultimately have "verifyPasted (snd (downloadJSON p)) t =
      verifyProof (json_of_proof p) (t\<lparr>vf_error := None\<rparr>)" for t
    using proof_no_wrapper [of p] by (simp add: verifyPasted_def Let_def)
  then show ?thesis by (simp add: file_loaded_def verifyProof_def handleFile_def nth_append)
qed

section \<open>Saving the profile inside the console\<close>

text \<open>
  The settings page is mounted while \<open>App.tsx\<close> shows its tab. Its save calls the session
  provider's \<open>refreshMe\<close>, which makes the provider load; the splash screen then replaces the
  dashboard, and the page that comes back is a new instance. A page that is gone gets no event.
\<close>

record console =
  cs_auth :: auth
  cs_path :: jstr
  cs_settings :: "settings option"

datatype console_event =
    CsAuth auth_event
  | CsGo jstr
  | CsSettings settings_event

definition settings_shown :: "bool \<Rightarrow> console \<Rightarrow> bool" where
  "settings_shown splashDone c \<longleftrightarrow>
     app_render splashDone (au_loading (cs_auth c)) (cs_path c) = DashboardScreen (js ''settings'')"

text \<open>A render: mount, unmount, or hand a mounted page the provider's current values.\<close>

definition console_render :: "bool \<Rightarrow> console \<Rightarrow> console" where
  "console_render splashDone c =
     (let u = au_user (cs_auth c); b = au_branding (cs_auth c) in
      if \<not> settings_shown splashDone c then c\<lparr>cs_settings := None\<rparr>
      else (case cs_settings c of
              None \<Rightarrow> c\<lparr>cs_settings := Some (st_mount u b)\<rparr>
            | Some s \<Rightarrow> c\<lparr>cs_settings := Some (set_profile u b s)\<rparr>))"

text \<open>What the page awaited of the provider: a new call starts \<open>refreshMe\<close>.\<close>

definition console_settings :: "settings_event \<Rightarrow> console \<Rightarrow> console" where
  "console_settings e c = (case cs_settings c of
     None \<Rightarrow> c
   | Some s \<Rightarrow>
       (let s' = st_step s e; c' = c\<lparr>cs_settings := Some s'\<rparr> in
        if st_refreshes s < st_refreshes s'
        then c'\<lparr>cs_auth := auth_step (cs_auth c) RefreshMe\<rparr> else c'))"

fun console_step :: "bool \<Rightarrow> console \<Rightarrow> console_event \<Rightarrow> console" where
  "console_step d c (CsAuth e) = console_render d (c\<lparr>cs_auth := auth_step (cs_auth c) e\<rparr>)"
| "console_step d c (CsGo p) = console_render d (c\<lparr>cs_path := p\<rparr>)"
| "console_step d c (CsSettings e) = console_render d (console_settings e c)"

definition console_mount :: "bool \<Rightarrow> client \<Rightarrow> jstr \<Rightarrow> console" where
  "console_mount d cl p = console_render d \<lparr>cs_auth = auth_mount cl, cs_path = p, cs_settings = None\<rparr>"

text \<open>No page that is mounted waits for \<open>refreshMe\<close>, so none is ever marked saved.\<close>

definition unsaved :: "console \<Rightarrow> bool" where
  "unsaved c \<longleftrightarrow> (\<forall>s. cs_settings c = Some s \<longrightarrow> \<not> st_saved s \<and> StRefresh \<notin> set (st_pending s))"

lemma splash_while_loading:
  assumes "app_render d True p = DashboardScreen t"
  shows False
  using assms by (simp add: app_render_def Let_def split: if_splits)

lemma settings_hidden_loading: "au_loading (cs_auth c) \<Longrightarrow> \<not> settings_shown d c"
  using splash_while_loading by (auto simp: settings_shown_def)

lemma unsaved_profile:
  "st_saved (set_profile u b s) = st_saved s" "st_pending (set_profile u b s) = st_pending s"
  by (simp_all add: set_profile_def prefill_def Let_def)

lemma unsaved_render: "unsaved c \<Longrightarrow> unsaved (console_render d c)"
  by (auto simp: unsaved_def console_render_def Let_def unsaved_profile st_mount_def prefill_def
      split: option.splits)

text \<open>A step of the page either calls \<open>refreshMe\<close> or keeps the two facts.\<close>

lemma key_effect_unsaved:
  "st_saved (load_key_effect (cancel_key s)) = st_saved s"
  "StRefresh \<in> set (st_pending (load_key_effect (cancel_key s))) \<Longrightarrow> StRefresh \<in> set (st_pending s)"
proof -
  have c: "StRefresh = cancelled w \<longleftrightarrow> w = StRefresh" for w by (cases w) auto
  show "st_saved (load_key_effect (cancel_key s)) = st_saved s"
    "StRefresh \<in> set (st_pending (load_key_effect (cancel_key s))) \<Longrightarrow> StRefresh \<in> set (st_pending s)"
    by (auto simp: load_key_effect_def cancel_key_def c split: if_splits)
qed

lemma settings_step_unsaved:
  assumes "\<not> st_saved s" "StRefresh \<notin> set (st_pending s)" "\<not> st_refreshes s < st_refreshes (st_step s e)"
  shows "\<not> st_saved (st_step s e) \<and> StRefresh \<notin> set (st_pending (st_step s e))"
proof (cases e)
  case (StSection x)
  with assms show ?thesis
    using key_effect_unsaved [of "s\<lparr>st_section := x\<rparr>"] by (auto simp: setSection_def)
next
  case (StProfile u b)
  with assms show ?thesis by (simp add: unsaved_profile)
next
  case (StSaveReply i r)
  with assms show ?thesis
    using in_remove_nthD [of StRefresh i "st_pending s"]
    by (auto simp: save_settled_def split: reply.splits if_splits)
next
  case (StRefreshed i)
  with assms show ?thesis by (auto simp: in_set_conv_nth)
next
  case (StKeyReply i r)
  have out: "StRefresh \<notin> set (remove_nth i (st_pending s))"
    using assms(2) in_remove_nthD by fastforce
  let ?s = "\<lambda>k p. s\<lparr>st_pending := remove_nth i (st_pending s), st_keyId := k, st_publicKey := p\<rparr>"
  have "\<not> st_saved (load_key_effect (cancel_key (?s k p)))
      \<and> StRefresh \<notin> set (st_pending (load_key_effect (cancel_key (?s k p))))" for k p
    using key_effect_unsaved [of "?s k p"] assms(1) out by auto
  with StKeyReply assms out show ?thesis
    by (auto simp: key_settled_def split: st_wait.split reply.split)
qed (use assms in \<open>simp_all add: save_def\<close>)

lemma unsaved_settings: "unsaved c \<Longrightarrow> unsaved (console_render d (console_settings e c))"
proof (cases "cs_settings c")
  case None
  assume "unsaved c"
  with None show ?thesis by (simp add: console_settings_def unsaved_render)
next
  case (Some s)
  assume u: "unsaved c"
  show ?thesis
  proof (cases "st_refreshes s < st_refreshes (st_step s e)")
    case True
    then have "au_loading (cs_auth (console_settings e c))"
      using Some by (simp add: console_settings_def Let_def refreshMe_def)
    then show ?thesis
      using settings_hidden_loading by (simp add: console_render_def unsaved_def)
  next
    case False
    with u Some settings_step_unsaved [of s e] have "unsaved (console_settings e c)"
      by (simp add: console_settings_def Let_def unsaved_def)
    then show ?thesis by (rule unsaved_render)
  qed
qed

lemma unsaved_updates [simp]:
  "unsaved (c\<lparr>cs_auth := a\<rparr>) = unsaved c" "unsaved (c\<lparr>cs_path := p\<rparr>) = unsaved c"
  by (simp_all add: unsaved_def)

lemma unsaved_step: "unsaved c \<Longrightarrow> unsaved (console_step d c e)"
  by (cases e) (simp_all add: unsaved_settings unsaved_render)

lemma unsaved_mount: "unsaved (console_mount d cl p)"
  unfolding console_mount_def by (rule unsaved_render) (simp add: unsaved_def)

interpretation csl: machine "console_mount d cl p" "console_step d" unsaved for d cl p
  by unfold_locales (simp_all add: unsaved_step unsaved_mount del: console_step.simps)

text \<open>C38. The confirmation of a saved profile is never seen: in no run of the console, with any session
  events, navigation and answers, does a mounted settings page carry the flag behind "Profile
  saved." (its save makes the session load, the splash screen replaces the dashboard, and the
  page that comes back is a new one).\<close>
theorem saved_never_shown:
  "case cs_settings (run (console_step d) (console_mount d cl p) es) of
     None \<Rightarrow> True | Some s \<Rightarrow> \<not> st_saved s"
  using csl.inv_run [of d cl p es] by (auto simp: unsaved_def split: option.split)

section \<open>A replay event inside the error boundary\<close>

text \<open>
  An event of the stream whose payload is the text \<open>null\<close> makes the render of the modal throw;
  the boundary then replaces whatever it wraps by its fallback, for good.
\<close>

definition null_payload_event :: jsval where
  "null_payload_event = JObj [(js ''event'', JObj [(js ''action_payload'', JStr (js ''bnVsbA==''))])]"

lemma null_payload_throws: "replay_event_view clock n null_payload_event = None"
  by (simp add: replay_event_view_def null_payload_event_def get_field_def str_field_def
      payload_null_throws)

text \<open>One malformed event takes the page down: when the stream brings an event whose payload
  decodes to the JSON text \<open>null\<close>, rendering the replay throws, the error boundary shows its
  fallback instead of the page, and goes on showing it whatever the page would render next.\<close>
theorem null_payload_fallback:
  assumes "null_payload_event \<in> set (ry_events s)"
  shows "let (b, page) = boundary_render None m (replay_view clock sid s) boundary_init in
     page = boundary_fallback m \<and> boundary_render None m (Some t) b = (b, boundary_fallback m)"
proof -
  have "replay_view clock sid s = None"
    using assms null_payload_throws by (rule replay_view_throws)
  then show ?thesis
    by (simp add: boundary_render_def boundary_init_def getDerivedStateFromError_def)
qed

theorem null_payload_fallback_witness:
  "let s = replay_mount\<lparr>ry_events := [null_payload_event]\<rparr>;
       (b, page) = boundary_render None None (replay_view (\<lambda>t. t) (js ''s1'') s) boundary_init in
     page = boundary_fallback None \<and> boundary_render None None (Some (Text [])) b = (b, boundary_fallback None)"
  unfolding Let_def by (rule null_payload_fallback [unfolded Let_def]) simp

section \<open>From the sign-in page into the console\<close>

text \<open>Signing in, end to end: submitting the form with a good answer and a profile leaves the
  address at the dashboard, shows the overview once loading ends, and the dashboard's guard lets
  it stay.\<close>
theorem login_opens_overview:
  assumes "lg_email s \<noteq> []" "lg_password s \<noteq> []" "lg_waiting s = 0"
    and "au_pending (lg_auth s) = []" "\<not> js_truthy err"
    and "lr_token d = Some tok" "tok \<noteq> []"
  shows "let s' = run login_step s [LgSubmit, LgAuth (SessionReply 0 (Resolved (Some d) err)),
             LgAuth (MeReply 0 (Resolved (Some u) err'))] in
     app_render splashDone (au_loading (lg_auth s')) (getPath (lg_router s')) = DashboardScreen (js ''overview'')
     \<and> useRequireAuth (lg_auth s') (lg_router s') = lg_router s'"
proof -
  let ?s = "run login_step s [LgSubmit, LgAuth (SessionReply 0 (Resolved (Some d) err)),
             LgAuth (MeReply 0 (Resolved (Some u) err'))]"
  have f: "isAuthenticated (lg_auth ?s)" "location (lg_router ?s) = js ''/dashboard''"
    using login_flow [OF assms] by (simp_all add: Let_def)
  have "getPath (lg_router ?s) = js ''/dashboard''"
    using f(2) by (simp add: getPath_def or_str_def)
  moreover have "app_render splashDone l (js ''/dashboard'') = DashboardScreen (js ''overview'')"
    if "\<not> l" for l using that by (cases splashDone) (simp_all, code_simp+)
  moreover have "\<not> au_loading (lg_auth ?s)" using login_flow [OF assms] by (simp add: Let_def)
  ultimately show ?thesis using f(1) by (simp add: Let_def useRequireAuth_def)
qed

theorem login_opens_overview_witness:
  "let s' = run login_step demo_login [LgSubmit,
         LgAuth (SessionReply 0 (Resolved (Some \<lparr>lr_token = Some (js ''t''), lr_user = None\<rparr>) JUndef)),
         LgAuth (MeReply 0 (Resolved (Some \<lparr>me_user = Some demo_user, me_branding = None\<rparr>) JUndef))] in
     app_render True (au_loading (lg_auth s')) (getPath (lg_router s')) = DashboardScreen (js ''overview'')"
  using login_opens_overview [of demo_login JUndef "\<lparr>lr_token = Some (js ''t''), lr_user = None\<rparr>"
      "js ''t''" "\<lparr>me_user = Some demo_user, me_branding = None\<rparr>" JUndef True]
  by (simp add: demo_login_filled js_def Let_def)

end
