(* ===== verification/Palette.thy ===== *)
theory Palette
  imports Router Ui
begin

text \<open>
  \<open>src/lib/CommandPalette.tsx\<close>: the command palette of the dashboard. Its state is what the
  effects and handlers keep: whether it is open, the query, the selected index (a JavaScript
  number, so an integer), the element focused on the page and the one to give the focus back
  to, the pending focus timer, and the router its commands navigate with. Element \<open>0\<close>
  stands for the palette's input.
\<close>

record command_item =
  ci_id :: string
  ci_category :: jstr
  ci_title :: jstr
  ci_subtitle :: "jstr option"
  ci_icon :: string
  ci_target :: jstr

definition nav_item :: "string \<Rightarrow> string \<Rightarrow> string \<Rightarrow> string \<Rightarrow> string \<Rightarrow> command_item" where
  "nav_item i title subtitle ic target = \<lparr>ci_id = i, ci_category = js ''Navigation'',
     ci_title = js title, ci_subtitle = Some (js subtitle), ci_icon = ic, ci_target = js target\<rparr>"

definition palette_items :: "command_item list" where
  "palette_items =
     [nav_item ''nav-overview'' ''Overview'' ''Workspace summary and notary key''
        ''IconActivity'' ''/dashboard/overview'',
      nav_item ''nav-activity'' ''Audit log'' ''Every recorded action, with cryptographic proof''
        ''IconFileText'' ''/dashboard/activity'',
      nav_item ''nav-agents'' ''Agents'' ''Autonomous subjects under delegated authority''
        ''IconCpu'' ''/dashboard/agents'',
      nav_item ''nav-delegations'' ''Delegations'' ''Issue, delegate, verify and revoke grants''
        ''IconGitBranch'' ''/dashboard/delegations'',
      nav_item ''nav-sessions'' ''Sessions'' ''Inspect a capture session's external anchor''
        ''IconLayers'' ''/dashboard/sessions'',
      nav_item ''nav-receipts'' ''Receipts'' ''Fetch a cryptographic inclusion proof by event ID''
        ''IconShieldCheck'' ''/dashboard/receipts'',
      nav_item ''nav-verify'' ''Verify Evidence'' ''Independent receipt and proof validator''
        ''IconShieldCheck'' ''/dashboard/verify'',
      nav_item ''nav-settings'' ''Settings'' ''Account profile, branding and notary key''
        ''IconSettings'' ''/dashboard/settings'']"

definition item_matches :: "jstr \<Rightarrow> command_item \<Rightarrow> bool" where
  "item_matches query i \<longleftrightarrow>
     js_includes (to_lower (ci_title i)) (to_lower query)
     \<or> (case ci_subtitle i of None \<Rightarrow> False
        | Some t \<Rightarrow> js_includes (to_lower t) (to_lower query))
     \<or> js_includes (to_lower (ci_category i)) (to_lower query)"

definition filtered_items :: "jstr \<Rightarrow> command_item list" where
  "filtered_items query = filter (item_matches query) palette_items"

record palette =
  pal_open :: bool
  pal_query :: jstr
  pal_selected :: int
  pal_active :: nat
  pal_previous :: "nat option"
  pal_timer :: bool
  pal_router :: router

definition palette_mount :: "nat \<Rightarrow> router \<Rightarrow> palette" where
  "palette_mount active r = \<lparr>pal_open = False, pal_query = [], pal_selected = 0,
     pal_active = active, pal_previous = None, pal_timer = False, pal_router = r\<rparr>"

text \<open>The effect on \<open>open\<close> runs when the parent changes it.\<close>

definition palette_opened :: "palette \<Rightarrow> palette" where
  "palette_opened s = (if pal_open s then s else
     s\<lparr>pal_open := True, pal_previous := Some (pal_active s), pal_query := [],
       pal_selected := 0, pal_timer := True\<rparr>)"

definition palette_closed :: "palette \<Rightarrow> palette" where
  "palette_closed s = (if \<not> pal_open s then s else
     s\<lparr>pal_open := False, pal_timer := False,
       pal_active := (case pal_previous s of None \<Rightarrow> pal_active s | Some p \<Rightarrow> p)\<rparr>)"

definition focus_input :: "palette \<Rightarrow> palette" where
  "focus_input s = (if pal_timer s then s\<lparr>pal_timer := False, pal_active := 0\<rparr> else s)"

definition item_action :: "command_item \<Rightarrow> palette \<Rightarrow> palette" where
  "item_action i s = palette_closed (s\<lparr>pal_router := navigate (ci_target i) (pal_router s)\<rparr>)"

definition active_id :: "palette \<Rightarrow> string option" where
  "active_id s = map_option ci_id (array_at (filtered_items (pal_query s)) (pal_selected s))"

definition handleKeyDownList :: "jstr \<Rightarrow> palette \<Rightarrow> palette" where
  "handleKeyDownList key s =
     (let filtered = filtered_items (pal_query s);
          n = int (length filtered);
          m = (if n = 0 then 1 else n) in
      if key = js ''ArrowDown'' then s\<lparr>pal_selected := js_rem (pal_selected s + 1) m\<rparr>
      else if key = js ''ArrowUp'' then s\<lparr>pal_selected := js_rem (pal_selected s - 1 + n) m\<rparr>
      else if key = js ''Enter'' then
        (case array_at filtered (pal_selected s) of None \<Rightarrow> s | Some i \<Rightarrow> item_action i s)
      else s)"

text \<open>The window's key handler: Escape closes, Tab is trapped; \<open>focusable\<close> is the dialog's.\<close>

definition palette_window_key :: "nat list \<Rightarrow> nat \<Rightarrow> string \<Rightarrow> bool \<Rightarrow> key_effect list" where
  "palette_window_key focusable active key shift =
     (if key = ''Escape'' then [PreventDefault, CallCancel] else [])
     @ (if key = ''Tab'' then
          (if focusable = [] then []
           else if shift \<and> active = hd focusable then [PreventDefault, FocusOn (last focusable)]
           else if \<not> shift \<and> active = last focusable then [PreventDefault, FocusOn (hd focusable)]
           else [])
        else [])"

definition palette_tab :: "nat list \<Rightarrow> nat \<Rightarrow> bool \<Rightarrow> nat option" where
  "palette_tab fs x sh = moved_focus (palette_window_key fs x ''Tab'' sh)"

fun apply_key_effect :: "palette \<Rightarrow> key_effect \<Rightarrow> palette" where
  "apply_key_effect s PreventDefault = s"
| "apply_key_effect s CallCancel = palette_closed s"
| "apply_key_effect s (FocusOn x) = s\<lparr>pal_active := x\<rparr>"

datatype palette_event =
    PalOpen
  | PalClose
  | PalTimer
  | PalQuery jstr
  | PalKey jstr
  | PalHover nat
  | PalChoose command_item
  | PalWindowKey "nat list" string bool

fun palette_step :: "palette \<Rightarrow> palette_event \<Rightarrow> palette" where
  "palette_step s PalOpen = palette_opened s"
| "palette_step s PalClose = palette_closed s"
| "palette_step s PalTimer = focus_input s"
| "palette_step s (PalQuery q) = s\<lparr>pal_query := q, pal_selected := 0\<rparr>"
| "palette_step s (PalKey k) = handleKeyDownList k s"
| "palette_step s (PalHover i) = s\<lparr>pal_selected := int i\<rparr>"
| "palette_step s (PalChoose i) = item_action i s"
| "palette_step s (PalWindowKey fs k sh) =
     (if pal_open s then foldl apply_key_effect s (palette_window_key fs (pal_active s) k sh) else s)"

fun palette_outside :: "palette_event \<Rightarrow> bool" where
  "palette_outside PalOpen = True"
| "palette_outside PalClose = True"
| "palette_outside PalTimer = True"
| "palette_outside (PalWindowKey fs k sh) = True"
| "palette_outside _ = False"

section \<open>The view\<close>

definition palette_row :: "palette \<Rightarrow> nat \<times> command_item \<Rightarrow> palette_event node" where
  "palette_row s ii = (let (idx, item) = ii; isSelected = (int idx = pal_selected s) in
     El ''button'' [Attr ''id'' (js (ci_id item)), Attr ''role'' (js ''option''),
         Flag ''aria-selected'' isSelected, OnClick (PalChoose item), OnMouseEnter (PalHover idx)]
      [El ''div'' []
        [El ''div'' [] [icon (ci_icon item)],
         El ''div'' []
          ([El ''div'' [] [Text (ci_title item)]]
           @ if_truthy (ci_subtitle item) (\<lambda>t. [El ''div'' [] [Text t]]))],
       El ''span'' [] [Text (ci_category item)]])"

definition palette_view :: "palette \<Rightarrow> palette_event node" where
  "palette_view s = (let filtered = filtered_items (pal_query s) in
     if \<not> pal_open s then El ''null'' [] []
     else El ''div'' [Attr ''role'' (js ''dialog''), Attr ''aria-modal'' (js ''true''),
         Attr ''aria-label'' (js ''Command palette''), OnClick PalClose]
      [El ''div'' [OnKeyDown (\<lambda>k. Some (PalKey k))]
        [El ''div'' []
          [icon ''IconSearch'',
           El ''input'' ([Attr ''type'' (js ''text''), Attr ''value'' (pal_query s), OnChange PalQuery,
               Attr ''placeholder''
                 (js ''Search actions, agents, receipts, or navigate ('' @ [0x2318] @ js ''K)...''),
               Attr ''aria-autocomplete'' (js ''list''),
               Attr ''aria-controls'' (js ''command-palette-results'')]
               @ if_some (active_id s) (\<lambda>i. [Attr ''aria-activedescendant'' (js i)])) [],
           El ''kbd'' [] [tx ''ESC'']],
         El ''div'' [Attr ''id'' (js ''command-palette-results''), Attr ''role'' (js ''listbox'')]
          (if filtered = []
           then [El ''div'' [Attr ''role'' (js ''status''), Attr ''aria-live'' (js ''polite'')]
                  [tx ''No matching records or commands found.'']]
           else map (palette_row s) (zip [0..<length filtered] filtered)),
         El ''div'' []
          [El ''div'' []
            [El ''span'' [] [Text ([0x2191, 0x2193] @ js '' to navigate'')],
             El ''span'' [] [Text [0x2022]],
             El ''span'' [] [Text ([0x21B5] @ js '' to select'')],
             El ''span'' [] [Text [0x2022]],
             El ''span'' [] [tx ''Tab to cycle'']],
           El ''span'' [] [tx ''Babit FastSearch'']]]])"

lemma fires_palette_row:
  "can_fire (palette_row s (i, x)) e \<longleftrightarrow> e = PalChoose x \<or> e = PalHover i"
  by (auto simp: palette_row_def)

lemma attrs_fire_if_some_Attr [simp]:
  "\<not> attrs_fire r (if_some v (\<lambda>i. [Attr k (f i)])) e"
  "\<not> disabled (if_some v (\<lambda>i. [Attr k (f i)]))"
  by (cases v; simp)+

lemma fires_palette_view: "can_fire (palette_view s) e \<Longrightarrow> pal_open s \<and>
   (e = PalClose \<or> (\<exists>k. e = PalKey k) \<or> (\<exists>q. e = PalQuery q)
    \<or> (\<exists>i < length (filtered_items (pal_query s)). e = PalHover i
          \<or> e = PalChoose (filtered_items (pal_query s) ! i)))"
  by (auto simp: palette_view_def Let_def fires_in_map set_zip fires_palette_row split: if_splits)

section \<open>Invariant\<close>

text \<open>
  The selection stays inside the filtered list (at zero when the list is empty), a focus timer
  only runs while the palette is open, and an open palette knows where the focus came from.
\<close>

definition palette_inv :: "palette \<Rightarrow> bool" where
  "palette_inv s \<longleftrightarrow>
     0 \<le> pal_selected s
     \<and> pal_selected s < max 1 (int (length (filtered_items (pal_query s))))
     \<and> (pal_timer s \<longrightarrow> pal_open s)
     \<and> (pal_open s \<longrightarrow> pal_previous s \<noteq> None)
     \<and> router_inv (pal_router s)"

lemma palette_inv_closed: "palette_inv s \<Longrightarrow> palette_inv (palette_closed s)"
  by (auto simp: palette_inv_def palette_closed_def)

lemma palette_inv_opened: "palette_inv s \<Longrightarrow> palette_inv (palette_opened s)"
  by (auto simp: palette_inv_def palette_opened_def)

lemma palette_inv_action: "palette_inv s \<Longrightarrow> palette_inv (item_action i s)"
  unfolding item_action_def
  by (rule palette_inv_closed) (simp add: palette_inv_def router_inv_navigate)

lemma js_rem_next:
  assumes "0 \<le> i" "i < max 1 (int n)" "m = (if int n = 0 then 1 else int n)"
  shows "0 \<le> js_rem (i + 1) m \<and> js_rem (i + 1) m < max 1 (int n)"
    and "0 \<le> js_rem (i - 1 + int n) m \<and> js_rem (i - 1 + int n) m < max 1 (int n)"
proof -
  have "0 \<le> js_rem (i + 1) m \<and> js_rem (i + 1) m < max 1 (int n)
      \<and> 0 \<le> js_rem (i - 1 + int n) m \<and> js_rem (i - 1 + int n) m < max 1 (int n)"
  proof (cases "n = 0")
    case True
    with assms have "i = 0" "m = 1" by auto
    with True show ?thesis by (simp add: js_rem_def)
  next
    case False
    with assms have m: "m = int n" "max 1 (int n) = int n" "0 < int n" "\<not> i + 1 < 0" "\<not> i - 1 + int n < 0"
      by auto
    then show ?thesis by (simp add: js_rem_def)
  qed
  then show "0 \<le> js_rem (i + 1) m \<and> js_rem (i + 1) m < max 1 (int n)"
    and "0 \<le> js_rem (i - 1 + int n) m \<and> js_rem (i - 1 + int n) m < max 1 (int n)" by auto
qed

lemma palette_inv_select:
  "palette_inv s \<Longrightarrow> 0 \<le> i \<Longrightarrow> i < max 1 (int (length (filtered_items (pal_query s)))) \<Longrightarrow>
   palette_inv (s\<lparr>pal_selected := i\<rparr>)"
  by (simp add: palette_inv_def)

lemma palette_inv_key:
  assumes inv: "palette_inv s"
  shows "palette_inv (handleKeyDownList k s)"
proof -
  let ?n = "length (filtered_items (pal_query s))"
  let ?m = "if int ?n = 0 then 1 else int ?n"
  from inv have r: "0 \<le> pal_selected s" "pal_selected s < max 1 (int ?n)"
    by (simp_all add: palette_inv_def)
  have "palette_inv (s\<lparr>pal_selected := js_rem (pal_selected s + 1) ?m\<rparr>)"
    and "palette_inv (s\<lparr>pal_selected := js_rem (pal_selected s - 1 + int ?n) ?m\<rparr>)"
    using js_rem_next [OF r refl] palette_inv_select [OF inv] by blast+
  with inv show ?thesis
    by (simp add: handleKeyDownList_def Let_def palette_inv_action split: option.splits)
qed

lemma palette_inv_effect: "palette_inv s \<Longrightarrow> palette_inv (apply_key_effect s k)"
  by (cases k) (auto simp: palette_inv_closed, simp add: palette_inv_def)

lemma palette_inv_effects: "palette_inv s \<Longrightarrow> palette_inv (foldl apply_key_effect s ks)"
  by (induction ks arbitrary: s) (simp_all add: palette_inv_effect)

lemma palette_inv_user:
  "palette_inv s \<Longrightarrow> can_fire (palette_view s) e \<Longrightarrow> palette_inv (palette_step s e)"
  by (drule fires_palette_view)
     (auto simp: palette_inv_closed palette_inv_key palette_inv_action, auto simp: palette_inv_def)

lemma palette_inv_outside:
  "palette_inv s \<Longrightarrow> palette_outside e \<Longrightarrow> palette_inv (palette_step s e)"
  by (cases e) (auto simp: palette_inv_opened palette_inv_closed palette_inv_effects,
    auto simp: focus_input_def palette_inv_def)

lemma palette_inv_mount: "palette_inv (palette_mount a (router_start (js ''/'')))"
  by (auto simp: palette_inv_def palette_mount_def router_inv_start)

interpretation pls: screen "palette_mount a (router_start (js ''/''))" palette_step palette_view
    palette_outside palette_inv for a
  by unfold_locales (auto intro: palette_inv_mount palette_inv_user palette_inv_outside)

interpretation plt: focus_trap palette_tab
proof
  show "fs \<noteq> [] \<Longrightarrow> palette_tab fs (hd fs) True = Some (last fs)" for fs
    by (simp add: palette_tab_def palette_window_key_def)
  show "fs \<noteq> [] \<Longrightarrow> palette_tab fs (last fs) False = Some (hd fs)" for fs
    by (simp add: palette_tab_def palette_window_key_def)
  show "palette_tab fs x sh = Some y \<Longrightarrow> y \<in> set fs" for fs x sh y
    by (auto simp: palette_tab_def palette_window_key_def split: if_splits)
qed

section \<open>Choosing a command\<close>

lemma palette_index:
  assumes "palette_inv s" "filtered_items (pal_query s) \<noteq> []"
  shows "0 \<le> pal_selected s" "pal_selected s < int (length (filtered_items (pal_query s)))"
proof -
  have "1 \<le> length (filtered_items (pal_query s))" using assms(2) by (simp add: Suc_le_eq)
  then have "max 1 (int (length (filtered_items (pal_query s)))) = int (length (filtered_items (pal_query s)))"
    by (intro max_absorb2) linarith
  then show "0 \<le> pal_selected s" "pal_selected s < int (length (filtered_items (pal_query s)))"
    using assms(1) by (auto simp: palette_inv_def)
qed

lemma enter_in_range:
  assumes "palette_inv s" "filtered_items (pal_query s) \<noteq> []"
  shows "handleKeyDownList (js ''Enter'') s
           = item_action (filtered_items (pal_query s) ! nat (pal_selected s)) s"
  using palette_index [OF assms] by (auto simp: handleKeyDownList_def Let_def array_at_def)

lemma arrow_down_times:
  assumes "palette_inv s" "filtered_items (pal_query s) \<noteq> []"
  shows "(handleKeyDownList (js ''ArrowDown'') ^^ k) s =
     s\<lparr>pal_selected := (pal_selected s + int k) mod int (length (filtered_items (pal_query s)))\<rparr>"
proof (induction k)
  case 0
  show ?case using palette_index [OF assms] by simp
next
  case (Suc k)
  let ?n = "int (length (filtered_items (pal_query s)))"
  from assms have n: "0 < ?n" by simp
  then have pos: "\<not> (pal_selected s + int k) mod ?n + 1 < 0"
    by (metis add_nonneg_nonneg not_less pos_mod_sign zero_le_one)
  have "(pal_selected s + int (Suc k)) mod ?n = ((pal_selected s + int k) mod ?n + 1) mod ?n"
    by (simp add: mod_simps add_ac)
  with Suc n pos show ?case
    by (simp add: handleKeyDownList_def Let_def js_rem_def del: of_nat_Suc)
qed

lemma empty_query_shows_all: "filtered_items [] = palette_items"
  by (simp add: filtered_items_def item_matches_def to_lower_def)

text \<open>The arrow keys walk the whole list and wrap around: pressing arrow down \<open>k\<close> times moves
  the highlight by \<open>k\<close> modulo the number of commands shown, from every reachable state, and
  changes nothing else.\<close>
theorem arrow_down_wraps:
  assumes "ui_reach (palette_mount a (router_start (js ''/''))) palette_step palette_view palette_outside s"
    and "filtered_items (pal_query s) \<noteq> []"
  shows "(handleKeyDownList (js ''ArrowDown'') ^^ k) s =
     s\<lparr>pal_selected := (pal_selected s + int k) mod int (length (filtered_items (pal_query s)))\<rparr>"
  by (rule arrow_down_times [OF pls.reach_inv [OF assms(1)] assms(2)])

theorem arrow_down_wraps_witness:
  "pal_selected ((handleKeyDownList (js ''ArrowDown'') ^^ length palette_items)
     (palette_opened (palette_mount 0 (router_start (js ''/''))))) = 0"
proof -
  let ?s = "palette_opened (palette_mount 0 (router_start (js ''/'')))"
  have q: "pal_query ?s = []" "pal_selected ?s = 0"
    by (simp_all add: palette_opened_def palette_mount_def)
  have "palette_items \<noteq> []" by (simp add: palette_items_def)
  moreover have "ui_reach (palette_mount 0 (router_start (js ''/''))) palette_step palette_view
      palette_outside ?s"
    using ui_outside [OF ui_init, of palette_outside PalOpen _ palette_step] by simp
  ultimately show ?thesis
    using arrow_down_wraps [of 0 ?s "length palette_items"] q by (simp add: empty_query_shows_all)
qed

lemma palette_open_close:
  assumes "\<not> pal_open s"
  shows "pal_active (palette_closed (focus_input (palette_opened s))) = pal_active s"
  using assms by (simp add: palette_closed_def focus_input_def palette_opened_def)

end
