(* ===== verification/ProjectCtx.thy ===== *)
theory ProjectCtx
  imports Api
begin

text \<open>
  \<open>src/lib/project.tsx\<close>: the project every dashboard page works on. The provider loads the
  list once, on mount, restores the stored selection from it, and keeps what the user selects
  in the local storage. \<open>px_store\<close> is the entry under \<open>STORAGE_KEY\<close>; a write may be
  refused by the browser, which the code ignores.
\<close>

record project_ctx =
  px_projects :: "v1Project list"
  px_selected :: "v1Project option"
  px_loading :: bool
  px_error :: "jstr option"
  px_store :: "jstr option"
  px_active :: bool
  px_pending :: nat

definition project_mount :: "jstr option \<Rightarrow> project_ctx" where
  "project_mount stored = \<lparr>px_projects = [], px_selected = None, px_loading = True,
     px_error = None, px_store = stored, px_active = True, px_pending = 1\<rparr>"

definition project_request :: api_request where
  "project_request = ListProjects 50 []"

definition selectProject :: "bool \<Rightarrow> v1Project \<Rightarrow> project_ctx \<Rightarrow> project_ctx" where
  "selectProject writable p s =
     (let s' = s\<lparr>px_selected := Some p\<rparr> in
      if writable then s'\<lparr>px_store := Some (nullish (pj_id p) [])\<rparr> else s')"

text \<open>\<open>list.find((p) => p.id === stored) ?? list[0] ?? null\<close>; an absent id is not \<open>null\<close>.\<close>

definition restore_selection :: "jstr option \<Rightarrow> v1Project list \<Rightarrow> v1Project option" where
  "restore_selection stored list =
     (case find (\<lambda>p. pj_id p \<noteq> None \<and> pj_id p = stored) list of
        Some p \<Rightarrow> Some p
      | None \<Rightarrow> (case list of [] \<Rightarrow> None | p # _ \<Rightarrow> Some p))"

text \<open>A rejected request leaves the effect's function before any of its updates.\<close>

definition projects_settled :: "v1Project v1ListResponse reply \<Rightarrow> project_ctx \<Rightarrow> project_ctx" where
  "projects_settled r s =
     (case r of
        Rejected e \<Rightarrow> s
      | Resolved data err \<Rightarrow>
          if \<not> px_active s then s
          else (if js_truthy err then s\<lparr>px_error := Some (errText err)\<rparr>
                else (let list = nullish (Option.bind data ls_items) [] in
                  s\<lparr>px_projects := list, px_selected := restore_selection (px_store s) list\<rparr>))
               \<lparr>px_loading := False\<rparr>)"

datatype project_event =
    SelectProject bool v1Project
  | ProjectsReply "v1Project v1ListResponse reply"
  | UnmountProvider

fun project_step :: "project_ctx \<Rightarrow> project_event \<Rightarrow> project_ctx" where
  "project_step s (SelectProject w p) = selectProject w p s"
| "project_step s (ProjectsReply r) =
     (if px_pending s = 0 then s else projects_settled r (s\<lparr>px_pending := px_pending s - 1\<rparr>))"
| "project_step s UnmountProvider = s\<lparr>px_active := False\<rparr>"

section \<open>The restored selection\<close>

lemma restore_selection_in: "restore_selection st list = Some p \<Longrightarrow> p \<in> set list"
  by (auto simp: restore_selection_def find_Some_iff split: option.splits list.splits)

lemma restore_selection_None: "restore_selection st list = None \<longleftrightarrow> list = []"
  by (auto simp: restore_selection_def split: option.splits list.splits)

lemma restore_selection_stored:
  assumes "p \<in> set list" "pj_id p = Some i" "\<And>q. q \<in> set list \<Longrightarrow> pj_id q = Some i \<Longrightarrow> q = p"
  shows "restore_selection (Some i) list = Some p"
proof (cases "find (\<lambda>p. pj_id p \<noteq> None \<and> pj_id p = Some i) list")
  case None
  with assms(1,2) have False by (fastforce simp: find_None_iff)
  then show ?thesis ..
next
  case (Some q)
  then have "q \<in> set list" "pj_id q = Some i" by (auto simp: find_Some_iff)
  with assms(3) Some show ?thesis by (simp add: restore_selection_def)
qed

text \<open>The selected project survives a reload: after a project is chosen and its id stored, a fresh
  provider that receives a list with that project selects it again, not the first of the list.\<close>
theorem reload_keeps_selection:
  assumes "p \<in> set list" "pj_id p = Some i" "\<And>q. q \<in> set list \<Longrightarrow> pj_id q = Some i \<Longrightarrow> q = p"
    and "\<not> js_truthy err" "Option.bind data ls_items = Some list"
  shows "px_selected (project_step (project_mount (px_store (selectProject True p s)))
           (ProjectsReply (Resolved data err))) = Some p"
  using restore_selection_stored [OF assms(1-3)] assms(2,4,5)
  by (simp add: project_mount_def projects_settled_def selectProject_def)

theorem reload_keeps_selection_witness:
  "let p = \<lparr>pj_id = Some (js ''p2''), pj_name = None, pj_active_keys = None, pj_created_at = None\<rparr>;
       q = \<lparr>pj_id = Some (js ''p1''), pj_name = None, pj_active_keys = None, pj_created_at = None\<rparr> in
   px_selected (project_step (project_mount (px_store (selectProject True p (project_mount None))))
     (ProjectsReply (Resolved (Some \<lparr>ls_items = Some [q, p], ls_next_page_token = None\<rparr>) JUndef))) = Some p"
  unfolding Let_def
  by (rule reload_keeps_selection [where i = "js ''p2''"]) (auto simp: js_def)

section \<open>Invariant\<close>

text \<open>
  The provider loads exactly until its one request has settled with a response; before that
  there is neither a list nor an error.
\<close>

definition project_inv :: "project_ctx \<Rightarrow> bool" where
  "project_inv s \<longleftrightarrow> px_pending s \<le> 1
     \<and> (px_pending s = 1 \<longrightarrow> px_loading s \<and> px_projects s = [] \<and> px_error s = None)
     \<and> (px_loading s \<longrightarrow> px_projects s = [] \<and> px_error s = None)
     \<and> (px_error s \<noteq> None \<longrightarrow> px_projects s = [])"

lemma project_inv_step: "project_inv s \<Longrightarrow> project_inv (project_step s e)"
  by (cases e)
     (auto simp: project_inv_def selectProject_def projects_settled_def Let_def split: reply.splits)

interpretation prj: machine "project_mount st" project_step project_inv for st
  by unfold_locales (simp_all add: project_inv_step, simp add: project_inv_def project_mount_def)

text \<open>A rejected list request leaves the provider loading for good.\<close>

lemma rejected_projects_loads:
  "px_loading (run project_step (project_step (project_mount st) (ProjectsReply (Rejected e))) es)"
proof -
  let ?inv = "\<lambda>s. px_pending s = 0 \<and> px_loading s"
  have step: "?inv s \<Longrightarrow> ?inv (project_step s ev)" for s ev
    by (cases ev) (auto simp: selectProject_def Let_def)
  have "?inv (run project_step s es)" if "?inv s" for s
    using that step by (induction es arbitrary: s) auto
  then show ?thesis by (simp add: project_mount_def projects_settled_def)
qed

end
