(* ===== verification/Theme.thy ===== *)
theory Theme
  imports Dom
begin

text \<open>
  \<open>src/lib/theme.ts\<close> and \<open>src/lib/ThemeToggle.tsx\<close>: the stored preference, the \<open>dark\<close> class
  on the document, the operating system's preference, and the state of a mounted \<open>useTheme\<close>
  hook. The events are the toggle, a change of the system preference, and a write to the
  storage by another tab.
\<close>

datatype theme = Light | Dark | System

instantiation theme :: enum
begin

definition enum_theme :: "theme list" where "enum_theme = [Light, Dark, System]"
definition enum_all_theme :: "(theme \<Rightarrow> bool) \<Rightarrow> bool" where
  "enum_all_theme P \<longleftrightarrow> P Light \<and> P Dark \<and> P System"
definition enum_ex_theme :: "(theme \<Rightarrow> bool) \<Rightarrow> bool" where
  "enum_ex_theme P \<longleftrightarrow> P Light \<or> P Dark \<or> P System"

instance
  by standard
    (auto simp: enum_theme_def enum_all_theme_def enum_ex_theme_def intro: theme.exhaust,
      (metis theme.exhaust)+)

end

fun theme_text :: "theme \<Rightarrow> jstr" where
  "theme_text Light = js ''light''"
| "theme_text Dark = js ''dark''"
| "theme_text System = js ''system''"

definition getStoredTheme :: "jstr option \<Rightarrow> theme" where
  "getStoredTheme v =
     (if v = Some (js ''dark'') then Dark
      else if v = Some (js ''light'') then Light
      else if v = Some (js ''system'') then System
      else Light)"

definition resolveTheme :: "bool \<Rightarrow> theme \<Rightarrow> theme" where
  "resolveTheme systemPrefersDark t =
     (case t of System \<Rightarrow> if systemPrefersDark then Dark else Light | _ \<Rightarrow> t)"

record theme_state =
  th_stored :: "jstr option"
  th_dark_class :: bool
  th_system_dark :: bool
  th_bound :: bool
  th_hook :: theme

definition theme_apply :: "theme \<Rightarrow> theme_state \<Rightarrow> theme_state" where
  "theme_apply t s = s\<lparr>th_dark_class := (resolveTheme (th_system_dark s) t = Dark)\<rparr>"

definition theme_sync :: "theme_state \<Rightarrow> theme_state" where
  "theme_sync s = s\<lparr>th_hook := getStoredTheme (th_stored s)\<rparr>"

definition setTheme :: "theme \<Rightarrow> theme_state \<Rightarrow> theme_state" where
  "setTheme t s = theme_sync (theme_apply t (s\<lparr>th_stored := Some (theme_text t)\<rparr>))"

definition initTheme :: "theme_state \<Rightarrow> theme_state" where
  "initTheme s = (theme_apply (getStoredTheme (th_stored s)) s)\<lparr>th_bound := True\<rparr>"

text \<open>The listener bound by \<open>initTheme\<close> on the system preference.\<close>

definition on_system_change :: "bool \<Rightarrow> theme_state \<Rightarrow> theme_state" where
  "on_system_change b s =
     (let s' = s\<lparr>th_system_dark := b\<rparr> in
      if th_bound s' \<and> getStoredTheme (th_stored s') = System then theme_apply System s' else s')"

text \<open>Another tab writes the storage: the hook's \<open>storage\<close> listener runs, nothing is applied.\<close>

definition on_storage :: "jstr option \<Rightarrow> theme_state \<Rightarrow> theme_state" where
  "on_storage v s = theme_sync (s\<lparr>th_stored := v\<rparr>)"

definition useTheme_mount :: "theme_state \<Rightarrow> theme_state" where
  "useTheme_mount s = s\<lparr>th_hook := getStoredTheme (th_stored s)\<rparr>"

definition theme_order :: "theme list" where
  "theme_order = [Light, Dark, System]"

fun index_of :: "'a \<Rightarrow> 'a list \<Rightarrow> nat option" where
  "index_of x [] = None"
| "index_of x (y # ys) = (if x = y then Some 0 else map_option Suc (index_of x ys))"

text \<open>\<open>order[(order.indexOf(theme) + 1) % order.length]\<close>; \<open>indexOf\<close> gives -1 when absent.\<close>

definition next_theme :: "theme \<Rightarrow> theme" where
  "next_theme t = theme_order !
     ((case index_of t theme_order of None \<Rightarrow> 0 | Some i \<Rightarrow> i + 1) mod length theme_order)"

fun theme_meta :: "theme \<Rightarrow> jstr \<times> string" where
  "theme_meta Light = (js ''Light'', ''IconSun'')"
| "theme_meta Dark = (js ''Dark'', ''IconMoon'')"
| "theme_meta System = (js ''System'', ''IconMonitor'')"

definition theme_toggle :: "(theme \<Rightarrow> 'e) \<Rightarrow> theme \<Rightarrow> 'e node" where
  "theme_toggle msg t =
     (let (label, ic) = theme_meta t in
      El ''button'' [Attr ''type'' (js ''button''), OnClick (msg (next_theme t)),
          Attr ''title'' (js ''Theme: '' @ label @ js '' (click to switch)''),
          Attr ''aria-label'' (js ''Theme: '' @ label)]
        [icon ic])"

lemma fires_theme_toggle [simp]: "can_fire (theme_toggle f t) e \<longleftrightarrow> e = f (next_theme t)"
  by (cases t) (auto simp: theme_toggle_def)

datatype theme_event = Toggle | SystemChange bool | OtherTab "jstr option"

fun theme_step :: "theme_state \<Rightarrow> theme_event \<Rightarrow> theme_state" where
  "theme_step s Toggle = setTheme (next_theme (th_hook s)) s"
| "theme_step s (SystemChange b) = on_system_change b s"
| "theme_step s (OtherTab v) = on_storage v s"

section \<open>The document follows the preference\<close>

lemma getStoredTheme_text [simp]: "getStoredTheme (Some (theme_text t)) = t"
  by (cases t) (simp_all add: getStoredTheme_def)

lemma resolveTheme_not_system [simp]: "resolveTheme b t \<noteq> System"
  by (cases t) (simp_all add: resolveTheme_def)

definition theme_inv :: "theme_state \<Rightarrow> bool" where
  "theme_inv s \<longleftrightarrow> th_bound s
     \<and> th_hook s = getStoredTheme (th_stored s)
     \<and> th_dark_class s = (resolveTheme (th_system_dark s) (getStoredTheme (th_stored s)) = Dark)"

lemma theme_inv_init: "theme_inv (useTheme_mount (initTheme s))"
  by (simp add: theme_inv_def useTheme_mount_def initTheme_def theme_apply_def)

lemma theme_inv_setTheme: "theme_inv s \<Longrightarrow> theme_inv (setTheme t s)"
  by (simp add: theme_inv_def setTheme_def theme_apply_def theme_sync_def)

lemma theme_inv_system: "theme_inv s \<Longrightarrow> theme_inv (on_system_change b s)"
  by (auto simp: theme_inv_def on_system_change_def theme_apply_def Let_def resolveTheme_def
        split: theme.splits)

text \<open>Within one tab, without \<open>OtherTab\<close> events, the invariant is kept.\<close>

fun own_tab :: "theme_event \<Rightarrow> bool" where
  "own_tab (OtherTab v) = False"
| "own_tab _ = True"

definition theme_step_own :: "theme_state \<Rightarrow> theme_event \<Rightarrow> theme_state" where
  "theme_step_own s e = (if own_tab e then theme_step s e else s)"

lemma theme_inv_own: "theme_inv s \<Longrightarrow> theme_inv (theme_step_own s e)"
  by (cases e) (auto simp: theme_step_own_def intro: theme_inv_setTheme theme_inv_system)

definition theme_boot :: "jstr option \<Rightarrow> bool \<Rightarrow> theme_state" where
  "theme_boot v b = useTheme_mount (initTheme
     \<lparr>th_stored = v, th_dark_class = False, th_system_dark = b, th_bound = False, th_hook = Light\<rparr>)"

interpretation thm_own: machine "theme_boot v b" theme_step_own theme_inv for v b
  by unfold_locales (simp_all add: theme_inv_own theme_boot_def theme_inv_init)

lemma next_theme_values [simp]:
  "next_theme Light = Dark" "next_theme Dark = System" "next_theme System = Light"
  by (simp_all add: next_theme_def theme_order_def)

lemma toggle_hook: "th_hook (theme_step s Toggle) = next_theme (th_hook s)"
  by (simp add: setTheme_def theme_sync_def theme_apply_def)

section \<open>The document over a whole visit\<close>

lemma run_own_tab: "list_all own_tab es \<Longrightarrow> run theme_step s es = run theme_step_own s es"
  by (induction es arbitrary: s) (simp_all add: theme_step_own_def)

text \<open>C26. The document is dark exactly when the stored preference is dark, or is to follow a system
  that is dark; and the toggle shows the stored preference: at any moment of a visit in which the
  user toggles and the system's preference changes, while no other tab writes the storage.
\<close>
theorem document_follows_preference:
  assumes "list_all own_tab es"
  shows "let s = run theme_step (theme_boot v b) es in
     th_dark_class s = (getStoredTheme (th_stored s) = Dark
        \<or> getStoredTheme (th_stored s) = System \<and> th_system_dark s)
     \<and> th_hook s = getStoredTheme (th_stored s)"
  using thm_own.inv_run [of v b es]
  by (auto simp: run_own_tab [OF assms] Let_def theme_inv_def resolveTheme_def split: theme.splits if_splits)

theorem document_follows_preference_witness:
  "th_dark_class (run theme_step (theme_boot None False) [Toggle, Toggle, SystemChange True])"
proof -
  have "th_stored (run theme_step (theme_boot None False) [Toggle, Toggle, SystemChange True])
      = Some (js ''system'')"
    "th_system_dark (run theme_step (theme_boot None False) [Toggle, Toggle, SystemChange True])"
    by code_simp+
  moreover have "getStoredTheme (Some (js ''system'')) = System" by code_simp
  ultimately show ?thesis
    using document_follows_preference [of "[Toggle, Toggle, SystemChange True]" None False]
    by (simp add: Let_def del: foldl_Cons theme_step.simps)
qed

text \<open>A preference chosen in another tab reaches the toggle of this tab but not its document: the
  listener on the storage updates the hook only, so toggle and page disagree until the next toggle.
\<close>
theorem other_tab_not_applied:
  "let s = run theme_step (theme_boot v b) [OtherTab (Some (theme_text t))] in
     th_hook s = t \<and> th_dark_class s = (resolveTheme b (getStoredTheme v) = Dark)"
  by (simp add: theme_boot_def useTheme_mount_def initTheme_def theme_apply_def on_storage_def
      theme_sync_def)

end
