(* ===== verification/Layout.thy ===== *)
theory Layout
  imports App Palette ProjectCtx Theme
begin

text \<open>
  \<open>src/pages/dashboard/DashboardLayout.tsx\<close>: the frame around every dashboard page. Its state
  composes the session, the project context, the palette (which carries the router) and the
  theme with the layout's own flags; its events are those of the parts and the layout's own
  buttons. The sidebar's collapsed flag is written to the local storage after every render
  that changed it.
\<close>

record nav_entry =
  ne_key :: string
  ne_label :: string
  ne_icon :: string

definition mainNav :: "nav_entry list" where
  "mainNav =
     [\<lparr>ne_key = ''overview'', ne_label = ''Overview'', ne_icon = ''IconActivity''\<rparr>,
      \<lparr>ne_key = ''analytics'', ne_label = ''Analytics'', ne_icon = ''IconBarChart''\<rparr>,
      \<lparr>ne_key = ''activity'', ne_label = ''Audit log'', ne_icon = ''IconFileText''\<rparr>,
      \<lparr>ne_key = ''agents'', ne_label = ''Agents'', ne_icon = ''IconCpu''\<rparr>,
      \<lparr>ne_key = ''delegations'', ne_label = ''Delegations'', ne_icon = ''IconGitBranch''\<rparr>,
      \<lparr>ne_key = ''sessions'', ne_label = ''Sessions'', ne_icon = ''IconLayers''\<rparr>,
      \<lparr>ne_key = ''receipts'', ne_label = ''Receipts'', ne_icon = ''IconFileText''\<rparr>,
      \<lparr>ne_key = ''verify'', ne_label = ''Verify'', ne_icon = ''IconShieldCheck''\<rparr>]"

definition devNav :: "nav_entry list" where
  "devNav =
     [\<lparr>ne_key = ''projects'', ne_label = ''Projects'', ne_icon = ''IconFolder''\<rparr>,
      \<lparr>ne_key = ''apikeys'', ne_label = ''API keys'', ne_icon = ''IconKey''\<rparr>]"

definition secondaryNav :: "nav_entry list" where
  "secondaryNav = [\<lparr>ne_key = ''settings'', ne_label = ''Settings'', ne_icon = ''IconSettings''\<rparr>]"

definition allNav :: "nav_entry list" where
  "allNav = mainNav @ devNav @ secondaryNav"

record layout =
  ly_auth :: auth
  ly_project :: project_ctx
  ly_palette :: palette
  ly_theme :: theme_state
  ly_drawer :: bool
  ly_avatarError :: bool
  ly_brandLogoError :: bool
  ly_collapsed :: bool
  ly_sidebar_store :: "jstr option"

definition bool_text :: "bool \<Rightarrow> jstr" where
  "bool_text b = (if b then js ''true'' else js ''false'')"

text \<open>The effect that persists the rail runs after the first render and after each change.\<close>

definition set_collapsed :: "bool \<Rightarrow> layout \<Rightarrow> layout" where
  "set_collapsed b s = s\<lparr>ly_collapsed := b, ly_sidebar_store := Some (bool_text b)\<rparr>"

definition on_router :: "(router \<Rightarrow> router) \<Rightarrow> layout \<Rightarrow> layout" where
  "on_router f s = s\<lparr>ly_palette := (ly_palette s)\<lparr>pal_router := f (pal_router (ly_palette s))\<rparr>\<rparr>"

definition ly_router :: "layout \<Rightarrow> router" where
  "ly_router s = pal_router (ly_palette s)"

text \<open>The effect of \<open>useRequireAuth\<close> runs on mount and when one of the two flags has changed.\<close>

definition set_auth :: "auth \<Rightarrow> layout \<Rightarrow> layout" where
  "set_auth a s =
     (let s' = s\<lparr>ly_auth := a\<rparr> in
      if (au_loading a, isAuthenticated a) = (au_loading (ly_auth s), isAuthenticated (ly_auth s))
      then s' else on_router (useRequireAuth a) s')"

definition layout_mount ::
  "auth \<Rightarrow> jstr option \<Rightarrow> palette \<Rightarrow> theme_state \<Rightarrow> jstr option \<Rightarrow> layout" where
  "layout_mount a stored p t sidebar =
     on_router (useRequireAuth a) (set_collapsed (sidebar = Some (js ''true''))
       \<lparr>ly_auth = a, ly_project = project_mount stored, ly_palette = p, ly_theme = t,
        ly_drawer = False, ly_avatarError = False, ly_brandLogoError = False,
        ly_collapsed = False, ly_sidebar_store = sidebar\<rparr>)"

text \<open>A navigation button: \<open>onTabChange\<close> navigates, and the handler navigates once more.\<close>

definition nav_click :: "jstr \<Rightarrow> layout \<Rightarrow> layout" where
  "nav_click key s =
     on_router (navigate (js ''/dashboard/'' @ key)) (on_router (handleTabChange key) s)"

definition sign_out :: "layout \<Rightarrow> layout" where
  "sign_out s = on_router (navigate (js ''/login'')) (set_auth (logout (ly_auth s)) s)"

definition select_option :: "bool \<Rightarrow> jstr \<Rightarrow> layout \<Rightarrow> layout" where
  "select_option writable i s =
     (case find (\<lambda>x. pj_id x = Some i) (px_projects (ly_project s)) of
        None \<Rightarrow> s
      | Some p \<Rightarrow> s\<lparr>ly_project := selectProject writable p (ly_project s)\<rparr>)"

datatype layout_event =
    LyAuth auth_event
  | LyProject project_event
  | LyPalette palette_event
  | LyTheme theme_event
  | LyMetaK
  | LyCollapse bool
  | LyNav jstr
  | LyDrawerNav jstr
  | LyDrawer
  | LyAvatarError
  | LyBrandLogoError
  | LySignOut
  | LySelect bool jstr
  | LyGo jstr
  | LyBack
  | LyForward

fun layout_step :: "layout \<Rightarrow> layout_event \<Rightarrow> layout" where
  "layout_step s (LyAuth e) = set_auth (auth_step (ly_auth s) e) s"
| "layout_step s (LyProject e) = s\<lparr>ly_project := project_step (ly_project s) e\<rparr>"
| "layout_step s (LyPalette e) = s\<lparr>ly_palette := palette_step (ly_palette s) e\<rparr>"
| "layout_step s (LyTheme e) = s\<lparr>ly_theme := theme_step (ly_theme s) e\<rparr>"
| "layout_step s LyMetaK =
     s\<lparr>ly_palette := (if pal_open (ly_palette s) then palette_closed (ly_palette s)
                      else palette_opened (ly_palette s))\<rparr>"
| "layout_step s (LyCollapse b) = set_collapsed b s"
| "layout_step s (LyNav k) = nav_click k s"
| "layout_step s (LyDrawerNav k) = (nav_click k s)\<lparr>ly_drawer := False\<rparr>"
| "layout_step s LyDrawer = s\<lparr>ly_drawer := \<not> ly_drawer s\<rparr>"
| "layout_step s LyAvatarError = s\<lparr>ly_avatarError := True\<rparr>"
| "layout_step s LyBrandLogoError = s\<lparr>ly_brandLogoError := True\<rparr>"
| "layout_step s LySignOut = sign_out s"
| "layout_step s (LySelect w i) = select_option w i s"
| "layout_step s (LyGo to) = on_router (navigate to) s"
| "layout_step s LyBack = on_router go_back s"
| "layout_step s LyForward = on_router go_forward s"

fun layout_outside :: "layout_event \<Rightarrow> bool" where
  "layout_outside (LyAuth e) = (\<forall>e' p b. e \<noteq> Login e' p \<and> e \<noteq> Signup b)"
| "layout_outside (LyProject e) = (\<exists>r. e = ProjectsReply r)"
| "layout_outside (LyPalette e) = palette_outside e"
| "layout_outside (LyTheme e) = True"
| "layout_outside LyMetaK = True"
| "layout_outside LyBack = True"
| "layout_outside LyForward = True"
| "layout_outside _ = False"

section \<open>The view\<close>

definition org_name :: "auth \<Rightarrow> jstr" where
  "org_name a = (let user = au_user a in
     or_str (Option.bind (au_branding a) br_company_name)
      (or_str (Option.bind user us_org_name)
        (if Option.bind user us_account_type = Some (js ''ACCOUNT_TYPE_ORGANIZATION'')
         then js ''Organization''
         else or_str (map_option (\<lambda>e. hd (split_on 64 e)) (Option.bind user us_email)) (js ''babit''))))"

definition current_label :: "jstr \<Rightarrow> jstr" where
  "current_label activeTab = (case find (\<lambda>n. js (ne_key n) = activeTab) allNav of
     Some n \<Rightarrow> js (ne_label n) | None \<Rightarrow> activeTab)"

definition avatar_initial :: "auth \<Rightarrow> jstr" where
  "avatar_initial a = to_upper (take 1 (or_str (Option.bind (au_user a) us_email) (org_name a)))"

definition logo_url :: "auth \<Rightarrow> jstr option" where
  "logo_url a = Option.bind (au_branding a) br_logo_url"

definition avatar :: "layout \<Rightarrow> layout_event node" where
  "avatar s = (let a = ly_auth s in
     if truthy (logo_url a) \<and> \<not> ly_avatarError s
     then El ''img'' [Attr ''src'' (the (logo_url a)), Attr ''alt'' (org_name a),
            OnError LyAvatarError] []
     else El ''div'' []
       [if avatar_initial a \<noteq> [] then El ''span'' [] [Text (avatar_initial a)] else icon ''IconUser''])"

definition brand_logo :: "layout \<Rightarrow> layout_event node" where
  "brand_logo s = (let a = ly_auth s in
     if truthy (logo_url a) \<and> \<not> ly_brandLogoError s
     then El ''img'' [Attr ''src'' (the (logo_url a)), Attr ''alt'' (org_name a),
            OnError LyBrandLogoError] []
     else icon ''BabitLogo'')"

definition sidebar_head :: "layout \<Rightarrow> layout_event node" where
  "sidebar_head s =
     (if ly_collapsed s
      then El ''div'' []
        [link LyGo (js ''/'') [Attr ''title'' (org_name (ly_auth s))] [brand_logo s],
         El ''button'' [OnClick (LyCollapse False), Attr ''title'' (js ''Expand sidebar''),
            Attr ''aria-label'' (js ''Expand sidebar'')] [icon ''IconChevronRight'']]
      else El ''div'' []
        [link LyGo (js ''/'') []
          [brand_logo s,
           El ''div'' []
            [El ''span'' [] [Text (org_name (ly_auth s))], El ''span'' [] [tx ''babit console'']]],
         El ''button'' [OnClick (LyCollapse True), Attr ''title'' (js ''Collapse sidebar''),
            Attr ''aria-label'' (js ''Collapse sidebar'')] [icon ''IconChevronRight'']])"

definition sidebar_search :: "bool \<Rightarrow> layout_event node" where
  "sidebar_search collapsed = El ''div'' []
     [if collapsed
      then El ''button'' [OnClick (LyPalette PalOpen),
             Attr ''title'' (js ''Search ('' @ [0x2318] @ js ''K)''),
             Attr ''aria-label'' (js ''Search'')] [icon ''IconSearch'']
      else El ''button'' [OnClick (LyPalette PalOpen)]
             [El ''div'' [] [icon ''IconSearch'', El ''span'' [] [tx ''Search...'']],
              El ''kbd'' [] [Text (0x2318 # js ''K'')]]]"

definition nav_button :: "bool \<Rightarrow> jstr \<Rightarrow> nav_entry \<Rightarrow> layout_event node" where
  "nav_button collapsed activeTab n =
     El ''button'' ([OnClick (LyNav (js (ne_key n))), Flag ''active'' (activeTab = js (ne_key n))]
       @ only_if collapsed [Attr ''title'' (js (ne_label n))])
      ([El ''span'' [] [icon (ne_icon n)]]
       @ only_if (\<not> collapsed) [El ''span'' [] [tx (ne_label n)]])"

definition sidebar_nav :: "bool \<Rightarrow> jstr \<Rightarrow> layout_event node" where
  "sidebar_nav collapsed activeTab = El ''div'' []
     (map (\<lambda>(gi, group). El ''nav'' [Flag ''borderTop'' (gi > 0)]
             (map (nav_button collapsed activeTab) group))
       (zip [0..<(3::nat)] [mainNav, devNav, secondaryNav]))"

definition account_email :: "auth \<Rightarrow> jstr" where
  "account_email a = or_str (Option.bind (au_user a) us_email) (js ''admin@babit.dev'')"

definition sidebar_foot :: "jstr \<Rightarrow> layout \<Rightarrow> layout_event node" where
  "sidebar_foot docsUrl s =
     (if ly_collapsed s
      then El ''div'' []
        [El ''div'' [Attr ''title'' (account_email (ly_auth s))] [avatar s],
         El ''a'' [Attr ''href'' docsUrl, Attr ''target'' (js ''_blank''), Attr ''title'' (js ''Docs'')]
          [icon ''IconFileText''],
         El ''button'' [OnClick LySignOut, Attr ''title'' (js ''Sign out''),
            Attr ''aria-label'' (js ''Sign out'')] [icon ''IconLogOut'']]
      else El ''div'' []
        [El ''div'' []
          [El ''div'' []
            [avatar s, El ''div'' [] [El ''span'' [] [Text (account_email (ly_auth s))]]],
           El ''div'' []
            [El ''a'' [Attr ''href'' docsUrl, Attr ''target'' (js ''_blank'')]
              [Text (js ''Docs '' @ [0x2197])],
             El ''button'' [OnClick LySignOut]
              [icon ''IconLogOut'', El ''span'' [] [tx ''Sign out'']]]]])"

text \<open>\<open>writable\<close> says whether the browser accepts a write to the local storage.\<close>

definition layout_header :: "bool \<Rightarrow> jstr \<Rightarrow> layout \<Rightarrow> layout_event node" where
  "layout_header writable activeTab s = El ''header'' []
     [El ''div'' []
       [El ''button'' [OnClick LyDrawer, Attr ''aria-label'' (js ''Open menu''),
           Flag ''aria-expanded'' (ly_drawer s), Attr ''aria-controls'' (js ''mobile-nav-drawer'')]
         [El ''svg'' [] [El ''path'' [Attr ''d'' (js ''M4 6h16M4 12h16M4 18h16'')] []]],
        El ''nav'' [Attr ''aria-label'' (js ''Breadcrumb'')]
         [El ''span'' [] [Text (org_name (ly_auth s))], icon ''IconChevronRight'',
          El ''span'' [] [Text (current_label activeTab)]]],
      El ''div'' []
       (only_if (px_projects (ly_project s) \<noteq> [])
          [El ''select'' [Attr ''aria-label'' (js ''Select project''),
              Attr ''value'' (nullish (Option.bind (px_selected (ly_project s)) pj_id) []),
              OnChange (LySelect writable)]
            (map (\<lambda>p. El ''option'' [Attr ''value'' (nullish (pj_id p) [])]
                   (if_some (pj_name p) (\<lambda>n. [Text n])))
              (px_projects (ly_project s)))]
        @ [map_node LyTheme (theme_toggle (\<lambda>t. Toggle) (th_hook (ly_theme s))),
           link LyGo (js ''/'') [] [Text (js ''Website '' @ [0x2197])]])]"

definition mobile_drawer :: "jstr \<Rightarrow> layout \<Rightarrow> layout_event node list" where
  "mobile_drawer activeTab s = only_if (ly_drawer s)
     [El ''div'' [Attr ''id'' (js ''mobile-nav-drawer'')]
       [El ''div'' []
         (map (\<lambda>n. El ''button'' [OnClick (LyDrawerNav (js (ne_key n))),
                 Flag ''active'' (activeTab = js (ne_key n))]
                [icon (ne_icon n), El ''span'' [] [tx (ne_label n)]])
           (mainNav @ devNav @ secondaryNav))]]"

text \<open>The page of the tab stands in \<open>main\<close>; \<open>wrap\<close> makes the layout's messages those of the whole.\<close>

definition layout_frame ::
  "(layout_event \<Rightarrow> 'e) \<Rightarrow> jstr \<Rightarrow> bool \<Rightarrow> 'e node list \<Rightarrow> layout \<Rightarrow> 'e node" where
  "layout_frame wrap docsUrl writable children s =
     (let activeTab = active_tab (app_route (rt_path (ly_router s))) in
      El ''div'' [Flag ''collapsed'' (ly_collapsed s)]
       [map_node (\<lambda>m. wrap (LyPalette m)) (palette_view (ly_palette s)),
        map_node wrap (El ''aside'' []
         [El ''div'' []
           [sidebar_head s, sidebar_search (ly_collapsed s), sidebar_nav (ly_collapsed s) activeTab],
          sidebar_foot docsUrl s]),
        El ''div'' []
         (map (map_node wrap) ([layout_header writable activeTab s] @ mobile_drawer activeTab s)
          @ [El ''main'' [] children])])"

definition layout_view ::
  "jstr \<Rightarrow> bool \<Rightarrow> layout_event node list \<Rightarrow> layout \<Rightarrow> layout_event node" where
  "layout_view = layout_frame (\<lambda>m. m)"

section \<open>What the layout can do\<close>

lemma fires_avatar [simp]: "can_fire (avatar s) e \<longleftrightarrow>
    truthy (logo_url (ly_auth s)) \<and> \<not> ly_avatarError s \<and> e = LyAvatarError"
  by (auto simp: avatar_def Let_def)

lemma fires_brand_logo [simp]: "can_fire (brand_logo s) e \<longleftrightarrow>
    truthy (logo_url (ly_auth s)) \<and> \<not> ly_brandLogoError s \<and> e = LyBrandLogoError"
  by (auto simp: brand_logo_def Let_def)

lemma fires_sidebar_head [simp]: "can_fire (sidebar_head s) e \<longleftrightarrow>
    e = LyGo (js ''/'') \<or> e = LyCollapse (\<not> ly_collapsed s) \<or> can_fire (brand_logo s) e"
  by (auto simp: sidebar_head_def)

lemma fires_sidebar_search [simp]: "can_fire (sidebar_search c) e \<longleftrightarrow> e = LyPalette PalOpen"
  by (auto simp: sidebar_search_def)

lemma fires_nav_button [simp]: "can_fire (nav_button c a n) e \<longleftrightarrow> e = LyNav (js (ne_key n))"
  by (auto simp: nav_button_def only_if_def)

lemma fires_sidebar_nav: "can_fire (sidebar_nav c a) e \<longleftrightarrow>
    (\<exists>n\<in>set allNav. e = LyNav (js (ne_key n)))"
proof -
  have "zip [0..<3] [mainNav, devNav, secondaryNav]
      = [(0::nat, mainNav), (1, devNav), (2, secondaryNav)]" by code_simp
  then show ?thesis by (auto simp: sidebar_nav_def fires_in_map allNav_def)
qed

lemma fires_sidebar_foot [simp]: "can_fire (sidebar_foot d s) e \<longleftrightarrow>
    e = LySignOut \<or> can_fire (avatar s) e"
  by (auto simp: sidebar_foot_def)

lemma fires_layout_header: "can_fire (layout_header w a s) e \<longleftrightarrow>
    e = LyDrawer \<or> e = LyTheme Toggle \<or> e = LyGo (js ''/'')
    \<or> px_projects (ly_project s) \<noteq> [] \<and> (\<exists>i. e = LySelect w i)"
proof -
  have "\<not> fires_in (map (\<lambda>p. El ''option'' [Attr ''value'' (nullish (pj_id p) [])]
      (if_some (pj_name p) (\<lambda>n. [Text n]))) ps) e" for ps :: "v1Project list"
    by (auto simp: fires_in_map)
  then show ?thesis by (auto simp: layout_header_def can_fire_map)
qed

lemma fires_mobile_drawer: "fires_in (mobile_drawer a s) e \<longleftrightarrow>
    ly_drawer s \<and> (\<exists>n\<in>set allNav. e = LyDrawerNav (js (ne_key n)))"
  by (auto simp: mobile_drawer_def fires_in_map allNav_def)

lemma fires_layout_view: "can_fire (layout_view d w ks s) e \<Longrightarrow>
   fires_in ks e
   \<or> (\<exists>m. e = LyPalette m \<and> (can_fire (palette_view (ly_palette s)) m \<or> m = PalOpen))
   \<or> (\<exists>b. e = LyCollapse b) \<or> e = LyGo (js ''/'') \<or> e = LyAvatarError \<or> e = LyBrandLogoError
   \<or> (\<exists>n\<in>set allNav. e = LyNav (js (ne_key n)) \<or> e = LyDrawerNav (js (ne_key n)))
   \<or> e = LySignOut \<or> e = LyDrawer \<or> e = LyTheme Toggle \<or> (\<exists>i. e = LySelect w i)"
  by (auto simp: layout_view_def layout_frame_def Let_def can_fire_map fires_sidebar_nav
      fires_layout_header fires_mobile_drawer node.map_ident)

lemma fires_layout_frame: "can_fire (layout_frame f d w ks s) e \<longleftrightarrow>
    (\<exists>m. e = f m \<and> can_fire (layout_view d w [] s) m) \<or> fires_in ks e"
  by (auto simp: layout_view_def layout_frame_def Let_def can_fire_map fires_in_map node.map_ident)

section \<open>Invariant\<close>

text \<open>
  The parts keep their own invariants, and the stored flag of the rail is the flag shown.
\<close>

definition layout_inv :: "layout \<Rightarrow> bool" where
  "layout_inv s \<longleftrightarrow>
     auth_inv (ly_auth s) \<and> project_inv (ly_project s) \<and> palette_inv (ly_palette s)
     \<and> ly_sidebar_store s = Some (bool_text (ly_collapsed s))"

lemma layout_inv_flags [simp]:
  "layout_inv (s\<lparr>ly_drawer := b\<rparr>) = layout_inv s"
  "layout_inv (s\<lparr>ly_avatarError := b\<rparr>) = layout_inv s"
  "layout_inv (s\<lparr>ly_brandLogoError := b\<rparr>) = layout_inv s"
  "layout_inv (s\<lparr>ly_theme := t\<rparr>) = layout_inv s"
  by (simp_all add: layout_inv_def)

lemma layout_inv_palette:
  "layout_inv s \<Longrightarrow> palette_inv p \<Longrightarrow> layout_inv (s\<lparr>ly_palette := p\<rparr>)"
  by (simp add: layout_inv_def)

lemma on_router_parts [simp]:
  "ly_auth (on_router f s) = ly_auth s" "ly_project (on_router f s) = ly_project s"
  "ly_theme (on_router f s) = ly_theme s" "ly_drawer (on_router f s) = ly_drawer s"
  "ly_collapsed (on_router f s) = ly_collapsed s"
  "ly_sidebar_store (on_router f s) = ly_sidebar_store s"
  "ly_router (on_router f s) = f (ly_router s)"
  by (simp_all add: on_router_def ly_router_def)

lemma palette_inv_router: "palette_inv p \<Longrightarrow> router_inv r \<Longrightarrow> palette_inv (p\<lparr>pal_router := r\<rparr>)"
  by (simp add: palette_inv_def)

lemma layout_inv_router:
  "layout_inv s \<Longrightarrow> (\<And>r. router_inv r \<Longrightarrow> router_inv (f r)) \<Longrightarrow> layout_inv (on_router f s)"
  by (simp add: layout_inv_def)
     (simp add: on_router_def palette_inv_router palette_inv_def)

lemma router_inv_require: "router_inv r \<Longrightarrow> router_inv (useRequireAuth a r)"
  by (simp add: useRequireAuth_def router_inv_navigate)

lemma layout_inv_set_auth: "layout_inv s \<Longrightarrow> auth_inv a \<Longrightarrow> layout_inv (set_auth a s)"
proof -
  assume "layout_inv s" "auth_inv a"
  then have i: "layout_inv (s\<lparr>ly_auth := a\<rparr>)" by (simp add: layout_inv_def)
  then have "layout_inv (on_router (useRequireAuth a) (s\<lparr>ly_auth := a\<rparr>))"
    by (rule layout_inv_router) (rule router_inv_require)
  with i show ?thesis by (simp add: set_auth_def Let_def)
qed

lemma layout_inv_nav: "layout_inv s \<Longrightarrow> layout_inv (nav_click k s)"
  unfolding nav_click_def handleTabChange_def by (intro layout_inv_router router_inv_navigate)

lemma layout_inv_sign_out: "layout_inv s \<Longrightarrow> layout_inv (sign_out s)"
  unfolding sign_out_def
  by (intro layout_inv_router router_inv_navigate layout_inv_set_auth auth_inv_logout)
     (simp_all add: layout_inv_def)

lemma layout_inv_mount:
  assumes "auth_inv a" "palette_inv p"
  shows "layout_inv (layout_mount a stored p t sb)"
  unfolding layout_mount_def
  using assms prj.inv_init
  by (intro layout_inv_router router_inv_require) (auto simp: layout_inv_def set_collapsed_def)

lemma layout_inv_user:
  assumes "layout_inv s" "can_fire (layout_view d w [] s) e"
  shows "layout_inv (layout_step s e)"
  using fires_layout_view [OF assms(2)] assms(1)
  by (elim disjE exE bexE conjE)
     (auto simp: layout_inv_nav layout_inv_sign_out layout_inv_router router_inv_navigate
        simp del: palette_step.simps,
      auto simp: layout_inv_def palette_inv_user palette_inv_outside set_collapsed_def
        select_option_def project_inv_step [of _ "SelectProject _ _", simplified]
        simp del: palette_step.simps split: option.splits)

lemma layout_inv_outside: "layout_inv s \<Longrightarrow> layout_outside e \<Longrightarrow> layout_inv (layout_step s e)"
proof (cases e)
  case (LyAuth x)
  then show "layout_inv s \<Longrightarrow> ?thesis"
    by (simp add: layout_inv_set_auth auth_inv_step layout_inv_def [of s] del: auth_step.simps)
next
  case (LyProject x)
  then show "layout_inv s \<Longrightarrow> ?thesis"
    by (simp add: layout_inv_def project_inv_step del: project_step.simps)
qed (auto simp: layout_inv_router router_inv_back router_inv_forward simp del: palette_step.simps,
     auto simp: layout_inv_def palette_inv_outside palette_inv_opened palette_inv_closed
       simp del: palette_step.simps)

interpretation lay: screen
  "layout_mount (auth_mount c) st (palette_mount a (router_start (js ''/dashboard''))) t sb"
  layout_step "layout_view d w []" layout_outside layout_inv for c st a t sb d w
proof
  show "layout_inv (layout_mount (auth_mount c) st (palette_mount a (router_start (js ''/dashboard''))) t sb)"
    by (rule layout_inv_mount)
       (auto simp: auth_inv_mount palette_inv_def palette_mount_def router_inv_start js_def)
qed (auto intro: layout_inv_user layout_inv_outside simp del: layout_step.simps)

section \<open>Navigation\<close>

text \<open>Every key of the navigation and every target of the palette has a rendered page.\<close>

lemma nav_keys_rendered: "n \<in> set allNav \<Longrightarrow> dashboard_child (js (ne_key n)) \<noteq> None"
proof -
  have "list_all (\<lambda>n. dashboard_child (js (ne_key n)) \<noteq> None) allNav" by code_simp
  then show "n \<in> set allNav \<Longrightarrow> ?thesis" by (simp add: list_all_iff)
qed

lemma nav_keys_plain: "n \<in> set allNav \<Longrightarrow> js (ne_key n) \<noteq> [] \<and> 47 \<notin> set (js (ne_key n))
    \<and> 63 \<notin> set (js (ne_key n)) \<and> 35 \<notin> set (js (ne_key n))"
proof -
  have "list_all (\<lambda>n. js (ne_key n) \<noteq> [] \<and> list_all (\<lambda>u. u \<noteq> 47) (js (ne_key n))
      \<and> list_all (\<lambda>u. u \<noteq> 63) (js (ne_key n)) \<and> list_all (\<lambda>u. u \<noteq> 35) (js (ne_key n))) allNav"
    by code_simp
  then show "n \<in> set allNav \<Longrightarrow> ?thesis" by (auto simp: list_all_iff)
qed

lemma nav_click_once:
  assumes "n \<in> set allNav"
  shows "ly_router (nav_click (js (ne_key n)) s) = handleTabChange (js (ne_key n)) (ly_router s)"
proof -
  have "35 \<notin> set (js ''/dashboard/'' @ js (ne_key n))"
    using nav_keys_plain [OF assms] by (simp add: js_def)
  then show ?thesis by (simp add: nav_click_def handleTabChange_def hist.nav_twice)
qed

text \<open>Clicking any entry of the navigation shows that entry's page: the address it navigates to
  is one that the application's choice of screen maps to the same tab (the link and the tab
  handler both navigate, and the second is a no-op).\<close>
theorem nav_click_shows:
  assumes "n \<in> set allNav"
  shows "app_render splashDone False (getPath (ly_router (nav_click (js (ne_key n)) s)))
           = DashboardScreen (js (ne_key n))"
  using nav_keys_plain [OF assms] by (simp add: nav_click_once [OF assms] handleTabChange_shows)

theorem nav_click_shows_witness:
  "let s = layout_mount (auth_mount demo_client) None (palette_mount 0 (router_start (js ''/dashboard'')))
         (theme_boot None False) None in
   app_render True False (getPath (ly_router (nav_click (js (ne_key (hd allNav))) s)))
     = DashboardScreen (js (ne_key (hd allNav)))"
proof -
  have "hd allNav \<in> set allNav" by (simp add: allNav_def mainNav_def)
  then show ?thesis unfolding Let_def by (rule nav_click_shows)
qed

lemma palette_targets_rendered:
  "i \<in> set palette_items \<Longrightarrow> shows_page (app_render splashDone False (ci_target i))"
proof -
  have "list_all (\<lambda>i. shows_page (app_render True False (ci_target i))
      \<and> shows_page (app_render False False (ci_target i))) palette_items" by code_simp
  then show "i \<in> set palette_items \<Longrightarrow> ?thesis"
    by (cases splashDone) (auto simp: list_all_iff)
qed

text \<open>Signing out ends the session, leaves the dashboard for the login page, and that page is
  what the application then shows, whatever state the console was in.\<close>
theorem sign_out_leaves:
  "\<not> isAuthenticated (ly_auth (sign_out s)) \<and> location (ly_router (sign_out s)) = js ''/login''
    \<and> app_render splashDone isLoading (getPath (ly_router (sign_out s))) = LoginScreen"
proof -
  have "location (ly_router (sign_out s)) = to_url (js ''/login'')"
    unfolding sign_out_def by (simp, rule hist.nav_at) (simp add: js_def)
  then have l: "location (ly_router (sign_out s)) = js ''/login''"
    by (simp add: to_url_def js_def)
  then have "getPath (ly_router (sign_out s)) = js ''/login''"
    by (simp add: getPath_def or_str_Some)
  moreover have "app_render splashDone isLoading (js ''/login'') = LoginScreen"
  proof -
    have "list_all (\<lambda>a. list_all (\<lambda>b. app_render a b (js ''/login'') = LoginScreen) [True, False])
        [True, False]" by code_simp
    then show ?thesis by (cases splashDone; cases isLoading) simp_all
  qed
  moreover have "ly_auth (sign_out s) = logout (ly_auth s)"
    by (simp add: sign_out_def set_auth_def Let_def)
  ultimately show ?thesis using l by simp
qed

text \<open>The rail comes back from the storage as it was left.\<close>

lemma sidebar_reload:
  "layout_inv s \<Longrightarrow> ly_collapsed (layout_mount a st p t (ly_sidebar_store s)) = ly_collapsed s"
  by (simp add: layout_inv_def layout_mount_def set_collapsed_def bool_text_def)

section \<open>Commands of the palette\<close>

lemma palette_targets_plain: "i \<in> set palette_items \<Longrightarrow>
    35 \<notin> set (ci_target i) \<and> to_url (ci_target i) = ci_target i \<and> ci_target i \<noteq> []"
proof -
  have "list_all (\<lambda>i. list_all (\<lambda>u. u \<noteq> 35) (ci_target i) \<and> to_url (ci_target i) = ci_target i
      \<and> ci_target i \<noteq> []) palette_items" by code_simp
  then show "i \<in> set palette_items \<Longrightarrow> ?thesis" by (auto simp: list_all_iff)
qed

lemma item_action_opens:
  assumes "i \<in> set palette_items"
  shows "getPath (pal_router (item_action i s)) = ci_target i"
proof -
  have "location (navigate (ci_target i) r) = ci_target i" for r
    using palette_targets_plain [OF assms] by (simp add: hist.nav_at)
  then show ?thesis
    using palette_targets_plain [OF assms]
    by (simp add: item_action_def palette_closed_def getPath_def or_str_Some)
qed

lemma filtered_items_subset: "set (filtered_items q) \<subseteq> set palette_items"
  by (auto simp: filtered_items_def)

text \<open>C32. Enter in the command palette never misses: in every state the palette can be brought into
  by typing, arrow keys, hovering, clicking, opening and closing, if the list shows a command then
  Enter runs the highlighted one, closes the palette, and the address it goes to is one for which
  the application renders a page.
\<close>
theorem palette_enter_opens_page:
  assumes "ui_reach (palette_mount a (router_start (js ''/''))) palette_step palette_view palette_outside s"
    and "filtered_items (pal_query s) \<noteq> []"
  shows "let i = filtered_items (pal_query s) ! nat (pal_selected s);
             s' = handleKeyDownList (js ''Enter'') s in
     getPath (pal_router s') = ci_target i \<and> \<not> pal_open s'
     \<and> shows_page (app_render splashDone False (getPath (pal_router s')))"
proof -
  let ?i = "filtered_items (pal_query s) ! nat (pal_selected s)"
  have inv: "palette_inv s" using assms(1) by (rule pls.reach_inv)
  have "nat (pal_selected s) < length (filtered_items (pal_query s))"
    using palette_index [OF inv assms(2)] by linarith
  then have "?i \<in> set palette_items" using filtered_items_subset nth_mem by blast
  moreover have "handleKeyDownList (js ''Enter'') s = item_action ?i s"
    by (rule enter_in_range [OF inv assms(2)])
  moreover have "\<not> pal_open (item_action ?i s)" by (simp add: item_action_def palette_closed_def)
  ultimately show ?thesis by (simp add: Let_def item_action_opens palette_targets_rendered)
qed

theorem palette_enter_opens_page_witness:
  "getPath (pal_router (handleKeyDownList (js ''Enter'')
     (palette_step (palette_mount 0 (router_start (js ''/''))) PalOpen))) = ci_target (hd palette_items)"
proof -
  let ?s = "palette_step (palette_mount 0 (router_start (js ''/''))) PalOpen"
  have q: "pal_query ?s = []" "pal_selected ?s = 0"
    by (simp_all add: palette_opened_def palette_mount_def)
  have "palette_items \<noteq> []" by (simp add: palette_items_def)
  moreover have "ui_reach (palette_mount 0 (router_start (js ''/''))) palette_step palette_view
      palette_outside ?s"
    by (rule ui_outside [OF ui_init]) simp
  ultimately show ?thesis
    using palette_enter_opens_page [of 0 ?s True] q
    by (simp add: empty_query_shows_all Let_def hd_conv_nth del: palette_step.simps)
qed

end
