(* ===== verification/GrantViz.thy ===== *)
theory GrantViz
  imports Api Dom
begin

text \<open>
  The pictures of authority: \<open>src/components/viz/GrantTree.tsx\<close>, the tree of grants below the
  first root, and \<open>src/components/viz/AuthorityGraph.tsx\<close>, the graph of one verified chain. The
  tree is drawn by a recursion along the parent links with nothing in the code that bounds it;
  it is modelled with fuel (\<open>None\<close> when the fuel runs out), and the main theorem says that the
  number of grants is enough whenever every id has one parent.
\<close>

section \<open>\<open>GrantTree\<close>\<close>

definition grant_by_id :: "v1Grant list \<Rightarrow> jstr \<Rightarrow> v1Grant option" where
  "grant_by_id grants = map_of (rev (map (\<lambda>g. (the (gr_grant_id g), g))
     (filter (\<lambda>g. truthy (gr_grant_id g)) grants)))"

text \<open>The loop that collects the children of every parent and the roots.\<close>

definition collect_grant ::
  "(jstr \<rightharpoonup> v1Grant list) \<times> v1Grant list \<Rightarrow> v1Grant \<Rightarrow> (jstr \<rightharpoonup> v1Grant list) \<times> v1Grant list" where
  "collect_grant acc g = (let (children, roots) = acc in
     if \<not> truthy (gr_grant_id g) then (children, roots)
     else if \<not> truthy (gr_parent_grant_id g) then (children, roots @ [g])
     else (let pid = the (gr_parent_grant_id g) in
       (children(pid \<mapsto> nullish (children pid) [] @ [g]), roots)))"

definition collect_grants :: "v1Grant list \<Rightarrow> (jstr \<rightharpoonup> v1Grant list) \<times> v1Grant list" where
  "collect_grants grants = foldl collect_grant (Map.empty, []) grants"

definition grant_kids :: "v1Grant list \<Rightarrow> v1Grant \<Rightarrow> v1Grant list" where
  "grant_kids grants g = nullish (fst (collect_grants grants) (nullish (gr_grant_id g) [])) []"

definition grant_root :: "v1Grant list \<Rightarrow> jstr option \<Rightarrow> v1Grant option" where
  "grant_root grants rootId =
     (if truthy rootId then grant_by_id grants (the rootId)
      else (case snd (collect_grants grants) of [] \<Rightarrow> None | g # _ \<Rightarrow> Some g))"

definition grant_role :: "v1Grant \<Rightarrow> bool \<Rightarrow> string" where
  "grant_role g hasChildren =
     (if \<not> truthy (gr_parent_grant_id g) then ''Root'' else if hasChildren then ''Agent'' else ''Leaf'')"

definition capability_tags :: "jstr list option \<Rightarrow> 'e node list" where
  "capability_tags cs = (case cs of
     None \<Rightarrow> []
   | Some l \<Rightarrow> only_if (l \<noteq> [])
       [El ''div'' [] (map (\<lambda>c. El ''span'' [] [Text c]) (take 3 l))])"

definition grant_box ::
  "(v1Grant \<Rightarrow> 'e) \<Rightarrow> jstr option \<Rightarrow> v1Grant \<Rightarrow> bool \<Rightarrow> 'e node" where
  "grant_box onSelect selectedId g hasChildren =
     (let isSelected = (truthy selectedId \<and> selectedId = gr_grant_id g) in
      El ''div'' [Flag ''selected'' isSelected, OnClick (onSelect g),
          OnKeyDown (\<lambda>k. if k = js ''Enter'' then Some (onSelect g) else None),
          Attr ''role'' (js ''button'')]
       ([El ''div'' []
          [El ''span'' [Flag ''hasChildren'' hasChildren] [],
           El ''span'' [] [tx (grant_role g hasChildren)]],
         El ''div'' [] (opt_text (gr_subject_id g)),
         El ''div'' [] (opt_text (gr_grant_id g))]
        @ capability_tags (gr_capabilities g)
        @ [El ''div'' [] [icon ''IconCheck'', El ''span'' [] [tx ''Active'']]]))"

fun node_box ::
  "(v1Grant \<Rightarrow> 'e) \<Rightarrow> jstr option \<Rightarrow> v1Grant list \<Rightarrow> nat \<Rightarrow> v1Grant \<Rightarrow> 'e node option" where
  "node_box onSelect selectedId grants 0 g = None"
| "node_box onSelect selectedId grants (Suc n) g =
     (let kids = grant_kids grants g; hasChildren = (kids \<noteq> []) in
      case those (map (node_box onSelect selectedId grants n) kids) of
        None \<Rightarrow> None
      | Some boxes \<Rightarrow> Some (El ''li'' []
          ([grant_box onSelect selectedId g hasChildren]
           @ only_if hasChildren [El ''ul'' [] boxes])))"

text \<open>As many levels as there are grants; \<open>None\<close> stands for a recursion that goes deeper.\<close>

definition grant_tree ::
  "(v1Grant \<Rightarrow> 'e) \<Rightarrow> jstr option \<Rightarrow> jstr option \<Rightarrow> v1Grant list \<Rightarrow> 'e node option" where
  "grant_tree onSelect selectedId rootId grants = (case grant_root grants rootId of
     None \<Rightarrow> Some (El ''p'' [] [tx ''No root grant to display.''])
   | Some root \<Rightarrow> map_option (\<lambda>b. El ''div'' [] [El ''ul'' [] [b]])
       (node_box onSelect selectedId grants (length grants) root))"

subsection \<open>The loop collects children and roots\<close>

definition child_of :: "jstr \<Rightarrow> v1Grant \<Rightarrow> bool" where
  "child_of pid g \<longleftrightarrow> truthy (gr_grant_id g) \<and> truthy (gr_parent_grant_id g)
     \<and> gr_parent_grant_id g = Some pid"

lemma collect_grants_from:
  "nullish (fst (foldl collect_grant (m, rs) gs) pid) [] = nullish (m pid) [] @ filter (child_of pid) gs
   \<and> snd (foldl collect_grant (m, rs) gs)
     = rs @ filter (\<lambda>g. truthy (gr_grant_id g) \<and> \<not> truthy (gr_parent_grant_id g)) gs"
proof (induction gs arbitrary: m rs)
  case (Cons g gs)
  obtain m' rs' where c: "collect_grant (m, rs) g = (m', rs')" by fastforce
  have m: "nullish (m' pid) [] = nullish (m pid) [] @ filter (child_of pid) [g]"
    and r: "rs' = rs @ filter (\<lambda>g. truthy (gr_grant_id g) \<and> \<not> truthy (gr_parent_grant_id g)) [g]"
    using c by (auto simp: collect_grant_def Let_def child_of_def truthy_def split: if_splits)
  show ?case using Cons.IH [of m' rs'] c m r by simp
qed simp

lemma grant_kids_filter:
  "grant_kids grants g = filter (child_of (nullish (gr_grant_id g) [])) grants"
  by (simp add: grant_kids_def collect_grants_def collect_grants_from)

lemma grant_roots:
  "snd (collect_grants grants) =
     filter (\<lambda>g. truthy (gr_grant_id g) \<and> \<not> truthy (gr_parent_grant_id g)) grants"
  by (simp add: collect_grants_def collect_grants_from)

lemma grant_kids_in: "k \<in> set (grant_kids grants g) \<Longrightarrow>
    k \<in> set grants \<and> truthy (gr_grant_id k) \<and> truthy (gr_grant_id g) \<and> gr_parent_grant_id k = gr_grant_id g"
  by (cases "gr_grant_id g") (auto simp: grant_kids_filter child_of_def)

subsection \<open>The recursion ends\<close>

text \<open>A grant with an id and a parent, for concrete instances.\<close>

definition grant_entry :: "jstr option \<Rightarrow> jstr option \<Rightarrow> v1Grant" where
  "grant_entry i parent = \<lparr>gr_grant_id = i, gr_project_id = None, gr_parent_grant_id = parent,
     gr_principal_id = None, gr_subject_id = None, gr_capabilities = None, gr_scope = None,
     gr_expires_at = None, gr_parent_signature = None\<rparr>"

text \<open>Every id has one parent: entries with the same id agree on it.\<close>

definition one_parent :: "v1Grant list \<Rightarrow> bool" where
  "one_parent grants \<longleftrightarrow> (\<forall>g\<in>set grants. \<forall>h\<in>set grants. truthy (gr_grant_id g) \<longrightarrow>
     gr_grant_id g = gr_grant_id h \<longrightarrow>
       (if truthy (gr_parent_grant_id g) then gr_parent_grant_id h = gr_parent_grant_id g
        else \<not> truthy (gr_parent_grant_id h)))"

text \<open>
  \<open>descent grants p\<close>: a branch of the tree from the root, its last grant first. \<open>level\<close> is the
  number of parent links above an id; a grant of a branch has as many as the branch is long.
\<close>

inductive descent :: "v1Grant list \<Rightarrow> v1Grant list \<Rightarrow> bool" for grants where
  descent_root: "g \<in> set grants \<Longrightarrow> truthy (gr_grant_id g) \<Longrightarrow> \<not> truthy (gr_parent_grant_id g) \<Longrightarrow>
     descent grants [g]"
| descent_kid: "descent grants (g # p) \<Longrightarrow> k \<in> set (grant_kids grants g) \<Longrightarrow>
     descent grants (k # g # p)"

inductive_cases descent_NilE: "descent grants []"
inductive_cases descent_ConsE: "descent grants (g # p)"

inductive level :: "v1Grant list \<Rightarrow> jstr \<Rightarrow> nat \<Rightarrow> bool" for grants where
  level_root: "g \<in> set grants \<Longrightarrow> gr_grant_id g = Some i \<Longrightarrow> i \<noteq> [] \<Longrightarrow>
     \<not> truthy (gr_parent_grant_id g) \<Longrightarrow> level grants i 0"
| level_kid: "g \<in> set grants \<Longrightarrow> gr_grant_id g = Some i \<Longrightarrow> i \<noteq> [] \<Longrightarrow>
     gr_parent_grant_id g = Some j \<Longrightarrow> j \<noteq> [] \<Longrightarrow> level grants j n \<Longrightarrow> level grants i (Suc n)"

lemma level_unique:
  assumes "one_parent grants" "level grants i n" "level grants i m"
  shows "n = m"
  using assms(2,3)
proof (induction arbitrary: m rule: level.induct)
  case (level_root g i)
  from level_root.prems show ?case
  proof (cases rule: level.cases)
    case (level_kid h j k)
    with level_root.hyps assms(1) have False unfolding one_parent_def by fastforce
    then show ?thesis ..
  qed simp
next
  case (level_kid g i j n)
  from level_kid.prems show ?case
  proof (cases rule: level.cases)
    case (level_root h)
    with level_kid.hyps assms(1) have False unfolding one_parent_def by fastforce
    then show ?thesis ..
  next
    case (level_kid h j' k)
    have "j' = j"
      using level_kid(2-6) \<open>g \<in> set grants\<close> \<open>gr_grant_id g = Some i\<close>
        \<open>gr_parent_grant_id g = Some j\<close> \<open>j \<noteq> []\<close> assms(1)
      unfolding one_parent_def by fastforce
    with level_kid level_kid.IH show ?thesis by simp
  qed
qed

lemma descent_members: "descent grants p \<Longrightarrow> g \<in> set p \<Longrightarrow> g \<in> set grants \<and> truthy (gr_grant_id g)"
  by (induction rule: descent.induct) (auto dest: grant_kids_in)

lemma descent_level: "descent grants (g # p) \<Longrightarrow> level grants (the (gr_grant_id g)) (length p)"
proof (induction "g # p" arbitrary: g p rule: descent.induct)
  case (descent_root g)
  then show ?case by (cases "gr_grant_id g") (auto intro: level.level_root)
next
  case (descent_kid g p k)
  then have "k \<in> set grants" "truthy (gr_grant_id k)" "truthy (gr_grant_id g)"
    "gr_parent_grant_id k = gr_grant_id g" by (auto dest: grant_kids_in)
  with descent_kid.hyps(2) show ?case
    by (cases "gr_grant_id k"; cases "gr_grant_id g") (auto intro: level.level_kid)
qed

lemma descent_suffix: "descent grants (xs @ g # p) \<Longrightarrow> descent grants (g # p)"
proof (induction xs)
  case (Cons x xs)
  from Cons.prems have "descent grants (xs @ g # p)"
    by (cases rule: descent.cases) (auto simp: Cons_eq_append_conv)
  with Cons.IH show ?case .
qed simp

lemma descent_distinct:
  assumes "one_parent grants" "descent grants p"
  shows "distinct (map (\<lambda>g. the (gr_grant_id g)) p)"
  using assms(2)
proof (induction rule: descent.induct)
  case (descent_kid g p k)
  have path: "descent grants (k # g # p)" using descent_kid by (intro descent.intros)
  have "the (gr_grant_id k) \<noteq> the (gr_grant_id h)" if h: "h \<in> set (g # p)" for h
  proof
    assume eq: "the (gr_grant_id k) = the (gr_grant_id h)"
    from h obtain xs ys where split: "g # p = xs @ h # ys" by (meson split_list)
    then have "descent grants (h # ys)" using descent_kid.hyps(1) descent_suffix by metis
    then have "level grants (the (gr_grant_id k)) (length ys)" using eq descent_level by simp
    moreover have "level grants (the (gr_grant_id k)) (length (g # p))"
      using descent_level [OF path] .
    ultimately have "length ys = length (g # p)" using level_unique [OF assms(1)] by blast
    with split show False by simp
  qed
  with descent_kid show ?case by auto
qed simp

lemma descent_short:
  assumes "one_parent grants" "descent grants p"
  shows "length p \<le> length grants"
proof -
  let ?id = "\<lambda>g. the (gr_grant_id g)"
  have "length p = card (set (map ?id p))"
    using descent_distinct [OF assms] distinct_card by fastforce
  also have "\<dots> \<le> card (set (map ?id grants))"
    using descent_members [OF assms(2)] by (intro card_mono) auto
  also have "\<dots> \<le> length grants" using card_length by (metis length_map)
  finally show ?thesis .
qed

lemma those_Some: "(\<And>x. x \<in> set xs \<Longrightarrow> f x \<noteq> None) \<Longrightarrow> those (map f xs) \<noteq> None"
proof (induction xs)
  case (Cons a xs)
  from Cons.prems [of a] obtain y where "f a = Some y" by auto
  moreover have "those (map f xs) \<noteq> None" using Cons.prems by (intro Cons.IH) simp
  ultimately show ?case by auto
qed simp

lemma node_box_ends:
  assumes "one_parent grants"
  shows "descent grants (g # p) \<Longrightarrow> length grants \<le> length p + n \<Longrightarrow>
    node_box sel i grants n g \<noteq> None"
proof (induction n arbitrary: g p)
  case 0
  with descent_short [OF assms] show ?case by fastforce
next
  case (Suc n)
  have "node_box sel i grants n k \<noteq> None" if "k \<in> set (grant_kids grants g)" for k
    using Suc.IH [of k "g # p"] Suc.prems that by (auto intro: descent.intros)
  then have "those (map (node_box sel i grants n) (grant_kids grants g)) \<noteq> None"
    by (rule those_Some)
  then show ?case by (auto simp: Let_def)
qed

text \<open>C16. The recursion of the grant tree ends: when entries with the same id agree on their parent
  (cycles of parents, missing parents and blank ids included), drawing the tree needs no more
  levels than there are grants, so a tree is drawn.\<close>
theorem grant_tree_ends:
  assumes "one_parent grants"
  shows "grant_tree sel i None grants \<noteq> None"
proof (cases "snd (collect_grants grants)")
  case Nil
  then show ?thesis by (simp add: grant_tree_def grant_root_def)
next
  case (Cons g gs)
  then have "g \<in> set (snd (collect_grants grants))" by simp
  then have "descent grants [g]" by (auto simp: grant_roots intro: descent_root)
  then have "node_box sel i grants (length grants) g \<noteq> None"
    by (rule node_box_ends [OF assms]) simp
  with Cons show ?thesis by (simp add: grant_tree_def grant_root_def)
qed

theorem grant_tree_ends_witness:
  "grant_tree (\<lambda>g. g) None None [grant_entry (Some (js ''a'')) None, grant_entry (Some (js ''b'')) (Some (js ''a'')),
     grant_entry (Some (js ''c'')) (Some (js ''d'')), grant_entry (Some (js ''d'')) (Some (js ''c''))] \<noteq> None"
  by (rule grant_tree_ends) (simp add: one_parent_def grant_entry_def truthy_def js_def)

text \<open>More fuel draws the same tree, so the bound is no part of the picture.\<close>

lemma those_mono:
  "(\<And>x y. x \<in> set xs \<Longrightarrow> f x = Some y \<Longrightarrow> g x = Some y) \<Longrightarrow> those (map f xs) = Some ys \<Longrightarrow>
   those (map g xs) = Some ys"
  by (induction xs arbitrary: ys) (auto split: option.splits)

lemma node_box_more:
  "node_box sel i grants n g = Some b \<Longrightarrow> n \<le> m \<Longrightarrow> node_box sel i grants m g = Some b"
proof (induction n arbitrary: g b m)
  case (Suc n)
  then obtain m' where m: "m = Suc m'" "n \<le> m'" by (cases m) auto
  from Suc.prems(1) obtain bs where
    bs: "those (map (node_box sel i grants n) (grant_kids grants g)) = Some bs"
    by (auto simp: Let_def split: option.splits)
  then have "those (map (node_box sel i grants m') (grant_kids grants g)) = Some bs"
    using Suc.IH [OF _ m(2)] by (rule those_mono [rotated])
  with Suc.prems(1) bs m show ?case by (simp add: Let_def)
qed simp

text \<open>Two entries of one id that disagree on the parent make the recursion run for ever.\<close>

lemma node_box_diverges:
  assumes "g \<in> set (grant_kids grants g)"
  shows "node_box sel i grants n g = None"
proof (induction n)
  case (Suc n)
  have "those (map (node_box sel i grants n) ks) = None" if "g \<in> set ks" for ks
    using that Suc by (induction ks) (auto split: option.splits)
  with assms show ?case by (simp add: Let_def)
qed simp

lemma grant_tree_diverges_if:
  assumes "grant_root grants None = Some r" "h \<in> set (grant_kids grants r)" "h \<in> set (grant_kids grants h)"
  shows "grant_tree sel i None grants = None" "node_box sel i grants n r = None"
proof -
  show *: "node_box sel i grants n r = None" for n
  proof (cases n)
    case (Suc m)
    have "those (map (node_box sel i grants m) ks) = None" if "h \<in> set ks" for ks
      using that node_box_diverges [OF assms(3), of sel i m]
      by (induction ks) (auto split: option.splits)
    with assms(2) Suc show ?thesis by (simp add: Let_def)
  qed simp
  with assms(1) show "grant_tree sel i None grants = None" by (simp add: grant_tree_def)
qed

text \<open>The grant tree can recurse for ever: with two entries of one id, one without a parent and
  one whose parent is that id, no number of levels is enough to draw the root.\<close>
theorem grant_tree_diverges:
  "let grants = [grant_entry (Some (js ''a'')) None, grant_entry (Some (js ''a'')) (Some (js ''a''))] in
     grant_root grants None = Some (hd grants)
     \<and> (\<forall>n. node_box sel i grants n (hd grants) = None)
     \<and> grant_tree sel i None grants = None"
proof -
  let ?g = "[grant_entry (Some (js ''a'')) None, grant_entry (Some (js ''a'')) (Some (js ''a''))]"
  have r: "grant_root ?g None = Some (hd ?g)"
    by (auto simp: grant_root_def grant_roots grant_entry_def)
  have k: "grant_entry (Some (js ''a'')) (Some (js ''a'')) \<in> set (grant_kids ?g (hd ?g))"
    "grant_entry (Some (js ''a'')) (Some (js ''a''))
       \<in> set (grant_kids ?g (grant_entry (Some (js ''a'')) (Some (js ''a''))))"
    by (auto simp: grant_kids_filter child_of_def grant_entry_def)
  show ?thesis
    unfolding Let_def using grant_tree_diverges_if [OF r k] r by blast
qed

section \<open>\<open>AuthorityGraph\<close>\<close>

datatype graph_role = Principal | Agent | Subagent

record graph_entry =
  ge_subject :: jstr
  ge_role :: graph_role
  ge_capabilities :: "jstr list option"
  ge_scope :: "jstr option"
  ge_revoked :: "bool option"

record graph_node =
  gn_id :: jstr
  gn_x :: nat
  gn_y :: nat
  gn_data :: graph_entry

record graph_edge =
  gd_id :: jstr
  gd_source :: jstr
  gd_target :: jstr
  gd_revoked :: "bool option"

fun role_label :: "graph_role \<Rightarrow> string" where
  "role_label Principal = ''Human principal''"
| "role_label Agent = ''Agent''"
| "role_label Subagent = ''Sub-agent''"

definition node_id :: "nat \<Rightarrow> jstr" where
  "node_id i = js ''g'' @ nat_text i"

definition chainToGraph :: "graph_entry list \<Rightarrow> graph_node list \<times> graph_edge list" where
  "chainToGraph chain =
     (map (\<lambda>(i, g). \<lparr>gn_id = node_id i, gn_x = 0, gn_y = i * 130, gn_data = g\<rparr>)
        (zip [0..<length chain] chain),
      map (\<lambda>(i, g). \<lparr>gd_id = js ''e'' @ nat_text i, gd_source = node_id i,
             gd_target = node_id (i + 1), gd_revoked = ge_revoked g\<rparr>)
        (zip [0..<length chain - 1] (drop 1 chain)))"

definition grant_node :: "graph_entry \<Rightarrow> 'e node" where
  "grant_node d = (let revoked = (ge_revoked d = Some True) in
     El ''div'' [Flag ''principal'' (ge_role d = Principal), Flag ''revoked'' revoked]
      ([El ''Handle'' [Attr ''type'' (js ''target'')] [],
        El ''div'' []
         [El ''span'' [] [],
          El ''span'' [] [tx (if revoked then ''Revoked'' else role_label (ge_role d))]],
        El ''div'' [] [Text (ge_subject d)]]
       @ capability_tags (ge_capabilities d)
       @ if_truthy (ge_scope d) (\<lambda>s. [El ''div'' [] [Text s]])
       @ [El ''Handle'' [Attr ''type'' (js ''source'')] []]))"

text \<open>The edges as they are handed to the flow library, which draws nodes and edges.\<close>

definition styled_edge :: "graph_edge \<Rightarrow> 'e node" where
  "styled_edge e = (let revoked = (gd_revoked e = Some True) in
     El ''Edge'' [Attr ''id'' (gd_id e), Attr ''source'' (gd_source e), Attr ''target'' (gd_target e),
       Attr ''type'' (js ''smoothstep''), Flag ''animated'' (\<not> revoked),
       Attr ''stroke'' (js (if revoked then ''var(--color-failed)''
         else ''color-mix(in srgb, var(--brand-accent) 55%, transparent)''))] [])"

definition authority_graph ::
  "bool \<Rightarrow> nat \<Rightarrow> bool \<Rightarrow> graph_node list \<times> graph_edge list \<Rightarrow> 'e node" where
  "authority_graph dark height interactive g =
     El ''div'' [Attr ''height'' (nat_text height)]
      [El ''ReactFlow''
        [Attr ''colorMode'' (js (if dark then ''dark'' else ''light'')),
         Flag ''nodesDraggable'' interactive, Flag ''elementsSelectable'' interactive,
         Flag ''panOnDrag'' interactive, Flag ''zoomOnPinch'' interactive]
        (map (\<lambda>n. El ''Node'' [Attr ''id'' (gn_id n), Attr ''x'' (nat_text (gn_x n)),
                Attr ''y'' (nat_text (gn_y n))] [grant_node (gn_data n)]) (fst g)
         @ map styled_edge (snd g))]"

lemma fires_capability_tags [simp]: "\<not> fires_in (capability_tags cs) e"
  by (cases cs) (auto simp: capability_tags_def fires_in_map)

lemma fires_authority_graph [simp]: "\<not> can_fire (authority_graph d h b g) e"
  by (auto simp: authority_graph_def fires_in_map grant_node_def styled_edge_def Let_def)

lemma chainToGraph_lengths:
  "length (fst (chainToGraph c)) = length c" "length (snd (chainToGraph c)) = length c - 1"
  by (simp_all add: chainToGraph_def)

lemma node_id_inject [simp]: "node_id i = node_id j \<longleftrightarrow> i = j"
  by (simp add: node_id_def)

lemma chainToGraph_node:
  "i < length c \<Longrightarrow> fst (chainToGraph c) ! i = \<lparr>gn_id = node_id i, gn_x = 0, gn_y = i * 130, gn_data = c ! i\<rparr>"
  by (simp add: chainToGraph_def)

lemma chainToGraph_edge:
  "i + 1 < length c \<Longrightarrow> gd_source (snd (chainToGraph c) ! i) = gn_id (fst (chainToGraph c) ! i)
     \<and> gd_target (snd (chainToGraph c) ! i) = gn_id (fst (chainToGraph c) ! (i + 1))
     \<and> gd_revoked (snd (chainToGraph c) ! i) = ge_revoked (c ! (i + 1))"
  by (simp add: chainToGraph_def)

lemma chainToGraph_ids: "distinct (map gn_id (fst (chainToGraph c)))"
  by (auto simp: distinct_conv_nth chainToGraph_lengths chainToGraph_node)

text \<open>The graph of a delegation chain is the chain: one node per entry, with distinct ids and at
  increasing height, carrying the entries in order, and the edges are exactly the steps from each
  node to the next, each marked revoked as the entry it leads to.\<close>
theorem chainToGraph_path:
  "let (nodes, edges) = chainToGraph c; ids = map gn_id nodes in
     map gn_data nodes = c \<and> distinct ids \<and> sorted (map gn_y nodes)
     \<and> map (\<lambda>e. (gd_source e, gd_target e)) edges = zip (butlast ids) (tl ids)
     \<and> map gd_revoked edges = map ge_revoked (tl c)"
proof -
  have "map (\<lambda>e. (gd_source e, gd_target e)) (snd (chainToGraph c)) =
     zip (butlast (map gn_id (fst (chainToGraph c)))) (tl (map gn_id (fst (chainToGraph c))))"
    by (rule nth_equalityI)
       (auto simp: chainToGraph_lengths nth_butlast nth_tl chainToGraph_node chainToGraph_edge)
  moreover have "map gn_data (fst (chainToGraph c)) = c"
    by (rule nth_equalityI) (auto simp: chainToGraph_lengths chainToGraph_node)
  moreover have "map gd_revoked (snd (chainToGraph c)) = map ge_revoked (tl c)"
    by (rule nth_equalityI) (auto simp: chainToGraph_lengths nth_tl chainToGraph_edge)
  moreover have "sorted (map gn_y (fst (chainToGraph c)))"
    by (auto simp: sorted_iff_nth_mono chainToGraph_lengths chainToGraph_node)
  ultimately show ?thesis using chainToGraph_ids [of c] by (simp add: case_prod_beta Let_def)
qed

section \<open>Events of the tree\<close>

lemma fires_grant_box [simp]: "can_fire (grant_box sel i g h) e \<longleftrightarrow> e = sel g"
  by (auto simp: grant_box_def Let_def)

lemma those_nth: "those (map f xs) = Some ys \<Longrightarrow> y \<in> set ys \<Longrightarrow> \<exists>x\<in>set xs. f x = Some y"
  by (induction xs arbitrary: ys) (auto split: option.splits)

lemma fires_in_set: "fires_in ks e \<longleftrightarrow> (\<exists>k\<in>set ks. can_fire k e)"
  by (induction ks) auto

lemma fires_node_box:
  "node_box sel i grants n g = Some b \<Longrightarrow> can_fire b e \<Longrightarrow> g \<in> set grants \<Longrightarrow>
   \<exists>h\<in>set grants. e = sel h"
proof (induction n arbitrary: g b)
  case (Suc n)
  then obtain bs where bs: "those (map (node_box sel i grants n) (grant_kids grants g)) = Some bs"
    and b: "b = El ''li'' [] ([grant_box sel i g (grant_kids grants g \<noteq> [])]
           @ only_if (grant_kids grants g \<noteq> []) [El ''ul'' [] bs])"
    by (auto simp: Let_def split: option.splits)
  from Suc.prems(2) b have "e = sel g \<or> fires_in bs e" by auto
  then show ?case
  proof
    assume "fires_in bs e"
    then obtain k where k: "k \<in> set bs" "can_fire k e" by (auto simp: fires_in_set)
    then obtain h where "h \<in> set (grant_kids grants g)" "node_box sel i grants n h = Some k"
      using those_nth [OF bs] by blast
    then show ?thesis using Suc.IH k(2) grant_kids_in by blast
  qed (use Suc.prems(3) in blast)
qed simp

lemma fires_grant_tree:
  assumes "grant_tree sel i None grants = Some t" "can_fire t e"
  shows "\<exists>h\<in>set grants. e = sel h"
proof (cases "snd (collect_grants grants)")
  case Nil
  with assms show ?thesis by (auto simp: grant_tree_def grant_root_def)
next
  case (Cons g gs)
  then have "g \<in> set (snd (collect_grants grants))" by simp
  then have "g \<in> set grants" by (simp add: grant_roots)
  with assms Cons show ?thesis
    by (auto simp: grant_tree_def grant_root_def dest: fires_node_box)
qed

end
