(* ===== verification/Delegations.thy ===== *)
theory Delegations
  imports Auth Hooks Ui GrantViz
begin

text \<open>
  \<open>src/pages/dashboard/Delegations.tsx\<close>, and the two pages that only lead elsewhere,
  \<open>Agents.tsx\<close> and \<open>ApiKeys.tsx\<close>. The delegations page lists the grants of the selected
  project through a pager and draws them as a tree; a grant that is selected has its chain
  verified and can be revoked. The effect that verifies the chain is cancelled when the
  selection changes (its flag \<open>active\<close>); the revocation has no such flag.
\<close>

section \<open>State and handlers\<close>

definition GRANT_PAGE_SIZE :: nat where
  "GRANT_PAGE_SIZE = 50"

datatype dl_wait = DlChain bool | DlRevoke

record delegations =
  dl_project :: "jstr option"
  dl_pager :: "(jstr, v1Grant) pager"
  dl_selected :: "v1Grant option"
  dl_chain :: "v1VerifyChainResponse option"
  dl_chainLoading :: bool
  dl_chainError :: "jstr option"
  dl_revoking :: bool
  dl_revokeError :: "jstr option"
  dl_revoked :: bool
  dl_showConfirm :: bool
  dl_pending :: "dl_wait list"
  dl_requests :: "api_request list"

text \<open>The fetcher closes over \<open>project?.id ?? ""\<close>; it is identified by that id.\<close>

definition grants_fetcher :: "jstr option \<Rightarrow> jstr" where
  "grants_fetcher pid = nullish pid []"

definition grants_request :: "jstr \<times> nat \<times> jstr \<Rightarrow> api_request" where
  "grants_request q = (case q of (pid, n, t) \<Rightarrow> ListGrants n t pid)"

definition dl_mount :: "jstr option \<Rightarrow> delegations" where
  "dl_mount pid = \<lparr>dl_project = pid,
     dl_pager = refresh (grants_fetcher pid) GRANT_PAGE_SIZE pager_init,
     dl_selected = None, dl_chain = None, dl_chainLoading = False, dl_chainError = None,
     dl_revoking = False, dl_revokeError = None, dl_revoked = False, dl_showConfirm = False,
     dl_pending = [], dl_requests = []\<rparr>"

definition dl_change_project :: "jstr option \<Rightarrow> delegations \<Rightarrow> delegations" where
  "dl_change_project pid s =
     (if pid = dl_project s then s
      else s\<lparr>dl_project := pid,
             dl_pager := refresh (grants_fetcher pid) GRANT_PAGE_SIZE (dl_pager s)\<rparr>)"

text \<open>The cleanup of the chain effect.\<close>

fun deactivate :: "dl_wait \<Rightarrow> dl_wait" where
  "deactivate (DlChain b) = DlChain False"
| "deactivate DlRevoke = DlRevoke"

text \<open>\<open>grant_id!\<close> is taken at its word; an absent id would be sent as the empty string.\<close>

definition asserted :: "jstr option \<Rightarrow> jstr" where
  "asserted v = nullish v []"

definition setSelected :: "v1Grant option \<Rightarrow> delegations \<Rightarrow> delegations" where
  "setSelected g s =
     (let s' = s\<lparr>dl_selected := g, dl_pending := map deactivate (dl_pending s)\<rparr> in
      case g of
        None \<Rightarrow> s'
      | Some x \<Rightarrow> s'\<lparr>dl_chain := None, dl_chainError := None, dl_chainLoading := True,
          dl_revoked := False, dl_revokeError := None,
          dl_pending := dl_pending s' @ [DlChain True],
          dl_requests := dl_requests s' @ [VerifyGrant (asserted (gr_grant_id x))]\<rparr>)"

definition chain_settled :: "bool \<Rightarrow> v1VerifyChainResponse reply \<Rightarrow> delegations \<Rightarrow> delegations" where
  "chain_settled active r s = (case r of
     Rejected e \<Rightarrow> s
   | Resolved data err \<Rightarrow>
       if \<not> active then s
       else (if js_truthy err \<or> data = None
             then s\<lparr>dl_chainError := Some (or_str (Some (errText err)) (js ''Grant not found.''))\<rparr>
             else s\<lparr>dl_chain := data\<rparr>)\<lparr>dl_chainLoading := False\<rparr>)"

definition dl_confirm_revoke :: "v1Grant \<Rightarrow> delegations \<Rightarrow> delegations" where
  "dl_confirm_revoke g s = s\<lparr>dl_showConfirm := False, dl_revoking := True, dl_revokeError := None,
     dl_pending := dl_pending s @ [DlRevoke],
     dl_requests := dl_requests s @ [RevokeGrant (asserted (gr_grant_id g))]\<rparr>"

text \<open>The reply's data is its optional field \<open>revoked\<close>.\<close>

definition revoke_settled :: "bool option reply \<Rightarrow> delegations \<Rightarrow> delegations" where
  "revoke_settled r s = (case r of
     Rejected e \<Rightarrow> s
   | Resolved data err \<Rightarrow>
       (if js_truthy err \<or> data = None
        then s\<lparr>dl_revokeError := Some (or_str (Some (errText err)) (js ''Failed to revoke.''))\<rparr>
        else s\<lparr>dl_revoked := nullish (the data) False\<rparr>)\<lparr>dl_revoking := False\<rparr>)"

datatype delegations_event =
    DlSelect v1Grant
  | DlBack
  | DlAskRevoke
  | DlConfirm v1Grant
  | DlCancel
  | DlLoadMore
  | DlProject "jstr option"
  | DlPage nat "v1Grant v1ListResponse reply"
  | DlChainReply nat "v1VerifyChainResponse reply"
  | DlRevokeReply nat "bool option reply"

fun dl_step :: "delegations \<Rightarrow> delegations_event \<Rightarrow> delegations" where
  "dl_step s (DlSelect g) = setSelected (Some g) s"
| "dl_step s DlBack = setSelected None s"
| "dl_step s DlAskRevoke = s\<lparr>dl_showConfirm := True\<rparr>"
| "dl_step s (DlConfirm g) = dl_confirm_revoke g s"
| "dl_step s DlCancel = s\<lparr>dl_showConfirm := False\<rparr>"
| "dl_step s DlLoadMore =
     s\<lparr>dl_pager := loadMore (grants_fetcher (dl_project s)) GRANT_PAGE_SIZE (dl_pager s)\<rparr>"
| "dl_step s (DlProject pid) = dl_change_project pid s"
| "dl_step s (DlPage i r) = s\<lparr>dl_pager := settle i (fetcher_result r) (dl_pager s)\<rparr>"
| "dl_step s (DlChainReply i r) =
     (if i < length (dl_pending s) then
        (case dl_pending s ! i of
           DlChain active \<Rightarrow> chain_settled active r (s\<lparr>dl_pending := remove_nth i (dl_pending s)\<rparr>)
         | DlRevoke \<Rightarrow> s)
      else s)"
| "dl_step s (DlRevokeReply i r) =
     (if i < length (dl_pending s) \<and> dl_pending s ! i = DlRevoke
      then revoke_settled r (s\<lparr>dl_pending := remove_nth i (dl_pending s)\<rparr>) else s)"

fun dl_outside :: "delegations_event \<Rightarrow> bool" where
  "dl_outside (DlProject p) = True"
| "dl_outside (DlPage i r) = True"
| "dl_outside (DlChainReply i r) = True"
| "dl_outside (DlRevokeReply i r) = True"
| "dl_outside _ = False"

lemmas dl_defs =
  dl_change_project_def setSelected_def chain_settled_def dl_confirm_revoke_def revoke_settled_def

section \<open>The chain as a graph\<close>

text \<open>\<open>money\<close> is \<open>(Number(cents) / 100).toLocaleString()\<close>, which depends on the locale.\<close>

definition grant_scope_text :: "(jstr \<Rightarrow> jstr) \<Rightarrow> v1Scope option \<Rightarrow> jstr" where
  "grant_scope_text money scope =
     (let globs = Option.bind scope sc_resource_globs;
          cents = Option.bind scope sc_max_value_cents;
          parts = (case globs of
              None \<Rightarrow> [] | Some l \<Rightarrow> only_if (l \<noteq> []) [join_with (js '', '') (take 2 l)])
            @ (if truthy cents then [[0x2264, 32, 36] @ money (the cents)] else [])
      in join_with [32, 0xB7, 32] parts)"

definition grant_entry_of :: "(jstr \<Rightarrow> jstr) \<Rightarrow> nat \<Rightarrow> v1Grant \<Rightarrow> graph_entry" where
  "grant_entry_of money i g =
     \<lparr>ge_subject = or_str (if i = 0 then gr_principal_id g else gr_subject_id g)
        (or_str (gr_subject_id g) (or_str (gr_principal_id g) (js ''-''))),
      ge_role = (if i = 0 then Principal else if i = 1 then Agent else Subagent),
      ge_capabilities = gr_capabilities g,
      ge_scope = (let t = grant_scope_text money (gr_scope g) in if t = [] then None else Some t),
      ge_revoked = None\<rparr>"

definition grantsToGraph :: "(jstr \<Rightarrow> jstr) \<Rightarrow> v1Grant list \<Rightarrow> graph_node list \<times> graph_edge list" where
  "grantsToGraph money chain =
     chainToGraph (map (\<lambda>(i, g). grant_entry_of money i g) (zip [0..<length chain] chain))"

section \<open>The view\<close>

definition labelled :: "string \<Rightarrow> jstr \<Rightarrow> 'e node" where
  "labelled label val = El ''div'' [] [El ''span'' [] [tx label], El ''span'' [] [Text val]]"

definition chain_status :: "delegations \<Rightarrow> delegations_event node list" where
  "chain_status s =
     (if dl_chainLoading s then [El ''span'' [] [Text (js ''Verifying'' @ [0x2026])]]
      else (case dl_chain s of
          Some c \<Rightarrow> [status_pill None
            (Some (js (if vc_valid c = Some True then ''VALID'' else ''INVALID'')))
            (Some (vc_valid c = Some True))]
        | None \<Rightarrow> if truthy (dl_chainError s)
            then [status_pill (Some PENDING) (Some (js ''ERROR'')) None] else []))"

definition chain_row :: "nat \<times> v1Grant \<Rightarrow> 'e node" where
  "chain_row ig = (let (i, g) = ig in El ''div'' []
     [El ''div'' []
       [El ''span'' []
         [El ''span'' [] [Text (or_str (gr_principal_id g) (js ''?''))], Text [32, 0x2192, 32],
          El ''span'' [] [Text (or_str (gr_subject_id g) (js ''?''))]]],
      El ''span'' [] [tx ''Depth #'', Text (nat_text (i + 1))]])"

definition chain_detail ::
  "(jstr \<Rightarrow> jstr) \<Rightarrow> bool \<Rightarrow> v1VerifyChainResponse \<Rightarrow> delegations_event node list" where
  "chain_detail money dark c = (let grants = nullish (vc_chain c) [] in
     only_if (grants \<noteq> [])
      ([El ''div'' [] [El ''div'' [] [],
          authority_graph dark (min 560 (max 240 (length grants * 132))) True
            (grantsToGraph money grants)],
        El ''div'' [] (map chain_row (zip [0..<length grants] grants))]
       @ if_truthy (vc_reason c) (\<lambda>r. [El ''div'' [] [El ''strong'' [] [tx ''Reason:''], tx '' '', Text r]])))"

definition dl_revoke_part :: "v1Grant \<Rightarrow> delegations \<Rightarrow> delegations_event node" where
  "dl_revoke_part g s = El ''div'' []
     ([if dl_revoked s
       then El ''div'' [] [icon ''IconCheck'',
              El ''span'' [] [tx ''Grant revoked. All authority beneath it is now invalid.'']]
       else button ''danger'' ''md'' False False [OnClick DlAskRevoke] [tx ''Revoke this grant'']]
      @ if_truthy (dl_revokeError s) (\<lambda>m. [El ''div'' [] [error_box m]]))"

definition revoke_dialog :: "v1Grant \<Rightarrow> delegations \<Rightarrow> delegations_event node list" where
  "revoke_dialog g s = confirm_dialog (dl_showConfirm s) (js ''Revoke this grant?'')
     (js ''Revoking '' @ template (gr_grant_id g) @
       js '' will invalidate all authority delegated beneath it. This action cannot be undone.'')
     (js ''Revoke grant'') (js ''Cancel'') (DlConfirm g) DlCancel (dl_revoking s) True"

definition dl_detail ::
  "(jstr \<Rightarrow> jstr) \<Rightarrow> bool \<Rightarrow> v1Grant \<Rightarrow> delegations \<Rightarrow> delegations_event node" where
  "dl_detail money dark g s =
     card (gr_grant_id g)
      (Some (template (gr_principal_id g) @ [32, 0x2192, 32] @ template (gr_subject_id g)))
      [button ''secondary'' ''sm'' False False [OnClick DlBack] [tx ''Back'']]
      [El ''div'' []
        ([El ''div'' [] [],
          El ''div'' []
           [labelled ''Principal'' (or_str (gr_principal_id g) (js ''-'')),
            labelled ''Subject'' (or_str (gr_subject_id g) (js ''-'')),
            labelled ''Parent Grant'' (or_str (gr_parent_grant_id g) (js ''root'')),
            labelled ''Capabilities''
             (or_str (Some (join_with (js '', '') (nullish (gr_capabilities g) []))) (js ''-''))],
          El ''div'' []
           ([El ''div'' [] ([El ''span'' [] [tx ''Authority Chain'']] @ chain_status s)]
            @ if_truthy (dl_chainError s) (\<lambda>m. [El ''p'' [] [Text m]])
            @ if_some (dl_chain s) (chain_detail money dark)),
          dl_revoke_part g s]
         @ revoke_dialog g s)]"

definition grant_row :: "nat \<Rightarrow> nat \<times> v1Grant \<Rightarrow> delegations_event node" where
  "grant_row n ig = (let (i, g) = ig in
     El ''tr'' [OnClick (DlSelect g), Flag ''borderBottom'' (i + 1 < n)]
      [El ''td'' [] (opt_text (gr_grant_id g)),
       El ''td'' [] (opt_text (gr_principal_id g) @ [Text [32, 0x2192, 32]] @ opt_text (gr_subject_id g)),
       El ''td'' [] [Text (join_with (js '', '') (take 3 (nullish (gr_capabilities g) [])))],
       El ''td'' [] [El ''span'' [] [icon ''IconShieldCheck'', tx '' Verify'']]])"

definition grants_table :: "delegations \<Rightarrow> delegations_event node list" where
  "grants_table s = (let p = dl_pager s; grants = pg_items p in
     [El ''div'' []
       [El ''table'' []
         [El ''thead'' [] [El ''tr'' []
           [El ''th'' [] [tx ''Grant ID''], El ''th'' [] [Text (js ''Principal '' @ [0x2192] @ js '' Subject'')],
            El ''th'' [] [tx ''Capabilities''], El ''th'' [] [tx ''Verify'']]],
          El ''tbody'' [] (map (grant_row (length grants)) (zip [0..<length grants] grants))]],
      El ''p'' []
       [tx ''Showing '', Text (nat_text (length grants)), tx '' grant'',
        tx (if length grants \<noteq> 1 then ''s'' else ''''), tx ''.'']]
     @ load_more_button DlLoadMore (pg_loading p) (\<not> hasMore p))"

text \<open>The tree is \<open>None\<close> only where the page's recursion would not end; it renders nothing then.\<close>

definition dl_list :: "delegations \<Rightarrow> delegations_event node" where
  "dl_list s = (let p = dl_pager s; grants = pg_items p in
     El ''div'' []
      [card (Some (js ''Grant hierarchy''))
        (Some (js ''Authority flows from the root principal down through signed delegations.'')) []
        ([El ''div'' [] []] @
         (if grants \<noteq> []
          then (case grant_tree DlSelect None None grants of None \<Rightarrow> [] | Some t \<Rightarrow> [t])
          else [El ''p'' [] [tx ''No grants to visualize yet.'']])),
       card None None []
        ([El ''div'' [] []] @
         (if pg_loading p \<and> \<not> pg_hasInitialLoaded p then [table_skeleton 8 4]
          else if truthy (pg_error p) then [El ''p'' [] [tx ''Couldn't load grants. Try refreshing.'']]
          else if grants = [] then [empty_state [icon ''IconGitBranch''] (js ''No grants issued yet'')
            (Some (js ''Issue a root grant for a human principal, then delegate scoped authority to agents and sub-agents.'')) []]
          else grants_table s))])"

definition dl_view :: "(jstr \<Rightarrow> jstr) \<Rightarrow> bool \<Rightarrow> delegations \<Rightarrow> delegations_event node" where
  "dl_view money dark s = El ''div'' []
     ([page_header (js ''Delegations'')
        (Some (js ''Issue and verify capability grants. Authority attenuates monotonically from a root principal down each signed delegation. Click a grant to verify its chain.''))
        None []]
      @ if_truthy (pg_error (dl_pager s)) (\<lambda>m. [error_box m])
      @ [case dl_selected s of Some g \<Rightarrow> dl_detail money dark g s | None \<Rightarrow> dl_list s])"

section \<open>Pages that lead elsewhere\<close>

definition agents_view :: "(jstr \<Rightarrow> 'e) option \<Rightarrow> 'e node" where
  "agents_view onNavigate = El ''div'' []
     [page_header (js ''Agents'') (Some (js ''Autonomous subjects that act under delegated authority.''))
        None [],
      empty_state [icon ''IconCpu''] (js ''No agent registry yet'') None
       (case onNavigate of None \<Rightarrow> [] | Some nav \<Rightarrow>
         [El ''div'' []
           [button ''secondary'' ''sm'' False False [OnClick (nav (js ''delegations''))]
             [icon ''IconGitBranch'', El ''span'' [] [tx ''Verify a grant'']],
            button ''secondary'' ''sm'' False False [OnClick (nav (js ''verify''))]
             [icon ''IconShieldCheck'', El ''span'' [] [tx ''Verify evidence'']]]])]"

definition api_keys_view :: "(jstr \<Rightarrow> 'e) \<Rightarrow> 'e node" where
  "api_keys_view nav = El ''div'' []
     [page_header (js ''API keys'')
        (Some (js ''Keys authenticate your calls to the babit API. Each key belongs to a project so you can separate environments and revoke access independently.''))
        None [],
      card None None []
       [empty_state [icon ''IconKey''] (js ''Manage keys inside a project'') None
         [button ''brand'' ''md'' False False [OnClick (nav (js ''/dashboard/projects''))]
           [icon ''IconFolder'', El ''span'' [] [tx ''Go to projects'']]]]]"

lemma fires_agents: "can_fire (agents_view (Some nav)) e \<longleftrightarrow>
    e = nav (js ''delegations'') \<or> e = nav (js ''verify'')"
  by (auto simp: agents_view_def)

lemma fires_api_keys: "can_fire (api_keys_view nav) e \<longleftrightarrow> e = nav (js ''/dashboard/projects'')"
  by (auto simp: api_keys_view_def)

section \<open>What the page can do\<close>

lemma fires_labelled [simp]: "\<not> can_fire (labelled l v) e"
  by (simp add: labelled_def)

lemma fires_chain_status [simp]: "\<not> fires_in (chain_status s) e"
  by (auto simp: chain_status_def split: option.splits)

lemma fires_chain_detail [simp]: "\<not> fires_in (chain_detail m d c) e"
  by (auto simp: chain_detail_def Let_def chain_row_def fires_in_map split: prod.splits)

lemma fires_dl_revoke_part [simp]:
  "can_fire (dl_revoke_part g s) e \<longleftrightarrow> \<not> dl_revoked s \<and> e = DlAskRevoke"
  by (auto simp: dl_revoke_part_def)

lemma fires_dl_detail: "can_fire (dl_detail m d g s) e \<Longrightarrow>
   e = DlBack \<or> e = DlAskRevoke \<and> \<not> dl_revoked s
   \<or> dl_showConfirm s \<and> (e = DlCancel \<or> e = DlConfirm g \<and> \<not> dl_revoking s)"
  by (auto simp: dl_detail_def revoke_dialog_def split: if_splits)

lemma fires_grants_table: "fires_in (grants_table s) e \<Longrightarrow>
   (\<exists>g\<in>set (pg_items (dl_pager s)). e = DlSelect g)
   \<or> e = DlLoadMore \<and> hasMore (dl_pager s) \<and> \<not> pg_loading (dl_pager s)"
  by (auto simp: grants_table_def Let_def grant_row_def fires_in_map set_zip split: prod.splits)

lemma fires_dl_list: "can_fire (dl_list s) e \<Longrightarrow>
   (\<exists>g\<in>set (pg_items (dl_pager s)). e = DlSelect g)
   \<or> e = DlLoadMore \<and> hasMore (dl_pager s) \<and> \<not> pg_loading (dl_pager s)"
  by (auto simp: dl_list_def Let_def dest: fires_grants_table fires_grant_tree
      split: if_splits option.splits)

lemma fires_dl_view: "can_fire (dl_view m d s) e \<Longrightarrow>
   (case dl_selected s of
      None \<Rightarrow> (\<exists>g\<in>set (pg_items (dl_pager s)). e = DlSelect g)
        \<or> e = DlLoadMore \<and> hasMore (dl_pager s) \<and> \<not> pg_loading (dl_pager s)
    | Some g \<Rightarrow> e = DlBack \<or> e = DlAskRevoke \<and> \<not> dl_revoked s
        \<or> dl_showConfirm s \<and> (e = DlCancel \<or> e = DlConfirm g \<and> \<not> dl_revoking s))"
  by (auto simp: dl_view_def dest: fires_dl_list fires_dl_detail split: option.splits)

section \<open>Invariants\<close>

text \<open>
  The pager keeps its own invariant. A chain verification in flight is current only for the
  last selection: at most one is active, and then a grant is selected and the page is
  verifying. A revocation is requested only for a grant the user was shown and confirmed.
\<close>

fun active_chain :: "dl_wait \<Rightarrow> bool" where
  "active_chain (DlChain b) = b"
| "active_chain DlRevoke = False"

definition dl_inv :: "delegations \<Rightarrow> bool" where
  "dl_inv s \<longleftrightarrow>
     pager_inv (dl_pager s)
     \<and> length (filter active_chain (dl_pending s)) \<le> 1
     \<and> (filter active_chain (dl_pending s) \<noteq> [] \<longrightarrow>
          dl_selected s \<noteq> None \<and> dl_chainLoading s \<and> dl_chain s = None \<and> dl_chainError s = None)
     \<and> (dl_revoking s \<longrightarrow> DlRevoke \<in> set (dl_pending s))"

lemma no_active_deactivated [simp]: "filter active_chain (map deactivate ws) = []"
proof (induction ws)
  case (Cons w ws)
  then show ?case by (cases w) auto
qed simp

lemma revoke_deactivated [simp]: "DlRevoke \<in> deactivate ` set ws \<longleftrightarrow> DlRevoke \<in> set ws"
proof -
  have "deactivate w = DlRevoke \<longleftrightarrow> w = DlRevoke" for w by (cases w) auto
  then show ?thesis by (metis image_iff)
qed

lemma dl_inv_mount: "dl_inv (dl_mount pid)"
  by (simp add: dl_inv_def dl_mount_def pager_inv_refresh)

lemma dl_inv_select: "dl_inv s \<Longrightarrow> dl_inv (setSelected g s)"
  by (cases g) (auto simp: dl_inv_def setSelected_def Let_def)

lemma dl_inv_confirm: "dl_inv s \<Longrightarrow> dl_inv (dl_confirm_revoke g s)"
  by (auto simp: dl_inv_def dl_confirm_revoke_def)

lemma dl_inv_pager: "dl_inv s \<Longrightarrow> pager_inv p \<Longrightarrow> dl_inv (s\<lparr>dl_pager := p\<rparr>)"
  by (simp add: dl_inv_def)

lemma dl_inv_pagerD: "dl_inv s \<Longrightarrow> pager_inv (dl_pager s)"
  by (simp add: dl_inv_def)

lemma dl_inv_flag: "dl_inv (s\<lparr>dl_showConfirm := b\<rparr>) = dl_inv s"
  by (simp add: dl_inv_def)

lemma dl_inv_project: "dl_inv s \<Longrightarrow> dl_inv (dl_change_project pid s)"
  by (auto simp: dl_change_project_def dl_inv_def pager_inv_refresh)

lemma dl_inv_resume:
  assumes "dl_inv s" "dl_revoking s \<longrightarrow> DlRevoke \<in> set (remove_nth i (dl_pending s))"
  shows "dl_inv (s\<lparr>dl_pending := remove_nth i (dl_pending s)\<rparr>)"
proof -
  have "length (filter active_chain (remove_nth i (dl_pending s)))
      \<le> length (filter active_chain (dl_pending s))" by (rule filter_remove_nth_le)
  then show ?thesis
    using assms by (auto simp: dl_inv_def simp flip: length_greater_0_conv dest: order.strict_trans2)
qed

lemma dl_inv_chain:
  assumes "dl_inv s" "i < length (dl_pending s)" "dl_pending s ! i = DlChain active"
  shows "dl_inv (chain_settled active r (s\<lparr>dl_pending := remove_nth i (dl_pending s)\<rparr>))"
proof -
  let ?s = "s\<lparr>dl_pending := remove_nth i (dl_pending s)\<rparr>"
  have "DlRevoke \<in> set (dl_pending s) \<Longrightarrow> DlRevoke \<in> set (remove_nth i (dl_pending s))"
    by (rule in_remove_nth) (simp_all add: assms(3))
  then have inv: "dl_inv ?s" using assms(1) by (intro dl_inv_resume) (auto simp: dl_inv_def)
  have "filter active_chain (remove_nth i (dl_pending s)) = []" if active
    using assms that by (intro filter_remove_nth) (auto simp: dl_inv_def)
  with inv show ?thesis by (auto simp: chain_settled_def dl_inv_def split: reply.splits)
qed

lemma dl_inv_revoke:
  assumes "dl_inv s"
  shows "dl_inv (revoke_settled (Resolved d e) (s\<lparr>dl_pending := remove_nth i (dl_pending s)\<rparr>))"
proof -
  have "dl_inv ((s\<lparr>dl_revoking := False\<rparr>)\<lparr>dl_pending := remove_nth i (dl_pending (s\<lparr>dl_revoking := False\<rparr>))\<rparr>)"
    using assms by (intro dl_inv_resume) (auto simp: dl_inv_def)
  then show ?thesis by (auto simp: revoke_settled_def dl_inv_def)
qed

text \<open>The last conjunct is lost when a revocation is rejected, so it is stated for steps without one.\<close>

fun no_rejected_revoke :: "delegations_event \<Rightarrow> bool" where
  "no_rejected_revoke (DlRevokeReply i (Rejected e)) = False"
| "no_rejected_revoke _ = True"

lemma dl_inv_step: "dl_inv s \<Longrightarrow> no_rejected_revoke e \<Longrightarrow> dl_inv (dl_step s e)"
proof (cases e)
  case (DlChainReply i r)
  then show "dl_inv s \<Longrightarrow> ?thesis"
    by (auto simp: dl_inv_chain split: dl_wait.splits)
next
  case (DlRevokeReply i r)
  then show "dl_inv s \<Longrightarrow> no_rejected_revoke e \<Longrightarrow> ?thesis"
    by (cases r) (auto simp: dl_inv_revoke)
qed (simp_all add: dl_inv_select dl_inv_confirm dl_inv_project dl_inv_pager dl_inv_pagerD pager_inv_ops
    dl_inv_flag)

definition dl_safe_step :: "delegations \<Rightarrow> delegations_event \<Rightarrow> delegations" where
  "dl_safe_step s e = (if no_rejected_revoke e then dl_step s e else s)"

interpretation dlm: machine "dl_mount pid" dl_safe_step dl_inv for pid
  by unfold_locales (simp_all add: dl_inv_mount dl_safe_step_def dl_inv_step del: dl_step.simps)

subsection \<open>The hosted pager\<close>

fun dl_route :: "delegations \<Rightarrow> delegations_event \<Rightarrow> (jstr, v1Grant) pager_event list" where
  "dl_route s DlLoadMore = [LoadMore (grants_fetcher (dl_project s)) GRANT_PAGE_SIZE]"
| "dl_route s (DlProject pid) =
     (if pid = dl_project s then [] else [Refresh (grants_fetcher pid) GRANT_PAGE_SIZE])"
| "dl_route s (DlPage i r) = [Settled i (fetcher_result r)]"
| "dl_route s _ = []"

lemma dl_pager_parts [simp]:
  "dl_pager (setSelected g s) = dl_pager s" "dl_pager (chain_settled a r s) = dl_pager s"
  "dl_pager (dl_confirm_revoke x s) = dl_pager s" "dl_pager (revoke_settled q s) = dl_pager s"
  by (auto simp: dl_defs Let_def split: option.splits reply.splits)

interpretation dlp: tracker dl_step pager_step dl_pager dl_route
proof
  show "dl_pager (dl_step h e) = run pager_step (dl_pager h) (dl_route h e)" for h e
    by (cases e) (auto simp: dl_change_project_def split: dl_wait.splits)
qed

text \<open>The page's last list request names its project.\<close>

lemma dl_asked_step:
  "asked_for (grants_fetcher (dl_project s)) (dl_pager s) \<Longrightarrow>
   asked_for (grants_fetcher (dl_project (dl_step s e))) (dl_pager (dl_step s e))"
  by (cases e) (auto simp: dl_change_project_def dl_defs Let_def split: dl_wait.splits option.splits reply.splits)

lemma dl_asked_mount: "asked_for (grants_fetcher pid) (dl_pager (dl_mount pid))"
  by (simp add: dl_mount_def)

lemma dl_pager_inv: "pager_inv (dl_pager (run dl_step (dl_mount pid) es))"
proof -
  obtain fs where "dl_pager (run dl_step (dl_mount pid) es)
      = run pager_step (dl_pager (dl_mount pid)) fs" using dlp.hosted_run by blast
  moreover have "pager_inv (dl_pager (dl_mount pid))" by (simp add: dl_mount_def pager_inv_refresh)
  ultimately show ?thesis by (simp add: pgr.inv_run_from)
qed

subsection \<open>Revocations\<close>

text \<open>Only a confirmed revocation sends the request, and it names the grant on the screen.\<close>

definition revoke_requests :: "delegations \<Rightarrow> api_request list" where
  "revoke_requests s = filter (\<lambda>q. case q of RevokeGrant i \<Rightarrow> True | _ \<Rightarrow> False) (dl_requests s)"

lemma outside_never_revokes:
  assumes "dl_outside e"
  shows "dl_requests (dl_step s e) = dl_requests s"
  using assms
  by (cases e) (auto simp: dl_change_project_def chain_settled_def revoke_settled_def
      split: dl_wait.splits reply.splits)

text \<open>C17. A grant is revoked only on purpose: of everything the user can do and every answer that can
  arrive, only confirming the open dialog sends a revocation, one request, and it names the grant
  on the screen.\<close>
theorem revoke_only_confirmed:
  assumes "can_fire (dl_view m d s) e \<or> dl_outside e"
  shows "revoke_requests (dl_step s e) = revoke_requests s
    \<or> (\<exists>g. dl_selected s = Some g \<and> dl_showConfirm s \<and> e = DlConfirm g
         \<and> revoke_requests (dl_step s e) = revoke_requests s @ [RevokeGrant (asserted (gr_grant_id g))])"
  using assms
proof
  assume "can_fire (dl_view m d s) e"
  from fires_dl_view [OF this] show ?thesis
    by (auto simp: revoke_requests_def dl_defs Let_def split: option.splits)
next
  assume "dl_outside e"
  then show ?thesis by (simp add: revoke_requests_def outside_never_revokes)
qed

theorem revoke_only_confirmed_witness:
  "let g = grant_entry (Some (js ''g1'')) None;
       s = (dl_mount None)\<lparr>dl_selected := Some g, dl_showConfirm := True\<rparr> in
   revoke_requests (dl_step s (DlConfirm g)) = [RevokeGrant (js ''g1'')]"
proof -
  let ?g = "grant_entry (Some (js ''g1'')) None"
  let ?s = "(dl_mount None)\<lparr>dl_selected := Some ?g, dl_showConfirm := True\<rparr>"
  have "can_fire (dl_view (\<lambda>m. []) False ?s) (DlConfirm ?g)"
    by (simp add: dl_view_def dl_detail_def revoke_dialog_def dl_mount_def)
  moreover have "revoke_requests (dl_step ?s (DlConfirm ?g)) \<noteq> revoke_requests ?s"
    by (simp add: revoke_requests_def dl_confirm_revoke_def)
  moreover have "revoke_requests ?s = []" by (simp add: revoke_requests_def dl_mount_def)
  ultimately show ?thesis
    using revoke_only_confirmed [of "\<lambda>m. []" False ?s "DlConfirm ?g"]
    by (simp add: grant_entry_def asserted_def Let_def)
qed

text \<open>C39. A revocation's answer lands on the wrong grant: confirm the revocation of one grant, go back
  and open another before the answer arrives, and the other grant is shown as revoked, although
  only the first was.\<close>
theorem revoked_shown_for_other_grant:
  assumes "dl_pending s = []" "dl_selected s = Some g"
  shows "let s' = run dl_step s [DlConfirm g, DlBack, DlSelect h, DlRevokeReply 0 (Resolved (Some (Some True)) JUndef)]
    in dl_selected s' = Some h \<and> dl_revoked s'
       \<and> dl_requests s' = dl_requests s
            @ [RevokeGrant (asserted (gr_grant_id g)), VerifyGrant (asserted (gr_grant_id h))]"
  using assms by (simp add: dl_defs)

theorem revoked_shown_for_other_grant_witness:
  "let g = grant_entry (Some (js ''g1'')) None; h = grant_entry (Some (js ''h1'')) None;
       s' = run dl_step ((dl_mount None)\<lparr>dl_selected := Some g\<rparr>)
         [DlConfirm g, DlBack, DlSelect h, DlRevokeReply 0 (Resolved (Some (Some True)) JUndef)] in
   dl_selected s' = Some h \<and> dl_revoked s'"
  using revoked_shown_for_other_grant
    [of "(dl_mount None)\<lparr>dl_selected := Some (grant_entry (Some (js ''g1'')) None)\<rparr>"
      "grant_entry (Some (js ''g1'')) None" "grant_entry (Some (js ''h1'')) None"]
  by (simp add: dl_mount_def Let_def del: dl_step.simps foldl_Cons)

text \<open>A rejected revocation leaves the dialog's button loading.\<close>

lemma rejected_revoke_stuck:
  assumes "dl_pending s = []"
  shows "let s' = run dl_step s [DlConfirm g, DlRevokeReply 0 (Rejected e), DlAskRevoke] in
    dl_revoking s' \<and> dl_pending s' = [] \<and> dl_revokeError s' = None"
  using assms by (simp add: dl_defs)

end
