(* ===== verification/Sessions.thy ===== *)
theory Sessions
  imports ListPage Replay
begin

text \<open>
  \<open>src/pages/dashboard/Sessions.tsx\<close>: the capture sessions of the selected project, the external
  anchor of the selected one, fetched by an effect that is cancelled when the selection
  changes, and the replay opened over it.
\<close>

section \<open>State and handlers\<close>

record sessions =
  ss_project :: "jstr option"
  ss_pager :: "(jstr, v1Session) pager"
  ss_selected :: "v1Session option"
  ss_replaySession :: "(v1Session \<times> replay) option"
  ss_anchor :: "v1Anchor option"
  ss_anchorLoading :: bool
  ss_anchorError :: "jstr option"
  ss_pending :: "bool list"
  ss_requests :: "api_request list"

definition sessions_request :: "jstr \<times> nat \<times> jstr \<Rightarrow> api_request" where
  "sessions_request q = (case q of (pid, n, t) \<Rightarrow> ListSessions n t pid)"

definition ss_mount :: "jstr option \<Rightarrow> sessions" where
  "ss_mount pid = \<lparr>ss_project = pid, ss_pager = refresh (project_key pid) PAGE_SIZE pager_init,
     ss_selected = None, ss_replaySession = None, ss_anchor = None, ss_anchorLoading = False,
     ss_anchorError = None, ss_pending = [], ss_requests = []\<rparr>"

text \<open>
  Selecting runs the effect: the cleanup clears every pending \<open>active\<close> flag, and a selection
  sends the request for its anchor.
\<close>

definition select_session :: "v1Session option \<Rightarrow> sessions \<Rightarrow> sessions" where
  "select_session x s =
     (let s' = s\<lparr>ss_selected := x, ss_pending := map (\<lambda>b. False) (ss_pending s)\<rparr> in
      case x of
        None \<Rightarrow> s'
      | Some y \<Rightarrow> s'\<lparr>ss_anchor := None, ss_anchorError := None, ss_anchorLoading := True,
          ss_pending := ss_pending s' @ [True],
          ss_requests := ss_requests s' @ [GetAnchor (nullish (se_session_id y) [])]\<rparr>)"

text \<open>The reply's data is its optional field \<open>anchor\<close>.\<close>

definition anchor_settled :: "bool \<Rightarrow> v1Anchor option reply \<Rightarrow> sessions \<Rightarrow> sessions" where
  "anchor_settled active r s = (case r of
     Rejected e \<Rightarrow> s
   | Resolved data err \<Rightarrow>
       if \<not> active then s
       else (if js_truthy err
             then s\<lparr>ss_anchorError := Some (or_str (Some (errText err)) (js ''No anchor for this session.''))\<rparr>
             else s\<lparr>ss_anchor := Option.bind data (\<lambda>a. a)\<rparr>)\<lparr>ss_anchorLoading := False\<rparr>)"

datatype sessions_event =
    SsSelect v1Session
  | SsBack
  | SsReplay v1Session
  | SsInReplay replay_event
  | SsLoadMore
  | SsProject "jstr option"
  | SsPage nat "v1Session v1ListResponse reply"
  | SsAnchorReply nat "v1Anchor option reply"

fun ss_step :: "sessions \<Rightarrow> sessions_event \<Rightarrow> sessions" where
  "ss_step s (SsSelect x) = select_session (Some x) s"
| "ss_step s SsBack = select_session None s"
| "ss_step s (SsReplay x) = s\<lparr>ss_replaySession := Some (x, replay_mount)\<rparr>"
| "ss_step s (SsInReplay e) = (case ss_replaySession s of
     None \<Rightarrow> s
   | Some (x, r) \<Rightarrow>
       if e = RyClose then s\<lparr>ss_replaySession := None\<rparr>
       else s\<lparr>ss_replaySession := Some (x, replay_step r e)\<rparr>)"
| "ss_step s SsLoadMore =
     s\<lparr>ss_pager := loadMore (project_key (ss_project s)) PAGE_SIZE (ss_pager s)\<rparr>"
| "ss_step s (SsProject pid) =
     (if pid = ss_project s then s
      else s\<lparr>ss_project := pid, ss_pager := refresh (project_key pid) PAGE_SIZE (ss_pager s)\<rparr>)"
| "ss_step s (SsPage i r) = s\<lparr>ss_pager := settle i (fetcher_result r) (ss_pager s)\<rparr>"
| "ss_step s (SsAnchorReply i r) =
     (if i < length (ss_pending s)
      then anchor_settled (ss_pending s ! i) r (s\<lparr>ss_pending := remove_nth i (ss_pending s)\<rparr>)
      else s)"

fun ss_route :: "sessions \<Rightarrow> sessions_event \<Rightarrow> (jstr, v1Session) pager_event list" where
  "ss_route s SsLoadMore = [LoadMore (project_key (ss_project s)) PAGE_SIZE]"
| "ss_route s (SsProject pid) =
     (if pid = ss_project s then [] else [Refresh (project_key pid) PAGE_SIZE])"
| "ss_route s (SsPage i r) = [Settled i (fetcher_result r)]"
| "ss_route s _ = []"

fun ss_outside :: "sessions_event \<Rightarrow> bool" where
  "ss_outside (SsProject p) = True"
| "ss_outside (SsPage i r) = True"
| "ss_outside (SsAnchorReply i r) = True"
| "ss_outside (SsInReplay e) = True"
| "ss_outside _ = False"

section \<open>The view\<close>

definition anchor_kind_label :: "jstr option \<Rightarrow> jstr" where
  "anchor_kind_label kind = (let k = nullish kind [] in
     if k = js ''KIND_UNSPECIFIED'' then js ''Unspecified''
     else if k = js ''KIND_RFC3161_TSA'' then js ''RFC 3161 TSA''
     else if k = js ''KIND_TRANSPARENCY_LOG'' then js ''Transparency Log''
     else if k = js ''KIND_PUBLIC_CHAIN'' then js ''Public Chain''
     else nullish kind (js ''-''))"

definition has_anchor :: "v1Anchor option \<Rightarrow> bool" where
  "has_anchor a = (case a of None \<Rightarrow> False | Some x \<Rightarrow>
     truthy (an_kind x) \<or> truthy (an_root x) \<or> truthy (an_anchor_receipt x) \<or> truthy (an_anchored_at x))"

definition meta :: "string \<Rightarrow> bool \<Rightarrow> 'e node list \<Rightarrow> 'e node" where
  "meta label is_mono children = El ''div'' []
     [El ''span'' [] [tx label], El ''div'' [Flag ''mono'' is_mono] children]"

definition anchor_part :: "sessions \<Rightarrow> sessions_event node" where
  "anchor_part s = El ''div'' []
     ([El ''div'' []
        [El ''span'' [] [tx ''External Anchor''],
         if ss_anchorLoading s then El ''span'' [] [Text (js ''Loading'' @ [0x2026])]
         else if has_anchor (ss_anchor s) then status_pill None (Some (js ''ANCHORED'')) (Some True)
         else status_pill (Some PENDING) (Some (js ''NO ANCHOR'')) None]]
      @ only_if (\<not> has_anchor (ss_anchor s) \<and> \<not> ss_anchorLoading s)
          [El ''p'' [] [Text (or_str (ss_anchorError s) (js ''No anchor for this session yet.''))]]
      @ (if has_anchor (ss_anchor s) then (let a = the (ss_anchor s) in
          [El ''div'' []
            ([meta ''Kind'' False [El ''span'' [] [Text (anchor_kind_label (an_kind a))]]]
             @ if_truthy (an_anchored_at a) (\<lambda>t. [meta ''Anchored At'' True [Text t]])
             @ if_truthy (an_root a) (\<lambda>t. [meta ''Root'' True [monospace_hash t]])
             @ if_truthy (an_anchor_receipt a) (\<lambda>t. [meta ''Anchor Receipt'' True [monospace_hash t]]))])
         else []))"

definition ss_detail :: "v1Session \<Rightarrow> sessions \<Rightarrow> sessions_event node" where
  "ss_detail x s =
     card (se_session_id x) (Some (js ''Surface: '' @ or_str (se_surface x) (js ''-'')))
      [El ''div'' []
        [button ''brand'' ''sm'' False False [OnClick (SsReplay x)] [icon ''IconPlay'', tx '' Replay''],
         button ''secondary'' ''sm'' False False [OnClick SsBack] [tx ''Back'']]]
      [El ''div'' []
        [El ''div'' [] [],
         El ''div'' []
          [meta ''Session ID'' True [copyable (or_str (se_session_id x) (js ''-'')) True],
           meta ''Root Grant'' True [copyable (or_str (se_root_grant_id x) (js ''-'')) True],
           meta ''Started At'' True [Text (or_str (se_started_at x) (js ''-''))],
           meta ''Ended At'' True [Text (or_str (se_ended_at x) (js ''open''))],
           meta ''Event Count'' True [Text (nullish (se_event_count x) (js ''0''))],
           meta ''Surface'' False [Text (or_str (se_surface x) (js ''-''))]],
         anchor_part s]]"

definition ss_row :: "nat \<Rightarrow> nat \<times> v1Session \<Rightarrow> sessions_event node" where
  "ss_row n ix = (let (i, x) = ix; ended = truthy (se_ended_at x) in
     El ''tr'' [OnClick (SsSelect x), Flag ''borderBottom'' (i + 1 < n)]
      [El ''td'' [] (opt_text (se_session_id x)),
       El ''td'' [] (opt_text (se_root_grant_id x)),
       El ''td'' [] [Text (nullish (se_event_count x) (js ''0''))],
       El ''td'' [] [status_pill (Some (if ended then REVOKED else ACTIVE))
         (Some (js (if ended then ''CLOSED'' else ''OPEN''))) None],
       El ''td'' [] [El ''span'' [] [icon ''IconLayers'', tx '' Inspect'']]])"

definition ss_table :: "sessions \<Rightarrow> sessions_event node list" where
  "ss_table s = (let p = ss_pager s; xs = pg_items p in
     [El ''div'' [] [El ''table'' []
        [table_head [''Session ID'', ''Root Grant'', ''Events'', ''Status'', ''Inspect''],
         El ''tbody'' [] (map (ss_row (length xs)) (zip [0..<length xs] xs))]],
      showing (length xs) ''session'']
     @ load_more_button SsLoadMore (pg_loading p) (\<not> hasMore p))"

definition ss_list :: "sessions \<Rightarrow> sessions_event node" where
  "ss_list s = card None None []
     (pager_body 5 (js ''Couldn't load sessions. Try refreshing.'')
       (empty_state [icon ''IconLayers''] (js ''No sessions recorded yet'')
         (Some (js ''Open a capture session to bind agent actions to a root grant and seal them under an external anchor.'')) [])
       (ss_table s) (ss_pager s))"

text \<open>\<open>None\<close> when the replay's render throws.\<close>

definition ss_view :: "(jstr \<Rightarrow> jstr) \<Rightarrow> sessions \<Rightarrow> sessions_event node option" where
  "ss_view clock s =
     (let page = ([page_header (js ''Sessions'')
          (Some (js ''Capture sessions bind executed actions to a root grant and seal them under an external anchor. Click a session to inspect its anchor.''))
          None []]
        @ if_truthy (pg_error (ss_pager s)) (\<lambda>m. [error_box m])
        @ [case ss_selected s of
             Some x \<Rightarrow> ss_detail x s
           | None \<Rightarrow> ss_list s]) in
      case ss_replaySession s of
        None \<Rightarrow> Some (El ''div'' [] page)
      | Some (x, r) \<Rightarrow> map_option (\<lambda>m. El ''div'' [] (page @ [map_node SsInReplay m]))
          (replay_view clock (nullish (se_session_id x) []) r))"

lemma fires_meta [simp]: "can_fire (meta l b ks) e \<longleftrightarrow> fires_in ks e"
  by (simp add: meta_def)

lemma fires_anchor_part [simp]: "\<not> can_fire (anchor_part s) e"
  by (auto simp: anchor_part_def Let_def)

lemma fires_ss_detail: "can_fire (ss_detail x s) e \<Longrightarrow> e = SsReplay x \<or> e = SsBack"
  by (auto simp: ss_detail_def)

lemma fires_ss_table: "fires_in (ss_table s) e \<Longrightarrow>
   (\<exists>x\<in>set (pg_items (ss_pager s)). e = SsSelect x)
   \<or> e = SsLoadMore \<and> hasMore (ss_pager s) \<and> \<not> pg_loading (ss_pager s)"
  by (auto simp: ss_table_def Let_def ss_row_def fires_in_map set_zip split: prod.splits)

lemma fires_ss_view: "ss_view clock s = Some t \<Longrightarrow> can_fire t e \<Longrightarrow>
   (\<exists>m. e = SsInReplay m) \<or>
   (case ss_selected s of
      Some x \<Rightarrow> e = SsReplay x \<or> e = SsBack
    | None \<Rightarrow> (\<exists>x\<in>set (pg_items (ss_pager s)). e = SsSelect x)
        \<or> e = SsLoadMore \<and> hasMore (ss_pager s) \<and> \<not> pg_loading (ss_pager s))"
  by (auto simp: ss_view_def ss_list_def Let_def can_fire_map
      dest!: fires_ss_detail fires_pager_body fires_ss_table split: option.splits)

section \<open>Invariants\<close>

text \<open>
  At most one anchor request is current, and exactly while it is pending the page is loading
  the anchor of a selected session and shows neither an anchor nor an error; the anchor shown
  is never the answer to an earlier selection.
\<close>

definition sessions_inv :: "sessions \<Rightarrow> bool" where
  "sessions_inv s \<longleftrightarrow>
     pager_inv (ss_pager s)
     \<and> length (filter (\<lambda>b. b) (ss_pending s)) \<le> 1
     \<and> (True \<in> set (ss_pending s) \<longrightarrow> ss_selected s \<noteq> None \<and> ss_anchorLoading s
          \<and> ss_anchor s = None \<and> ss_anchorError s = None)
     \<and> (ss_anchor s \<noteq> None \<longrightarrow> ss_anchorError s = None)
     \<and> (\<forall>x r. ss_replaySession s = Some (x, r) \<longrightarrow> replay_inv r)"

lemma sessions_inv_mount: "sessions_inv (ss_mount pid)"
  by (simp add: sessions_inv_def ss_mount_def pager_inv_refresh)

lemma sessions_inv_select: "sessions_inv s \<Longrightarrow> sessions_inv (select_session x s)"
  by (cases x) (auto simp: sessions_inv_def select_session_def Let_def)

lemma sessions_inv_pager:
  "sessions_inv s \<Longrightarrow> pager_inv p \<Longrightarrow> sessions_inv (s\<lparr>ss_pager := p\<rparr>)"
  "sessions_inv (s\<lparr>ss_project := pid\<rparr>) = sessions_inv s"
  "sessions_inv s \<Longrightarrow> pager_inv (ss_pager s)"
  by (simp_all add: sessions_inv_def)

lemma true_remove_nth:
  assumes "length (filter (\<lambda>b. b) bs) \<le> 1" "i < length bs" "bs ! i"
  shows "True \<notin> set (remove_nth i bs)"
  using filter_remove_nth [of i bs "\<lambda>b. b"] assms by (auto simp: filter_empty_conv)

lemma sessions_inv_anchor:
  assumes "sessions_inv s" "i < length (ss_pending s)"
  shows "sessions_inv (anchor_settled (ss_pending s ! i) r (s\<lparr>ss_pending := remove_nth i (ss_pending s)\<rparr>))"
proof -
  have "length (filter (\<lambda>b. b) (remove_nth i (ss_pending s))) \<le> 1"
    using assms(1) filter_remove_nth_le [of "\<lambda>b. b" i "ss_pending s"] by (simp add: sessions_inv_def)
  moreover have "ss_pending s ! i \<Longrightarrow> True \<notin> set (remove_nth i (ss_pending s))"
    using assms by (intro true_remove_nth) (auto simp: sessions_inv_def)
  moreover have "ss_pending s ! i \<Longrightarrow> ss_anchor s = None \<and> ss_anchorError s = None"
    using assms nth_mem [of i "ss_pending s"] by (auto simp: sessions_inv_def)
  moreover have "True \<in> set (remove_nth i (ss_pending s)) \<Longrightarrow> True \<in> set (ss_pending s)"
    by (rule in_remove_nthD)
  ultimately show ?thesis
    using assms(1) by (auto simp: sessions_inv_def anchor_settled_def split: reply.splits)
qed

lemma sessions_inv_step: "sessions_inv s \<Longrightarrow> sessions_inv (ss_step s e)"
proof (cases e)
  case (SsProject pid)
  then show "sessions_inv s \<Longrightarrow> ?thesis"
    using sessions_inv_pager(1) [of "s\<lparr>ss_project := pid\<rparr>"]
    by (simp add: sessions_inv_pager pager_inv_ops)
next
  case (SsReplay x)
  then show "sessions_inv s \<Longrightarrow> ?thesis"
    using rym.inv_init by (simp add: sessions_inv_def)
next
  case (SsInReplay m)
  then show "sessions_inv s \<Longrightarrow> ?thesis"
    by (auto simp: sessions_inv_def replay_inv_step simp del: replay_step.simps split: option.splits)
qed (simp_all add: sessions_inv_select sessions_inv_pager pager_inv_ops sessions_inv_anchor)

interpretation ssm: machine "ss_mount pid" ss_step sessions_inv for pid
  by unfold_locales (simp_all add: sessions_inv_mount sessions_inv_step del: ss_step.simps)

interpretation ssp: hosted_pager ss_step ss_pager ss_route "ss_mount pid" for pid
proof
  show "ss_pager (ss_step h e) = run pager_step (ss_pager h) (ss_route h e)" for h e
    by (cases e)
       (auto simp: select_session_def anchor_settled_def Let_def split: reply.splits option.splits)
  show "pager_inv (ss_pager (ss_mount pid))"
    by (simp add: ss_mount_def pager_inv_refresh)
qed

text \<open>The page's last list request names its project.\<close>

lemma ss_asked_step:
  "asked_for (project_key (ss_project s)) (ss_pager s) \<Longrightarrow>
   asked_for (project_key (ss_project (ss_step s e))) (ss_pager (ss_step s e))"
  by (cases e) (auto simp: select_session_def anchor_settled_def Let_def split: reply.splits option.splits)

lemma ss_asked_mount: "asked_for (project_key pid) (ss_pager (ss_mount pid))"
  by (simp add: ss_mount_def)

text \<open>A sample session, for concrete instances.\<close>

definition demo_session :: v1Session where
  "demo_session = \<lparr>se_session_id = Some (js ''s1''), se_project_id = None, se_root_grant_id = None,
     se_surface = None, se_started_at = None, se_ended_at = None, se_event_count = None\<rparr>"

text \<open>An answer that comes too late is dropped: select a session, go back and select another, and
  the anchor of the first is not shown for the second, nor does its error or its arrival end the
  second's loading.\<close>
theorem late_anchor_ignored:
  assumes "ss_pending s = []"
  shows "let s' = run ss_step s [SsSelect x, SsBack, SsSelect y];
             t = ss_step s' (SsAnchorReply 0 r) in
     ss_anchor t = None \<and> ss_anchorError t = ss_anchorError s' \<and> ss_anchorLoading t = ss_anchorLoading s'"
  using assms by (simp add: select_session_def anchor_settled_def split: reply.splits)

theorem late_anchor_ignored_witness:
  "ss_anchor (run ss_step (ss_mount None) [SsSelect demo_session, SsBack,
     SsSelect (demo_session\<lparr>se_session_id := Some (js ''s2'')\<rparr>), SsAnchorReply 0 (Rejected JUndef)]) = None"
  using late_anchor_ignored [of "ss_mount None" demo_session "demo_session\<lparr>se_session_id := Some (js ''s2'')\<rparr>"
      "Rejected JUndef"]
  by (simp add: ss_mount_def Let_def del: ss_step.simps)

text \<open>A rejected anchor request leaves the page loading.\<close>

lemma rejected_anchor_loads:
  assumes "ss_pending s = []"
  shows "let s' = run ss_step s [SsSelect x, SsAnchorReply 0 (Rejected e)] in
    ss_anchorLoading s' \<and> ss_pending s' = []"
  using assms by (simp add: select_session_def anchor_settled_def)

end
