(* ===== verification/Projects.thy ===== *)
theory Projects
  imports ListPage
begin

text \<open>
  \<open>src/pages/dashboard/Projects.tsx\<close>: the projects of the account, the form that creates one, and
  for each project a row with its API keys, which are listed, created (the secret is revealed
  once) and revoked. A row is an instance of \<open>ProjectRow\<close>: it lives as long as the page renders
  its project in the list, and an update from a handler of an instance that is gone does
  nothing. The handlers suspended in an \<open>await\<close> carry the instance they belong to.
\<close>

section \<open>State\<close>

record key_row =
  kr_inst :: nat
  kr_project :: v1Project
  kr_expanded :: bool
  kr_keys :: "v1ApiKey list"
  kr_loadingKeys :: bool
  kr_keyErr :: "jstr option"
  kr_creating :: bool
  kr_reveal :: "jstr option"
  kr_confirmRevoke :: "jstr option"

definition fresh_row :: "nat \<Rightarrow> v1Project \<Rightarrow> key_row" where
  "fresh_row i p = \<lparr>kr_inst = i, kr_project = p, kr_expanded = False, kr_keys = [],
     kr_loadingKeys = False, kr_keyErr = None, kr_creating = False, kr_reveal = None,
     kr_confirmRevoke = None\<rparr>"

text \<open>What a handler does after \<open>loadKeys\<close>, and where handlers are suspended.\<close>

datatype after_load = AfterToggle | AfterCreate | AfterRevoke

datatype pp_wait =
    WaitKeys nat v1Project after_load
  | WaitCreateKey nat v1Project
  | WaitRevokeKey nat v1Project
  | WaitCreateProject

text \<open>Whether the page's fetch is awaited by \<open>createProject\<close>.\<close>

datatype fetch_for = ForPage | ForCreate

record projects_page =
  pp_authLoading :: bool
  pp_authed :: bool
  pp_pager :: "(fetch_for, v1Project) pager"
  pp_creating :: bool
  pp_name :: jstr
  pp_showForm :: bool
  pp_rows :: "key_row list"
  pp_next :: nat
  pp_pending :: "pp_wait list"
  pp_requests :: "api_request list"

text \<open>The rows the page renders: none while it shows nothing, loads or is empty.\<close>

definition rows_shown :: "projects_page \<Rightarrow> bool" where
  "rows_shown s \<longleftrightarrow> \<not> pp_authLoading s \<and> pp_authed s
     \<and> \<not> (pg_loading (pp_pager s) \<and> \<not> pg_hasInitialLoaded (pp_pager s))
     \<and> pg_items (pp_pager s) \<noteq> []"

text \<open>React matches the rows by their key, the project id.\<close>

fun reconcile :: "key_row list \<Rightarrow> nat \<Rightarrow> v1Project list \<Rightarrow> key_row list \<times> nat" where
  "reconcile old n [] = ([], n)"
| "reconcile old n (p # ps) =
     (case find (\<lambda>r. pj_id (kr_project r) = pj_id p) old of
        Some r \<Rightarrow> apfst (Cons (r\<lparr>kr_project := p\<rparr>)) (reconcile (remove1 r old) n ps)
      | None \<Rightarrow> apfst (Cons (fresh_row n p)) (reconcile old (Suc n) ps))"

definition sync_rows :: "projects_page \<Rightarrow> projects_page" where
  "sync_rows s =
     (if rows_shown s
      then (let (rows, n) = reconcile (pp_rows s) (pp_next s) (pg_items (pp_pager s)) in
        s\<lparr>pp_rows := rows, pp_next := n\<rparr>)
      else s\<lparr>pp_rows := []\<rparr>)"

definition on_pager ::
  "((fetch_for, v1Project) pager \<Rightarrow> (fetch_for, v1Project) pager) \<Rightarrow> projects_page \<Rightarrow> projects_page" where
  "on_pager f s = sync_rows (s\<lparr>pp_pager := f (pp_pager s)\<rparr>)"

definition pp_refresh :: "fetch_for \<Rightarrow> projects_page \<Rightarrow> projects_page" where
  "pp_refresh k = on_pager (refresh k PAGE_SIZE)"

definition pp_mount :: "bool \<Rightarrow> bool \<Rightarrow> projects_page" where
  "pp_mount authLoading authed =
     (let s = \<lparr>pp_authLoading = authLoading, pp_authed = authed, pp_pager = pager_init,
        pp_creating = False, pp_name = [], pp_showForm = False, pp_rows = [], pp_next = 0,
        pp_pending = [], pp_requests = []\<rparr>
      in if authed then pp_refresh ForPage s else s)"

section \<open>Handlers of the page\<close>

definition pp_set_auth :: "bool \<Rightarrow> bool \<Rightarrow> projects_page \<Rightarrow> projects_page" where
  "pp_set_auth authLoading authed s =
     (let s' = sync_rows (s\<lparr>pp_authLoading := authLoading, pp_authed := authed\<rparr>) in
      if authed \<and> \<not> pp_authed s then pp_refresh ForPage s' else s')"

definition createProject :: "projects_page \<Rightarrow> projects_page" where
  "createProject s =
     (if trim (pp_name s) = [] then s
      else s\<lparr>pp_creating := True, pp_pending := pp_pending s @ [WaitCreateProject],
             pp_requests := pp_requests s @ [CreateProject (trim (pp_name s))]\<rparr>)"

definition createProject_settled :: "v1Project option reply \<Rightarrow> projects_page \<Rightarrow> projects_page" where
  "createProject_settled r s = (case r of
     Rejected e \<Rightarrow> s
   | Resolved data err \<Rightarrow>
       if js_truthy err then s\<lparr>pp_creating := False\<rparr>
       else pp_refresh ForCreate (s\<lparr>pp_name := [], pp_showForm := False\<rparr>))"

text \<open>A page arrives; the handler that awaited it, if any, goes on.\<close>

definition page_settled :: "nat \<Rightarrow> v1Project v1ListResponse reply \<Rightarrow> projects_page \<Rightarrow> projects_page" where
  "page_settled i r s =
     (let s' = on_pager (settle i (fetcher_result r)) s in
      if i < length (pg_inflight (pp_pager s)) \<and> fst (pg_inflight (pp_pager s) ! i) = ForCreate
      then s'\<lparr>pp_creating := False\<rparr> else s')"

section \<open>Handlers of a row\<close>

definition update_row :: "nat \<Rightarrow> (key_row \<Rightarrow> key_row) \<Rightarrow> projects_page \<Rightarrow> projects_page" where
  "update_row i f s = s\<lparr>pp_rows := map (\<lambda>r. if kr_inst r = i then f r else r) (pp_rows s)\<rparr>"

definition wait_for :: "pp_wait \<Rightarrow> api_request \<Rightarrow> projects_page \<Rightarrow> projects_page" where
  "wait_for w q s = s\<lparr>pp_pending := pp_pending s @ [w], pp_requests := pp_requests s @ [q]\<rparr>"

definition onChanged :: "projects_page \<Rightarrow> projects_page" where
  "onChanged = pp_refresh ForPage"

fun after_loadKeys :: "nat \<Rightarrow> after_load \<Rightarrow> projects_page \<Rightarrow> projects_page" where
  "after_loadKeys i AfterToggle s = s"
| "after_loadKeys i AfterCreate s = update_row i (\<lambda>r. r\<lparr>kr_creating := False\<rparr>) (onChanged s)"
| "after_loadKeys i AfterRevoke s = update_row i (\<lambda>r. r\<lparr>kr_confirmRevoke := None\<rparr>) (onChanged s)"

definition loadKeys :: "nat \<Rightarrow> v1Project \<Rightarrow> after_load \<Rightarrow> projects_page \<Rightarrow> projects_page" where
  "loadKeys i p after s =
     (if \<not> truthy (pj_id p) then after_loadKeys i after s
      else wait_for (WaitKeys i p after) (ListKeys (the (pj_id p)) 50)
        (update_row i (\<lambda>r. r\<lparr>kr_loadingKeys := True, kr_keyErr := None\<rparr>) s))"

definition loadKeys_settled ::
  "nat \<Rightarrow> after_load \<Rightarrow> v1ApiKey v1ListResponse reply \<Rightarrow> projects_page \<Rightarrow> projects_page" where
  "loadKeys_settled i after r s = (case r of
     Rejected e \<Rightarrow> s
   | Resolved data err \<Rightarrow> after_loadKeys i after (update_row i (\<lambda>row.
       (if js_truthy err then row\<lparr>kr_keyErr := Some (errText err)\<rparr>
        else row\<lparr>kr_keys := nullish (Option.bind data ls_items) []\<rparr>)\<lparr>kr_loadingKeys := False\<rparr>) s))"

definition toggle :: "key_row \<Rightarrow> projects_page \<Rightarrow> projects_page" where
  "toggle row s =
     (let nxt = \<not> kr_expanded row;
          s' = update_row (kr_inst row) (\<lambda>r. r\<lparr>kr_expanded := nxt\<rparr>) s in
      if nxt \<and> kr_keys row = [] then loadKeys (kr_inst row) (kr_project row) AfterToggle s' else s')"

definition createKey :: "key_row \<Rightarrow> projects_page \<Rightarrow> projects_page" where
  "createKey row s =
     (if \<not> truthy (pj_id (kr_project row)) then s
      else wait_for (WaitCreateKey (kr_inst row) (kr_project row))
        (CreateKey (the (pj_id (kr_project row))) [])
        (update_row (kr_inst row) (\<lambda>r. r\<lparr>kr_creating := True, kr_keyErr := None\<rparr>) s))"

definition createKey_settled ::
  "nat \<Rightarrow> v1Project \<Rightarrow> v1CreateApiKeyResponse reply \<Rightarrow> projects_page \<Rightarrow> projects_page" where
  "createKey_settled i p r s = (case r of
     Rejected e \<Rightarrow> s
   | Resolved data err \<Rightarrow>
       if js_truthy err
       then update_row i (\<lambda>row. row\<lparr>kr_keyErr := Some (errText err), kr_creating := False\<rparr>) s
       else if truthy (Option.bind data ck_secret)
       then loadKeys i p AfterCreate
         (update_row i (\<lambda>row. row\<lparr>kr_reveal := Option.bind data ck_secret\<rparr>) s)
       else update_row i (\<lambda>row. row\<lparr>kr_creating := False\<rparr>) s)"

text \<open>The dialog's \<open>onConfirm\<close>: \<open>revoke\<close> up to its request.\<close>

definition kr_confirm :: "key_row \<Rightarrow> projects_page \<Rightarrow> projects_page" where
  "kr_confirm row s =
     (if truthy (kr_confirmRevoke row)
      then wait_for (WaitRevokeKey (kr_inst row) (kr_project row))
        (RevokeKey (the (kr_confirmRevoke row)))
        (update_row (kr_inst row) (\<lambda>r. r\<lparr>kr_keyErr := None\<rparr>) s)
      else update_row (kr_inst row) (\<lambda>r. r\<lparr>kr_confirmRevoke := None\<rparr>) s)"

definition revokeKey_settled ::
  "nat \<Rightarrow> v1Project \<Rightarrow> unit reply \<Rightarrow> projects_page \<Rightarrow> projects_page" where
  "revokeKey_settled i p r s = (case r of
     Rejected e \<Rightarrow> s
   | Resolved data err \<Rightarrow>
       if js_truthy err
       then update_row i (\<lambda>row. row\<lparr>kr_keyErr := Some (errText err), kr_confirmRevoke := None\<rparr>) s
       else loadKeys i p AfterRevoke s)"

section \<open>Events\<close>

datatype row_event =
    RwToggle
  | RwCreateKey
  | RwAskRevoke v1ApiKey
  | RwConfirm
  | RwCancel
  | RwDone

datatype projects_event =
    PpToggleForm
  | PpShowForm
  | PpName jstr
  | PpSubmit
  | PpLoadMore
  | PpRow key_row row_event
  | PpAuth bool bool
  | PpPage nat "v1Project v1ListResponse reply"
  | PpCreated nat "v1Project option reply"
  | PpKeys nat "v1ApiKey v1ListResponse reply"
  | PpKeyCreated nat "v1CreateApiKeyResponse reply"
  | PpKeyRevoked nat "unit reply"

fun row_step :: "key_row \<Rightarrow> row_event \<Rightarrow> projects_page \<Rightarrow> projects_page" where
  "row_step row RwToggle s = toggle row s"
| "row_step row RwCreateKey s = createKey row s"
| "row_step row (RwAskRevoke k) s =
     (if truthy (ak_id k)
      then update_row (kr_inst row) (\<lambda>r. r\<lparr>kr_confirmRevoke := ak_id k\<rparr>) s else s)"
| "row_step row RwConfirm s = kr_confirm row s"
| "row_step row RwCancel s = update_row (kr_inst row) (\<lambda>r. r\<lparr>kr_confirmRevoke := None\<rparr>) s"
| "row_step row RwDone s = update_row (kr_inst row) (\<lambda>r. r\<lparr>kr_reveal := None\<rparr>) s"

definition resume :: "nat \<Rightarrow> projects_page \<Rightarrow> projects_page" where
  "resume i s = s\<lparr>pp_pending := remove_nth i (pp_pending s)\<rparr>"

fun pp_step :: "projects_page \<Rightarrow> projects_event \<Rightarrow> projects_page" where
  "pp_step s PpToggleForm = s\<lparr>pp_showForm := \<not> pp_showForm s\<rparr>"
| "pp_step s PpShowForm = s\<lparr>pp_showForm := True\<rparr>"
| "pp_step s (PpName v) = s\<lparr>pp_name := v\<rparr>"
| "pp_step s PpSubmit = createProject s"
| "pp_step s PpLoadMore = on_pager (loadMore ForPage PAGE_SIZE) s"
| "pp_step s (PpRow row e) = row_step row e s"
| "pp_step s (PpAuth l a) = pp_set_auth l a s"
| "pp_step s (PpPage i r) = page_settled i r s"
| "pp_step s (PpCreated i r) =
     (if i < length (pp_pending s) \<and> pp_pending s ! i = WaitCreateProject
      then createProject_settled r (resume i s) else s)"
| "pp_step s (PpKeys i r) =
     (if i < length (pp_pending s) then
        (case pp_pending s ! i of
           WaitKeys inst p after \<Rightarrow> loadKeys_settled inst after r (resume i s) | _ \<Rightarrow> s)
      else s)"
| "pp_step s (PpKeyCreated i r) =
     (if i < length (pp_pending s) then
        (case pp_pending s ! i of
           WaitCreateKey inst p \<Rightarrow> createKey_settled inst p r (resume i s) | _ \<Rightarrow> s)
      else s)"
| "pp_step s (PpKeyRevoked i r) =
     (if i < length (pp_pending s) then
        (case pp_pending s ! i of
           WaitRevokeKey inst p \<Rightarrow> revokeKey_settled inst p r (resume i s) | _ \<Rightarrow> s)
      else s)"

fun pp_outside :: "projects_event \<Rightarrow> bool" where
  "pp_outside (PpAuth l a) = True"
| "pp_outside (PpPage i r) = True"
| "pp_outside (PpCreated i r) = True"
| "pp_outside (PpKeys i r) = True"
| "pp_outside (PpKeyCreated i r) = True"
| "pp_outside (PpKeyRevoked i r) = True"
| "pp_outside _ = False"

section \<open>The view\<close>

text \<open>\<open>day\<close> is \<open>new Date(t).toLocaleDateString()\<close>.\<close>

definition masked_key :: "v1ApiKey \<Rightarrow> jstr" where
  "masked_key k = nullish (ak_prefix k) (js ''bak_live'') @ [95] @ replicate 6 0x2022
     @ nullish (ak_last4 k) []"

definition key_row_view :: "(jstr \<Rightarrow> jstr) \<Rightarrow> v1ApiKey \<Rightarrow> row_event node" where
  "key_row_view day k = (let revoked = (ak_revoked k = Some True) in
     El ''div'' []
      [El ''div'' []
        [El ''span'' [] [icon ''IconKey''], El ''span'' [] [Text (masked_key k)]],
       El ''div'' []
        (if_truthy (ak_created_at k) (\<lambda>t. [El ''span'' [] [Text (day t)]])
         @ [status_pill (Some (if revoked then REVOKED else ACTIVE)) None None]
         @ only_if (\<not> revoked)
             [button ''ghost'' ''sm'' False False [OnClick (RwAskRevoke k)] [tx ''Revoke'']])])"

definition reveal_panel :: "jstr \<Rightarrow> row_event node" where
  "reveal_panel secret = El ''div'' []
     [El ''div'' [] [El ''span'' [] [icon ''IconKey''], El ''span'' [] [tx ''Copy your key now'']],
      El ''p'' []
       [tx ''This is the only time the full key is shown. Store it somewhere safe. After you close this panel only the masked prefix remains.''],
      copyable secret True,
      El ''div'' []
       [tx ''curl -H \"x-api-key: '', Text secret, tx ''\" http://localhost:8080/v1/projects''],
      button ''secondary'' ''sm'' False False [OnClick RwDone] [tx ''I saved it, close'']]"

definition row_keys_view :: "(jstr \<Rightarrow> jstr) \<Rightarrow> key_row \<Rightarrow> row_event node" where
  "row_keys_view day r = El ''div'' []
     (confirm_dialog (truthy (kr_confirmRevoke r)) (js ''Revoke API key'')
        (js ''Revoked keys stop working immediately. This cannot be undone.'')
        (js ''Revoke key'') (js ''Cancel'') RwConfirm RwCancel False True
      @ if_some (kr_reveal r) (\<lambda>secret. [reveal_panel secret])
      @ if_truthy (kr_keyErr r) (\<lambda>m. [error_box m])
      @ [El ''div'' []
          [El ''span'' [] [tx ''API keys''],
           button ''brand'' ''sm'' (kr_creating r) False [OnClick RwCreateKey]
            [icon ''IconKey'', El ''span'' [] [tx ''Create key'']]]]
      @ (if kr_loadingKeys r then [El ''p'' [] [Text (js ''Loading'' @ [0x2026])]]
         else if kr_keys r = []
         then [El ''p'' [] [tx ''No keys yet. Create one to authenticate API calls for this project.'']]
         else [El ''div'' [] (map (key_row_view day) (kr_keys r))]))"

definition project_row_view :: "(jstr \<Rightarrow> jstr) \<Rightarrow> key_row \<Rightarrow> row_event node" where
  "project_row_view day r = (let p = kr_project r in card None None []
     ([El ''div'' []
        [El ''div'' []
          [El ''div'' [] [icon ''IconFolder''],
           El ''div'' []
            [El ''h3'' [] (opt_text (pj_name p)),
             El ''div'' []
              ([El ''span'' [] [icon ''IconKey'', tx '' '', Text (nullish (pj_active_keys p) (js ''0'')), tx '' active'']]
               @ if_truthy (pj_created_at p)
                   (\<lambda>t. [El ''span'' [] [icon ''IconClock'', tx '' '', Text (day t)]]))]],
         button ''secondary'' ''sm'' False False
          [OnClick RwToggle, Flag ''aria-expanded'' (kr_expanded r)]
          [icon ''IconKey'', El ''span'' [] [tx ''Manage keys''], icon ''IconChevronDown'']]]
      @ only_if (kr_expanded r) [row_keys_view day r]))"

definition create_form :: "projects_page \<Rightarrow> projects_event node" where
  "create_form s = card None None []
     [El ''form'' [OnSubmit PpSubmit]
       [El ''div'' []
         [field (js ''Project name'') [] None None
           (text_input [Attr ''value'' (pp_name s), OnChange PpName,
              Attr ''placeholder'' (js ''e.g. Production'')])],
        button ''brand'' ''md'' (pp_creating s) (trim (pp_name s) = [])
         [Attr ''type'' (js ''submit'')] [tx ''Create project'']]]"

definition pp_view :: "(jstr \<Rightarrow> jstr) \<Rightarrow> projects_page \<Rightarrow> projects_event node" where
  "pp_view day s = (let p = pp_pager s in
     if pp_authLoading s \<or> \<not> pp_authed s then El ''null'' [] []
     else El ''div'' []
      ([page_header (js ''Projects'')
         (Some (js ''Group your agents and API keys by project so each application or team has its own set of credentials.''))
         None
         [button ''brand'' ''md'' False False [OnClick PpToggleForm]
           [icon ''IconFolder'', El ''span'' [] [tx ''New project'']]]]
       @ only_if (pp_showForm s) [create_form s]
       @ if_truthy (pg_error p) (\<lambda>m. [error_box m])
       @ (if pg_loading p \<and> \<not> pg_hasInitialLoaded p
          then [card None None [] [El ''p'' [] [Text (js ''Loading projects'' @ [0x2026])]]]
          else if pg_items p = []
          then [card None None []
            [empty_state [icon ''IconFolder''] (js ''No projects yet'')
              (Some (js ''Create a project to start issuing API keys for your agents.''))
              [button ''secondary'' ''md'' False False [OnClick PpShowForm] [tx ''New project'']]]]
          else [El ''div'' []
            (map (\<lambda>r. map_node (PpRow r) (project_row_view day r)) (pp_rows s)
             @ load_more_button PpLoadMore (pg_loading p) (\<not> hasMore p))])))"

lemma fires_key_row_view [simp]:
  "can_fire (key_row_view d k) e \<longleftrightarrow> ak_revoked k \<noteq> Some True \<and> e = RwAskRevoke k"
  by (auto simp: key_row_view_def Let_def)

lemma fires_reveal_panel [simp]: "can_fire (reveal_panel t) e \<longleftrightarrow> e = RwDone"
  by (auto simp: reveal_panel_def)

lemma fires_row_keys_view: "can_fire (row_keys_view d r) e \<Longrightarrow>
   truthy (kr_confirmRevoke r) \<and> (e = RwCancel \<or> e = RwConfirm)
   \<or> kr_reveal r \<noteq> None \<and> e = RwDone
   \<or> \<not> kr_creating r \<and> e = RwCreateKey
   \<or> (\<exists>k\<in>set (kr_keys r). ak_revoked k \<noteq> Some True \<and> e = RwAskRevoke k)"
  by (auto simp: row_keys_view_def fires_in_map split: if_splits)

lemma fires_project_row_view: "can_fire (project_row_view d r) e \<Longrightarrow>
   e = RwToggle \<or> kr_expanded r \<and> (
     truthy (kr_confirmRevoke r) \<and> (e = RwCancel \<or> e = RwConfirm)
     \<or> kr_reveal r \<noteq> None \<and> e = RwDone
     \<or> \<not> kr_creating r \<and> e = RwCreateKey
     \<or> (\<exists>k\<in>set (kr_keys r). ak_revoked k \<noteq> Some True \<and> e = RwAskRevoke k))"
  by (auto simp: project_row_view_def Let_def dest!: fires_row_keys_view)

lemma fires_create_form: "can_fire (create_form s) e \<longleftrightarrow>
   (\<exists>v. e = PpName v) \<or> e = PpSubmit \<and> \<not> pp_creating s \<and> trim (pp_name s) \<noteq> []"
proof -
  have "\<not> submit_ready (field l [] None None (text_input as))" for l and as :: "projects_event attr list"
    by (auto simp: field_def Let_def text_input_def)
  then show ?thesis by (auto simp: create_form_def)
qed

lemma fires_pp_view: "can_fire (pp_view d s) e \<Longrightarrow> pp_authed s \<and> \<not> pp_authLoading s \<and>
   (e = PpToggleForm \<or> e = PpShowForm
    \<or> pp_showForm s \<and> ((\<exists>v. e = PpName v) \<or> e = PpSubmit \<and> \<not> pp_creating s \<and> trim (pp_name s) \<noteq> [])
    \<or> e = PpLoadMore \<and> hasMore (pp_pager s) \<and> \<not> pg_loading (pp_pager s)
    \<or> (\<exists>r\<in>set (pp_rows s). \<exists>m. e = PpRow r m \<and> can_fire (project_row_view d r) m))"
  by (auto simp: pp_view_def Let_def fires_create_form fires_in_map can_fire_map split: if_splits)

section \<open>The rows follow the list\<close>

lemma reconcile_projects: "map kr_project (fst (reconcile old n ps)) = ps"
  by (induction old n ps rule: reconcile.induct) (auto simp: fresh_row_def split: option.splits)

lemma reconcile_insts: "r \<in> set (fst (reconcile old n ps)) \<Longrightarrow>
   (\<exists>q\<in>set old. kr_inst q = kr_inst r) \<or> n \<le> kr_inst r \<and> kr_inst r < snd (reconcile old n ps)"
proof (induction old n ps arbitrary: r rule: reconcile.induct)
  case (2 old n p ps)
  have up: "m \<le> snd (reconcile o' m qs)" for o' m qs
    by (induction o' m qs rule: reconcile.induct) (auto split: option.splits)
  show ?case
  proof (cases "find (\<lambda>r. pj_id (kr_project r) = pj_id p) old")
    case None
    with 2 up [of "Suc n" old ps] show ?thesis
      by (fastforce simp: fresh_row_def Suc_le_eq)
  next
    case (Some q)
    then have "q \<in> set old" by (auto simp: find_Some_iff)
    with 2 Some show ?thesis by (fastforce dest: notin_set_remove1)
  qed
qed simp

lemma reconcile_fresh: "r \<in> set (fst (reconcile [] n ps)) \<Longrightarrow> \<exists>i p. r = fresh_row i p"
  by (induction ps arbitrary: n) auto

definition rows_inv :: "projects_page \<Rightarrow> bool" where
  "rows_inv s \<longleftrightarrow>
     pager_inv (pp_pager s)
     \<and> map kr_project (pp_rows s) = (if rows_shown s then pg_items (pp_pager s) else [])
     \<and> (\<forall>r\<in>set (pp_rows s). kr_inst r < pp_next s)"

lemma rows_inv_sync:
  assumes "pager_inv (pp_pager s)" "\<forall>r\<in>set (pp_rows s). kr_inst r < pp_next s"
  shows "rows_inv (sync_rows s)"
proof (cases "rows_shown s")
  case True
  obtain rows n where rc: "reconcile (pp_rows s) (pp_next s) (pg_items (pp_pager s)) = (rows, n)"
    by fastforce
  have le: "m \<le> snd (reconcile old m qs)" for old m qs
    by (induction old m qs rule: reconcile.induct) (auto split: option.splits)
  have "map kr_project rows = pg_items (pp_pager s)"
    using reconcile_projects [of "pp_rows s" "pp_next s" "pg_items (pp_pager s)"] rc by simp
  moreover have "kr_inst r < n" if "r \<in> set rows" for r
    using reconcile_insts [of r "pp_rows s" "pp_next s" "pg_items (pp_pager s)"]
      le [of "pp_next s" "pp_rows s" "pg_items (pp_pager s)"] rc that assms(2) by fastforce
  ultimately show ?thesis
    using True rc assms(1) by (simp add: rows_inv_def sync_rows_def rows_shown_def)
next
  case False
  then show ?thesis using assms(1) by (auto simp: rows_inv_def sync_rows_def rows_shown_def)
qed

lemma rows_inv_on_pager:
  "rows_inv s \<Longrightarrow> pager_inv (f (pp_pager s)) \<Longrightarrow> rows_inv (on_pager f s)"
  unfolding on_pager_def by (rule rows_inv_sync) (simp_all add: rows_inv_def)

lemma rows_inv_refresh: "rows_inv s \<Longrightarrow> rows_inv (pp_refresh k s)"
  unfolding pp_refresh_def by (rule rows_inv_on_pager) (simp_all add: pager_inv_refresh)

lemma rows_inv_update:
  "rows_inv s \<Longrightarrow> (\<And>r. kr_inst (f r) = kr_inst r \<and> kr_project (f r) = kr_project r) \<Longrightarrow>
   rows_inv (update_row i f s)"
proof -
  assume inv: "rows_inv s" and f: "\<And>r. kr_inst (f r) = kr_inst r \<and> kr_project (f r) = kr_project r"
  have "map kr_project (map (\<lambda>r. if kr_inst r = i then f r else r) (pp_rows s)) = map kr_project (pp_rows s)"
    using f by (simp add: comp_def if_distrib cong: if_cong)
  moreover have "rows_shown (update_row i f s) = rows_shown s"
    by (simp add: rows_shown_def update_row_def)
  ultimately show ?thesis
    using inv f unfolding rows_inv_def by (simp add: update_row_def) auto
qed

lemma rows_inv_fields [simp]:
  "rows_inv (s\<lparr>pp_pending := x\<rparr>) = rows_inv s" "rows_inv (s\<lparr>pp_requests := q\<rparr>) = rows_inv s"
  "rows_inv (s\<lparr>pp_creating := b\<rparr>) = rows_inv s" "rows_inv (s\<lparr>pp_name := v\<rparr>) = rows_inv s"
  "rows_inv (s\<lparr>pp_showForm := b\<rparr>) = rows_inv s" "rows_inv (resume i s) = rows_inv s"
  "rows_inv (wait_for w u s) = rows_inv s"
proof -
  have shown: "rows_shown (s\<lparr>pp_pending := x\<rparr>) = rows_shown s" "rows_shown (s\<lparr>pp_requests := q\<rparr>) = rows_shown s"
    "rows_shown (s\<lparr>pp_creating := b\<rparr>) = rows_shown s" "rows_shown (s\<lparr>pp_name := v\<rparr>) = rows_shown s"
    "rows_shown (s\<lparr>pp_showForm := b\<rparr>) = rows_shown s" for s x q b v
    by (simp_all add: rows_shown_def)
  have shown2: "rows_shown (s\<lparr>pp_pending := x, pp_requests := q\<rparr>) = rows_shown s" for s x q
    by (simp add: rows_shown_def)
  show "rows_inv (s\<lparr>pp_pending := x\<rparr>) = rows_inv s" "rows_inv (s\<lparr>pp_requests := q\<rparr>) = rows_inv s"
    "rows_inv (s\<lparr>pp_creating := b\<rparr>) = rows_inv s" "rows_inv (s\<lparr>pp_name := v\<rparr>) = rows_inv s"
    "rows_inv (s\<lparr>pp_showForm := b\<rparr>) = rows_inv s" "rows_inv (resume i s) = rows_inv s"
    "rows_inv (wait_for w u s) = rows_inv s"
    by (simp_all add: rows_inv_def resume_def wait_for_def shown shown2)
qed

lemma rows_inv_after: "rows_inv s \<Longrightarrow> rows_inv (after_loadKeys i a s)"
  by (cases a) (auto simp: onChanged_def intro!: rows_inv_update rows_inv_refresh)

lemma rows_inv_loadKeys: "rows_inv s \<Longrightarrow> rows_inv (loadKeys i p a s)"
  by (auto simp: loadKeys_def intro!: rows_inv_after rows_inv_update)

lemma rows_inv_row: "rows_inv s \<Longrightarrow> rows_inv (row_step r e s)"
  by (cases e)
     (auto simp: toggle_def createKey_def kr_confirm_def Let_def
        intro!: rows_inv_loadKeys rows_inv_update)

lemma rows_inv_page: "rows_inv s \<Longrightarrow> rows_inv (page_settled i r s)"
proof -
  assume "rows_inv s"
  then have "rows_inv (on_pager (settle i (fetcher_result r)) s)"
    by (intro rows_inv_on_pager) (auto simp: rows_inv_def pager_inv_settle)
  then show ?thesis by (simp add: page_settled_def Let_def)
qed

lemma rows_inv_auth: "rows_inv s \<Longrightarrow> rows_inv (pp_set_auth l a s)"
proof -
  assume "rows_inv s"
  then have "rows_inv (sync_rows (s\<lparr>pp_authLoading := l, pp_authed := a\<rparr>))"
    by (intro rows_inv_sync) (simp_all add: rows_inv_def)
  then show ?thesis by (cases "a \<and> \<not> pp_authed s") (auto simp: pp_set_auth_def Let_def rows_inv_refresh)
qed

lemma rows_inv_more: "rows_inv s \<Longrightarrow> rows_inv (on_pager (loadMore k n) s)"
  by (rule rows_inv_on_pager) (auto simp: rows_inv_def pager_inv_loadMore)

lemma rows_inv_step: "rows_inv s \<Longrightarrow> rows_inv (pp_step s e)"
  by (cases e)
     (auto simp: rows_inv_row rows_inv_auth rows_inv_page rows_inv_more createProject_def
        createProject_settled_def loadKeys_settled_def createKey_settled_def revokeKey_settled_def
        split: pp_wait.splits reply.splits
        intro!: rows_inv_refresh rows_inv_after rows_inv_update rows_inv_loadKeys)

lemma rows_inv_mount: "rows_inv (pp_mount l a)"
proof -
  have "rows_inv \<lparr>pp_authLoading = l, pp_authed = a, pp_pager = pager_init,
        pp_creating = False, pp_name = [], pp_showForm = False, pp_rows = [], pp_next = 0,
        pp_pending = [], pp_requests = []\<rparr>" for a
    using pgr.inv_init by (simp add: rows_inv_def rows_shown_def pager_init_def)
  then show ?thesis by (simp add: pp_mount_def Let_def rows_inv_refresh)
qed

interpretation ppm: machine "pp_mount l a" pp_step rows_inv for l a
  by unfold_locales (simp_all add: rows_inv_mount rows_inv_step del: pp_step.simps)

section \<open>What becomes of a secret\<close>

text \<open>The secrets on the screen.\<close>

definition shown_secrets :: "projects_page \<Rightarrow> jstr list" where
  "shown_secrets s = concat (map (\<lambda>r. case kr_reveal r of None \<Rightarrow> [] | Some t \<Rightarrow>
     if kr_expanded r then [t] else []) (pp_rows s))"

lemma refresh_unmounts: "pp_rows (pp_refresh k s) = []"
  by (simp add: pp_refresh_def on_pager_def sync_rows_def rows_shown_def refresh_def fetchPage_def
      reset_def)

lemma update_row_Nil [simp]: "pp_rows s = [] \<Longrightarrow> pp_rows (update_row i f s) = []"
  by (simp add: update_row_def)

text \<open>
  The refresh after the keys are loaded empties the list, so the row that revealed the new
  secret is gone with it, and the rows that come back know nothing of it.
\<close>

lemma after_create_unmounts: "pp_rows (after_loadKeys i AfterCreate s) = []"
  by (simp add: onChanged_def refresh_unmounts)

lemma after_create_pending: "pp_pending (after_loadKeys i AfterCreate s) = pp_pending s"
  by (auto simp: onChanged_def pp_refresh_def on_pager_def sync_rows_def update_row_def split: prod.splits)

lemma pp_mount_pending: "pp_pending (pp_mount l a) = []"
  by (auto simp: pp_mount_def Let_def pp_refresh_def on_pager_def sync_rows_def split: prod.splits)

text \<open>A sample project, for concrete instances.\<close>

definition demo_project :: v1Project where
  "demo_project = \<lparr>pj_id = Some (js ''p1''), pj_name = Some (js ''Demo''), pj_active_keys = None,
     pj_created_at = None\<rparr>"

text \<open>C37. The only sight of a new key's secret does not last: after a key is created the panel with the
  secret is shown, and when the list of keys has been read again the page reloads its projects,
  which unmounts the row, so the secret is gone from the screen without the user closing it.\<close>
theorem created_secret_lost:
  assumes "pp_pending s = []" "row \<in> set (pp_rows s)" "kr_expanded row"
    and "pj_id (kr_project row) = Some i" "i \<noteq> []" "sec \<noteq> []" "\<not> js_truthy err"
  shows "let s1 = run pp_step s [PpRow row RwCreateKey,
             PpKeyCreated 0 (Resolved (Some \<lparr>ck_key = k, ck_secret = Some sec\<rparr>) err)];
           s2 = pp_step s1 (PpKeys 0 (Resolved d err')) in
     sec \<in> set (shown_secrets s1) \<and> shown_secrets s2 = [] \<and> pp_pending s2 = []"
proof -
  let ?s1 = "run pp_step s [PpRow row RwCreateKey,
             PpKeyCreated 0 (Resolved (Some \<lparr>ck_key = k, ck_secret = Some sec\<rparr>) err)]"
  have p1: "pp_pending ?s1 = [WaitKeys (kr_inst row) (kr_project row) AfterCreate]"
    and s1: "sec \<in> set (shown_secrets ?s1)"
    using assms
    by (auto simp: createKey_def wait_for_def createKey_settled_def resume_def loadKeys_def update_row_def
        shown_secrets_def truthy_def image_iff intro!: bexI [of _ row])
  have "pp_rows (pp_step ?s1 (PpKeys 0 (Resolved d err'))) = []"
    and "pp_pending (pp_step ?s1 (PpKeys 0 (Resolved d err'))) = []"
    using p1
    by (simp_all add: loadKeys_settled_def after_create_unmounts after_create_pending resume_def
        update_row_def del: after_loadKeys.simps foldl_Cons)
  with s1 show ?thesis by (simp add: Let_def shown_secrets_def del: pp_step.simps foldl_Cons)
qed

theorem created_secret_lost_witness:
  "let row = (fresh_row 0 demo_project)\<lparr>kr_expanded := True\<rparr>;
       s = (pp_mount False True)\<lparr>pp_rows := [row]\<rparr>;
       s1 = run pp_step s [PpRow row RwCreateKey,
              PpKeyCreated 0 (Resolved (Some \<lparr>ck_key = None, ck_secret = Some (js ''sk'')\<rparr>) JUndef)] in
   js ''sk'' \<in> set (shown_secrets s1)
   \<and> shown_secrets (pp_step s1 (PpKeys 0 (Resolved None JUndef))) = []"
  using created_secret_lost [of "(pp_mount False True)\<lparr>pp_rows := [(fresh_row 0 demo_project)\<lparr>kr_expanded := True\<rparr>]\<rparr>"
      "(fresh_row 0 demo_project)\<lparr>kr_expanded := True\<rparr>" "js ''p1''" "js ''sk''" JUndef None None JUndef]
  by (simp add: Let_def pp_mount_pending fresh_row_def demo_project_def js_def
      del: pp_step.simps foldl_Cons)

lemma remounted_rows_fresh:
  assumes "pp_rows s = []" "r \<in> set (pp_rows (page_settled j q s))"
  shows "kr_reveal r = None \<and> \<not> kr_expanded r \<and> kr_keys r = []"
proof -
  have rows: "pp_rows (on_pager f s) = [] \<or> pp_rows (on_pager f s)
      = fst (reconcile [] (pp_next s) (pg_items (f (pp_pager s))))" for f
    using assms(1) by (auto simp: on_pager_def sync_rows_def split: prod.splits)
  have "pp_rows (page_settled j q s) = pp_rows (on_pager (settle j (fetcher_result q)) s)"
    by (simp add: page_settled_def Let_def)
  with rows [of "settle j (fetcher_result q)"] assms(2)
  have "r \<in> set (fst (reconcile [] (pp_next s) (pg_items (settle j (fetcher_result q) (pp_pager s)))))"
    by auto
  then show ?thesis by (auto simp: fresh_row_def dest!: reconcile_fresh)
qed

section \<open>Creating a project\<close>

lemma create_request_trimmed:
  "trim (pp_name s) \<noteq> [] \<Longrightarrow> pp_requests (createProject s) = pp_requests s @ [CreateProject (trim (pp_name s))]"
  by (simp add: createProject_def)

lemma pp_mount_creating: "\<not> pp_creating (pp_mount l a)"
  by (auto simp: pp_mount_def Let_def pp_refresh_def on_pager_def sync_rows_def split: prod.splits)

text \<open>A refused project creation leaves no trace: when the API answers the creation with an error,
  the page looks exactly as before the user submitted, with no message.\<close>
theorem create_error_silent:
  assumes "pp_pending s = []" "\<not> pp_creating s" "js_truthy err"
  shows "pp_view d (run pp_step s [PpSubmit, PpCreated 0 (Resolved x err)]) = pp_view d s"
proof (cases "trim (pp_name s) = []")
  case True
  with assms(1) show ?thesis by (simp add: createProject_def)
next
  case False
  then have "run pp_step s [PpSubmit, PpCreated 0 (Resolved x err)] =
      s\<lparr>pp_creating := False, pp_pending := [], pp_requests := pp_requests s @ [CreateProject (trim (pp_name s))]\<rparr>"
    using assms by (simp add: createProject_def createProject_settled_def resume_def)
  then show ?thesis using assms(2) by (simp add: pp_view_def create_form_def Let_def)
qed

theorem create_error_silent_witness:
  "pp_view d (run pp_step ((pp_mount False True)\<lparr>pp_name := js ''x''\<rparr>)
       [PpSubmit, PpCreated 0 (Resolved None (JStr (js ''quota'')))])
     = pp_view d ((pp_mount False True)\<lparr>pp_name := js ''x''\<rparr>)"
  by (rule create_error_silent) (simp_all add: pp_mount_pending pp_mount_creating js_def)

text \<open>C34. A good creation ends where it should: it clears the form, hides it, asks for the first page
  once, keeps the button busy until that page has settled, well or badly, and then frees it.\<close>
theorem create_project_flow:
  assumes "pp_pending s = []" "pg_inflight (pp_pager s) = []" "trim (pp_name s) \<noteq> []" "\<not> js_truthy err"
  shows "let s1 = run pp_step s [PpSubmit, PpCreated 0 (Resolved x err)];
             s2 = pp_step s1 (PpPage 0 r) in
     pp_name s1 = [] \<and> \<not> pp_showForm s1 \<and> pp_creating s1
     \<and> pg_inflight (pp_pager s1) = [(ForCreate, PAGE_SIZE, [])]
     \<and> \<not> pp_creating s2 \<and> pg_inflight (pp_pager s2) = []"
proof -
  have sync: "pp_name (sync_rows t) = pp_name t" "pp_showForm (sync_rows t) = pp_showForm t"
    "pp_creating (sync_rows t) = pp_creating t" "pp_pager (sync_rows t) = pp_pager t" for t
    by (auto simp: sync_rows_def split: prod.splits)
  show ?thesis
    using assms
    by (simp add: Let_def createProject_def createProject_settled_def resume_def pp_refresh_def
        on_pager_def sync refresh_def fetchPage_def reset_def page_settled_def settle_def fetched_def
        split: fetch_outcome.splits)
qed

theorem create_project_flow_witness:
  "let s = (pp_mount False False)\<lparr>pp_name := js ''x'', pp_showForm := True\<rparr>;
       s1 = run pp_step s [PpSubmit, PpCreated 0 (Resolved None JUndef)] in
   pp_name s1 = [] \<and> \<not> pp_creating (pp_step s1 (PpPage 0 (Rejected JUndef)))"
proof -
  have "trim (js ''x'') \<noteq> []" by (simp add: trim_def is_ws_def ws_units_def js_def)
  then show ?thesis
    using create_project_flow [of "(pp_mount False False)\<lparr>pp_name := js ''x'', pp_showForm := True\<rparr>"
        JUndef None "Rejected JUndef"]
    by (simp add: Let_def pp_mount_def pager_init_def del: pp_step.simps foldl_Cons)
qed

section \<open>Revoking a key\<close>

text \<open>A sample page with one row, for concrete instances.\<close>

definition demo_projects_page :: "key_row \<Rightarrow> projects_page" where
  "demo_projects_page row = \<lparr>pp_authLoading = False, pp_authed = True,
     pp_pager = pager_init\<lparr>pg_items := [demo_project], pg_hasInitialLoaded := True\<rparr>,
     pp_creating = False, pp_name = [], pp_showForm = False, pp_rows = [row], pp_next = 1,
     pp_pending = [], pp_requests = []\<rparr>"

text \<open>C18. A key is revoked only on purpose: the one thing a user can do that sends a revocation is
  confirming the open dialog of an expanded row, for the key that dialog was opened for.\<close>
theorem revoke_needs_dialog:
  assumes "can_fire (pp_view d s) e" "RevokeKey i \<in> set (drop (length (pp_requests s)) (pp_requests (pp_step s e)))"
  shows "\<exists>r\<in>set (pp_rows s). e = PpRow r RwConfirm \<and> kr_expanded r \<and> kr_confirmRevoke r = Some i"
proof -
  have upd: "pp_requests (update_row n f t) = pp_requests t" for n f t by (simp add: update_row_def)
  have pg: "pp_requests (on_pager f t) = pp_requests t" for f t
    by (auto simp: on_pager_def sync_rows_def split: prod.splits)
  from fires_pp_view [OF assms(1)] assms(2) show ?thesis
    by (auto simp: createProject_def toggle_def createKey_def kr_confirm_def loadKeys_def wait_for_def
        upd pg Let_def truthy_def dest!: fires_project_row_view split: if_splits)
qed

theorem revoke_needs_dialog_witness:
  "let row = (fresh_row 0 demo_project)\<lparr>kr_expanded := True, kr_confirmRevoke := Some (js ''k1'')\<rparr>;
       s = demo_projects_page row in
   can_fire (pp_view (\<lambda>t. t) s) (PpRow row RwConfirm)
   \<and> (\<exists>r\<in>set (pp_rows s). kr_expanded r \<and> kr_confirmRevoke r = Some (js ''k1''))"
proof -
  let ?row = "(fresh_row 0 demo_project)\<lparr>kr_expanded := True, kr_confirmRevoke := Some (js ''k1'')\<rparr>"
  let ?s = "demo_projects_page ?row"
  have f: "can_fire (pp_view (\<lambda>t. t) ?s) (PpRow ?row RwConfirm)"
    by (simp add: pp_view_def demo_projects_page_def pager_init_def project_row_view_def
        row_keys_view_def can_fire_map fresh_row_def Let_def js_def)
  have r: "RevokeKey (js ''k1'') \<in> set (drop (length (pp_requests ?s))
      (pp_requests (pp_step ?s (PpRow ?row RwConfirm))))"
    by (simp add: kr_confirm_def wait_for_def update_row_def truthy_def js_def)
  show ?thesis unfolding Let_def using f revoke_needs_dialog [OF f r] by blast
qed

end
