(* ===== verification/Overview.thy ===== *)
theory Overview
  imports Analytics App
begin

text \<open>
  \<open>src/pages/dashboard/Overview.tsx\<close>: the console's first page. The figures are requested
  whenever there is a session, the notary's key once on mount; the page shows nothing before
  the session is known.
\<close>

section \<open>State\<close>

datatype overview_wait = OwStats bool | OwKey

record overview =
  ow_user :: "v1User option"
  ow_branding :: "v1Branding option"
  ow_authed :: bool
  ow_authLoading :: bool
  ow_keyId :: "jstr option"
  ow_publicKey :: "jstr option"
  ow_keyError :: bool
  ow_stats :: "v1GetOverviewResponse option"
  ow_pending :: "overview_wait list"
  ow_requests :: "api_request list"

definition ow_stats_effect :: "overview \<Rightarrow> overview" where
  "ow_stats_effect s =
     (if \<not> ow_authed s then s
      else s\<lparr>ow_pending := ow_pending s @ [OwStats True],
             ow_requests := ow_requests s @ [GetOverview 14]\<rparr>)"

definition ow_key_effect :: "overview \<Rightarrow> overview" where
  "ow_key_effect s = s\<lparr>ow_pending := ow_pending s @ [OwKey],
     ow_requests := ow_requests s @ [GetPublicKey]\<rparr>"

definition ow_mount :: "v1User option \<Rightarrow> v1Branding option \<Rightarrow> bool \<Rightarrow> bool \<Rightarrow> overview" where
  "ow_mount user branding authed authLoading = ow_key_effect (ow_stats_effect
     \<lparr>ow_user = user, ow_branding = branding, ow_authed = authed, ow_authLoading = authLoading,
      ow_keyId = None, ow_publicKey = None, ow_keyError = False, ow_stats = None,
      ow_pending = [], ow_requests = []\<rparr>)"

fun ow_stale :: "overview_wait \<Rightarrow> overview_wait" where
  "ow_stale (OwStats b) = OwStats False"
| "ow_stale OwKey = OwKey"

definition ow_session ::
  "v1User option \<Rightarrow> v1Branding option \<Rightarrow> bool \<Rightarrow> bool \<Rightarrow> overview \<Rightarrow> overview" where
  "ow_session user branding authed authLoading s =
     (let s' = s\<lparr>ow_user := user, ow_branding := branding, ow_authed := authed,
                 ow_authLoading := authLoading\<rparr> in
      if authed = ow_authed s then s'
      else ow_stats_effect (s'\<lparr>ow_pending := map ow_stale (ow_pending s)\<rparr>))"

definition ow_stats_settled ::
  "bool \<Rightarrow> v1GetOverviewResponse reply \<Rightarrow> overview \<Rightarrow> overview" where
  "ow_stats_settled active r s = (case r of
     Rejected e \<Rightarrow> s
   | Resolved data err \<Rightarrow> if active \<and> \<not> js_truthy err then s\<lparr>ow_stats := data\<rparr> else s)"

definition ow_key_settled :: "v1GetPublicKeyResponse reply \<Rightarrow> overview \<Rightarrow> overview" where
  "ow_key_settled r s = (case r of
     Rejected e \<Rightarrow> s\<lparr>ow_keyError := True\<rparr>
   | Resolved data err \<Rightarrow>
       if truthy (Option.bind data pk_public_key)
       then s\<lparr>ow_keyId := Option.bind data pk_key_id, ow_publicKey := Option.bind data pk_public_key\<rparr>
       else s\<lparr>ow_keyError := True\<rparr>)"

datatype overview_event =
    OwNavigate string
  | OwSession "v1User option" "v1Branding option" bool bool
  | OwStatsReply nat "v1GetOverviewResponse reply"
  | OwKeyReply nat "v1GetPublicKeyResponse reply"

text \<open>\<open>onNavigate\<close> is the layout's tab change; it leaves the page's own state alone.\<close>

fun ow_step :: "overview \<Rightarrow> overview_event \<Rightarrow> overview" where
  "ow_step s (OwNavigate tab) = s"
| "ow_step s (OwSession u b a l) = ow_session u b a l s"
| "ow_step s (OwStatsReply i r) =
     (if i < length (ow_pending s) then
        (case ow_pending s ! i of
           OwStats active \<Rightarrow> ow_stats_settled active r (s\<lparr>ow_pending := remove_nth i (ow_pending s)\<rparr>)
         | OwKey \<Rightarrow> s)
      else s)"
| "ow_step s (OwKeyReply i r) =
     (if i < length (ow_pending s) \<and> ow_pending s ! i = OwKey
      then ow_key_settled r (s\<lparr>ow_pending := remove_nth i (ow_pending s)\<rparr>) else s)"

fun ow_outside :: "overview_event \<Rightarrow> bool" where
  "ow_outside (OwNavigate tab) = False"
| "ow_outside (OwSession u b a l) = True"
| "ow_outside (OwStatsReply i r) = True"
| "ow_outside (OwKeyReply i r) = True"

section \<open>View\<close>

definition overview_account :: "v1User option \<Rightarrow> string" where
  "overview_account user =
     (if Option.bind user us_account_type = Some (js ''ACCOUNT_TYPE_ORGANIZATION'')
      then ''Organization'' else ''Personal'')"

definition workspace_name :: "overview \<Rightarrow> jstr" where
  "workspace_name s = or_str (or_opt (Option.bind (ow_branding s) br_company_name)
     (Option.bind (ow_user s) us_org_name)) (js ''your workspace'')"

definition quickActions :: "(string \<times> string \<times> string \<times> string) list" where
  "quickActions =
     [(''verify'', ''Verify evidence'', ''Validate receipts and proofs.'', ''IconShieldCheck''),
      (''receipts'', ''Receipts'', ''Fetch cryptographic proof by action ID.'', ''IconFileText''),
      (''projects'', ''Projects'', ''Track work tied to ledger actions.'', ''IconFolder''),
      (''settings'', ''Settings'', ''Edit account and workspace details.'', ''IconGitBranch'')]"

definition quick_action :: "string \<times> string \<times> string \<times> string \<Rightarrow> overview_event node" where
  "quick_action a = (let (tab, title, desc, ic) = a in
     El ''button'' [OnClick (OwNavigate tab)]
      [El ''div'' [] [El ''span'' [] [icon ic], El ''span'' [] [icon ''IconArrowRight'']],
       El ''p'' [] [tx title], El ''p'' [] [tx desc]])"

definition overview_metrics :: "(int \<Rightarrow> jstr) \<Rightarrow> overview \<Rightarrow> overview_event node" where
  "overview_metrics fmt s = (let d = ow_stats s in El ''div'' []
     [metric_card (js ''Actions notarized'') (fmt (num (Option.bind d ov_total_events))) None None
        [icon ''IconActivity''],
      metric_card (js ''Sessions'') (fmt (num (Option.bind d ov_total_sessions))) None None
        [icon ''IconLayers''],
      metric_card (js ''Active grants'') (fmt (active_grants d)) None None [icon ''IconGitBranch''],
      El ''button'' [OnClick (OwNavigate ''analytics'')]
       [El ''span'' [] [tx ''Analytics''],
        El ''span'' [] [tx ''View charts '', icon ''IconArrowRight'']]])"

definition overview_key :: "overview \<Rightarrow> overview_event node" where
  "overview_key s =
     card (Some (js ''Notary public key''))
      (Some (js ''The public key every receipt signature is checked against.'')) []
      [El ''div'' [] [],
       El ''p'' [] [tx ''Use this key to verify evidence offline. Signatures on every signed receipt trace back to it.''],
       (if truthy (ow_publicKey s)
        then El ''div'' []
          (if_truthy (ow_keyId s)
             (\<lambda>k. [El ''div'' [] [El ''span'' [] [tx ''Key ID''], El ''span'' [] [Text k]]])
           @ [El ''div'' [] [El ''span'' [] [tx ''Public key''], copyable (the (ow_publicKey s)) True]])
        else El ''p'' []
          [Text (if ow_keyError s
             then js ''Notary key unavailable, the ledger service may be unreachable.''
             else js ''Loading notary key'' @ [0x2026])])]"

definition ow_view :: "(int \<Rightarrow> jstr) \<Rightarrow> overview \<Rightarrow> overview_event node list" where
  "ow_view fmt s =
     (if ow_authLoading s \<or> \<not> ow_authed s then []
      else [El ''div'' []
        [page_header (js ''Welcome to '' @ workspace_name s)
           (Some (js ''Proof for autonomous actions. Everything here is retrieved directly from the Babit ledger.'')) None [],
         El ''p'' []
          [tx ''Signed in as '',
           El ''span'' [] [Text (or_str (Option.bind (ow_user s) us_email) (js ''your account''))],
           Text [32, 0xB7, 32], tx (overview_account (ow_user s)), tx ''.'', tx '' '',
           El ''button'' [OnClick (OwNavigate ''settings'')] [tx ''Manage in Settings'']],
         overview_metrics fmt s,
         overview_key s,
         El ''div'' []
          [El ''h2'' [] [tx ''Get started''], El ''div'' [] (map quick_action quickActions)],
         El ''p'' [] [tx ''Need profile changes? Use Settings. Need grants? Open the Delegations tab.'']]])"

lemma fires_ow_view: "fires_in (ow_view fmt s) e \<Longrightarrow>
   \<exists>t\<in>{''verify'', ''receipts'', ''projects'', ''settings'', ''analytics''}. e = OwNavigate t"
  by (auto simp: ow_view_def overview_metrics_def overview_key_def quick_action_def quickActions_def
      Let_def fires_in_map split: if_splits)

section \<open>Properties\<close>

text \<open>Every button of the overview leads to a page of the console: whatever the state of the page,
  the tab it asks for is one for which the application renders a page.\<close>
theorem overview_buttons_lead:
  assumes "fires_in (ow_view fmt s) (OwNavigate t)"
  shows "shows_page (app_render splashDone False (getPath (handleTabChange (js t) r)))"
proof -
  have t: "t \<in> {''verify'', ''receipts'', ''projects'', ''settings'', ''analytics''}"
    using fires_ow_view [OF assms] by auto
  then have "js t \<noteq> []" "47 \<notin> set (js t)" "63 \<notin> set (js t)" "35 \<notin> set (js t)"
    by (auto simp: js_def)
  then have "app_render splashDone False (getPath (handleTabChange (js t) r)) = DashboardScreen (js t)"
    by (rule handleTabChange_shows)
  then show ?thesis using t by (auto simp: shows_page_def dashboard_child_def)
qed

theorem overview_buttons_lead_witness:
  "fires_in (ow_view (\<lambda>i. []) (ow_mount None None True False)) (OwNavigate ''settings'')
   \<and> shows_page (app_render True False (getPath (handleTabChange (js ''settings'') (router_start (js ''/'')))))"
proof -
  have f: "fires_in (ow_view (\<lambda>i. []) (ow_mount None None True False)) (OwNavigate ''settings'')"
    by (simp add: ow_view_def ow_mount_def ow_key_effect_def ow_stats_effect_def)
  from f overview_buttons_lead [OF f] show ?thesis by blast
qed

text \<open>
  The key is asked for once; the figures are asked for at most once for each start of a
  session, and a session that has ended gets no figures.
\<close>

definition ow_inv :: "overview \<Rightarrow> bool" where
  "ow_inv s \<longleftrightarrow>
     length (filter (\<lambda>w. w = OwKey) (ow_pending s)) \<le> 1
     \<and> (ow_publicKey s \<noteq> None \<or> ow_keyError s \<longrightarrow> OwKey \<notin> set (ow_pending s))
     \<and> (ow_keyError s \<longrightarrow> ow_publicKey s = None)
     \<and> (ow_publicKey s \<noteq> None \<longrightarrow> truthy (ow_publicKey s))
     \<and> (OwStats True \<in> set (ow_pending s) \<longrightarrow> ow_authed s)
     \<and> length (filter (\<lambda>w. w = OwStats True) (ow_pending s)) \<le> 1
     \<and> length (filter (\<lambda>q. q = GetPublicKey) (ow_requests s)) = 1"

lemma ow_inv_mount: "ow_inv (ow_mount u b a l)"
  by (simp add: ow_inv_def ow_mount_def ow_key_effect_def ow_stats_effect_def)

lemma ow_stale_simps [simp]: "ow_stale w = OwKey \<longleftrightarrow> w = OwKey" "OwKey = ow_stale w \<longleftrightarrow> w = OwKey"
  "ow_stale w \<noteq> OwStats True"
  by (cases w; simp)+

lemma filter_stale:
  "length (filter (\<lambda>w. w = OwKey) (map ow_stale ws)) = length (filter (\<lambda>w. w = OwKey) ws)"
  "filter (\<lambda>w. w = OwStats True) (map ow_stale ws) = []"
  "OwKey \<in> set (map ow_stale ws) \<longleftrightarrow> OwKey \<in> set ws"
  "OwStats True \<notin> set (map ow_stale ws)"
proof -
  show "length (filter (\<lambda>w. w = OwKey) (map ow_stale ws)) = length (filter (\<lambda>w. w = OwKey) ws)"
    "filter (\<lambda>w. w = OwStats True) (map ow_stale ws) = []"
    "OwKey \<in> set (map ow_stale ws) \<longleftrightarrow> OwKey \<in> set ws"
    by (induction ws) auto
  show "OwStats True \<notin> set (map ow_stale ws)"
    by (induction ws) (auto dest: sym)
qed

lemma ow_inv_session: "ow_inv s \<Longrightarrow> ow_inv (ow_session u b a l s)"
proof -
  define ws where "ws = map ow_stale (ow_pending s)"
  assume "ow_inv s"
  then show ?thesis
    using filter_stale [of "ow_pending s", folded ws_def]
    by (auto simp: ow_inv_def ow_session_def Let_def ow_stats_effect_def simp flip: ws_def)
qed

lemma ow_inv_stats:
  assumes "ow_inv s"
  shows "ow_inv (ow_stats_settled b r (s\<lparr>ow_pending := remove_nth i (ow_pending s)\<rparr>))"
proof -
  have le: "length (filter P (remove_nth i (ow_pending s))) \<le> length (filter P (ow_pending s))" for P
    by (rule filter_remove_nth_le)
  have sub: "w \<in> set (remove_nth i (ow_pending s)) \<Longrightarrow> w \<in> set (ow_pending s)" for w
    by (rule in_remove_nthD)
  have "length (filter (\<lambda>w. w = OwKey) (remove_nth i (ow_pending s))) \<le> 1"
    "length (filter (\<lambda>w. w = OwStats True) (remove_nth i (ow_pending s))) \<le> 1"
    using le [of "\<lambda>w. w = OwKey"] le [of "\<lambda>w. w = OwStats True"] assms
    by (simp_all add: ow_inv_def)
  then have "ow_inv (s\<lparr>ow_pending := remove_nth i (ow_pending s)\<rparr>)"
    using assms sub [of OwKey] sub [of "OwStats True"] by (auto simp: ow_inv_def)
  moreover have "ow_inv (x\<lparr>ow_stats := d\<rparr>) = ow_inv x" for x d by (simp add: ow_inv_def)
  ultimately show ?thesis by (simp add: ow_stats_settled_def split: reply.split)
qed

lemma ow_inv_key:
  assumes "ow_inv s" "i < length (ow_pending s)" "ow_pending s ! i = OwKey"
  shows "ow_inv (ow_key_settled r (s\<lparr>ow_pending := remove_nth i (ow_pending s)\<rparr>))"
proof -
  have gone: "filter (\<lambda>w. w = OwKey) (remove_nth i (ow_pending s)) = []"
    using assms by (intro filter_remove_nth) (auto simp: ow_inv_def)
  then have out: "OwKey \<notin> set (remove_nth i (ow_pending s))" by (auto simp: filter_empty_conv)
  have le: "length (filter P (remove_nth i (ow_pending s))) \<le> length (filter P (ow_pending s))" for P
    by (rule filter_remove_nth_le)
  have sub: "w \<in> set (remove_nth i (ow_pending s)) \<Longrightarrow> w \<in> set (ow_pending s)" for w
    by (rule in_remove_nthD)
  have "OwKey \<in> set (ow_pending s)" using assms(2,3) by (metis nth_mem)
  then have "ow_publicKey s = None" "\<not> ow_keyError s" using assms(1) by (auto simp: ow_inv_def)
  then show ?thesis
    using assms(1) gone out sub [of "OwStats True"] le [of "\<lambda>w. w = OwStats True"]
    unfolding ow_key_settled_def
    by (auto simp: ow_inv_def split: reply.split)
qed

lemma ow_inv_step: "ow_inv s \<Longrightarrow> ow_inv (ow_step s e)"
  by (cases e) (simp_all add: ow_inv_session ow_inv_stats ow_inv_key split: overview_wait.split)

interpretation ows: machine "ow_mount u b a l" ow_step ow_inv for u b a l
  by unfold_locales (simp_all add: ow_inv_mount ow_inv_step del: ow_step.simps)

lemma overview_hidden: "ow_authLoading s \<or> \<not> ow_authed s \<Longrightarrow> ow_view fmt s = []"
  by (simp add: ow_view_def)

end
