(* ===== verification/Shell.thy ===== *)
theory Shell
  imports Theme Pages App
begin

text \<open>
  The application shell: \<open>src/main.tsx\<close> and the part of \<open>src/App.tsx\<close> around the choice of the
  screen. One document is one \<open>shell\<close>: the theme is applied before the first render, the error
  boundary is above the session and the router, the splash screen's timer runs from the mount
  of \<open>App\<close>, and most screens are separate modules, imported when they are first rendered. The
  browser's entries of other documents are not part of the state. \<open>StrictMode\<close> has an effect in
  development builds only.
\<close>

section \<open>Lazy screens\<close>

datatype import_result = ImportDone | ImportError "jstr option"

datatype import_state = NotRequested | Importing | Finished import_result

definition lazy_modules :: "string list" where
  "lazy_modules = [''ApiReference'', ''Overview'', ''Analytics'', ''Activity'', ''Agents'', ''Delegations'',
     ''Sessions'', ''Receipts'', ''Verify'', ''Projects'', ''ApiKeys'', ''Settings'']"

definition lazy_module :: "app_screen \<Rightarrow> string option" where
  "lazy_module scr = (case scr of
     ApiReferenceScreen \<Rightarrow> Some ''ApiReference''
   | DashboardScreen tab \<Rightarrow> dashboard_child tab
   | _ \<Rightarrow> None)"

definition loading_view :: "'e node" where
  "loading_view = El ''div'' [] [El ''div'' [] []]"

text \<open>A suspended child is replaced by the fallback; a failed import is thrown to the boundary above.\<close>

definition suspense :: "import_state \<Rightarrow> 'e node \<Rightarrow> 'e node" where
  "suspense st child = (if st = Finished ImportDone then child else loading_view)"

section \<open>State\<close>

record shell =
  sh_theme :: theme_state
  sh_auth :: auth
  sh_router :: router
  sh_splashDone :: bool
  sh_timer :: bool
  sh_imports :: "string \<Rightarrow> import_state"
  sh_boundary :: boundary
  sh_skip :: skip_link

definition shell_screen :: "shell \<Rightarrow> app_screen" where
  "shell_screen s = app_render (sh_splashDone s) (au_loading (sh_auth s)) (rt_path (sh_router s))"

text \<open>What throws takes down everything under the boundary, the timer of \<open>App\<close> included.\<close>

definition shell_throw :: "jstr option \<Rightarrow> shell \<Rightarrow> shell" where
  "shell_throw m s = s\<lparr>sh_boundary := getDerivedStateFromError m, sh_timer := False\<rparr>"

text \<open>Rendering a lazy component asks for its module once, and throws its failure ever after.\<close>

definition render_lazy :: "string \<Rightarrow> shell \<Rightarrow> shell" where
  "render_lazy m s = (case sh_imports s m of
     NotRequested \<Rightarrow> s\<lparr>sh_imports := (sh_imports s)(m := Importing)\<rparr>
   | Finished (ImportError t) \<Rightarrow> shell_throw t s
   | _ \<Rightarrow> s)"

text \<open>The effect of \<open>DashboardLayout\<close>, after a render that showed it.\<close>

definition shell_guard :: "shell \<Rightarrow> shell" where
  "shell_guard s = (case shell_screen s of
     DashboardScreen tab \<Rightarrow>
       if eb_hasError (sh_boundary s) then s
       else s\<lparr>sh_router := useRequireAuth (sh_auth s) (sh_router s)\<rparr>
   | _ \<Rightarrow> s)"

definition shell_commit :: "shell \<Rightarrow> shell" where
  "shell_commit s =
     (if eb_hasError (sh_boundary s) then s
      else shell_guard (case lazy_module (shell_screen s) of None \<Rightarrow> s | Some m \<Rightarrow> render_lazy m s))"

text \<open>A new document: \<open>initTheme\<close>, then the first render of the tree of \<open>main.tsx\<close>.\<close>

definition shell_load :: "client \<Rightarrow> jstr option \<Rightarrow> bool \<Rightarrow> router \<Rightarrow> shell" where
  "shell_load c stored dark r = shell_commit
     \<lparr>sh_theme = theme_boot stored dark, sh_auth = auth_mount (setAuthToken None c),
      sh_router = handlePop r, sh_splashDone = False, sh_timer = True,
      sh_imports = (\<lambda>_. NotRequested), sh_boundary = boundary_init,
      sh_skip = \<lparr>sk_visible = False, sk_focused = False\<rparr>\<rparr>"

definition shell_open :: "router \<Rightarrow> shell \<Rightarrow> shell" where
  "shell_open r s =
     shell_load (au_client (sh_auth s)) (th_stored (sh_theme s)) (th_system_dark (sh_theme s)) r"

section \<open>Events\<close>

datatype shell_event =
    ShAuth auth_event
  | ShRouter router_event
  | ShTheme theme_event
  | ShSkip bool skip_event
  | ShSplash
  | ShImport string import_result
  | ShThrow "jstr option"
  | ShReload
  | ShHome

text \<open>
  Under the fallback answers still arrive and the history still moves, but what they set is not
  shown; only the fallback's own button and link, and the browser's reload, are left.
\<close>

fun shell_step :: "shell \<Rightarrow> shell_event \<Rightarrow> shell" where
  "shell_step s (ShAuth e) = shell_commit (s\<lparr>sh_auth := auth_step (sh_auth s) e\<rparr>)"
| "shell_step s (ShRouter e) = shell_commit (s\<lparr>sh_router := router_step (sh_router s) e\<rparr>)"
| "shell_step s (ShTheme e) =
     (if eb_hasError (sh_boundary s) \<and> e = Toggle then s
      else s\<lparr>sh_theme := theme_step (sh_theme s) e\<rparr>)"
| "shell_step s (ShSkip has_main e) =
     (if eb_hasError (sh_boundary s) then s else s\<lparr>sh_skip := skip_step has_main (sh_skip s) e\<rparr>)"
| "shell_step s ShSplash =
     (if sh_timer s then shell_commit (s\<lparr>sh_timer := False, sh_splashDone := True\<rparr>) else s)"
| "shell_step s (ShImport m r) =
     (if sh_imports s m = Importing
      then shell_commit (s\<lparr>sh_imports := (sh_imports s)(m := Finished r)\<rparr>) else s)"
| "shell_step s (ShThrow m) = (if eb_hasError (sh_boundary s) then s else shell_throw m s)"
| "shell_step s ShReload = shell_open (sh_router s) s"
| "shell_step s ShHome =
     (if eb_hasError (sh_boundary s) then shell_open (router_start (js ''/'')) s else s)"

text \<open>
  What \<open>main.tsx\<close> shows, given the tree of the screen: its events are \<open>Inr\<close>, the skip link's
  \<open>Inl\<close>. A lazy screen stands inside its own \<open>Boundary\<close>; a dashboard tab's is inside the layout.
\<close>

definition shell_page :: "shell \<Rightarrow> 'e node \<Rightarrow> ('e node list \<Rightarrow> 'e node) \<Rightarrow> 'e node" where
  "shell_page s page layout = (case shell_screen s of
     DashboardScreen tab \<Rightarrow> layout (case dashboard_child tab of
         None \<Rightarrow> []
       | Some m \<Rightarrow> [suspense (sh_imports s m) page])
   | ApiReferenceScreen \<Rightarrow> suspense (sh_imports s ''ApiReference'') page
   | _ \<Rightarrow> page)"

definition shell_view ::
  "shell \<Rightarrow> 'e node \<Rightarrow> ('e node list \<Rightarrow> 'e node) \<Rightarrow> (skip_event + 'e) boundary_event node list" where
  "shell_view s page layout =
     (if eb_hasError (sh_boundary s) then [boundary_fallback (eb_message (sh_boundary s))]
      else [map_node (\<lambda>e. EbChild (Inl e)) (skip_view (sh_skip s)),
            map_node (\<lambda>e. EbChild (Inr e)) (shell_page s page layout)])"

section \<open>Failure and recovery\<close>

lemma commit_failed [simp]: "eb_hasError (sh_boundary s) \<Longrightarrow> shell_commit s = s"
  by (simp add: shell_commit_def)

fun loads_document :: "shell_event \<Rightarrow> bool" where
  "loads_document ShReload = True"
| "loads_document ShHome = True"
| "loads_document _ = False"

lemma boundary_kept:
  "eb_hasError (sh_boundary s) \<Longrightarrow> \<not> loads_document e \<Longrightarrow> sh_boundary (shell_step s e) = sh_boundary s"
  by (cases e) simp_all

lemma fallback_stays:
  assumes "eb_hasError (sh_boundary s)" "list_all (\<lambda>e. \<not> loads_document e) es"
  shows "shell_view (run shell_step s es) page layout = [boundary_fallback (eb_message (sh_boundary s))]"
  using assms
proof (induction es arbitrary: s)
  case (Cons e es)
  then show ?case using boundary_kept [of s e] by simp
qed (simp add: shell_view_def)

lemma guard_keeps [simp]:
  "sh_boundary (shell_guard s) = sh_boundary s" "sh_imports (shell_guard s) = sh_imports s"
  "sh_auth (shell_guard s) = sh_auth s" "sh_splashDone (shell_guard s) = sh_splashDone s"
  "sh_timer (shell_guard s) = sh_timer s"
  by (simp_all add: shell_guard_def split: app_screen.splits)

lemma load_shows_page: "\<not> eb_hasError (sh_boundary (shell_load c stored dark r))"
  by (simp add: shell_load_def shell_commit_def render_lazy_def boundary_init_def split: option.splits)

lemma failed_import_falls_back:
  assumes "lazy_module (shell_screen s) = Some m" "sh_imports s m = Importing"
    and "\<not> eb_hasError (sh_boundary s)"
  shows "shell_view (shell_step s (ShImport m (ImportError t))) page layout = [boundary_fallback t]"
  using assms
  by (simp add: shell_commit_def shell_screen_def render_lazy_def shell_throw_def shell_view_def
      getDerivedStateFromError_def)

section \<open>Public visits\<close>

text \<open>The public pages: all but the console and the API reference, and whatever address has no page.\<close>

definition eager :: "jstr \<Rightarrow> bool" where
  "eager path \<longleftrightarrow> app_render True False path \<in> {LandingScreen, ProfileScreen, LoginScreen, SignupScreen,
     ForgotPasswordScreen, SecurityScreen, ContactScreen, PricingScreen, NotFoundScreen}"

fun eager_event :: "shell_event \<Rightarrow> bool" where
  "eager_event (ShRouter (Navigate to)) \<longleftrightarrow> eager (to_url to) \<and> eager (strip_hash (to_url to))"
| "eager_event e \<longleftrightarrow> True"

lemma eager_screen: "eager p \<Longrightarrow> lazy_module (app_render a b p) = None"
  by (auto simp: eager_def app_render_def Let_def lazy_module_def split: if_splits)

lemma eager_root: "eager (js ''/'')"
  by code_simp

lemma eager_pages: "list_all (\<lambda>p. eager (js p)) [''/'', ''/login'', ''/signup'', ''/forgot-password'',
    ''/profile'', ''/pricing'', ''/security'', ''/contact'', ''/nowhere'']"
  by code_simp

lemma lazy_pages: "list_all (\<lambda>p. \<not> eager (js p)) [''/api'', ''/docs/api'', ''/dashboard'', ''/dashboard/verify'']"
  by code_simp

definition eager_inv :: "shell \<Rightarrow> bool" where
  "eager_inv s \<longleftrightarrow> eager (rt_path (sh_router s))
     \<and> (\<forall>u\<in>set (rt_entries (sh_router s)) \<union> set (rt_ahead (sh_router s)). eager (strip_hash u))
     \<and> rt_entries (sh_router s) \<noteq> []
     \<and> sh_imports s = (\<lambda>_. NotRequested)"

lemma eager_getPath:
  "rt_entries r \<noteq> [] \<Longrightarrow> eager (strip_hash (hd (rt_entries r))) \<Longrightarrow> eager (getPath r)"
  using eager_root by (simp add: getPath_def location_def or_str_def)

lemma eager_commit: "eager (rt_path (sh_router s)) \<Longrightarrow> shell_commit s = (if eb_hasError (sh_boundary s) then s else shell_guard s)"
  by (simp add: shell_commit_def shell_screen_def eager_screen)

text \<open>The router's part of the invariant.\<close>

definition eager_history :: "router \<Rightarrow> bool" where
  "eager_history r \<longleftrightarrow> eager (rt_path r)
     \<and> (\<forall>u\<in>set (rt_entries r) \<union> set (rt_ahead r). eager (strip_hash u)) \<and> rt_entries r \<noteq> []"

lemma eager_inv_history: "eager_inv s \<longleftrightarrow> eager_history (sh_router s)
    \<and> sh_imports s = (\<lambda>_. NotRequested)"
  by (auto simp: eager_inv_def eager_history_def)

lemma eager_history_navigate:
  "eager_history r \<Longrightarrow> eager (to_url to) \<Longrightarrow> eager (strip_hash (to_url to)) \<Longrightarrow> eager_history (navigate to r)"
  by (auto simp: eager_history_def navigate_def Let_def)

lemma eager_history_pop:
  "\<forall>u\<in>set (rt_entries r) \<union> set (rt_ahead r). eager (strip_hash u) \<Longrightarrow> rt_entries r \<noteq> [] \<Longrightarrow>
   eager_history (handlePop r)"
  by (auto simp: eager_history_def handlePop_def intro: eager_getPath)

lemma eager_history_step:
  assumes "eager_history r" "eager_event (ShRouter e)"
  shows "eager_history (router_step r e)"
proof (cases e)
  case (Navigate to)
  then show ?thesis using assms by (simp add: eager_history_navigate)
next
  case Back
  then show ?thesis using assms(1)
    by (auto simp: go_back_def split: list.splits intro!: eager_history_pop) (auto simp: eager_history_def)
next
  case Forward
  then show ?thesis using assms(1)
    by (auto simp: go_forward_def split: list.splits intro!: eager_history_pop) (auto simp: eager_history_def)
qed

lemma eager_history_start: "eager (strip_hash url) \<Longrightarrow> eager_history (router_start url)"
  unfolding router_start_def by (rule eager_history_pop) auto

lemma eager_login: "eager (to_url (js ''/login''))" "eager (strip_hash (to_url (js ''/login'')))"
  by code_simp+

lemma eager_history_guard: "eager_history r \<Longrightarrow> eager_history (useRequireAuth a r)"
  by (simp add: useRequireAuth_def eager_history_navigate eager_login)

lemma eager_inv_commit: "eager_inv s \<Longrightarrow> eager_inv (shell_commit s)"
  by (auto simp: eager_commit eager_inv_history shell_guard_def eager_history_guard
      eager_history_def [of "sh_router s"] split: app_screen.splits)

lemma eager_inv_load: "eager_history (handlePop r) \<Longrightarrow> eager_inv (shell_load c stored dark r)"
  unfolding shell_load_def by (rule eager_inv_commit) (simp add: eager_inv_history boundary_init_def)

lemma eager_inv_open: "eager_inv s \<Longrightarrow> eager_inv (shell_open (sh_router s) s)"
  unfolding shell_open_def
  by (rule eager_inv_load, rule eager_history_pop) (auto simp: eager_inv_def)

lemma eager_inv_fields [simp]:
  "eager_inv (s\<lparr>sh_auth := a\<rparr>) = eager_inv s" "eager_inv (s\<lparr>sh_theme := t\<rparr>) = eager_inv s"
  "eager_inv (s\<lparr>sh_skip := k\<rparr>) = eager_inv s"
  "eager_inv (s\<lparr>sh_timer := b, sh_splashDone := b'\<rparr>) = eager_inv s"
  by (simp_all add: eager_inv_def)

lemma eager_inv_throw: "eager_inv s \<Longrightarrow> eager_inv (shell_throw m s)"
  by (simp add: eager_inv_def shell_throw_def)

lemma eager_inv_step: "eager_inv s \<Longrightarrow> eager_event e \<Longrightarrow> eager_inv (shell_step s e)"
proof (cases e)
  case (ShRouter x)
  then have "eager_inv (s\<lparr>sh_router := router_step (sh_router s) x\<rparr>)" if "eager_inv s" "eager_event e"
    using that by (simp add: eager_inv_history eager_history_step)
  then show "eager_inv s \<Longrightarrow> eager_event e \<Longrightarrow> ?thesis" by (simp add: ShRouter eager_inv_commit)
next
  case ShReload
  then show "eager_inv s \<Longrightarrow> ?thesis" by (simp add: eager_inv_open)
next
  case ShHome
  then show "eager_inv s \<Longrightarrow> ?thesis"
    using eager_history_start [of "js ''/''"] eager_root
    by (simp add: shell_open_def eager_inv_load router_start_def handlePop_def getPath_def location_def strip_hash_def js_def)
next
  case (ShThrow m)
  then show "eager_inv s \<Longrightarrow> ?thesis" by (simp add: eager_inv_throw)
qed (auto intro: eager_inv_commit simp: eager_inv_def [of s] simp del: commit_failed)

text \<open>On the public pages nothing but a page that throws brings up the fallback.\<close>

lemma eager_error_step:
  assumes "eager_inv s" "eager_event e" "\<forall>m. e \<noteq> ShThrow m" "\<not> eb_hasError (sh_boundary s)"
  shows "\<not> eb_hasError (sh_boundary (shell_step s e))"
proof (cases e)
  case (ShRouter x)
  then have "eager (rt_path (router_step (sh_router s) x))"
    using assms(1,2) eager_history_step [of "sh_router s" x] by (simp add: eager_inv_history eager_history_def)
  then show ?thesis using assms(4) ShRouter by (simp add: eager_commit del: router_step.simps)
next
  case ShReload
  then show ?thesis by (simp add: shell_open_def load_shows_page)
qed (use assms in \<open>auto simp: eager_commit eager_inv_def\<close>)

lemma eager_fallback:
  assumes "eager_inv s" "list_all eager_event es" "eb_hasError (sh_boundary (run shell_step s es))"
  shows "eb_hasError (sh_boundary s) \<or> (\<exists>m. ShThrow m \<in> set es)"
  using assms
proof (induction es arbitrary: s)
  case (Cons e es)
  have "eager_inv (shell_step s e)" using Cons.prems(1,2) by (simp add: eager_inv_step)
  from Cons.IH [OF this] Cons.prems eager_error_step [of s e] show ?case by (cases "\<exists>m. e = ShThrow m") auto
qed simp

definition eager_step :: "shell \<Rightarrow> shell_event \<Rightarrow> shell" where
  "eager_step s e = (if eager_event e then shell_step s e else s)"

interpretation eager_visit: machine "shell_load c stored dark (router_start url)" eager_step
    "\<lambda>s. eager (strip_hash url) \<longrightarrow> eager_inv s" for c stored dark url
proof
  have "handlePop (router_start url) = router_start url"
    by (simp add: router_start_def handlePop_def getPath_def location_def)
  then show "eager (strip_hash url) \<longrightarrow> eager_inv (shell_load c stored dark (router_start url))"
    by (simp add: eager_inv_load eager_history_start)
qed (simp add: eager_step_def eager_inv_step)

lemma run_eager: "list_all eager_event es \<Longrightarrow> run shell_step s es = run eager_step s es"
  by (induction es arbitrary: s) (simp_all add: eager_step_def)

text \<open>C33. A visit to the public pages (landing, profile, sign-in, sign-up, forgotten password, security,
  contact, pricing and the page for unknown addresses) imports no lazy module: when the visit starts
  at the address of one and every navigation leads to one, then at any moment, with answers to the
  session, reloads, the browser's buttons, sign-outs and pages that throw in any order, no module
  has been asked for; and when the fallback of the error boundary is shown, a page has thrown.
\<close>
theorem public_visit_imports_nothing:
  assumes "eager (strip_hash url)" and "list_all eager_event es"
    and "s = run shell_step (shell_load c stored dark (router_start url)) es"
  shows "sh_imports s m = NotRequested
    \<and> (if eb_hasError (sh_boundary s) then \<exists>t. ShThrow t \<in> set es else lazy_module (shell_screen s) = None)"
proof -
  have "eager_inv s" using eager_visit.inv_run [of url c stored dark es] assms by (simp add: run_eager)
  moreover have "eager_inv (shell_load c stored dark (router_start url))"
    using eager_visit.inv_init [of url c stored dark] assms(1) by simp
  ultimately show ?thesis
    using eager_fallback [of "shell_load c stored dark (router_start url)" es] assms(2,3) load_shows_page
    by (auto simp: eager_inv_def shell_screen_def eager_screen)
qed

theorem public_visit_imports_nothing_witness:
  "let s = run shell_step (shell_load demo_client None False (router_start (js ''/''))) [ShSplash,
       ShAuth (MeReply 0 (Resolved None JUndef)), ShRouter (Navigate (js ''/pricing'')),
       ShRouter (Navigate (js ''/signup'')), ShRouter Back, ShReload] in
   sh_imports s ''Overview'' = NotRequested \<and> \<not> eb_hasError (sh_boundary s)"
proof -
  let ?es = "[ShSplash, ShAuth (MeReply 0 (Resolved None JUndef)), ShRouter (Navigate (js ''/pricing'')),
    ShRouter (Navigate (js ''/signup'')), ShRouter Back, ShReload]"
  let ?s = "run shell_step (shell_load demo_client None False (router_start (js ''/''))) ?es"
  have "list_all (\<lambda>p. eager (to_url (js p)) \<and> eager (strip_hash (to_url (js p)))) [''/pricing'', ''/signup'']"
    by code_simp
  moreover have "strip_hash (js ''/'') = js ''/''" by (simp add: strip_hash_def js_def)
  ultimately have "sh_imports ?s ''Overview'' = NotRequested
      \<and> (if eb_hasError (sh_boundary ?s) then \<exists>t. ShThrow t \<in> set ?es else lazy_module (shell_screen ?s) = None)"
    by (intro public_visit_imports_nothing [OF _ _ refl, of "js ''/''"]) (simp_all add: eager_root)
  then show ?thesis by (simp add: Let_def del: foldl_Cons split: if_splits)
qed

section \<open>The splash screen ends\<close>

text \<open>The splash screen's timer is still to come until it has fired.\<close>

definition splash_inv :: "shell \<Rightarrow> bool" where
  "splash_inv s \<longleftrightarrow> auth_inv (sh_auth s) \<and> (eb_hasError (sh_boundary s) \<or> sh_timer s \<or> sh_splashDone s)"

lemma render_lazy_keeps [simp]: "sh_auth (render_lazy m s) = sh_auth s"
    "sh_splashDone (render_lazy m s) = sh_splashDone s"
  by (simp_all add: render_lazy_def shell_throw_def split: import_state.splits import_result.splits)

lemma commit_auth [simp]: "sh_auth (shell_commit s) = sh_auth s"
    "sh_splashDone (shell_commit s) = sh_splashDone s"
  by (simp_all add: shell_commit_def split: option.splits)

lemma splash_inv_commit: "splash_inv s \<Longrightarrow> splash_inv (shell_commit s)"
  by (auto simp: splash_inv_def shell_commit_def render_lazy_def shell_throw_def getDerivedStateFromError_def
      split: option.splits import_state.splits import_result.splits)

lemma splash_inv_load: "splash_inv (shell_load c stored dark r)"
  unfolding shell_load_def by (rule splash_inv_commit) (simp add: splash_inv_def auth_inv_mount)

lemma splash_inv_step: "splash_inv s \<Longrightarrow> splash_inv (shell_step s e)"
proof (cases e)
  case (ShAuth x)
  then have "splash_inv (s\<lparr>sh_auth := auth_step (sh_auth s) x\<rparr>)" if "splash_inv s"
    using that by (simp add: splash_inv_def auth_inv_step)
  then show "splash_inv s \<Longrightarrow> ?thesis" by (simp add: ShAuth splash_inv_commit)
next
  case (ShThrow m)
  then show "splash_inv s \<Longrightarrow> ?thesis" by (simp add: splash_inv_def shell_throw_def getDerivedStateFromError_def)
qed (auto simp: splash_inv_load shell_open_def intro!: splash_inv_commit, auto simp: splash_inv_def)

interpretation splash: machine "shell_load c stored dark r" shell_step splash_inv for c stored dark r
  by unfold_locales (rule splash_inv_load, rule splash_inv_step)

lemma loaded_screen: "a \<Longrightarrow> \<not> l \<Longrightarrow> app_render a l p \<noteq> SplashScreen"
  by (simp add: app_render_def Let_def)

lemma me_reply_ends_loading:
  assumes "auth_inv a"
  shows "\<exists>i. \<not> au_loading (auth_step a (MeReply i r))"
proof (cases "au_loading a")
  case True
  then obtain b where "WaitMe b \<in> set (au_pending a)" using assms by (auto simp: auth_inv_def)
  then obtain i where "i < length (au_pending a)" "au_pending a ! i = WaitMe b"
    by (auto simp: in_set_conv_nth)
  then have "\<not> au_loading (auth_step a (MeReply i r))" by (simp add: Let_def refreshMe_settled_def)
  then show ?thesis ..
next
  case False
  then have "\<not> au_loading (auth_step a (MeReply (length (au_pending a)) r))" by simp
  then show ?thesis ..
qed

text \<open>At any moment of a visit one answer and the timer end the splash screen.\<close>

lemma splash_ends:
  fixes c stored dark r0 es r
  defines "s \<equiv> run shell_step (shell_load c stored dark r0) es"
  shows "\<exists>i. let t = run shell_step s [ShAuth (MeReply i r), ShSplash] in
    eb_hasError (sh_boundary t) \<or> shell_screen t \<noteq> SplashScreen"
proof -
  have inv: "splash_inv s" unfolding s_def by (rule splash.inv_run)
  then obtain i where i: "\<not> au_loading (auth_step (sh_auth s) (MeReply i r))"
    using me_reply_ends_loading by (auto simp: splash_inv_def)
  define s1 where "s1 = shell_step s (ShAuth (MeReply i r))"
  have s1: "\<not> au_loading (sh_auth s1)" using i by (simp add: s1_def)
  have "splash_inv s1" unfolding s1_def using inv by (rule splash.inv_step)
  then have "eb_hasError (sh_boundary s1) \<or> sh_timer s1 \<or> sh_splashDone s1" by (simp add: splash_inv_def)
  then have "eb_hasError (sh_boundary (shell_step s1 ShSplash)) \<or> sh_splashDone (shell_step s1 ShSplash)"
    by (auto simp del: shell_step.simps(1))
  moreover have "\<not> au_loading (sh_auth (shell_step s1 ShSplash))" using s1 by simp
  ultimately have "eb_hasError (sh_boundary (shell_step s1 ShSplash))
      \<or> shell_screen (shell_step s1 ShSplash) \<noteq> SplashScreen"
    by (auto simp: shell_screen_def loaded_screen simp del: shell_step.simps)
  then have "let t = run shell_step s [ShAuth (MeReply i r), ShSplash] in
      eb_hasError (sh_boundary t) \<or> shell_screen t \<noteq> SplashScreen" by (simp add: s1_def Let_def)
  then show ?thesis ..
qed

section \<open>The console is behind the session\<close>

lemma screen_by_path:
  "app_render a b p = DashboardScreen t \<Longrightarrow> \<not> b \<and> prefix (js ''/dashboard'') (app_route p)"
  by (auto simp: app_render_def Let_def split: if_splits)

lemma route_prefix: "prefix (app_route p) p"
proof -
  have "prefix (hd (split_on c s)) s" for c and s :: jstr
  proof (induction s)
    case (Cons u s)
    obtain q qs where "split_on c s = q # qs" by (cases "split_on c s") auto
    with Cons show ?case by auto
  qed simp
  then show ?thesis by (simp add: app_route_def)
qed

text \<open>A dashboard path is not the login page's address, with or without a fragment.\<close>

lemma dashboard_not_login: "prefix (js ''/dashboard'') (app_route p) \<Longrightarrow> strip_hash p \<noteq> js ''/login''"
proof
  assume "prefix (js ''/dashboard'') (app_route p)" and l: "strip_hash p = js ''/login''"
  then have "prefix (js ''/dashboard'') p" using route_prefix prefix_order.trans by blast
  then obtain q where "p = js ''/dashboard'' @ q" by (auto simp: prefix_def)
  then have "strip_hash p = js ''/dashboard'' @ strip_hash q" by (simp add: strip_hash_def js_def)
  with l show False by (simp add: js_def)
qed

lemma login_screen: "app_render a b (js ''/login'') = LoginScreen"
proof -
  have "list_all (\<lambda>a. list_all (\<lambda>b. app_render a b (js ''/login'') = LoginScreen) [True, False]) [True, False]"
    by code_simp
  then show ?thesis by (cases a; cases b) simp_all
qed

text \<open>Once the guard has run, a dashboard is shown for a known session only.\<close>

lemma guard_signed_in:
  assumes "router_inv (sh_router s)" "\<not> eb_hasError (sh_boundary s)"
    and "shell_screen (shell_guard s) = DashboardScreen tab"
  shows "isAuthenticated (sh_auth s)"
proof (rule ccontr)
  assume out: "\<not> isAuthenticated (sh_auth s)"
  show False
  proof (cases "\<exists>t. shell_screen s = DashboardScreen t")
    case False
    then have "shell_guard s = s" by (auto simp: shell_guard_def split: app_screen.split)
    with False assms(3) show False by auto
  next
    case True
    then obtain t where t: "shell_screen s = DashboardScreen t" ..
    then have dash: "\<not> au_loading (sh_auth s)" "prefix (js ''/dashboard'') (app_route (rt_path (sh_router s)))"
      using screen_by_path by (auto simp: shell_screen_def)
    have "strip_hash (rt_path (sh_router s)) = location (sh_router s)"
      using assms(1) by (simp add: router_inv_def)
    then have "location (sh_router s) \<noteq> js ''/login''" using dashboard_not_login [OF dash(2)] by simp
    moreover have "to_url (js ''/login'') = js ''/login''" by (simp add: to_url_def js_def)
    ultimately have "rt_path (navigate (js ''/login'') (sh_router s)) = js ''/login''"
      by (simp add: navigate_def Let_def)
    then have "shell_screen (shell_guard s) = LoginScreen"
      using t assms(2) out dash(1)
      by (simp add: shell_guard_def useRequireAuth_def) (simp add: shell_screen_def login_screen)
    with assms(3) show False by simp
  qed
qed

definition guard_inv :: "shell \<Rightarrow> bool" where
  "guard_inv s \<longleftrightarrow> router_inv (sh_router s)
     \<and> (eb_hasError (sh_boundary s) \<or>
        (\<forall>tab. shell_screen s = DashboardScreen tab \<longrightarrow> isAuthenticated (sh_auth s)))"

lemma render_lazy_router [simp]: "sh_router (render_lazy m s) = sh_router s"
  by (simp add: render_lazy_def shell_throw_def split: import_state.split import_result.split)

lemma router_inv_guard: "router_inv (sh_router s) \<Longrightarrow> router_inv (sh_router (shell_guard s))"
  by (auto simp: shell_guard_def useRequireAuth_def router_inv_navigate split: app_screen.split)

lemma guard_inv_commit:
  assumes "router_inv (sh_router s)"
  shows "guard_inv (shell_commit s)"
proof (cases "eb_hasError (sh_boundary s)")
  case True
  with assms show ?thesis by (simp add: guard_inv_def)
next
  case False
  let ?s = "case lazy_module (shell_screen s) of None \<Rightarrow> s | Some m \<Rightarrow> render_lazy m s"
  have c: "shell_commit s = shell_guard ?s" using False by (simp add: shell_commit_def)
  have "router_inv (sh_router ?s)" using assms by (simp split: option.split)
  then show ?thesis
    unfolding c guard_inv_def using guard_signed_in [of ?s] by (auto intro: router_inv_guard)
qed

lemma guard_inv_load: "router_inv r \<Longrightarrow> guard_inv (shell_load c stored dark r)"
  unfolding shell_load_def
  by (rule guard_inv_commit) (auto simp: router_inv_def [of r] intro: router_inv_pop)

lemma guard_inv_step: "guard_inv s \<Longrightarrow> guard_inv (shell_step s e)"
proof (cases e)
  case ShHome
  then show "guard_inv s \<Longrightarrow> ?thesis"
    by (simp add: shell_open_def guard_inv_load router_inv_start)
next
  case (ShThrow m)
  then show "guard_inv s \<Longrightarrow> ?thesis"
    by (simp add: guard_inv_def shell_throw_def getDerivedStateFromError_def)
qed (auto simp: guard_inv_def [of s] shell_open_def router_inv_step
       intro!: guard_inv_commit guard_inv_load simp del: router_step.simps,
     simp_all add: guard_inv_def shell_screen_def)

interpretation guarded: machine "shell_load c stored dark (router_start url)" shell_step
    "\<lambda>s. prefix (js ''/'') url \<longrightarrow> guard_inv s" for c stored dark url
  by unfold_locales (simp_all add: guard_inv_load router_inv_start guard_inv_step del: shell_step.simps)

text \<open>The console is behind the session: at any moment of a visit to the application, with any answers,
  sign-outs, navigations, reloads and failed imports, the dashboard is shown only when the session
  is known and the visitor is signed in.
\<close>
theorem dashboard_only_signed_in:
  assumes "prefix (js ''/'') url"
    and "s = run shell_step (shell_load c stored dark (router_start url)) es"
    and "\<not> eb_hasError (sh_boundary s)" and "shell_screen s = DashboardScreen tab"
  shows "\<not> au_loading (sh_auth s) \<and> isAuthenticated (sh_auth s)"
  using guarded.inv_run [of url c stored dark es] assms screen_by_path
  by (auto simp: guard_inv_def shell_screen_def)

theorem dashboard_only_signed_in_witness:
  "let s = run shell_step (shell_load demo_client None False (router_start (js ''/dashboard'')))
       [ShAuth (MeReply 0 (Resolved (Some \<lparr>me_user = Some demo_user, me_branding = None\<rparr>) JUndef))] in
   shell_screen s = DashboardScreen (js ''overview'') \<and> isAuthenticated (sh_auth s)"
proof -
  let ?s = "run shell_step (shell_load demo_client None False (router_start (js ''/dashboard'')))
       [ShAuth (MeReply 0 (Resolved (Some \<lparr>me_user = Some demo_user, me_branding = None\<rparr>) JUndef))]"
  have s: "shell_screen ?s = DashboardScreen (js ''overview'') \<and> \<not> eb_hasError (sh_boundary ?s)"
    by code_simp
  have "prefix (js ''/'') (js ''/dashboard'')" by (simp add: js_def)
  then have "isAuthenticated (sh_auth ?s)" using dashboard_only_signed_in [OF _ refl] s by blast
  with s show ?thesis unfolding Let_def by blast
qed

section \<open>A new document\<close>

lemma dashboard_path:
  assumes "app_render True False p = DashboardScreen tab"
  shows "app_render a False p = DashboardScreen tab" "app_render a True p = SplashScreen"
  using assms by (auto simp: app_render_def Let_def split: if_splits)

lemma start_path: "strip_hash p = p \<Longrightarrow> p \<noteq> [] \<Longrightarrow>
    rt_path (handlePop (router_start p)) = p \<and> location (handlePop (router_start p)) = p"
  by (simp add: router_start_def handlePop_def getPath_def location_def or_str_def)

text \<open>The first answer of a new document.\<close>

definition first_auth :: "client \<Rightarrow> v1MeResponse reply \<Rightarrow> auth" where
  "first_auth c r = auth_step (auth_mount (setAuthToken None c)) (MeReply 0 r)"

lemma first_auth:
  "\<not> au_loading (first_auth c r)"
  "isAuthenticated (first_auth c (Resolved (Some d) e)) \<longleftrightarrow> me_user d \<noteq> None"
  "\<not> isAuthenticated (first_auth c (Resolved None e))"
  by (auto simp: first_auth_def auth_mount_def auth_defs isAuthenticated_def Let_def)

lemma mount_loading: "au_loading (auth_mount c)"
  by (simp add: auth_mount_def refreshMe_def)

text \<open>Renders that change nothing.\<close>

definition plain :: "app_screen \<Rightarrow> bool" where
  "plain scr \<longleftrightarrow> lazy_module scr = None \<and> (case scr of DashboardScreen tab \<Rightarrow> False | _ \<Rightarrow> True)"

lemma plain_screens [simp]: "plain SplashScreen" "plain LoginScreen"
  by (simp_all add: plain_def lazy_module_def)

lemma commit_plain: "plain (shell_screen s) \<Longrightarrow> shell_commit s = s"
  by (auto simp: shell_commit_def plain_def shell_guard_def split: app_screen.split)

definition fresh :: "client \<Rightarrow> jstr \<Rightarrow> shell \<Rightarrow> bool" where
  "fresh c p s \<longleftrightarrow> \<not> eb_hasError (sh_boundary s) \<and> sh_imports s = (\<lambda>_. NotRequested)
     \<and> rt_path (sh_router s) = p \<and> location (sh_router s) = p \<and> \<not> sh_splashDone s \<and> sh_timer s
     \<and> sh_auth s = auth_mount (setAuthToken None c)"

lemma load_fresh:
  assumes "strip_hash p = p" "p \<noteq> []" "plain (app_render False True p)"
  shows "fresh c p (shell_load c stored dark (router_start p))"
  unfolding shell_load_def
  by (subst commit_plain)
     (use assms start_path in \<open>auto simp: shell_screen_def mount_loading fresh_def boundary_init_def\<close>)

text \<open>A render of a dashboard page that asks for its module, and the guard after it.\<close>

lemma commit_dashboard:
  assumes "shell_screen s = DashboardScreen tab" "\<not> eb_hasError (sh_boundary s)" "sh_imports s = (\<lambda>_. NotRequested)"
  shows "\<exists>im. shell_commit s = s\<lparr>sh_imports := im, sh_router := useRequireAuth (sh_auth s) (sh_router s)\<rparr>
    \<and> (\<forall>m. dashboard_child tab = Some m \<longrightarrow> im m = Importing)"
proof -
  define im where "im = (case dashboard_child tab of None \<Rightarrow> sh_imports s | Some m \<Rightarrow> (sh_imports s)(m := Importing))"
  let ?s = "s\<lparr>sh_imports := im\<rparr>"
  have "(case lazy_module (shell_screen s) of None \<Rightarrow> s | Some m \<Rightarrow> render_lazy m s) = ?s"
    using assms by (simp add: lazy_module_def render_lazy_def im_def split: option.split)
  moreover have "shell_screen ?s = DashboardScreen tab" using assms(1) by (simp add: shell_screen_def)
  then have "shell_guard ?s = ?s\<lparr>sh_router := useRequireAuth (sh_auth s) (sh_router s)\<rparr>"
    using assms(2) by (simp add: shell_guard_def)
  ultimately have "shell_commit s = ?s\<lparr>sh_router := useRequireAuth (sh_auth s) (sh_router s)\<rparr>"
    using assms(2) by (simp add: shell_commit_def)
  then show ?thesis by (intro exI [of _ im]) (simp add: im_def)
qed

lemma commit_theme [simp]: "sh_theme (shell_commit s) = sh_theme s"
  by (simp add: shell_commit_def shell_guard_def render_lazy_def shell_throw_def
      split: option.split app_screen.split import_state.split import_result.split)

lemma load_theme: "sh_theme (shell_load c stored dark r) = theme_boot stored dark"
  by (simp add: shell_load_def)

lemma load_auth: "sh_auth (shell_load c st d r) = auth_mount (setAuthToken None c)"
  by (simp add: shell_load_def)

lemma mount_pending: "au_pending (auth_mount c) = [WaitMe False]"
  by (simp add: auth_mount_def refreshMe_def)

lemma me_pending: "au_pending (auth_step (auth_mount c) (MeReply 0 r)) = []"
  by (auto simp: mount_pending Let_def auth_defs remove_nth_def split: reply.split option.split)

end
