(* ===== verification/Dashboard.thy ===== *)
theory Dashboard
  imports Layout Shell Activity Delegations Sessions Receipts Projects Settings Overview Analytics Verify
begin

text \<open>
  The dashboard as one machine, the branch of \<open>src/App.tsx\<close> below \<open>ProjectProvider\<close>: the layout
  with its session, project, palette, theme and router, and the page of the tab inside it. A page
  is told of a change of the session or of the selected project by the render that follows it,
  which runs the page's effects; the buttons of a page that lead elsewhere go through the
  layout's router. The machine's events are what the user can do on the composed view and the
  answers; the messages that stand for a render of a page are not among them.
\<close>

section \<open>Pages\<close>

datatype child =
    ChOverview overview
  | ChAnalytics analytics
  | ChActivity activity
  | ChAgents
  | ChDelegations delegations
  | ChSessions sessions
  | ChReceipts receipts
  | ChVerify verify_screen
  | ChProjects projects_page
  | ChApiKeys
  | ChSettings settings

fun child_name :: "child \<Rightarrow> string" where
  "child_name (ChOverview s) = ''Overview''"
| "child_name (ChAnalytics s) = ''Analytics''"
| "child_name (ChActivity s) = ''Activity''"
| "child_name ChAgents = ''Agents''"
| "child_name (ChDelegations s) = ''Delegations''"
| "child_name (ChSessions s) = ''Sessions''"
| "child_name (ChReceipts s) = ''Receipts''"
| "child_name (ChVerify s) = ''Verify''"
| "child_name (ChProjects s) = ''Projects''"
| "child_name ChApiKeys = ''ApiKeys''"
| "child_name (ChSettings s) = ''Settings''"

definition mount_child :: "auth \<Rightarrow> jstr option \<Rightarrow> string \<Rightarrow> child option" where
  "mount_child a pid n =
     (if n = ''Overview''
      then Some (ChOverview (ow_mount (au_user a) (au_branding a) (isAuthenticated a) (au_loading a)))
      else if n = ''Analytics'' then Some (ChAnalytics (ay_mount (isAuthenticated a) (au_loading a)))
      else if n = ''Activity'' then Some (ChActivity (ac_mount pid))
      else if n = ''Agents'' then Some ChAgents
      else if n = ''Delegations'' then Some (ChDelegations (dl_mount pid))
      else if n = ''Sessions'' then Some (ChSessions (ss_mount pid))
      else if n = ''Receipts'' then Some (ChReceipts (rc_mount pid))
      else if n = ''Verify'' then Some (ChVerify verify_init)
      else if n = ''Projects'' then Some (ChProjects (pp_mount (au_loading a) (isAuthenticated a)))
      else if n = ''ApiKeys'' then Some ChApiKeys
      else if n = ''Settings'' then Some (ChSettings (st_mount (au_user a) (au_branding a)))
      else None)"

text \<open>A render of a mounted page with the current session and project.\<close>

fun child_props :: "auth \<Rightarrow> jstr option \<Rightarrow> child \<Rightarrow> child" where
  "child_props a pid (ChOverview s) =
     ChOverview (ow_session (au_user a) (au_branding a) (isAuthenticated a) (au_loading a) s)"
| "child_props a pid (ChAnalytics s) = ChAnalytics (ay_step s (AySession (isAuthenticated a) (au_loading a)))"
| "child_props a pid (ChActivity s) = ChActivity (ac_step s (AcProject pid))"
| "child_props a pid (ChDelegations s) = ChDelegations (dl_step s (DlProject pid))"
| "child_props a pid (ChSessions s) = ChSessions (ss_step s (SsProject pid))"
| "child_props a pid (ChReceipts s) = ChReceipts (rc_step s (RcProject pid))"
| "child_props a pid (ChProjects s) = ChProjects
     (if (pp_authLoading s, pp_authed s) = (au_loading a, isAuthenticated a) then s
      else pp_set_auth (au_loading a) (isAuthenticated a) s)"
| "child_props a pid (ChSettings s) = ChSettings (set_profile (au_user a) (au_branding a) s)"
| "child_props a pid c = c"

section \<open>Events of the pages\<close>

datatype child_event =
    CeOverview overview_event
  | CeAnalytics analytics_event
  | CeActivity activity_event
  | CeAgents jstr
  | CeDelegations delegations_event
  | CeSessions sessions_event
  | CeReceipts receipts_event
  | CeVerify verify_event
  | CeProjects projects_event
  | CeApiKeys jstr
  | CeSettings settings_event

text \<open>A message for a page that is not mounted is lost.\<close>

fun child_step :: "child \<Rightarrow> child_event \<Rightarrow> child" where
  "child_step (ChOverview s) e = (case e of CeOverview x \<Rightarrow> ChOverview (ow_step s x) | _ \<Rightarrow> ChOverview s)"
| "child_step (ChAnalytics s) e = (case e of CeAnalytics x \<Rightarrow> ChAnalytics (ay_step s x) | _ \<Rightarrow> ChAnalytics s)"
| "child_step (ChActivity s) e = (case e of CeActivity x \<Rightarrow> ChActivity (ac_step s x) | _ \<Rightarrow> ChActivity s)"
| "child_step (ChDelegations s) e = (case e of CeDelegations x \<Rightarrow> ChDelegations (dl_step s x) | _ \<Rightarrow> ChDelegations s)"
| "child_step (ChSessions s) e = (case e of CeSessions x \<Rightarrow> ChSessions (ss_step s x) | _ \<Rightarrow> ChSessions s)"
| "child_step (ChReceipts s) e = (case e of CeReceipts x \<Rightarrow> ChReceipts (rc_step s x) | _ \<Rightarrow> ChReceipts s)"
| "child_step (ChVerify s) e = (case e of CeVerify x \<Rightarrow> ChVerify (verify_step s x) | _ \<Rightarrow> ChVerify s)"
| "child_step (ChProjects s) e = (case e of CeProjects x \<Rightarrow> ChProjects (pp_step s x) | _ \<Rightarrow> ChProjects s)"
| "child_step (ChSettings s) e = (case e of CeSettings x \<Rightarrow> ChSettings (st_step s x) | _ \<Rightarrow> ChSettings s)"
| "child_step ChAgents e = ChAgents"
| "child_step ChApiKeys e = ChApiKeys"

text \<open>Where a button of a page leads: to a tab, or for the API keys page to a path.\<close>

fun child_nav :: "child_event \<Rightarrow> router \<Rightarrow> router" where
  "child_nav (CeOverview (OwNavigate tab)) r = handleTabChange (js tab) r"
| "child_nav (CeAgents tab) r = handleTabChange tab r"
| "child_nav (CeApiKeys to) r = navigate to r"
| "child_nav _ r = r"

text \<open>A save of the settings that succeeded goes on to the session provider's \<open>refreshMe\<close>.\<close>

fun child_refreshes :: "child \<Rightarrow> nat" where
  "child_refreshes (ChSettings s) = st_refreshes s"
| "child_refreshes c = 0"

fun child_answer :: "child_event \<Rightarrow> bool" where
  "child_answer (CeOverview e) \<longleftrightarrow> ow_outside e \<and> (\<forall>u b a l. e \<noteq> OwSession u b a l)"
| "child_answer (CeAnalytics e) \<longleftrightarrow> (\<exists>i r. e = AyReply i r)"
| "child_answer (CeActivity e) \<longleftrightarrow> ac_outside e \<and> (\<forall>p. e \<noteq> AcProject p)"
| "child_answer (CeDelegations e) \<longleftrightarrow> dl_outside e \<and> (\<forall>p. e \<noteq> DlProject p)"
| "child_answer (CeSessions e) \<longleftrightarrow> ss_outside e \<and> (\<forall>p. e \<noteq> SsProject p)"
| "child_answer (CeReceipts e) \<longleftrightarrow> rc_outside e \<and> (\<forall>p. e \<noteq> RcProject p)"
| "child_answer (CeVerify e) \<longleftrightarrow> verify_outside e"
| "child_answer (CeProjects e) \<longleftrightarrow> pp_outside e \<and> (\<forall>l a. e \<noteq> PpAuth l a)"
| "child_answer (CeSettings e) \<longleftrightarrow> st_outside e \<and> (\<forall>u b. e \<noteq> StProfile u b) \<and> (\<forall>i. e \<noteq> StRefreshed i)"
| "child_answer _ \<longleftrightarrow> False"

section \<open>The composed view\<close>

text \<open>What the browser formats: money, times, dates and numbers.\<close>

record formats =
  fm_money :: "jstr \<Rightarrow> jstr"
  fm_clock :: "jstr \<Rightarrow> jstr"
  fm_day :: "jstr \<Rightarrow> jstr"
  fm_weekday :: "jstr \<Rightarrow> jstr option"
  fm_number :: "int \<Rightarrow> jstr"

text \<open>\<open>None\<close> when the render of the page throws.\<close>

fun child_view :: "formats \<Rightarrow> bool \<Rightarrow> child \<Rightarrow> child_event node list option" where
  "child_view f dark (ChOverview s) = Some (map (map_node CeOverview) (ow_view (fm_number f) s))"
| "child_view f dark (ChAnalytics s) = Some (ay_view (fm_number f) (fm_weekday f) s)"
| "child_view f dark (ChActivity s) = Some [map_node CeActivity (ac_view s)]"
| "child_view f dark ChAgents = Some [agents_view (Some CeAgents)]"
| "child_view f dark (ChDelegations s) = Some [map_node CeDelegations (dl_view (fm_money f) dark s)]"
| "child_view f dark (ChSessions s) = map_option (\<lambda>v. [map_node CeSessions v]) (ss_view (fm_clock f) s)"
| "child_view f dark (ChReceipts s) = Some [map_node CeReceipts (rc_view s)]"
| "child_view f dark (ChVerify s) = Some [map_node CeVerify (verify_view s)]"
| "child_view f dark (ChProjects s) = Some [map_node CeProjects (pp_view (fm_day f) s)]"
| "child_view f dark ChApiKeys = Some [api_keys_view CeApiKeys]"
| "child_view f dark (ChSettings s) = Some [map_node CeSettings (st_view s)]"

section \<open>The machine\<close>

record dashboard =
  da_layout :: layout
  da_child :: "child option"

definition project_id :: "layout \<Rightarrow> jstr option" where
  "project_id l = Option.bind (px_selected (ly_project l)) pj_id"

definition child_render :: "dashboard \<Rightarrow> dashboard" where
  "child_render s = s\<lparr>da_child :=
     map_option (child_props (ly_auth (da_layout s)) (project_id (da_layout s))) (da_child s)\<rparr>"

text \<open>The page of the tab: kept while the tab names it, otherwise unmounted; \<open>wanted\<close> is \<open>None\<close> while
  its module is not there.\<close>

definition child_fit :: "string option \<Rightarrow> dashboard \<Rightarrow> dashboard" where
  "child_fit wanted s =
     (if map_option child_name (da_child s) = wanted then child_render s
      else s\<lparr>da_child := Option.bind wanted
              (mount_child (ly_auth (da_layout s)) (project_id (da_layout s)))\<rparr>)"

datatype dashboard_event = DaLayout layout_event | DaChild child_event

definition dashboard_child_step :: "child_event \<Rightarrow> dashboard \<Rightarrow> dashboard" where
  "dashboard_child_step e s = (case da_child s of
     None \<Rightarrow> s
   | Some c \<Rightarrow>
       (let c' = child_step c e;
            l = on_router (child_nav e) (da_layout s) in
        s\<lparr>da_child := Some c',
          da_layout := if child_refreshes c < child_refreshes c'
                       then set_auth (auth_step (ly_auth l) RefreshMe) l else l\<rparr>))"

fun dashboard_step :: "dashboard \<Rightarrow> dashboard_event \<Rightarrow> dashboard" where
  "dashboard_step s (DaLayout e) = child_render (s\<lparr>da_layout := layout_step (da_layout s) e\<rparr>)"
| "dashboard_step s (DaChild e) = child_render (dashboard_child_step e s)"

fun dashboard_answer :: "dashboard_event \<Rightarrow> bool" where
  "dashboard_answer (DaLayout e) \<longleftrightarrow> (\<exists>r. e = LyProject (ProjectsReply r)) \<or> e = LyMetaK
     \<or> (\<exists>m. e = LyPalette m \<and> palette_outside m)"
| "dashboard_answer (DaChild e) \<longleftrightarrow> child_answer e"

text \<open>\<open>pending\<close>: the module of the page is still to come.\<close>

definition dashboard_view ::
  "jstr \<Rightarrow> bool \<Rightarrow> formats \<Rightarrow> bool \<Rightarrow> dashboard \<Rightarrow> dashboard_event node option" where
  "dashboard_view docs writable f pending s =
     (let l = da_layout s;
          page = (case da_child s of None \<Rightarrow> Some (only_if pending [loading_view]) | Some c \<Rightarrow> child_view f (th_dark_class (ly_theme l)) c) in
      map_option (\<lambda>ks. layout_frame DaLayout docs writable (map (map_node DaChild) ks) l) page)"

section \<open>Invariant\<close>

text \<open>
  Each page keeps its own invariant, the list pages with the last list request naming the page's
  project; and it knows the session and the project of the layout around it.
\<close>

fun child_ok :: "child \<Rightarrow> bool" where
  "child_ok (ChOverview s) = ow_inv s"
| "child_ok (ChAnalytics s) = ay_inv s"
| "child_ok (ChActivity s) = (pager_inv (ac_pager s) \<and> asked_for (project_key (ac_project s)) (ac_pager s))"
| "child_ok (ChDelegations s) = (pager_inv (dl_pager s) \<and> asked_for (grants_fetcher (dl_project s)) (dl_pager s))"
| "child_ok (ChSessions s) = (sessions_inv s \<and> asked_for (project_key (ss_project s)) (ss_pager s))"
| "child_ok (ChReceipts s) = (receipts_inv s \<and> asked_for (project_key (rc_project s)) (rc_pager s))"
| "child_ok (ChVerify s) = verify_inv s"
| "child_ok (ChProjects s) = rows_inv s"
| "child_ok (ChSettings s) = st_inv s"
| "child_ok c = True"

fun child_knows :: "auth \<Rightarrow> jstr option \<Rightarrow> child \<Rightarrow> bool" where
  "child_knows a pid (ChOverview s) \<longleftrightarrow> ow_user s = au_user a \<and> ow_branding s = au_branding a
     \<and> ow_authed s = isAuthenticated a \<and> ow_authLoading s = au_loading a"
| "child_knows a pid (ChAnalytics s) \<longleftrightarrow> ay_authed s = isAuthenticated a \<and> ay_authLoading s = au_loading a"
| "child_knows a pid (ChActivity s) \<longleftrightarrow> ac_project s = pid"
| "child_knows a pid (ChDelegations s) \<longleftrightarrow> dl_project s = pid"
| "child_knows a pid (ChSessions s) \<longleftrightarrow> ss_project s = pid"
| "child_knows a pid (ChReceipts s) \<longleftrightarrow> rc_project s = pid"
| "child_knows a pid (ChProjects s) \<longleftrightarrow> pp_authLoading s = au_loading a \<and> pp_authed s = isAuthenticated a"
| "child_knows a pid (ChSettings s) \<longleftrightarrow> st_user s = au_user a \<and> st_branding s = au_branding a"
| "child_knows a pid c \<longleftrightarrow> True"

lemma pager_inv_hosted:
  "pager_inv (ac_pager s) \<Longrightarrow> pager_inv (ac_pager (ac_step s e))"
  "pager_inv (dl_pager t) \<Longrightarrow> pager_inv (dl_pager (dl_step t f))"
  using pgr.inv_run_from acp.hosted_step dlp.hosted_step by metis+

lemmas child_asked = ac_asked_step dl_asked_step ss_asked_step rc_asked_step
  ac_asked_mount dl_asked_mount ss_asked_mount rc_asked_mount

text \<open>The list requests a list page has sent, and the project a list request names.\<close>

fun list_requests :: "child \<Rightarrow> api_request list option" where
  "list_requests (ChActivity s) = Some (map events_request (pg_asked (ac_pager s)))"
| "list_requests (ChDelegations s) = Some (map grants_request (pg_asked (dl_pager s)))"
| "list_requests (ChSessions s) = Some (map sessions_request (pg_asked (ss_pager s)))"
| "list_requests (ChReceipts s) = Some (map events_request (pg_asked (rc_pager s)))"
| "list_requests c = None"

fun request_project :: "api_request \<Rightarrow> jstr option" where
  "request_project (ListEvents n t pid) = Some pid"
| "request_project (ListGrants n t pid) = Some pid"
| "request_project (ListSessions n t pid) = Some pid"
| "request_project q = None"

lemma request_project_lists [simp]:
  "request_project (events_request q) = Some (fst q)" "request_project (grants_request q) = Some (fst q)"
  "request_project (sessions_request q) = Some (fst q)"
  by (simp_all add: events_request_def grants_request_def sessions_request_def split: prod.split)

lemma pp_session [simp]:
  "pp_authLoading (sync_rows s) = pp_authLoading s" "pp_authed (sync_rows s) = pp_authed s"
  by (simp_all add: sync_rows_def split: prod.split)

lemma pp_session_refresh [simp]:
  "pp_authLoading (pp_refresh k s) = pp_authLoading s" "pp_authed (pp_refresh k s) = pp_authed s"
  by (simp_all add: pp_refresh_def on_pager_def)

lemma pp_session_set [simp]:
  "pp_authLoading (pp_mount l a) = l" "pp_authed (pp_mount l a) = a"
  "pp_authLoading (pp_set_auth l a s) = l" "pp_authed (pp_set_auth l a s) = a"
  by (simp_all add: pp_mount_def pp_set_auth_def Let_def)

lemma ow_ay_session [simp]:
  "ow_authed (ow_mount u b a l) = a" "ow_authLoading (ow_mount u b a l) = l"
  "ow_user (ow_mount u b a l) = u" "ow_branding (ow_mount u b a l) = b"
  "ow_authed (ow_session u b a l w) = a" "ow_authLoading (ow_session u b a l w) = l"
  "ow_user (ow_session u b a l w) = u" "ow_branding (ow_session u b a l w) = b"
  "ay_authed (ay_mount a l) = a" "ay_authLoading (ay_mount a l) = l"
  "ay_authed (ay_effect y) = ay_authed y" "ay_authLoading (ay_effect y) = ay_authLoading y"
  by (simp_all add: ow_mount_def ow_session_def ow_key_effect_def ow_stats_effect_def ay_mount_def
      ay_effect_def Let_def)

lemma st_profile_set [simp]:
  "st_user (set_profile u b s) = u" "st_branding (set_profile u b s) = b"
  "st_user (st_mount u b) = u" "st_branding (st_mount u b) = b"
  by (simp_all add: set_profile_def st_mount_def prefill_def Let_def)

lemma list_pages_mount [simp]:
  "ac_project (ac_mount p) = p" "dl_project (dl_mount p) = p" "ss_project (ss_mount p) = p"
  "rc_project (rc_mount p) = p" "pager_inv (ac_pager (ac_mount p))" "pager_inv (dl_pager (dl_mount p))"
  by (simp_all add: ac_mount_def dl_mount_def ss_mount_def rc_mount_def pager_inv_refresh)

lemma mount_child_good:
  assumes "mount_child a pid n = Some c"
  shows "child_ok c" "child_knows a pid c" "child_name c = n"
  using assms
  by (auto simp: mount_child_def ow_inv_mount ay_inv_mount sessions_inv_mount receipts_inv_mount
      verify_inv_init rows_inv_mount st_inv_mount child_asked split: if_splits)

lemma child_props_ok: "child_ok c \<Longrightarrow> child_ok (child_props a pid c)"
  by (cases c)
     (simp_all add: ow_inv_session ay_inv_step pager_inv_hosted sessions_inv_step receipts_inv_outside
       rows_inv_auth st_inv_profile child_asked del: ay_step.simps ac_step.simps dl_step.simps ss_step.simps rc_step.simps)

lemma child_props_knows: "child_knows a pid (child_props a pid c)"
  by (cases c) (auto simp: dl_change_project_def)

lemma list_requests_None:
  "list_requests c = None \<longleftrightarrow> child_name c \<notin> {''Activity'', ''Delegations'', ''Sessions'', ''Receipts''}"
  by (cases c) simp_all

lemma list_page_asks:
  assumes "child_ok c" "child_knows a pid c" "list_requests c = Some qs"
  shows "qs \<noteq> [] \<and> request_project (last qs) = Some (nullish pid [])"
  using assms
  by (cases c) (auto simp: asked_for_def last_map project_key_def grants_fetcher_def)

lemma child_props_name [simp]: "child_name (child_props a pid c) = child_name c"
  by (cases c) simp_all

text \<open>A step is the mounted page's own, or nothing.\<close>

lemma child_step_cases:
  obtains (Overview) s x where "c = ChOverview s" "e = CeOverview x"
  | (Analytics) s x where "c = ChAnalytics s" "e = CeAnalytics x"
  | (Activity) s x where "c = ChActivity s" "e = CeActivity x"
  | (Delegations) s x where "c = ChDelegations s" "e = CeDelegations x"
  | (Sessions) s x where "c = ChSessions s" "e = CeSessions x"
  | (Receipts) s x where "c = ChReceipts s" "e = CeReceipts x"
  | (Verify) s x where "c = ChVerify s" "e = CeVerify x"
  | (Projects) s x where "c = ChProjects s" "e = CeProjects x"
  | (Settings) s x where "c = ChSettings s" "e = CeSettings x"
  | (Nothing) "child_step c e = c"
  by (cases c; cases e) auto

lemma child_step_name [simp]: "child_name (child_step c e) = child_name c"
  by (cases rule: child_step_cases [of c e]) auto

text \<open>What a page can do by itself: its answers, and what its own view can fire.\<close>

lemmas child_steps = ow_inv_step ay_inv_step pager_inv_hosted sessions_inv_step rows_inv_step
  receipts_inv_outside verify_inv_outside st_inv_outside receipts_inv_user verify_inv_user st_inv_user
  child_asked

lemma child_answer_ok:
  assumes "child_ok c" "child_answer e"
  shows "child_ok (child_step c e)"
proof (cases rule: child_step_cases [of c e])
  case Nothing
  with assms(1) show ?thesis by simp
qed (use assms in \<open>simp_all add: child_steps del: ow_step.simps ay_step.simps ac_step.simps dl_step.simps
       ss_step.simps rc_step.simps verify_step.simps pp_step.simps st_step.simps\<close>)

lemma child_user_ok:
  assumes "child_ok c" "child_view f dark c = Some ks" "fires_in ks e"
  shows "child_ok (child_step c e)"
proof (cases rule: child_step_cases [of c e])
  case Nothing
  with assms(1) show ?thesis by simp
qed (use assms in \<open>auto simp add: child_steps can_fire_map simp del: ow_step.simps ay_step.simps
       ac_step.simps dl_step.simps ss_step.simps rc_step.simps verify_step.simps pp_step.simps st_step.simps\<close>)

definition dashboard_inv :: "dashboard \<Rightarrow> bool" where
  "dashboard_inv s \<longleftrightarrow> layout_inv (da_layout s)
     \<and> (\<forall>c. da_child s = Some c \<longrightarrow>
          child_ok c \<and> child_knows (ly_auth (da_layout s)) (project_id (da_layout s)) c)"

text \<open>What holds before the render that follows a step.\<close>

definition dashboard_pre :: "dashboard \<Rightarrow> bool" where
  "dashboard_pre s \<longleftrightarrow> layout_inv (da_layout s) \<and> (\<forall>c. da_child s = Some c \<longrightarrow> child_ok c)"

lemma dashboard_inv_pre: "dashboard_inv s \<Longrightarrow> dashboard_pre s"
  by (simp add: dashboard_inv_def dashboard_pre_def)

lemma dashboard_inv_render: "dashboard_pre s \<Longrightarrow> dashboard_inv (child_render s)"
  by (auto simp: dashboard_inv_def dashboard_pre_def child_render_def child_props_ok child_props_knows)

lemma dashboard_inv_fit: "dashboard_pre s \<Longrightarrow> dashboard_inv (child_fit n s)"
  using dashboard_inv_render [of s] mount_child_good
  by (auto simp: child_fit_def dashboard_inv_def dashboard_pre_def bind_eq_Some_conv)

lemma router_inv_tab: "router_inv r \<Longrightarrow> router_inv (handleTabChange t r)"
  by (simp add: handleTabChange_def router_inv_navigate)

lemma router_inv_child_nav: "router_inv r \<Longrightarrow> router_inv (child_nav e r)"
proof (cases e)
  case (CeOverview x)
  then show "router_inv r \<Longrightarrow> ?thesis" by (cases x) (simp_all add: router_inv_tab)
qed (simp_all add: router_inv_tab router_inv_navigate)

lemma dashboard_pre_child:
  assumes "dashboard_pre s" "\<And>c. da_child s = Some c \<Longrightarrow> child_ok (child_step c e)"
  shows "dashboard_pre (dashboard_child_step e s)"
proof (cases "da_child s")
  case (Some c)
  let ?l = "on_router (child_nav e) (da_layout s)"
  have l: "layout_inv ?l"
    using assms(1) by (auto simp: dashboard_pre_def intro: layout_inv_router router_inv_child_nav)
  then have "layout_inv (set_auth (auth_step (ly_auth ?l) RefreshMe) ?l)"
    by (intro layout_inv_set_auth auth_inv_step) (simp_all add: layout_inv_def)
  with l Some assms show ?thesis by (simp add: dashboard_pre_def dashboard_child_step_def Let_def)
qed (use assms(1) in \<open>simp add: dashboard_child_step_def\<close>)

lemma dashboard_inv_answer:
  assumes "dashboard_inv s" "dashboard_answer e"
  shows "dashboard_inv (dashboard_step s e)"
proof (cases e)
  case (DaLayout x)
  then have "layout_outside x" using assms(2) by auto
  then have "dashboard_pre (s\<lparr>da_layout := layout_step (da_layout s) x\<rparr>)"
    using assms(1) by (simp add: dashboard_pre_def dashboard_inv_def layout_inv_outside del: layout_step.simps)
  then show ?thesis by (simp add: DaLayout dashboard_inv_render del: layout_step.simps)
next
  case (DaChild x)
  have "dashboard_pre (dashboard_child_step x s)"
    using assms DaChild by (intro dashboard_pre_child)
      (auto simp: dashboard_inv_pre dashboard_inv_def child_answer_ok)
  then show ?thesis by (simp add: DaChild dashboard_inv_render)
qed

lemma fires_dashboard:
  assumes "dashboard_view docs w f b s = Some v" "can_fire v e"
  shows "(\<exists>m. e = DaLayout m \<and> can_fire (layout_view docs w [] (da_layout s)) m)
    \<or> (\<exists>c ks m. da_child s = Some c \<and> child_view f (th_dark_class (ly_theme (da_layout s))) c = Some ks
         \<and> e = DaChild m \<and> fires_in ks m)"
  using assms
  by (auto simp: dashboard_view_def Let_def fires_layout_frame can_fire_map loading_view_def
      split: option.splits)

lemma dashboard_inv_user:
  assumes "dashboard_inv s" "dashboard_view docs w f b s = Some v" "can_fire v e"
  shows "dashboard_inv (dashboard_step s e)"
  using fires_dashboard [OF assms(2,3)]
proof (elim disjE exE conjE)
  fix m assume m: "e = DaLayout m" "can_fire (layout_view docs w [] (da_layout s)) m"
  then have "dashboard_pre (s\<lparr>da_layout := layout_step (da_layout s) m\<rparr>)"
    using assms(1) layout_inv_user by (auto simp: dashboard_pre_def dashboard_inv_def)
  then show ?thesis by (simp add: m dashboard_inv_render del: layout_step.simps)
next
  fix c ks m
  assume m: "da_child s = Some c" "child_view f (th_dark_class (ly_theme (da_layout s))) c = Some ks"
    "e = DaChild m" "fires_in ks m"
  then have "dashboard_pre (dashboard_child_step m s)"
    using assms(1) child_user_ok by (intro dashboard_pre_child) (auto simp: dashboard_inv_pre dashboard_inv_def)
  then show ?thesis by (simp add: m dashboard_inv_render)
qed

section \<open>The list of projects\<close>

text \<open>
  The provider asks for the list once. After its answer nothing that happens on the dashboard
  changes the list behind the header's selector, the creation of a project on the projects page
  included.
\<close>

lemma projects_kept_child: "ly_project (da_layout (dashboard_child_step e s)) = ly_project (da_layout s)"
  by (auto simp: dashboard_child_step_def Let_def set_auth_def split: option.split)

lemma projects_kept_layout:
  assumes "px_pending (ly_project l) = 0"
  shows "px_projects (ly_project (layout_step l e)) = px_projects (ly_project l)
    \<and> px_pending (ly_project (layout_step l e)) = 0"
proof (cases e)
  case (LyProject x)
  then show ?thesis using assms by (cases x) (simp_all add: selectProject_def Let_def)
next
  case (LySelect w i)
  then show ?thesis using assms
    by (simp add: select_option_def selectProject_def Let_def split: option.split)
qed (use assms in \<open>simp_all add: set_auth_def Let_def set_collapsed_def nav_click_def sign_out_def\<close>)

lemma created_project_not_listed:
  assumes "px_pending (ly_project (da_layout s)) = 0"
  shows "px_projects (ly_project (da_layout (run dashboard_step s es))) = px_projects (ly_project (da_layout s))"
  using assms
proof (induction es arbitrary: s)
  case (Cons e es)
  have "px_projects (ly_project (da_layout (dashboard_step s e))) = px_projects (ly_project (da_layout s))
      \<and> px_pending (ly_project (da_layout (dashboard_step s e))) = 0"
    using Cons.prems projects_kept_layout [of "da_layout s"] projects_kept_child
    by (cases e) (simp_all add: child_render_def del: layout_step.simps)
  with Cons.IH show ?case by simp
qed simp

section \<open>Loading the console\<close>



end
