(* ===== verification/Marketing.thy ===== *)
theory Marketing
  imports App Ui Theme
begin

text \<open>
  What the public pages share: the layout primitives of \<open>pages/landing/Section.tsx\<close>, the
  navigation bar \<open>Nav.tsx\<close>, the footer \<open>Footer.tsx\<close> and the documentation link of
  \<open>lib/links.ts\<close>; and what it means for a link on such a page to lead somewhere.
\<close>

section \<open>Reading a rendered tree\<close>

text \<open>All values of an attribute, in document order.\<close>

fun attr_values :: "string \<Rightarrow> 'e attr list \<Rightarrow> jstr list" where
  "attr_values k [] = []"
| "attr_values k (Attr n v # as) = (if n = k then [v] else []) @ attr_values k as"
| "attr_values k (_ # as) = attr_values k as"

fun values_of :: "string \<Rightarrow> 'e node \<Rightarrow> jstr list" and values_in :: "string \<Rightarrow> 'e node list \<Rightarrow> jstr list" where
  "values_of k (Text s) = []"
| "values_of k (El t as ks) = attr_values k as @ values_in k ks"
| "values_in k [] = []"
| "values_in k (n # ns) = values_of k n @ values_in k ns"

lemma attr_values_append [simp]: "attr_values k (as @ bs) = attr_values k as @ attr_values k bs"
proof (induction as)
  case (Cons a as)
  then show ?case by (cases a) auto
qed simp

lemma values_in_append [simp]: "values_in k (xs @ ys) = values_in k xs @ values_in k ys"
  by (induction xs) auto

lemma values_of_leaf [simp]: "values_of k (tx s) = []" "values_of k (icon n) = []"
  by (simp_all add: tx_def icon_def)

lemma values_in_map: "values_in k (map f xs) = concat (map (\<lambda>x. values_of k (f x)) xs)"
  by (induction xs) auto

lemma values_in_only_if [simp]: "values_in k (only_if c xs) = (if c then values_in k xs else [])"
  by (simp add: only_if_def)

lemma values_in_if [simp]: "values_in k (if c then xs else ys) = (if c then values_in k xs else values_in k ys)"
  by simp

lemma attr_values_map [simp]: "attr_values k (map (map_attr f) as) = attr_values k as"
proof (induction as)
  case (Cons a as)
  then show ?case by (cases a) auto
qed simp

lemma values_of_map [simp]:
  "values_of k (map_node f n) = values_of k n"
  "values_in k (map (map_node f) ns) = values_in k ns"
  by (induction k n and k ns rule: values_of_values_in.induct) auto

lemma values_of_link [simp]:
  "values_of k (link nav to ps ks) =
     (if k = ''href'' then [to_url to] else []) @ attr_values k ps @ values_in k ks"
  by (simp add: link_def)

section \<open>Layout primitives\<close>

definition land_section :: "jstr option \<Rightarrow> string \<Rightarrow> string \<Rightarrow> 'e node list \<Rightarrow> 'e node" where
  "land_section i tone sz children =
     El ''section''
      (if_some i (\<lambda>v. [Attr ''id'' v])
       @ [Attr ''className'' (js (if sz = ''lg'' then ''section-y-lg'' else ''section-y'')),
          Attr ''backgroundColor'' (js (if tone = ''raised'' then ''var(--secondary)'' else ''var(--bg)''))])
      [El ''div'' [] children]"

definition section_header :: "jstr option \<Rightarrow> 'e node list \<Rightarrow> jstr option \<Rightarrow> string \<Rightarrow> 'e node" where
  "section_header eyebrow title lead align =
     El ''header'' [Attr ''className'' (js (if align = ''center'' then ''mx-auto text-center'' else ''''))]
      (if_truthy eyebrow (\<lambda>t. [El ''p'' [] [Text t]])
       @ [El ''h2'' [] title]
       @ if_truthy lead (\<lambda>t. [El ''p'' [] [Text t]]))"

definition landing_card :: "string \<Rightarrow> string \<Rightarrow> 'e node list \<Rightarrow> 'e node" where
  "landing_card padding emphasis children =
     El ''div'' [Attr ''className'' (js (if padding = ''default'' then ''p-6 sm:p-7'' else '''')),
        Attr ''boxShadow'' (js (if emphasis = ''raised''
          then ''0 1px 2px 0 color-mix(in srgb, var(--fg) 3%, transparent)'' else ''none''))] children"

definition card_grid :: "nat \<Rightarrow> 'e node list \<Rightarrow> 'e node" where
  "card_grid cols children =
     El ''div'' [Attr ''className'' (js (if cols = 4 then ''lg:grid-cols-4''
        else if cols = 2 then ''lg:grid-cols-2'' else ''lg:grid-cols-3''))] children"

definition flush_card :: "string \<Rightarrow> 'e node list \<Rightarrow> 'e node" where
  "flush_card padding children =
     El ''div'' [Attr ''className'' (js (if padding = ''default'' then ''p-6 sm:p-7'' else ''''))] children"

definition card_icon :: "'e node list \<Rightarrow> 'e node" where
  "card_icon children = El ''div'' [] children"

lemmas section_parts = land_section_def section_header_def landing_card_def card_grid_def
  flush_card_def card_icon_def

lemma fires_section_parts [simp]:
  "can_fire (land_section i t z ks) e = fires_in ks e"
  "can_fire (section_header y hs l a) e = fires_in hs e"
  "can_fire (landing_card p m ks) e = fires_in ks e"
  "can_fire (card_grid n ks) e = fires_in ks e"
  "can_fire (flush_card p ks) e = fires_in ks e"
  "can_fire (card_icon ks) e = fires_in ks e"
  by (cases i; cases y; cases l; simp add: section_parts if_truthy_def)+

lemma values_of_section_parts [simp]:
  "k \<in> {''href'', ''src''} \<Longrightarrow> values_of k (land_section i t z ks) = values_in k ks"
  "values_of ''id'' (land_section i t z ks) = (case i of None \<Rightarrow> [] | Some v \<Rightarrow> [v]) @ values_in ''id'' ks"
  "k \<in> {''href'', ''src'', ''id''} \<Longrightarrow> values_of k (section_header y hs l a) = values_in k hs"
  "k \<in> {''href'', ''src'', ''id''} \<Longrightarrow> values_of k (landing_card p m ks) = values_in k ks"
  "k \<in> {''href'', ''src'', ''id''} \<Longrightarrow> values_of k (card_grid n ks) = values_in k ks"
  "k \<in> {''href'', ''src'', ''id''} \<Longrightarrow> values_of k (flush_card p ks) = values_in k ks"
  "values_of k (card_icon ks) = values_in k ks"
  by (cases i; cases y; cases l; auto simp: section_parts if_truthy_def)+

section \<open>The documentation link\<close>

text \<open>The two build-time settings \<open>VITE_DOCS_URL\<close> and \<open>VITE_API_URL\<close>.\<close>

definition docsUrl :: "jstr option \<Rightarrow> jstr option \<Rightarrow> jstr" where
  "docsUrl docs_setting api_setting =
     or_str docs_setting (or_str api_setting [] @ js ''/docs'')"

section \<open>Navigation bar\<close>

record nav_bar =
  nv_scrolled :: bool
  nv_menu :: bool

definition nav_mount :: nav_bar where
  "nav_mount = \<lparr>nv_scrolled = False, nv_menu = False\<rparr>"

text \<open>
  \<open>NvNavClose to\<close> is a click that both navigates and closes the menu: the link of the mobile menu
  navigates and then runs its own handler, the buttons close and then navigate.
\<close>

datatype nav_event =
    NvScroll int
  | NvToggle
  | NvClose
  | NvNav jstr
  | NvNavClose jstr
  | NvTheme theme_event

fun nav_step :: "nav_bar \<Rightarrow> nav_event \<Rightarrow> nav_bar" where
  "nav_step s (NvScroll y) = s\<lparr>nv_scrolled := (y > 8)\<rparr>"
| "nav_step s NvToggle = s\<lparr>nv_menu := \<not> nv_menu s\<rparr>"
| "nav_step s NvClose = s\<lparr>nv_menu := False\<rparr>"
| "nav_step s (NvNav to) = s"
| "nav_step s (NvNavClose to) = s\<lparr>nv_menu := False\<rparr>"
| "nav_step s (NvTheme e) = s"

fun nav_target :: "nav_event \<Rightarrow> jstr option" where
  "nav_target (NvNav to) = Some to"
| "nav_target (NvNavClose to) = Some to"
| "nav_target _ = None"

definition navLinks :: "(string \<times> string) list" where
  "navLinks =
     [(''How it works'', ''/#how''), (''Who it's for'', ''/#who''),
      (''Developers'', ''/#developers''), (''Security'', ''/security''), (''Pricing'', ''/pricing'')]"

definition nav_top :: "bool \<Rightarrow> theme \<Rightarrow> nav_bar \<Rightarrow> nav_event node" where
  "nav_top authed theme s =
     El ''div'' []
      [link NvNav (js ''/'') [] [icon ''BabitLogo'', El ''span'' [] [tx ''babit'']],
       El ''nav'' []
        (map (\<lambda>(label, href). El ''a'' [Attr ''href'' (js href)] [tx label]) navLinks
         @ [link NvNav (js ''/api'') [] [tx ''API'']]),
       El ''div'' []
        ([theme_toggle (\<lambda>t. NvTheme Toggle) theme]
         @ (if authed
            then [El ''button'' [OnClick (NvNav (js ''/dashboard''))] [Text (js ''Console '' @ [0x2192])]]
            else [El ''button'' [OnClick (NvNav (js ''/login''))] [tx ''Sign in''],
                  El ''button'' [OnClick (NvNav (js ''/signup''))] [tx ''Start free'']])
         @ [El ''button'' [OnClick NvToggle, Attr ''aria-label'' (js ''Toggle menu''),
              Flag ''aria-expanded'' (nv_menu s), Attr ''aria-controls'' (js ''landing-mobile-menu'')]
             [El ''svg'' []
               [El ''path'' [Attr ''d'' (js (if nv_menu s then ''M6 18L18 6M6 6l12 12''
                  else ''M4 6h16M4 12h16M4 18h16''))] []]]])]"

definition nav_mobile :: "bool \<Rightarrow> nav_event node" where
  "nav_mobile authed =
     El ''div'' [Attr ''id'' (js ''landing-mobile-menu'')]
      (map (\<lambda>(label, href). El ''a'' [Attr ''href'' (js href), OnClick NvClose] [tx label]) navLinks
       @ [link NvNavClose (js ''/api'') [] [tx ''API''],
          El ''div'' []
           (if authed
            then [El ''button'' [OnClick (NvNavClose (js ''/dashboard''))]
                   [Text (js ''Console '' @ [0x2192])]]
            else [El ''button'' [OnClick (NvNavClose (js ''/login''))] [tx ''Sign in''],
                  El ''button'' [OnClick (NvNavClose (js ''/signup''))] [tx ''Start free'']])])"

definition nav_view :: "bool \<Rightarrow> theme \<Rightarrow> nav_bar \<Rightarrow> nav_event node" where
  "nav_view authed theme s =
     El ''header'' [Flag ''scrolled'' (nv_scrolled s)]
      ([nav_top authed theme s] @ only_if (nv_menu s) [nav_mobile authed])"

section \<open>Footer\<close>

datatype footer_event = FoNav jstr | FoOpen | FoClose

fun footer_step :: "bool \<Rightarrow> footer_event \<Rightarrow> bool" where
  "footer_step creditOpen (FoNav to) = creditOpen"
| "footer_step creditOpen FoOpen = True"
| "footer_step creditOpen FoClose = False"

fun footer_target :: "footer_event \<Rightarrow> jstr option" where
  "footer_target (FoNav to) = Some to"
| "footer_target _ = None"

definition blank_link :: "jstr \<Rightarrow> 'e attr list \<Rightarrow> 'e node list \<Rightarrow> 'e node" where
  "blank_link href props children = El ''a''
     ([Attr ''href'' href, Attr ''target'' (js ''_blank''), Attr ''rel'' (js ''noreferrer'')] @ props) children"

definition footer_columns :: "jstr \<Rightarrow> footer_event node" where
  "footer_columns docs =
     El ''div'' []
      [El ''div'' []
        [El ''div'' [] [icon ''BabitLogo'', El ''span'' [] [tx ''babit'']],
         El ''p'' [] [tx ''Proof that your agents behaved. Signed, sealed, and auditable.'']],
       El ''div'' []
        [El ''span'' [] [tx ''Product''],
         El ''ul'' []
          [El ''li'' [] [El ''a'' [Attr ''href'' (js ''/#how'')] [tx ''How it works'']],
           El ''li'' [] [El ''a'' [Attr ''href'' (js ''/#authority'')] [tx ''Chain of authority'']],
           El ''li'' [] [El ''a'' [Attr ''href'' (js ''/#receipt'')] [tx ''The receipt'']],
           El ''li'' [] [link FoNav (js ''/pricing'') [] [tx ''Pricing'']],
           El ''li'' [] [link FoNav (js ''/login'') [] [tx ''Console'']]]],
       El ''div'' []
        [El ''span'' [] [tx ''Developers''],
         El ''ul'' []
          [El ''li'' [] [link FoNav (js ''/api'') [] [tx ''API reference'']],
           El ''li'' [] [blank_link docs [] [Text (js ''Documentation '' @ [0x2197])]],
           El ''li'' [] [blank_link (js ''/openapi.json'') [] [Text (js ''OpenAPI spec '' @ [0x2197])]]]],
       El ''div'' []
        [El ''span'' [] [tx ''Security''],
         El ''ul'' []
          [El ''li'' [] [link FoNav (js ''/security'') [] [tx ''Security & compliance'']],
           El ''li'' [] [link FoNav (js ''/contact'') [] [tx ''Contact'']]]]]"

definition footer_bar :: "nat \<Rightarrow> footer_event node" where
  "footer_bar year =
     El ''div'' []
      [El ''div'' []
        [El ''span'' [] [Text ([0xA9] @ js '' ''), Text (nat_text year), tx '' babit.''],
         El ''span'' [] [tx ''Built by''],
         blank_link (js ''https://github.com/TheBraveByte'') [] [tx ''TheBraveByte'']],
       El ''div'' []
        [El ''button'' [OnClick FoOpen] [tx ''Inspired by Solari and Pinetree Research''],
         blank_link (js ''https://x.com/thebravebyte'') [Attr ''aria-label'' (js ''X'')] [icon ''IconXLogo''],
         blank_link (js ''https://github.com/TheBraveByte'') [Attr ''aria-label'' (js ''GitHub'')] [icon ''IconGitHub'']]]"

text \<open>The overlay's own handler also runs for clicks inside the card, which bubble up to it.\<close>

definition credit_dialog :: "footer_event node" where
  "credit_dialog =
     El ''div'' [OnClick FoClose]
      [card (Some (js ''Why this exists'')) None
        [El ''button'' [OnClick FoClose, Attr ''aria-label'' (js ''Close'')] [icon ''IconXCircle'']]
        [El ''div'' []
          [El ''p'' [] [tx ''Babit was inspired by a challenge from Harry Chow and the Solari team at Pinetree Research.''],
           El ''p'' [] [tx ''The challenge was simple. Fork Solari, build a real use case, and ship. Use AI if it helps. We did exactly that.''],
           El ''p'' [] [tx ''Babit is our proof: signed receipts for autonomous actions. No resumes. Just code.''],
           El ''div'' []
            [blank_link (js ''https://github.com/solari-sdk/solari-cookbook/'') []
              [Text (js ''View the Solari cookbook '' @ [0x2197])]]]]]"

definition footer_view :: "jstr \<Rightarrow> nat \<Rightarrow> bool \<Rightarrow> footer_event node" where
  "footer_view docs year creditOpen =
     El ''footer'' []
      ([El ''div'' [] [], El ''div'' [] [footer_columns docs, footer_bar year]]
       @ only_if creditOpen [credit_dialog])"

section \<open>What the shared parts link to\<close>

lemma values_of_card [simp]:
  "values_of k (card t u a ks) = (if truthy t then values_in k a else []) @ values_in k ks"
  by (cases a; cases t; cases u) (auto simp: card_def if_truthy_def)

lemma values_of_blank_link [simp]:
  "values_of k (blank_link h ps ks) = (if k = ''href'' then [h] else []) @
     (if k = ''target'' then [js ''_blank''] else []) @ (if k = ''rel'' then [js ''noreferrer''] else [])
     @ attr_values k ps @ values_in k ks"
  by (simp add: blank_link_def)

definition nav_hrefs :: "jstr list" where
  "nav_hrefs = [js ''/''] @ map (js \<circ> snd) navLinks @ [js ''/api'']"

lemma values_of_theme_toggle [simp]: "k \<in> {''href'', ''src'', ''id''} \<Longrightarrow> values_of k (theme_toggle f t) = []"
  by (cases t) (auto simp: theme_toggle_def)

lemma nav_view_hrefs: "set (values_of ''href'' (nav_view authed theme s)) = set nav_hrefs"
  by (auto simp: nav_view_def nav_top_def nav_mobile_def nav_hrefs_def navLinks_def to_url_def js_def)

lemma nav_view_srcs [simp]: "values_of ''src'' (nav_view authed theme s) = []"
  by (simp add: nav_view_def nav_top_def nav_mobile_def navLinks_def)

definition footer_hrefs :: "jstr list" where
  "footer_hrefs = map js [''/#how'', ''/#authority'', ''/#receipt'', ''/pricing'', ''/login'', ''/api'',
     ''/openapi.json'', ''/security'', ''/contact'', ''https://github.com/TheBraveByte'',
     ''https://x.com/thebravebyte'']"

lemma footer_view_hrefs:
  "set (values_of ''href'' (footer_view docs year c)) \<subseteq>
     set footer_hrefs \<union> {docs, js ''https://github.com/solari-sdk/solari-cookbook/''}"
  by (auto simp: footer_view_def footer_columns_def footer_bar_def credit_dialog_def footer_hrefs_def
      to_url_def js_def)

lemma footer_view_srcs [simp]: "values_of ''src'' (footer_view docs year c) = []"
  by (simp add: footer_view_def footer_columns_def footer_bar_def credit_dialog_def)

text \<open>Where the buttons and routed links of the bar and the footer go.\<close>

lemma nav_targets:
  "can_fire (nav_view authed theme s) e \<Longrightarrow> nav_target e = Some p \<Longrightarrow>
     p \<in> set (map js [''/'', ''/api'', ''/dashboard'', ''/login'', ''/signup''])"
  by (cases authed)
     (auto simp: nav_view_def nav_top_def nav_mobile_def navLinks_def)

lemma footer_targets:
  "can_fire (footer_view docs year c) e \<Longrightarrow> footer_target e = Some p \<Longrightarrow>
     p \<in> set (map js [''/pricing'', ''/login'', ''/api'', ''/security'', ''/contact''])"
  by (auto simp: footer_view_def footer_columns_def footer_bar_def credit_dialog_def blank_link_def)

text \<open>The dialog can only be closed from inside it: every click in it does.\<close>

lemma credit_dialog_closes: "can_fire credit_dialog e \<Longrightarrow> \<not> footer_step c e"
  by (auto simp: credit_dialog_def blank_link_def)

end
