(* ===== verification/Landing.thy ===== *)
theory Landing
  imports Marketing Crypto
begin

text \<open>
  The landing page, \<open>pages/Landing.tsx\<close> with the sections of \<open>pages/landing\<close>: their rendered
  trees, the demonstration receipt of the hero, the tabs of the code example, and the page that
  composes them with the navigation bar, the footer and the router.
\<close>

section \<open>The sections\<close>

definition productPreview :: "'e node" where
  "productPreview =
    land_section (Some (js ''product-preview'')) ''base'' ''default''
    [El ''div'' []
     [El ''div'' []
      [El ''span'' [] [],
       El ''span'' [] [],
       El ''span'' [] [],
       El ''div'' [] [tx ''babit / console'']],
      El ''div'' []
      [El ''img'' [Attr ''src'' (js ''/console-dashboard.png''), Attr ''alt''
        (js ''babit console dashboard showing notarized action counts, sessions, and active grants''), Attr ''loading'' (js ''lazy'')] []]],
     El ''div'' []
     [El ''div'' []
      [El ''div'' []
       [El ''span'' [] [],
        El ''span'' [] [],
        El ''span'' [] [],
        El ''span'' [] [tx ''analytics'']],
       El ''div'' []
       [El ''img'' [Attr ''src'' (js ''/console-analytics.png''), Attr ''alt''
         (js ''babit analytics page showing event counts, surface breakdown, and delegation health''), Attr ''loading'' (js ''lazy'')] []]],
      El ''div'' []
      [El ''div'' []
       [El ''span'' [] [],
        El ''span'' [] [],
        El ''span'' [] [],
        El ''span'' [] [tx ''delegations'']],
       El ''div'' []
       [El ''img'' [Attr ''src'' (js ''/console-delegations.png''), Attr ''alt''
         (js ''babit delegations page showing a verified authority chain from human principal to agent''), Attr ''loading'' (js ''lazy'')] []]]],
     El ''p'' []
     [tx ''The console reads straight from the ledger. No cached numbers, no placeholders.'']]"

definition how_steps :: "(string \<times> string \<times> string \<times> string) list" where
  "how_steps =
     [(''Authority'', ''IconUser'', ''A human says yes.'', ''One specific permission. Nothing more.''),
      (''Action'', ''IconActivity'', ''The agent does its thing.'', ''Clicks, code, or money movement.''),
      (''Evidence'', ''IconLock'', ''babit notarizes it.'', ''Signed, hash-linked, and tamper-evident.''),
      (''Verification'', ''IconShieldCheck'', ''Anyone can verify it.'', ''Independently auditable, even offline.'')]"

definition sectionHowItWorks :: "'e node" where
  "sectionHowItWorks =
    land_section (Some (js ''how'')) ''base'' ''default''
    [section_header (Some (js ''How it works'')) [tx ''From yes to receipt.''] (Some
      (js ''See who gave permission, what the agent did, and the proof that ties them together.'')) ''left'',
     El ''div'' []
     [El ''div'' []
      ([landing_card ''default'' ''raised''
       [El ''span'' [] [tx ''The flow''],
        El ''h3'' [] [tx ''One thread, from yes to proof.''],
        El ''p'' []
        [tx ''Who allowed it follows every step. The result is a receipt, not just a log.''],
        El ''div'' []
        (map (\<lambda>i. El ''div'' []
           ([El ''span'' [] [tx (fst (how_steps ! i))]]
            @ only_if (i < length how_steps - 1) [icon ''IconArrowRight'']))
          [0..<length how_steps])]]
       @ map (\<lambda>(label, ic, title, body). landing_card ''default'' ''flat''
          [card_icon [icon ic],
           El ''div'' [] [El ''span'' [] [tx label], El ''h3'' [] [tx title]], El ''p'' []
             [tx body]])
          how_steps)]]"

definition land_surfaces :: "(string \<times> string \<times> string \<times> string) list" where
  "land_surfaces =
     [(''IconMonitor'', ''Browser'', ''Cloud browsers with receipts.'',
       ''Every click, form, and page. Signed while it happens.''),
      (''IconTerminal'', ''Sandbox'', ''Signed code runs.'',
       ''Every command and write gets a notarized fingerprint.''),
      (''IconCpu'', ''Desktop'', ''Desktop apps, witnessed.'',
       ''Every tap and keystroke tied back to permission.'')]"

definition sectionSurfaces :: "'e node" where
  "sectionSurfaces =
    land_section (Some (js ''surfaces'')) ''raised'' ''default''
    [section_header (Some (js ''Surfaces'')) [tx ''If the agent touches it, babit signs it.'']
      (Some (js ''Cloud browser, sandbox, desktop '' @
      [0x2014] @ js '' same API, same receipt. babit does not care where the agent runs.'')) ''left'',
     El ''div'' []
     [card_grid 3
      (map (\<lambda>(ic, tag, title, body). flush_card ''default''
         [El ''div'' [] [card_icon [icon ic], El ''span'' [] [tx tag]],
          El ''h3'' [] [tx title], El ''p'' [] [tx body]]) land_surfaces),
      El ''div'' []
      [El ''div'' []
       [card_icon [icon ''IconLayers''],
        El ''div'' []
        [El ''h3'' [] [tx ''One API. Any language.''],
         El ''p'' []
         [tx ''Send the action, the surface, and the grant. Get a signed event ID back.'']]],
       El ''span'' []
       [Text (js ''REST '' @ [0xB7] @ js '' gRPC '' @ [0xB7] @ js '' OpenAPI'')]]]]"

definition how_to_read :: "(string \<times> jstr) list" where
  "how_to_read =
     [(''Principal'', js ''A real person with real authority.''),
      (''Grant'', js ''A signed permission slip that says what, where, and for how long. BAL-998258 is the root grant.''),
      (''Delegation'', js ''Permission can be narrowed and passed down. Each child carries the parent's signature.''),
      (''Chain check'', js ''Break one link and the whole branch below turns red.'')]"

definition sectionAuthorityChain :: "'e node" where
  "sectionAuthorityChain =
    El ''section'' [Attr ''id'' (js ''authority'')]
    [El ''div'' [] [],
     El ''div'' [] [],
     El ''div'' []
     [El ''div'' []
      [El ''div'' []
       [El ''div'' []
        [El ''p'' [] [tx ''Authority''],
         El ''h2'' [] [tx ''Every action has a name attached.''],
         El ''p'' []
         [tx ''A person gives permission. An agent can pass a narrower slice to another agent. Revoke one grant and the whole branch dies.'']],
        El ''div'' []
        [El ''div'' []
         [El ''span'' [] [tx ''How to read it''],
          El ''span'' [] [tx ''Live delegation data'']],
         El ''ul'' []
         (map (\<lambda>(title, body). El ''li'' [] [El ''span'' [] [tx title], El ''p'' []
           [Text body]]) how_to_read)]],
       El ''div'' []
       [El ''div'' []
        [El ''span'' [] [tx ''Delegation grants''],
         El ''span'' [] [tx ''Brave Byte Labs'']],
        El ''img'' [Attr ''src'' (js ''/dashboard-shots/delegations.png''), Attr ''alt''
          (js ''Babit Delegations dashboard showing principal to subject grant relationships'')] [],
        El ''p'' []
        [tx ''A root principal delegates to agents, which may delegate further to sub-agents. Each box is a live grant; the labels show role, subject, capabilities and scope.'']]]]]"

definition sectionReceiptCenterpiece :: "'e node" where
  "sectionReceiptCenterpiece =
    land_section (Some (js ''receipt'')) ''raised'' ''default''
    [section_header (Some (js ''The receipt'')) [tx ''A receipt you can take to court.''] (Some
      (js ''What happened, who said yes, and the proof underneath. In plain English and in math.'')) ''center'',
     El ''div'' []
     [El ''div'' []
      [landing_card ''none'' ''raised''
       [El ''div'' []
        [El ''div'' []
         [El ''span'' [] [tx ''BAL-997507''],
          El ''span'' [] [icon ''IconCheck'',
           tx ''Signed'']],
         El ''span'' [] [tx ''From the live Babit console'']],
        El ''img'' [Attr ''src'' (js ''/dashboard-shots/receipts.png''), Attr ''alt''
          (js ''Babit Receipts dashboard showing recorded events with cryptographic proof links'')]
          []],
       El ''p'' []
       [tx ''Click any row to see the signature, content hash, and the grant behind it.'']]]]"

definition sectionVerifyRecord :: "'e node" where
  "sectionVerifyRecord =
    land_section (Some (js ''security'')) ''raised'' ''default''
    [section_header (Some (js ''Verification'')) [tx ''Verify without calling us.''] (Some
      (js ''Each receipt has the proof built in. Check it in the dashboard, from a file, or with the public key.'')) ''center'',
     El ''div'' []
     [El ''div'' []
      [landing_card ''none'' ''raised''
       [El ''div'' []
        [El ''div'' []
         [El ''span'' [] [tx ''Verify by event ID''],
          El ''span'' [] [icon ''IconCheck'',
           tx ''Works in browser'']],
         El ''span'' [] [tx ''From the live Babit console'']],
        El ''img'' [Attr ''src'' (js ''/dashboard-shots/verify.png''), Attr ''alt''
          (js ''Babit Verify dashboard showing event ID verification, file upload and receipt JSON paste options'')] []],
       El ''div'' []
       (map (\<lambda>text. El ''div'' [] [El ''span'' [] [Text [0x2713]], El ''span'' []
         [tx text]])
        [''Enter an event ID and the console pulls the proof from the ledger.'',
         ''Upload a saved receipt and verify it locally.'',
         ''Fetch the public key and check signatures anywhere, even offline.''])]]]"

definition sectionGlobalAnchor :: "'e node" where
  "sectionGlobalAnchor =
    land_section (Some (js ''global-anchor'')) ''base'' ''lg''
    [El ''div'' []
     [El ''div'' []
      [section_header (Some (js ''Public anchoring'')) [tx ''Anchored where we can't touch it.'']
        (Some
        (js ''Anchored to public transparency logs. Even if Babit disappears, the proof survives.'')) ''left'',
       El ''div'' []
       (map (\<lambda>(label, value). El ''div'' [] [El ''span'' [] [tx label], El ''span'' []
         [Text value]])
        [(''Anchor types'', js ''RFC 3161 '' @ [0xB7] @ js '' Transparency logs''),
         (''Verification'', js ''Offline, no babit required'')])],
      El ''div'' []
      [El ''Suspense'' [] [icon ''AnchorGlobe'']]]]"

definition sectionBuiltForEngineers :: "(jstr \<Rightarrow> 'e) \<Rightarrow> 'e node" where
  "sectionBuiltForEngineers nav =
    land_section (Some (js ''developers'')) ''base'' ''default''
    [section_header (Some (js ''Built for engineers''))
      [tx ''One call to record. One call to verify.''] (Some
      (js ''REST, gRPC, OpenAPI. No SDK required. The console is just a nice UI on the same API.'')) ''left'',
     El ''div'' []
     [El ''div'' []
      [El ''div'' []
       [El ''div'' []
        [El ''span'' [] [tx ''Live analytics''],
         El ''span'' [] [tx ''Brave Byte Labs'']],
        El ''img'' [Attr ''src'' (js ''/console-analytics.png''), Attr ''alt''
          (js ''Babit Analytics dashboard showing events over time, by surface and delegation health'')] []]],
      landing_card ''default'' ''flat''
      [El ''div'' []
       [El ''span'' [] [tx ''The API surface''],
        El ''h3'' [] [tx ''Every endpoint documented.''],
        El ''p'' []
        [tx ''Auth, grants, sessions, events, verification. Copy-paste examples included.'']],
       El ''div'' []
       [link nav (js ''/api'') []
        [El ''span'' [] [tx ''Open API reference''],
         icon ''IconArrowUpRight'']]]]]"

definition sectors :: "(string \<times> string \<times> string) list" where
  "sectors =
     [(''Financial services'', ''AI just moved money.'', ''A receipt that names the person who said yes.''),
      (''Insurance'', ''Settles claims while you sleep.'', ''Replay the exact moment it decided.''),
      (''Healthcare'', ''Touches patient records.'', ''Tied to a real clinician, not a black box.''),
      (''Software teams'', ''Deploys code and touches prod.'', ''Every deploy has a paper trail.''),
      (''Legal and audit'', ''Reviews contracts at 3am.'', ''Still verifiable in 2035.''),
      (''Public sector'', ''Decides who gets benefits.'', ''Explicit, revocable, court-ready.'')]"

definition sectionWhoItsFor :: "'e node" where
  "sectionWhoItsFor =
    land_section (Some (js ''who'')) ''base'' ''default''
    [section_header (Some (js ''Who it's for''))
      [tx ''Industries that can't take 'the agent did it' as an answer.''] (Some
      (js ''For teams that answer to regulators, auditors, customers, or courts.'')) ''left'',
     card_grid 3
     (map (\<lambda>(sector, agentDoes, benefit). flush_card ''default''
       [El ''div'' []
         [El ''h3'' [] [tx sector], El ''p'' [] [tx agentDoes], El ''div'' [] [], El ''p'' []
           [tx benefit]]])
       sectors)]"

definition sectionOfflineGlobe :: "'e node" where
  "sectionOfflineGlobe =
    El ''section'' [Attr ''id'' (js ''offline-globe'')]
    [El ''div'' [] [],
     El ''div'' [] [],
     El ''div'' []
     [El ''div'' []
      [El ''div'' []
       [El ''p'' [] [tx ''Trust no one''],
        El ''h2'' [] [tx ''Witnessed outside babit.''],
        El ''p'' []
        [tx ''We publish the notary public key in the console. Verify receipts without trusting us.''],
        El ''div'' []
        [El ''span'' [] [Text ([0x2192])],
         El ''span'' []
         [Text (js ''No special access '' @ [0xB7] @ js '' anyone can audit'')]]],
       El ''div'' []
       [El ''div'' []
        [El ''span'' [] [tx ''Notary public key''],
         El ''span'' [] [tx ''Brave Byte Labs'']],
        El ''img'' [Attr ''src'' (js ''/dashboard-shots/overview.png''), Attr ''alt''
          (js ''Babit Overview dashboard showing the notary public key used to verify receipts'')]
          []]]]]"

definition sectionOffline :: "'e node" where
  "sectionOffline =
    land_section (Some (js ''offline'')) ''base'' ''default''
    [section_header (Some (js ''Offline verification'')) [tx ''Proof without the server.''] (Some
      (js ''A receipt has everything. Verify it offline, years later, without us.'')) ''left'',
     El ''div'' []
     [landing_card ''default'' ''raised''
      [El ''div'' []
       [El ''span'' [] [tx ''Check it yourself''],
        El ''h3'' [] [tx ''Verify from a file, a JSON paste, or an event ID.''],
        El ''p'' []
        [tx ''Use the console, or download the receipt and the public key and run the open verification logic yourself.'']],
       El ''img'' [Attr ''src'' (js ''/dashboard-shots/verify.png''), Attr ''alt''
         (js ''Babit Verify dashboard with event ID input, file upload and JSON paste'')] []],
      El ''div'' []
      (map (\<lambda>(title, body). landing_card ''default'' ''flat''
         [El ''h3'' [] [tx title], El ''p'' [] [Text body]])
         [(''Keep the receipt'', js ''Download it as plain JSON. Event, hashes, signature '' @
           [0x2014]
             @ js '' everything included.''),
          (''Grab the public key'',
            js ''Fetch it once from the console and store it wherever you audit.''),
          (''Verify anywhere'',
            js ''Check signatures and chain integrity without calling babit. The math is public.'')])]]"

definition finalCTA :: "(jstr \<Rightarrow> 'e) \<Rightarrow> jstr \<Rightarrow> 'e node" where
  "finalCTA nav docs =
    El ''section'' []
    [El ''div'' [] [],
     El ''div'' [] [],
     El ''div'' []
     [El ''div'' []
      [El ''p'' [] [tx ''Start proving it''],
       El ''h2'' [] [tx ''Put your agents under oath.''],
       El ''p'' []
       [tx ''Stop trusting agent logs. Start signing agent actions.''],
       El ''div'' []
       [El ''button'' [OnClick (nav (js ''/signup''))] [tx ''Get started free''],
        El ''button'' [OnClick (nav (js ''/contact''))] [El ''span'' [] [tx ''Talk to us'']],
        El ''a'' [Attr ''href'' docs, Attr ''target'' (js ''_blank''), Attr ''rel''
          (js ''noreferrer'')]
        [El ''span'' [] [tx ''Read docs''],
         El ''span'' [] [Text ([0x2197])]]]]]]"

section \<open>The code example\<close>

text \<open>Label and code of each language; a line break is the unit 10, a backslash 92.\<close>

definition languages :: "(string \<times> jstr) list" where
  "languages =
     [(''cURL'', js ''curl -X POST https://api.babit.dev/v1/capture/events '' @ [92]
       @ [10] @ js ''  -H \"Authorization: Bearer $TOKEN\" '' @ [92]
       @ [10] @ js ''  -H \"Content-Type: application/json\" '' @ [92]
       @ [10] @ js ''  -d '{''
       @ [10] @ js ''    \"session_id\": \"BAL-973396\",''
       @ [10] @ js ''    \"action_type\": \"browser.submit\",''
       @ [10] @ js ''    \"recording_ref\": \"https://dashboard.stripe.com/payments/pi_3abc123\"''
       @ [10] @ js ''  }'' @ [39]),
      (''Go'', js ''ctx := context.Background()''
       @ [10] @ js ''res, err := client.RecordAction(ctx, &ledgerv1.RecordActionRequest{''
       @ [10] @ js ''    SessionId:    \"BAL-973396\",''
       @ [10] @ js ''    ActionType:   \"browser.submit\",''
       @ [10] @ js ''    RecordingRef: \"https://dashboard.stripe.com/payments/pi_3abc123\",''
       @ [10] @ js ''})''),
      (''Python'', js ''requests.post(''
       @ [10] @ js ''    \"https://api.babit.dev/v1/capture/events\",''
       @ [10] @ js ''    headers={\"Authorization\": f\"Bearer {token}\"},''
       @ [10] @ js ''    json={''
       @ [10] @ js ''        \"session_id\": \"BAL-973396\",''
       @ [10] @ js ''        \"action_type\": \"browser.submit\",''
       @ [10] @ js ''        \"recording_ref\": \"https://dashboard.stripe.com/payments/pi_3abc123\",''
       @ [10] @ js ''    },''
       @ [10] @ js '')'')]"

definition sectionApiSnippet :: "(nat \<Rightarrow> 'e) \<Rightarrow> nat \<Rightarrow> 'e node" where
  "sectionApiSnippet pick active =
    land_section (Some (js ''api-snippet'')) ''raised'' ''default''
    [section_header (Some (js ''Get started'')) [tx ''One call. Signed. Done.''] (Some
      (js ''Record an action from any language and get back a receipt ID you can verify later.'')) ''left'',
     El ''div'' []
     [El ''div'' []
      [El ''div'' []
       [El ''div'' []
        [El ''span'' [] [],
         El ''span'' [] [],
         El ''span'' [] []],
        El ''div'' []
        (map (\<lambda>i. El ''button'' [OnClick (pick i), Flag ''active'' (active = i)]
            [tx (fst (languages ! i))]) [0..<length languages])],
       El ''div'' []
       [El ''pre'' [] [El ''code'' [] [Text (snd (languages ! active))]]],
       El ''div'' []
       [tx ''Returns'',
        tx '' '',
        El ''span'' [] [tx ''{ event_id, content_hash, notary_signature }'']]],
      El ''p'' []
      [tx ''No SDK. No hand-waving. Just an HTTP call and a signature.'']]]"

section \<open>Logs and evidence\<close>

text \<open>Not part of the landing page at present; the switch that edits the log and restores it.\<close>

definition toggle_log :: "bool \<Rightarrow> bool" where
  "toggle_log tampered = (\<not> tampered)"

definition log_amount :: "bool \<Rightarrow> jstr" where
  "log_amount tampered = js (if tampered then ''$9,700'' else ''$4,200'')"

definition sectionLogsVsEvidence :: "'e \<Rightarrow> bool \<Rightarrow> 'e node" where
  "sectionLogsVsEvidence toggle tampered =
    land_section (Some (js ''product'')) ''base'' ''default''
    [section_header (Some (js ''Logs vs evidence''))
      [tx ''Logs are editable. Evidence is signed.''] (Some
      (js ''Same event. Two very different stories.'')) ''left'',
     El ''div'' []
     [El ''div'' []
      [landing_card ''default'' ''flat''
       [El ''div'' []
        [El ''span'' [] [tx ''The old way: a plain log''],
         El ''button'' [OnClick toggle, Flag ''failed'' tampered] 
           [tx (if tampered then ''Restore'' else ''Sneakily edit'')]],
        El ''div'' []
        [El ''div'' [] [tx ''2026-09-01 14:32:08 worker-pool-4: executing payout''],
         El ''div'' []
         [tx ''2026-09-01 14:32:08 worker-pool-4: amount='',
          El ''span'' [Flag ''failed'' tampered] [Text (log_amount tampered)],
          tx '' '',
          tx ''claim=CLM-48102''],
         El ''div'' []
         [tx ''2026-09-01 14:32:08 worker-pool-4: request completed (200 OK)'']],
        El ''ul'' []
        [El ''li'' []
         [El ''span'' [] [Text ([0x2717])],
          El ''span'' []
          [tx ''Anyone with database access can change it, and nothing shows it was changed.'']],
         El ''li'' []
         [El ''span'' [] [Text ([0x2717])],
          El ''span'' []
          [tx ''It doesn't say who allowed the action, only that something ran.'']]]],
       landing_card ''default'' ''raised''
       [El ''div'' []
        [El ''span'' [] [tx ''The Babit way: signed evidence''],
         El ''span'' []
         [icon ''IconCheck'',
          El ''span'' [] [tx ''Real dashboard data'']]],
        El ''img'' [Attr ''src'' (js ''/dashboard-shots/activity.png''), Attr ''alt''
          (js ''Babit Activity dashboard showing recorded action events with IDs, action types, sessions and timestamps'')] [],
        El ''ul'' []
        [El ''li'' []
         [El ''span'' [] [Text ([0x2713])],
          El ''span'' []
          [tx ''Every row is signed by the notary and bound to a grant.'']],
         El ''li'' []
         [El ''span'' [] [Text ([0x2713])],
          El ''span'' []
          [tx ''Click any event to see the session, content hash, and signature.'']]]]]]]"


section \<open>The hero\<close>

text \<open>
  \<open>generateReceipt\<close> runs at the mount and on the button \<open>new\<close>. Before its \<open>await\<close> it marks the
  receipt as being computed; the settled promise stores the receipt and starts a timer of 400
  milliseconds that shows the seal. Nothing cancels a timer, so the state counts those running;
  they fire in any order. A computation that throws leaves the handler where it stands.
\<close>

record hero =
  he_liveEvent :: "live_event option"
  he_computing :: bool
  he_sealed :: bool
  he_wait :: nat
  he_timers :: nat

definition SCENARIO :: live_params where
  "SCENARIO =
     \<lparr>lp_actionName = js ''Approved a $4,200 insurance payout'', lp_agent = js ''claims-agent'',
      lp_principal = js ''Alice, Risk Supervisor'', lp_grantId = js ''BAL-DEL-8921'',
      lp_resource = js ''claims/48102'', lp_amountUsd = Some (js ''4200''),
      lp_customPayload = None, lp_prevHash = None\<rparr>"

definition generateReceipt :: "hero \<Rightarrow> hero" where
  "generateReceipt s = s\<lparr>he_computing := True, he_sealed := False, he_wait := he_wait s + 1\<rparr>"

definition generateReceipt_settled :: "live_event \<Rightarrow> hero \<Rightarrow> hero" where
  "generateReceipt_settled e s =
     s\<lparr>he_liveEvent := Some e, he_computing := False, he_timers := he_timers s + 1\<rparr>"

definition hero_mount :: hero where
  "hero_mount = generateReceipt
     \<lparr>he_liveEvent = None, he_computing = False, he_sealed = False, he_wait = 0, he_timers = 0\<rparr>"

text \<open>\<open>HeComputed now r36 serial\<close> settles a computation made at that time with those random parts.\<close>

datatype hero_event =
    HeNav jstr
  | HeNew
  | HeComputed jstr jstr nat
  | HeThrown
  | HeTimer

fun hero_step :: "(byte list \<Rightarrow> byte list) \<Rightarrow> hero \<Rightarrow> hero_event \<Rightarrow> hero" where
  "hero_step digest s (HeNav to) = s"
| "hero_step digest s HeNew = generateReceipt s"
| "hero_step digest s (HeComputed now r36 serial) =
     (if he_wait s = 0 then s
      else generateReceipt_settled (computeLiveReceipt digest now r36 serial SCENARIO)
             (s\<lparr>he_wait := he_wait s - 1\<rparr>))"
| "hero_step digest s HeThrown = (if he_wait s = 0 then s else s\<lparr>he_wait := he_wait s - 1\<rparr>)"
| "hero_step digest s HeTimer =
     (if he_timers s = 0 then s else s\<lparr>he_sealed := True, he_timers := he_timers s - 1\<rparr>)"

fun hero_outside :: "hero_event \<Rightarrow> bool" where
  "hero_outside (HeComputed now r36 serial) = True"
| "hero_outside HeThrown = True"
| "hero_outside HeTimer = True"
| "hero_outside _ = False"

definition hero_status :: "hero \<Rightarrow> jstr" where
  "hero_status s =
     (if he_sealed s then js ''Verified''
      else if he_computing s then js ''Signing'' @ [0x2026] else js ''Pending'')"

definition hero_stats :: "(string \<times> string \<times> string \<times> string) list" where
  "hero_stats =
     [(''Notarized'', ''signed receipts'', ''IconShieldCheck'',
       ''Every action is signed by Babit and bound to a cryptographic receipt.''),
      (''Linked'', ''inclusion roots'', ''IconGitBranch'',
       ''Every event is linked into a Merkle inclusion root for offline verification.'')]"

definition hero_pitch :: "jstr \<Rightarrow> hero_event node" where
  "hero_pitch docs =
     El ''div'' []
      [blank_link (js ''https://github.com/solari-sdk/solari-cookbook/'') []
        [El ''span'' [] [], tx ''Built on Solari cloud browsers''],
       El ''h1'' []
        [tx ''Your agents can do anything.'', El ''br'' [] [],
         El ''span'' [] [tx ''Now they have receipts.'']],
       El ''p'' []
        [tx ''When an AI agent clicks, runs code, or moves money, babit notarizes who gave permission and what happened. No trust needed. Just proof.''],
       El ''div'' []
        [El ''button'' [OnClick (HeNav (js ''/signup''))] [tx ''Start free''],
         blank_link docs [] [El ''span'' [] [tx ''Read the docs''], El ''span'' [] [Text [0x2197]]]],
       El ''div'' []
        (map (\<lambda>(value, label, ic, tooltip).
          El ''div'' []
           [El ''div'' [] [El ''div'' [] [tx tooltip]],
            El ''div'' [] [El ''span'' [] [icon ic], El ''div'' [] [tx value]],
            El ''div'' [] [tx label]]) hero_stats)]"

definition hero_rows :: "live_event \<Rightarrow> hero_event node" where
  "hero_rows e =
     El ''div'' []
      (map (\<lambda>(label, value).
        El ''div'' []
         [El ''span'' [] [tx label], El ''span'' [] [Text (take 24 value), Text [0x2026]],
          El ''span'' [] [Text [0x2713]]])
        [(''digest'', le_eventHash e), (''signature'', le_notarySignature e)])"

definition hero_receipt :: "hero \<Rightarrow> hero_event node" where
  "hero_receipt s =
     El ''div'' [Flag ''sealed'' (he_sealed s)]
      [El ''div'' []
        [El ''span'' [] [tx ''Simulated receipt''], El ''span'' [] [Text (lp_grantId SCENARIO)]],
       El ''div'' []
        ([El ''div'' []
           [El ''div'' []
             [El ''span'' [] [tx ''Action''], El ''p'' [] [Text (lp_actionName SCENARIO)]],
            El ''div'' [Flag ''sealed'' (he_sealed s)]
             (only_if (he_sealed s) [icon ''IconCheck''] @ [El ''span'' [] [Text (hero_status s)]])],
          El ''div'' [] [El ''div'' [Attr ''width'' (js (if he_sealed s then ''100%'' else ''0%''))] []]]
         @ if_some (he_liveEvent s) (\<lambda>e. [hero_rows e])
         @ [El ''div'' []
             [El ''span'' [] [tx ''computed in your browser''],
              El ''button'' [OnClick HeNew, Disabled (he_computing s)]
               [icon ''IconRefresh'', El ''span'' [] [tx ''new'']]]])]"

definition hero_view :: "jstr \<Rightarrow> hero \<Rightarrow> hero_event node" where
  "hero_view docs s =
     El ''section'' []
      [El ''div'' [] [icon ''EvidencePipeline''],
       El ''div'' [] [],
       El ''div'' [] [hero_pitch docs, El ''div'' [] [hero_receipt s]]]"

section \<open>The page\<close>

record landing =
  ld_auth :: auth
  ld_theme :: theme_state
  ld_nav :: nav_bar
  ld_hero :: hero
  ld_active :: nat
  ld_credit :: bool
  ld_router :: router

datatype landing_event =
    LdNav nav_event
  | LdHero hero_event
  | LdLink jstr
  | LdTab nat
  | LdFooter footer_event

definition landing_mount :: "auth \<Rightarrow> theme_state \<Rightarrow> router \<Rightarrow> landing" where
  "landing_mount a t r =
     \<lparr>ld_auth = a, ld_theme = t, ld_nav = nav_mount, ld_hero = hero_mount, ld_active = 0,
      ld_credit = False, ld_router = r\<rparr>"

fun landing_target :: "landing_event \<Rightarrow> jstr option" where
  "landing_target (LdNav e) = nav_target e"
| "landing_target (LdHero (HeNav to)) = Some to"
| "landing_target (LdLink to) = Some to"
| "landing_target (LdFooter e) = footer_target e"
| "landing_target _ = None"

definition landing_navigate :: "landing_event \<Rightarrow> router \<Rightarrow> router" where
  "landing_navigate e r = (case landing_target e of None \<Rightarrow> r | Some to \<Rightarrow> navigate to r)"

fun nav_theme :: "theme_state \<Rightarrow> nav_event \<Rightarrow> theme_state" where
  "nav_theme t (NvTheme e) = theme_step t e"
| "nav_theme t _ = t"

fun landing_local :: "(byte list \<Rightarrow> byte list) \<Rightarrow> landing \<Rightarrow> landing_event \<Rightarrow> landing" where
  "landing_local digest s (LdNav e) = s\<lparr>ld_nav := nav_step (ld_nav s) e, ld_theme := nav_theme (ld_theme s) e\<rparr>"
| "landing_local digest s (LdHero e) = s\<lparr>ld_hero := hero_step digest (ld_hero s) e\<rparr>"
| "landing_local digest s (LdLink to) = s"
| "landing_local digest s (LdTab i) = s\<lparr>ld_active := i\<rparr>"
| "landing_local digest s (LdFooter e) = s\<lparr>ld_credit := footer_step (ld_credit s) e\<rparr>"

definition landing_step :: "(byte list \<Rightarrow> byte list) \<Rightarrow> landing \<Rightarrow> landing_event \<Rightarrow> landing" where
  "landing_step digest s e =
     (landing_local digest s e)\<lparr>ld_router := landing_navigate e (ld_router s)\<rparr>"

definition landing_main :: "jstr \<Rightarrow> landing \<Rightarrow> landing_event node" where
  "landing_main docs s =
     El ''main'' []
      [map_node LdHero (hero_view docs (ld_hero s)),
       productPreview, sectionHowItWorks, sectionSurfaces, sectionAuthorityChain,
       sectionReceiptCenterpiece, sectionVerifyRecord, sectionGlobalAnchor,
       sectionBuiltForEngineers LdLink,
       sectionApiSnippet LdTab (ld_active s),
       sectionWhoItsFor, sectionOfflineGlobe, sectionOffline,
       finalCTA LdLink docs]"

definition landing_view :: "jstr \<Rightarrow> nat \<Rightarrow> landing \<Rightarrow> landing_event node" where
  "landing_view docs year s =
     El ''div'' []
      [map_node LdNav (nav_view (isAuthenticated (ld_auth s)) (th_hook (ld_theme s)) (ld_nav s)),
       landing_main docs s,
       map_node LdFooter (footer_view docs year (ld_credit s))]"

section \<open>The demonstration receipt\<close>

text \<open>
  What holds at any moment: at most one computation runs, and only while the card says so; a
  receipt is shown whenever the seal is, or is about to be; and the receipt shown can be checked
  from its own fields and is the scenario's.
\<close>

definition hero_inv :: "(byte list \<Rightarrow> byte list) \<Rightarrow> hero \<Rightarrow> bool" where
  "hero_inv digest s \<longleftrightarrow>
     he_wait s \<le> 1 \<and> (he_wait s = 1 \<longrightarrow> he_computing s)
     \<and> (he_sealed s \<or> 0 < he_timers s \<longrightarrow> he_liveEvent s \<noteq> None)
     \<and> (case he_liveEvent s of None \<Rightarrow> True | Some e \<Rightarrow>
          receipt_ok digest e \<and> le_prevHash e = genesis_hash \<and> le_payload e = default_payload SCENARIO)"

lemma scenario_receipt:
  "le_prevHash (computeLiveReceipt digest now r36 serial SCENARIO) = genesis_hash"
  "le_payload (computeLiveReceipt digest now r36 serial SCENARIO) = default_payload SCENARIO"
  by (simp_all add: computeLiveReceipt_def Let_def SCENARIO_def)

lemma hero_fires: "can_fire (hero_view docs s) e \<longleftrightarrow>
    e = HeNav (js ''/signup'') \<or> e = HeNew \<and> \<not> he_computing s"
  by (auto simp: hero_view_def hero_pitch_def hero_stats_def hero_receipt_def hero_rows_def blank_link_def)

lemma hero_inv_step:
  "hero_inv digest s \<Longrightarrow> can_fire (hero_view docs s) e \<or> hero_outside e \<Longrightarrow>
     hero_inv digest (hero_step digest s e)"
  by (cases e) (auto simp: hero_inv_def hero_fires generateReceipt_def generateReceipt_settled_def
      scenario_receipt computeLiveReceipt_ok)

interpretation her: screen hero_mount "hero_step digest" "hero_view docs" hero_outside "hero_inv digest"
  for digest docs
proof
  show "hero_inv digest hero_mount" by (simp add: hero_inv_def hero_mount_def generateReceipt_def)
qed (auto intro: hero_inv_step)

text \<open>C24. The demonstration on the landing page never shows "Verified" without a receipt, never runs two
  computations at once, and the digest and signature it shows always belong to a receipt of the
  advertised payout that can be checked from its own fields.
\<close>
theorem hero_shows_checkable:
  assumes "ui_reach hero_mount (hero_step digest) (hero_view docs) hero_outside s"
  shows "he_wait s \<le> 1 \<and> (hero_status s = js ''Verified'' \<longrightarrow> he_liveEvent s \<noteq> None)
    \<and> (\<forall>e. he_liveEvent s = Some e \<longrightarrow>
         receipt_ok digest e \<and> le_payload e = default_payload SCENARIO)"
proof -
  have "hero_inv digest s" using assms by (rule her.reach_inv)
  then show ?thesis by (auto simp: hero_inv_def hero_status_def js_def split: if_splits)
qed

theorem hero_shows_checkable_witness:
  "receipt_ok id (computeLiveReceipt id [] [] 123456 SCENARIO)"
proof -
  let ?s = "hero_step id hero_mount (HeComputed [] [] 123456)"
  have "ui_reach hero_mount (hero_step id) (hero_view []) hero_outside ?s"
    by (intro ui_outside ui_init) simp
  from hero_shows_checkable [OF this] show ?thesis
    by (simp add: hero_mount_def generateReceipt_def generateReceipt_settled_def)
qed

text \<open>A visit to the landing page ends with a verified demonstration: whatever the time and the random
  parts, once the computation and its timer are done the card reads "Verified", shows the
  computed receipt and accepts another request; after the button the same holds again.
\<close>
theorem hero_receipt_flow:
  "let s = run (hero_step digest) hero_mount [HeComputed n r k, HeTimer];
       s' = run (hero_step digest) s [HeNew, HeComputed n' r' k', HeTimer] in
   hero_status s = js ''Verified'' \<and> he_liveEvent s = Some (computeLiveReceipt digest n r k SCENARIO)
   \<and> can_fire (hero_view docs s) HeNew
   \<and> hero_status (hero_step digest s HeNew) = js ''Signing'' @ [0x2026]
   \<and> hero_status s' = js ''Verified''
   \<and> he_liveEvent s' = Some (computeLiveReceipt digest n' r' k' SCENARIO) \<and> he_timers s' = 0"
  by (simp add: Let_def hero_mount_def generateReceipt_def generateReceipt_settled_def hero_status_def
      hero_fires)

text \<open>A click on "new" within the 400 milliseconds after a receipt was computed makes the card claim
  "Verified" while the next receipt is still being computed: the timer of the first is not cancelled.
\<close>
theorem hero_verified_while_signing:
  "let s = hero_step digest hero_mount (HeComputed n r k);
       s' = run (hero_step digest) s [HeNew, HeTimer] in
   can_fire (hero_view docs s) HeNew \<and> he_wait s' = 1 \<and> he_computing s'
   \<and> hero_status s' = js ''Verified''
   \<and> he_liveEvent s' = Some (computeLiveReceipt digest n r k SCENARIO)"
  by (simp add: Let_def hero_mount_def generateReceipt_def generateReceipt_settled_def hero_status_def
      hero_fires)

text \<open>A computation that throws (a page outside a secure context has no \<open>crypto.subtle\<close>) is never
  recovered: the card says "Signing" and its button stays disabled for the rest of the visit.
\<close>
theorem hero_failure_sticks:
  assumes "ui_reach (hero_step digest hero_mount HeThrown) (hero_step digest) (hero_view docs) hero_outside s"
  shows "hero_status s = js ''Signing'' @ [0x2026] \<and> \<not> can_fire (hero_view docs s) HeNew"
proof -
  have "he_computing s \<and> \<not> he_sealed s \<and> he_wait s = 0 \<and> he_timers s = 0"
    using assms
  proof (induction rule: ui_reach.induct)
    case ui_init
    show ?case by (simp add: hero_mount_def generateReceipt_def)
  next
    case (ui_user s e)
    then show ?case by (auto simp: hero_fires)
  next
    case (ui_outside s e)
    then show ?case by (cases e) auto
  qed
  then show ?thesis by (simp add: hero_status_def hero_fires)
qed

theorem hero_failure_sticks_witness:
  "hero_status (run (hero_step id) (hero_step id hero_mount HeThrown) [HeComputed [] [] 1, HeTimer])
     = js ''Signing'' @ [0x2026]"
proof -
  have "ui_reach (hero_step id hero_mount HeThrown) (hero_step id) (hero_view []) hero_outside
      (run (hero_step id) (hero_step id hero_mount HeThrown) [HeComputed [] [] 1, HeTimer])"
    unfolding foldl.simps by (intro ui_outside ui_init) simp_all
  from hero_failure_sticks [OF this] show ?thesis by simp
qed

section \<open>Where the page's links and buttons lead\<close>

text \<open>The files of \<open>public/\<close>, which the host serves before it falls back to the application.\<close>

definition public_files :: "jstr list" where
  "public_files = map js
     [''/apple-touch-icon.png'', ''/console-analytics.png'', ''/console-dashboard.png'',
      ''/console-delegations.png'', ''/console-sessions.png'', ''/favicon.svg'',
      ''/github-profile.json'', ''/og.png'', ''/openapi.v3.json'', ''/site.webmanifest'',
      ''/dashboard-shots/activity-detail.png'', ''/dashboard-shots/activity.png'',
      ''/dashboard-shots/agents.png'', ''/dashboard-shots/analytics.png'',
      ''/dashboard-shots/apikeys.png'', ''/dashboard-shots/delegation-verify.png'',
      ''/dashboard-shots/delegations.png'', ''/dashboard-shots/overview.png'',
      ''/dashboard-shots/projects.png'', ''/dashboard-shots/receipt-detail.png'',
      ''/dashboard-shots/receipts.png'', ''/dashboard-shots/sessions.png'',
      ''/dashboard-shots/settings.png'', ''/dashboard-shots/verify-result.png'',
      ''/dashboard-shots/verify.png'', ''/social-shots/dashboard-overview.png'',
      ''/social-shots/landing-dark.png'', ''/social-shots/landing-light.png'']"

text \<open>
  A link leads somewhere when it is external, names a served file, or is a path that the
  application shows a page for, with a fragment that is the id of an element of the landing page.
\<close>

definition link_leads :: "jstr list \<Rightarrow> jstr \<Rightarrow> bool" where
  "link_leads ids h \<longleftrightarrow>
     prefix (js ''https://'') h \<or> h \<in> set public_files
     \<or> (let p = strip_hash h; f = drop (length p) h in
        app_render True False p \<noteq> NotFoundScreen
        \<and> (f = [] \<or> app_render True False p = LandingScreen \<and> tl f \<in> set ids))"

lemmas section_trees = productPreview_def sectionHowItWorks_def sectionSurfaces_def
  sectionAuthorityChain_def sectionReceiptCenterpiece_def sectionVerifyRecord_def
  sectionGlobalAnchor_def sectionBuiltForEngineers_def sectionApiSnippet_def sectionWhoItsFor_def
  sectionOfflineGlobe_def sectionOffline_def finalCTA_def

lemmas section_data = how_steps_def land_surfaces_def how_to_read_def sectors_def languages_def

lemma hero_values:
  "values_of ''id'' (hero_view docs s) = []" "values_of ''src'' (hero_view docs s) = []"
  "values_of ''href'' (hero_view docs s) = [js ''https://github.com/solari-sdk/solari-cookbook/'', docs]"
  by (cases "he_liveEvent s";
      simp add: hero_view_def hero_pitch_def hero_stats_def hero_receipt_def hero_rows_def)+

text \<open>What the sections refer to: ids of their elements, sources of their images, links.\<close>

lemma section_ids:
  "values_of ''id'' productPreview = [js ''product-preview'']"
  "values_of ''id'' sectionHowItWorks = [js ''how'']"
  "values_of ''id'' sectionSurfaces = [js ''surfaces'']"
  "values_of ''id'' sectionAuthorityChain = [js ''authority'']"
  "values_of ''id'' sectionReceiptCenterpiece = [js ''receipt'']"
  "values_of ''id'' sectionVerifyRecord = [js ''security'']"
  "values_of ''id'' sectionGlobalAnchor = [js ''global-anchor'']"
  "values_of ''id'' (sectionBuiltForEngineers nav) = [js ''developers'']"
  "values_of ''id'' (sectionApiSnippet pick active) = [js ''api-snippet'']"
  "values_of ''id'' sectionWhoItsFor = [js ''who'']"
  "values_of ''id'' sectionOfflineGlobe = [js ''offline-globe'']"
  "values_of ''id'' sectionOffline = [js ''offline'']"
  "values_of ''id'' (finalCTA nav docs) = []"
  by (simp_all add: section_trees section_data values_in_map)

lemma section_hrefs:
  "values_of ''href'' productPreview = []"
  "values_of ''href'' sectionHowItWorks = []"
  "values_of ''href'' sectionSurfaces = []"
  "values_of ''href'' sectionAuthorityChain = []"
  "values_of ''href'' sectionReceiptCenterpiece = []"
  "values_of ''href'' sectionVerifyRecord = []"
  "values_of ''href'' sectionGlobalAnchor = []"
  "values_of ''href'' (sectionBuiltForEngineers nav) = [to_url (js ''/api'')]"
  "values_of ''href'' (sectionApiSnippet pick active) = []"
  "values_of ''href'' sectionWhoItsFor = []"
  "values_of ''href'' sectionOfflineGlobe = []"
  "values_of ''href'' sectionOffline = []"
  "values_of ''href'' (finalCTA nav docs) = [docs]"
  by (simp_all add: section_trees section_data values_in_map)

lemma section_srcs:
  "values_of ''src'' productPreview =
     map js [''/console-dashboard.png'', ''/console-analytics.png'', ''/console-delegations.png'']"
  "values_of ''src'' sectionHowItWorks = []"
  "values_of ''src'' sectionSurfaces = []"
  "values_of ''src'' sectionAuthorityChain = [js ''/dashboard-shots/delegations.png'']"
  "values_of ''src'' sectionReceiptCenterpiece = [js ''/dashboard-shots/receipts.png'']"
  "values_of ''src'' sectionVerifyRecord = [js ''/dashboard-shots/verify.png'']"
  "values_of ''src'' sectionGlobalAnchor = []"
  "values_of ''src'' (sectionBuiltForEngineers nav) = [js ''/console-analytics.png'']"
  "values_of ''src'' (sectionApiSnippet pick active) = []"
  "values_of ''src'' sectionWhoItsFor = []"
  "values_of ''src'' sectionOfflineGlobe = [js ''/dashboard-shots/overview.png'']"
  "values_of ''src'' sectionOffline = [js ''/dashboard-shots/verify.png'']"
  "values_of ''src'' (finalCTA nav docs) = []"
  by (simp_all add: section_trees section_data values_in_map)

lemma section_fires:
  "\<not> can_fire productPreview e" "\<not> can_fire sectionHowItWorks e" "\<not> can_fire sectionSurfaces e"
  "\<not> can_fire sectionAuthorityChain e" "\<not> can_fire sectionReceiptCenterpiece e"
  "\<not> can_fire sectionVerifyRecord e" "\<not> can_fire sectionGlobalAnchor e"
  "can_fire (sectionBuiltForEngineers nav) e \<longleftrightarrow> e = nav (js ''/api'')"
  "\<not> can_fire sectionWhoItsFor e" "\<not> can_fire sectionOfflineGlobe e" "\<not> can_fire sectionOffline e"
  "can_fire (finalCTA nav docs) e \<longleftrightarrow> e = nav (js ''/signup'') \<or> e = nav (js ''/contact'')"
  by (auto simp: section_trees section_data fires_in_map)

lemma snippet_fires:
  "can_fire (sectionApiSnippet pick active) e \<longleftrightarrow> (\<exists>i < length languages. e = pick i)"
  by (auto simp: sectionApiSnippet_def fires_in_map)

definition landing_ids :: "jstr list" where
  "landing_ids = map js
     [''product-preview'', ''how'', ''surfaces'', ''authority'', ''receipt'', ''security'',
      ''global-anchor'', ''developers'', ''api-snippet'', ''who'', ''offline-globe'', ''offline'']"

lemma landing_main_ids: "values_of ''id'' (landing_main docs s) = landing_ids"
  by (simp add: landing_main_def section_ids hero_values landing_ids_def)

lemma landing_hrefs:
  "set (values_of ''href'' (landing_view docs year s)) \<subseteq>
     set nav_hrefs \<union> set footer_hrefs
     \<union> {docs, js ''https://github.com/solari-sdk/solari-cookbook/''}"
  using footer_view_hrefs [of docs year "ld_credit s"]
  by (auto simp: landing_view_def landing_main_def nav_view_hrefs section_hrefs hero_values
      nav_hrefs_def to_url_def js_def)

lemma landing_view_ids: "set landing_ids \<subseteq> set (values_of ''id'' (landing_view docs year s))"
  by (auto simp: landing_view_def landing_main_ids)

lemma link_leads_mono: "link_leads ids h \<Longrightarrow> set ids \<subseteq> set ids' \<Longrightarrow> link_leads ids' h"
  by (auto simp: link_leads_def Let_def)

text \<open>The page each button or routed link of the landing page leads to.\<close>

definition site_pages :: "(string \<times> app_screen) list" where
  "site_pages =
     [(''/'', LandingScreen), (''/api'', ApiReferenceScreen),
      (''/dashboard'', DashboardScreen (js ''overview'')), (''/login'', LoginScreen),
      (''/signup'', SignupScreen), (''/contact'', ContactScreen), (''/pricing'', PricingScreen),
      (''/security'', SecurityScreen)]"

lemma site_pages_shown:
  "list_all (\<lambda>(p, scr). app_render True False (js p) = scr \<and> to_url (js p) = js p \<and> 35 \<notin> set (js p))
     site_pages"
  by code_simp

lemma page_link_leads: "(p, scr) \<in> set site_pages \<Longrightarrow> scr \<noteq> NotFoundScreen \<Longrightarrow> link_leads ids (js p)"
  using site_pages_shown by (force simp: list_all_iff link_leads_def Let_def strip_hash_id)

lemma section_link_leads: "js f \<in> set ids \<Longrightarrow> link_leads ids (js (''/#'' @ f))"
proof -
  have "strip_hash (js (''/#'' @ f)) = js ''/''" "tl (drop 1 (js (''/#'' @ f))) = js f"
    by (simp_all add: strip_hash_def js_def)
  moreover have "app_render True False (js ''/'') = LandingScreen"
    using site_pages_shown by (simp add: site_pages_def)
  ultimately show "js f \<in> set ids \<Longrightarrow> ?thesis" by (simp add: link_leads_def Let_def)
qed

lemma external_link_leads: "prefix ''https://'' h \<Longrightarrow> link_leads ids (js h)"
proof -
  assume "prefix ''https://'' h"
  then have "prefix (js ''https://'') (js h)" unfolding js_def by (rule map_mono_prefix)
  then show ?thesis by (simp add: link_leads_def)
qed

lemma shared_links_lead:
  "list_all (\<lambda>h. h = js ''/openapi.json'' \<or> link_leads landing_ids h)
     (nav_hrefs @ footer_hrefs @ [js ''https://github.com/solari-sdk/solari-cookbook/''])"
proof -
  have "link_leads landing_ids (js p)" if "p \<in> fst ` set site_pages" for p
  proof -
    obtain scr where m: "(p, scr) \<in> set site_pages" using \<open>p \<in> fst ` set site_pages\<close> by auto
    moreover have "scr \<noteq> NotFoundScreen" using m by (auto simp: site_pages_def)
    ultimately show ?thesis by (rule page_link_leads)
  qed
  moreover have "link_leads landing_ids (js (''/#'' @ f))"
    if "f \<in> {''how'', ''who'', ''developers'', ''authority'', ''receipt''}" for f
    by (rule section_link_leads) (use that in \<open>auto simp: landing_ids_def\<close>)
  from this [of "''how''"] this [of "''who''"] this [of "''developers''"] this [of "''authority''"]
    this [of "''receipt''"]
  have "link_leads landing_ids (js ''/#how'')" "link_leads landing_ids (js ''/#who'')"
    "link_leads landing_ids (js ''/#developers'')" "link_leads landing_ids (js ''/#authority'')"
    "link_leads landing_ids (js ''/#receipt'')" by simp_all
  ultimately show ?thesis
    by (simp add: nav_hrefs_def navLinks_def footer_hrefs_def external_link_leads site_pages_def)
qed

lemma app_render_steady:
  "app_route p \<noteq> [] \<Longrightarrow> app_route p \<noteq> js ''/'' \<Longrightarrow> \<not> prefix (js ''/dashboard'') (app_route p) \<Longrightarrow>
     app_render d l p = app_render True False p"
  by (simp add: app_render_def Let_def)

lemma missing_pages:
  "list_all (\<lambda>p. app_route p \<noteq> [] \<and> app_route p \<noteq> js ''/'' \<and> \<not> prefix (js ''/dashboard'') (app_route p)
     \<and> app_render True False p = NotFoundScreen) [js ''/openapi.json'', js ''/docs'']"
  by code_simp

lemma missing_page: "p \<in> {js ''/openapi.json'', js ''/docs''} \<Longrightarrow> app_render d l p = NotFoundScreen"
  using missing_pages app_render_steady [of p d l] by auto

text \<open>C23. Every link of the landing page, whatever its state, leads somewhere: to another site, to a served
  file, to a page the application shows, or to a section that is on the page, except the link to
  the documentation, whose address is a setting, and the link to \<open>/openapi.json\<close>. Every image of
  the page is a served file.
\<close>
theorem landing_links_lead:
  "let v = landing_view docs year s in
   list_all (\<lambda>h. h = docs \<or> h = js ''/openapi.json'' \<or> link_leads (values_of ''id'' v) h)
     (values_of ''href'' v)
   \<and> list_all (\<lambda>i. i \<in> set public_files) (values_of ''src'' v)"
proof -
  have "list_all (\<lambda>i. i \<in> set public_files) (values_of ''src'' (landing_view docs year s))"
    by (simp add: landing_view_def landing_main_def hero_values section_srcs public_files_def)
  moreover have "h = docs \<or> h = js ''/openapi.json'' \<or> link_leads landing_ids h"
    if "h \<in> set (values_of ''href'' (landing_view docs year s))" for h
    using that landing_hrefs [of docs year s] shared_links_lead by (auto simp: list_all_iff)
  then have "list_all (\<lambda>h. h = docs \<or> h = js ''/openapi.json''
        \<or> link_leads (values_of ''id'' (landing_view docs year s)) h)
      (values_of ''href'' (landing_view docs year s))"
    using link_leads_mono [OF _ landing_view_ids] by (fastforce simp: list_all_iff)
  ultimately show ?thesis by (simp add: Let_def)
qed

text \<open>The footer's link to the OpenAPI specification is dead: no file of that name is served (the file
  is called \<open>openapi.v3.json\<close>), and the application answers the address with its not-found page.
\<close>
theorem openapi_link_dead:
  "js ''/openapi.json'' \<in> set (values_of ''href'' (landing_view docs year s))
   \<and> js ''/openapi.json'' \<notin> set public_files
   \<and> app_render splashDone isLoading (js ''/openapi.json'') = NotFoundScreen"
proof -
  have "app_render splashDone isLoading (js ''/openapi.json'') = NotFoundScreen"
    by (rule missing_page) simp
  then show ?thesis
    by (simp add: landing_view_def footer_view_def footer_columns_def public_files_def)
qed

text \<open>Without the settings for the documentation and for the API's address, which the API client does
  without, the documentation link is the console's own \<open>/docs\<close>, a page that does not exist.
\<close>
theorem docs_link_unset:
  "docsUrl None None = js ''/docs''
   \<and> app_render splashDone isLoading (docsUrl None None) = NotFoundScreen
   \<and> link_leads ids (docsUrl None (Some (js ''https://api.babit.dev'')))"
proof -
  have "app_render splashDone isLoading (js ''/docs'') = NotFoundScreen"
    by (rule missing_page) simp
  moreover have "docsUrl None None = js ''/docs''"
    by (simp add: docsUrl_def or_str_def)
  moreover have "link_leads ids (docsUrl None (Some (js ''https://api.babit.dev'')))"
    by (simp add: link_leads_def docsUrl_def or_str_def js_def)
  ultimately show ?thesis by simp
qed

lemma landing_targets:
  assumes "can_fire (landing_view docs year s) e" and "landing_target e = Some p"
  shows "\<exists>q \<in> fst ` set site_pages. p = js q"
proof -
  from assms(1) consider
      (nav) m where "e = LdNav m" "can_fire (nav_view (isAuthenticated (ld_auth s)) (th_hook (ld_theme s)) (ld_nav s)) m"
    | (main) "can_fire (landing_main docs s) e"
    | (foot) m where "e = LdFooter m" "can_fire (footer_view docs year (ld_credit s)) m"
    by (auto simp: landing_view_def can_fire_map)
  then show ?thesis
  proof cases
    case nav
    with assms(2) nav_targets show ?thesis by (fastforce simp: site_pages_def)
  next
    case main
    with assms(2) show ?thesis
      by (auto simp: landing_main_def can_fire_map hero_fires section_fires snippet_fires site_pages_def)
  next
    case foot
    with assms(2) footer_targets show ?thesis by (fastforce simp: site_pages_def)
  qed
qed

lemma navigate_shows:
  assumes "\<exists>q \<in> fst ` set site_pages. p = js q"
  shows "\<exists>scr \<in> snd ` set site_pages. app_render True False (getPath (navigate p r)) = scr"
proof -
  obtain q scr where q: "(q, scr) \<in> set site_pages" "p = js q" using assms by force
  then have shown: "app_render True False p = scr" "to_url p = p" "35 \<notin> set p"
    using site_pages_shown by (auto simp: list_all_iff)
  then have "location (navigate p r) = p" using hist.nav_at [OF shown(3)] by simp
  moreover have "p \<noteq> []" using shown(2) by (auto simp: to_url_def)
  ultimately have "getPath (navigate p r) = p" by (simp add: getPath_def or_str_Some)
  with shown(1) q(1) show ?thesis by force
qed

text \<open>Every button and routed link of the landing page shows the page it is for: after the step, the
  application's choice of screen for the new address is one of the eight public pages.
\<close>
theorem landing_buttons_lead:
  assumes "can_fire (landing_view docs year s) e" and "landing_target e = Some p"
  shows "\<exists>scr \<in> snd ` set site_pages.
    app_render True False (getPath (ld_router (landing_step digest s e))) = scr"
  using navigate_shows [OF landing_targets [OF assms]] assms(2)
  by (simp add: landing_step_def landing_navigate_def)

definition demo_landing :: landing where
  "demo_landing = landing_mount (auth_mount demo_client) (theme_boot None False) (router_start (js ''/''))"

theorem landing_buttons_lead_witness:
  "\<exists>scr \<in> snd ` set site_pages.
     app_render True False (getPath (ld_router (landing_step id demo_landing (LdHero (HeNav (js ''/signup''))))))
       = scr"
proof -
  have "can_fire (landing_view [] 2026 demo_landing) (LdHero (HeNav (js ''/signup'')))"
    by (simp add: landing_view_def landing_main_def can_fire_map hero_fires)
  from landing_buttons_lead [OF this] show ?thesis by simp
qed

text \<open>The example shown is always one of the languages.\<close>

lemma tab_in_range:
  "can_fire (landing_view docs year s) e \<Longrightarrow> ld_active s < length languages \<Longrightarrow>
     ld_active (landing_step digest s e) < length languages"
  by (cases e) (auto simp: landing_step_def landing_view_def landing_main_def can_fire_map section_fires snippet_fires)

end
