(* ===== verification/Site.thy ===== *)
theory Site
  imports Landing
begin

text \<open>
  The other public pages: \<open>PricingPage.tsx\<close>, \<open>SecurityPage.tsx\<close>, \<open>ContactPage.tsx\<close>,
  \<open>ApiReference.tsx\<close> and \<open>components/SplashScreen.tsx\<close>. The first three share a frame, the
  navigation bar above and the footer below, with the state of both.
\<close>

section \<open>Pricing\<close>

record plan =
  pl_name :: string
  pl_price :: string
  pl_body :: string
  pl_features :: "string list"
  pl_cta :: string
  pl_href :: string

definition PLANS :: "plan list" where
  "PLANS =
     [\<lparr>pl_name = ''Developer'', pl_price = ''Free'', pl_body = ''For solo builders and evaluation.'',
       pl_features = [''1 project'', ''1,000 events / month'', ''Full API access'', ''Community support''],
       pl_cta = ''Get started'', pl_href = ''/signup''\<rparr>,
      \<lparr>pl_name = ''Team'', pl_price = ''$99 / mo'', pl_body = ''For teams shipping agent pipelines.'',
       pl_features = [''10 projects'', ''100,000 events / month'', ''Audit log export'', ''Email support''],
       pl_cta = ''Start trial'', pl_href = ''/signup''\<rparr>,
      \<lparr>pl_name = ''Enterprise'', pl_price = ''Custom'',
       pl_body = ''For regulated and enterprise deployments.'',
       pl_features = [''Unlimited projects'', ''Custom event volume'', ''SSO / SAML'', ''Dedicated support'',
         ''On-prem option''],
       pl_cta = ''Contact us'', pl_href = ''/contact''\<rparr>]"

definition plan_card :: "(jstr \<Rightarrow> 'e) \<Rightarrow> plan \<Rightarrow> 'e node" where
  "plan_card nav p =
     flush_card ''default''
      [El ''div'' []
        [El ''h3'' [] [tx (pl_name p)], El ''p'' [] [tx (pl_price p)], El ''p'' [] [tx (pl_body p)],
         El ''ul'' []
          (map (\<lambda>f. El ''li'' [] [El ''span'' [] [icon ''IconCheck''], El ''span'' [] [tx f]])
            (pl_features p)),
         link nav (js (pl_href p)) [Flag ''highlight'' (pl_name p = ''Team'')] [tx (pl_cta p)]]]"

definition pricing_main :: "(jstr \<Rightarrow> 'e) \<Rightarrow> 'e node" where
  "pricing_main nav =
    El ''main'' []
    [land_section (Some (js ''pricing'')) ''base'' ''default''
     [section_header (Some (js ''Pricing'')) [tx ''Simple, honest pricing.''] (Some
       (js ''Start free. Upgrade when you need more. Cancel anytime.'')) ''center'',
      El ''div'' []
      [card_grid 3
       (map (plan_card nav) PLANS)]]]"

section \<open>Security\<close>

definition security_controls :: "(string \<times> string \<times> string) list" where
  "security_controls =
     [(''IconLock'', ''Key custody'',
       ''Notary signing keys are generated server-side and never exposed to the browser. API keys are hashed with SHA-256 before storage. JWTs are issued in httpOnly cookies, not localStorage.''),
      (''IconActivity'', ''Audit logs'',
       ''Every event is append-only. Each carries a content hash, a notary signature, and a Merkle inclusion proof. The ledger cannot be edited without breaking the chain.''),
      (''IconShieldCheck'', ''Tamper evidence'',
       ''Ed25519 signatures and Merkle roots anchor every batch. Any modification to a past event invalidates the root and fails verification.'')]"

definition compliance_status :: "(string \<times> string) list" where
  "compliance_status =
     [(''SOC 2 Type II'', ''In progress''), (''Audit log export'', ''Available''),
      (''httpOnly cookie auth'', ''Available''), (''Ed25519 signatures'', ''Available''),
      (''Merkle anchoring'', ''Available''), (''SSO / SAML'', ''Planned'')]"

definition security_main :: "(jstr \<Rightarrow> 'e) \<Rightarrow> 'e node" where
  "security_main nav =
    El ''main'' []
    [land_section (Some (js ''security-top'')) ''base'' ''default''
     [section_header (Some (js ''Security & compliance''))
       [tx ''Cryptographically bound. Independently auditable.''] (Some
       (js ''Babit is built on signatures, Merkle roots, and delegation chains. Here is what is in place today and what is in progress.'')) ''center''],
     land_section (Some (js ''security-controls'')) ''base'' ''default''
     [card_grid 3
      (map (\<lambda>(ic, title, body). flush_card ''default''
         [El ''div'' []
           [El ''div'' [] [El ''span'' [] [icon ic], El ''h3'' [] [tx title]], El ''p'' []
             [tx body]]])
         security_controls)],
     land_section (Some (js ''security-status'')) ''raised'' ''default''
     [section_header (Some (js ''Compliance status''))
       [tx ''What is ready, what is next.''] None ''center'',
      El ''div'' []
      [El ''div'' []
       (map (\<lambda>(label, state). El ''div'' []
          [El ''span'' [] [tx label],
           El ''span'' [Flag ''available'' (state = ''Available'')]
             [tx state]]) compliance_status)]],
     land_section (Some (js ''security-cta'')) ''base'' ''default''
     [El ''div'' []
      [El ''h3'' [] [tx ''Need a security review?''],
       El ''p'' []
       [tx ''We can share architecture diagrams, threat models, and the signing key custody flow.''],
       link nav (js ''/contact'') [] [icon ''IconCheck'',
        tx ''Contact us'']]]]"

section \<open>Contact\<close>

record contact_page =
  ct_submitted :: bool
  ct_email :: jstr
  ct_message :: jstr

datatype contact_event = CtSubmit | CtEmail jstr | CtMessage jstr

definition contact_mount :: contact_page where
  "contact_mount = \<lparr>ct_submitted = False, ct_email = [], ct_message = []\<rparr>"

text \<open>Submitting shows the confirmation; nothing is sent.\<close>

fun contact_step :: "contact_page \<Rightarrow> contact_event \<Rightarrow> contact_page" where
  "contact_step s CtSubmit = s\<lparr>ct_submitted := True\<rparr>"
| "contact_step s (CtEmail v) = s\<lparr>ct_email := v\<rparr>"
| "contact_step s (CtMessage v) = s\<lparr>ct_message := v\<rparr>"

definition contact_form :: "contact_page \<Rightarrow> contact_event node" where
  "contact_form s =
     El ''form'' [OnSubmit CtSubmit]
      [field (js ''Email'') [] None None
        (text_input [Attr ''type'' (js ''email''), Flag ''required'' True, Attr ''value'' (ct_email s),
           OnChange CtEmail, Attr ''placeholder'' (js ''you@company.com'')]),
       field (js ''Message'') [] None None
        (text_area [Flag ''required'' True, Attr ''value'' (ct_message s), OnChange CtMessage,
           Attr ''placeholder'' (js ''What do you need?''), Attr ''rows'' (js ''5'')]),
       button ''brand'' ''lg'' False False [Attr ''type'' (js ''submit'')] [tx ''Send message'']]"

definition contact_main :: "contact_page \<Rightarrow> contact_event node" where
  "contact_main s =
     El ''main'' []
      [land_section (Some (js ''contact'')) ''base'' ''default''
        [section_header (Some (js ''Contact'')) [tx ''Talk to us.'']
          (Some (js ''Questions about security, pricing, or deployment. We respond within one business day.''))
          ''center'',
         El ''div'' []
          [if ct_submitted s
           then El ''div'' [] [El ''h3'' [] [tx ''Thanks.''],
             El ''p'' [] [tx ''We will get back to you shortly.'']]
           else contact_form s]]]"

section \<open>API reference\<close>

text \<open>
  The viewer is a package loaded on demand. The specification is fetched; when the fetch fails,
  or its answer is not JSON, the copy in the bundle is imported. \<open>null\<close> and an answer that is not
  truthy count as no specification.
\<close>

record api_reference =
  ar_Scalar :: bool
  ar_spec :: jsval
  ar_fetching :: bool
  ar_importing :: bool

datatype api_ref_event = ArScalar | ArFetched jsval | ArFailed | ArImported jsval | ArNav jstr

definition api_ref_mount :: api_reference where
  "api_ref_mount = \<lparr>ar_Scalar = False, ar_spec = JNull, ar_fetching = True, ar_importing = False\<rparr>"

fun api_ref_step :: "api_reference \<Rightarrow> api_ref_event \<Rightarrow> api_reference" where
  "api_ref_step s ArScalar = s\<lparr>ar_Scalar := True\<rparr>"
| "api_ref_step s (ArFetched v) =
     (if ar_fetching s then s\<lparr>ar_spec := v, ar_fetching := False\<rparr> else s)"
| "api_ref_step s ArFailed =
     (if ar_fetching s then s\<lparr>ar_fetching := False, ar_importing := True\<rparr> else s)"
| "api_ref_step s (ArImported v) =
     (if ar_importing s then s\<lparr>ar_spec := v, ar_importing := False\<rparr> else s)"
| "api_ref_step s (ArNav to) = s"

definition api_ref_shown :: "api_reference \<Rightarrow> bool" where
  "api_ref_shown s \<longleftrightarrow> ar_Scalar s \<and> js_truthy (ar_spec s)"

definition api_ref_view :: "api_reference \<Rightarrow> api_ref_event node" where
  "api_ref_view s =
     El ''div'' [Attr ''id'' (js ''main-content''), Attr ''tabIndex'' (js ''-1'')]
      [El ''header'' []
        [link ArNav (js ''/'') []
          [icon ''BabitLogo'', El ''span'' [] [tx ''babit''], El ''span'' [] [tx ''/ API'']],
         link ArNav (js ''/'') [] [tx ''Back to babit'']],
       if api_ref_shown s then icon ''Scalar'' else El ''div'' [] [El ''div'' [] []]]"

section \<open>Splash screen\<close>

definition splash_view :: "'e node" where
  "splash_view =
     El ''div'' []
      [El ''div'' [] [icon ''EvidencePipeline''],
       El ''div'' []
        [icon ''BabitLogo'',
         El ''div'' []
          [El ''h1'' [] [tx ''babit''],
           El ''p'' [] [tx ''Built by TheBraveByte. Inspired by the Solari team.'']],
         El ''div'' [] []]]"

section \<open>The frame of a public page\<close>

record site_frame =
  sf_auth :: auth
  sf_theme :: theme_state
  sf_nav :: nav_bar
  sf_credit :: bool
  sf_router :: router

datatype 'e frame_event = FrNav nav_event | FrFooter footer_event | FrLink jstr | FrPage 'e

fun frame_target :: "'e frame_event \<Rightarrow> jstr option" where
  "frame_target (FrNav e) = nav_target e"
| "frame_target (FrFooter e) = footer_target e"
| "frame_target (FrLink to) = Some to"
| "frame_target (FrPage e) = None"

definition frame_navigate :: "'e frame_event \<Rightarrow> site_frame \<Rightarrow> site_frame" where
  "frame_navigate e s = (case frame_target e of
     None \<Rightarrow> s | Some to \<Rightarrow> s\<lparr>sf_router := navigate to (sf_router s)\<rparr>)"

fun frame_local :: "site_frame \<Rightarrow> 'e frame_event \<Rightarrow> site_frame" where
  "frame_local s (FrNav e) = s\<lparr>sf_nav := nav_step (sf_nav s) e, sf_theme := nav_theme (sf_theme s) e\<rparr>"
| "frame_local s (FrFooter e) = s\<lparr>sf_credit := footer_step (sf_credit s) e\<rparr>"
| "frame_local s (FrLink to) = s"
| "frame_local s (FrPage e) = s"

definition frame_step :: "site_frame \<Rightarrow> 'e frame_event \<Rightarrow> site_frame" where
  "frame_step s e = frame_navigate e (frame_local s e)"

definition frame_view :: "jstr \<Rightarrow> nat \<Rightarrow> site_frame \<Rightarrow> 'e frame_event node \<Rightarrow> 'e frame_event node" where
  "frame_view docs year s main =
     El ''div'' []
      [map_node FrNav (nav_view (isAuthenticated (sf_auth s)) (th_hook (sf_theme s)) (sf_nav s)),
       main,
       map_node FrFooter (footer_view docs year (sf_credit s))]"

definition pricing_page :: "jstr \<Rightarrow> nat \<Rightarrow> site_frame \<Rightarrow> 'e frame_event node" where
  "pricing_page docs year s = frame_view docs year s (pricing_main FrLink)"

definition security_page :: "jstr \<Rightarrow> nat \<Rightarrow> site_frame \<Rightarrow> 'e frame_event node" where
  "security_page docs year s = frame_view docs year s (security_main FrLink)"

definition contact_view :: "jstr \<Rightarrow> nat \<Rightarrow> site_frame \<Rightarrow> contact_page \<Rightarrow> contact_event frame_event node" where
  "contact_view docs year s c = frame_view docs year s (map_node FrPage (contact_main c))"

section \<open>Links and buttons of the public pages\<close>

lemma values_of_field [simp]: "k \<in> {''href'', ''src''} \<Longrightarrow> values_of k (field l [] None None n) = values_of k n"
  by (cases n) (auto simp: field_def Let_def only_if_def)

lemma main_hrefs:
  "set (values_of ''href'' (pricing_main nav)) = {js ''/signup'', js ''/contact''}"
  "set (values_of ''href'' (security_main nav)) = {js ''/contact''}"
  "set (values_of ''href'' (contact_main c)) = {}"
  by (auto simp: pricing_main_def PLANS_def plan_card_def values_in_map security_main_def
      security_controls_def compliance_status_def contact_main_def contact_form_def to_url_def js_def
      text_input_def text_area_def button_def)

lemma main_fires:
  "can_fire (pricing_main nav) e \<longleftrightarrow> e = nav (js ''/signup'') \<or> e = nav (js ''/contact'')"
  "can_fire (security_main nav) e \<longleftrightarrow> e = nav (js ''/contact'')"
  by (auto simp: pricing_main_def PLANS_def plan_card_def fires_in_map security_main_def
      security_controls_def compliance_status_def)

lemma contact_fires: "can_fire (contact_main c) e \<longleftrightarrow>
    \<not> ct_submitted c \<and> (e = CtSubmit \<or> (\<exists>v. e = CtEmail v) \<or> (\<exists>v. e = CtMessage v))"
  by (auto simp: contact_main_def contact_form_def)

text \<open>Once "Thanks." is shown the form is gone, and what was typed stays unsent in the state.\<close>

lemma contact_thanks_final: "ct_submitted c \<Longrightarrow> \<not> can_fire (contact_main c) e"
  by (simp add: contact_fires)

lemma frame_hrefs:
  "set (values_of ''href'' (frame_view docs year s main)) \<subseteq>
     set nav_hrefs \<union> set footer_hrefs \<union> {docs, js ''https://github.com/solari-sdk/solari-cookbook/''}
     \<union> set (values_of ''href'' main)"
  using footer_view_hrefs [of docs year "sf_credit s"]
  by (auto simp: frame_view_def nav_view_hrefs)

definition public_page :: "jstr \<Rightarrow> nat \<Rightarrow> site_frame \<Rightarrow> contact_page \<Rightarrow> app_screen \<Rightarrow>
    contact_event frame_event node option" where
  "public_page docs year s c scr = (case scr of
     PricingScreen \<Rightarrow> Some (pricing_page docs year s)
   | SecurityScreen \<Rightarrow> Some (security_page docs year s)
   | ContactScreen \<Rightarrow> Some (contact_view docs year s c)
   | _ \<Rightarrow> None)"

lemmas public_page_defs = public_page_def pricing_page_def security_page_def contact_view_def

lemma page_paths_lead:
  "link_leads ids (js ''/signup'')" "link_leads ids (js ''/contact'')"
  by (rule page_link_leads; force simp: site_pages_def)+

lemma public_page_frame:
  assumes "public_page docs year s c scr = Some v"
  obtains main where "v = frame_view docs year s main"
    "set (values_of ''href'' main) \<subseteq> {js ''/signup'', js ''/contact''}"
    "\<And>e p. can_fire main e \<Longrightarrow> frame_target e = Some p \<Longrightarrow> p = js ''/signup'' \<or> p = js ''/contact''"
proof -
  from assms consider "v = frame_view docs year s (pricing_main FrLink)"
    | "v = frame_view docs year s (security_main FrLink)"
    | "v = frame_view docs year s (map_node FrPage (contact_main c))"
    by (auto simp: public_page_defs split: app_screen.splits)
  then show ?thesis
    by cases (erule that; auto simp: main_hrefs main_fires can_fire_map)+
qed

text \<open>Every link of the pricing, security and contact pages leads somewhere, sections of the landing
  page included, with the same two exceptions as on the landing page.
\<close>
theorem public_links_lead:
  assumes "public_page docs year s c scr = Some v"
  shows "list_all (\<lambda>h. h = docs \<or> h = js ''/openapi.json'' \<or> link_leads landing_ids h)
    (values_of ''href'' v)"
proof -
  obtain main where v: "v = frame_view docs year s main"
    and m: "set (values_of ''href'' main) \<subseteq> {js ''/signup'', js ''/contact''}"
    using assms by (rule public_page_frame)
  have *: "link_leads landing_ids h" if "h \<in> set (values_of ''href'' main)" for h
    using that m page_paths_lead by auto
  have **: "h = js ''/openapi.json'' \<or> link_leads landing_ids h"
    if "h \<in> set (nav_hrefs @ footer_hrefs @ [js ''https://github.com/solari-sdk/solari-cookbook/''])" for h
    using that shared_links_lead unfolding list_all_iff by blast
  have "h = docs \<or> h = js ''/openapi.json'' \<or> link_leads landing_ids h"
    if "h \<in> set (values_of ''href'' v)" for h
  proof -
    have "h \<in> set (nav_hrefs @ footer_hrefs @ [js ''https://github.com/solari-sdk/solari-cookbook/''])
        \<or> h = docs \<or> h \<in> set (values_of ''href'' main)"
      using that subsetD [OF frame_hrefs [of docs year s main]] unfolding v by auto
    then show ?thesis using * ** by blast
  qed
  then show ?thesis by (simp add: list_all_iff)
qed

definition demo_frame :: site_frame where
  "demo_frame = \<lparr>sf_auth = auth_mount demo_client, sf_theme = theme_boot None False,
     sf_nav = nav_mount, sf_credit = False, sf_router = router_start (js ''/pricing'')\<rparr>"

theorem public_links_lead_witness:
  "list_all (\<lambda>h. h = js ''/docs'' \<or> h = js ''/openapi.json'' \<or> link_leads landing_ids h)
     (values_of ''href'' (pricing_page (js ''/docs'') 2026 demo_frame :: contact_event frame_event node))"
  by (rule public_links_lead [of _ _ _ contact_mount PricingScreen]) (simp add: public_page_def)

text \<open>Every button and routed link of these pages shows the page it is for.
\<close>
theorem public_buttons_lead:
  assumes "public_page docs year s c scr = Some v" and "can_fire v e" and "frame_target e = Some p"
  shows "\<exists>scr' \<in> snd ` set site_pages.
    app_render True False (getPath (sf_router (frame_step s e))) = scr'"
proof -
  have "\<exists>q \<in> fst ` set site_pages. p = js q"
  proof -
    obtain main where v: "v = frame_view docs year s main"
      and "set (values_of ''href'' main) \<subseteq> {js ''/signup'', js ''/contact''}"
      and m: "\<And>e p. can_fire main e \<Longrightarrow> frame_target e = Some p \<Longrightarrow>
        p = js ''/signup'' \<or> p = js ''/contact''"
      using public_page_frame [OF assms(1)] by metis
    from assms(2) consider
        (nav) n where "e = FrNav n"
          "can_fire (nav_view (isAuthenticated (sf_auth s)) (th_hook (sf_theme s)) (sf_nav s)) n"
      | (main) "can_fire main e"
      | (foot) n where "e = FrFooter n" "can_fire (footer_view docs year (sf_credit s)) n"
      by (auto simp: v frame_view_def can_fire_map)
    then show ?thesis
    proof cases
      case nav
      with assms(3) nav_targets show ?thesis by (fastforce simp: site_pages_def)
    next
      case main
      with m assms(3) show ?thesis by (fastforce simp: site_pages_def)
    next
      case foot
      with assms(3) footer_targets show ?thesis by (fastforce simp: site_pages_def)
    qed
  qed
  moreover have "sf_router (frame_step s e) = navigate p (sf_router s)"
    using assms(3) by (cases e) (auto simp: frame_step_def frame_navigate_def)
  ultimately show ?thesis using navigate_shows by metis
qed

theorem public_buttons_lead_witness:
  "\<exists>scr' \<in> snd ` set site_pages.
     app_render True False (getPath (sf_router (frame_step demo_frame
       (FrLink (js ''/signup'') :: contact_event frame_event)))) = scr'"
proof -
  have "can_fire (pricing_page [] 2026 demo_frame :: contact_event frame_event node)
      (FrLink (js ''/signup''))"
    by (simp add: pricing_page_def frame_view_def main_fires)
  then show ?thesis
    by (rule public_buttons_lead [of _ _ _ contact_mount PricingScreen, rotated])
       (simp_all add: public_page_def)
qed

text \<open>A section link followed from another page, which loads the landing page afresh, finds no section:
  at the load the splash screen is shown, which has no element with an id, and the sections
  appear only when its timer has run; no code scrolls to the section then.
\<close>
theorem section_link_behind_splash:
  "let h = js ''/#how'' in
   h \<in> set (values_of ''href'' (pricing_page docs year s))
   \<and> app_render False isLoading (strip_hash h) = SplashScreen
   \<and> values_of ''id'' splash_view = []
   \<and> app_render True isLoading (strip_hash h) = LandingScreen
   \<and> js ''how'' \<in> set (values_of ''id'' (landing_view docs year l))"
proof -
  have root: "strip_hash (js ''/#how'') = js ''/''" by (simp add: strip_hash_def js_def)
  have "app_render False isLoading (js ''/'') = SplashScreen" "app_render True isLoading (js ''/'') = LandingScreen"
    by (simp_all add: app_render_def app_route_def Let_def js_def)
  moreover have "js ''/#how'' \<in> set (values_of ''href'' (pricing_page docs year s))"
    by (simp add: pricing_page_def frame_view_def footer_view_def footer_columns_def)
  moreover have "values_of ''id'' splash_view = []" by (simp add: splash_view_def)
  moreover have "js ''how'' \<in> set (values_of ''id'' (landing_view docs year l))"
    using landing_view_ids [of docs year l] by (auto simp: landing_ids_def)
  ultimately show ?thesis unfolding Let_def root by blast
qed

section \<open>The API reference appears\<close>

definition api_ref_inv :: "api_reference \<Rightarrow> bool" where
  "api_ref_inv s \<longleftrightarrow> \<not> (ar_fetching s \<and> ar_importing s)
     \<and> (ar_fetching s \<or> ar_importing s \<longrightarrow> \<not> js_truthy (ar_spec s))"

lemma api_ref_inv_step: "api_ref_inv s \<Longrightarrow> api_ref_inv (api_ref_step s e)"
  by (cases e) (auto simp: api_ref_inv_def)

text \<open>The page falls back to the bundled specification, in any order of the answers.\<close>

lemma api_ref_fallback:
  assumes "js_truthy v"
  shows "list_all (\<lambda>es. api_ref_shown (run api_ref_step api_ref_mount es))
    [[ArScalar, ArFailed, ArImported v], [ArFailed, ArScalar, ArImported v],
     [ArFailed, ArImported v, ArScalar], [ArFetched v, ArScalar], [ArScalar, ArFetched v]]"
  using assms by (simp add: api_ref_shown_def api_ref_mount_def)

end
