(* ===== verification/Application.thy ===== *)
theory Application
  imports Dashboard AuthPages Landing Site
begin

text \<open>
  The whole application as one machine: the document of \<open>Shell\<close> with the page that
  \<open>src/App.tsx\<close> shows in it. A step of the page reads and moves the session, the theme and the
  router that the providers share; then the shell renders, which may mount another page, and the
  page is given the current values. What a page that is gone awaited goes on: the forms'
  sign-in still navigates, and a save of the settings still refreshes the profile; what else such
  a page would do reaches only its own lost state, or sends requests, which are not followed.
  A page that the guard leaves in the render that mounted it is not mounted here.
\<close>

section \<open>Pages\<close>

datatype profile_event = PrNav jstr | PrToggle | PrLoaded "github_profile option"

datatype page =
    PgNone
  | PgSplash
  | PgLanding landing
  | PgProfile profile_page
  | PgLogin login_page
  | PgSignup signup_page
  | PgForgot forgot_page
  | PgSite app_screen site_frame contact_page
  | PgApiRef "api_reference option"
  | PgDashboard dashboard
  | PgNotFound

datatype page_event =
    PeLanding landing_event
  | PeProfile profile_event
  | PeLogin login_event
  | PeSignup signup_event
  | PeForgot forgot_event
  | PeSite "contact_event frame_event"
  | PeApiRef api_ref_event
  | PeDashboard dashboard_event
  | PeNotFound jstr

text \<open>What the browser and the build give to the pages.\<close>

record browser =
  br_docs :: jstr
  br_year :: nat
  br_digest :: "byte list \<Rightarrow> byte list"
  br_writable :: bool
  br_formats :: formats
  br_fixed1 :: "nat \<Rightarrow> nat \<Rightarrow> jstr"
  br_month :: "jstr \<Rightarrow> jstr"
  br_thrown :: "jstr option"

definition profile_step :: "profile_event \<Rightarrow> profile_page \<Rightarrow> profile_page" where
  "profile_step e s = (case e of PrLoaded r \<Rightarrow> profile_settled r s | _ \<Rightarrow> s)"

definition site_page_step :: "site_frame \<Rightarrow> contact_page \<Rightarrow> contact_event frame_event \<Rightarrow> site_frame \<times> contact_page" where
  "site_page_step fr c e = (frame_step fr e, case e of FrPage m \<Rightarrow> contact_step c m | _ \<Rightarrow> c)"

fun page_step :: "browser \<Rightarrow> page \<Rightarrow> page_event \<Rightarrow> page" where
  "page_step b (PgLanding s) e = (case e of PeLanding x \<Rightarrow> PgLanding (landing_step (br_digest b) s x) | _ \<Rightarrow> PgLanding s)"
| "page_step b (PgProfile s) e = (case e of PeProfile x \<Rightarrow> PgProfile (profile_step x s) | _ \<Rightarrow> PgProfile s)"
| "page_step b (PgLogin s) e = (case e of PeLogin x \<Rightarrow> PgLogin (login_step s x) | _ \<Rightarrow> PgLogin s)"
| "page_step b (PgSignup s) e = (case e of PeSignup x \<Rightarrow> PgSignup (signup_step s x) | _ \<Rightarrow> PgSignup s)"
| "page_step b (PgForgot s) e = (case e of PeForgot x \<Rightarrow> PgForgot (forgot_step s x) | _ \<Rightarrow> PgForgot s)"
| "page_step b (PgSite scr fr c) e = (case e of
     PeSite x \<Rightarrow> (let (fr', c') = site_page_step fr c x in PgSite scr fr' c') | _ \<Rightarrow> PgSite scr fr c)"
| "page_step b (PgApiRef s) e = (case e of PeApiRef x \<Rightarrow> PgApiRef (map_option (\<lambda>v. api_ref_step v x) s) | _ \<Rightarrow> PgApiRef s)"
| "page_step b (PgDashboard s) e = (case e of PeDashboard x \<Rightarrow> PgDashboard (dashboard_step s x) | _ \<Rightarrow> PgDashboard s)"
| "page_step b p e = p"

text \<open>The shared values a page has moved; pages that hold none of them name their navigation.\<close>

fun page_auth :: "page \<Rightarrow> auth \<Rightarrow> auth" where
  "page_auth (PgLogin s) a = lg_auth s"
| "page_auth (PgSignup s) a = sp_auth s"
| "page_auth (PgDashboard s) a = ly_auth (da_layout s)"
| "page_auth p a = a"

fun page_theme :: "page \<Rightarrow> page_event \<Rightarrow> theme_state \<Rightarrow> theme_state" where
  "page_theme (PgLanding s) e t = ld_theme s"
| "page_theme (PgSite scr fr c) e t = sf_theme fr"
| "page_theme (PgDashboard s) e t = ly_theme (da_layout s)"
| "page_theme (PgProfile s) e t = (if e = PeProfile PrToggle then theme_step t Toggle else t)"
| "page_theme p e t = t"

fun page_router :: "page \<Rightarrow> page_event \<Rightarrow> router \<Rightarrow> router" where
  "page_router (PgLanding s) e r = ld_router s"
| "page_router (PgLogin s) e r = lg_router s"
| "page_router (PgSignup s) e r = sp_router s"
| "page_router (PgSite scr fr c) e r = sf_router fr"
| "page_router (PgDashboard s) e r = ly_router (da_layout s)"
| "page_router (PgProfile s) e r = (case e of PeProfile (PrNav to) \<Rightarrow> navigate to r | _ \<Rightarrow> r)"
| "page_router (PgForgot s) e r = (case e of PeForgot (FpGo to) \<Rightarrow> navigate to r | _ \<Rightarrow> r)"
| "page_router (PgApiRef s) e r = (case e of PeApiRef (ArNav to) \<Rightarrow> navigate to r | _ \<Rightarrow> r)"
| "page_router PgNotFound e r = (case e of PeNotFound to \<Rightarrow> navigate to r | _ \<Rightarrow> r)"
| "page_router p e r = r"

section \<open>State\<close>

record app =
  ap_shell :: shell
  ap_page :: page
  ap_waiting :: nat
  ap_saving :: nat
  ap_project_store :: "jstr option"
  ap_sidebar_store :: "jstr option"

definition layout_given :: "auth \<Rightarrow> theme_state \<Rightarrow> router \<Rightarrow> layout \<Rightarrow> layout" where
  "layout_given a t r l = l\<lparr>ly_auth := a, ly_theme := t, ly_palette := (ly_palette l)\<lparr>pal_router := r\<rparr>\<rparr>"

text \<open>The page of a tab whose module is there.\<close>

definition wanted_child :: "shell \<Rightarrow> jstr \<Rightarrow> string option" where
  "wanted_child s tab = (case dashboard_child tab of
     None \<Rightarrow> None
   | Some m \<Rightarrow> if sh_imports s m = Finished ImportDone then Some m else None)"

definition fit_dashboard :: "jstr \<Rightarrow> app \<Rightarrow> dashboard" where
  "fit_dashboard tab s =
     (let sh = ap_shell s; a = sh_auth sh; t = sh_theme sh; r = sh_router sh in
      child_fit (wanted_child sh tab)
       (case ap_page s of
          PgDashboard d \<Rightarrow> d\<lparr>da_layout := layout_given a t r (da_layout d)\<rparr>
        | _ \<Rightarrow> \<lparr>da_layout = layout_mount a (ap_project_store s) (palette_mount 1 r) t (ap_sidebar_store s),
                da_child = None\<rparr>))"

definition site_mount :: "auth \<Rightarrow> theme_state \<Rightarrow> router \<Rightarrow> site_frame" where
  "site_mount a t r = \<lparr>sf_auth = a, sf_theme = t, sf_nav = nav_mount, sf_credit = False, sf_router = r\<rparr>"

text \<open>The render of \<open>App\<close>: the page of the screen, kept when it is mounted already.\<close>

definition fit_page :: "app \<Rightarrow> page" where
  "fit_page s = (let sh = ap_shell s; a = sh_auth sh; t = sh_theme sh; r = sh_router sh; scr = shell_screen sh in
     if eb_hasError (sh_boundary sh) then PgNone
     else case scr of
       SplashScreen \<Rightarrow> PgSplash
     | LandingScreen \<Rightarrow> (case ap_page s of
         PgLanding l \<Rightarrow> PgLanding (l\<lparr>ld_auth := a, ld_theme := t, ld_router := r\<rparr>)
       | _ \<Rightarrow> PgLanding (landing_mount a t r))
     | ProfileScreen \<Rightarrow> (case ap_page s of PgProfile x \<Rightarrow> PgProfile x | _ \<Rightarrow> PgProfile profile_mount)
     | LoginScreen \<Rightarrow> (case ap_page s of
         PgLogin l \<Rightarrow> PgLogin (l\<lparr>lg_auth := a, lg_router := r\<rparr>)
       | _ \<Rightarrow> PgLogin (login_mount a r))
     | SignupScreen \<Rightarrow> (case ap_page s of
         PgSignup l \<Rightarrow> PgSignup (l\<lparr>sp_auth := a, sp_router := r\<rparr>)
       | _ \<Rightarrow> PgSignup (signup_mount a r))
     | ForgotPasswordScreen \<Rightarrow> (case ap_page s of PgForgot f \<Rightarrow> PgForgot f | _ \<Rightarrow> PgForgot forgot_mount)
     | ApiReferenceScreen \<Rightarrow>
         (if sh_imports sh ''ApiReference'' = Finished ImportDone
          then (case ap_page s of PgApiRef (Some v) \<Rightarrow> PgApiRef (Some v) | _ \<Rightarrow> PgApiRef (Some api_ref_mount))
          else PgApiRef None)
     | DashboardScreen tab \<Rightarrow> PgDashboard (fit_dashboard tab s)
     | NotFoundScreen \<Rightarrow> PgNotFound
     | _ \<Rightarrow> (case ap_page s of
         PgSite x fr c \<Rightarrow> if x = scr then PgSite x (fr\<lparr>sf_auth := a, sf_theme := t, sf_router := r\<rparr>) c
                        else PgSite scr (site_mount a t r) contact_mount
       | _ \<Rightarrow> PgSite scr (site_mount a t r) contact_mount))"

section \<open>The view\<close>

fun has_main :: "'e node \<Rightarrow> bool" and has_main_in :: "'e node list \<Rightarrow> bool" where
  "has_main (Text t) = False"
| "has_main (El t as ks) = (t = ''main''
     \<or> list_ex (\<lambda>a. case a of Attr n v \<Rightarrow> n = ''id'' \<and> v = js ''main-content'' | _ \<Rightarrow> False) as
     \<or> has_main_in ks)"
| "has_main_in [] = False"
| "has_main_in (k # ks) = (has_main k \<or> has_main_in ks)"

text \<open>\<open>None\<close> when the render throws; an unmounted application renders nothing.\<close>

fun page_view :: "browser \<Rightarrow> shell \<Rightarrow> page \<Rightarrow> page_event node list option" where
  "page_view b sh PgNone = Some []"
| "page_view b sh PgSplash = Some [splash_view]"
| "page_view b sh (PgLanding s) = Some [map_node PeLanding (landing_view (br_docs b) (br_year b) s)]"
| "page_view b sh (PgProfile s) = Some [profile_view (br_fixed1 b) (br_month b) (\<lambda>to. PeProfile (PrNav to))
     (theme_toggle (\<lambda>t. PeProfile PrToggle) (th_hook (sh_theme sh))) s]"
| "page_view b sh (PgLogin s) = Some [map_node PeLogin (login_view s)]"
| "page_view b sh (PgSignup s) = Some [map_node PeSignup (signup_view s)]"
| "page_view b sh (PgForgot s) = Some [map_node PeForgot (forgot_view s)]"
| "page_view b sh (PgSite scr fr c) =
     Some (if_some (public_page (br_docs b) (br_year b) fr c scr) (\<lambda>v. [map_node PeSite v]))"
| "page_view b sh (PgApiRef s) = Some [case s of
     None \<Rightarrow> loading_view | Some v \<Rightarrow> map_node PeApiRef (api_ref_view v)]"
| "page_view b sh (PgDashboard s) = map_option (\<lambda>v. [map_node PeDashboard v])
     (dashboard_view (br_docs b) (br_writable b) (br_formats b)
       (case shell_screen sh of DashboardScreen tab \<Rightarrow> dashboard_child tab \<noteq> None | _ \<Rightarrow> False) s)"
| "page_view b sh PgNotFound = Some [not_found PeNotFound]"

section \<open>Rendering\<close>

fun page_waits :: "page \<Rightarrow> nat" where
  "page_waits (PgLogin s) = lg_waiting s"
| "page_waits (PgSignup s) = sp_waiting s"
| "page_waits p = 0"

fun page_saves :: "page \<Rightarrow> nat" where
  "page_saves (PgDashboard s) = (case da_child s of
     Some (ChSettings t) \<Rightarrow> length (filter (\<lambda>w. w = StSave) (st_pending t)) | _ \<Rightarrow> 0)"
| "page_saves p = 0"

text \<open>The page becomes \<open>q\<close>; what a page that is gone awaited is kept count of.\<close>

definition leave :: "page \<Rightarrow> app \<Rightarrow> app" where
  "leave q s = s\<lparr>ap_page := q,
     ap_waiting := ap_waiting s + (page_waits (ap_page s) - page_waits q),
     ap_saving := ap_saving s + (page_saves (ap_page s) - page_saves q)\<rparr>"

definition keep_stores :: "app \<Rightarrow> app" where
  "keep_stores s = (case ap_page s of
     PgDashboard d \<Rightarrow> s\<lparr>ap_project_store := px_store (ly_project (da_layout d)),
       ap_sidebar_store := ly_sidebar_store (da_layout d)\<rparr>
   | _ \<Rightarrow> s)"

definition app_settle :: "browser \<Rightarrow> app \<Rightarrow> app" where
  "app_settle b s =
     (let s1 = keep_stores (s\<lparr>ap_shell := shell_commit (ap_shell s)\<rparr>);
          s2 = keep_stores (leave (fit_page s1) s1) in
      case page_view b (ap_shell s2) (ap_page s2) of
        None \<Rightarrow> leave PgNone (s2\<lparr>ap_shell := shell_throw (br_thrown b) (ap_shell s2)\<rparr>)
      | Some v \<Rightarrow> s2)"

text \<open>A new document forgets everything but the history and what the browser stores.\<close>

definition app_document :: "browser \<Rightarrow> shell \<Rightarrow> jstr option \<Rightarrow> jstr option \<Rightarrow> app" where
  "app_document b sh project sidebar = app_settle b
     \<lparr>ap_shell = sh, ap_page = PgNone, ap_waiting = 0, ap_saving = 0,
      ap_project_store = project, ap_sidebar_store = sidebar\<rparr>"

definition app_load :: "browser \<Rightarrow> client \<Rightarrow> jstr option \<Rightarrow> bool \<Rightarrow> jstr \<Rightarrow> jstr option \<Rightarrow> jstr option \<Rightarrow> app" where
  "app_load b c stored dark url project sidebar =
     app_document b (shell_load c stored dark (router_start url)) project sidebar"

section \<open>Events\<close>

datatype app_event =
    AppPage page_event
  | AppSkip skip_event
  | AppReload
  | AppHome
  | AppAuth bool auth_event
  | AppSaved bool
  | AppBack
  | AppForward
  | AppTheme theme_event
  | AppSplash
  | AppImport string import_result

definition on_shell :: "(shell \<Rightarrow> shell) \<Rightarrow> app \<Rightarrow> app" where
  "on_shell f s = s\<lparr>ap_shell := f (ap_shell s)\<rparr>"

definition app_page :: "browser \<Rightarrow> page_event \<Rightarrow> app \<Rightarrow> app" where
  "app_page b e s =
     (let p = page_step b (ap_page s) e in
      app_settle b (on_shell (\<lambda>sh. sh\<lparr>sh_auth := page_auth p (sh_auth sh),
          sh_theme := page_theme p e (sh_theme sh), sh_router := page_router p e (sh_router sh)\<rparr>)
        (s\<lparr>ap_page := p\<rparr>)))"

text \<open>
  An answer to the session provider. \<open>mine\<close>: it answers a call of the mounted form, which goes on
  in the form; an outcome for a form that is gone goes on without it.
\<close>

fun form_answer :: "page \<Rightarrow> auth_event \<Rightarrow> page_event option" where
  "form_answer (PgLogin p) e = (if lg_waiting p = 0 then None else Some (PeLogin (LgAuth e)))"
| "form_answer (PgSignup p) e = (if sp_waiting p = 0 then None else Some (PeSignup (SpAuth e)))"
| "form_answer p e = None"

definition app_detached :: "browser \<Rightarrow> auth_event \<Rightarrow> app \<Rightarrow> app" where
  "app_detached b e s =
     (let a = sh_auth (ap_shell s); a' = auth_step a e;
          s' = on_shell (\<lambda>sh. sh\<lparr>sh_auth := a'\<rparr>) s in
      app_settle b
       (if length (au_returned a) < length (au_returned a') \<and> ap_waiting s \<noteq> 0
        then (case last (au_returned a') of
            LoginSuccess \<Rightarrow> on_shell (\<lambda>sh. sh\<lparr>sh_router := navigate (js ''/dashboard'') (sh_router sh)\<rparr>) s'
          | LoginFailure m \<Rightarrow> s')\<lparr>ap_waiting := ap_waiting s - 1\<rparr>
        else s'))"

fun app_step :: "browser \<Rightarrow> app \<Rightarrow> app_event \<Rightarrow> app" where
  "app_step b s (AppPage e) = app_page b e s"
| "app_step b s (AppSkip e) =
     (let main = (case page_view b (ap_shell s) (ap_page s) of None \<Rightarrow> False | Some ks \<Rightarrow> has_main_in ks) in
      on_shell (\<lambda>sh. shell_step sh (ShSkip main e)) s)"
| "app_step b s AppReload = app_document b (shell_step (ap_shell s) ShReload) (ap_project_store s) (ap_sidebar_store s)"
| "app_step b s AppHome =
     (if eb_hasError (sh_boundary (ap_shell s))
      then app_document b (shell_step (ap_shell s) ShHome) (ap_project_store s) (ap_sidebar_store s) else s)"
| "app_step b s (AppAuth mine e) =
     (case (if mine then form_answer (ap_page s) e else None) of
        Some m \<Rightarrow> app_page b m s | None \<Rightarrow> app_detached b e s)"
| "app_step b s (AppSaved ok) =
     (if ap_saving s = 0 then s
      else let s' = s\<lparr>ap_saving := ap_saving s - 1\<rparr> in
        if ok then app_settle b (on_shell (\<lambda>sh. sh\<lparr>sh_auth := auth_step (sh_auth sh) RefreshMe\<rparr>) s') else s')"
| "app_step b s AppBack = app_settle b (on_shell (\<lambda>sh. sh\<lparr>sh_router := go_back (sh_router sh)\<rparr>) s)"
| "app_step b s AppForward = app_settle b (on_shell (\<lambda>sh. sh\<lparr>sh_router := go_forward (sh_router sh)\<rparr>) s)"
| "app_step b s (AppTheme e) = app_settle b (on_shell (\<lambda>sh. shell_step sh (ShTheme e)) s)"
| "app_step b s AppSplash = app_settle b (on_shell (\<lambda>sh. shell_step sh ShSplash) s)"
| "app_step b s (AppImport m r) = app_settle b (on_shell (\<lambda>sh. shell_step sh (ShImport m r)) s)"

definition app_view :: "browser \<Rightarrow> app \<Rightarrow> app_event node" where
  "app_view b s = (let sh = ap_shell s in
     El ''div'' [Attr ''id'' (js ''root'')]
      (if eb_hasError (sh_boundary sh)
       then [map_node (\<lambda>m. AppReload) (boundary_fallback (eb_message (sh_boundary sh)) :: unit boundary_event node)]
       else [map_node AppSkip (skip_view (sh_skip sh))]
         @ (case page_view b sh (ap_page s) of None \<Rightarrow> [] | Some ks \<Rightarrow> map (map_node AppPage) ks)))"

fun page_answer :: "page_event \<Rightarrow> bool" where
  "page_answer (PeLanding e) \<longleftrightarrow> (\<exists>m. e = LdHero m \<and> hero_outside m) \<or> (\<exists>y. e = LdNav (NvScroll y))"
| "page_answer (PeProfile e) \<longleftrightarrow> (\<exists>r. e = PrLoaded r)"
| "page_answer (PeForgot e) \<longleftrightarrow> e = FpTimer"
| "page_answer (PeSite e) \<longleftrightarrow> (\<exists>y. e = FrNav (NvScroll y))"
| "page_answer (PeApiRef e) \<longleftrightarrow> (\<forall>to. e \<noteq> ArNav to)"
| "page_answer (PeDashboard e) \<longleftrightarrow> dashboard_answer e"
| "page_answer _ \<longleftrightarrow> False"

fun app_outside :: "app_event \<Rightarrow> bool" where
  "app_outside (AppPage e) \<longleftrightarrow> page_answer e"
| "app_outside (AppSkip e) \<longleftrightarrow> (\<exists>k. e = SkKey k)"
| "app_outside (AppAuth mine e) \<longleftrightarrow> (\<exists>i r. e = MeReply i r) \<or> (\<exists>i r. e = SessionReply i r)"
| "app_outside (AppTheme e) \<longleftrightarrow> e \<noteq> Toggle"
| "app_outside _ \<longleftrightarrow> True"

section \<open>Invariant\<close>

fun page_ok :: "browser \<Rightarrow> page \<Rightarrow> bool" where
  "page_ok b (PgLanding s) = hero_inv (br_digest b) (ld_hero s)"
| "page_ok b (PgForgot s) = forgot_inv s"
| "page_ok b (PgApiRef s) = (case s of None \<Rightarrow> True | Some v \<Rightarrow> api_ref_inv v)"
| "page_ok b (PgDashboard s) = dashboard_pre s"
| "page_ok b p = True"

text \<open>The page is the one of the screen, and holds the shell's session, theme and router.\<close>

fun page_shows :: "shell \<Rightarrow> page \<Rightarrow> bool" where
  "page_shows sh PgNone \<longleftrightarrow> eb_hasError (sh_boundary sh)"
| "page_shows sh PgSplash \<longleftrightarrow> shell_screen sh = SplashScreen"
| "page_shows sh (PgLanding s) \<longleftrightarrow> shell_screen sh = LandingScreen
     \<and> ld_auth s = sh_auth sh \<and> ld_theme s = sh_theme sh \<and> ld_router s = sh_router sh"
| "page_shows sh (PgProfile s) \<longleftrightarrow> shell_screen sh = ProfileScreen"
| "page_shows sh (PgLogin s) \<longleftrightarrow> shell_screen sh = LoginScreen
     \<and> lg_auth s = sh_auth sh \<and> lg_router s = sh_router sh"
| "page_shows sh (PgSignup s) \<longleftrightarrow> shell_screen sh = SignupScreen
     \<and> sp_auth s = sh_auth sh \<and> sp_router s = sh_router sh"
| "page_shows sh (PgForgot s) \<longleftrightarrow> shell_screen sh = ForgotPasswordScreen"
| "page_shows sh (PgSite scr fr c) \<longleftrightarrow> shell_screen sh = scr
     \<and> scr \<in> {PricingScreen, SecurityScreen, ContactScreen}
     \<and> sf_auth fr = sh_auth sh \<and> sf_theme fr = sh_theme sh \<and> sf_router fr = sh_router sh"
| "page_shows sh (PgApiRef s) \<longleftrightarrow> shell_screen sh = ApiReferenceScreen
     \<and> (s = None \<longleftrightarrow> sh_imports sh ''ApiReference'' \<noteq> Finished ImportDone)"
| "page_shows sh (PgDashboard s) \<longleftrightarrow> dashboard_inv s \<and> ly_auth (da_layout s) = sh_auth sh
     \<and> ly_theme (da_layout s) = sh_theme sh \<and> ly_router (da_layout s) = sh_router sh
     \<and> (\<exists>tab. shell_screen sh = DashboardScreen tab
            \<and> map_option child_name (da_child s) = wanted_child sh tab)"
| "page_shows sh PgNotFound \<longleftrightarrow> shell_screen sh = NotFoundScreen"

definition app_pre :: "browser \<Rightarrow> app \<Rightarrow> bool" where
  "app_pre b s \<longleftrightarrow> auth_inv (sh_auth (ap_shell s)) \<and> router_inv (sh_router (ap_shell s)) \<and> page_ok b (ap_page s)"

definition app_inv :: "browser \<Rightarrow> app \<Rightarrow> bool" where
  "app_inv b s \<longleftrightarrow> app_pre b s \<and> guard_inv (ap_shell s) \<and> page_shows (ap_shell s) (ap_page s)
     \<and> (eb_hasError (sh_boundary (ap_shell s)) \<longrightarrow> ap_page s = PgNone)"

lemma layout_given_inv:
  "layout_inv l \<Longrightarrow> auth_inv a \<Longrightarrow> router_inv r \<Longrightarrow> layout_inv (layout_given a t r l)"
  by (simp add: layout_given_def layout_inv_def palette_inv_router)

lemma layout_given_parts [simp]:
  "ly_auth (layout_given a t r l) = a" "ly_theme (layout_given a t r l) = t"
  "ly_router (layout_given a t r l) = r" "ly_project (layout_given a t r l) = ly_project l"
  by (simp_all add: layout_given_def ly_router_def)

lemma child_fit_layout [simp]: "da_layout (child_fit n s) = da_layout s"
  by (simp add: child_fit_def child_render_def)

lemma mount_child_known: "dashboard_child tab = Some m \<Longrightarrow> mount_child a pid m \<noteq> None"
  by (auto simp: dashboard_child_def mount_child_def split: if_splits)

lemma child_fit_name:
  assumes "n = wanted_child sh tab"
  shows "map_option child_name (da_child (child_fit n s)) = n"
proof (cases "map_option child_name (da_child s) = n")
  case True
  then show ?thesis by (auto simp: child_fit_def child_render_def option.map_comp comp_def)
next
  case False
  show ?thesis
  proof (cases n)
    case (Some m)
    then have "dashboard_child tab = Some m" using assms
      by (auto simp: wanted_child_def split: option.splits if_splits)
    then obtain c where "mount_child (ly_auth (da_layout s)) (project_id (da_layout s)) m = Some c"
      using mount_child_known by blast
    then show ?thesis using False Some mount_child_good(3) by (auto simp: child_fit_def)
  qed (use False in \<open>auto simp: child_fit_def\<close>)
qed

lemma layout_mount_parts [simp]:
  "ly_auth (layout_mount a p pl t sb) = a" "ly_theme (layout_mount a p pl t sb) = t"
  "ly_router (layout_mount a p pl t sb) = useRequireAuth a (pal_router pl)"
  by (simp_all add: layout_mount_def set_collapsed_def) (simp add: ly_router_def)

lemma palette_inv_mounted: "router_inv r \<Longrightarrow> palette_inv (palette_mount n r)"
  by (simp add: palette_inv_def palette_mount_def)

lemma fit_dashboard_good:
  assumes "app_pre b s" "isAuthenticated (sh_auth (ap_shell s))"
  shows "dashboard_inv (fit_dashboard tab s)" "ly_auth (da_layout (fit_dashboard tab s)) = sh_auth (ap_shell s)"
    "ly_theme (da_layout (fit_dashboard tab s)) = sh_theme (ap_shell s)"
    "ly_router (da_layout (fit_dashboard tab s)) = sh_router (ap_shell s)"
    "map_option child_name (da_child (fit_dashboard tab s)) = wanted_child (ap_shell s) tab"
proof -
  let ?sh = "ap_shell s"
  obtain d where d: "fit_dashboard tab s = child_fit (wanted_child ?sh tab) d" "dashboard_pre d"
    "ly_auth (da_layout d) = sh_auth ?sh" "ly_theme (da_layout d) = sh_theme ?sh"
    "ly_router (da_layout d) = sh_router ?sh"
  proof (cases "\<exists>d. ap_page s = PgDashboard d")
    case True
    then obtain d where p: "ap_page s = PgDashboard d" ..
    have "layout_inv (layout_given (sh_auth ?sh) (sh_theme ?sh) (sh_router ?sh) (da_layout d))"
      using assms(1) p by (intro layout_given_inv) (auto simp: app_pre_def dashboard_pre_def)
    then have pre: "dashboard_pre (d\<lparr>da_layout := layout_given (sh_auth ?sh) (sh_theme ?sh) (sh_router ?sh) (da_layout d)\<rparr>)"
      using assms(1) p by (simp add: app_pre_def dashboard_pre_def)
    show ?thesis
    proof (rule that [OF _ pre])
      show "fit_dashboard tab s = child_fit (wanted_child ?sh tab)
          (d\<lparr>da_layout := layout_given (sh_auth ?sh) (sh_theme ?sh) (sh_router ?sh) (da_layout d)\<rparr>)"
        using p by (simp add: fit_dashboard_def Let_def)
    qed simp_all
  next
    case False
    let ?l = "layout_mount (sh_auth ?sh) (ap_project_store s) (palette_mount 1 (sh_router ?sh)) (sh_theme ?sh)
        (ap_sidebar_store s)"
    have pre: "dashboard_pre \<lparr>da_layout = ?l, da_child = None\<rparr>"
      using assms(1) by (simp add: dashboard_pre_def app_pre_def layout_inv_mount palette_inv_mounted)
    show ?thesis
    proof (rule that [OF _ pre])
      show "fit_dashboard tab s = child_fit (wanted_child ?sh tab) \<lparr>da_layout = ?l, da_child = None\<rparr>"
        using False by (simp add: fit_dashboard_def Let_def split: page.split)
    qed (simp_all add: assms(2) useRequireAuth_def palette_mount_def)
  qed
  then show "dashboard_inv (fit_dashboard tab s)" by (simp add: dashboard_inv_fit)
  show "ly_auth (da_layout (fit_dashboard tab s)) = sh_auth ?sh"
    "ly_theme (da_layout (fit_dashboard tab s)) = sh_theme ?sh"
    "ly_router (da_layout (fit_dashboard tab s)) = sh_router ?sh" using d by simp_all
  show "map_option child_name (da_child (fit_dashboard tab s)) = wanted_child ?sh tab"
    unfolding d(1) by (rule child_fit_name [OF refl])
qed

lemma fresh_pages_ok:
  "hero_inv dg hero_mount" "forgot_inv forgot_mount" "api_ref_inv api_ref_mount"
  by (simp_all add: hero_inv_def hero_mount_def generateReceipt_def forgot_inv_def forgot_mount_def
      api_ref_inv_def api_ref_mount_def)

lemma fit_page_good:
  assumes "app_pre b s" "guard_inv (ap_shell s)"
  shows "page_ok b (fit_page s) \<and> page_shows (ap_shell s) (fit_page s)"
proof (cases "eb_hasError (sh_boundary (ap_shell s))")
  case True
  then show ?thesis by (simp add: fit_page_def Let_def)
next
  case False
  show ?thesis
  proof (cases "shell_screen (ap_shell s)")
    case (DashboardScreen tab)
    then have "isAuthenticated (sh_auth (ap_shell s))" using assms(2) False by (auto simp: guard_inv_def)
    then show ?thesis using fit_dashboard_good [OF assms(1), of tab] DashboardScreen False
      by (simp add: fit_page_def Let_def dashboard_inv_pre)
  qed (use assms(1) False in \<open>auto simp: fit_page_def Let_def app_pre_def fresh_pages_ok landing_mount_def
      login_mount_def signup_mount_def site_mount_def split: page.split option.split\<close>)
qed

lemma leave_parts [simp]: "ap_shell (leave q s) = ap_shell s" "ap_page (leave q s) = q"
  by (simp_all add: leave_def)

lemma keep_stores_parts [simp]: "ap_shell (keep_stores s) = ap_shell s" "ap_page (keep_stores s) = ap_page s"
  by (simp_all add: keep_stores_def split: page.split)

lemma app_settle_inv:
  assumes "app_pre b s"
  shows "app_inv b (app_settle b s)"
proof -
  define s1 where "s1 = keep_stores (s\<lparr>ap_shell := shell_commit (ap_shell s)\<rparr>)"
  define s2 where "s2 = keep_stores (leave (fit_page s1) s1)"
  have guard: "guard_inv (ap_shell s1)" using assms by (simp add: s1_def app_pre_def guard_inv_commit)
  then have pre: "app_pre b s1" using assms by (simp add: app_pre_def guard_inv_def s1_def)
  have s2: "app_inv b s2"
    using fit_page_good [OF pre guard] pre guard
    by (simp add: app_inv_def app_pre_def s2_def) (simp add: fit_page_def Let_def)
  have settled: "app_settle b s = (case page_view b (ap_shell s2) (ap_page s2) of
      None \<Rightarrow> leave PgNone (s2\<lparr>ap_shell := shell_throw (br_thrown b) (ap_shell s2)\<rparr>) | Some v \<Rightarrow> s2)"
    unfolding app_settle_def s1_def s2_def Let_def by (rule refl)
  show ?thesis
  proof (cases "page_view b (ap_shell s2) (ap_page s2)")
    case (Some v)
    with s2 show ?thesis by (simp add: settled)
  next
    case None
    with s2 show ?thesis
      by (simp add: settled app_inv_def app_pre_def shell_throw_def guard_inv_def getDerivedStateFromError_def)
  qed
qed

text \<open>The shared values that a page's step leaves behind.\<close>

lemma router_inv_target: "router_inv r \<Longrightarrow> router_inv (landing_navigate e r)"
  by (simp add: landing_navigate_def router_inv_navigate split: option.split)

lemma login_step_inv:
  assumes "auth_inv (lg_auth s)" "router_inv (lg_router s)"
  shows "auth_inv (lg_auth (login_step s e)) \<and> router_inv (lg_router (login_step s e))"
proof (cases e)
  case (LgAuth x)
  have "auth_inv (auth_step (lg_auth s) x)" using assms(1) by (rule auth_inv_step)
  then show ?thesis using assms(2) LgAuth
    by (simp add: login_auth_def Let_def login_returned_def router_inv_navigate split: login_outcome.split
        del: auth_step.simps)
qed (use assms in \<open>simp_all add: login_submit_def auth_inv_login router_inv_navigate\<close>)

lemma signup_step_inv:
  assumes "auth_inv (sp_auth s)" "router_inv (sp_router s)"
  shows "auth_inv (sp_auth (signup_step s e)) \<and> router_inv (sp_router (signup_step s e))"
proof (cases e)
  case (SpAuth x)
  have "auth_inv (auth_step (sp_auth s) x)" using assms(1) by (rule auth_inv_step)
  then show ?thesis using assms(2) SpAuth
    by (simp add: signup_auth_def Let_def signup_returned_def router_inv_navigate split: login_outcome.split
        del: auth_step.simps)
qed (use assms in \<open>simp_all add: signup_submit_def auth_inv_login router_inv_navigate handleEmailBlur_def Let_def\<close>)

text \<open>A step of the page, by the user or by an answer, keeps what its page owes.\<close>

lemma page_step_dashboard:
  assumes "app_inv b s" "page_answer e \<or> (\<exists>ks. page_view b (ap_shell s) (ap_page s) = Some ks \<and> fires_in ks e)"
    and "ap_page s = PgDashboard d" "e = PeDashboard x"
  shows "dashboard_inv (dashboard_step d x)"
proof -
  have d: "dashboard_inv d" using assms(1,3) by (simp add: app_inv_def)
  show ?thesis
  proof (cases "page_answer e")
    case True
    with d show ?thesis using assms(4) by (simp add: dashboard_inv_answer del: dashboard_step.simps)
  next
    case False
    then obtain v where "dashboard_view (br_docs b) (br_writable b) (br_formats b)
        (case shell_screen (ap_shell s) of DashboardScreen tab \<Rightarrow> dashboard_child tab \<noteq> None | _ \<Rightarrow> False) d = Some v"
      "can_fire v x"
      using assms(2-4) by (auto simp: can_fire_map)
    with d show ?thesis by (rule dashboard_inv_user)
  qed
qed

lemma landing_step_parts [simp]:
  "ld_auth (landing_step d s e) = ld_auth s" "ld_router (landing_step d s e) = landing_navigate e (ld_router s)"
  by (cases e; simp add: landing_step_def)+

lemma frame_step_router: "router_inv (sf_router fr) \<Longrightarrow> router_inv (sf_router (frame_step fr e))"
proof -
  have "sf_router (frame_local fr e) = sf_router fr" by (cases e) simp_all
  then show "router_inv (sf_router fr) \<Longrightarrow> ?thesis"
    by (simp add: frame_step_def frame_navigate_def router_inv_navigate split: option.split)
qed

definition page_allows :: "browser \<Rightarrow> shell \<Rightarrow> page \<Rightarrow> page_event \<Rightarrow> bool" where
  "page_allows b sh p e \<longleftrightarrow> page_answer e \<or> (\<exists>ks. page_view b sh p = Some ks \<and> fires_in ks e)"

lemma landing_allows:
  assumes "page_allows b sh (PgLanding l) (PeLanding x)" "hero_inv (br_digest b) (ld_hero l)"
  shows "hero_inv (br_digest b) (ld_hero (landing_step (br_digest b) l x))"
proof (cases x)
  case (LdHero m)
  have "can_fire (hero_view (br_docs b) (ld_hero l)) m \<or> hero_outside m"
    using assms(1) LdHero
    by (auto simp: page_allows_def can_fire_map landing_view_def landing_main_def section_fires snippet_fires)
  then show ?thesis using LdHero hero_inv_step [OF assms(2)] by (simp add: landing_step_def)
qed (use assms(2) in \<open>simp_all add: landing_step_def\<close>)

lemma page_step_ok:
  assumes "app_inv b s" "page_allows b (ap_shell s) (ap_page s) e"
  shows "page_ok b (page_step b (ap_page s) e)"
proof (cases "ap_page s")
  case (PgLanding l)
  then show ?thesis using assms landing_allows
    by (cases e) (auto simp: app_inv_def app_pre_def)
next
  case (PgForgot f)
  have "forgot_inv (forgot_step f x)" if "e = PeForgot x" for x
    using assms PgForgot that
    by (cases x) (auto simp: app_inv_def app_pre_def page_allows_def can_fire_map fires_forgot_view forgot_inv_def
        split: if_splits)
  then show ?thesis using assms(1) PgForgot by (cases e) (simp_all add: app_inv_def app_pre_def)
next
  case (PgApiRef v)
  then show ?thesis using assms(1)
    by (cases e; cases v) (simp_all add: app_inv_def app_pre_def api_ref_inv_step)
next
  case (PgDashboard d)
  have "dashboard_pre (dashboard_step d x)" if "e = PeDashboard x" for x
    using page_step_dashboard [OF assms(1) _ PgDashboard that] assms(2) that
    by (simp add: page_allows_def dashboard_inv_pre)
  then show ?thesis using assms(1) PgDashboard by (cases e) (simp_all add: app_inv_def app_pre_def)
qed (use assms(1) in \<open>auto simp: Let_def split: page_event.split prod.split\<close>)

lemma page_shared_inv:
  assumes "app_inv b s" "page_ok b (page_step b (ap_page s) e)"
  shows "auth_inv (page_auth (page_step b (ap_page s) e) (sh_auth (ap_shell s)))
    \<and> router_inv (page_router (page_step b (ap_page s) e) e (sh_router (ap_shell s)))"
proof -
  have sh: "auth_inv (sh_auth (ap_shell s))" "router_inv (sh_router (ap_shell s))"
    using assms(1) by (simp_all add: app_inv_def app_pre_def)
  show ?thesis
  proof (cases "ap_page s")
    case (PgDashboard d)
    then show ?thesis using assms(2)
      by (cases e) (simp_all add: dashboard_pre_def layout_inv_def palette_inv_def ly_router_def)
  next
    case (PgLogin l)
    then have "auth_inv (lg_auth l)" "router_inv (lg_router l)" using assms(1) sh by (auto simp: app_inv_def)
    then show ?thesis using PgLogin login_step_inv by (cases e) auto
  next
    case (PgSignup l)
    then have "auth_inv (sp_auth l)" "router_inv (sp_router l)" using assms(1) sh by (auto simp: app_inv_def)
    then show ?thesis using PgSignup signup_step_inv by (cases e) auto
  next
    case (PgLanding l)
    then have "ld_router l = sh_router (ap_shell s)" using assms(1) by (simp add: app_inv_def)
    then show ?thesis using PgLanding sh by (cases e) (simp_all add: router_inv_target)
  next
    case (PgSite scr fr c)
    then have "router_inv (sf_router fr)" using assms(1) sh by (simp add: app_inv_def)
    then show ?thesis using PgSite sh by (cases e) (simp_all add: site_page_step_def frame_step_router)
  next
    case (PgApiRef v)
    then show ?thesis using sh
      by (cases e) (auto simp: router_inv_navigate split: api_ref_event.split)
  qed (use sh in \<open>auto simp: router_inv_navigate split: page_event.split profile_event.split
         forgot_event.split\<close>)
qed

definition page_moved :: "browser \<Rightarrow> page_event \<Rightarrow> app \<Rightarrow> app" where
  "page_moved b e s = (let p = page_step b (ap_page s) e in
     on_shell (\<lambda>sh. sh\<lparr>sh_auth := page_auth p (sh_auth sh), sh_theme := page_theme p e (sh_theme sh),
       sh_router := page_router p e (sh_router sh)\<rparr>) (s\<lparr>ap_page := p\<rparr>))"

lemma app_page_moved: "app_page b e s = app_settle b (page_moved b e s)"
  by (simp add: app_page_def page_moved_def Let_def)

lemma page_moved_pre:
  "app_inv b s \<Longrightarrow> page_ok b (page_step b (ap_page s) e) \<Longrightarrow> app_pre b (page_moved b e s)"
  using page_shared_inv [of b s e] by (simp add: app_pre_def page_moved_def on_shell_def Let_def)

lemma app_page_inv:
  "app_inv b s \<Longrightarrow> page_ok b (page_step b (ap_page s) e) \<Longrightarrow> app_inv b (app_page b e s)"
  unfolding app_page_moved by (intro app_settle_inv page_moved_pre)

text \<open>A new document, and what happens outside the page.\<close>

lemma app_document_inv:
  assumes "auth_inv (sh_auth sh)" "router_inv (sh_router sh)"
  shows "app_inv b (app_document b sh p q)"
  unfolding app_document_def by (rule app_settle_inv) (simp add: app_pre_def assms)

lemma shell_load_inv:
  "auth_inv (sh_auth (shell_load c stored dark r))"
  "router_inv r \<Longrightarrow> router_inv (sh_router (shell_load c stored dark r))"
  using guard_inv_load [of r] by (simp_all add: guard_inv_def) (simp add: shell_load_def auth_inv_mount)

lemma app_settle_shell:
  assumes "app_inv b s" "auth_inv (sh_auth (f (ap_shell s)))" "router_inv (sh_router (f (ap_shell s)))"
  shows "app_inv b (app_settle b (on_shell f s))"
  by (rule app_settle_inv) (use assms in \<open>simp add: app_inv_def app_pre_def on_shell_def\<close>)

lemma skip_apart [simp]:
  "shell_screen (sh\<lparr>sh_skip := k\<rparr>) = shell_screen sh" "guard_inv (sh\<lparr>sh_skip := k\<rparr>) = guard_inv sh"
  "wanted_child (sh\<lparr>sh_skip := k\<rparr>) tab = wanted_child sh tab"
  by (simp_all add: shell_screen_def guard_inv_def wanted_child_def split: option.split)

lemma page_shows_skip [simp]: "page_shows (sh\<lparr>sh_skip := k\<rparr>) p = page_shows sh p"
  by (cases p) simp_all

lemma app_skip_inv: "app_inv b s \<Longrightarrow> app_inv b (on_shell (\<lambda>sh. shell_step sh (ShSkip m e)) s)"
  by (simp add: app_inv_def app_pre_def on_shell_def)

lemma shell_step_auth:
  "sh_auth (shell_step sh (ShTheme t)) = sh_auth sh" "sh_auth (shell_step sh ShSplash) = sh_auth sh"
  "sh_auth (shell_step sh (ShImport m r)) = sh_auth sh"
  by simp_all

lemma app_detached_inv: "app_inv b s \<Longrightarrow> app_inv b (app_detached b e s)"
  unfolding app_detached_def Let_def
  by (rule app_settle_inv)
     (auto simp: app_inv_def app_pre_def on_shell_def auth_inv_step router_inv_navigate
       simp del: auth_step.simps split: login_outcome.split)

lemma form_answer_ok:
  "form_answer p e = Some m \<Longrightarrow> page_ok b (page_step b p m)"
  by (cases p) (auto split: if_splits)

definition app_allows :: "browser \<Rightarrow> app \<Rightarrow> app_event \<Rightarrow> bool" where
  "app_allows b s e \<longleftrightarrow> (case e of AppPage m \<Rightarrow> page_allows b (ap_shell s) (ap_page s) m | _ \<Rightarrow> True)"

lemma app_step_inv:
  assumes "app_inv b s" "app_allows b s e"
  shows "app_inv b (app_step b s e)"
proof -
  have pre: "auth_inv (sh_auth (ap_shell s))" "router_inv (sh_router (ap_shell s))" "guard_inv (ap_shell s)"
    using assms(1) by (simp_all add: app_inv_def app_pre_def)
  have shell: "router_inv (sh_router (shell_step (ap_shell s) x))" for x
    using guard_inv_step [OF pre(3), of x] by (simp add: guard_inv_def del: shell_step.simps)
  show ?thesis
  proof (cases e)
    case (AppPage m)
    then show ?thesis using assms by (simp add: app_allows_def app_page_inv page_step_ok)
  next
    case (AppSkip x)
    then show ?thesis using assms(1) by (simp add: app_skip_inv del: shell_step.simps)
  next
    case AppReload
    then show ?thesis using shell [of ShReload]
      by (simp add: app_document_inv shell_open_def shell_load_inv)
  next
    case AppHome
    then show ?thesis using assms(1)
      by (simp add: app_document_inv shell_open_def shell_load_inv router_inv_start)
  next
    case (AppAuth mine x)
    then show ?thesis using assms(1) form_answer_ok
      by (auto simp: app_page_inv app_detached_inv split: option.split)
  next
    case (AppSaved ok)
    let ?s = "s\<lparr>ap_saving := ap_saving s - 1\<rparr>"
    have "app_inv b ?s" using assms(1) by (simp add: app_inv_def app_pre_def)
    then show ?thesis using AppSaved assms(1) pre
      by (simp add: Let_def app_settle_shell auth_inv_refresh)
  qed (use assms(1) pre shell in \<open>simp_all add: app_settle_shell router_inv_back router_inv_forward
         shell_step_auth del: shell_step.simps\<close>)
qed

lemma app_load_inv: "prefix (js ''/'') url \<Longrightarrow> app_inv b (app_load b c stored dark url p q)"
  unfolding app_load_def by (rule app_document_inv) (simp_all add: shell_load_inv router_inv_start)

text \<open>What the composed view can fire is the mounted page's own, the skip link's or the fallback's.\<close>

lemma fires_app_view:
  "can_fire (app_view b s) e \<Longrightarrow> app_allows b s e"
  by (auto simp: app_view_def Let_def app_allows_def page_allows_def can_fire_map
      split: if_splits option.splits app_event.split)

lemma outside_allowed: "app_outside e \<Longrightarrow> app_allows b s e"
  by (cases e) (simp_all add: app_allows_def page_allows_def)

interpretation application: screen "app_load b c stored dark url p q" "app_step b" "app_view b" app_outside
    "\<lambda>s. prefix (js ''/'') url \<longrightarrow> app_inv b s" for b c stored dark url p q
  by unfold_locales (auto simp: app_load_inv intro: app_step_inv fires_app_view outside_allowed)

end
