(* ===== verification/Visits.thy ===== *)
theory Visits
  imports Application
begin

text \<open>
  What a visit to the application shows: the page of its address and the console behind the
  session, every console page consistent, the way from the sign-in form to the overview and from
  the dashboard back to the form, and what becomes of a sign-in that was left behind. The
  properties rest on the invariant of \<open>Application\<close>, through its interpretation as a \<open>screen\<close>.
\<close>

section \<open>Properties of a visit\<close>

text \<open>Of all the pages only the sessions page has a render that can throw.\<close>

fun may_throw :: "page \<Rightarrow> bool" where
  "may_throw (PgDashboard d) = (case da_child d of Some (ChSessions s) \<Rightarrow> True | _ \<Rightarrow> False)"
| "may_throw p = False"

lemma page_view_throws: "page_view b sh p = None \<Longrightarrow> may_throw p"
proof (cases p)
  case (PgDashboard d)
  then show "page_view b sh p = None \<Longrightarrow> ?thesis"
    by (cases "da_child d") (auto simp: dashboard_view_def Let_def split: child.split elim: child_view.elims)
qed simp_all

lemma app_settle_code [code]:
  "app_settle b s =
     (let s1 = keep_stores (s\<lparr>ap_shell := shell_commit (ap_shell s)\<rparr>);
          s2 = keep_stores (leave (fit_page s1) s1) in
      if may_throw (ap_page s2)
      then (case page_view b (ap_shell s2) (ap_page s2) of
        None \<Rightarrow> leave PgNone (s2\<lparr>ap_shell := shell_throw (br_thrown b) (ap_shell s2)\<rparr>)
      | Some v \<Rightarrow> s2)
      else s2)"
  using page_view_throws by (auto simp: app_settle_def Let_def split: option.split)

definition demo_browser :: browser where
  "demo_browser = \<lparr>br_docs = js ''/docs'', br_year = 2025, br_digest = (\<lambda>x. x), br_writable = True,
     br_formats = \<lparr>fm_money = (\<lambda>x. x), fm_clock = (\<lambda>x. x), fm_day = (\<lambda>x. x), fm_weekday = (\<lambda>x. None),
       fm_number = (\<lambda>n. nat_text (nat n))\<rparr>,
     br_fixed1 = (\<lambda>n d. nat_text (n div d)), br_month = (\<lambda>x. x), br_thrown = None\<rparr>"

text \<open>A dashboard path is absolute: the hypothesis of the properties below at their inputs.\<close>

definition demo_reply :: auth_event where
  "demo_reply = MeReply 0 (Resolved (Some \<lparr>me_user = Some demo_user, me_branding = None\<rparr>) JUndef)"

definition demo_visit :: "string \<Rightarrow> app" where
  "demo_visit url = app_step demo_browser (app_load demo_browser demo_client None False (js url) None None)
     (AppAuth False demo_reply)"

lemma demo_visit_reach:
  "ui_reach (app_load demo_browser demo_client None False (js url) None None)
     (app_step demo_browser) (app_view demo_browser) app_outside (demo_visit url)"
  unfolding demo_visit_def by (rule ui_outside [OF ui_init]) (simp add: demo_reply_def)

lemma demo_visit_page: "\<exists>d. ap_page (demo_visit ''/dashboard/activity'') = PgDashboard d"
proof -
  have "case ap_page (demo_visit ''/dashboard/activity'') of PgDashboard d \<Rightarrow> True | _ \<Rightarrow> False"
    by code_simp
  then show ?thesis by (auto split: page.splits)
qed

lemma console_signed_in:
  assumes "app_inv b s" "ap_page s = PgDashboard d"
  shows "\<not> au_loading (sh_auth (ap_shell s)) \<and> isAuthenticated (sh_auth (ap_shell s))"
proof -
  obtain tab where tab: "shell_screen (ap_shell s) = DashboardScreen tab"
    using assms by (auto simp: app_inv_def)
  then have "\<not> au_loading (sh_auth (ap_shell s))"
    by (simp only: tab [unfolded shell_screen_def, THEN screen_by_path] not_False_eq_True)
  with assms tab show ?thesis by (auto simp: app_inv_def guard_inv_def)
qed

text \<open>C10. The application shows the page of its address, and the console only to a visitor who is signed
  in: in every state that a visit reaches through the buttons, links and forms of the pages shown,
  with answers, failed imports, reloads, sign-outs and the browser's buttons in any order, the
  page is the one of the rendered path with the current session, theme and router, or the error
  fallback; and when it is the dashboard the session is known and signed in.
\<close>
theorem shows_route_and_guards:
  assumes "prefix (js ''/'') url"
    and "ui_reach (app_load b c stored dark url p q) (app_step b) (app_view b) app_outside s"
  shows "page_shows (ap_shell s) (ap_page s)
    \<and> (\<forall>d. ap_page s = PgDashboard d \<longrightarrow>
         \<not> au_loading (sh_auth (ap_shell s)) \<and> isAuthenticated (sh_auth (ap_shell s)))"
proof -
  have s: "app_inv b s" using application.reach_inv [OF assms(2)] assms(1) by simp
  then show ?thesis using console_signed_in by (auto simp: app_inv_def)
qed

theorem shows_route_and_guards_witness:
  "let s = demo_visit ''/dashboard/activity'' in
   (\<exists>d. ap_page s = PgDashboard d) \<and> \<not> au_loading (sh_auth (ap_shell s)) \<and> isAuthenticated (sh_auth (ap_shell s))"
proof -
  have "prefix (js ''/'') (js ''/dashboard/activity'')" by (simp add: js_def)
  note visit = shows_route_and_guards [OF this demo_visit_reach]
  show ?thesis using demo_visit_page visit by auto
qed



lemma app_settle_parts:
  "sh_auth (ap_shell (app_settle b s)) = sh_auth (ap_shell s)"
  "sh_splashDone (ap_shell (app_settle b s)) = sh_splashDone (ap_shell s)"
  "sh_router (ap_shell (app_settle b s)) = sh_router (shell_commit (ap_shell s))"
  by (simp_all add: app_settle_def Let_def shell_throw_def split: option.split)

lemma settle_signed_in: "isAuthenticated (sh_auth s) \<Longrightarrow> sh_router (shell_commit s) = sh_router s"
  by (auto simp: shell_commit_def shell_guard_def useRequireAuth_def split: app_screen.split option.split)

lemma dashboard_screen: "app_render a False (js ''/dashboard'') = DashboardScreen (js ''overview'')"
proof -
  have "list_all (\<lambda>a. app_render a False (js ''/dashboard'') = DashboardScreen (js ''overview'')) [True, False]"
    by code_simp
  then show ?thesis by (cases a) simp_all
qed

text \<open>C35. A sign-in that was left behind still takes the visitor away: when the form was submitted and
  another page is shown since, the answer of the profile request, which comes with the visitor on
  any page, signs the visitor in and leads from that page to the dashboard's overview.
\<close>
theorem late_sign_in_redirects:
  assumes "i < length (au_pending (sh_auth (ap_shell s)))" "au_pending (sh_auth (ap_shell s)) ! i = WaitMe True"
    and "ap_waiting s \<noteq> 0" and "\<not> eb_hasError (sh_boundary (ap_shell s))"
    and "location (sh_router (ap_shell s)) \<noteq> js ''/dashboard''" and "me_user me = Some u"
    and "s' = app_step b s (AppAuth False (MeReply i (Resolved (Some me) e)))"
  shows "isAuthenticated (sh_auth (ap_shell s')) \<and> shell_screen (ap_shell s') = DashboardScreen (js ''overview'')
    \<and> rt_entries (sh_router (ap_shell s')) = js ''/dashboard'' # rt_entries (sh_router (ap_shell s))"
proof -
  define a where "a = auth_step (sh_auth (ap_shell s)) (MeReply i (Resolved (Some me) e))"
  define r where "r = navigate (js ''/dashboard'') (sh_router (ap_shell s))"
  have a: "au_returned a = au_returned (sh_auth (ap_shell s)) @ [LoginSuccess]" "isAuthenticated a" "\<not> au_loading a"
    using assms(1,2,6) by (simp_all add: a_def Let_def refreshMe_settled_def setBranding_def isAuthenticated_def)
  have "to_url (js ''/dashboard'') = js ''/dashboard''" by (simp add: to_url_def js_def)
  then have r: "rt_path r = js ''/dashboard''" "rt_entries r = js ''/dashboard'' # rt_entries (sh_router (ap_shell s))"
    using assms(5) by (simp_all add: r_def navigate_def Let_def)
  have "s' = app_settle b (on_shell (\<lambda>sh. sh\<lparr>sh_auth := a, sh_router := r\<rparr>) s\<lparr>ap_waiting := ap_waiting s - 1\<rparr>)"
    using assms(3,7) a(1) unfolding a_def r_def
    by (simp add: app_detached_def Let_def on_shell_def del: auth_step.simps)
  then have "sh_auth (ap_shell s') = a" "sh_router (ap_shell s') = r"
    "sh_splashDone (ap_shell s') = sh_splashDone (ap_shell s)"
    using a(2) by (simp_all add: app_settle_parts settle_signed_in on_shell_def)
  then show ?thesis using a r by (simp add: shell_screen_def dashboard_screen)
qed

definition demo_left :: app where
  "demo_left = run (app_step demo_browser) (app_load demo_browser demo_client None False (js ''/login'') None None)
     [AppAuth False (MeReply 0 (Resolved None JUndef)), AppPage (PeLogin (LgEmail (js ''a@b.c''))),
      AppPage (PeLogin (LgPassword (js ''secret''))), AppPage (PeLogin LgSubmit),
      AppPage (PeLogin (LgGo (js ''/signup''))),
      AppAuth False (SessionReply 0 (Resolved (Some \<lparr>lr_token = Some (js ''t''), lr_user = None\<rparr>) JUndef))]"

theorem late_sign_in_redirects_witness:
  "let s = app_step demo_browser demo_left (AppAuth False demo_reply) in
   shell_screen (ap_shell demo_left) = SignupScreen \<and>
   shell_screen (ap_shell s) = DashboardScreen (js ''overview'') \<and> isAuthenticated (sh_auth (ap_shell s))"
proof -
  have "let s = demo_left; a = sh_auth (ap_shell s) in
      0 < length (au_pending a) \<and> au_pending a ! 0 = WaitMe True \<and> ap_waiting s \<noteq> 0
      \<and> \<not> eb_hasError (sh_boundary (ap_shell s)) \<and> location (sh_router (ap_shell s)) \<noteq> js ''/dashboard''
      \<and> shell_screen (ap_shell s) = SignupScreen"
    by code_simp
  then show ?thesis unfolding Let_def demo_reply_def
    using late_sign_in_redirects [of 0 demo_left, OF _ _ _ _ _ _ refl] by simp
qed

section \<open>Signing in\<close>

text \<open>The form and the shell around it at the sign-in page's address.\<close>

definition at_login :: "app \<Rightarrow> login_page \<Rightarrow> bool" where
  "at_login s l \<longleftrightarrow> ap_page s = PgLogin l \<and> \<not> eb_hasError (sh_boundary (ap_shell s))
     \<and> rt_path (sh_router (ap_shell s)) = js ''/login''
     \<and> lg_auth l = sh_auth (ap_shell s) \<and> lg_router l = sh_router (ap_shell s)"

lemma at_login_screen: "rt_path (sh_router sh) = js ''/login'' \<Longrightarrow> shell_screen sh = LoginScreen"
  by (simp add: shell_screen_def login_screen)

lemma login_settled:
  assumes "\<not> eb_hasError (sh_boundary (ap_shell s))" "rt_path (sh_router (ap_shell s)) = js ''/login''"
    and "ap_page s = PgNone \<and> l = login_mount (sh_auth (ap_shell s)) (sh_router (ap_shell s))
      \<or> ap_page s = PgLogin l"
  shows "ap_shell (app_settle b s) = ap_shell s
    \<and> at_login (app_settle b s) (l\<lparr>lg_auth := sh_auth (ap_shell s), lg_router := sh_router (ap_shell s)\<rparr>)"
proof -
  let ?l = "l\<lparr>lg_auth := sh_auth (ap_shell s), lg_router := sh_router (ap_shell s)\<rparr>"
  have scr: "shell_screen (ap_shell s) = LoginScreen" using assms(2) by (rule at_login_screen)
  then have c: "shell_commit (ap_shell s) = ap_shell s" by (simp add: commit_plain)
  have k: "keep_stores s = s" "keep_stores (leave (PgLogin ?l) s) = leave (PgLogin ?l) s"
    using assms(3) by (auto simp: keep_stores_def)
  have "fit_page s = PgLogin ?l"
    using assms(1,3) scr by (elim disjE conjE) (simp_all add: fit_page_def Let_def login_mount_def)
  then have "app_settle b s = leave (PgLogin ?l) s" by (simp add: app_settle_def Let_def c k)
  then show ?thesis using assms(1,2) by (simp add: at_login_def)
qed

lemma login_event:
  assumes "at_login s l" "lg_router (login_step l e) = lg_router l"
  shows "at_login (app_page b (PeLogin e) s) (login_step l e)"
    and "ap_shell (app_page b (PeLogin e) s) = (ap_shell s)\<lparr>sh_auth := lg_auth (login_step l e)\<rparr>"
proof -
  let ?s = "page_moved b (PeLogin e) s" and ?l = "login_step l e"
  have l: "ap_page s = PgLogin l" "lg_router ?l = sh_router (ap_shell s)"
    using assms by (simp_all add: at_login_def)
  have m: "ap_page ?s = PgLogin ?l" "ap_shell ?s = (ap_shell s)\<lparr>sh_auth := lg_auth ?l\<rparr>"
    using l by (simp_all add: page_moved_def on_shell_def Let_def)
  have "app_page b (PeLogin e) s = app_settle b ?s" by (rule app_page_moved)
  moreover have "ap_shell (app_settle b ?s) = ap_shell ?s
      \<and> at_login (app_settle b ?s) (?l\<lparr>lg_auth := sh_auth (ap_shell ?s), lg_router := sh_router (ap_shell ?s)\<rparr>)"
    by (rule login_settled) (use assms(1) in \<open>simp_all add: m at_login_def\<close>)
  moreover have "?l\<lparr>lg_auth := sh_auth (ap_shell ?s), lg_router := sh_router (ap_shell ?s)\<rparr> = ?l"
    using l(2) by (simp add: m)
  ultimately show "at_login (app_page b (PeLogin e) s) ?l"
    "ap_shell (app_page b (PeLogin e) s) = (ap_shell s)\<lparr>sh_auth := lg_auth ?l\<rparr>"
    using m(2) by simp_all
qed

lemma open_login:
  defines "path \<equiv> js ''/login''"
  shows "\<exists>r. at_login (app_load b c stored dark path p q) (login_mount (auth_mount (setAuthToken None c)) r)"
    and "fresh c path (ap_shell (app_load b c stored dark path p q))"
proof -
  let ?sh = "shell_load c stored dark (router_start path)"
  have "strip_hash path = path" "path \<noteq> []" by (simp_all add: path_def strip_hash_def js_def)
  then have f: "fresh c path ?sh" by (rule load_fresh) (simp add: path_def login_screen)
  have l: "ap_shell (app_load b c stored dark path p q) = ?sh
    \<and> at_login (app_load b c stored dark path p q)
       ((login_mount (sh_auth ?sh) (sh_router ?sh))\<lparr>lg_auth := sh_auth ?sh, lg_router := sh_router ?sh\<rparr>)"
    unfolding app_load_def app_document_def
    by (rule login_settled [of "\<lparr>ap_shell = ?sh, ap_page = PgNone, ap_waiting = 0, ap_saving = 0,
        ap_project_store = p, ap_sidebar_store = q\<rparr>", simplified])
       (use f in \<open>simp_all add: fresh_def path_def\<close>)
  then have "at_login (app_load b c stored dark path p q) (login_mount (auth_mount (setAuthToken None c)) (sh_router ?sh))"
    using f by (simp add: fresh_def login_mount_def)
  then show "\<exists>r. at_login (app_load b c stored dark path p q) (login_mount (auth_mount (setAuthToken None c)) r)" ..
  show "fresh c path (ap_shell (app_load b c stored dark path p q))" using l f by simp
qed

lemma detached_login:
  assumes "at_login s l" "au_returned (auth_step (lg_auth l) e) = au_returned (lg_auth l)"
  shows "at_login (app_detached b e s) (l\<lparr>lg_auth := auth_step (lg_auth l) e\<rparr>)"
    "ap_shell (app_detached b e s) = (ap_shell s)\<lparr>sh_auth := auth_step (lg_auth l) e\<rparr>"
proof -
  let ?a = "auth_step (lg_auth l) e"
  let ?s = "on_shell (\<lambda>sh. sh\<lparr>sh_auth := ?a\<rparr>) s"
  have d: "app_detached b e s = app_settle b ?s"
    using assms by (simp add: app_detached_def Let_def at_login_def del: auth_step.simps)
  have "ap_shell (app_settle b ?s) = ap_shell ?s
      \<and> at_login (app_settle b ?s) (l\<lparr>lg_auth := sh_auth (ap_shell ?s), lg_router := sh_router (ap_shell ?s)\<rparr>)"
    by (rule login_settled) (use assms(1) in \<open>simp_all add: at_login_def on_shell_def\<close>)
  moreover have "ap_shell ?s = (ap_shell s)\<lparr>sh_auth := ?a\<rparr>" by (simp only: on_shell_def) simp
  moreover have "l\<lparr>lg_auth := sh_auth ((ap_shell s)\<lparr>sh_auth := ?a\<rparr>), lg_router := sh_router ((ap_shell s)\<lparr>sh_auth := ?a\<rparr>)\<rparr>
      = l\<lparr>lg_auth := ?a\<rparr>"
    using assms(1) by (simp only: at_login_def) (cases l, simp del: auth_step.simps)
  ultimately show "at_login (app_detached b e s) (l\<lparr>lg_auth := ?a\<rparr>)"
    "ap_shell (app_detached b e s) = (ap_shell s)\<lparr>sh_auth := ?a\<rparr>"
    by (simp_all only: d)
qed

lemma overview_settled:
  assumes "app_pre b s" "isAuthenticated (sh_auth (ap_shell s))"
    and "shell_screen (shell_commit (ap_shell s)) = DashboardScreen (js ''overview'')"
    and "\<not> eb_hasError (sh_boundary (shell_commit (ap_shell s)))"
  shows "ap_shell (app_settle b s) = shell_commit (ap_shell s)"
proof -
  define s1 where "s1 = keep_stores (s\<lparr>ap_shell := shell_commit (ap_shell s)\<rparr>)"
  have sh: "ap_shell s1 = shell_commit (ap_shell s)" by (simp add: s1_def)
  have "app_pre b s1"
    using assms(1) guard_inv_commit [of "ap_shell s"] by (simp add: app_pre_def s1_def guard_inv_def)
  then have "map_option child_name (da_child (fit_dashboard (js ''overview'') s1)) = wanted_child (ap_shell s1) (js ''overview'')"
    using assms(2) by (intro fit_dashboard_good(5)) (simp_all add: sh)
  then have "\<not> may_throw (PgDashboard (fit_dashboard (js ''overview'') s1))"
    by (auto simp: wanted_child_def dashboard_child_def split: option.splits child.splits if_splits)
  moreover have "fit_page s1 = PgDashboard (fit_dashboard (js ''overview'') s1)"
    using assms(3,4) by (simp add: fit_page_def Let_def sh)
  ultimately obtain v where "page_view b (shell_commit (ap_shell s)) (fit_page s1) = Some v"
    using page_view_throws [of b "shell_commit (ap_shell s)" "fit_page s1"] by auto
  then show ?thesis by (simp add: app_settle_def Let_def s1_def [symmetric] sh)
qed

text \<open>A render of the overview whose module is there changes nothing for a visitor who is signed in.\<close>

lemma commit_overview:
  assumes "shell_screen s = DashboardScreen (js ''overview'')" "\<not> eb_hasError (sh_boundary s)"
    and "isAuthenticated (sh_auth s)" "sh_imports s ''Overview'' = Finished ImportDone"
  shows "shell_commit s = s"
  using assms
  by (simp add: shell_commit_def lazy_module_def dashboard_child_def render_lazy_def shell_guard_def useRequireAuth_def)

lemma overview_mounted:
  assumes "app_inv b s" "shell_screen (ap_shell s) = DashboardScreen (js ''overview'')"
    and "\<not> eb_hasError (sh_boundary (ap_shell s))" "sh_imports (ap_shell s) ''Overview'' = Finished ImportDone"
  shows "\<exists>d w. ap_page s = PgDashboard d \<and> da_child d = Some (ChOverview w) \<and> ow_user w = au_user (sh_auth (ap_shell s))"
proof -
  have "page_shows (ap_shell s) (ap_page s)" using assms(1) by (simp add: app_inv_def)
  then obtain d where d: "ap_page s = PgDashboard d" "dashboard_inv d" "ly_auth (da_layout d) = sh_auth (ap_shell s)"
    "map_option child_name (da_child d) = wanted_child (ap_shell s) (js ''overview'')"
    using assms(2,3) by (cases "ap_page s") auto
  then have "map_option child_name (da_child d) = Some ''Overview''"
    using assms(4) by (simp add: wanted_child_def dashboard_child_def)
  then obtain w where "da_child d = Some (ChOverview w)" by (auto elim: child_name.elims)
  with d show ?thesis by (auto simp: dashboard_inv_def)
qed

definition sign_in_events :: "jstr \<Rightarrow> jstr \<Rightarrow> v1LoginResponse \<Rightarrow> v1MeResponse \<Rightarrow> jsval \<Rightarrow> app_event list" where
  "sign_in_events email password resp me denied =
     [AppAuth False (MeReply 0 (Resolved None denied)),
      AppPage (PeLogin (LgEmail email)), AppPage (PeLogin (LgPassword password)), AppPage (PeLogin LgSubmit),
      AppAuth True (SessionReply 0 (Resolved (Some resp) JUndef)),
      AppAuth True (MeReply 0 (Resolved (Some me) JUndef)),
      AppImport ''Overview'' ImportDone]"

text \<open>A visit that is still at the form.\<close>

definition signing :: "browser \<Rightarrow> app \<Rightarrow> login_page \<Rightarrow> bool" where
  "signing b s l \<longleftrightarrow> at_login s l \<and> app_inv b s \<and> sh_imports (ap_shell s) = (\<lambda>_. NotRequested)
     \<and> location (sh_router (ap_shell s)) = js ''/login''"

lemma signing_event:
  assumes "signing b s l" "lg_router (login_step l e) = lg_router l"
  shows "signing b (app_page b (PeLogin e) s) (login_step l e)"
proof -
  have s: "at_login s l" "app_inv b s" using assms(1) by (simp_all add: signing_def)
  then have "app_inv b (app_page b (PeLogin e) s)" by (intro app_page_inv) (simp_all add: at_login_def)
  then show ?thesis using assms login_event [OF s(1) assms(2), of b] by (simp add: signing_def)
qed

lemma signing_detached:
  assumes "signing b s l" "au_returned (auth_step (lg_auth l) e) = au_returned (lg_auth l)"
  shows "signing b (app_detached b e s) (l\<lparr>lg_auth := auth_step (lg_auth l) e\<rparr>)"
proof -
  have s: "at_login s l" "app_inv b s" using assms(1) by (simp_all add: signing_def)
  then show ?thesis
    using assms detached_login [OF s(1) assms(2), of b] app_detached_inv [OF s(2), of e]
    by (simp add: signing_def del: auth_step.simps)
qed

lemma signing_open:
  "\<exists>r. signing b (app_load b c stored dark (js ''/login'') p q) (login_mount (auth_mount (setAuthToken None c)) r)"
proof -
  have "prefix (js ''/'') (js ''/login'')" by (simp add: js_def)
  then have "app_inv b (app_load b c stored dark (js ''/login'') p q)" by (rule app_load_inv)
  then show ?thesis using open_login(1) [of b c stored dark p q] open_login(2) [of c b stored dark p q] by (auto simp: signing_def fresh_def)
qed

lemma signing_answer:
  assumes "signing b s l" "lg_waiting l \<noteq> 0"
  shows "app_step b s (AppAuth True e) = app_page b (PeLogin (LgAuth e)) s"
  using assms by (simp add: signing_def at_login_def)

text \<open>The events up to the profile's answer, at the form.\<close>

lemma form_until_profile:
  assumes "email \<noteq> []" "password \<noteq> []" "truthy (lr_token resp)"
    and "s = run (app_step b) (app_load b c stored dark (js ''/login'') p q) (take 5 (sign_in_events email password resp me denied))"
  shows "\<exists>l. signing b s l \<and> lg_waiting l = 1 \<and> au_pending (lg_auth l) = [WaitMe True]
      \<and> au_returned (lg_auth l) = [] \<and> au_token (lg_auth l) = lr_token resp
      \<and> au_requests (lg_auth l) = [GetMe, PostLogin email password, GetMe]"
proof -
  define s0 where "s0 = app_load b c stored dark (js ''/login'') p q"
  define e1 where "e1 = MeReply 0 (Resolved None denied)"
  obtain r where s0: "signing b s0 (login_mount (auth_mount (setAuthToken None c)) r)"
    using signing_open s0_def by blast
  define a1 where "a1 = auth_step (auth_mount (setAuthToken None c)) e1"
  have a1: "au_pending a1 = []" "au_returned a1 = []" "au_requests a1 = [GetMe]"
    by (simp_all add: a1_def e1_def auth_mount_def auth_defs Let_def)
  define s1 where "s1 = app_step b s0 (AppAuth False e1)"
  have s1: "signing b s1 (login_mount a1 r)"
    using signing_detached [OF s0, of e1] a1(2)
    by (simp add: s1_def a1_def login_mount_def auth_mount_def refreshMe_def del: auth_step.simps)
  define l4 where "l4 = (login_mount (login email password a1) r)
    \<lparr>lg_email := email, lg_password := password, lg_loading := True, lg_waiting := 1\<rparr>"
  define s4 where "s4 = app_step b (app_step b (app_step b s1 (AppPage (PeLogin (LgEmail email))))
      (AppPage (PeLogin (LgPassword password)))) (AppPage (PeLogin LgSubmit))"
  have s4: "signing b s4 l4"
    using signing_event [OF signing_event [OF signing_event [OF s1, of "LgEmail email"], of "LgPassword password"], of LgSubmit]
      assms(1,2) by (simp add: s4_def l4_def login_mount_def login_submit_def)
  define e5 where "e5 = SessionReply 0 (Resolved (Some resp) JUndef)"
  have a5: "au_pending (auth_step (lg_auth l4) e5) = [WaitMe True]" "au_returned (auth_step (lg_auth l4) e5) = []"
    "au_token (auth_step (lg_auth l4) e5) = lr_token resp"
    "au_requests (auth_step (lg_auth l4) e5) = [GetMe, PostLogin email password, GetMe]"
    using assms(3) a1 by (simp_all add: l4_def e5_def auth_defs login_mount_def Let_def remove_nth_def)
  have "login_step l4 (LgAuth e5) = l4\<lparr>lg_auth := auth_step (lg_auth l4) e5\<rparr>"
    using a5(2) by (simp add: login_auth_def Let_def del: auth_step.simps)
  moreover have "s = app_step b s4 (AppAuth True e5)"
    by (simp add: assms(4) sign_in_events_def s4_def s1_def s0_def e1_def e5_def)
  ultimately have "signing b s (l4\<lparr>lg_auth := auth_step (lg_auth l4) e5\<rparr>)"
    using signing_event [OF s4, of "LgAuth e5"] signing_answer [OF s4] by (simp add: l4_def)
  then show ?thesis using a5 by (intro exI) (auto simp: l4_def)
qed

text \<open>A page that leads a signed-in visitor to the dashboard's address: the overview is shown, and its
  module is asked for.\<close>

lemma dashboard_opened:
  assumes "app_pre b m" "isAuthenticated (sh_auth (ap_shell m))" "\<not> au_loading (sh_auth (ap_shell m))"
    and "rt_path (sh_router (ap_shell m)) = js ''/dashboard''"
    and "\<not> eb_hasError (sh_boundary (ap_shell m))" "sh_imports (ap_shell m) = (\<lambda>_. NotRequested)"
  shows "app_inv b (app_settle b m)"
    "shell_screen (ap_shell (app_settle b m)) = DashboardScreen (js ''overview'')"
    "\<not> eb_hasError (sh_boundary (ap_shell (app_settle b m)))"
    "sh_imports (ap_shell (app_settle b m)) ''Overview'' = Importing"
    "sh_auth (ap_shell (app_settle b m)) = sh_auth (ap_shell m)"
proof -
  have scr: "shell_screen (ap_shell m) = DashboardScreen (js ''overview'')"
    using assms(3,4) by (simp add: shell_screen_def dashboard_screen)
  obtain im where im: "shell_commit (ap_shell m) = (ap_shell m)\<lparr>sh_imports := im\<rparr>" "im ''Overview'' = Importing"
  proof -
    obtain im where c: "shell_commit (ap_shell m) = (ap_shell m)\<lparr>sh_imports := im,
        sh_router := useRequireAuth (sh_auth (ap_shell m)) (sh_router (ap_shell m))\<rparr>" "im ''Overview'' = Importing"
      using commit_dashboard [OF scr assms(5,6)] by (auto simp: dashboard_child_def)
    have "useRequireAuth (sh_auth (ap_shell m)) q = q" for q using assms(2) by (simp add: useRequireAuth_def)
    then have "shell_commit (ap_shell m) = (ap_shell m)\<lparr>sh_imports := im\<rparr>"
      unfolding c(1) by (cases "ap_shell m") simp
    then show thesis using that c(2) by blast
  qed
  have scr': "shell_screen (shell_commit (ap_shell m)) = DashboardScreen (js ''overview'')"
    using scr by (simp add: im(1) shell_screen_def)
  have sh: "ap_shell (app_settle b m) = (ap_shell m)\<lparr>sh_imports := im\<rparr>"
    using overview_settled [OF assms(1,2) scr'] assms(5) by (simp add: im(1))
  show "app_inv b (app_settle b m)" using assms(1) by (rule app_settle_inv)
  show "shell_screen (ap_shell (app_settle b m)) = DashboardScreen (js ''overview'')"
    using scr' by (simp add: sh im(1))
  show "\<not> eb_hasError (sh_boundary (ap_shell (app_settle b m)))"
    "sh_imports (ap_shell (app_settle b m)) ''Overview'' = Importing"
    "sh_auth (ap_shell (app_settle b m)) = sh_auth (ap_shell m)"
    using assms(5) im(2) by (simp_all add: sh)
qed

lemma navigate_dashboard:
  assumes "location r \<noteq> js ''/dashboard''"
  shows "rt_path (navigate (js ''/dashboard'') r) = js ''/dashboard''"
proof -
  have "to_url (js ''/dashboard'') = js ''/dashboard''" by (simp add: to_url_def js_def)
  with assms show ?thesis by (simp add: navigate_def Let_def)
qed

text \<open>The profile's answer leads from the form to the overview.\<close>

lemma profile_opens_overview:
  assumes "signing b s l" "lg_waiting l = 1" "au_pending (lg_auth l) = [WaitMe True]" "au_returned (lg_auth l) = []"
    and "me_user me = Some u"
  defines "s' \<equiv> app_step b s (AppAuth True (MeReply 0 (Resolved (Some me) JUndef)))"
  shows "app_inv b s'" "shell_screen (ap_shell s') = DashboardScreen (js ''overview'')"
    "\<not> eb_hasError (sh_boundary (ap_shell s'))" "sh_imports (ap_shell s') ''Overview'' = Importing"
    "au_user (sh_auth (ap_shell s')) = Some u" "\<not> au_loading (sh_auth (ap_shell s'))"
    "au_token (sh_auth (ap_shell s')) = au_token (lg_auth l)"
    "au_requests (sh_auth (ap_shell s')) = au_requests (lg_auth l)"
proof -
  let ?e = "MeReply 0 (Resolved (Some me) JUndef)"
  define a where "a = auth_step (lg_auth l) ?e"
  define m where "m = page_moved b (PeLogin (LgAuth ?e)) s"
  have a: "au_returned a = [LoginSuccess]" "au_user a = Some u" "\<not> au_loading a" "isAuthenticated a"
    "au_token a = au_token (lg_auth l)" "au_requests a = au_requests (lg_auth l)"
    using assms(3-5) by (simp_all add: a_def refreshMe_settled_def setBranding_def isAuthenticated_def Let_def)
  have s: "at_login s l" "app_inv b s" "sh_imports (ap_shell s) = (\<lambda>_. NotRequested)"
    "location (sh_router (ap_shell s)) = js ''/login''"
    using assms(1) by (simp_all add: signing_def)
  have s': "s' = app_settle b m"
    unfolding s'_def m_def using signing_answer [OF assms(1)] assms(2) by (simp add: app_page_moved)
  have l: "lg_auth (login_step l (LgAuth ?e)) = a"
    "lg_router (login_step l (LgAuth ?e)) = navigate (js ''/dashboard'') (lg_router l)"
    using assms(2,4) a(1) by (simp_all add: login_auth_def a_def [symmetric] Let_def login_returned_def del: auth_step.simps)
  have m: "ap_shell m = (ap_shell s)\<lparr>sh_auth := a, sh_router := navigate (js ''/dashboard'') (sh_router (ap_shell s))\<rparr>"
    using s(1) l by (simp add: m_def page_moved_def on_shell_def Let_def at_login_def del: login_step.simps)
  have path: "rt_path (sh_router (ap_shell m)) = js ''/dashboard''"
    using s(4) navigate_dashboard [of "sh_router (ap_shell s)"] by (simp add: m js_def)
  have "app_pre b m" unfolding m_def
    by (rule page_moved_pre [OF s(2)]) (use s(1) in \<open>simp add: at_login_def\<close>)
  note opened = dashboard_opened [OF this _ _ path]
  have "sh_auth (ap_shell m) = a" "\<not> eb_hasError (sh_boundary (ap_shell m))"
    "sh_imports (ap_shell m) = (\<lambda>_. NotRequested)"
    using s(1,3) by (simp_all add: m at_login_def)
  then show "app_inv b s'" "shell_screen (ap_shell s') = DashboardScreen (js ''overview'')"
    "\<not> eb_hasError (sh_boundary (ap_shell s'))" "sh_imports (ap_shell s') ''Overview'' = Importing"
    "au_user (sh_auth (ap_shell s')) = Some u" "\<not> au_loading (sh_auth (ap_shell s'))"
    "au_token (sh_auth (ap_shell s')) = au_token (lg_auth l)"
    "au_requests (sh_auth (ap_shell s')) = au_requests (lg_auth l)"
    using opened a by (simp_all add: s')
qed

lemma module_mounts_overview:
  assumes "app_inv b s" "shell_screen (ap_shell s) = DashboardScreen (js ''overview'')"
    and "\<not> eb_hasError (sh_boundary (ap_shell s))" "sh_imports (ap_shell s) ''Overview'' = Importing"
    and "au_user (sh_auth (ap_shell s)) = Some u"
  defines "s' \<equiv> app_step b s (AppImport ''Overview'' ImportDone)"
  shows "\<exists>d w. ap_page s' = PgDashboard d \<and> da_child d = Some (ChOverview w) \<and> ow_user w = Some u"
    and "sh_auth (ap_shell s') = sh_auth (ap_shell s)"
proof -
  let ?sh = "(ap_shell s)\<lparr>sh_imports := (sh_imports (ap_shell s))(''Overview'' := Finished ImportDone)\<rparr>"
  let ?m = "on_shell (\<lambda>sh. shell_step sh (ShImport ''Overview'' ImportDone)) s"
  have auth: "isAuthenticated (sh_auth (ap_shell s))" using assms(5) by (simp add: isAuthenticated_def)
  have scr: "shell_screen ?sh = DashboardScreen (js ''overview'')" using assms(2) by (simp add: shell_screen_def)
  have c: "shell_commit ?sh = ?sh" by (rule commit_overview) (use scr auth assms(3) in simp_all)
  then have m: "ap_shell ?m = ?sh" using assms(4) by (simp add: on_shell_def)
  have inv: "app_inv b s'" unfolding s'_def by (rule app_step_inv [OF assms(1)]) (simp add: app_allows_def)
  have "app_pre b ?m" using assms(1) m by (simp add: app_inv_def app_pre_def) (simp add: on_shell_def)
  then have sh: "ap_shell s' = ?sh"
    unfolding s'_def using overview_settled [of b ?m] c scr auth assms(3) by (simp add: m del: shell_step.simps)
  show "\<exists>d w. ap_page s' = PgDashboard d \<and> da_child d = Some (ChOverview w) \<and> ow_user w = Some u"
    using overview_mounted [OF inv] scr assms(3,5) by (simp add: sh)
  show "sh_auth (ap_shell s') = sh_auth (ap_shell s)" by (simp add: sh)
qed

text \<open>C12. Signing in opens the console: a visitor without a session who fills in the sign-in form and
  submits it, with answers that carry a token and a profile, sees the dashboard's overview as soon
  as its module has come, with the profile's user; the requests of the session were exactly the
  profile, the sign-in with what was typed, and the profile again, and the token is the answer's.
\<close>
theorem sign_in_opens_console:
  assumes "email \<noteq> []" "password \<noteq> []" "truthy (lr_token resp)" "me_user me = Some u"
    and "s = run (app_step b) (app_load b c stored dark (js ''/login'') p q)
      (sign_in_events email password resp me denied)"
  shows "(\<exists>d w. ap_page s = PgDashboard d \<and> da_child d = Some (ChOverview w) \<and> ow_user w = Some u)
    \<and> au_token (sh_auth (ap_shell s)) = lr_token resp
    \<and> au_requests (sh_auth (ap_shell s)) = [GetMe, PostLogin email password, GetMe]"
proof -
  define s5 where "s5 = run (app_step b) (app_load b c stored dark (js ''/login'') p q)
    (take 5 (sign_in_events email password resp me denied))"
  obtain l where l: "signing b s5 l" "lg_waiting l = 1" "au_pending (lg_auth l) = [WaitMe True]"
    "au_returned (lg_auth l) = []" "au_token (lg_auth l) = lr_token resp"
    "au_requests (lg_auth l) = [GetMe, PostLogin email password, GetMe]"
    using form_until_profile [OF assms(1-3) s5_def] by blast
  define s6 where "s6 = app_step b s5 (AppAuth True (MeReply 0 (Resolved (Some me) JUndef)))"
  note s6 = profile_opens_overview [OF l(1-4) assms(4), folded s6_def]
  have "s = app_step b s6 (AppImport ''Overview'' ImportDone)"
    by (simp add: assms(5) s6_def s5_def sign_in_events_def del: app_step.simps)
  then show ?thesis using module_mounts_overview [OF s6(1-5)] s6(7,8) l(5,6) by simp
qed

theorem sign_in_opens_console_witness:
  "let s = run (app_step demo_browser) (app_load demo_browser demo_client None False (js ''/login'') None None)
       (sign_in_events (js ''a@b.c'') (js ''secret'') \<lparr>lr_token = Some (js ''t''), lr_user = None\<rparr>
         \<lparr>me_user = Some demo_user, me_branding = None\<rparr> JUndef) in
   \<exists>d w. ap_page s = PgDashboard d \<and> da_child d = Some (ChOverview w) \<and> ow_user w = Some demo_user"
proof -
  have "js ''a@b.c'' \<noteq> []" "js ''secret'' \<noteq> []" by (simp_all add: js_def)
  moreover have "truthy (lr_token \<lparr>lr_token = Some (js ''t''), lr_user = None\<rparr>)" by (simp add: js_def)
  ultimately show ?thesis unfolding Let_def using sign_in_opens_console [OF _ _ _ _ refl] by simp
qed

section \<open>Signing out\<close>

lemma login_shown:
  assumes "\<not> eb_hasError (sh_boundary (ap_shell s))" "rt_path (sh_router (ap_shell s)) = js ''/login''"
    and "\<forall>l. ap_page s \<noteq> PgLogin l"
  shows "ap_shell (app_settle b s) = ap_shell s
    \<and> ap_page (app_settle b s) = PgLogin (login_mount (sh_auth (ap_shell s)) (sh_router (ap_shell s)))"
proof -
  define s1 where "s1 = keep_stores (s\<lparr>ap_shell := shell_commit (ap_shell s)\<rparr>)"
  have scr: "shell_screen (ap_shell s) = LoginScreen" using assms(2) by (rule at_login_screen)
  then have "shell_commit (ap_shell s) = ap_shell s" by (simp add: commit_plain)
  then have s1: "ap_shell s1 = ap_shell s" "ap_page s1 = ap_page s" by (simp_all add: s1_def)
  have "fit_page s1 = PgLogin (login_mount (sh_auth (ap_shell s)) (sh_router (ap_shell s)))"
    using assms(1,3) scr by (simp add: fit_page_def Let_def s1 split: page.split)
  then show ?thesis by (simp add: app_settle_def Let_def s1_def [symmetric] s1(1))
qed

lemma navigate_login:
  assumes "location r \<noteq> js ''/login'' \<or> rt_path r = js ''/login''"
  shows "rt_path (navigate (js ''/login'') r) = js ''/login''"
proof -
  have "to_url (js ''/login'') = js ''/login''" by (simp add: to_url_def js_def)
  with assms show ?thesis by (auto simp: navigate_def Let_def)
qed

lemma sign_out_path:
  assumes "location (ly_router l) \<noteq> js ''/login''"
  shows "rt_path (ly_router (sign_out l)) = js ''/login''" "ly_auth (sign_out l) = logout (ly_auth l)"
proof -
  let ?r = "ly_router (set_auth (logout (ly_auth l)) l)"
  have "?r = ly_router l \<or> ?r = navigate (js ''/login'') (ly_router l)"
    by (simp add: set_auth_def Let_def useRequireAuth_def ly_router_def on_router_def)
  then have "location ?r \<noteq> js ''/login'' \<or> rt_path ?r = js ''/login''"
    using assms navigate_login by metis
  then show "rt_path (ly_router (sign_out l)) = js ''/login''"
    using navigate_login by (simp add: sign_out_def ly_router_def on_router_def)
  show "ly_auth (sign_out l) = logout (ly_auth l)" by (simp add: sign_out_def set_auth_def Let_def)
qed

text \<open>C13. Signing out leaves the console: wherever on the dashboard a visit stands, the sign-out button
  ends the session, in the provider and in the client that sends the requests, takes the address to
  the sign-in page, and an empty sign-in form is what the application shows next.
\<close>
theorem sign_out_shows_login:
  assumes "prefix (js ''/'') url"
    and "ui_reach (app_load b c stored dark url p q) (app_step b) (app_view b) app_outside s"
    and "ap_page s = PgDashboard d"
    and "s' = app_step b s (AppPage (PeDashboard (DaLayout LySignOut)))"
  shows "ap_page s' = PgLogin (login_mount (sh_auth (ap_shell s')) (sh_router (ap_shell s')))
    \<and> rt_path (sh_router (ap_shell s')) = js ''/login''
    \<and> \<not> isAuthenticated (sh_auth (ap_shell s'))
    \<and> getAuthToken (au_client (sh_auth (ap_shell s'))) = None"
proof -
  define m where "m = page_moved b (PeDashboard (DaLayout LySignOut)) s"
  have s: "app_inv b s" using application.reach_inv [OF assms(2)] assms(1) by simp
  then obtain tab where d: "shell_screen (ap_shell s) = DashboardScreen tab" "ly_router (da_layout d) = sh_router (ap_shell s)"
    "\<not> eb_hasError (sh_boundary (ap_shell s))"
    using assms(3) by (auto simp: app_inv_def)
  have "strip_hash (rt_path (sh_router (ap_shell s))) = location (sh_router (ap_shell s))"
    using s by (simp add: app_inv_def app_pre_def router_inv_def)
  moreover have "strip_hash (rt_path (sh_router (ap_shell s))) \<noteq> js ''/login''"
    using d(1) screen_by_path dashboard_not_login unfolding shell_screen_def by blast
  ultimately have "location (ly_router (da_layout d)) \<noteq> js ''/login''" using d(2) by simp
  note out = sign_out_path [OF this]
  have m: "\<forall>l. ap_page m \<noteq> PgLogin l" "sh_auth (ap_shell m) = logout (ly_auth (da_layout d))"
    "rt_path (sh_router (ap_shell m)) = js ''/login''" "sh_boundary (ap_shell m) = sh_boundary (ap_shell s)"
    using assms(3) out by (simp_all add: m_def page_moved_def on_shell_def Let_def child_render_def)
  have s': "s' = app_settle b m" by (simp add: assms(4) app_page_moved m_def)
  show ?thesis using login_shown [OF _ m(3,1), of b] m d(3)
    by (simp add: s' logout_def drop_session_def set_session_def setBranding_def isAuthenticated_def
        setAuthToken_def getAuthToken_def)
qed

theorem sign_out_shows_login_witness:
  "let s = app_step demo_browser (demo_visit ''/dashboard/activity'') (AppPage (PeDashboard (DaLayout LySignOut))) in
   (\<exists>l. ap_page s = PgLogin l) \<and> \<not> isAuthenticated (sh_auth (ap_shell s))"
proof -
  have "prefix (js ''/'') (js ''/dashboard/activity'')" by (simp add: js_def)
  moreover obtain d where "ap_page (demo_visit ''/dashboard/activity'') = PgDashboard d"
    using demo_visit_page by blast
  ultimately show ?thesis unfolding Let_def using sign_out_shows_login [OF _ demo_visit_reach _ refl] by blast
qed

end
