(* ===== verification/Journey.thy ===== *)
theory Journey
  imports Console Visits
begin

text \<open>
  A whole visit across pages: from the landing page over the sign-up form to the console, on the
  application's machine of \<open>Application\<close>, whose shell hands the session and the router on from
  page to page.
\<close>

section \<open>The addresses that the application offers\<close>

text \<open>Buttons, routed links, the sidebar and the palette name plain addresses only, which the browser
  leaves as they are: what \<open>Router\<close> proves of such addresses is true of every visit that starts at
  one and never types into the address bar.
\<close>

lemma offered_addresses_plain:
  "list_all (\<lambda>(p, scr). plain_address (to_url (js p))) site_pages"
  "list_all (\<lambda>e. plain_address (to_url (js (''/dashboard/'' @ ne_key e)))) allNav"
  "list_all (\<lambda>i. plain_address (to_url (ci_target i))) palette_items"
  by code_simp+

section \<open>The landing page\<close>

text \<open>A render without a lazy module, an error or the console changes the page only.\<close>

lemma settle_plain:
  assumes "plain (shell_screen (ap_shell s))" "\<not> eb_hasError (sh_boundary (ap_shell s))"
    and "\<forall>d. ap_page s \<noteq> PgDashboard d"
  shows "app_settle b s = leave (fit_page s) s"
proof -
  have c: "shell_commit (ap_shell s) = ap_shell s" using assms(1) by (rule commit_plain)
  have q: "\<forall>d. fit_page s \<noteq> PgDashboard d"
    using assms(1,2) by (auto simp: fit_page_def Let_def plain_def split: app_screen.split page.split option.split)
  then have "\<not> may_throw (fit_page s)" by (cases "fit_page s") simp_all
  then obtain v where "page_view b (ap_shell s) (fit_page s) = Some v" using page_view_throws by blast
  moreover have "keep_stores x = x" if "\<forall>d. ap_page x \<noteq> PgDashboard d" for x
    using that by (simp add: keep_stores_def split: page.split)
  ultimately show ?thesis using q assms(3) by (simp add: app_settle_def Let_def c)
qed

lemma home_screens:
  "app_render False l (js ''/'') = SplashScreen" "app_render True l (js ''/'') = LandingScreen"
  "app_render d l (js ''/signup'') = SignupScreen"
proof -
  have "list_all (\<lambda>a. app_render False a (js ''/'') = SplashScreen \<and> app_render True a (js ''/'') = LandingScreen
      \<and> list_all (\<lambda>b. app_render b a (js ''/signup'') = SignupScreen) [True, False]) [True, False]"
    by code_simp
  then show "app_render False l (js ''/'') = SplashScreen" "app_render True l (js ''/'') = LandingScreen"
    "app_render d l (js ''/signup'') = SignupScreen" by (cases l; cases d; simp)+
qed

lemma plain_home [simp]: "plain LandingScreen" "plain SignupScreen"
  by (simp_all add: plain_def lazy_module_def)

lemma app_settle_commit_inv: "app_inv b s \<Longrightarrow> app_outside e \<Longrightarrow> app_inv b (app_step b s e)"
  by (intro app_step_inv outside_allowed)

lemma fit_landing:
  "shell_screen (ap_shell s) = LandingScreen \<Longrightarrow> \<not> eb_hasError (sh_boundary (ap_shell s)) \<Longrightarrow>
   \<exists>l. fit_page s = PgLanding l"
  by (simp add: fit_page_def Let_def split: page.split)

text \<open>The landing page, shown to a visitor whose profile was refused.\<close>

definition at_home :: "browser \<Rightarrow> client \<Rightarrow> app \<Rightarrow> bool" where
  "at_home b c s \<longleftrightarrow> app_inv b s \<and> (\<exists>l. ap_page s = PgLanding l)
     \<and> \<not> eb_hasError (sh_boundary (ap_shell s)) \<and> sh_imports (ap_shell s) = (\<lambda>_. NotRequested)
     \<and> location (sh_router (ap_shell s)) = js ''/''
     \<and> au_pending (sh_auth (ap_shell s)) = [] \<and> au_returned (sh_auth (ap_shell s)) = []
     \<and> au_requests (sh_auth (ap_shell s)) = [GetMe]"

lemma home_reached:
  assumes "s = run (app_step b) (app_load b c stored dark (js ''/'') p q)
      [AppAuth False (MeReply 0 (Resolved None denied)), AppSplash]"
  shows "at_home b c s"
proof -
  define sh where "sh = shell_load c stored dark (router_start (js ''/''))"
  define s0 where "s0 = app_load b c stored dark (js ''/'') p q"
  have "strip_hash (js ''/'') = js ''/''" "js ''/'' \<noteq> []" by (simp_all add: strip_hash_def js_def)
  then have f: "fresh c (js ''/'') sh" unfolding sh_def by (rule load_fresh) (simp add: home_screens)
  have inv0: "app_inv b s0" unfolding s0_def by (rule app_load_inv) simp
  have s0: "ap_shell s0 = sh" "ap_page s0 = PgSplash"
  proof -
    let ?s = "\<lparr>ap_shell = sh, ap_page = PgNone, ap_waiting = 0, ap_saving = 0,
      ap_project_store = p, ap_sidebar_store = q\<rparr>"
    have scr: "shell_screen sh = SplashScreen" using f by (simp add: fresh_def shell_screen_def home_screens)
    have "app_settle b ?s = leave (fit_page ?s) ?s"
      using scr f by (intro settle_plain) (simp_all add: fresh_def)
    moreover have "fit_page ?s = PgSplash" using scr f by (simp add: fit_page_def Let_def fresh_def)
    ultimately show "ap_shell s0 = sh" "ap_page s0 = PgSplash"
      by (simp_all add: s0_def app_load_def app_document_def sh_def [symmetric])
  qed
  define e1 where "e1 = MeReply 0 (Resolved None denied)"
  define a where "a = auth_step (auth_mount (setAuthToken None c)) e1"
  have a: "au_pending a = []" "au_returned a = []" "au_requests a = [GetMe]"
    by (simp_all add: a_def e1_def auth_mount_def auth_defs Let_def)
  define s1 where "s1 = app_step b s0 (AppAuth False e1)"
  have inv1: "app_inv b s1" unfolding s1_def by (rule app_settle_commit_inv [OF inv0]) (simp add: e1_def)
  have s1: "ap_shell s1 = sh\<lparr>sh_auth := a\<rparr>" "ap_page s1 = PgSplash"
  proof -
    let ?s = "on_shell (\<lambda>sh. sh\<lparr>sh_auth := a\<rparr>) s0"
    have "sh_auth (ap_shell s0) = auth_mount (setAuthToken None c)" using f by (simp add: s0 fresh_def)
    then have "s1 = app_settle b ?s"
      using a(2) by (simp add: s1_def app_detached_def Let_def a_def del: auth_step.simps)
    moreover have scr: "shell_screen (ap_shell ?s) = SplashScreen"
      using f by (simp add: on_shell_def s0 fresh_def shell_screen_def home_screens)
    then have "app_settle b ?s = leave (fit_page ?s) ?s"
      using f by (intro settle_plain) (simp_all add: on_shell_def s0 fresh_def)
    moreover have "fit_page ?s = PgSplash"
      using scr f by (simp add: fit_page_def Let_def) (simp add: on_shell_def s0 fresh_def)
    ultimately show "ap_shell s1 = sh\<lparr>sh_auth := a\<rparr>" "ap_page s1 = PgSplash"
      by (simp_all add: on_shell_def s0)
  qed
  let ?sh = "sh\<lparr>sh_auth := a, sh_timer := False, sh_splashDone := True\<rparr>"
  let ?s = "on_shell (\<lambda>sh. shell_step sh ShSplash) s1"
  have scr: "shell_screen ?sh = LandingScreen" using f by (simp add: fresh_def shell_screen_def home_screens)
  then have m: "ap_shell ?s = ?sh" using f by (simp add: on_shell_def s1 fresh_def commit_plain)
  then have "app_settle b ?s = leave (fit_page ?s) ?s"
    using scr f by (intro settle_plain) (simp_all add: fresh_def on_shell_def s1)
  moreover have "\<exists>l. fit_page ?s = PgLanding l"
    by (rule fit_landing) (use scr f in \<open>simp_all only: m\<close>, simp add: fresh_def)
  moreover have s: "s = app_step b s1 AppSplash" by (simp add: assms s1_def s0_def e1_def del: app_step.simps)
  moreover have "app_inv b s" unfolding s by (rule app_settle_commit_inv [OF inv1]) simp
  ultimately show ?thesis using a f by (auto simp: at_home_def m fresh_def simp del: shell_step.simps)
qed

lemma start_offered: "can_fire (landing_view docs year l) (LdHero (HeNav (js ''/signup'')))"
  by (simp add: landing_view_def landing_main_def can_fire_map hero_fires)

lemma home_offers_start: "at_home b c s \<Longrightarrow> can_fire (app_view b s) (AppPage (PeLanding (LdHero (HeNav (js ''/signup'')))))"
  by (auto simp: at_home_def app_view_def Let_def can_fire_map start_offered)

section \<open>The sign-up form\<close>

definition signing_up :: "browser \<Rightarrow> app \<Rightarrow> signup_page \<Rightarrow> bool" where
  "signing_up b s f \<longleftrightarrow> app_inv b s \<and> ap_page s = PgSignup f
     \<and> \<not> eb_hasError (sh_boundary (ap_shell s)) \<and> sh_imports (ap_shell s) = (\<lambda>_. NotRequested)
     \<and> rt_path (sh_router (ap_shell s)) = js ''/signup'' \<and> location (sh_router (ap_shell s)) = js ''/signup''"

lemma signing_up_shared: "signing_up b s f \<Longrightarrow> sp_auth f = sh_auth (ap_shell s) \<and> sp_router f = sh_router (ap_shell s)"
  by (auto simp: signing_up_def app_inv_def)

lemma start_opens_signup:
  assumes "at_home b c s"
  shows "\<exists>r. signing_up b (app_page b (PeLanding (LdHero (HeNav (js ''/signup'')))) s)
    (signup_mount (sh_auth (ap_shell s)) r)"
proof -
  let ?e = "PeLanding (LdHero (HeNav (js ''/signup'')))"
  let ?m = "page_moved b ?e s" and ?r = "navigate (js ''/signup'') (sh_router (ap_shell s))"
  obtain l where l: "ap_page s = PgLanding l" "app_inv b s" "location (sh_router (ap_shell s)) = js ''/''"
    "\<not> eb_hasError (sh_boundary (ap_shell s))"
    using assms by (auto simp: at_home_def)
  then have shared: "ld_auth l = sh_auth (ap_shell s)" "ld_theme l = sh_theme (ap_shell s)" "ld_router l = sh_router (ap_shell s)"
    by (simp_all add: app_inv_def)
  have "to_url (js ''/signup'') = js ''/signup''" "js ''/signup'' \<noteq> js ''/''"
    "strip_hash (js ''/signup'') = js ''/signup''" by (simp_all add: to_url_def strip_hash_def js_def)
  then have r: "rt_path ?r = js ''/signup''" "location ?r = js ''/signup''"
    using l(3) by (simp_all add: navigate_def Let_def) (simp add: location_def)
  have m: "ap_shell ?m = (ap_shell s)\<lparr>sh_router := ?r\<rparr>" "ap_page ?m = PgLanding (landing_step (br_digest b) l (LdHero (HeNav (js ''/signup''))))"
    using l(1) shared by (simp_all add: page_moved_def on_shell_def Let_def landing_navigate_def) (simp add: landing_step_def)
  have scr: "shell_screen (ap_shell ?m) = SignupScreen" using r(1) by (simp add: m shell_screen_def home_screens)
  then have "app_settle b ?m = leave (fit_page ?m) ?m" using l(4) by (intro settle_plain) (simp_all add: m)
  moreover have "fit_page ?m = PgSignup (signup_mount (sh_auth (ap_shell s)) ?r)"
    using scr l(4) by (simp add: fit_page_def Let_def) (simp add: m)
  moreover have "app_inv b (app_page b ?e s)"
  proof (rule app_page_inv [OF l(2)])
    have "hero_inv (br_digest b) (ld_hero l)" using l(1,2) by (simp add: app_inv_def app_pre_def)
    moreover have "page_allows b (ap_shell s) (PgLanding l) ?e"
      using start_offered [of "br_docs b" "br_year b" l] by (auto simp: page_allows_def can_fire_map)
    ultimately show "page_ok b (page_step b (ap_page s) ?e)" using landing_allows by (simp add: l(1))
  qed
  ultimately show ?thesis
    using assms r l(4) by (intro exI [of _ ?r]) (simp add: signing_up_def at_home_def app_page_moved m(1))
qed

lemma signup_event:
  assumes "signing_up b s f" "sp_router (signup_step f e) = sp_router f"
  shows "signing_up b (app_page b (PeSignup e) s) (signup_step f e)"
proof -
  let ?m = "page_moved b (PeSignup e) s" and ?f = "signup_step f e"
  have f: "ap_page s = PgSignup f" "app_inv b s" "sp_router ?f = sh_router (ap_shell s)"
    "\<not> eb_hasError (sh_boundary (ap_shell s))" "rt_path (sh_router (ap_shell s)) = js ''/signup''"
    using assms signing_up_shared [OF assms(1)] by (simp_all add: signing_up_def)
  have m: "ap_shell ?m = (ap_shell s)\<lparr>sh_auth := sp_auth ?f\<rparr>" "ap_page ?m = PgSignup ?f"
    using f(1,3) by (simp_all add: page_moved_def on_shell_def Let_def)
  have scr: "shell_screen (ap_shell ?m) = SignupScreen" using f(5) by (simp add: m shell_screen_def home_screens)
  then have "app_settle b ?m = leave (fit_page ?m) ?m" using f(4) by (intro settle_plain) (simp_all add: m)
  moreover have "fit_page ?m = PgSignup (?f\<lparr>sp_auth := sp_auth ?f, sp_router := sp_router ?f\<rparr>)"
    using scr f(3,4) by (simp add: fit_page_def Let_def) (simp add: m)
  moreover have "app_inv b (app_page b (PeSignup e) s)" using f(1,2) by (intro app_page_inv) simp_all
  ultimately show ?thesis using assms(1) by (simp add: signing_up_def app_page_moved m(1))
qed

text \<open>What the visitor does in the form before it is sent.\<close>

fun signup_edit :: "signup_event \<Rightarrow> bool" where
  "signup_edit SpSubmit = False"
| "signup_edit (SpGo to) = False"
| "signup_edit (SpAuth e) = False"
| "signup_edit e = True"

lemma edit_apart:
  "signup_edit e \<Longrightarrow> signup_step (f\<lparr>sp_auth := a, sp_router := r\<rparr>) e = (signup_step f e)\<lparr>sp_auth := a, sp_router := r\<rparr>"
  by (cases e) (simp_all add: handleEmailBlur_def Let_def)

lemma edits_apart:
  "list_all signup_edit fs \<Longrightarrow> run signup_step (f\<lparr>sp_auth := a, sp_router := r\<rparr>) fs
    = (run signup_step f fs)\<lparr>sp_auth := a, sp_router := r\<rparr>"
  by (induction fs arbitrary: f) (simp_all add: edit_apart del: signup_step.simps)

lemma edit_keeps: "signup_edit e \<Longrightarrow> sp_waiting (signup_step f e) = sp_waiting f \<and> sp_router (signup_step f e) = sp_router f"
  by (cases e) (simp_all add: handleEmailBlur_def Let_def)

lemma edits_keep: "list_all signup_edit fs \<Longrightarrow> sp_waiting (run signup_step f fs) = sp_waiting f"
  by (induction fs arbitrary: f) (simp_all add: edit_keeps del: signup_step.simps)

lemma edits_shown:
  assumes "signing_up b s f" "list_all signup_edit fs"
  shows "signing_up b (run (app_step b) s (map (AppPage \<circ> PeSignup) fs)) (run signup_step f fs)"
  using assms
proof (induction fs arbitrary: s f)
  case (Cons e fs)
  then have "signing_up b (app_page b (PeSignup e) s) (signup_step f e)"
    by (intro signup_event) (simp_all add: edit_keeps)
  with Cons show ?case by (simp del: signup_step.simps)
qed simp

lemma signup_answer:
  assumes "signing_up b s f" "sp_waiting f \<noteq> 0"
  shows "app_step b s (AppAuth True e) = app_page b (PeSignup (SpAuth e)) s"
  using assms by (simp add: signing_up_def)

text \<open>The filled form is sent, and the session's answer brings its token and asks for the profile.\<close>

lemma signup_sent:
  assumes "signing_up b s f" "sp_email f \<noteq> []" "8 \<le> length (sp_password f)" "sp_waiting f = 0"
    and "au_pending (sp_auth f) = []" "au_returned (sp_auth f) = []" "truthy (lr_token resp)"
    and "s' = run (app_step b) s [AppPage (PeSignup SpSubmit), AppAuth True (SessionReply 0 (Resolved (Some resp) JUndef))]"
  shows "\<exists>f'. signing_up b s' f' \<and> sp_waiting f' = 1 \<and> au_pending (sp_auth f') = [WaitMe True]
    \<and> au_returned (sp_auth f') = [] \<and> au_token (sp_auth f') = lr_token resp
    \<and> au_requests (sp_auth f') = au_requests (sp_auth f) @ [PostSignup (signup_params f), GetMe]"
proof -
  define e where "e = SessionReply 0 (Resolved (Some resp) JUndef)"
  define f1 where "f1 = signup_step f SpSubmit"
  have f1: "f1 = f\<lparr>sp_loading := True, sp_error := None, sp_waiting := 1, sp_auth := signup (signup_params f) (sp_auth f)\<rparr>"
    using assms(2-4) by (auto simp: f1_def signup_submit_def)
  define s1 where "s1 = app_page b (PeSignup SpSubmit) s"
  have s1: "signing_up b s1 f1" unfolding s1_def f1_def
    by (rule signup_event [OF assms(1)]) (simp add: signup_submit_def)
  define a where "a = auth_step (sp_auth f1) e"
  have a: "au_pending a = [WaitMe True]" "au_returned a = []" "au_token a = lr_token resp"
    "au_requests a = au_requests (sp_auth f) @ [PostSignup (signup_params f), GetMe]"
    using assms(5-7) by (simp_all add: a_def e_def f1 auth_defs Let_def remove_nth_def)
  have "au_returned (sp_auth f1) = []" using assms(6) by (simp add: f1 signup_def)
  then have f2: "signup_step f1 (SpAuth e) = f1\<lparr>sp_auth := a\<rparr>"
    using a(2) by (simp add: signup_auth_def Let_def a_def del: auth_step.simps)
  have "signing_up b (app_page b (PeSignup (SpAuth e)) s1) (signup_step f1 (SpAuth e))"
    by (rule signup_event [OF s1]) (simp add: f2 del: signup_step.simps)
  moreover have "s' = app_page b (PeSignup (SpAuth e)) s1"
    using signup_answer [OF s1, of e] by (simp add: assms(8) s1_def e_def f1)
  ultimately have "signing_up b s' (f1\<lparr>sp_auth := a\<rparr>)" by (simp only: f2)
  then show ?thesis using a by (intro exI) (auto simp: f1)
qed

lemma signup_profile:
  assumes "signing_up b s f" "sp_waiting f = 1" "au_pending (sp_auth f) = [WaitMe True]" "au_returned (sp_auth f) = []"
    and "me_user me = Some u"
    and "s' = app_step b s (AppAuth True (MeReply 0 (Resolved (Some me) JUndef)))"
  shows "app_inv b s'" "shell_screen (ap_shell s') = DashboardScreen (js ''overview'')"
    "\<not> eb_hasError (sh_boundary (ap_shell s'))" "sh_imports (ap_shell s') ''Overview'' = Importing"
    "au_user (sh_auth (ap_shell s')) = Some u"
    "au_token (sh_auth (ap_shell s')) = au_token (sp_auth f)"
    "au_requests (sh_auth (ap_shell s')) = au_requests (sp_auth f)"
proof -
  let ?e = "MeReply 0 (Resolved (Some me) JUndef)"
  define a where "a = auth_step (sp_auth f) ?e"
  define m where "m = page_moved b (PeSignup (SpAuth ?e)) s"
  have a: "au_returned a = [LoginSuccess]" "au_user a = Some u" "\<not> au_loading a" "isAuthenticated a"
    "au_token a = au_token (sp_auth f)" "au_requests a = au_requests (sp_auth f)"
    using assms(3-5) by (simp_all add: a_def refreshMe_settled_def setBranding_def isAuthenticated_def Let_def)
  have s: "ap_page s = PgSignup f" "app_inv b s" "sp_router f = sh_router (ap_shell s)"
    "location (sh_router (ap_shell s)) = js ''/signup''"
    using assms(1) signing_up_shared [OF assms(1)] by (simp_all add: signing_up_def)
  have s': "s' = app_settle b m"
    unfolding assms(6) m_def using signup_answer [OF assms(1)] assms(2) by (simp add: app_page_moved)
  have f: "sp_auth (signup_step f (SpAuth ?e)) = a"
    "sp_router (signup_step f (SpAuth ?e)) = navigate (js ''/dashboard'') (sp_router f)"
    using assms(2,4) a(1) by (simp_all add: signup_auth_def a_def [symmetric] Let_def signup_returned_def del: auth_step.simps)
  have m: "ap_shell m = (ap_shell s)\<lparr>sh_auth := a, sh_router := navigate (js ''/dashboard'') (sh_router (ap_shell s))\<rparr>"
    using s(1,3) f by (simp add: m_def page_moved_def on_shell_def Let_def del: signup_step.simps)
  have path: "rt_path (sh_router (ap_shell m)) = js ''/dashboard''"
    using s(4) navigate_dashboard [of "sh_router (ap_shell s)"] by (simp add: m js_def)
  have "app_pre b m" unfolding m_def by (rule page_moved_pre [OF s(2)]) (simp add: s(1))
  note opened = dashboard_opened [OF this _ _ path]
  have "sh_auth (ap_shell m) = a" "\<not> eb_hasError (sh_boundary (ap_shell m))"
    "sh_imports (ap_shell m) = (\<lambda>_. NotRequested)"
    using assms(1) by (simp_all add: m signing_up_def)
  then show "app_inv b s'" "shell_screen (ap_shell s') = DashboardScreen (js ''overview'')"
    "\<not> eb_hasError (sh_boundary (ap_shell s'))" "sh_imports (ap_shell s') ''Overview'' = Importing"
    "au_user (sh_auth (ap_shell s')) = Some u"
    "au_token (sh_auth (ap_shell s')) = au_token (sp_auth f)"
    "au_requests (sh_auth (ap_shell s')) = au_requests (sp_auth f)"
    using opened a by (simp_all add: s')
qed

section \<open>Signing up\<close>

text \<open>The visit: the profile is refused, the splash screen ends, Start free, the form is filled in and
  sent, and the answers and the overview's module come.\<close>

definition signup_visit :: "signup_event list \<Rightarrow> v1LoginResponse \<Rightarrow> v1MeResponse \<Rightarrow> app_event list" where
  "signup_visit fs resp me =
     AppPage (PeLanding (LdHero (HeNav (js ''/signup'')))) # map (AppPage \<circ> PeSignup) fs
     @ [AppPage (PeSignup SpSubmit), AppAuth True (SessionReply 0 (Resolved (Some resp) JUndef)),
        AppAuth True (MeReply 0 (Resolved (Some me) JUndef)), AppImport ''Overview'' ImportDone]"

text \<open>C22. A visitor gets from the landing page to the console: after the refused profile and the splash
  screen the landing page offers "Start free"; the visitor follows it, fills in the sign-up form in
  any way that leaves an email and a password of eight units in it (either account type, with or
  without the fields of an organization), and submits. With answers that carry a token and a profile
  the application shows the dashboard's overview with the profile's user as soon as its module
  has come, and the session sent exactly three requests: the profile, one sign-up with what
  the form held, the organization's fields exactly for an organization, and the profile again.
\<close>
theorem visitor_signs_up:
  assumes "list_all signup_edit fs" and "form = run signup_step (signup_mount a r) fs"
    and "sp_email form \<noteq> []" and "8 \<le> length (sp_password form)"
    and "truthy (lr_token resp)" and "me_user me = Some u"
    and "home = run (app_step b) (app_load b c stored dark (js ''/'') p q)
      [AppAuth False (MeReply 0 (Resolved None denied)), AppSplash]"
    and "s = run (app_step b) home (signup_visit fs resp me)"
  shows "can_fire (app_view b home) (AppPage (PeLanding (LdHero (HeNav (js ''/signup'')))))
    \<and> (\<exists>d w. ap_page s = PgDashboard d \<and> da_child d = Some (ChOverview w) \<and> ow_user w = Some u)
    \<and> au_token (sh_auth (ap_shell s)) = lr_token resp
    \<and> au_requests (sh_auth (ap_shell s)) =
       [GetMe,
        PostSignup (let org = (sp_accountType form = js ''ACCOUNT_TYPE_ORGANIZATION'') in
          \<lparr>sg_email = sp_email form, sg_password = sp_password form, sg_account_type = sp_accountType form,
           sg_org_name = (if org then Some (sp_orgName form) else None),
           sg_org_domain = (if org then Some (sp_orgDomain form) else None),
           sg_industry = (if org then Some (sp_industry form) else None)\<rparr>),
        GetMe]"
proof -
  have home: "at_home b c home" using assms(7) by (rule home_reached)
  define a0 where "a0 = sh_auth (ap_shell home)"
  have a0: "au_pending a0 = []" "au_returned a0 = []" "au_requests a0 = [GetMe]"
    using home by (simp_all add: a0_def at_home_def)
  define s1 where "s1 = app_page b (PeLanding (LdHero (HeNav (js ''/signup'')))) home"
  obtain r0 where s1: "signing_up b s1 (signup_mount a0 r0)"
    unfolding s1_def a0_def using start_opens_signup [OF home] by blast
  define f2 where "f2 = form\<lparr>sp_auth := a0, sp_router := r0\<rparr>"
  define s2 where "s2 = run (app_step b) s1 (map (AppPage \<circ> PeSignup) fs)"
  have "signup_mount a0 r0 = (signup_mount a r)\<lparr>sp_auth := a0, sp_router := r0\<rparr>" by (simp add: signup_mount_def)
  then have s2: "signing_up b s2 f2"
    using edits_shown [OF s1 assms(1)] edits_apart [OF assms(1)] by (simp add: s2_def f2_def assms(2))
  have w: "sp_waiting f2 = 0"
    using edits_keep [OF assms(1)] by (simp add: f2_def assms(2)) (simp add: signup_mount_def)
  define s4 where "s4 = run (app_step b) s2 [AppPage (PeSignup SpSubmit), AppAuth True (SessionReply 0 (Resolved (Some resp) JUndef))]"
  obtain f4 where f4: "signing_up b s4 f4" "sp_waiting f4 = 1" "au_pending (sp_auth f4) = [WaitMe True]"
    "au_returned (sp_auth f4) = []" "au_token (sp_auth f4) = lr_token resp"
    "au_requests (sp_auth f4) = au_requests (sp_auth f2) @ [PostSignup (signup_params f2), GetMe]"
    using signup_sent [OF s2 _ _ w _ _ assms(5) s4_def] assms(3,4) a0 by (auto simp: f2_def)
  define s5 where "s5 = app_step b s4 (AppAuth True (MeReply 0 (Resolved (Some me) JUndef)))"
  note s5 = signup_profile [OF f4(1-4) assms(6) s5_def]
  have "s = app_step b s5 (AppImport ''Overview'' ImportDone)"
    by (simp add: assms(8) signup_visit_def s5_def s4_def s2_def s1_def del: app_step.simps(2-))
  moreover have "signup_params f2 = signup_params form" by (simp add: f2_def signup_params_def Let_def)
  ultimately show ?thesis
    using module_mounts_overview [OF s5(1-5)] s5(6,7) f4(5,6) a0(3) home_offers_start [OF home]
    by (simp add: f2_def signup_params_def ORGANIZATION_def)
qed

theorem visitor_signs_up_witness:
  "let home = run (app_step demo_browser) (app_load demo_browser demo_client None False (js ''/'') None None)
       [AppAuth False (MeReply 0 (Resolved None JUndef)), AppSplash];
     s = run (app_step demo_browser) home (signup_visit [SpType PERSONAL, SpEmail (js ''a@b.c''), SpPassword (js ''password'')]
       \<lparr>lr_token = Some (js ''t''), lr_user = None\<rparr> \<lparr>me_user = Some demo_user, me_branding = None\<rparr>) in
   (\<exists>d w. ap_page s = PgDashboard d \<and> da_child d = Some (ChOverview w) \<and> ow_user w = Some demo_user)
   \<and> length (au_requests (sh_auth (ap_shell s))) = 3"
proof -
  let ?fs = "[SpType PERSONAL, SpEmail (js ''a@b.c''), SpPassword (js ''password'')]"
  have "list_all signup_edit ?fs" by simp
  moreover have "sp_email (run signup_step (signup_mount a r) ?fs) \<noteq> []"
    "8 \<le> length (sp_password (run signup_step (signup_mount a r) ?fs))" for a r
    by (simp_all add: js_def)
  moreover have "truthy (lr_token \<lparr>lr_token = Some (js ''t''), lr_user = None\<rparr>)" by (simp add: js_def)
  ultimately show ?thesis unfolding Let_def
    using visitor_signs_up [OF _ refl _ _ _ _ refl refl] by simp
qed

text \<open>The full name asked for is not part of the request.\<close>

lemma full_name_unsent: "signup_params (signup_step s (SpFullName v)) = signup_params s"
  by (simp add: signup_params_def Let_def)

end
