(* ===== verification/Access.thy ===== *)
theory Access
  imports Visits
begin

text \<open>
  An abstract specification of who gets into the console, and the proof that the application
  implements it. The specification knows three states, a profile being checked, a visitor refused
  and a visitor admitted, and what moves between them: a question to the server, its answer, and
  leaving. The application has them spread over the session provider of \<open>lib/auth.tsx\<close>, the forms,
  the layout, the settings page and the guard; each of its steps is mapped to what it does to the
  session, and every visit to a run of the specification.
\<close>

section \<open>Refinement\<close>

text \<open>A machine with an invariant against a specification, through a mapping of states and events.\<close>

inductive runs :: "'a \<Rightarrow> ('a \<Rightarrow> 'c \<Rightarrow> 'a \<Rightarrow> bool) \<Rightarrow> 'c list \<Rightarrow> 'a \<Rightarrow> bool"
  for init :: 'a and trans :: "'a \<Rightarrow> 'c \<Rightarrow> 'a \<Rightarrow> bool" where
  runs_init: "runs init trans [] init"
| runs_step: "runs init trans cs a \<Longrightarrow> trans a c a' \<Longrightarrow> runs init trans (cs @ [c]) a'"

fun allowed_run :: "('s \<Rightarrow> 'e \<Rightarrow> bool) \<Rightarrow> ('s \<Rightarrow> 'e \<Rightarrow> 's) \<Rightarrow> 's \<Rightarrow> 'e list \<Rightarrow> bool" where
  "allowed_run ok step s [] = True"
| "allowed_run ok step s (e # es) = (ok s e \<and> allowed_run ok step (step s e) es)"

fun labels :: "('s \<Rightarrow> 'e \<Rightarrow> 'c) \<Rightarrow> ('s \<Rightarrow> 'e \<Rightarrow> 's) \<Rightarrow> 's \<Rightarrow> 'e list \<Rightarrow> 'c list" where
  "labels label step s [] = []"
| "labels label step s (e # es) = label s e # labels label step (step s e) es"

lemma allowed_run_snoc:
  "allowed_run ok step s (es @ [e]) \<longleftrightarrow> allowed_run ok step s es \<and> ok (run step s es) e"
  by (induction es arbitrary: s) auto

lemma labels_snoc: "labels label step s (es @ [e]) = labels label step s es @ [label (run step s es) e]"
  by (induction es arbitrary: s) auto

locale refines =
  fixes start :: 's and step :: "'s \<Rightarrow> 'e \<Rightarrow> 's" and ok :: "'s \<Rightarrow> 'e \<Rightarrow> bool" and inv :: "'s \<Rightarrow> bool"
    and abs :: "'s \<Rightarrow> 'a" and label :: "'s \<Rightarrow> 'e \<Rightarrow> 'c" and init :: 'a
    and trans :: "'a \<Rightarrow> 'c \<Rightarrow> 'a \<Rightarrow> bool"
  assumes inv_start: "inv start"
    and inv_step: "inv s \<Longrightarrow> ok s e \<Longrightarrow> inv (step s e)"
    and abs_start: "abs start = init"
    and abs_step: "inv s \<Longrightarrow> ok s e \<Longrightarrow> trans (abs s) (label s e) (abs (step s e))"
begin

lemma simulates:
  "allowed_run ok step start es \<Longrightarrow> inv (run step start es)
     \<and> runs init trans (labels label step start es) (abs (run step start es))"
proof (induction es rule: rev_induct)
  case Nil
  then show ?case by (simp add: inv_start abs_start runs_init)
next
  case (snoc e es)
  then show ?case
    by (auto simp: allowed_run_snoc labels_snoc intro: inv_step runs_step abs_step)
qed

end

section \<open>Specification\<close>

datatype access = Checking | Refused | Admitted

datatype cause = Asks | Accepts | Rejects | Leaves

record gate =
  gt_access :: access
  gt_console :: bool

fun access_move :: "access \<Rightarrow> cause \<Rightarrow> access" where
  "access_move a Asks = Checking"
| "access_move a Accepts = Admitted"
| "access_move a Rejects = Refused"
| "access_move a Leaves = (if a = Checking then Checking else Refused)"

definition moved :: "access \<Rightarrow> cause option \<Rightarrow> access" where
  "moved a c = (case c of None \<Rightarrow> a | Some x \<Rightarrow> access_move a x)"

definition gate_init :: gate where
  "gate_init = \<lparr>gt_access = Checking, gt_console = False\<rparr>"

text \<open>A step has at most one cause; the console opens only to the admitted.\<close>

definition gate_step :: "gate \<Rightarrow> cause option \<Rightarrow> gate \<Rightarrow> bool" where
  "gate_step g c g' \<longleftrightarrow> gt_access g' = moved (gt_access g) c
     \<and> (gt_console g' \<longrightarrow> gt_access g' = Admitted)"

text \<open>What the specification promises: the last thing to happen to an admitted visitor was an acceptance.\<close>

lemma gate_admitted:
  assumes "runs gate_init gate_step cs g" "gt_access g = Admitted"
  shows "\<exists>xs ys. cs = xs @ Some Accepts # ys \<and> set ys \<subseteq> {None}"
  using assms
proof induction
  case runs_init
  then show ?case by (simp add: gate_init_def)
next
  case (runs_step cs g c g')
  show ?case
  proof (cases c)
    case None
    then obtain xs ys where "cs = xs @ Some Accepts # ys" "set ys \<subseteq> {None}"
      using runs_step by (auto simp: gate_step_def moved_def)
    then have "cs @ [c] = xs @ Some Accepts # (ys @ [c])" "set (ys @ [c]) \<subseteq> {None}" using None by auto
    then show ?thesis by blast
  next
    case (Some x)
    then have "x = Accepts" using runs_step by (cases x) (auto simp: gate_step_def moved_def split: if_splits)
    then show ?thesis using Some by (intro exI [of _ cs] exI [of _ "[]"]) simp
  qed
qed

lemma gate_console: "runs gate_init gate_step cs g \<Longrightarrow> gt_console g \<Longrightarrow> gt_access g = Admitted"
  by (induction rule: runs.induct) (auto simp: gate_init_def gate_step_def)

section \<open>The session seen from outside\<close>

definition access_of :: "auth \<Rightarrow> access" where
  "access_of a = (if au_loading a then Checking else if isAuthenticated a then Admitted else Refused)"

definition gate_of :: "app \<Rightarrow> gate" where
  "gate_of s = \<lparr>gt_access = access_of (sh_auth (ap_shell s)),
     gt_console = (case ap_page s of PgDashboard d \<Rightarrow> True | _ \<Rightarrow> False)\<rparr>"

lemma gate_of_parts [simp]:
  "gt_access (gate_of s) = access_of (sh_auth (ap_shell s))"
  "gt_console (gate_of s) \<longleftrightarrow> (\<exists>d. ap_page s = PgDashboard d)"
  by (auto simp: gate_of_def split: page.split)

text \<open>
  What an event of the provider causes: an answer without a profile keeps a visitor who has a
  token; a session request that is granted is followed by a question about the profile.
\<close>

fun auth_cause :: "auth \<Rightarrow> auth_event \<Rightarrow> cause option" where
  "auth_cause a Logout = Some Leaves"
| "auth_cause a RefreshMe = Some Asks"
| "auth_cause a (MeReply i r) =
     (if i < length (au_pending a) \<and> au_pending a ! i \<noteq> WaitSession
      then (case r of
          Resolved (Some d) err \<Rightarrow> Some (if me_user d \<noteq> None \<or> truthy (au_token a) then Accepts else Rejects)
        | _ \<Rightarrow> Some Rejects)
      else None)"
| "auth_cause a (SessionReply i r) =
     (if i < length (au_pending a) \<and> au_pending a ! i = WaitSession
      then (case r of
          Resolved d err \<Rightarrow> if js_truthy err \<or> \<not> truthy (Option.bind d lr_token) then None else Some Asks
        | Rejected e \<Rightarrow> None)
      else None)"
| "auth_cause a (Login email password) = None"
| "auth_cause a (Signup b) = None"

lemma access_step: "access_of (auth_step a e) = moved (access_of a) (auth_cause a e)"
  by (cases e)
    (auto simp: access_of_def moved_def auth_defs isAuthenticated_def Let_def
      split: auth_wait.splits reply.splits option.splits if_splits)

section \<open>What the pages do to the session\<close>

fun layout_session :: "layout_event \<Rightarrow> auth_event option" where
  "layout_session (LyAuth x) = Some x"
| "layout_session LySignOut = Some Logout"
| "layout_session _ = None"

definition child_session :: "dashboard \<Rightarrow> child_event \<Rightarrow> auth_event option" where
  "child_session d e = (case da_child d of
     None \<Rightarrow> None
   | Some c \<Rightarrow> if child_refreshes c < child_refreshes (child_step c e) then Some RefreshMe else None)"

fun page_session :: "page \<Rightarrow> page_event \<Rightarrow> auth_event option" where
  "page_session (PgLogin s) (PeLogin LgSubmit) =
     (if lg_email s = [] \<or> lg_password s = [] then None else Some (Login (lg_email s) (lg_password s)))"
| "page_session (PgLogin s) (PeLogin (LgAuth x)) = Some x"
| "page_session (PgSignup s) (PeSignup SpSubmit) =
     (if sp_email s = [] \<or> sp_password s = [] \<or> length (sp_password s) < 8 then None
      else Some (Signup (signup_params s)))"
| "page_session (PgSignup s) (PeSignup (SpAuth x)) = Some x"
| "page_session (PgDashboard d) (PeDashboard (DaLayout x)) = layout_session x"
| "page_session (PgDashboard d) (PeDashboard (DaChild x)) = child_session d x"
| "page_session p e = None"

definition session_step :: "auth \<Rightarrow> auth_event option \<Rightarrow> auth" where
  "session_step a e = (case e of None \<Rightarrow> a | Some x \<Rightarrow> auth_step a x)"

fun app_session :: "app \<Rightarrow> app_event \<Rightarrow> auth_event option" where
  "app_session s (AppPage e) = page_session (ap_page s) e"
| "app_session s (AppAuth mine e) = Some e"
| "app_session s (AppSaved ok) = (if ap_saving s \<noteq> 0 \<and> ok then Some RefreshMe else None)"
| "app_session s e = None"

text \<open>A new document asks for the profile when it mounts.\<close>

fun app_cause :: "app \<Rightarrow> app_event \<Rightarrow> cause option" where
  "app_cause s AppReload = Some Asks"
| "app_cause s AppHome = (if eb_hasError (sh_boundary (ap_shell s)) then Some Asks else None)"
| "app_cause s e = Option.bind (app_session s e) (auth_cause (sh_auth (ap_shell s)))"

lemma login_session:
  "lg_auth (login_step s e) = session_step (lg_auth s) (page_session (PgLogin s) (PeLogin e))"
  by (cases e) (simp_all add: session_step_def login_submit_def login_auth_def login_returned_def Let_def
    split: login_outcome.split del: auth_step.simps(5,6))

lemma signup_session:
  "sp_auth (signup_step s e) = session_step (sp_auth s) (page_session (PgSignup s) (PeSignup e))"
  by (cases e) (simp_all add: session_step_def signup_submit_def signup_auth_def signup_returned_def
    handleEmailBlur_def Let_def split: login_outcome.split del: auth_step.simps(5,6))

lemma ly_auth_apart [simp]:
  "ly_auth (on_router f l) = ly_auth l" "ly_auth (set_auth a l) = a" "ly_auth (set_collapsed x l) = ly_auth l"
  "ly_auth (nav_click k l) = ly_auth l" "ly_auth (select_option w i l) = ly_auth l"
  by (simp_all add: on_router_def set_auth_def set_collapsed_def nav_click_def select_option_def Let_def
      split: option.split)

lemma layout_session_step: "ly_auth (layout_step l e) = session_step (ly_auth l) (layout_session e)"
  by (cases e) (simp_all add: session_step_def sign_out_def del: auth_step.simps(5,6))

lemma da_layout_render [simp]: "da_layout (child_render d) = da_layout d"
  by (simp add: child_render_def)

lemma dashboard_session:
  "ly_auth (da_layout (dashboard_step d e)) =
     session_step (ly_auth (da_layout d)) (page_session (PgDashboard d) (PeDashboard e))"
proof (cases e)
  case (DaLayout x)
  then show ?thesis by (simp add: layout_session_step)
next
  case (DaChild x)
  then show ?thesis
    by (simp add: dashboard_child_step_def child_session_def session_step_def Let_def split: option.split)
qed

lemma settle_auth [simp]: "sh_auth (ap_shell (app_settle b s)) = sh_auth (ap_shell s)"
proof -
  have "sh_auth (shell_commit sh) = sh_auth sh" for sh
    by (simp add: shell_commit_def render_lazy_def shell_throw_def split: option.split import_state.split
        import_result.split)
  then show ?thesis by (simp add: app_settle_def Let_def shell_throw_def split: option.split)
qed

lemma page_session_step:
  assumes "app_inv b s"
  shows "page_auth (page_step b (ap_page s) e) (sh_auth (ap_shell s)) =
    session_step (sh_auth (ap_shell s)) (page_session (ap_page s) e)"
proof (cases "ap_page s")
  case (PgLogin l)
  then have "lg_auth l = sh_auth (ap_shell s)" using assms by (simp add: app_inv_def)
  then show ?thesis using PgLogin by (cases e) (simp_all add: login_session, simp_all add: session_step_def)
next
  case (PgSignup l)
  then have "sp_auth l = sh_auth (ap_shell s)" using assms by (simp add: app_inv_def)
  then show ?thesis using PgSignup by (cases e) (simp_all add: signup_session, simp_all add: session_step_def)
next
  case (PgDashboard d)
  then have "ly_auth (da_layout d) = sh_auth (ap_shell s)" using assms by (simp add: app_inv_def)
  then show ?thesis using PgDashboard
    by (cases e) (simp_all add: dashboard_session del: dashboard_step.simps page_session.simps(5,6),
        simp_all add: session_step_def)
qed (cases e; simp add: session_step_def Let_def split: prod.split)+

lemma form_answer_session: "form_answer p x = Some m \<Longrightarrow> page_session p m = Some x"
  by (cases p) (auto split: if_splits)

lemma app_page_session:
  "app_inv b s \<Longrightarrow> sh_auth (ap_shell (app_page b e s)) =
     session_step (sh_auth (ap_shell s)) (page_session (ap_page s) e)"
  by (simp add: app_page_moved page_moved_def on_shell_def Let_def page_session_step)

lemma app_session_step:
  assumes "app_inv b s" "e \<noteq> AppReload" "e \<noteq> AppHome"
  shows "sh_auth (ap_shell (app_step b s e)) = session_step (sh_auth (ap_shell s)) (app_session s e)"
proof (cases e)
  case (AppPage x)
  then show ?thesis using assms(1) by (simp add: app_page_session)
next
  case (AppAuth mine x)
  have "sh_auth (ap_shell (app_detached b x s)) = auth_step (sh_auth (ap_shell s)) x"
    by (simp add: app_detached_def on_shell_def Let_def split: login_outcome.split)
  then show ?thesis using assms(1) AppAuth form_answer_session
    by (auto simp: app_page_session session_step_def split: option.split)
qed (use assms(2,3) in \<open>simp_all add: session_step_def on_shell_def Let_def\<close>)

lemma document_asks: "access_of (sh_auth (ap_shell (app_document b (shell_load c stored dark r) p q))) = Checking"
proof -
  have "sh_auth (shell_commit sh) = sh_auth sh" for sh
    by (simp add: shell_commit_def render_lazy_def shell_throw_def split: option.split import_state.split
        import_result.split)
  then show ?thesis
    by (simp add: app_document_def shell_load_def access_of_def auth_mount_def refreshMe_def)
qed

lemma app_access_step:
  assumes "app_inv b s"
  shows "access_of (sh_auth (ap_shell (app_step b s e))) =
    moved (access_of (sh_auth (ap_shell s))) (app_cause s e)"
proof (cases "e = AppReload \<or> e = AppHome")
  case True
  then show ?thesis by (auto simp: moved_def shell_open_def document_asks)
next
  case False
  then have "app_cause s e = Option.bind (app_session s e) (auth_cause (sh_auth (ap_shell s)))"
    by (cases e) auto
  moreover have "moved a (Option.bind x (auth_cause c)) = access_of (session_step c x)"
    if "a = access_of c" for a x c
    using that by (cases x) (simp_all add: moved_def session_step_def access_step)
  ultimately show ?thesis using app_session_step [OF assms] False by simp
qed

section \<open>The application implements the specification\<close>

definition app_can :: "browser \<Rightarrow> app \<Rightarrow> app_event \<Rightarrow> bool" where
  "app_can b s e \<longleftrightarrow> app_outside e \<or> can_fire (app_view b s) e"

lemma app_can_inv: "app_inv b s \<Longrightarrow> app_can b s e \<Longrightarrow> app_inv b (app_step b s e)"
  by (auto simp: app_can_def intro: app_step_inv fires_app_view outside_allowed)

lemma app_gate_step:
  assumes "app_inv b s" "app_can b s e"
  shows "gate_step (gate_of s) (app_cause s e) (gate_of (app_step b s e))"
proof -
  have "access_of (sh_auth (ap_shell t)) = Admitted" if "app_inv b t" "ap_page t = PgDashboard d" for t d
    using console_signed_in [OF that] by (simp add: access_of_def)
  from this [OF app_can_inv [OF assms]] show ?thesis
    unfolding gate_step_def gate_of_parts app_access_step [OF assms(1)] by blast
qed

lemma app_gate_init: "prefix (js ''/'') url \<Longrightarrow> gate_of (app_load b c stored dark url p q) = gate_init"
proof -
  assume u: "prefix (js ''/'') url"
  have "access_of (sh_auth (ap_shell (app_load b c stored dark url p q))) = Checking"
    by (simp add: app_load_def document_asks)
  then show ?thesis using console_signed_in [OF app_load_inv [OF u]]
    by (auto simp: gate_of_def gate_init_def access_of_def split: page.splits if_splits)
qed

interpretation access: refines "app_load b c stored dark (js ''/'' @ url) p q" "app_step b" "app_can b" "app_inv b"
    gate_of app_cause gate_init gate_step for b c stored dark url p q
  by unfold_locales (simp_all add: app_load_inv app_can_inv app_gate_init app_gate_step)

text \<open>C2. The application implements the specification of access: with every event mapped to what it asks
  of the server, hears from it, or gives up, a visit is a run of the specification, from its first
  document on. So whatever the pages, forms and timers do, only a question brings the splash
  screen, only an acceptance by the server admits, and the console is there only for the admitted.
\<close>
theorem application_refines_access:
  assumes "allowed_run (app_can b) (app_step b) (app_load b c stored dark (js ''/'' @ url) p q) es"
  shows "runs gate_init gate_step
    (labels app_cause (app_step b) (app_load b c stored dark (js ''/'' @ url) p q) es)
    (gate_of (run (app_step b) (app_load b c stored dark (js ''/'' @ url) p q) es))"
  using access.simulates [OF assms] by simp

text \<open>A visit in which the profile is accepted, the visitor signs out, and the profile is refused.\<close>

definition demo_events :: "app_event list" where
  "demo_events = [AppAuth False demo_reply, AppReload, AppAuth False (MeReply 0 (Resolved None JUndef))]"

definition demo_start :: app where
  "demo_start = app_load demo_browser demo_client None False (js ''/'' @ js ''dashboard'') None None"

lemma demo_allowed: "allowed_run (app_can demo_browser) (app_step demo_browser) demo_start demo_events"
  by (simp add: demo_events_def app_can_def demo_reply_def del: app_step.simps)

theorem application_refines_access_witness:
  "runs gate_init gate_step [Some Accepts, Some Asks, Some Rejects]
     (gate_of (run (app_step demo_browser) demo_start demo_events))"
proof -
  have "labels app_cause (app_step demo_browser) demo_start demo_events = [Some Accepts, Some Asks, Some Rejects]"
    by code_simp
  then show ?thesis
    using application_refines_access [OF demo_allowed [unfolded demo_start_def]] by (simp add: demo_start_def)
qed

text \<open>C11. Nobody is in the console but by an acceptance: when a visit shows the dashboard, the server has
  accepted the visitor's profile at some event of the visit, and since then there was no further
  question, no refusal, no sign-out and no new document.
\<close>
theorem console_by_acceptance:
  assumes "allowed_run (app_can b) (app_step b) (app_load b c stored dark (js ''/'' @ url) p q) es"
    and "ap_page (run (app_step b) (app_load b c stored dark (js ''/'' @ url) p q) es) = PgDashboard d"
  shows "\<exists>xs ys. labels app_cause (app_step b) (app_load b c stored dark (js ''/'' @ url) p q) es =
      xs @ Some Accepts # ys \<and> set ys \<subseteq> {None}"
proof -
  let ?g = "gate_of (run (app_step b) (app_load b c stored dark (js ''/'' @ url) p q) es)"
  have "runs gate_init gate_step
      (labels app_cause (app_step b) (app_load b c stored dark (js ''/'' @ url) p q) es) ?g"
    using access.simulates [OF assms(1)] by simp
  moreover have "gt_console ?g" using assms(2) by simp
  ultimately show ?thesis using gate_admitted gate_console by blast
qed

theorem console_by_acceptance_witness:
  "\<exists>xs ys. labels app_cause (app_step demo_browser) demo_start [AppAuth False demo_reply] = xs @ Some Accepts # ys
     \<and> set ys \<subseteq> {None}"
proof -
  let ?s = "run (app_step demo_browser) demo_start [AppAuth False demo_reply]"
  have "case ap_page ?s of PgDashboard d \<Rightarrow> True | _ \<Rightarrow> False" by code_simp
  then obtain d where "ap_page ?s = PgDashboard d" by (auto split: page.splits)
  moreover have "allowed_run (app_can demo_browser) (app_step demo_browser) demo_start [AppAuth False demo_reply]"
    by (simp add: app_can_def demo_reply_def)
  ultimately show ?thesis using console_by_acceptance unfolding demo_start_def by blast
qed

end
