(* ===== verification/OpenapiTags.thy ===== *)
theory OpenapiTags
  imports JsonRound "HOL-Library.Multiset"
begin

text \<open>
  \<open>src/frontend/scripts/openapi-tags.mjs\<close>, a step of the generation of the API's message types:
  it gives the tags of the OpenAPI document their display names and writes the document back, and
  once more for the public pages. \<open>localeCompare\<close> is the order of a collation key, a parameter;
  \<open>sort\<close> is stable. Outside the model are tags and keys named like a member of
  \<open>Object.prototype\<close>, and the engine's order of keys that are array indices: objects keep the order
  of their text, in which those keys already stand first. In a list of two or more tags one of which
  has no string for a name the engine decides on which names \<open>localeCompare\<close> is called; the model
  lets the script throw on every such list.
\<close>

section \<open>The names\<close>

definition tagMap :: "(jstr \<times> jstr) list" where
  "tagMap = map (\<lambda>(t, n). (js t, js n))
     [(''AnalyticsService'', ''Analytics''),
      (''AuthService'', ''Authentication''),
      (''CaptureService'', ''Capture''),
      (''DelegationService'', ''Delegation''),
      (''LedgerService'', ''Ledger''),
      (''NotaryService'', ''Notary''),
      (''ProjectService'', ''Projects''),
      (''ApiKeyService'', ''API keys''),
      (''ReplayService'', ''Replay''),
      (''VerifyService'', ''Verify'')]"

definition descriptions :: "(jstr \<times> jstr) list" where
  "descriptions = map (\<lambda>(n, d). (js n, js d))
     [(''Analytics'', ''Activity summaries and trend data for the ledger.''),
      (''Authentication'', ''Sign in, sign up, and session management.''),
      (''Capture'', ''Record and persist agent actions.''),
      (''Delegation'', ''Grants, authority chains, and revocation.''),
      (''Ledger'', ''Ledger roots, receipts, and anchor operations.''),
      (''Notary'', ''Signing and notary public key material.''),
      (''Projects'', ''Project workspaces and scoped configuration.''),
      (''API keys'', ''Project-scoped API credentials.''),
      (''Replay'', ''Reconstruct and replay recorded sessions.''),
      (''Verify'', ''Cryptographic verification of events and proofs.'')]"

definition display_name :: "jstr \<Rightarrow> jstr" where
  "display_name t = nullish (map_of tagMap t) t"

text \<open>The text by which a value indexes a table, as far as a table's key can be met: a string stands
  for itself and an array of one element for that element; the texts of all other JSON values (of
  numbers, \<open>null\<close>, \<open>[object Object]\<close>, lists with a comma) are keys of neither table.
\<close>

fun tag_key :: "jsval \<Rightarrow> jstr option" where
  "tag_key (JStr s) = Some s"
| "tag_key (JArr [v]) = tag_key v"
| "tag_key v = None"

definition tag_display :: "jsval \<Rightarrow> jsval" where
  "tag_display v = (case Option.bind (tag_key v) (map_of tagMap) of None \<Rightarrow> v | Some n \<Rightarrow> JStr n)"

definition description_of :: "jsval \<Rightarrow> jstr" where
  "description_of v = nullish (Option.bind (tag_key v) (map_of descriptions)) []"

section \<open>Renaming\<close>

text \<open>Every array under a key \<open>tags\<close> has its strings renamed; the rest is walked through.\<close>

fun renameTags :: "jsval \<Rightarrow> jsval"
  and rename_items :: "jsval list \<Rightarrow> jsval list"
  and rename_fields :: "(jstr \<times> jsval) list \<Rightarrow> (jstr \<times> jsval) list"
  and rename_tag_list :: "jsval list \<Rightarrow> jsval list" where
  "renameTags (JArr vs) = JArr (rename_items vs)"
| "renameTags (JObj fs) = JObj (rename_fields fs)"
| "renameTags v = v"
| "rename_items [] = []"
| "rename_items (v # vs) = renameTags v # rename_items vs"
| "rename_fields [] = []"
| "rename_fields ((k, v) # fs) =
     (k, if k = js ''tags'' then (case v of JArr ts \<Rightarrow> JArr (rename_tag_list ts) | _ \<Rightarrow> renameTags v)
         else renameTags v) # rename_fields fs"
| "rename_tag_list [] = []"
| "rename_tag_list (t # ts) =
     (case t of JStr s \<Rightarrow> JStr (display_name s) | _ \<Rightarrow> renameTags t) # rename_tag_list ts"

text \<open>The name of a tag of the document's own list, \<open>JUndef\<close> when it has none; \<open>None\<close>: reading the
  name of \<open>null\<close> throws. A name that is absent is not printed.\<close>

definition tag_name :: "jsval \<Rightarrow> jsval option" where
  "tag_name t = (case t of
     JStr s \<Rightarrow> Some (JStr (display_name s))
   | JNull \<Rightarrow> None
   | _ \<Rightarrow> Some (tag_display (get_field t (js ''name''))))"

definition tag_entry :: "jsval \<times> jstr \<Rightarrow> jsval" where
  "tag_entry nd = JObj ((if fst nd = JUndef then [] else [(js ''name'', fst nd)])
     @ [(js ''description'', JStr (snd nd))])"

definition name_text :: "jsval \<Rightarrow> jstr" where
  "name_text v = (case v of JStr s \<Rightarrow> s | _ \<Rightarrow> [])"

text \<open>A list of one tag is never compared. Comparing calls \<open>localeCompare\<close> on the name, which throws
  for a name that is not a string: \<open>None\<close>.\<close>

definition sorted_tags :: "(jstr \<Rightarrow> 'k::linorder) \<Rightarrow> jsval list \<Rightarrow> (jsval \<times> jstr) list option" where
  "sorted_tags collate ns = (let nds = map (\<lambda>n. (n, description_of n)) ns in
     if length ns < 2 then Some nds
     else if list_all (\<lambda>n. n = JStr (name_text n)) ns
       then Some (sort_key (\<lambda>nd. collate (name_text (fst nd))) nds)
     else None)"

text \<open>\<open>None\<close>: the script throws, and writes nothing.\<close>

definition rename_spec :: "(jstr \<Rightarrow> 'k::linorder) \<Rightarrow> jsval \<Rightarrow> jsval option" where
  "rename_spec collate spec = (case renameTags spec of
     JObj fs \<Rightarrow> (case map_of fs (js ''tags'') of
         Some (JArr ts) \<Rightarrow> map_option
           (\<lambda>nds. JObj (put_field (js ''tags'') (JArr (map tag_entry nds)) fs))
           (Option.bind (those (map tag_name ts)) (sorted_tags collate))
       | _ \<Rightarrow> None)
   | _ \<Rightarrow> None)"

definition openapi_tags :: "(jstr \<Rightarrow> 'k::linorder) \<Rightarrow> jstr \<Rightarrow> jstr option" where
  "openapi_tags collate raw = map_option (\<lambda>v. stringify_by 4 0 v @ [10])
     (Option.bind (json_parse raw) (rename_spec collate))"

record spec_files =
  sf_input :: jstr
  sf_public :: jstr

definition run_script :: "(jstr \<Rightarrow> 'k::linorder) \<Rightarrow> spec_files \<Rightarrow> spec_files" where
  "run_script collate s = (case openapi_tags collate (sf_input s) of
     None \<Rightarrow> s
   | Some out \<Rightarrow> \<lparr>sf_input = out, sf_public = out\<rparr>)"

section \<open>The script is idempotent\<close>

lemma display_name_again [simp]: "display_name (display_name t) = display_name t"
proof (cases "map_of tagMap t")
  case (Some n)
  have "list_all (\<lambda>(t, n). map_of tagMap n = None) tagMap" by code_simp
  then have "map_of tagMap n = None" using map_of_SomeD [OF Some] by (auto simp: list_all_iff)
  with Some show ?thesis by (simp add: display_name_def nullish_def)
qed (simp add: display_name_def nullish_def)

lemma renameTags_kind:
  "renameTags v = JArr ws \<longleftrightarrow> (\<exists>vs. v = JArr vs \<and> ws = rename_items vs)"
  "renameTags v = JStr s \<longleftrightarrow> v = JStr s"
  by (cases v; auto)+

lemma renameTags_again:
  "renameTags (renameTags v) = renameTags v"
  "rename_items (rename_items vs) = rename_items vs"
  "rename_fields (rename_fields fs) = rename_fields fs"
  "rename_tag_list (rename_tag_list ts) = rename_tag_list ts"
proof (induction v and vs and fs and ts rule: renameTags_rename_items_rename_fields_rename_tag_list.induct)
  case (7 k v fs)
  then show ?case by (cases v) auto
next
  case (9 t ts)
  then show ?case by (cases t) auto
qed auto

lemma put_field_map: "map_of (put_field k v fs) k = Some v"
  by (induction k v fs rule: put_field.induct) auto

lemma put_field_again: "put_field k w (put_field k v fs) = put_field k w fs"
  by (induction k v fs rule: put_field.induct) auto

lemma put_field_keys: "set (map fst (put_field k v fs)) = insert k (set (map fst fs))"
  by (induction k v fs rule: put_field.induct) auto

lemma distinct_put_field: "distinct (map fst fs) \<Longrightarrow> distinct (map fst (put_field k v fs))"
proof (induction k v fs rule: put_field.induct)
  case (2 k v k' v' fs)
  then show ?case using put_field_keys [of k v fs] by (auto simp del: set_map)
qed simp

lemma rename_put_field:
  "rename_fields (put_field (js ''tags'') (JArr ts) fs) = put_field (js ''tags'') (JArr (rename_tag_list ts)) (rename_fields fs)"
  by (induction "js ''tags''" "JArr ts" fs rule: put_field.induct) auto

lemma tag_display_again [simp]: "tag_display (tag_display v) = tag_display v"
proof (cases "Option.bind (tag_key v) (map_of tagMap)")
  case (Some n)
  then obtain t where "map_of tagMap t = Some n" by (auto simp: bind_eq_Some_conv)
  moreover have "list_all (\<lambda>(t, n). map_of tagMap n = None) tagMap" by code_simp
  ultimately have "map_of tagMap n = None" using map_of_SomeD by (fastforce simp: list_all_iff)
  with Some show ?thesis by (simp add: tag_display_def)
qed (simp add: tag_display_def)

lemma tag_display_str: "tag_display (JStr s) = JStr (display_name s)"
  by (simp add: tag_display_def display_name_def nullish_def split: option.split)

lemma rename_display: "renameTags v = v \<Longrightarrow> renameTags (tag_display v) = tag_display v"
  by (simp add: tag_display_def split: option.split)

text \<open>A tag of a renamed document: a string, or a value whose name is renamed too.\<close>

definition renamed_tag :: "jsval \<Rightarrow> bool" where
  "renamed_tag t \<longleftrightarrow> (case t of JStr s \<Rightarrow> True | _ \<Rightarrow> renameTags t = t)"

lemma renamed_field:
  assumes "rename_fields fs = fs" "map_of fs k = Some v" "k \<noteq> js ''tags''"
  shows "renameTags v = v"
  using assms by (induction fs) (auto split: if_splits)

lemma renamed_tags:
  "rename_fields fs = fs \<Longrightarrow> map_of fs (js ''tags'') = Some (JArr ts) \<Longrightarrow> rename_tag_list ts = ts"
  by (induction fs) (auto split: if_splits)

lemma renamed_tag_list: "rename_tag_list ts = ts \<Longrightarrow> \<forall>t\<in>set ts. renamed_tag t"
  by (induction ts) (auto simp: renamed_tag_def split: jsval.splits)

lemma name_not_tags: "js ''name'' \<noteq> js ''tags''" "js ''description'' \<noteq> js ''tags''" "js ''name'' \<noteq> js ''description''"
  by (simp_all add: js_def)

lemma tag_name_fixed:
  assumes "renamed_tag t" "tag_name t = Some n"
  shows "tag_display n = n \<and> renameTags n = n"
proof (cases t)
  case (JObj fs)
  then have "rename_fields fs = fs" using assms(1) by (simp add: renamed_tag_def)
  then have "renameTags (get_field t (js ''name'')) = get_field t (js ''name'')"
    using renamed_field name_not_tags(1) JObj by (auto simp: get_field_def split: option.split)
  then show ?thesis using assms(2) JObj by (auto simp: tag_name_def rename_display)
qed (use assms in \<open>auto simp: tag_name_def tag_display_str get_field_def rename_display\<close>)

lemma entry_name: "tag_name (tag_entry nd) = Some (tag_display (fst nd))"
  by (simp add: tag_name_def tag_entry_def get_field_def name_not_tags)

lemma rename_entry: "renameTags (fst nd) = fst nd \<Longrightarrow> renameTags (tag_entry nd) = tag_entry nd"
  by (simp add: tag_entry_def name_not_tags)

lemma rename_entries:
  "\<forall>nd\<in>set nds. renameTags (fst nd) = fst nd \<Longrightarrow> rename_tag_list (map tag_entry nds) = map tag_entry nds"
  by (induction nds) (use rename_entry in \<open>auto simp: tag_entry_def\<close>)

lemma those_entries:
  "\<forall>nd\<in>set nds. tag_display (fst nd) = fst nd \<Longrightarrow> those (map tag_name (map tag_entry nds)) = Some (map fst nds)"
  by (induction nds) (simp_all add: entry_name)

lemma those_names: "those (map tag_name ts) = Some ns \<Longrightarrow> map Some ns = map tag_name ts"
  by (induction ts arbitrary: ns) (auto split: option.splits)

lemma those_fixed:
  assumes "\<forall>t\<in>set ts. renamed_tag t" "those (map tag_name ts) = Some ns" "n \<in> set ns"
  shows "tag_display n = n \<and> renameTags n = n"
proof -
  have "Some n \<in> set (map tag_name ts)" using assms(3) those_names [OF assms(2), symmetric] by simp
  then obtain t where "t \<in> set ts" "tag_name t = Some n" by auto
  then show ?thesis using assms(1) tag_name_fixed by blast
qed

lemma sorted_tags_entries:
  assumes "sorted_tags c ns = Some nds"
  shows "mset nds = mset (map (\<lambda>n. (n, description_of n)) ns)"
    and "2 \<le> length ns \<Longrightarrow> sorted (map (\<lambda>nd. c (name_text (fst nd))) nds)"
  using assms by (auto simp: sorted_tags_def Let_def split: if_splits)

lemma sorted_tags_names:
  assumes "sorted_tags c ns = Some nds" "nd \<in> set nds"
  shows "fst nd \<in> set ns \<and> snd nd = description_of (fst nd)"
  using mset_eq_setD [OF sorted_tags_entries(1) [OF assms(1)]] assms(2) by auto

lemma sorted_tags_again:
  assumes "sorted_tags c ns = Some nds"
  shows "sorted_tags c (map fst nds) = Some nds"
proof -
  have entries: "map (\<lambda>n. (n, description_of n)) (map fst nds) = nds"
    using sorted_tags_names [OF assms] by (auto intro!: map_idI simp: prod_eq_iff)
  have len: "length nds = length ns"
    using mset_eq_length [OF sorted_tags_entries(1) [OF assms]] by simp
  show ?thesis
  proof (cases "length ns < 2")
    case False
    then have "list_all (\<lambda>n. n = JStr (name_text n)) ns" using assms
      by (simp add: sorted_tags_def Let_def split: if_splits)
    then have "list_all (\<lambda>n. n = JStr (name_text n)) (map fst nds)"
      using sorted_tags_names [OF assms] by (auto simp: list_all_iff)
    moreover have "sort_key (\<lambda>nd. c (name_text (fst nd))) nds = nds"
      using sorted_tags_entries(2) [OF assms] False by (simp add: sort_key_id_if_sorted)
    ultimately show ?thesis using False len entries by (simp only: sorted_tags_def Let_def) simp
  qed (use len entries in \<open>simp add: sorted_tags_def Let_def\<close>)
qed

lemma rename_spec_cases:
  assumes "rename_spec c spec = Some v"
  obtains fs ts ns nds where "renameTags spec = JObj fs" "map_of fs (js ''tags'') = Some (JArr ts)"
    "those (map tag_name ts) = Some ns" "sorted_tags c ns = Some nds"
    "v = JObj (put_field (js ''tags'') (JArr (map tag_entry nds)) fs)"
  using assms by (auto simp: rename_spec_def bind_eq_Some_conv split: jsval.splits option.splits)

lemma rename_spec_again:
  assumes "rename_spec c spec = Some v"
  shows "rename_spec c v = Some v"
proof -
  obtain fs ts ns nds where v: "renameTags spec = JObj fs" "map_of fs (js ''tags'') = Some (JArr ts)"
    "those (map tag_name ts) = Some ns" "sorted_tags c ns = Some nds"
    "v = JObj (put_field (js ''tags'') (JArr (map tag_entry nds)) fs)"
    by (rule rename_spec_cases [OF assms])
  have fs: "rename_fields fs = fs" using renameTags_again(1) [of spec] v(1) by simp
  have "\<forall>t\<in>set ts. renamed_tag t" by (rule renamed_tag_list [OF renamed_tags [OF fs v(2)]])
  then have fixed: "\<forall>nd\<in>set nds. tag_display (fst nd) = fst nd \<and> renameTags (fst nd) = fst nd"
    using those_fixed [OF _ v(3)] sorted_tags_names [OF v(4)] by blast
  then have "renameTags v = v" by (simp add: v(5) rename_put_field rename_entries fs)
  moreover have "those (map tag_name (map tag_entry nds)) = Some (map fst nds)"
    using fixed by (intro those_entries) blast
  ultimately show ?thesis
    by (simp add: rename_spec_def v(5) put_field_map put_field_again sorted_tags_again [OF v(4)] del: map_map)
qed

text \<open>What is parsed, and what the script makes of it, is JSON data, which reads back as printed.\<close>

lemma data_put_field:
  "list_all (\<lambda>f. json_data (snd f)) fs \<Longrightarrow> json_data v \<Longrightarrow> list_all (\<lambda>f. json_data (snd f)) (put_field k v fs)"
  by (induction k v fs rule: put_field.induct) auto

lemma rename_fields_keys: "map fst (rename_fields fs) = map fst fs"
  by (induction fs) auto

lemma rename_data:
  "json_data v \<Longrightarrow> json_data (renameTags v)"
  "list_all json_data vs \<Longrightarrow> list_all json_data (rename_items vs)"
  "list_all (\<lambda>f. json_data (snd f)) fs \<Longrightarrow> list_all (\<lambda>f. json_data (snd f)) (rename_fields fs)"
  "list_all json_data ts \<Longrightarrow> list_all json_data (rename_tag_list ts)"
proof (induction v and vs and fs and ts rule: renameTags_rename_items_rename_fields_rename_tag_list.induct)
  case (7 k v fs)
  then show ?case by (cases v) auto
next
  case (9 t ts)
  then show ?case by (cases t) auto
qed (auto simp: rename_fields_keys)

lemma map_of_data: "list_all (\<lambda>f. json_data (snd f)) fs \<Longrightarrow> map_of fs k = Some v \<Longrightarrow> json_data v"
  by (auto simp: list_all_iff dest!: map_of_SomeD)

lemma tag_name_data: "json_data t \<Longrightarrow> tag_name t = Some n \<Longrightarrow> n = JUndef \<or> json_data n"
  by (cases t) (auto simp: tag_name_def tag_display_def get_field_def intro: map_of_data split: option.splits)

lemma tag_entry_data: "fst nd = JUndef \<or> json_data (fst nd) \<Longrightarrow> json_data (tag_entry nd)"
  by (auto simp: tag_entry_def name_not_tags)

lemma rename_spec_data:
  assumes "json_data spec" "rename_spec c spec = Some v"
  shows "json_data v"
proof -
  obtain fs ts ns nds where v: "renameTags spec = JObj fs" "map_of fs (js ''tags'') = Some (JArr ts)"
    "those (map tag_name ts) = Some ns" "sorted_tags c ns = Some nds"
    "v = JObj (put_field (js ''tags'') (JArr (map tag_entry nds)) fs)"
    by (rule rename_spec_cases [OF assms(2)])
  have fs: "json_data (JObj fs)" using rename_data(1) [OF assms(1)] v(1) by simp
  then have "json_data (JArr ts)" using map_of_data [OF _ v(2)] by simp
  then have "n = JUndef \<or> json_data n" if "n \<in> set ns" for n
  proof -
    have "Some n \<in> set (map tag_name ts)" using that those_names [OF v(3), symmetric] by simp
    then obtain t where "t \<in> set ts" "tag_name t = Some n" by auto
    then show ?thesis using \<open>json_data (JArr ts)\<close> tag_name_data [of t n] by (simp add: list_all_iff)
  qed
  then have "list_all json_data (map tag_entry nds)"
    using sorted_tags_names [OF v(4)] by (auto simp: list_all_iff intro!: tag_entry_data)
  then show ?thesis using fs unfolding v(5) by (simp add: distinct_put_field data_put_field)
qed

lemma parse_data:
  "parse_value n s = Some (v, r) \<Longrightarrow> json_data v"
  "parse_items n acc s = Some (v, r) \<Longrightarrow> list_all json_data acc \<Longrightarrow> json_data v"
  "parse_members n fs s = Some (v, r) \<Longrightarrow> json_data (JObj fs) \<Longrightarrow> json_data v"
proof (induction n s and n acc s and n fs s arbitrary: v r and v r and v r
    rule: parse_value_parse_items_parse_members.induct)
  case (2 n s)
  have num: "list_all num_unit (takeWhile num_unit l)" for l
    by (auto simp: list_all_iff dest: set_takeWhileD)
  show ?case using 2
    by (auto simp: num parse_word_def Let_def simp del: takeWhile.simps dropWhile_eq_Nil_conv
        split: list.splits if_splits)
next
  case (4 n acc s)
  then show ?case by (auto split: option.splits list.splits if_splits prod.splits)
next
  case (6 n fs s)
  then show ?case by (auto split: option.splits list.splits if_splits prod.splits simp: distinct_put_field data_put_field)
qed simp_all

lemma parse_printed:
  assumes "json_data v"
  shows "json_parse (stringify_by g 0 v @ [10]) = Some v"
proof -
  let ?s = "stringify_by g 0 v"
  have "parse_value (2 * length (?s @ [10]) + 2) (?s @ [10]) = Some (v, [10])"
    by (rule value_readsD [OF stringify_by_reads(1) [OF assms]])
       (simp_all add: ends_number_def num_unit_def is_digit_def)
  then show ?thesis by (simp add: json_parse_def json_ws_def)
qed

lemma openapi_tags_again: "openapi_tags c raw = Some out \<Longrightarrow> openapi_tags c out = Some out"
proof -
  assume "openapi_tags c raw = Some out"
  then obtain spec v where v: "json_parse raw = Some spec" "rename_spec c spec = Some v"
    "out = stringify_by 4 0 v @ [10]"
    by (auto simp: openapi_tags_def bind_eq_Some_conv)
  have "json_data spec"
    using v(1) parse_data(1) by (auto simp: json_parse_def simp del: parse_value.simps split: option.splits if_splits)
  then have "json_parse out = Some v" unfolding v(3) by (rule parse_printed [OF rename_spec_data [OF _ v(2)]])
  then show "openapi_tags c out = Some out" by (simp add: openapi_tags_def v(3) rename_spec_again [OF v(2)])
qed

text \<open>C27. Running the script again changes nothing: whatever the two files hold, a second run leaves
  what the first one left, byte for byte, so the step of the build can be repeated.
\<close>
theorem script_idempotent:
  "run_script c (run_script c s) = run_script c s"
  by (cases "openapi_tags c (sf_input s)") (simp_all add: run_script_def openapi_tags_again)

text \<open>What it writes: the document's own list has every tag's display name once per tag, with its
  description, in the order of \<open>localeCompare\<close>.\<close>

lemma written_tags:
  assumes "rename_spec c spec = Some v"
  shows "\<exists>nds ts. get_field v (js ''tags'') = JArr (map tag_entry nds)
    \<and> get_field (renameTags spec) (js ''tags'') = JArr ts
    \<and> (2 \<le> length ts \<longrightarrow> sorted (map (\<lambda>nd. c (name_text (fst nd))) nds))
    \<and> image_mset (\<lambda>nd. Some (fst nd)) (mset nds) = image_mset tag_name (mset ts)
    \<and> (\<forall>nd\<in>set nds. snd nd = description_of (fst nd))"
proof -
  obtain fs ts ns nds where v: "renameTags spec = JObj fs" "map_of fs (js ''tags'') = Some (JArr ts)"
    "those (map tag_name ts) = Some ns" "sorted_tags c ns = Some nds"
    "v = JObj (put_field (js ''tags'') (JArr (map tag_entry nds)) fs)"
    by (rule rename_spec_cases [OF assms])
  have "image_mset (\<lambda>nd. Some (fst nd)) (mset nds) = mset (map Some ns)"
    by (simp add: sorted_tags_entries(1) [OF v(4)] image_mset.compositionality comp_def)
  also have "\<dots> = image_mset tag_name (mset ts)" by (simp only: those_names [OF v(3)] mset_map)
  moreover have "length ns = length ts" using arg_cong [OF those_names [OF v(3)], of length] by simp
  ultimately show ?thesis using sorted_tags_names [OF v(4)] sorted_tags_entries(2) [OF v(4)]
    by (intro exI [of _ nds] exI [of _ ts]) (simp add: v get_field_def put_field_map)
qed

end
