(* ===== verification/Endpoints.thy ===== *)
theory Endpoints
  imports Console OpenapiTags
begin

text \<open>
  The contract of the API as \<open>src/api/schema.d.ts\<close> declares it (the file is generated from the
  API document): the schemas of the messages, the operations with their parameters, bodies and
  answers, and the paths. Each call the console makes of the generated client is written out as
  its call site has it and checked against the contract.
\<close>

section \<open>Types\<close>

text \<open>
  \<open>TOpen\<close> is an object with further properties of any value. A field may always be left out:
  every field of every schema is optional.
\<close>

datatype ty =
    TString
  | TNumber
  | TBoolean
  | TEnum "string list"
  | TArray ty
  | TObject "(string \<times> ty) list"
  | TOpen "(string \<times> ty) list"

definition field_type :: "(string \<times> ty) list \<Rightarrow> jstr \<Rightarrow> ty option" where
  "field_type ts k = map_option snd (find (\<lambda>(n, t). js n = k) ts)"

fun fits :: "ty \<Rightarrow> jsval \<Rightarrow> bool"
  and fits_all :: "ty \<Rightarrow> jsval list \<Rightarrow> bool"
  and fits_fields :: "bool \<Rightarrow> (string \<times> ty) list \<Rightarrow> (jstr \<times> jsval) list \<Rightarrow> bool" where
  "fits t (JStr s) = (case t of TString \<Rightarrow> True | TEnum es \<Rightarrow> s \<in> set (map js es) | _ \<Rightarrow> False)"
| "fits t (JNum l) = (t = TNumber)"
| "fits t (JBool b) = (t = TBoolean)"
| "fits t (JArr vs) = (case t of TArray u \<Rightarrow> fits_all u vs | _ \<Rightarrow> False)"
| "fits t (JObj fs) = (case t of TObject ts \<Rightarrow> fits_fields False ts fs | TOpen ts \<Rightarrow> fits_fields True ts fs | _ \<Rightarrow> False)"
| "fits t v = False"
| "fits_all t [] = True"
| "fits_all t (v # vs) = (fits t v \<and> fits_all t vs)"
| "fits_fields b ts [] = True"
| "fits_fields b ts ((k, v) # fs) =
     ((v = JUndef \<or> (case field_type ts k of None \<Rightarrow> b | Some t \<Rightarrow> fits t v)) \<and> fits_fields b ts fs)"

datatype http_method = Get | Post | Patch

text \<open>Query parameters are optional, path parameters are not; a declared body is required.\<close>

record operation =
  op_query :: "(string \<times> ty) list"
  op_path :: "(string \<times> ty) list"
  op_body :: "ty option"
  op_ok :: ty
  op_default :: ty

section \<open>Schemas\<close>

definition AnchorKind_ty :: ty where
  "AnchorKind_ty =
     TEnum [''KIND_UNSPECIFIED'', ''KIND_RFC3161_TSA'', ''KIND_TRANSPARENCY_LOG'', ''KIND_PUBLIC_CHAIN'']"

definition ApiKeyServiceCreateApiKeyBody_ty :: ty where
  "ApiKeyServiceCreateApiKeyBody_ty = TObject [(''name'', TString)]"

definition ApiKeyServiceRevokeApiKeyBody_ty :: ty where
  "ApiKeyServiceRevokeApiKeyBody_ty = TObject []"

definition CaptureServiceEndSessionBody_ty :: ty where
  "CaptureServiceEndSessionBody_ty = TObject []"

definition CaptureServiceRecordActionBody_ty :: ty where
  "CaptureServiceRecordActionBody_ty =
     TObject [(''grant_id'', TString), (''action_type'', TString), (''action_payload'', TString),
       (''pre_state_hash'', TString), (''post_state_hash'', TString), (''recording_ref'', TString),
       (''resource'', TString), (''value_cents'', TString)]"

definition DelegationServiceRevokeBody_ty :: ty where
  "DelegationServiceRevokeBody_ty = TObject [(''reason'', TString)]"

definition protobufAny_ty :: ty where
  "protobufAny_ty = TOpen [(''@type'', TString)]"

definition rpcStatus_ty :: ty where
  "rpcStatus_ty =
     TObject [(''code'', TNumber), (''message'', TString), (''details'', TArray protobufAny_ty)]"

definition v1AccountType_ty :: ty where
  "v1AccountType_ty =
     TEnum [''ACCOUNT_TYPE_UNSPECIFIED'', ''ACCOUNT_TYPE_PERSONAL'', ''ACCOUNT_TYPE_ORGANIZATION'']"

definition v1Surface_ty :: ty where
  "v1Surface_ty =
     TEnum [''SURFACE_UNSPECIFIED'', ''SURFACE_BROWSER'', ''SURFACE_SANDBOX'', ''SURFACE_DESKTOP'']"

definition v1ActionEvent_ty :: ty where
  "v1ActionEvent_ty =
     TObject [(''event_id'', TString), (''project_id'', TString), (''session_id'', TString),
       (''sequence'', TString), (''surface'', v1Surface_ty), (''action_type'', TString),
       (''action_payload'', TString), (''grant_id'', TString), (''pre_state_hash'', TString),
       (''post_state_hash'', TString), (''recording_ref'', TString), (''occurred_at'', TString),
       (''content_hash'', TString), (''prev_hash'', TString), (''notary_signature'', TString)]"

definition v1Anchor_ty :: ty where
  "v1Anchor_ty =
     TObject [(''kind'', AnchorKind_ty), (''root'', TString), (''anchor_receipt'', TString),
       (''anchored_at'', TString)]"

definition v1ApiKey_ty :: ty where
  "v1ApiKey_ty =
     TObject [(''id'', TString), (''project_id'', TString), (''name'', TString), (''prefix'', TString),
       (''last4'', TString), (''revoked'', TBoolean), (''created_at'', TString)]"

definition v1BeginSessionRequest_ty :: ty where
  "v1BeginSessionRequest_ty =
     TObject [(''root_grant_id'', TString), (''surface'', v1Surface_ty)]"

definition v1Session_ty :: ty where
  "v1Session_ty =
     TObject [(''session_id'', TString), (''project_id'', TString), (''root_grant_id'', TString),
       (''surface'', v1Surface_ty), (''started_at'', TString), (''ended_at'', TString),
       (''event_count'', TString)]"

definition v1BeginSessionResponse_ty :: ty where
  "v1BeginSessionResponse_ty = TObject [(''session'', v1Session_ty)]"

definition v1Branding_ty :: ty where
  "v1Branding_ty =
     TObject [(''company_name'', TString), (''logo_url'', TString), (''brand_color'', TString)]"

definition v1CreateApiKeyResponse_ty :: ty where
  "v1CreateApiKeyResponse_ty = TObject [(''key'', v1ApiKey_ty), (''secret'', TString)]"

definition v1CreateProjectRequest_ty :: ty where
  "v1CreateProjectRequest_ty = TObject [(''name'', TString)]"

definition v1Project_ty :: ty where
  "v1Project_ty =
     TObject [(''id'', TString), (''name'', TString), (''active_keys'', TString), (''created_at'', TString)]"

definition v1CreateProjectResponse_ty :: ty where
  "v1CreateProjectResponse_ty = TObject [(''project'', v1Project_ty)]"

definition v1DayCount_ty :: ty where
  "v1DayCount_ty = TObject [(''date'', TString), (''count'', TString)]"

definition v1Scope_ty :: ty where
  "v1Scope_ty =
     TObject [(''resource_globs'', TArray TString), (''max_value_cents'', TString),
       (''max_depth'', TNumber)]"

definition v1DelegateRequest_ty :: ty where
  "v1DelegateRequest_ty =
     TObject [(''parent_grant_id'', TString), (''subject_id'', TString),
       (''capabilities'', TArray TString), (''scope'', v1Scope_ty)]"

definition v1Grant_ty :: ty where
  "v1Grant_ty =
     TObject [(''grant_id'', TString), (''project_id'', TString), (''parent_grant_id'', TString),
       (''principal_id'', TString), (''subject_id'', TString), (''capabilities'', TArray TString),
       (''scope'', v1Scope_ty), (''expires_at'', TString), (''parent_signature'', TString)]"

definition v1DelegateResponse_ty :: ty where
  "v1DelegateResponse_ty = TObject [(''grant'', v1Grant_ty)]"

definition v1EndSessionResponse_ty :: ty where
  "v1EndSessionResponse_ty = TObject [(''session'', v1Session_ty)]"

definition v1GetAnchorResponse_ty :: ty where
  "v1GetAnchorResponse_ty = TObject [(''anchor'', v1Anchor_ty)]"

definition v1GetEventResponse_ty :: ty where
  "v1GetEventResponse_ty = TObject [(''event'', v1ActionEvent_ty)]"

definition v1Proof_ty :: ty where
  "v1Proof_ty =
     TObject [(''event'', v1ActionEvent_ty), (''merkle_path'', TArray TString),
       (''merkle_root'', TString), (''anchor'', v1Anchor_ty),
       (''delegation_chain'', TArray v1Grant_ty)]"

definition v1GetInclusionProofResponse_ty :: ty where
  "v1GetInclusionProofResponse_ty = TObject [(''proof'', v1Proof_ty)]"

definition v1SurfaceCount_ty :: ty where
  "v1SurfaceCount_ty = TObject [(''surface'', TString), (''count'', TString)]"

definition v1TopLink_ty :: ty where
  "v1TopLink_ty = TObject [(''url'', TString), (''count'', TString)]"

definition v1GetOverviewResponse_ty :: ty where
  "v1GetOverviewResponse_ty =
     TObject [(''total_events'', TString), (''total_sessions'', TString), (''total_grants'', TString),
       (''revoked_grants'', TString), (''by_surface'', TArray v1SurfaceCount_ty),
       (''over_time'', TArray v1DayCount_ty), (''top_links'', TArray v1TopLink_ty)]"

definition v1GetPublicKeyResponse_ty :: ty where
  "v1GetPublicKeyResponse_ty = TObject [(''key_id'', TString), (''public_key'', TString)]"

definition v1GetReplayResponse_ty :: ty where
  "v1GetReplayResponse_ty = TObject [(''event'', v1ActionEvent_ty), (''frame'', TString)]"

definition v1IssueRootGrantRequest_ty :: ty where
  "v1IssueRootGrantRequest_ty =
     TObject [(''principal_id'', TString), (''scope'', v1Scope_ty), (''project_id'', TString)]"

definition v1IssueRootGrantResponse_ty :: ty where
  "v1IssueRootGrantResponse_ty = TObject [(''grant'', v1Grant_ty)]"

definition v1ListApiKeysResponse_ty :: ty where
  "v1ListApiKeysResponse_ty =
     TObject [(''keys'', TArray v1ApiKey_ty), (''next_page_token'', TString)]"

definition v1ListEventsResponse_ty :: ty where
  "v1ListEventsResponse_ty =
     TObject [(''events'', TArray v1ActionEvent_ty), (''next_page_token'', TString)]"

definition v1ListGrantsResponse_ty :: ty where
  "v1ListGrantsResponse_ty =
     TObject [(''grants'', TArray v1Grant_ty), (''next_page_token'', TString)]"

definition v1ListProjectsResponse_ty :: ty where
  "v1ListProjectsResponse_ty =
     TObject [(''projects'', TArray v1Project_ty), (''next_page_token'', TString)]"

definition v1ListSessionsResponse_ty :: ty where
  "v1ListSessionsResponse_ty =
     TObject [(''sessions'', TArray v1Session_ty), (''next_page_token'', TString)]"

definition v1LoginRequest_ty :: ty where
  "v1LoginRequest_ty = TObject [(''email'', TString), (''password'', TString)]"

definition v1User_ty :: ty where
  "v1User_ty =
     TObject [(''id'', TString), (''email'', TString), (''account_type'', v1AccountType_ty),
       (''org_name'', TString), (''org_domain'', TString), (''industry'', TString),
       (''created_at'', TString)]"

definition v1LoginResponse_ty :: ty where
  "v1LoginResponse_ty = TObject [(''token'', TString), (''user'', v1User_ty)]"

definition v1MeResponse_ty :: ty where
  "v1MeResponse_ty = TObject [(''user'', v1User_ty), (''branding'', v1Branding_ty)]"

definition v1RecordActionResponse_ty :: ty where
  "v1RecordActionResponse_ty = TObject [(''event'', v1ActionEvent_ty)]"

definition v1RevokeApiKeyResponse_ty :: ty where
  "v1RevokeApiKeyResponse_ty = TObject [(''revoked'', TBoolean)]"

definition v1RevokeResponse_ty :: ty where
  "v1RevokeResponse_ty = TObject [(''revoked'', TBoolean)]"

definition v1SignupRequest_ty :: ty where
  "v1SignupRequest_ty =
     TObject [(''email'', TString), (''password'', TString), (''account_type'', v1AccountType_ty),
       (''org_name'', TString), (''org_domain'', TString), (''industry'', TString)]"

definition v1SignupResponse_ty :: ty where
  "v1SignupResponse_ty = TObject [(''token'', TString), (''user'', v1User_ty)]"

definition v1UpdateProfileRequest_ty :: ty where
  "v1UpdateProfileRequest_ty =
     TObject [(''org_name'', TString), (''org_domain'', TString), (''industry'', TString)]"

definition v1UpdateProfileResponse_ty :: ty where
  "v1UpdateProfileResponse_ty = TObject [(''user'', v1User_ty)]"

definition v1VerifyChainResponse_ty :: ty where
  "v1VerifyChainResponse_ty =
     TObject [(''valid'', TBoolean), (''chain'', TArray v1Grant_ty), (''reason'', TString)]"

definition v1VerifyProofRequest_ty :: ty where
  "v1VerifyProofRequest_ty = TObject [(''proof'', v1Proof_ty)]"

definition v1VerifyProofResponse_ty :: ty where
  "v1VerifyProofResponse_ty =
     TObject [(''valid'', TBoolean), (''chain_intact'', TBoolean), (''signature_valid'', TBoolean),
       (''anchored'', TBoolean), (''authority_valid'', TBoolean), (''reason'', TString)]"

section \<open>Operations\<close>

definition AnalyticsService_GetOverview :: operation where
  "AnalyticsService_GetOverview = \<lparr>op_query = [(''days'', TNumber)],
     op_path = [], op_body = None,
     op_ok = v1GetOverviewResponse_ty,
     op_default = rpcStatus_ty\<rparr>"

definition AuthService_Login :: operation where
  "AuthService_Login = \<lparr>op_query = [],
     op_path = [], op_body = Some v1LoginRequest_ty,
     op_ok = v1LoginResponse_ty,
     op_default = rpcStatus_ty\<rparr>"

definition AuthService_Me :: operation where
  "AuthService_Me = \<lparr>op_query = [],
     op_path = [], op_body = None,
     op_ok = v1MeResponse_ty,
     op_default = rpcStatus_ty\<rparr>"

definition AuthService_UpdateProfile :: operation where
  "AuthService_UpdateProfile = \<lparr>op_query = [],
     op_path = [], op_body = Some v1UpdateProfileRequest_ty,
     op_ok = v1UpdateProfileResponse_ty,
     op_default = rpcStatus_ty\<rparr>"

definition AuthService_Signup :: operation where
  "AuthService_Signup = \<lparr>op_query = [],
     op_path = [], op_body = Some v1SignupRequest_ty,
     op_ok = v1SignupResponse_ty,
     op_default = rpcStatus_ty\<rparr>"

definition LedgerService_ListEvents :: operation where
  "LedgerService_ListEvents = \<lparr>op_query = [(''page_size'', TNumber), (''page_token'', TString), (''project_id'', TString)],
     op_path = [], op_body = None,
     op_ok = v1ListEventsResponse_ty,
     op_default = rpcStatus_ty\<rparr>"

definition LedgerService_GetEvent :: operation where
  "LedgerService_GetEvent = \<lparr>op_query = [],
     op_path = [(''event_id'', TString)], op_body = None,
     op_ok = v1GetEventResponse_ty,
     op_default = rpcStatus_ty\<rparr>"

definition LedgerService_GetInclusionProof :: operation where
  "LedgerService_GetInclusionProof = \<lparr>op_query = [],
     op_path = [(''event_id'', TString)], op_body = None,
     op_ok = v1GetInclusionProofResponse_ty,
     op_default = rpcStatus_ty\<rparr>"

definition DelegationService_ListGrants :: operation where
  "DelegationService_ListGrants = \<lparr>op_query = [(''page_size'', TNumber), (''page_token'', TString), (''project_id'', TString)],
     op_path = [], op_body = None,
     op_ok = v1ListGrantsResponse_ty,
     op_default = rpcStatus_ty\<rparr>"

definition DelegationService_Delegate :: operation where
  "DelegationService_Delegate = \<lparr>op_query = [],
     op_path = [], op_body = Some v1DelegateRequest_ty,
     op_ok = v1DelegateResponse_ty,
     op_default = rpcStatus_ty\<rparr>"

definition DelegationService_Revoke :: operation where
  "DelegationService_Revoke = \<lparr>op_query = [],
     op_path = [(''grant_id'', TString)], op_body = Some DelegationServiceRevokeBody_ty,
     op_ok = v1RevokeResponse_ty,
     op_default = rpcStatus_ty\<rparr>"

definition DelegationService_VerifyChain :: operation where
  "DelegationService_VerifyChain = \<lparr>op_query = [],
     op_path = [(''grant_id'', TString)], op_body = None,
     op_ok = v1VerifyChainResponse_ty,
     op_default = rpcStatus_ty\<rparr>"

definition DelegationService_IssueRootGrant :: operation where
  "DelegationService_IssueRootGrant = \<lparr>op_query = [],
     op_path = [], op_body = Some v1IssueRootGrantRequest_ty,
     op_ok = v1IssueRootGrantResponse_ty,
     op_default = rpcStatus_ty\<rparr>"

definition ApiKeyService_RevokeApiKey :: operation where
  "ApiKeyService_RevokeApiKey = \<lparr>op_query = [],
     op_path = [(''key_id'', TString)], op_body = Some ApiKeyServiceRevokeApiKeyBody_ty,
     op_ok = v1RevokeApiKeyResponse_ty,
     op_default = rpcStatus_ty\<rparr>"

definition NotaryService_GetPublicKey :: operation where
  "NotaryService_GetPublicKey = \<lparr>op_query = [],
     op_path = [], op_body = None,
     op_ok = v1GetPublicKeyResponse_ty,
     op_default = rpcStatus_ty\<rparr>"

definition ProjectService_ListProjects :: operation where
  "ProjectService_ListProjects = \<lparr>op_query = [(''page_size'', TNumber), (''page_token'', TString)],
     op_path = [], op_body = None,
     op_ok = v1ListProjectsResponse_ty,
     op_default = rpcStatus_ty\<rparr>"

definition ProjectService_CreateProject :: operation where
  "ProjectService_CreateProject = \<lparr>op_query = [],
     op_path = [], op_body = Some v1CreateProjectRequest_ty,
     op_ok = v1CreateProjectResponse_ty,
     op_default = rpcStatus_ty\<rparr>"

definition ApiKeyService_ListApiKeys :: operation where
  "ApiKeyService_ListApiKeys = \<lparr>op_query = [(''page_size'', TNumber), (''page_token'', TString)],
     op_path = [(''project_id'', TString)], op_body = None,
     op_ok = v1ListApiKeysResponse_ty,
     op_default = rpcStatus_ty\<rparr>"

definition ApiKeyService_CreateApiKey :: operation where
  "ApiKeyService_CreateApiKey = \<lparr>op_query = [],
     op_path = [(''project_id'', TString)], op_body = Some ApiKeyServiceCreateApiKeyBody_ty,
     op_ok = v1CreateApiKeyResponse_ty,
     op_default = rpcStatus_ty\<rparr>"

definition VerifyService_VerifyProof :: operation where
  "VerifyService_VerifyProof = \<lparr>op_query = [],
     op_path = [], op_body = Some v1VerifyProofRequest_ty,
     op_ok = v1VerifyProofResponse_ty,
     op_default = rpcStatus_ty\<rparr>"

definition CaptureService_ListSessions :: operation where
  "CaptureService_ListSessions = \<lparr>op_query = [(''page_size'', TNumber), (''page_token'', TString), (''project_id'', TString)],
     op_path = [], op_body = None,
     op_ok = v1ListSessionsResponse_ty,
     op_default = rpcStatus_ty\<rparr>"

definition CaptureService_BeginSession :: operation where
  "CaptureService_BeginSession = \<lparr>op_query = [],
     op_path = [], op_body = Some v1BeginSessionRequest_ty,
     op_ok = v1BeginSessionResponse_ty,
     op_default = rpcStatus_ty\<rparr>"

definition CaptureService_RecordAction :: operation where
  "CaptureService_RecordAction = \<lparr>op_query = [],
     op_path = [(''session_id'', TString)], op_body = Some CaptureServiceRecordActionBody_ty,
     op_ok = v1RecordActionResponse_ty,
     op_default = rpcStatus_ty\<rparr>"

definition NotaryService_GetAnchor :: operation where
  "NotaryService_GetAnchor = \<lparr>op_query = [],
     op_path = [(''session_id'', TString)], op_body = None,
     op_ok = v1GetAnchorResponse_ty,
     op_default = rpcStatus_ty\<rparr>"

definition CaptureService_EndSession :: operation where
  "CaptureService_EndSession = \<lparr>op_query = [],
     op_path = [(''session_id'', TString)], op_body = Some CaptureServiceEndSessionBody_ty,
     op_ok = v1EndSessionResponse_ty,
     op_default = rpcStatus_ty\<rparr>"

definition ReplayService_GetReplay :: operation where
  "ReplayService_GetReplay = \<lparr>op_query = [],
     op_path = [(''session_id'', TString)], op_body = None,
     op_ok = TObject [(''result'', v1GetReplayResponse_ty), (''error'', rpcStatus_ty)],
     op_default = rpcStatus_ty\<rparr>"

section \<open>Paths\<close>

definition paths :: "(string \<times> (http_method \<times> operation) list) list" where
  "paths = [
     (''/v1/analytics/overview'',
       [(Get, AnalyticsService_GetOverview)]),
     (''/v1/auth/login'',
       [(Post, AuthService_Login)]),
     (''/v1/auth/me'',
       [(Get, AuthService_Me), (Patch, AuthService_UpdateProfile)]),
     (''/v1/auth/signup'',
       [(Post, AuthService_Signup)]),
     (''/v1/events'',
       [(Get, LedgerService_ListEvents)]),
     (''/v1/events/{event_id}'',
       [(Get, LedgerService_GetEvent)]),
     (''/v1/events/{event_id}:proof'',
       [(Get, LedgerService_GetInclusionProof)]),
     (''/v1/grants'',
       [(Get, DelegationService_ListGrants), (Post, DelegationService_Delegate)]),
     (''/v1/grants/{grant_id}/revoke'',
       [(Post, DelegationService_Revoke)]),
     (''/v1/grants/{grant_id}:verify'',
       [(Get, DelegationService_VerifyChain)]),
     (''/v1/grants:root'',
       [(Post, DelegationService_IssueRootGrant)]),
     (''/v1/keys/{key_id}/revoke'',
       [(Post, ApiKeyService_RevokeApiKey)]),
     (''/v1/notary/public-key'',
       [(Get, NotaryService_GetPublicKey)]),
     (''/v1/projects'',
       [(Get, ProjectService_ListProjects), (Post, ProjectService_CreateProject)]),
     (''/v1/projects/{project_id}/keys'',
       [(Get, ApiKeyService_ListApiKeys), (Post, ApiKeyService_CreateApiKey)]),
     (''/v1/proofs:verify'',
       [(Post, VerifyService_VerifyProof)]),
     (''/v1/sessions'',
       [(Get, CaptureService_ListSessions), (Post, CaptureService_BeginSession)]),
     (''/v1/sessions/{session_id}/actions'',
       [(Post, CaptureService_RecordAction)]),
     (''/v1/sessions/{session_id}/anchor'',
       [(Get, NotaryService_GetAnchor)]),
     (''/v1/sessions/{session_id}/end'',
       [(Post, CaptureService_EndSession)]),
     (''/v1/sessions/{session_id}:replay'',
       [(Get, ReplayService_GetReplay)])]"

definition operation_at :: "string \<Rightarrow> http_method \<Rightarrow> operation option" where
  "operation_at p m = Option.bind (map_of paths p) (\<lambda>ops. map_of ops m)"

section \<open>Calls\<close>

record call =
  ca_method :: http_method
  ca_path :: string
  ca_params :: "(string \<times> jsval) list"
  ca_query :: "(string \<times> jsval) list"
  ca_body :: "jsval option"

definition get_call :: "string \<Rightarrow> (string \<times> jsval) list \<Rightarrow> (string \<times> jsval) list \<Rightarrow> call" where
  "get_call p ps qs = \<lparr>ca_method = Get, ca_path = p, ca_params = ps, ca_query = qs, ca_body = None\<rparr>"

definition send_call :: "http_method \<Rightarrow> string \<Rightarrow> (string \<times> jsval) list \<Rightarrow> (string \<times> jsval) list \<Rightarrow> call" where
  "send_call m p ps body = \<lparr>ca_method = m, ca_path = p, ca_params = ps, ca_query = [],
     ca_body = Some (JObj (map (\<lambda>(k, v). (js k, v)) body))\<rparr>"

definition number :: "nat \<Rightarrow> jsval" where
  "number n = JNum (nat_text n)"

definition opt_value :: "jstr option \<Rightarrow> jsval" where
  "opt_value v = (case v of None \<Rightarrow> JUndef | Some s \<Rightarrow> JStr s)"

definition me_call :: call where
  "me_call = get_call ''/v1/auth/me'' [] []"

definition login_call :: "jstr \<Rightarrow> jstr \<Rightarrow> call" where
  "login_call email password = send_call Post ''/v1/auth/login'' []
     [(''email'', JStr email), (''password'', JStr password)]"

definition signup_call :: "signup_body \<Rightarrow> call" where
  "signup_call b = send_call Post ''/v1/auth/signup'' []
     [(''email'', JStr (sg_email b)), (''password'', JStr (sg_password b)),
      (''account_type'', JStr (sg_account_type b)), (''org_name'', opt_value (sg_org_name b)),
      (''org_domain'', opt_value (sg_org_domain b)), (''industry'', opt_value (sg_industry b))]"

definition page_query :: "nat \<Rightarrow> jstr \<Rightarrow> (string \<times> jsval) list" where
  "page_query n t = [(''page_size'', number n), (''page_token'', JStr t)]"

definition projects_call :: "nat \<Rightarrow> jstr \<Rightarrow> call" where
  "projects_call n t = get_call ''/v1/projects'' [] (page_query n t)"

definition create_project_call :: "jstr \<Rightarrow> call" where
  "create_project_call name = send_call Post ''/v1/projects'' [] [(''name'', JStr name)]"

definition keys_call :: "jstr \<Rightarrow> nat \<Rightarrow> call" where
  "keys_call i n = get_call ''/v1/projects/{project_id}/keys'' [(''project_id'', JStr i)] [(''page_size'', number n)]"

definition create_key_call :: "jstr \<Rightarrow> jstr \<Rightarrow> call" where
  "create_key_call i name = send_call Post ''/v1/projects/{project_id}/keys''
     [(''project_id'', JStr i)] [(''name'', JStr name)]"

definition revoke_key_call :: "jstr \<Rightarrow> call" where
  "revoke_key_call i = send_call Post ''/v1/keys/{key_id}/revoke'' [(''key_id'', JStr i)] []"

definition verify_call :: "jsval \<Rightarrow> call" where
  "verify_call proof = send_call Post ''/v1/proofs:verify'' [] [(''proof'', proof)]"

definition proof_call :: "jstr \<Rightarrow> call" where
  "proof_call i = get_call ''/v1/events/{event_id}:proof'' [(''event_id'', JStr i)] []"

definition grants_call :: "nat \<Rightarrow> jstr \<Rightarrow> jstr \<Rightarrow> call" where
  "grants_call n t pid = get_call ''/v1/grants'' [] (page_query n t @ [(''project_id'', JStr pid)])"

definition chain_call :: "jstr \<Rightarrow> call" where
  "chain_call i = get_call ''/v1/grants/{grant_id}:verify'' [(''grant_id'', JStr i)] []"

definition revoke_grant_call :: "jstr \<Rightarrow> call" where
  "revoke_grant_call i = send_call Post ''/v1/grants/{grant_id}/revoke'' [(''grant_id'', JStr i)] []"

definition events_call :: "nat \<Rightarrow> jstr \<Rightarrow> jstr \<Rightarrow> call" where
  "events_call n t pid = get_call ''/v1/events'' [] (page_query n t @ [(''project_id'', JStr pid)])"

definition sessions_call :: "nat \<Rightarrow> jstr \<Rightarrow> jstr \<Rightarrow> call" where
  "sessions_call n t pid = get_call ''/v1/sessions'' [] (page_query n t @ [(''project_id'', JStr pid)])"

definition anchor_call :: "jstr \<Rightarrow> call" where
  "anchor_call i = get_call ''/v1/sessions/{session_id}/anchor'' [(''session_id'', JStr i)] []"

definition overview_call :: "nat \<Rightarrow> call" where
  "overview_call days = get_call ''/v1/analytics/overview'' [] [(''days'', number days)]"

definition public_key_call :: call where
  "public_key_call = get_call ''/v1/notary/public-key'' [] []"

definition profile_call :: "jstr \<Rightarrow> jstr \<Rightarrow> jstr \<Rightarrow> call" where
  "profile_call name domain industry = send_call Patch ''/v1/auth/me'' []
     [(''org_name'', JStr name), (''org_domain'', JStr domain), (''industry'', JStr industry)]"

text \<open>The logout and the replay are fetched by hand, not through the client.\<close>

fun call_of :: "api_request \<Rightarrow> call option" where
  "call_of (GetOverview d) = Some (overview_call d)"
| "call_of (PostLogin e p) = Some (login_call e p)"
| "call_of PostLogout = None"
| "call_of GetMe = Some me_call"
| "call_of (PatchMe n d i) = Some (profile_call n d i)"
| "call_of (PostSignup b) = Some (signup_call b)"
| "call_of (ListEvents n t p) = Some (events_call n t p)"
| "call_of (GetProof i) = Some (proof_call i)"
| "call_of (ListGrants n t p) = Some (grants_call n t p)"
| "call_of (RevokeGrant i) = Some (revoke_grant_call i)"
| "call_of (VerifyGrant i) = Some (chain_call i)"
| "call_of (RevokeKey i) = Some (revoke_key_call i)"
| "call_of GetPublicKey = Some public_key_call"
| "call_of (ListProjects n t) = Some (projects_call n t)"
| "call_of (CreateProject n) = Some (create_project_call n)"
| "call_of (ListKeys i n) = Some (keys_call i n)"
| "call_of (CreateKey i n) = Some (create_key_call i n)"
| "call_of (VerifyProof v) = Some (verify_call v)"
| "call_of (ListSessions n t p) = Some (sessions_call n t p)"
| "call_of (GetAnchor i) = Some (anchor_call i)"
| "call_of (GetReplay i) = None"

section \<open>Conformance\<close>

definition given :: "(string \<times> ty) list \<Rightarrow> (string \<times> jsval) list \<Rightarrow> bool" where
  "given ts vs \<longleftrightarrow> map fst vs = map fst ts \<and> list_all2 (\<lambda>(k, t) (k', v). fits t v) ts vs"

definition conforms :: "call \<Rightarrow> bool" where
  "conforms c \<longleftrightarrow> (case operation_at (ca_path c) (ca_method c) of
     None \<Rightarrow> False
   | Some q \<Rightarrow> given (op_path q) (ca_params c)
       \<and> fits_fields False (op_query q) (map (\<lambda>(k, v). (js k, v)) (ca_query c))
       \<and> (case op_body q of None \<Rightarrow> ca_body c = None
          | Some t \<Rightarrow> (case ca_body c of None \<Rightarrow> False | Some v \<Rightarrow> fits t v)))"


lemma field_type_Cons [simp]:
  "field_type ((n, t) # ts) (js k) = (if n = k then Some t else field_type ts (js k))"
  "field_type [] k' = None"
  by (simp_all add: field_type_def)

lemma fits_fields_append [simp]:
  "fits_fields b ts (fs @ gs) = (fits_fields b ts fs \<and> fits_fields b ts gs)"
  by (induction fs) auto

lemma fits_all_list [simp]: "fits_all t vs = list_all (fits t) vs"
  by (induction vs) auto

lemma fits_fields_opt_json [simp]:
  "fits_fields b ts (opt_json k f v) = (\<forall>x\<in>set_option v. f x = JUndef
     \<or> (case field_type ts (js k) of None \<Rightarrow> b | Some t \<Rightarrow> fits t (f x)))"
  by (auto simp: opt_json_def split: option.splits)

lemma fits_opt_value [simp]: "opt_value v = JUndef \<or> fits TString (opt_value v)"
  by (simp add: opt_value_def split: option.splits)

lemma fits_number [simp]: "fits TNumber (number n)"
  by (simp add: number_def)

lemmas schema_defs = AnchorKind_ty_def v1Surface_ty_def v1ActionEvent_ty_def v1Anchor_ty_def v1Scope_ty_def
  v1Grant_ty_def v1Proof_ty_def v1AccountType_ty_def v1LoginRequest_ty_def v1SignupRequest_ty_def
  v1UpdateProfileRequest_ty_def v1CreateProjectRequest_ty_def v1VerifyProofRequest_ty_def
  ApiKeyServiceCreateApiKeyBody_ty_def ApiKeyServiceRevokeApiKeyBody_ty_def DelegationServiceRevokeBody_ty_def

text \<open>A proof that came from the API: its strings of a union are ones the schema names.\<close>

definition opt_fits :: "ty \<Rightarrow> jstr option \<Rightarrow> bool" where
  "opt_fits t v = (case v of None \<Rightarrow> True | Some s \<Rightarrow> fits t (JStr s))"

definition proof_declared :: "v1Proof \<Rightarrow> bool" where
  "proof_declared p \<longleftrightarrow>
     (case pf_event p of None \<Rightarrow> True | Some e \<Rightarrow> opt_fits v1Surface_ty (ev_surface e))
     \<and> (case pf_anchor p of None \<Rightarrow> True | Some a \<Rightarrow> opt_fits AnchorKind_ty (an_kind a))"

lemma opt_fits_iff: "opt_fits t v \<longleftrightarrow> (\<forall>s\<in>set_option v. fits t (JStr s))"
  by (auto simp: opt_fits_def split: option.splits)

lemma scope_fits: "fits v1Scope_ty (json_of_scope s)"
  by (simp add: json_of_scope_def v1Scope_ty_def list_all_iff)

lemma grant_fits: "fits v1Grant_ty (json_of_grant g)"
  by (simp add: json_of_grant_def v1Grant_ty_def list_all_iff scope_fits)

lemma event_fits: "opt_fits v1Surface_ty (ev_surface e) \<Longrightarrow> fits v1ActionEvent_ty (json_of_event e)"
  by (simp add: json_of_event_def v1ActionEvent_ty_def opt_fits_iff)

lemma anchor_fits: "opt_fits AnchorKind_ty (an_kind a) \<Longrightarrow> fits v1Anchor_ty (json_of_anchor a)"
  by (simp add: json_of_anchor_def v1Anchor_ty_def opt_fits_iff)

lemma proof_fits: "proof_declared p \<Longrightarrow> fits v1Proof_ty (json_of_proof p)"
  by (auto simp: json_of_proof_def v1Proof_ty_def proof_declared_def list_all_iff
      event_fits anchor_fits grant_fits split: option.splits)

lemma operation_found:
  "operation_at ''/v1/auth/me'' Get = Some AuthService_Me"
  "operation_at ''/v1/auth/me'' Patch = Some AuthService_UpdateProfile"
  "operation_at ''/v1/auth/login'' Post = Some AuthService_Login"
  "operation_at ''/v1/auth/signup'' Post = Some AuthService_Signup"
  "operation_at ''/v1/projects'' Get = Some ProjectService_ListProjects"
  "operation_at ''/v1/projects'' Post = Some ProjectService_CreateProject"
  "operation_at ''/v1/projects/{project_id}/keys'' Get = Some ApiKeyService_ListApiKeys"
  "operation_at ''/v1/projects/{project_id}/keys'' Post = Some ApiKeyService_CreateApiKey"
  "operation_at ''/v1/keys/{key_id}/revoke'' Post = Some ApiKeyService_RevokeApiKey"
  "operation_at ''/v1/proofs:verify'' Post = Some VerifyService_VerifyProof"
  "operation_at ''/v1/events/{event_id}:proof'' Get = Some LedgerService_GetInclusionProof"
  "operation_at ''/v1/grants'' Get = Some DelegationService_ListGrants"
  "operation_at ''/v1/grants/{grant_id}:verify'' Get = Some DelegationService_VerifyChain"
  "operation_at ''/v1/grants/{grant_id}/revoke'' Post = Some DelegationService_Revoke"
  "operation_at ''/v1/events'' Get = Some LedgerService_ListEvents"
  "operation_at ''/v1/sessions'' Get = Some CaptureService_ListSessions"
  "operation_at ''/v1/sessions/{session_id}/anchor'' Get = Some NotaryService_GetAnchor"
  "operation_at ''/v1/analytics/overview'' Get = Some AnalyticsService_GetOverview"
  "operation_at ''/v1/notary/public-key'' Get = Some NotaryService_GetPublicKey"
  by (simp_all add: operation_at_def paths_def)

lemmas operation_defs = AuthService_Me_def AuthService_UpdateProfile_def AuthService_Login_def
  AuthService_Signup_def ProjectService_ListProjects_def ProjectService_CreateProject_def
  ApiKeyService_ListApiKeys_def ApiKeyService_CreateApiKey_def ApiKeyService_RevokeApiKey_def
  VerifyService_VerifyProof_def LedgerService_GetInclusionProof_def DelegationService_ListGrants_def
  DelegationService_VerifyChain_def DelegationService_Revoke_def LedgerService_ListEvents_def
  CaptureService_ListSessions_def NotaryService_GetAnchor_def AnalyticsService_GetOverview_def
  NotaryService_GetPublicKey_def

lemmas call_defs = me_call_def login_call_def signup_call_def projects_call_def create_project_call_def
  keys_call_def create_key_call_def revoke_key_call_def verify_call_def proof_call_def grants_call_def
  chain_call_def revoke_grant_call_def events_call_def sessions_call_def anchor_call_def
  overview_call_def public_key_call_def profile_call_def page_query_def

text \<open>What is left to the values: an account type the schema names, a proof of the schema's form.\<close>

fun typed_request :: "api_request \<Rightarrow> bool" where
  "typed_request (PostSignup b) \<longleftrightarrow> fits v1AccountType_ty (JStr (sg_account_type b))"
| "typed_request (VerifyProof v) \<longleftrightarrow> v = JUndef \<or> fits v1Proof_ty v"
| "typed_request q \<longleftrightarrow> True"

text \<open>Each call against its operation.\<close>

lemma conforms_send:
  "operation_at p m = Some q \<Longrightarrow> op_body q = Some t \<Longrightarrow>
   conforms (send_call m p ps body) \<longleftrightarrow> given (op_path q) ps \<and> fits t (JObj (map (\<lambda>(k, v). (js k, v)) body))"
  by (simp add: conforms_def send_call_def)

lemma conforms_get:
  "operation_at p Get = Some q \<Longrightarrow> op_body q = None \<Longrightarrow>
   conforms (get_call p ps qs) \<longleftrightarrow> given (op_path q) ps
     \<and> fits_fields False (op_query q) (map (\<lambda>(k, v). (js k, v)) qs)"
  by (simp add: conforms_def get_call_def)

lemma call_conforms_iff: "call_of q = Some c \<Longrightarrow> conforms c \<longleftrightarrow> typed_request q"
  by (cases q)
    (auto simp: call_defs operation_found operation_defs given_def schema_defs conforms_send conforms_get)

text \<open>The names in braces of a path.\<close>

function placeholders :: "string \<Rightarrow> string list" where
  "placeholders p = (case dropWhile (\<lambda>c. c \<noteq> CHR ''{'') p of
     [] \<Rightarrow> []
   | c # r \<Rightarrow> takeWhile (\<lambda>c. c \<noteq> CHR ''}'') r # placeholders (dropWhile (\<lambda>c. c \<noteq> CHR ''}'') r))"
  by pat_completeness auto
termination
proof (relation "measure length", goal_cases)
  case (2 p c r)
  have "length (dropWhile (\<lambda>c. c \<noteq> CHR ''}'') r) \<le> length r" by (rule length_dropWhile_le)
  also have "\<dots> < length (dropWhile (\<lambda>c. c \<noteq> CHR ''{'') p)" using 2 by simp
  also have "\<dots> \<le> length p" by (rule length_dropWhile_le)
  finally show ?case by simp
qed simp

declare placeholders.simps [simp del]

lemma paths_filled:
  "list_all (\<lambda>(p, ops). list_all (\<lambda>(m, q). placeholders p = map fst (op_path q)) ops) paths"
  by code_simp

lemma operation_filled: "operation_at p m = Some q \<Longrightarrow> placeholders p = map fst (op_path q)"
  using paths_filled by (fastforce simp: operation_at_def list_all_iff dest!: map_of_SomeD
      split: bind_splits)

lemma call_given:
  "call_of q = Some c \<Longrightarrow> \<exists>x. operation_at (ca_path c) (ca_method c) = Some x \<and> given (op_path x) (ca_params c)"
  by (cases q) (auto simp: call_defs get_call_def send_call_def operation_found operation_defs given_def)

lemma call_filled: "call_of q = Some c \<Longrightarrow> map fst (ca_params c) = placeholders (ca_path c)"
  using call_given [of q c] operation_filled by (auto simp: given_def)

text \<open>C9. Every call the console makes of the API client, but two, is one the API declares, whatever the
  values in it: the path has the method, each placeholder of the path is given, the query's
  parameters are declared and of their type, and the body fits the declared schema, field by
  field. The two are exact: a sign-up conforms if and only if its account type is one the schema names, as
  both that the form offers are; a verification does if and only if the value it posts is absent or has
  the form of a proof, as every proof of the API has. What the verification screen takes from
  a paste or a file it posts unchecked, so such a call need not conform (\<open>pasted_unchecked\<close>).
\<close>
theorem calls_conform:
  assumes "call_of q = Some c"
  shows "map fst (ca_params c) = placeholders (ca_path c)
    \<and> (conforms c \<longleftrightarrow> (case q of
          PostSignup b \<Rightarrow> sg_account_type b \<in> set (map js
            [''ACCOUNT_TYPE_UNSPECIFIED'', ''ACCOUNT_TYPE_PERSONAL'', ''ACCOUNT_TYPE_ORGANIZATION''])
        | VerifyProof v \<Rightarrow> v = JUndef \<or> fits v1Proof_ty v
        | _ \<Rightarrow> True))
    \<and> (\<forall>p. q = VerifyProof (json_of_proof p) \<and> proof_declared p \<longrightarrow> conforms c)"
proof -
  have "typed_request q \<longleftrightarrow> (case q of
      PostSignup b \<Rightarrow> sg_account_type b \<in> set (map js
        [''ACCOUNT_TYPE_UNSPECIFIED'', ''ACCOUNT_TYPE_PERSONAL'', ''ACCOUNT_TYPE_ORGANIZATION''])
    | VerifyProof v \<Rightarrow> v = JUndef \<or> fits v1Proof_ty v
    | _ \<Rightarrow> True)"
    by (cases q) (simp_all add: v1AccountType_ty_def)
  then show ?thesis using call_conforms_iff [OF assms] call_filled [OF assms] proof_fits by auto
qed

theorem calls_conform_witness:
  "conforms (verify_call (json_of_proof demo_proof)) \<and> conforms (create_key_call (js ''p1'') (js ''ci''))
   \<and> \<not> conforms (verify_call (JStr (js ''x'')))"
proof -
  have "proof_declared demo_proof" by code_simp
  then show ?thesis
    using calls_conform [of "VerifyProof (json_of_proof demo_proof)" "verify_call (json_of_proof demo_proof)"]
      calls_conform [of "CreateKey (js ''p1'') (js ''ci'')" "create_key_call (js ''p1'') (js ''ci'')"]
      calls_conform [of "VerifyProof (JStr (js ''x''))" "verify_call (JStr (js ''x''))"]
    by (auto simp: v1Proof_ty_def)
qed

text \<open>A pasted text is sent as it is: what it holds need not be a proof.\<close>

lemma pasted_unchecked: "\<not> conforms (verify_call (JObj [(js ''event'', JStr (js ''x''))]))"
  by code_simp

text \<open>The two requests made by hand: the replay's path is declared, the logout's is not.\<close>

lemma by_hand: "operation_at ''/v1/sessions/{session_id}:replay'' Get = Some ReplayService_GetReplay"
  "operation_at ''/v1/auth/logout'' Post = None"
  by (simp_all add: operation_at_def paths_def)

end
