(* ===== verification/Focus.thy ===== *)
theory Focus
  imports Palette
begin

text \<open>
  What the keyboard reaches in an open dialog: the elements that \<open>ConfirmDialog\<close> of \<open>lib/ui.tsx\<close> and
  \<open>lib/CommandPalette.tsx\<close> collect with their selectors, and where a sequence of Tab and Shift+Tab
  presses ends. An element is known by its position among the collected ones.
\<close>

section \<open>Selectors\<close>

fun elements :: "'e node \<Rightarrow> (string \<times> 'e attr list) list"
  and elements_in :: "'e node list \<Rightarrow> (string \<times> 'e attr list) list" where
  "elements (Text s) = []"
| "elements (El t as ks) = (t, as) # elements_in ks"
| "elements_in [] = []"
| "elements_in (k # ks) = elements k @ elements_in ks"

definition attr_of :: "string \<Rightarrow> 'e attr list \<Rightarrow> jstr option" where
  "attr_of n as = (case List.find (\<lambda>a. case a of Attr k v \<Rightarrow> k = n | _ \<Rightarrow> False) as of
     Some (Attr k v) \<Rightarrow> Some v | _ \<Rightarrow> None)"

text \<open>The descendants of the first dialog of a tree.\<close>

fun dialog_of :: "'e node \<Rightarrow> 'e node list option" and dialog_of_in :: "'e node list \<Rightarrow> 'e node list option" where
  "dialog_of (Text s) = None"
| "dialog_of (El t as ks) = (if attr_of ''role'' as = Some (js ''dialog'') then Some ks else dialog_of_in ks)"
| "dialog_of_in [] = None"
| "dialog_of_in (k # ks) = (case dialog_of k of None \<Rightarrow> dialog_of_in ks | Some d \<Rightarrow> Some d)"

fun dialog_selector :: "string \<times> 'e attr list \<Rightarrow> bool" where
  "dialog_selector (t, as) \<longleftrightarrow> t = ''button'' \<and> \<not> disabled as \<or> attr_of ''href'' as \<noteq> None
     \<or> t = ''input'' \<and> \<not> disabled as
     \<or> attr_of ''tabindex'' as \<noteq> None \<and> attr_of ''tabindex'' as \<noteq> Some (js ''-1'')"

definition dialog_focusable :: "'e node list \<Rightarrow> (string \<times> 'e attr list) list" where
  "dialog_focusable ks = (case dialog_of_in ks of None \<Rightarrow> [] | Some d \<Rightarrow> filter dialog_selector (elements_in d))"

fun palette_selector :: "string \<times> 'e attr list \<Rightarrow> bool" where
  "palette_selector (t, as) \<longleftrightarrow> (t \<in> {''button'', ''input'', ''select'', ''textarea''} \<or> attr_of ''href'' as \<noteq> None
       \<or> attr_of ''tabindex'' as \<noteq> None)
     \<and> \<not> disabled as \<and> attr_of ''tabindex'' as \<noteq> Some (js ''-1'')"

definition getFocusable :: "'e node \<Rightarrow> (string \<times> 'e attr list) list" where
  "getFocusable v = (case dialog_of v of None \<Rightarrow> [] | Some d \<Rightarrow> filter palette_selector (elements_in d))"

lemma elements_in_append [simp]: "elements_in (xs @ ys) = elements_in xs @ elements_in ys"
  by (induction xs) auto

lemma attr_of_simps [simp]:
  "attr_of n [] = None" "attr_of n (Attr k v # as) = (if k = n then Some v else attr_of n as)"
  "attr_of n (Flag k b # as) = attr_of n as" "attr_of n (Disabled b # as) = attr_of n as"
  "attr_of n (OnClick e # as) = attr_of n as" "attr_of n (OnMouseEnter e # as) = attr_of n as"
  "attr_of n (OnChange f # as) = attr_of n as" "attr_of n (OnKeyDown g # as) = attr_of n as"
  by (simp_all add: attr_of_def)

section \<open>Cycling\<close>

locale focus_cycle = focus_trap +
  assumes inner_forth: "x \<noteq> last fs \<Longrightarrow> handler fs x False = None"
    and inner_back: "x \<noteq> hd fs \<Longrightarrow> handler fs x True = None"

definition tab_shift :: "bool list \<Rightarrow> int" where
  "tab_shift shs = sum_list (map (\<lambda>sh. if sh then - 1 else 1) shs)"

lemma tab_shift_parity: "even (tab_shift shs) \<longleftrightarrow> even (length shs)"
  by (induction shs) (auto simp: tab_shift_def)

lemma next_of_from: "m \<le> x \<Longrightarrow> Suc x < n \<Longrightarrow> next_of x [m..<n] = Some (Suc x)"
proof (induction "n - m" arbitrary: m)
  case (Suc k)
  then have "[m..<n] = m # Suc m # [Suc (Suc m)..<n]" by (simp add: upt_rec)
  then show ?case using Suc.hyps(1) [of "Suc m"] Suc.hyps(2) Suc.prems
    by (cases "x = m") (simp_all add: upt_rec [of "Suc m"])
qed simp

lemma next_of_back: "Suc x < n \<Longrightarrow> next_of (Suc x) (rev [0..<n]) = Some x"
proof (induction n)
  case (Suc n)
  then show ?case by (cases n) (auto simp: less_Suc_eq)
qed simp

context focus_cycle
begin

lemma one_tab:
  assumes "i < n"
  shows "tab_target handler [0..<n] i sh = Some (nat ((int i + (if sh then - 1 else 1)) mod int n))"
proof (cases sh)
  case False
  show ?thesis
  proof (cases "Suc i = n")
    case True
    then have "handler [0..<n] i False = Some 0" using wrap_forth [of "[0..<n]"] by auto
    moreover have "int n = int i + 1" using True by simp
    ultimately show ?thesis using False by (simp add: tab_target_def)
  next
    case inner: False
    then have "handler [0..<n] i False = None" using assms by (intro inner_forth) auto
    moreover have "(int i + 1) mod int n = int (Suc i)" using inner assms by simp
    ultimately show ?thesis using False inner assms
      by (simp add: tab_target_def native_tab_def next_of_from)
  qed
next
  case True
  show ?thesis
  proof (cases i)
    case 0
    then have "handler [0..<n] i True = Some (n - 1)" using wrap_back [of "[0..<n]"] assms by auto
    moreover have "(- 1) mod int n = int n - 1" using assms by (simp add: zmod_minus1)
    ultimately show ?thesis using True 0 assms by (simp add: tab_target_def nat_diff_distrib)
  next
    case (Suc k)
    then have "handler [0..<n] i True = None" using assms by (intro inner_back) auto
    then show ?thesis using True Suc assms by (simp add: tab_target_def native_tab_def next_of_back)
  qed
qed

lemma tabs_count:
  assumes "i < n"
  shows "after_tabs handler [0..<n] i shs = Some (nat ((int i + tab_shift shs) mod int n))"
proof (induction shs rule: rev_induct)
  case Nil
  then show ?case using assms by (simp add: after_tabs_def tab_shift_def)
next
  case (snoc sh shs)
  have "0 < int n" using assms by simp
  then have "nat ((int i + tab_shift shs) mod int n) < n"
    using pos_mod_bound [of "int n"] by (simp add: nat_less_iff)
  then show ?case using snoc one_tab \<open>0 < int n\<close>
    by (simp add: after_tabs_def tab_shift_def mod_simps add.assoc)
qed

end

interpretation dlc: focus_cycle dialog_tab
  by unfold_locales (auto simp: dialog_tab_def dialog_keydown_def)

interpretation plc: focus_cycle palette_tab
  by unfold_locales (auto simp: palette_tab_def palette_window_key_def)

section \<open>The confirmation\<close>

lemma dialog_elements:
  "dialog_focusable (confirm_dialog True t m cl xl c x loading d) =
     (if loading then []
      else [(''button'', [Flag ''data-cancel'' True, OnClick x, Disabled False, Attr ''size'' (js ''md''),
              Attr ''variant'' (js ''secondary'')]),
            (''button'', [OnClick c, Disabled False, Attr ''size'' (js ''md''),
              Attr ''variant'' (js (if d then ''danger'' else ''brand''))])])"
  by (simp add: dialog_focusable_def confirm_dialog_def button_def spinner_def only_if_def icon_def)

text \<open>C28. While nothing is pending, an open confirmation keeps the keyboard on its two buttons: what its
  handler collects are the button that cancels and the one that confirms, in this order, and from
  the first, which the dialog's effect focuses, any sequence of Tab and Shift+Tab, with no render
  in between, ends on the first or the second as the number of presses is even or odd. While the
  confirmed action is pending both buttons are disabled: the handler collects nothing and leaves
  every Tab to the browser, so the keyboard is not kept. Escape cancels in both cases.
\<close>
theorem confirmation_focus:
  assumes "fs = dialog_focusable (confirm_dialog True title message confirmLabel cancelLabel onConfirm onCancel loading danger)"
  shows "(if loading then fs = [] \<and> dialog_keydown [0..<length fs] active ''Tab'' sh = []
     else length fs = 2 \<and> OnClick onCancel \<in> set (snd (fs ! 0)) \<and> Flag ''data-cancel'' True \<in> set (snd (fs ! 0))
       \<and> OnClick onConfirm \<in> set (snd (fs ! 1))
       \<and> after_tabs dialog_tab [0..<length fs] 0 shs = Some (length shs mod 2))
    \<and> dialog_keydown [0..<length fs] active ''Escape'' sh = [PreventDefault, CallCancel]"
proof (cases loading)
  case True
  then show ?thesis by (simp add: assms dialog_elements dialog_keydown_def)
next
  case False
  then have fs: "length fs = 2" "OnClick onCancel \<in> set (snd (fs ! 0))" "Flag ''data-cancel'' True \<in> set (snd (fs ! 0))"
    "OnClick onConfirm \<in> set (snd (fs ! 1))"
    by (simp_all add: assms dialog_elements)
  have "nat (tab_shift shs mod 2) = length shs mod 2"
    using tab_shift_parity [of shs] by (cases "even (length shs)") (auto simp: mod_2_eq_odd)
  then show ?thesis using dlc.tabs_count [of 0 2 shs] fs False by (simp add: dialog_keydown_def)
qed

theorem confirmation_focus_witness:
  "let fs = \<lambda>loading. dialog_focusable (confirm_dialog True (js ''Revoke'') [] (js ''Yes'') (js ''No'') True False loading True) in
   length (fs False) = 2 \<and> after_tabs dialog_tab [0..<2] 0 [False, True, False] = Some 1 \<and> fs True = []"
proof -
  let ?fs = "\<lambda>loading. dialog_focusable (confirm_dialog True (js ''Revoke'') [] (js ''Yes'') (js ''No'') True False loading True)"
  note at = confirmation_focus [OF refl, of loading "js ''Revoke''" "[]" "js ''Yes''" "js ''No''" True False True 0 False "[False, True, False]" for loading]
  note idle = at [of False, unfolded if_False]
  have two: "length (?fs False) = 2" using idle by blast
  have "after_tabs dialog_tab [0..<length (?fs False)] 0 [False, True, False] = Some (length [False, True, False] mod 2)"
    using idle by blast
  then have "after_tabs dialog_tab [0..<2] 0 [False, True, False] = Some 1" by (simp add: two)
  moreover have "?fs True = []" using at [of True] by (simp only: if_True)
  ultimately show ?thesis using two by (simp add: Let_def)
qed

text \<open>While the dialog is busy both buttons are disabled and the trap is open.\<close>

lemma busy_confirmation_untrapped:
  "dialog_focusable (confirm_dialog True t m cl xl c x True d) = []"
  "dialog_keydown [] active ''Tab'' sh = []"
  by (simp_all add: dialog_elements dialog_keydown_def)

section \<open>The palette\<close>

text \<open>An icon is a leaf named after its drawing, never an element the selector asks for.\<close>

definition plain_icon :: "command_item \<Rightarrow> bool" where
  "plain_icon i \<longleftrightarrow> ci_icon i \<notin> {''button'', ''input'', ''select'', ''textarea''}"

lemma palette_icons: "list_all plain_icon palette_items"
  by code_simp

lemma filtered_icons: "i \<in> set (filtered_items q) \<Longrightarrow> plain_icon i"
  using palette_icons by (auto simp: filtered_items_def list_all_iff)

lemma row_elements:
  "plain_icon item \<Longrightarrow> filter palette_selector (elements (palette_row s (i, item))) =
     [(''button'', [Attr ''id'' (js (ci_id item)), Attr ''role'' (js ''option''),
        Flag ''aria-selected'' (int i = pal_selected s), OnClick (PalChoose item), OnMouseEnter (PalHover i)])]"
  by (cases "ci_subtitle item" rule: option.exhaust)
     (auto simp: palette_row_def icon_def if_truthy_def plain_icon_def)

lemma rows_elements:
  "\<forall>x\<in>set xs. plain_icon (snd x) \<Longrightarrow> filter palette_selector (elements_in (map (palette_row s) xs)) =
     map (\<lambda>(i, item). (''button'', [Attr ''id'' (js (ci_id item)), Attr ''role'' (js ''option''),
        Flag ''aria-selected'' (int i = pal_selected s), OnClick (PalChoose item), OnMouseEnter (PalHover i)])) xs"
  by (induction xs) (auto simp: row_elements)

lemma palette_focusable:
  assumes "pal_open s"
  shows "\<exists>as. getFocusable (palette_view s) = (''input'', as) #
    map (\<lambda>(i, item). (''button'', [Attr ''id'' (js (ci_id item)), Attr ''role'' (js ''option''),
        Flag ''aria-selected'' (int i = pal_selected s), OnClick (PalChoose item), OnMouseEnter (PalHover i)]))
      (zip [0..<length (filtered_items (pal_query s))] (filtered_items (pal_query s)))"
proof -
  let ?items = "filtered_items (pal_query s)"
  have "\<forall>x\<in>set (zip [0..<length ?items] ?items). plain_icon (snd x)"
    using filtered_icons by (auto dest: set_zip_rightD)
  from rows_elements [OF this, of s] show ?thesis using assms
    by (cases "active_id s") (auto simp: getFocusable_def palette_view_def Let_def icon_def tx_def)
qed

text \<open>C29. In the open palette Tab cycles, as its footer says: what its handler collects are the query field
  and then one button for each listed command, in the order of the list, and from the field k
  presses of Tab reach the k-th command, or the field again after the last.
\<close>
theorem palette_tab_cycles:
  assumes "pal_open s"
  shows "let fs = getFocusable (palette_view s); items = filtered_items (pal_query s) in
    map fst fs = ''input'' # replicate (length items) ''button''
    \<and> (\<forall>i < length items. OnClick (PalChoose (items ! i)) \<in> set (snd (fs ! (i + 1))))
    \<and> after_tabs palette_tab [0..<length fs] 0 (replicate k False) = Some (k mod (length items + 1))"
proof -
  let ?items = "filtered_items (pal_query s)"
  obtain as where fs: "getFocusable (palette_view s) = (''input'', as) #
    map (\<lambda>(i, item). (''button'', [Attr ''id'' (js (ci_id item)), Attr ''role'' (js ''option''),
        Flag ''aria-selected'' (int i = pal_selected s), OnClick (PalChoose item), OnMouseEnter (PalHover i)]))
      (zip [0..<length ?items] ?items)" (is "?fs = _")
    using palette_focusable [OF assms] by blast
  have "map fst ?fs = ''input'' # replicate (length ?items) ''button''"
    by (simp add: fs comp_def case_prod_beta map_replicate_const)
  moreover have "OnClick (PalChoose (?items ! i)) \<in> set (snd (?fs ! (i + 1)))" if "i < length ?items" for i
    using that by (simp add: fs)
  moreover have "tab_shift (replicate k False) = int k" by (simp add: tab_shift_def sum_list_replicate)
  then have "after_tabs palette_tab [0..<length ?fs] 0 (replicate k False) = Some (k mod (length ?items + 1))"
    using plc.tabs_count [of 0 "length ?fs" "replicate k False"] by (simp add: fs nat_mod_as_int)
  ultimately show ?thesis by (simp add: Let_def)
qed

definition focus_palette :: palette where
  "focus_palette = palette_mount 1 (router_start (js ''/''))"

theorem palette_tab_cycles_witness:
  "let s = palette_opened focus_palette; n = length (filtered_items (pal_query s)) in
   after_tabs palette_tab [0..<length (getFocusable (palette_view s))] 0 (replicate (n + 1) False) = Some 0"
proof -
  have "pal_open (palette_opened focus_palette)" by (simp add: palette_opened_def)
  then show ?thesis
    using palette_tab_cycles [of "palette_opened focus_palette" "length (filtered_items (pal_query (palette_opened focus_palette))) + 1"]
    by (simp add: Let_def)
qed

end
