(* ===== verification/Captures.thy ===== *)
theory Captures
  imports Shell AuthPages Receipts
begin

text \<open>
  The scripts that take pictures of the console with a browser they drive: \<open>src/dev/shot_all.ts\<close>
  (and its twin \<open>shot_all.cjs\<close>), \<open>src/dev/capture_dashboard.cjs\<close>, and \<open>capture_dashboard.cjs\<close> and
  \<open>capture_social.cjs\<close> of \<open>src/frontend/scripts\<close>. A script is the list of commands it gives to the
  browser; what it prints and the errors it collects are left out. The commands act on the
  application's shell, with its splash screen, guard and sign-in form; a picture is what it shows.
  What a script can never show is proved with the world's events (answers, modules, the timer) between
  its commands in any number and order (\<open>free_step\<close>). The theorems on what the pictures of a usual run
  are fix a server and a browser whose answers come within each wait (\<open>command_step\<close>, \<open>arrivals\<close>):
  they are about that environment, which is not the program's.
\<close>

section \<open>The scripts\<close>

datatype command =
    NewContext nat nat nat
  | Goto jstr
  | SetTheme jstr bool
  | ReloadPage
  | WaitFor nat
  | Fill jstr jstr
  | Click jstr
  | ClickFirst jstr
  | Screenshot jstr bool
  | CloseContext

definition shot_pages :: "(jstr \<times> jstr) list" where
  "shot_pages = map (\<lambda>(n, p). (js n, js p))
     [(''landing'', ''/''),
      (''login'', ''/login''),
      (''signup'', ''/signup''),
      (''forgot'', ''/forgot-password''),
      (''dashboard'', ''/dashboard''),
      (''activity'', ''/dashboard/activity''),
      (''sessions'', ''/dashboard/sessions''),
      (''delegations'', ''/dashboard/delegations''),
      (''receipts'', ''/dashboard/receipts''),
      (''projects'', ''/dashboard/projects''),
      (''analytics'', ''/dashboard/analytics''),
      (''agents'', ''/dashboard/agents''),
      (''settings'', ''/dashboard/settings'')]"

definition shot_file :: "jstr \<Rightarrow> bool \<Rightarrow> jstr" where
  "shot_file name light = js ''/tmp/babit_shots/'' @ name @ [45] @ js (if light then ''light'' else ''dark'') @ js ''.png''"

definition shot_theme :: "bool \<Rightarrow> command list" where
  "shot_theme light =
     [NewContext 1440 900 1, Goto (js ''/''), SetTheme (js ''babit_theme'') light, ReloadPage, WaitFor 500]
     @ concat (map (\<lambda>(name, path). [Goto path, WaitFor 800, Screenshot (shot_file name light) True]) shot_pages)
     @ [CloseContext]"

definition shot_all :: "command list" where
  "shot_all = concat (map shot_theme [True, False])
     @ [NewContext 390 844 1, Goto (js ''/''), WaitFor 800,
        Screenshot (js ''/tmp/babit_shots/landing-mobile.png'') True, CloseContext]"

text \<open>The dashboard's pictures: path, name and the time to wait. The two scripts prefix the names differently.\<close>

definition console_shots :: "(jstr \<times> jstr \<times> nat) list" where
  "console_shots = map (\<lambda>(p, n, w). (js p, js n, w))
     [(''/dashboard'', ''overview'', 3000),
      (''/dashboard/analytics'', ''analytics'', 3000),
      (''/dashboard/activity'', ''activity'', 3000),
      (''/dashboard/delegations'', ''delegations'', 4000),
      (''/dashboard/sessions'', ''sessions'', 3000),
      (''/dashboard/receipts'', ''receipts'', 3000),
      (''/dashboard/verify'', ''verify'', 3000),
      (''/dashboard/agents'', ''agents'', 3000),
      (''/dashboard/projects'', ''projects'', 3000),
      (''/dashboard/apikeys'', ''apikeys'', 3000),
      (''/dashboard/settings'', ''settings'', 3000)]"

definition capture_login :: "jstr \<Rightarrow> jstr \<Rightarrow> command list" where
  "capture_login email password =
     [NewContext 1440 900 2, Goto (js ''/login''), WaitFor 2000,
      Fill (js ''input[type=\"email\"]'') email, Fill (js ''input[type=\"password\"]'') password,
      Click (js ''button[type=\"submit\"]''), WaitFor 3000]"

definition capture_shot :: "jstr \<Rightarrow> jstr \<times> jstr \<times> nat \<Rightarrow> command list" where
  "capture_shot file s = (case s of (path, name, wait) \<Rightarrow>
     [Goto path, WaitFor wait, Screenshot (file @ name @ js ''.png'') False])"

text \<open>
  The script of the frontend ends at once without a password. The addresses and the password that
  stand in the scripts are parameters.
\<close>

definition capture_dashboard :: "jstr \<Rightarrow> jstr option \<Rightarrow> jstr option \<Rightarrow> command list" where
  "capture_dashboard default_email BABIT_EMAIL BABIT_PASSWORD =
     (let EMAIL = or_str BABIT_EMAIL default_email; PASSWORD = or_str BABIT_PASSWORD [] in
      if PASSWORD = [] then []
      else capture_login EMAIL PASSWORD
        @ concat (map (capture_shot (js ''public/dashboard-shots/'')) console_shots))"

text \<open>\<open>row\<close>: the list of receipts has a row, as the script finds out by its selector.\<close>

definition dev_capture_dashboard :: "jstr \<Rightarrow> jstr \<Rightarrow> bool \<Rightarrow> command list" where
  "dev_capture_dashboard EMAIL PASSWORD row =
     capture_login EMAIL PASSWORD
     @ concat (map (capture_shot (js ''dev/dashboard-shots/dashboard-'')) console_shots)
     @ [Goto (js ''/dashboard/receipts''), WaitFor 2000]
     @ (if row then [ClickFirst (js ''table tbody tr, [data-receipt-id], a[href*='' @ [39] @ js ''receipt'' @ [39] @ js '']''), WaitFor 3000,
          Screenshot (js ''dev/dashboard-shots/dashboard-receipt-detail.png'') False] else [])"

definition social_landing :: "bool \<Rightarrow> command list" where
  "social_landing light =
     [NewContext 1440 900 2, Goto (js ''/''), SetTheme (js ''babit-theme'') light, ReloadPage, WaitFor 3500,
      Screenshot (js ''public/social-shots/landing-'' @ js (if light then ''light'' else ''dark'') @ js ''.png'') False,
      CloseContext]"

definition capture_social :: "jstr \<Rightarrow> jstr \<Rightarrow> command list" where
  "capture_social EMAIL PASSWORD = concat (map social_landing [True, False])
     @ [NewContext 1440 900 2, Goto (js ''/login''),
        Fill (js ''input[type=\"email\"]'') EMAIL, Fill (js ''input[type=\"password\"]'') PASSWORD,
        Click (js ''button[type=\"submit\"]''), WaitFor 3000, Goto (js ''/dashboard''), WaitFor 2000,
        Screenshot (js ''public/social-shots/dashboard-overview.png'') False, CloseContext]"

section \<open>What the pictures show\<close>

text \<open>The key under which \<open>src/lib/theme.ts\<close> keeps the preference.\<close>

definition STORAGE_KEY :: jstr where
  "STORAGE_KEY = js ''babit-theme''"

text \<open>
  The server the scripts find: the milliseconds from the mount of the application to the load
  event that \<open>goto\<close> waits for, its answers to a sign-in and to a profile request with the cookie
  of a session, and its error without one. Every answer and module comes within the next wait, the
  answers in the order of the requests; a sign-in that returns a token sets the cookie. A picture
  is filed with whether the document is dark and what it shows; the system prefers a light one.
\<close>

record server_side =
  sv_load :: nat
  sv_login :: v1LoginResponse
  sv_me :: v1MeResponse
  sv_denied :: jsval

datatype picture = Shows app_screen | ShowsLoading app_screen | ShowsFallback

record tab =
  tb_shell :: "shell option"
  tb_form :: "login_page option"
  tb_clock :: nat
  tb_stored :: "jstr option"
  tb_cookie :: bool
  tb_shots :: "(jstr \<times> bool \<times> picture) list"

definition me_answer :: "server_side \<Rightarrow> bool \<Rightarrow> v1MeResponse reply" where
  "me_answer sv cookie = (if cookie then Resolved (Some (sv_me sv)) JUndef else Resolved None (sv_denied sv))"

definition open_page :: "client \<Rightarrow> server_side \<Rightarrow> jstr \<Rightarrow> tab \<Rightarrow> tab" where
  "open_page c sv path t = t\<lparr>tb_shell := Some (shell_load c (tb_stored t) False (router_start path)),
     tb_form := None, tb_clock := sv_load sv\<rparr>"

text \<open>The sign-in form of the page, with what it has moved of the session and the router.\<close>

definition form_of :: "tab \<Rightarrow> shell \<Rightarrow> login_page" where
  "form_of t sh = (case tb_form t of Some f \<Rightarrow> f | None \<Rightarrow> login_mount (sh_auth sh) (sh_router sh))"

definition form_event :: "login_event \<Rightarrow> tab \<Rightarrow> tab" where
  "form_event e t = (case tb_shell t of
     None \<Rightarrow> t
   | Some sh \<Rightarrow> if shell_screen sh = LoginScreen
       then (let f = login_step (form_of t sh) e in
         t\<lparr>tb_form := Some f,
           tb_shell := Some (shell_commit (sh\<lparr>sh_auth := lg_auth f, sh_router := lg_router f\<rparr>))\<rparr>)
       else t)"

definition answer :: "auth_event \<Rightarrow> tab \<Rightarrow> tab" where
  "answer e t = (case tb_form t of
     Some f \<Rightarrow> form_event (LgAuth e) t
   | None \<Rightarrow> t\<lparr>tb_shell := map_option (\<lambda>sh. shell_step sh (ShAuth e)) (tb_shell t)\<rparr>)"

text \<open>The module of the screen that is shown comes, when it was asked for.\<close>

definition module_arrives :: "shell \<Rightarrow> shell" where
  "module_arrives sh = (case lazy_module (shell_screen sh) of
     None \<Rightarrow> sh | Some m \<Rightarrow> shell_step sh (ShImport m ImportDone))"

definition pending :: "tab \<Rightarrow> auth_wait list" where
  "pending t = (case tb_shell t of None \<Rightarrow> [] | Some sh \<Rightarrow> au_pending (sh_auth sh))"

definition settle_one :: "server_side \<Rightarrow> tab \<Rightarrow> tab" where
  "settle_one sv t = (case pending t of
     [] \<Rightarrow> t
   | w # ws \<Rightarrow> (case w of
       WaitMe b \<Rightarrow> answer (MeReply 0 (me_answer sv (tb_cookie t))) t
     | WaitSession \<Rightarrow> (answer (SessionReply 0 (Resolved (Some (sv_login sv)) JUndef)) t)
         \<lparr>tb_cookie := tb_cookie t \<or> truthy (lr_token (sv_login sv))\<rparr>))"

text \<open>At most two requests are pending, and a sign-in adds one.\<close>

definition arrivals :: "server_side \<Rightarrow> tab \<Rightarrow> tab" where
  "arrivals sv t = (let t' = (settle_one sv ^^ 3) t in
     t'\<lparr>tb_shell := map_option module_arrives (tb_shell t')\<rparr>)"

definition wait_ms :: "nat \<Rightarrow> tab \<Rightarrow> tab" where
  "wait_ms ms t = t\<lparr>tb_clock := tb_clock t + ms,
     tb_shell := (if tb_clock t + ms < 2000 then tb_shell t
                  else map_option (\<lambda>sh. shell_step sh ShSplash) (tb_shell t))\<rparr>"

definition picture_of :: "shell \<Rightarrow> picture" where
  "picture_of sh =
     (if eb_hasError (sh_boundary sh) then ShowsFallback
      else case lazy_module (shell_screen sh) of
        None \<Rightarrow> Shows (shell_screen sh)
      | Some m \<Rightarrow> if sh_imports sh m = Finished ImportDone then Shows (shell_screen sh)
                  else ShowsLoading (shell_screen sh))"

text \<open>
  \<open>evaluate\<close> writes the preference and flips the class of a document that the reload replaces. A
  click on a row of the receipts' table meets no handler (\<open>receipt_row_inert\<close>).
\<close>

fun command_step :: "client \<Rightarrow> server_side \<Rightarrow> tab \<Rightarrow> command \<Rightarrow> tab" where
  "command_step c sv t (NewContext w h scale) =
     t\<lparr>tb_shell := None, tb_form := None, tb_clock := 0, tb_stored := None, tb_cookie := False\<rparr>"
| "command_step c sv t (Goto path) = open_page c sv path t"
| "command_step c sv t (SetTheme key light) =
     (if key = STORAGE_KEY then t\<lparr>tb_stored := Some (theme_text (if light then Light else Dark))\<rparr> else t)"
| "command_step c sv t ReloadPage = (case tb_shell t of
     None \<Rightarrow> t | Some sh \<Rightarrow> open_page c sv (location (sh_router sh)) t)"
| "command_step c sv t (WaitFor ms) = wait_ms ms (arrivals sv t)"
| "command_step c sv t (Fill selector v) = form_event
     (if selector = js ''input[type=\"email\"]'' then LgEmail v else LgPassword v) t"
| "command_step c sv t (Click selector) = form_event LgSubmit t"
| "command_step c sv t (ClickFirst selector) = t"
| "command_step c sv t (Screenshot file full) = (case tb_shell t of
     None \<Rightarrow> t | Some sh \<Rightarrow> t\<lparr>tb_shots := tb_shots t @ [(file, th_dark_class (sh_theme sh), picture_of sh)]\<rparr>)"
| "command_step c sv t CloseContext = t\<lparr>tb_shell := None\<rparr>"

definition blank_tab :: tab where
  "blank_tab = \<lparr>tb_shell = None, tb_form = None, tb_clock = 0, tb_stored = None, tb_cookie = False, tb_shots = []\<rparr>"

definition pictures :: "client \<Rightarrow> server_side \<Rightarrow> command list \<Rightarrow> (jstr \<times> bool \<times> picture) list" where
  "pictures c sv cs = tb_shots (run (command_step c sv) blank_tab cs)"

definition demo_server :: server_side where
  "demo_server = \<lparr>sv_load = 300, sv_login = \<lparr>lr_token = Some (js ''t''), lr_user = None\<rparr>,
     sv_me = \<lparr>me_user = Some demo_user, me_branding = None\<rparr>, sv_denied = JStr (js ''no'')\<rparr>"

section \<open>Without a session\<close>

lemma picture_plain:
  "plain (shell_screen s) \<Longrightarrow> \<not> eb_hasError (sh_boundary s) \<Longrightarrow> picture_of s = Shows (shell_screen s)"
  by (simp add: picture_of_def plain_def)

lemma module_plain: "plain (shell_screen s) \<Longrightarrow> module_arrives s = s"
  by (simp add: module_arrives_def plain_def)

text \<open>The wait of a visit: the profile answer, the module of the screen, the splash screen's timer.\<close>

definition visit :: "bool \<Rightarrow> v1MeResponse reply \<Rightarrow> shell \<Rightarrow> shell" where
  "visit long r s = (let s' = module_arrives (shell_step s (ShAuth (MeReply 0 r))) in
     if long then shell_step s' ShSplash else s')"

lemma visit_theme: "sh_theme (visit long r s) = sh_theme s"
  by (simp add: visit_def Let_def module_arrives_def split: option.split)

lemma boot_dark:
  "\<not> th_dark_class (theme_boot None False)"
  "th_dark_class (theme_boot (Some (theme_text (if light then Light else Dark))) False) \<longleftrightarrow> \<not> light"
  by (cases light; simp add: theme_boot_def; code_simp)+

lemma visit_plain_state:
  assumes "fresh c p s" "\<And>a. plain (app_render a False p)"
  shows "visit long r s = (if long then s\<lparr>sh_auth := first_auth c r, sh_timer := False, sh_splashDone := True\<rparr>
    else s\<lparr>sh_auth := first_auth c r\<rparr>)"
proof -
  let ?s1 = "s\<lparr>sh_auth := first_auth c r\<rparr>"
  have s1: "shell_step s (ShAuth (MeReply 0 r)) = ?s1" "shell_screen ?s1 = app_render False False p"
    using assms first_auth(1)
    by (simp_all add: fresh_def first_auth_def [symmetric] commit_plain shell_screen_def del: auth_step.simps)
  then have m: "module_arrives ?s1 = ?s1" using assms(2) by (simp add: module_plain)
  have "shell_screen (?s1\<lparr>sh_timer := False, sh_splashDone := True\<rparr>) = app_render True False p"
    using assms(1) first_auth(1) by (simp add: fresh_def shell_screen_def)
  then have "shell_step ?s1 ShSplash = ?s1\<lparr>sh_timer := False, sh_splashDone := True\<rparr>"
    using assms by (simp add: fresh_def commit_plain)
  then show ?thesis using s1 m by (simp add: visit_def Let_def del: shell_step.simps)
qed

lemma visit_plain:
  assumes "fresh c p s" "\<And>a. plain (app_render a False p)"
  shows "picture_of (visit long r s) = Shows (app_render long False p)"
proof -
  have "shell_screen (visit long r s) = app_render long False p" "\<not> eb_hasError (sh_boundary (visit long r s))"
    using assms(1) first_auth(1) by (auto simp: visit_plain_state [OF assms] fresh_def shell_screen_def)
  with assms(2) show ?thesis by (simp add: picture_plain)
qed

lemma visit_signed_out:
  assumes "fresh c p s" "app_render True False p = DashboardScreen tab" "\<not> isAuthenticated (first_auth c r)"
  shows "picture_of (visit long r s) = Shows LoginScreen"
proof -
  let ?s1 = "s\<lparr>sh_auth := first_auth c r\<rparr>"
  let ?s2 = "shell_commit ?s1"
  have scr: "shell_screen ?s1 = DashboardScreen tab"
    using assms(1) dashboard_path(1) [OF assms(2)] first_auth(1) by (simp add: fresh_def shell_screen_def)
  have "p \<noteq> js ''/login''"
  proof
    assume "p = js ''/login''"
    then have "app_render True False p = LoginScreen" by (simp only: login_screen)
    with assms(2) show False by simp
  qed
  moreover have "to_url (js ''/login'') = js ''/login''" by (simp add: to_url_def js_def)
  ultimately have "rt_path (navigate (js ''/login'') (sh_router s)) = js ''/login''"
    using assms(1) by (simp add: navigate_def Let_def fresh_def)
  then have nav: "rt_path (useRequireAuth (first_auth c r) (sh_router s)) = js ''/login''"
    using assms(3) first_auth(1) by (simp add: useRequireAuth_def)
  obtain im where im: "?s2 = ?s1\<lparr>sh_imports := im, sh_router := useRequireAuth (first_auth c r) (sh_router s)\<rparr>"
    using commit_dashboard [OF scr] assms(1) by (auto simp: fresh_def)
  have s2: "rt_path (sh_router ?s2) = js ''/login''" "\<not> eb_hasError (sh_boundary ?s2)" "sh_timer ?s2"
    unfolding im using nav assms(1) by (simp_all add: fresh_def)
  then have login: "shell_screen (?s2\<lparr>sh_timer := t, sh_splashDone := b\<rparr>) = LoginScreen"
      "shell_screen ?s2 = LoginScreen" for t b
    by (simp_all add: shell_screen_def login_screen)
  have "shell_step s (ShAuth (MeReply 0 r)) = ?s2"
    using assms(1) by (simp add: fresh_def first_auth_def del: auth_step.simps)
  moreover have "shell_step ?s2 ShSplash = ?s2\<lparr>sh_timer := False, sh_splashDone := True\<rparr>"
    using s2(3) by (simp add: commit_plain login)
  ultimately show ?thesis using login s2(2)
    by (simp add: visit_def Let_def module_plain picture_plain del: shell_step.simps)
qed

lemma visit_signed_in:
  assumes "fresh c p s" "app_render True False p = DashboardScreen tab" "isAuthenticated (first_auth c r)"
    and "dashboard_child tab = Some m"
  shows "picture_of (visit long r s) = Shows (DashboardScreen tab)"
proof -
  let ?s1 = "s\<lparr>sh_auth := first_auth c r\<rparr>"
  have scr: "shell_screen ?s1 = DashboardScreen tab"
    using assms(1) dashboard_path(1) [OF assms(2)] first_auth(1) by (simp add: fresh_def shell_screen_def)
  have stay: "useRequireAuth (first_auth c r) q = q" for q using assms(3) by (simp add: useRequireAuth_def)
  obtain im where im: "shell_commit ?s1 = ?s1\<lparr>sh_imports := im\<rparr>" "im m = Importing"
    using commit_dashboard [OF scr] assms(1,4) stay by (auto simp: fresh_def)
  define ok where "ok s' \<longleftrightarrow> \<not> eb_hasError (sh_boundary s') \<and> shell_screen s' = DashboardScreen tab
    \<and> sh_imports s' m = Finished ImportDone \<and> sh_auth s' = first_auth c r" for s' :: shell
  have commit: "shell_commit s' = s'" if "ok s'" for s'
    using that stay assms(4)
    by (simp add: ok_def shell_commit_def lazy_module_def render_lazy_def shell_guard_def)
  let ?s2 = "?s1\<lparr>sh_imports := im(m := Finished ImportDone)\<rparr>"
  have ok2: "ok ?s2" "ok (?s2\<lparr>sh_timer := False, sh_splashDone := True\<rparr>)"
    using scr assms(1) dashboard_path(1) [OF assms(2)] first_auth(1)
    by (simp_all add: ok_def fresh_def shell_screen_def)
  have a: "shell_step s (ShAuth (MeReply 0 r)) = ?s1\<lparr>sh_imports := im\<rparr>"
    using assms(1) im(1) by (simp add: fresh_def first_auth_def del: auth_step.simps)
  have b: "module_arrives (?s1\<lparr>sh_imports := im\<rparr>) = ?s2"
    using scr im(2) assms(4) commit [OF ok2(1)]
    by (simp add: module_arrives_def shell_screen_def lazy_module_def)
  have d: "shell_step ?s2 ShSplash = ?s2\<lparr>sh_timer := False, sh_splashDone := True\<rparr>"
    using assms(1) commit [OF ok2(2)] by (simp add: fresh_def)
  have pic: "picture_of s' = Shows (DashboardScreen tab)" if "ok s'" for s'
    using that assms(4) by (simp add: ok_def picture_of_def lazy_module_def)
  show ?thesis
    using pic [OF ok2(1)] pic [OF ok2(2)] by (simp add: visit_def a b d Let_def del: shell_step.simps)
qed

section \<open>A visit and its picture\<close>

lemma settle_none: "pending t = [] \<Longrightarrow> settle_one sv t = t"
  by (simp add: settle_one_def)

lemma arrivals_visit:
  assumes "tb_shell t = Some sh" "tb_form t = None" "sh_auth sh = auth_mount (setAuthToken None c)"
  shows "wait_ms ms (arrivals sv t) = t\<lparr>tb_clock := tb_clock t + ms,
     tb_shell := Some (visit (2000 \<le> tb_clock t + ms) (me_answer sv (tb_cookie t)) sh)\<rparr>"
proof -
  let ?s = "shell_step sh (ShAuth (MeReply 0 (me_answer sv (tb_cookie t))))"
  have "pending t = [WaitMe False]" using assms(1,3) by (simp add: pending_def mount_pending)
  then have one: "settle_one sv t = t\<lparr>tb_shell := Some ?s\<rparr>"
    using assms(1,2) by (simp add: settle_one_def answer_def del: shell_step.simps)
  have "pending (t\<lparr>tb_shell := Some ?s\<rparr>) = []"
    using assms(3) by (simp add: pending_def me_pending del: auth_step.simps)
  then have "(settle_one sv ^^ 3) t = t\<lparr>tb_shell := Some ?s\<rparr>"
    by (simp add: numeral_eq_Suc one settle_none del: shell_step.simps)
  then show ?thesis
    by (simp add: arrivals_def wait_ms_def visit_def Let_def del: shell_step.simps)
qed

text \<open>The paths of the scripts: a page of the console, or one whose screen is there at once.\<close>

definition shot_path :: "jstr \<Rightarrow> bool" where
  "shot_path p \<longleftrightarrow> strip_hash p = p \<and> p \<noteq> []
     \<and> (case app_render True False p of
          DashboardScreen tab \<Rightarrow> dashboard_child tab \<noteq> None
        | scr \<Rightarrow> plain scr)"

lemma splash_or: "app_render a b p = SplashScreen \<or> app_render a b p = app_render True False p"
  by (simp add: app_render_def Let_def)

lemma plain_before:
  assumes "shot_path p"
  shows "plain (app_render False True p)"
proof (cases "\<exists>tab. app_render True False p = DashboardScreen tab")
  case True
  then show ?thesis using dashboard_path(2) by auto
next
  case False
  with assms show ?thesis using splash_or [of False True p]
    by (auto simp: shot_path_def split: app_screen.splits)
qed

definition shown :: "bool \<Rightarrow> bool \<Rightarrow> jstr \<Rightarrow> picture" where
  "shown long known p = Shows (case app_render True False p of
     DashboardScreen tab \<Rightarrow> if known then DashboardScreen tab else LoginScreen
   | _ \<Rightarrow> app_render long False p)"

lemma visit_shows:
  assumes "shot_path p"
  shows "picture_of (visit long (me_answer sv cookie) (shell_load c st d (router_start p)))
    = shown long (cookie \<and> me_user (sv_me sv) \<noteq> None) p"
proof -
  have f: "fresh c p (shell_load c st d (router_start p))" using assms plain_before [OF assms] by (simp add: shot_path_def load_fresh)
  show ?thesis
  proof (cases "\<exists>tab. app_render True False p = DashboardScreen tab")
    case True
    then obtain tab where tab: "app_render True False p = DashboardScreen tab" ..
    with assms obtain m where m: "dashboard_child tab = Some m" by (auto simp: shot_path_def)
    have auth: "isAuthenticated (first_auth c (me_answer sv cookie)) \<longleftrightarrow> cookie \<and> me_user (sv_me sv) \<noteq> None"
      by (simp add: me_answer_def first_auth)
    show ?thesis
    proof (cases "isAuthenticated (first_auth c (me_answer sv cookie))")
      case True
      with auth tab visit_signed_in [OF f tab True m] show ?thesis by (auto simp: shown_def)
    next
      case False
      with auth tab visit_signed_out [OF f tab False] show ?thesis by (auto simp: shown_def)
    qed
  next
    case False
    then have "plain (app_render a False p)" for a
      using assms splash_or [of a False p] by (auto simp: shot_path_def split: app_screen.splits)
    from visit_plain [OF f this] False show ?thesis by (simp add: shown_def split: app_screen.split)
  qed
qed

text \<open>A picture taken in a tab, after a wait of \<open>w\<close> at the path \<open>p\<close>.\<close>

definition dark_tab :: "tab \<Rightarrow> bool" where
  "dark_tab t \<longleftrightarrow> th_dark_class (theme_boot (tb_stored t) False)"

definition known_tab :: "server_side \<Rightarrow> tab \<Rightarrow> bool" where
  "known_tab sv t \<longleftrightarrow> tb_cookie t \<and> me_user (sv_me sv) \<noteq> None"

definition shot_of :: "server_side \<Rightarrow> tab \<Rightarrow> jstr \<times> jstr \<times> nat \<Rightarrow> jstr \<times> bool \<times> picture" where
  "shot_of sv t x = (case x of (f, p, w) \<Rightarrow>
     (f, dark_tab t, shown (2000 \<le> sv_load sv + w) (known_tab sv t) p))"

lemma shot_step:
  assumes "shot_path p" and run: "t' = run (command_step c sv) t [Goto p, WaitFor w, Screenshot f b]"
  shows "tb_shots t' = tb_shots t @ [shot_of sv t (f, p, w)]"
    and "tb_cookie t' = tb_cookie t" "tb_stored t' = tb_stored t"
proof -
  let ?sh = "shell_load c (tb_stored t) False (router_start p)"
  have "t' = command_step c sv (wait_ms w (arrivals sv (open_page c sv p t))) (Screenshot f b)"
    by (simp add: run)
  moreover have "wait_ms w (arrivals sv (open_page c sv p t)) = (open_page c sv p t)\<lparr>tb_clock := sv_load sv + w,
      tb_shell := Some (visit (2000 \<le> sv_load sv + w) (me_answer sv (tb_cookie t)) ?sh)\<rparr>"
    by (subst arrivals_visit [of _ ?sh]) (simp_all add: open_page_def load_auth)
  ultimately show "tb_shots t' = tb_shots t @ [shot_of sv t (f, p, w)]"
    "tb_cookie t' = tb_cookie t" "tb_stored t' = tb_stored t"
    by (simp_all add: open_page_def visit_shows [OF assms(1)] visit_theme load_theme shot_of_def
        dark_tab_def known_tab_def)
qed

lemma shot_of_same: "tb_cookie t' = tb_cookie t \<Longrightarrow> tb_stored t' = tb_stored t \<Longrightarrow> shot_of sv t' = shot_of sv t"
  by (simp add: shot_of_def fun_eq_iff dark_tab_def known_tab_def)

lemma shots_run:
  assumes "\<forall>x\<in>set xs. shot_path (fst (snd x))"
    and "cs = concat (map (\<lambda>(f, p, w). [Goto p, WaitFor w, Screenshot f b]) xs)"
  shows "tb_shots (run (command_step c sv) t cs) = tb_shots t @ map (shot_of sv t) xs"
  using assms(1) unfolding assms(2)
proof (induction xs arbitrary: t)
  case (Cons x xs)
  obtain f p w where x: "x = (f, p, w)" by (cases x)
  let ?t = "run (command_step c sv) t [Goto p, WaitFor w, Screenshot f b]"
  have "shot_path p" using Cons.prems x by simp
  note step = shot_step [OF this refl, of c sv t w f b]
  show ?case using Cons.IH [of ?t] Cons.prems step(1) shot_of_same [OF step(2,3)]
    by (simp add: x del: command_step.simps)
qed simp

section \<open>The two scripts\<close>

lemma shot_all_paths: "list_all (\<lambda>x. shot_path (snd x)) shot_pages" "list_all (\<lambda>x. shot_path (fst x)) console_shots"
  by (simp_all add: shot_pages_def console_shots_def shot_path_def app_render_def app_route_def js_def
      strip_hash_def dashboard_child_def active_tab_def lazy_module_def plain_def Let_def or_str_def)

lemmas shot_eval = app_render_def app_route_def js_def strip_hash_def dashboard_child_def active_tab_def
  lazy_module_def plain_def Let_def or_str_def

text \<open>A context whose preference is written before a reload.\<close>

definition themed :: "client \<Rightarrow> server_side \<Rightarrow> nat \<Rightarrow> jstr \<Rightarrow> bool \<Rightarrow> tab \<Rightarrow> tab" where
  "themed c sv scale key light t = run (command_step c sv) t
     [NewContext 1440 900 scale, Goto (js ''/''), SetTheme key light, ReloadPage]"

lemma themed_tab:
  shows "tb_shots (themed c sv scale key light t) = tb_shots t" "\<not> tb_cookie (themed c sv scale key light t)"
    "tb_stored (themed c sv scale key light t)
      = (if key = STORAGE_KEY then Some (theme_text (if light then Light else Dark)) else None)"
    "tb_form (themed c sv scale key light t) = None" "tb_clock (themed c sv scale key light t) = sv_load sv"
    "\<exists>r. tb_shell (themed c sv scale key light t)
      = Some (shell_load c (tb_stored (themed c sv scale key light t)) False r)"
  by (auto simp: themed_def open_page_def)

lemma themed_wait:
  "\<exists>r. wait_ms ms (arrivals sv (themed c sv scale key light t)) = (themed c sv scale key light t)
     \<lparr>tb_clock := sv_load sv + ms,
      tb_shell := Some (visit (2000 \<le> sv_load sv + ms) (me_answer sv False)
        (shell_load c (tb_stored (themed c sv scale key light t)) False r))\<rparr>"
proof -
  note u = themed_tab [of c sv scale key light t]
  from u(6) obtain r where r: "tb_shell (themed c sv scale key light t)
      = Some (shell_load c (tb_stored (themed c sv scale key light t)) False r)" ..
  show ?thesis using arrivals_visit [OF r u(4) load_auth, of ms sv] u(2,5) by auto
qed

lemma theme_run:
  "tb_shots (run (command_step c sv) t (shot_theme light)) = tb_shots t
      @ map (\<lambda>(n, p). (shot_file n light, False, shown (2000 \<le> sv_load sv + 800) False p)) shot_pages"
proof -
  let ?k = "js ''babit_theme''"
  let ?th = "themed c sv 1 ?k light t"
  define u where "u = wait_ms 500 (arrivals sv ?th)"
  have "?k \<noteq> STORAGE_KEY" by (simp add: STORAGE_KEY_def js_def)
  then have u: "tb_shots u = tb_shots t" "\<not> tb_cookie u" "tb_stored u = None"
    using themed_wait [of 500 sv c 1 ?k light t] themed_tab(1-3) [of c sv 1 ?k light t] by (auto simp: u_def)
  let ?xs = "map (\<lambda>(n, p). (shot_file n light, p, 800)) shot_pages"
  have cs: "concat (map (\<lambda>(n, p). [Goto p, WaitFor 800, Screenshot (shot_file n light) True]) shot_pages)
      = concat (map (\<lambda>(f, p, w). [Goto p, WaitFor w, Screenshot f True]) ?xs)"
    by (simp add: comp_def case_prod_unfold)
  have paths: "\<forall>x\<in>set ?xs. shot_path (fst (snd x))"
    using shot_all_paths(1) by (auto simp: list_all_iff)
  have "run (command_step c sv) t (shot_theme light)
      = command_step c sv (run (command_step c sv) u (concat (map (\<lambda>(f, p, w). [Goto p, WaitFor w, Screenshot f True]) ?xs))) CloseContext"
    unfolding shot_theme_def cs by (simp add: u_def themed_def del: map_map)
  moreover have "shot_of sv u (f, p, w) = (f, False, shown (2000 \<le> sv_load sv + w) False p)" for f p w
    using u by (simp add: shot_of_def dark_tab_def known_tab_def boot_dark)
  ultimately show ?thesis
    using shots_run [OF paths refl, of c sv u True] u(1)
    by (simp add: comp_def case_prod_unfold del: map_map) simp
qed

text \<open>The sign-in of the scripts: the browser has the cookie of a session afterwards.\<close>

lemma form_keeps [simp]:
  "tb_shots (form_event e t) = tb_shots t" "tb_cookie (form_event e t) = tb_cookie t"
  "tb_stored (form_event e t) = tb_stored t"
  by (simp_all add: form_event_def Let_def split: option.split)

lemma answer_keeps [simp]:
  "tb_shots (answer e t) = tb_shots t" "tb_cookie (answer e t) = tb_cookie t" "tb_stored (answer e t) = tb_stored t"
  by (simp_all add: answer_def split: option.split)

lemma settle_keeps [simp]:
  "tb_shots (settle_one sv t) = tb_shots t" "tb_stored (settle_one sv t) = tb_stored t"
  "tb_cookie t \<Longrightarrow> tb_cookie (settle_one sv t)"
  by (auto simp: settle_one_def split: list.split auth_wait.split)

lemma wait_keeps [simp]:
  "tb_shots (wait_ms ms t) = tb_shots t" "tb_cookie (wait_ms ms t) = tb_cookie t"
  "tb_stored (wait_ms ms t) = tb_stored t"
  by (simp_all add: wait_ms_def)

lemma arrivals_keep:
  "tb_shots (arrivals sv t) = tb_shots t" "tb_stored (arrivals sv t) = tb_stored t"
  "tb_cookie (arrivals sv t) = tb_cookie (settle_one sv (settle_one sv (settle_one sv t)))"
  by (simp_all add: arrivals_def Let_def numeral_eq_Suc)

text \<open>The form and the shell around it at the sign-in page's address.\<close>

definition synced :: "tab \<Rightarrow> shell \<Rightarrow> login_page \<Rightarrow> bool" where
  "synced t sh f \<longleftrightarrow> tb_shell t = Some sh \<and> form_of t sh = f \<and> lg_auth f = sh_auth sh
     \<and> lg_router f = sh_router sh \<and> rt_path (sh_router sh) = js ''/login''"

lemma form_login:
  assumes "synced t sh f" "lg_router (login_step f e) = lg_router f"
  shows "\<exists>sh'. synced (form_event e t) sh' (login_step f e) \<and> tb_form (form_event e t) = Some (login_step f e)"
proof -
  let ?sh = "sh\<lparr>sh_auth := lg_auth (login_step f e)\<rparr>"
  have at: "shell_screen x = LoginScreen" if "sh_router x = sh_router sh" for x
    using assms(1) that by (simp add: synced_def shell_screen_def login_screen)
  have "sh\<lparr>sh_auth := lg_auth (login_step f e), sh_router := lg_router (login_step f e)\<rparr> = ?sh"
    using assms by (simp add: synced_def)
  then have "form_event e t = t\<lparr>tb_form := Some (login_step f e), tb_shell := Some ?sh\<rparr>"
    using assms(1) at [of sh] at [of ?sh] by (simp add: form_event_def synced_def Let_def commit_plain)
  then show ?thesis using assms by (simp add: synced_def form_of_def)
qed

lemma selectors: "js ''input[type=\"password\"]'' \<noteq> js ''input[type=\"email\"]''"
  by (simp add: js_def)

lemma synced_pending: "synced t sh f \<Longrightarrow> pending t = au_pending (lg_auth f)"
  by (simp add: synced_def pending_def)

lemma fill_and_submit:
  assumes "synced t sh (login_mount a r)" "email \<noteq> []" "password \<noteq> []"
    and "t' = run (command_step c sv) t [Fill (js ''input[type=\"email\"]'') email,
      Fill (js ''input[type=\"password\"]'') password, Click (js ''button[type=\"submit\"]'')]"
  shows "\<exists>sh f. synced t' sh f \<and> tb_form t' = Some f" "pending t' = au_pending a @ [WaitSession]"
    "tb_shots t' = tb_shots t" "tb_cookie t' = tb_cookie t" "tb_stored t' = tb_stored t"
proof -
  let ?f1 = "login_step (login_mount a r) (LgEmail email)"
  let ?f2 = "login_step ?f1 (LgPassword password)"
  let ?f3 = "login_step ?f2 LgSubmit"
  have t': "t' = form_event LgSubmit (form_event (LgPassword password) (form_event (LgEmail email) t))"
    by (simp add: assms(4) selectors)
  obtain sh1 where s1: "synced (form_event (LgEmail email) t) sh1 ?f1"
    using form_login [OF assms(1), of "LgEmail email"] by auto
  obtain sh2 where "synced (form_event (LgPassword password) (form_event (LgEmail email) t)) sh2 ?f2"
    using form_login [OF s1, of "LgPassword password"] by auto
  moreover have f3: "lg_router ?f3 = lg_router ?f2" "au_pending (lg_auth ?f3) = au_pending a @ [WaitSession]"
    using assms(2,3) by (simp_all add: login_submit_def login_mount_def login_def)
  ultimately obtain sh3 where s3: "synced t' sh3 ?f3" "tb_form t' = Some ?f3"
    unfolding t' using form_login by blast
  then show "\<exists>sh f. synced t' sh f \<and> tb_form t' = Some f" by blast
  show "pending t' = au_pending a @ [WaitSession]" using synced_pending [OF s3(1)] f3(2) by simp
  show "tb_shots t' = tb_shots t" "tb_cookie t' = tb_cookie t" "tb_stored t' = tb_stored t" by (simp_all add: t')
qed

lemma sign_in_wait:
  assumes "synced t sh f" "tb_form t = Some f" "pending t = ms @ [WaitSession]" "ms \<in> {[], [WaitMe False]}"
    and "truthy (lr_token (sv_login sv))"
  shows "tb_cookie (arrivals sv t)"
proof -
  have session: "tb_cookie (settle_one sv u)" if "pending u = [WaitSession]" for u
    using that assms(5) by (simp add: settle_one_def)
  show ?thesis
  proof (cases "ms = []")
    case True
    with session [of t] assms(3) show ?thesis by (simp add: arrivals_keep)
  next
    case False
    then have two: "pending t = [WaitMe False, WaitSession]" using assms(3,4) by simp
    let ?e = "MeReply 0 (me_answer sv (tb_cookie t))"
    have one: "settle_one sv t = form_event (LgAuth ?e) t" using two assms(2) by (simp add: settle_one_def answer_def)
    have f: "au_pending (lg_auth f) = [WaitMe False, WaitSession]" using synced_pending [OF assms(1)] two by simp
    have "login_step f (LgAuth ?e) = f\<lparr>lg_auth := auth_step (lg_auth f) ?e\<rparr>"
      "au_pending (auth_step (lg_auth f) ?e) = [WaitSession]"
      using f by (auto simp: login_auth_def Let_def auth_defs me_answer_def remove_nth_def)
    moreover from this obtain sh' where "synced (form_event (LgAuth ?e) t) sh' (login_step f (LgAuth ?e))"
      using form_login [OF assms(1), of "LgAuth ?e"] by auto
    ultimately have "pending (settle_one sv t) = [WaitSession]" using synced_pending one by simp
    then show ?thesis using session by (simp add: arrivals_keep)
  qed
qed

lemma login_page_path: "shot_path (js ''/login'')"
  by (simp add: shot_path_def shot_eval)

lemma login_fresh: "fresh c (js ''/login'') (shell_load c stored d (router_start (js ''/login'')))"
  using login_page_path plain_before [OF login_page_path] by (auto simp: shot_path_def intro: load_fresh)

text \<open>The sign-in page just opened, and after a wait.\<close>

lemma opened_login:
  assumes u_def: "u = open_page c sv (js ''/login'') t"
  shows "\<exists>sh a r. synced u sh (login_mount a r) \<and> au_pending a = [WaitMe False]"
    and "\<exists>sh a r. synced (wait_ms ms (arrivals sv u)) sh (login_mount a r) \<and> au_pending a = []"
proof -
  let ?sh = "shell_load c (tb_stored t) False (router_start (js ''/login''))"
  have u: "tb_shell u = Some ?sh" "tb_form u = None" by (simp_all add: u_def open_page_def)
  have fr: "fresh c (js ''/login'') ?sh" by (rule login_fresh)
  then have "synced u ?sh (login_mount (sh_auth ?sh) (sh_router ?sh))"
    using u by (simp add: synced_def form_of_def login_mount_def fresh_def)
  then show "\<exists>sh a r. synced u sh (login_mount a r) \<and> au_pending a = [WaitMe False]"
    using load_auth mount_pending by metis
  let ?v = "visit (2000 \<le> tb_clock u + ms) (me_answer sv (tb_cookie u)) ?sh"
  have w: "wait_ms ms (arrivals sv u) = u\<lparr>tb_clock := tb_clock u + ms, tb_shell := Some ?v\<rparr>"
    by (rule arrivals_visit [OF u load_auth])
  have "sh_auth ?v = first_auth c (me_answer sv (tb_cookie u))" "rt_path (sh_router ?v) = js ''/login''"
    using visit_plain_state [OF fr, of "2000 \<le> tb_clock u + ms" "me_answer sv (tb_cookie u)"] fr
    by (auto simp: login_screen fresh_def)
  then have "synced (wait_ms ms (arrivals sv u)) ?v (login_mount (sh_auth ?v) (sh_router ?v))"
    "au_pending (sh_auth ?v) = []"
    using u(2) by (simp_all add: w synced_def form_of_def login_mount_def first_auth_def me_pending del: auth_step.simps)
  then show "\<exists>sh a r. synced (wait_ms ms (arrivals sv u)) sh (login_mount a r) \<and> au_pending a = []" by blast
qed

lemma signs_in:
  assumes "synced u sh (login_mount a r)" "au_pending a \<in> {[], [WaitMe False]}"
    and "email \<noteq> []" "password \<noteq> []" "truthy (lr_token (sv_login sv))"
    and "t' = run (command_step c sv) u [Fill (js ''input[type=\"email\"]'') email,
      Fill (js ''input[type=\"password\"]'') password, Click (js ''button[type=\"submit\"]''), WaitFor ms]"
  shows "tb_cookie t'" "tb_shots t' = tb_shots u" "tb_stored t' = tb_stored u"
proof -
  define v where "v = run (command_step c sv) u [Fill (js ''input[type=\"email\"]'') email,
      Fill (js ''input[type=\"password\"]'') password, Click (js ''button[type=\"submit\"]'')]"
  note v = fill_and_submit [OF assms(1,3,4) v_def]
  have t': "t' = wait_ms ms (arrivals sv v)" by (simp add: assms(6) v_def)
  show "tb_cookie t'" using v(1) sign_in_wait [OF _ _ v(2) assms(2,5)] by (auto simp: t')
  show "tb_shots t' = tb_shots u" "tb_stored t' = tb_stored u" by (simp_all add: t' arrivals_keep v)
qed

lemma login_run:
  assumes "email \<noteq> []" "password \<noteq> []" "truthy (lr_token (sv_login sv))"
    and "t' = run (command_step c sv) t (capture_login email password)"
  shows "tb_cookie t'" "tb_shots t' = tb_shots t" "tb_stored t' = None"
proof -
  define u where "u = wait_ms 2000 (arrivals sv (open_page c sv (js ''/login'') (command_step c sv t (NewContext 1440 900 2))))"
  obtain sh a r where u: "synced u sh (login_mount a r)" "au_pending a = []"
    unfolding u_def using opened_login(2) [OF refl] by blast
  have "t' = run (command_step c sv) u [Fill (js ''input[type=\"email\"]'') email,
      Fill (js ''input[type=\"password\"]'') password, Click (js ''button[type=\"submit\"]''), WaitFor 3000]"
    by (simp add: assms(4) capture_login_def u_def)
  note s = signs_in [OF u(1) _ assms(1-3) this]
  show "tb_cookie t'" "tb_shots t' = tb_shots t" "tb_stored t' = None"
    using s u(2) by (simp_all add: u_def arrivals_keep open_page_def)
qed

text \<open>The capture script of the frontend takes a picture of every tab of the dashboard: with an address
  and a password, against a server that signs in and knows the session by its cookie, each of the
  eleven pictures shows the tab it is named after, with its page loaded.\<close>

theorem capture_shows_tabs:
  assumes "me_user (sv_me sv) \<noteq> None" and "truthy (lr_token (sv_login sv))"
    and "or_str BABIT_EMAIL default_email \<noteq> []" and "password \<noteq> []"
  shows "pictures c sv (capture_dashboard default_email BABIT_EMAIL (Some password)) =
    map (\<lambda>t. (js ''public/dashboard-shots/'' @ js t @ js ''.png'', False, Shows (DashboardScreen (js t))))
      [''overview'', ''analytics'', ''activity'', ''delegations'', ''sessions'', ''receipts'', ''verify'',
       ''agents'', ''projects'', ''apikeys'', ''settings'']"
proof -
  let ?file = "\<lambda>n. js ''public/dashboard-shots/'' @ n @ js ''.png''"
  let ?xs = "map (\<lambda>(p, n, w). (?file n, p, w)) console_shots"
  define u where "u = run (command_step c sv) blank_tab (capture_login (or_str BABIT_EMAIL default_email) password)"
  note u = login_run [OF assms(3,4,2) u_def]
  have cs: "concat (map (capture_shot (js ''public/dashboard-shots/'')) console_shots)
      = concat (map (\<lambda>(f, p, w). [Goto p, WaitFor w, Screenshot f False]) ?xs)"
    by (simp add: capture_shot_def [abs_def] comp_def case_prod_unfold)
  have paths: "\<forall>x\<in>set ?xs. shot_path (fst (snd x))" using shot_all_paths(2) by (auto simp: list_all_iff)
  have "pictures c sv (capture_dashboard default_email BABIT_EMAIL (Some password))
      = tb_shots (run (command_step c sv) u (concat (map (\<lambda>(f, p, w). [Goto p, WaitFor w, Screenshot f False]) ?xs)))"
    using assms(4) unfolding pictures_def capture_dashboard_def Let_def or_str_def [of "Some password"] cs u_def
    by (simp del: map_map)
  also have "\<dots> = map (shot_of sv u) ?xs"
    using shots_run [OF paths refl, of c sv u False] u(2) by (simp add: blank_tab_def del: map_map)
  also have "\<dots> = map (\<lambda>(f, p, w). (f, False, shown (2000 \<le> sv_load sv + w) True p)) ?xs"
    using u assms(1) by (simp add: shot_of_def dark_tab_def known_tab_def boot_dark)
  also have "\<dots> = map (\<lambda>t. (js ''public/dashboard-shots/'' @ js t @ js ''.png'', False, Shows (DashboardScreen (js t))))
      [''overview'', ''analytics'', ''activity'', ''delegations'', ''sessions'', ''receipts'', ''verify'',
       ''agents'', ''projects'', ''apikeys'', ''settings'']"
    by (simp add: console_shots_def shown_def shot_eval)
  finally show ?thesis .
qed

lemma home_shots:
  "shot_path (js ''/'')" "shown b k (js ''/'') = Shows (if b then LandingScreen else SplashScreen)"
  by (simp_all add: shot_path_def shown_def shot_eval)

text \<open>The middle of a row of the receipts, which the script of \<open>src/dev\<close> clicks for a receipt's detail:
  neither the row nor a cell before the last, with the button, has a handler.\<close>

lemma receipt_row_inert:
  "\<exists>as cells proof. rc_row s n ie = El ''tr'' as (cells @ [proof]) \<and> length cells = 3
    \<and> (\<forall>b e. \<not> attrs_fire b as e) \<and> (\<forall>e. \<not> fires_in cells e)"
proof -
  obtain i ev where ie: "ie = (i, ev)" by (cases ie)
  let ?cells = "map (\<lambda>v. El ''td'' [] (opt_text v)) [ev_event_id ev, ev_action_type ev, ev_session_id ev]"
  have "\<not> fires_in (opt_text v) e" for v and e :: receipts_event by (cases v) (simp_all add: opt_text_def)
  then have "\<forall>e :: receipts_event. \<not> fires_in ?cells e" by simp
  moreover have "rc_row s n ie = El ''tr'' [Flag ''borderBottom'' (i + 1 < n)] (?cells @ [El ''td'' []
      [El ''button'' [OnClick (RcFetch ev), Disabled (rc_fetchingProof s)]
        [icon ''IconShieldCheck'', El ''span'' [] [tx ''Proof'']]]])"
    by (simp add: rc_row_def ie)
  ultimately show ?thesis
    by (intro exI [of _ "[Flag ''borderBottom'' (i + 1 < n)]"] exI [of _ ?cells]) auto
qed

lemma pages_without_session:
  "map (\<lambda>(n, p). shown False False p) shot_pages
    = [Shows SplashScreen, Shows LoginScreen, Shows SignupScreen, Shows ForgotPasswordScreen,
       Shows LoginScreen, Shows LoginScreen, Shows LoginScreen, Shows LoginScreen, Shows LoginScreen,
       Shows LoginScreen, Shows LoginScreen, Shows LoginScreen, Shows LoginScreen]"
  by (simp add: shot_pages_def shown_def shot_eval)

text \<open>The pictures of the whole site are not of its pages: the script has no session, waits for 800
  milliseconds and writes the theme under a key that the application does not read. So unless a
  document takes 1.2 seconds to load, whatever the server answers, no picture is dark, those named
  after the landing page show the splash screen, on the phone too, and those named after the
  dashboard and its tabs show the sign-in page.
\<close>
theorem shots_miss_pages:
  assumes "sv_load sv < 1200"
  shows "let row = [Shows SplashScreen, Shows LoginScreen, Shows SignupScreen, Shows ForgotPasswordScreen]
      @ replicate 9 (Shows LoginScreen) in
    map snd (pictures c sv shot_all) = map (Pair False) (row @ row @ [Shows SplashScreen])"
proof -
  define row where "row = [Shows SplashScreen, Shows LoginScreen, Shows SignupScreen, Shows ForgotPasswordScreen]
    @ replicate 9 (Shows LoginScreen)"
  let ?t = "run (command_step c sv) (run (command_step c sv) blank_tab (shot_theme True)) (shot_theme False)"
  let ?u = "command_step c sv ?t (NewContext 390 844 1)"
  let ?m = "js ''/tmp/babit_shots/landing-mobile.png''"
  have short: "\<not> 2000 \<le> sv_load sv + 800" using assms(1) by simp
  have "replicate 9 x = [x, x, x, x, x, x, x, x, x]" for x :: picture by (simp add: numeral_eq_Suc)
  then have "map (\<lambda>(n, p). shown False False p) shot_pages = row"
    using pages_without_session by (simp add: row_def)
  from arg_cong [OF this, of "map (Pair False)"] have two: "map snd (tb_shots ?t) = map (Pair False) (row @ row)"
    by (simp add: theme_run short blank_tab_def comp_def case_prod_unfold)
  have "pictures c sv shot_all = tb_shots (run (command_step c sv) ?u [Goto (js ''/''), WaitFor 800, Screenshot ?m True])"
    by (simp add: pictures_def shot_all_def)
  also have "\<dots> = tb_shots ?u @ [shot_of sv ?u (?m, js ''/'', 800)]"
    by (rule shot_step(1) [OF home_shots(1) refl])
  finally have "map snd (pictures c sv shot_all) = map (Pair False) (row @ row @ [Shows SplashScreen])"
    using two short by (simp add: shot_of_def dark_tab_def boot_dark home_shots(2))
  then show ?thesis unfolding row_def Let_def .
qed

theorem shots_miss_pages_witness:
  "length (pictures demo_client demo_server shot_all) = 27
    \<and> last (map snd (pictures demo_client demo_server shot_all)) = (False, Shows SplashScreen)"
proof -
  have "sv_load demo_server < 1200" by (simp add: demo_server_def)
  note row = shots_miss_pages [OF this, of demo_client, unfolded Let_def]
  show ?thesis using arg_cong [OF row, of length] arg_cong [OF row, of last] by simp
qed

text \<open>The script for the social pictures waits long enough, writes the preference under the right key
  and signs in, at once after the load: its three pictures are what they are named after.\<close>

lemma social_landing_run:
  "\<exists>f. tb_shots (run (command_step c sv) t (social_landing light)) = tb_shots t @ [(f, \<not> light, Shows LandingScreen)]"
proof -
  let ?th = "themed c sv 2 (js ''babit-theme'') light t"
  have th: "tb_stored ?th = Some (theme_text (if light then Light else Dark))" "tb_clock ?th = sv_load sv"
    "tb_form ?th = None" "\<not> tb_cookie ?th" "tb_shots ?th = tb_shots t"
    using themed_tab [of c sv 2 "js ''babit-theme''" light t] by (simp_all add: STORAGE_KEY_def)
  have "location (sh_router (shell_load c stored False (router_start (js ''/'')))) = js ''/''" for stored
    using load_fresh [of "js ''/''" c stored False] home_shots(1) plain_before [OF home_shots(1)]
    by (simp add: shot_path_def fresh_def)
  then have sh: "tb_shell ?th = Some (shell_load c (tb_stored ?th) False (router_start (js ''/'')))"
    by (simp add: themed_def open_page_def)
  have w: "wait_ms 3500 (arrivals sv ?th) = ?th\<lparr>tb_clock := sv_load sv + 3500,
      tb_shell := Some (visit True (me_answer sv False) (shell_load c (tb_stored ?th) False (router_start (js ''/''))))\<rparr>"
    using arrivals_visit [OF sh th(3) load_auth, of 3500 sv] th(2,4) by simp
  have "run (command_step c sv) t (social_landing light)
      = command_step c sv (command_step c sv (wait_ms 3500 (arrivals sv ?th)) (Screenshot
          (js ''public/social-shots/landing-'' @ js (if light then ''light'' else ''dark'') @ js ''.png'') False)) CloseContext"
    by (simp add: social_landing_def themed_def)
  then show ?thesis
    using th by (simp add: w visit_shows [OF home_shots(1)] visit_theme load_theme boot_dark home_shots(2))
qed

theorem social_shows_pages:
  assumes "me_user (sv_me sv) \<noteq> None" "truthy (lr_token (sv_login sv))" "email \<noteq> []" "password \<noteq> []"
  shows "map snd (pictures c sv (capture_social email password))
    = [(False, Shows LandingScreen), (True, Shows LandingScreen), (False, Shows (DashboardScreen (js ''overview'')))]"
proof -
  define t where "t = run (command_step c sv) (run (command_step c sv) blank_tab (social_landing True)) (social_landing False)"
  have t: "map snd (tb_shots t) = [(False, Shows LandingScreen), (True, Shows LandingScreen)]"
    using social_landing_run [of c sv blank_tab True]
      social_landing_run [of c sv "run (command_step c sv) blank_tab (social_landing True)" False]
    by (auto simp: t_def blank_tab_def)
  define u where "u = open_page c sv (js ''/login'') (command_step c sv t (NewContext 1440 900 2))"
  obtain sh a r where u: "synced u sh (login_mount a r)" "au_pending a = [WaitMe False]"
    using opened_login(1) [OF u_def] by blast
  define v where "v = run (command_step c sv) u [Fill (js ''input[type=\"email\"]'') email,
      Fill (js ''input[type=\"password\"]'') password, Click (js ''button[type=\"submit\"]''), WaitFor 3000]"
  note v = signs_in [OF u(1) _ assms(3,4,2) v_def]
  have uv: "tb_shots u = tb_shots t" "tb_stored u = None" by (simp_all add: u_def open_page_def)
  have path: "shot_path (js ''/dashboard'')" "shown b True (js ''/dashboard'') = Shows (DashboardScreen (js ''overview''))" for b
    by (simp_all add: shot_path_def shown_def shot_eval)
  let ?f = "js ''public/social-shots/dashboard-overview.png''"
  have "pictures c sv (capture_social email password)
      = tb_shots (run (command_step c sv) v [Goto (js ''/dashboard''), WaitFor 2000, Screenshot ?f False])"
    by (simp add: pictures_def capture_social_def t_def u_def v_def)
  also have "\<dots> = tb_shots v @ [shot_of sv v (?f, js ''/dashboard'', 2000)]"
    by (rule shot_step(1) [OF path(1) refl])
  finally show ?thesis
    using v u(2) uv t assms(1) by (simp add: shot_of_def dark_tab_def known_tab_def boot_dark path(2))
qed

section \<open>Whatever the timing\<close>

text \<open>
  A run of a script with the world between its commands: a wait is no more than the time in which
  answers, modules, the splash screen's timer and failures may come, in any order and at any of the
  script's commands; what the world brings acts on the page of the tab.
\<close>

fun free_step :: "client \<Rightarrow> server_side \<Rightarrow> tab \<Rightarrow> command + shell_event \<Rightarrow> tab" where
  "free_step c sv t (Inl (WaitFor ms)) = t"
| "free_step c sv t (Inl m) = command_step c sv t m"
| "free_step c sv t (Inr e) = t\<lparr>tb_shell := map_option (\<lambda>sh. shell_step sh e) (tb_shell t)\<rparr>"

fun commands_of :: "(command + shell_event) list \<Rightarrow> command list" where
  "commands_of [] = []"
| "commands_of (Inl m # xs) = m # commands_of xs"
| "commands_of (Inr e # xs) = commands_of xs"

text \<open>What the world brings to a browser without a session: refusals of the profile, modules that come
  or fail, the timer, pages that throw.\<close>

fun signed_out_world :: "shell_event \<Rightarrow> bool" where
  "signed_out_world (ShAuth (MeReply i (Resolved (Some d) e))) = False"
| "signed_out_world (ShAuth (MeReply i r)) = True"
| "signed_out_world (ShImport m r) = True"
| "signed_out_world ShSplash = True"
| "signed_out_world (ShThrow m) = True"
| "signed_out_world e = False"

text \<open>A command that neither signs in nor writes the preference under the key that is read.\<close>

fun idle_command :: "command \<Rightarrow> bool" where
  "idle_command (Goto path) = prefix (js ''/'') path"
| "idle_command (SetTheme key light) = (key \<noteq> STORAGE_KEY)"
| "idle_command (Fill s v) = False"
| "idle_command (Click s) = False"
| "idle_command m = True"

lemma shot_all_idle: "list_all idle_command shot_all"
proof -
  have "list_all (\<lambda>(n, p). prefix (js ''/'') p) shot_pages" by (simp add: shot_pages_def js_def)
  moreover have "js ''babit_theme'' \<noteq> STORAGE_KEY" by (simp add: STORAGE_KEY_def)
  ultimately show ?thesis by (auto simp: shot_all_def shot_theme_def list_all_iff)
qed

definition out_shell :: "shell \<Rightarrow> bool" where
  "out_shell sh \<longleftrightarrow> guard_inv sh \<and> au_token (sh_auth sh) = None \<and> au_user (sh_auth sh) = None
     \<and> \<not> th_dark_class (sh_theme sh)"

definition out_tab :: "tab \<Rightarrow> bool" where
  "out_tab t \<longleftrightarrow> tb_stored t = None \<and> (\<forall>sh. tb_shell t = Some sh \<longrightarrow> out_shell sh)"

lemma out_shell_load: "router_inv (router_start p) \<Longrightarrow> out_shell (shell_load c None False (router_start p))"
  by (simp add: out_shell_def guard_inv_load load_auth load_theme boot_dark auth_mount_def refreshMe_def
      setAuthToken_def getAuthToken_def)

lemma out_shell_world: "out_shell sh \<Longrightarrow> signed_out_world e \<Longrightarrow> out_shell (shell_step sh e)"
proof -
  assume sh: "out_shell sh" and e: "signed_out_world e"
  have "au_token (sh_auth (shell_step sh e)) = None \<and> au_user (sh_auth (shell_step sh e)) = None
      \<and> sh_theme (shell_step sh e) = sh_theme sh"
    using sh e by (cases e rule: signed_out_world.cases)
      (auto simp: out_shell_def Let_def auth_defs shell_throw_def split: auth_wait.split)
  then show ?thesis using sh guard_inv_step [of sh e] by (simp add: out_shell_def)
qed

lemma out_tab_step:
  assumes "out_tab t" "case x of Inl m \<Rightarrow> idle_command m | Inr e \<Rightarrow> signed_out_world e"
  shows "out_tab (free_step c sv t x)"
proof (cases x)
  case (Inr e)
  then show ?thesis using assms by (auto simp: out_tab_def out_shell_world simp del: shell_step.simps)
next
  case (Inl m)
  have "out_shell (shell_load c None False (router_start (location (sh_router sh))))"
    if "tb_shell t = Some sh" for sh
  proof (rule out_shell_load, rule router_inv_start)
    have "router_inv (sh_router sh)" using assms(1) that by (simp add: out_tab_def out_shell_def guard_inv_def)
    then have "prefix (js ''/'') (hd (rt_entries (sh_router sh)))" by (cases "rt_entries (sh_router sh)") (simp_all add: router_inv_def)
    then show "prefix (js ''/'') (location (sh_router sh))" by (simp add: location_def strip_hash_slash)
  qed
  then show ?thesis using assms Inl
    by (cases m) (auto simp: out_tab_def open_page_def out_shell_load router_inv_start split: option.split)
qed

lemma out_shell_picture:
  assumes "out_shell sh"
  shows "picture_of sh \<notin> range (\<lambda>tab. Shows (DashboardScreen tab)) \<union> range (\<lambda>tab. ShowsLoading (DashboardScreen tab))"
proof -
  have "\<not> isAuthenticated (sh_auth sh)" using assms by (simp add: out_shell_def isAuthenticated_def)
  then have "eb_hasError (sh_boundary sh) \<or> (\<forall>tab. shell_screen sh \<noteq> DashboardScreen tab)"
    using assms by (auto simp: out_shell_def guard_inv_def)
  then show ?thesis by (auto simp: picture_of_def split: option.splits if_splits)
qed

text \<open>A picture is light and shows nothing of the console.\<close>

definition light_outside :: "jstr \<times> bool \<times> picture \<Rightarrow> bool" where
  "light_outside x \<longleftrightarrow> \<not> fst (snd x)
     \<and> (case snd (snd x) of Shows (DashboardScreen tab) \<Rightarrow> False | ShowsLoading (DashboardScreen tab) \<Rightarrow> False | _ \<Rightarrow> True)"

lemma free_shots:
  assumes "out_tab t" "case x of Inl m \<Rightarrow> idle_command m | Inr e \<Rightarrow> signed_out_world e" "list_all light_outside (tb_shots t)"
  shows "list_all light_outside (tb_shots (free_step c sv t x))"
proof (cases "\<exists>f full sh. x = Inl (Screenshot f full) \<and> tb_shell t = Some sh")
  case True
  then obtain f full sh where x: "x = Inl (Screenshot f full)" "tb_shell t = Some sh" by blast
  then have "out_shell sh" using assms(1) by (simp add: out_tab_def)
  then have "light_outside (f, th_dark_class (sh_theme sh), picture_of sh)"
    using out_shell_picture [of sh]
    by (auto simp: light_outside_def out_shell_def split: picture.split app_screen.split)
  then show ?thesis using assms(3) x by simp
next
  case False
  then have "tb_shots (free_step c sv t x) = tb_shots t"
    by (cases "(c, sv, t, x)" rule: free_step.cases) (auto simp: open_page_def split: option.splits)
  then show ?thesis using assms(3) by simp
qed

text \<open>The names of the pictures a list of commands takes; \<open>up\<close>: the tab has a page.\<close>

fun files_taken :: "bool \<Rightarrow> command list \<Rightarrow> jstr list" where
  "files_taken up [] = []"
| "files_taken up (m # ms) = (case m of
     NewContext w h scale \<Rightarrow> files_taken False ms
   | Goto path \<Rightarrow> files_taken True ms
   | CloseContext \<Rightarrow> files_taken False ms
   | Screenshot f full \<Rightarrow> (if up then [f] else []) @ files_taken up ms
   | _ \<Rightarrow> files_taken up ms)"

lemma free_files:
  "list_all (\<lambda>x. case x of Inl m \<Rightarrow> idle_command m | Inr e \<Rightarrow> True) xs \<Longrightarrow>
   map fst (tb_shots (run (free_step c sv) t xs)) = map fst (tb_shots t) @ files_taken (tb_shell t \<noteq> None) (commands_of xs)"
proof (induction xs arbitrary: t)
  case (Cons x xs)
  show ?case
  proof (cases x)
    case (Inl m)
    then show ?thesis using Cons.IH [of "free_step c sv t x"] Cons.prems
      by (cases m) (auto simp: open_page_def split: option.split)
  next
    case (Inr e)
    then show ?thesis using Cons.IH [of "free_step c sv t x"] Cons.prems
      by (simp del: shell_step.simps)
  qed
qed simp

lemma free_run:
  assumes "list_all (\<lambda>x. case x of Inl m \<Rightarrow> idle_command m | Inr e \<Rightarrow> signed_out_world e) xs"
    and "out_tab t" "list_all light_outside (tb_shots t)"
  shows "list_all light_outside (tb_shots (run (free_step c sv) t xs))"
  using assms
proof (induction xs arbitrary: t)
  case (Cons x xs)
  then show ?case using out_tab_step [of t x] free_shots [of t x] by simp
qed simp

lemma commands_of_in: "Inl m \<in> set xs \<longleftrightarrow> m \<in> set (commands_of xs)"
  by (induction xs rule: commands_of.induct) auto

lemma concat_map_in: "x \<in> set (concat (map f ms)) \<Longrightarrow> \<exists>m. x \<in> set (f m)"
  by auto

lemma files_append_theme:
  "files_taken b (shot_theme light @ ms) = map (\<lambda>(n, p). shot_file n light) shot_pages @ files_taken False ms"
  by (simp add: shot_theme_def shot_pages_def)

text \<open>C36. The script that takes pictures of the whole site cannot take one of the console, nor a dark one,
  however long anything takes: it never signs in, and writes the theme under a key that the
  application does not read. Whenever between its commands the refusals of the profile, modules,
  failures and the splash screen's timer come, it takes all its 27 pictures, thirteen named after
  the light theme, thirteen after the dark and one of the phone, and each is of a light document and
  shows neither a page of the dashboard nor one that is loading. Of the browser that is driven this
  uses what Playwright documents of its commands: a new context has an empty store and prefers the
  light scheme, \<open>goto\<close> and \<open>reload\<close> load a new document, a picture is of the document there.
\<close>
theorem shots_never_console:
  assumes "commands_of xs = shot_all" and "\<forall>e. Inr e \<in> set xs \<longrightarrow> signed_out_world e"
    and "shots = tb_shots (run (free_step c sv) blank_tab xs)"
  shows "map fst shots = map (\<lambda>(n, p). shot_file n True) shot_pages @ map (\<lambda>(n, p). shot_file n False) shot_pages
      @ [js ''/tmp/babit_shots/landing-mobile.png'']
    \<and> (\<forall>(f, dark, picture) \<in> set shots. \<not> dark
         \<and> (\<forall>tab. picture \<noteq> Shows (DashboardScreen tab) \<and> picture \<noteq> ShowsLoading (DashboardScreen tab)))"
proof -
  have quiet: "list_all (\<lambda>x. case x of Inl m \<Rightarrow> idle_command m | Inr e \<Rightarrow> signed_out_world e) xs"
    using assms(1,2) shot_all_idle by (auto simp: list_all_iff commands_of_in split: sum.split)
  then have "list_all (\<lambda>x. case x of Inl m \<Rightarrow> idle_command m | Inr e \<Rightarrow> True) xs"
    by (auto simp: list_all_iff split: sum.splits)
  from free_files [OF this, of c sv blank_tab] have "map fst shots = files_taken False shot_all"
    by (simp add: assms(1,3) blank_tab_def)
  moreover have "list_all light_outside shots"
    unfolding assms(3) by (rule free_run [OF quiet]) (simp_all add: blank_tab_def out_tab_def)
  ultimately show ?thesis
    by (auto simp: shot_all_def files_append_theme list_all_iff light_outside_def)
qed

theorem shots_never_console_witness:
  "let xs = concat (map (\<lambda>m. case m of
         WaitFor ms \<Rightarrow> [Inr (ShAuth (MeReply 0 (Resolved None JUndef))), Inr ShSplash, Inl m] | _ \<Rightarrow> [Inl m]) shot_all) in
   length (tb_shots (run (free_step demo_client demo_server) blank_tab xs)) = 27"
proof -
  let ?f = "\<lambda>m. case m of
    WaitFor ms \<Rightarrow> [Inr (ShAuth (MeReply 0 (Resolved None JUndef))), Inr ShSplash, Inl m] | _ \<Rightarrow> [Inl m]"
  have "commands_of (?f m @ xs) = m # commands_of xs" for m xs by (cases m) simp_all
  then have c: "commands_of (concat (map ?f ms)) = ms" for ms by (induction ms) (simp_all del: append.simps)
  have w: "signed_out_world e" if "Inr e \<in> set (?f m)" for e m using that by (cases m) auto
  have "\<forall>e. Inr e \<in> set (concat (map ?f shot_all)) \<longrightarrow> signed_out_world e"
    using w by (metis (no_types, lifting) concat_map_in)
  note shots = shots_never_console [OF c this refl, of demo_client demo_server]
  have "length (map fst (tb_shots (run (free_step demo_client demo_server) blank_tab (concat (map ?f shot_all))))) = 27"
    unfolding conjunct1 [OF shots] by (simp add: shot_pages_def)
  then show ?thesis by (simp add: Let_def del: foldl_Cons)
qed

end
