(* ===== verification/Icons.thy ===== *)
theory Icons
  imports Dom
begin

text \<open>
  \<open>src/lib/icons.tsx\<close>: the drawings. In the trees of the other theories an icon is a leaf named
  after its component; here are the trees these leaves stand for, without the class name that
  sets their size. \<open>draw_icons\<close> puts them in place of the leaves, which changes neither what
  a screen says nor what can be done on it.
\<close>

section \<open>Drawings\<close>

definition svg_path :: "string \<Rightarrow> 'e node" where
  "svg_path d = El ''path'' [Attr ''d'' (js d)] []"

definition svg_line :: "string \<Rightarrow> string \<Rightarrow> string \<Rightarrow> string \<Rightarrow> 'e node" where
  "svg_line x1 y1 x2 y2 = El ''line''
     [Attr ''x1'' (js x1), Attr ''y1'' (js y1), Attr ''x2'' (js x2), Attr ''y2'' (js y2)] []"

definition svg_circle :: "string \<Rightarrow> string \<Rightarrow> string \<Rightarrow> 'e node" where
  "svg_circle cx cy r = El ''circle'' [Attr ''cx'' (js cx), Attr ''cy'' (js cy), Attr ''r'' (js r)] []"

definition svg_points :: "string \<Rightarrow> string \<Rightarrow> 'e node" where
  "svg_points tag points = El tag [Attr ''points'' (js points)] []"

definition stroke_icon :: "'e node list \<Rightarrow> 'e node" where
  "stroke_icon children = El ''svg''
     [Attr ''viewBox'' (js ''0 0 24 24''), Attr ''fill'' (js ''none''), Attr ''stroke'' (js ''currentColor''),
      Attr ''strokeWidth'' (js ''2''), Attr ''strokeLinecap'' (js ''round''),
      Attr ''strokeLinejoin'' (js ''round'')] children"

definition BabitLogo :: "jstr option \<Rightarrow> 'e node" where
  "BabitLogo brandColor = (let color = or_str brandColor (js ''currentColor'') in
   El ''svg'' [Attr ''viewBox'' (js ''0 0 24 24''), Attr ''fill'' (js ''none''),
        Attr ''xmlns'' (js ''http://www.w3.org/2000/svg''), Attr ''aria-hidden'' (js ''true'')]
    [El ''path'' [Attr ''d'' (js ''M14.4 4.4 12 2 2 12l10 10 10-10-2.4-2.4''), Attr ''stroke'' color,
        Attr ''strokeWidth'' (js ''1.9''), Attr ''strokeLinecap'' (js ''round''),
        Attr ''strokeLinejoin'' (js ''round'')] [],
     El ''path'' [Attr ''d'' (js ''M12 7.6 16.4 12 12 16.4 7.6 12 12 7.6Z''), Attr ''fill'' color] []])"

definition IconCheck :: "'e node" where
  "IconCheck = stroke_icon
    [svg_points ''polyline'' ''20 6 9 17 4 12'']"

definition IconCheckCircle :: "'e node" where
  "IconCheckCircle = stroke_icon
    [svg_path ''M22 11.08V12a10 10 0 1 1-5.93-9.14'',
     svg_points ''polyline'' ''22 4 12 14.01 9 11.01'']"

definition IconXCircle :: "'e node" where
  "IconXCircle = stroke_icon
    [svg_circle ''12'' ''12'' ''10'',
     svg_line ''15'' ''9'' ''9'' ''15'',
     svg_line ''9'' ''9'' ''15'' ''15'']"

definition IconShieldCheck :: "'e node" where
  "IconShieldCheck = stroke_icon
    [svg_path ''M12 22s8-4 8-10V5l-8-3-8 3v7c0 6 8 10 8 10z'',
     svg_path ''m9 12 2 2 4-4'']"

definition IconShieldAlert :: "'e node" where
  "IconShieldAlert = stroke_icon
    [svg_path ''M12 22s8-4 8-10V5l-8-3-8 3v7c0 6 8 10 8 10z'',
     svg_line ''12'' ''8'' ''12'' ''12'',
     svg_line ''12'' ''16'' ''12.01'' ''16'']"

definition IconGitBranch :: "'e node" where
  "IconGitBranch = stroke_icon
    [svg_line ''6'' ''3'' ''6'' ''15'',
     svg_circle ''18'' ''6'' ''3'',
     svg_circle ''6'' ''18'' ''3'',
     svg_path ''M18 9a9 9 0 0 1-9 9'']"

definition IconKey :: "'e node" where
  "IconKey = stroke_icon
    [svg_circle ''7.5'' ''15.5'' ''5.5'',
     svg_path ''m21 2-9.6 9.6'',
     svg_path ''m15.5 7.5 3 3L22 7l-3-3'']"

definition IconCpu :: "'e node" where
  "IconCpu = stroke_icon
    [El ''rect'' [Attr ''x'' (js ''4''), Attr ''y'' (js ''4''), Attr ''width'' (js ''16''),
        Attr ''height'' (js ''16''), Attr ''rx'' (js ''2'')] [],
     El ''rect'' [Attr ''x'' (js ''9''), Attr ''y'' (js ''9''), Attr ''width'' (js ''6''),
        Attr ''height'' (js ''6'')] [],
     svg_path ''M9 1v3M15 1v3M9 20v3M15 20v3M20 9h3M20 14h3M1 9h3M1 14h3'']"

definition IconDatabase :: "'e node" where
  "IconDatabase = stroke_icon
    [El ''ellipse'' [Attr ''cx'' (js ''12''), Attr ''cy'' (js ''5''), Attr ''rx'' (js ''9''),
        Attr ''ry'' (js ''3'')] [],
     svg_path ''M21 12c0 1.66-4 3-9 3s-9-1.34-9-3'',
     svg_path ''M3 5v14c0 1.66 4 3 9 3s9-1.34 9-3V5'']"

definition IconActivity :: "'e node" where
  "IconActivity = stroke_icon
    [svg_points ''polyline'' ''22 12 18 12 15 21 9 3 6 12 2 12'']"

definition IconTerminal :: "'e node" where
  "IconTerminal = stroke_icon
    [svg_points ''polyline'' ''4 17 10 11 4 5'',
     svg_line ''12'' ''19'' ''20'' ''19'']"

definition IconLayers :: "'e node" where
  "IconLayers = stroke_icon
    [svg_points ''polygon'' ''12 2 2 7 12 12 22 7 12 2'',
     svg_points ''polyline'' ''2 17 12 22 22 17'',
     svg_points ''polyline'' ''2 12 12 17 22 12'']"

definition IconFileText :: "'e node" where
  "IconFileText = stroke_icon
    [svg_path ''M14 2H6a2 2 0 0 0-2 2v16a2 2 0 0 0 2 2h12a2 2 0 0 0 2-2V8z'',
     svg_points ''polyline'' ''14 2 14 8 20 8'',
     svg_line ''16'' ''13'' ''8'' ''13'',
     svg_line ''16'' ''17'' ''8'' ''17'',
     svg_points ''polyline'' ''10 9 9 9 8 9'']"

definition IconLock :: "'e node" where
  "IconLock = stroke_icon
    [El ''rect'' [Attr ''x'' (js ''3''), Attr ''y'' (js ''11''), Attr ''width'' (js ''18''),
        Attr ''height'' (js ''11''), Attr ''rx'' (js ''2''), Attr ''ry'' (js ''2'')] [],
     svg_path ''M7 11V7a5 5 0 0 1 10 0v4'']"

definition IconCopy :: "'e node" where
  "IconCopy = stroke_icon
    [El ''rect'' [Attr ''x'' (js ''9''), Attr ''y'' (js ''9''), Attr ''width'' (js ''13''),
        Attr ''height'' (js ''13''), Attr ''rx'' (js ''2''), Attr ''ry'' (js ''2'')] [],
     svg_path ''M5 15H4a2 2 0 0 1-2-2V4a2 2 0 0 1 2-2h9a2 2 0 0 1 2 2v1'']"

definition IconArrowRight :: "'e node" where
  "IconArrowRight = stroke_icon
    [svg_line ''5'' ''12'' ''19'' ''12'',
     svg_points ''polyline'' ''12 5 19 12 12 19'']"

definition IconArrowUpRight :: "'e node" where
  "IconArrowUpRight = stroke_icon
    [svg_line ''7'' ''17'' ''17'' ''7'',
     svg_points ''polyline'' ''7 7 17 7 17 17'']"

definition IconChevronDown :: "'e node" where
  "IconChevronDown = stroke_icon
    [svg_points ''polyline'' ''6 9 12 15 18 9'']"

definition IconChevronRight :: "'e node" where
  "IconChevronRight = stroke_icon
    [svg_points ''polyline'' ''9 18 15 12 9 6'']"

definition IconSearch :: "'e node" where
  "IconSearch = stroke_icon
    [svg_circle ''11'' ''11'' ''8'',
     svg_line ''21'' ''21'' ''16.65'' ''16.65'']"

definition IconBell :: "'e node" where
  "IconBell = stroke_icon
    [svg_path ''M18 8A6 6 0 0 0 6 8c0 7-3 9-3 9h18s-3-2-3-9'',
     svg_path ''M13.73 21a2 2 0 0 1-3.46 0'']"

definition IconSettings :: "'e node" where
  "IconSettings = stroke_icon
    [svg_circle ''12'' ''12'' ''3'',
     svg_path ''M19.4 15a1.65 1.65 0 0 0 .33 1.82l.06.06a2 2 0 0 1 0 2.83 2 2 0 0 1-2.83 0l-.06-.06a1.65 1.65 0 0 0-1.82-.33 1.65 1.65 0 0 0-1 1.51V21a2 2 0 0 1-2 2 2 2 0 0 1-2-2v-.09A1.65 1.65 0 0 0 9 19.4a1.65 1.65 0 0 0-1.82.33l-.06.06a2 2 0 0 1-2.83 0 2 2 0 0 1 0-2.83l.06-.06a1.65 1.65 0 0 0 .33-1.82 1.65 1.65 0 0 0-1.51-1H3a2 2 0 0 1-2-2 2 2 0 0 1 2-2h.09A1.65 1.65 0 0 0 4.6 9a1.65 1.65 0 0 0-.33-1.82l-.06-.06a2 2 0 0 1 0-2.83 2 2 0 0 1 2.83 0l.06.06a1.65 1.65 0 0 0 1.82.33H9a1.65 1.65 0 0 0 1-1.51V3a2 2 0 0 1 2-2 2 2 0 0 1 2 2v.09a1.65 1.65 0 0 0 1 1.51 1.65 1.65 0 0 0 1.82-.33l.06-.06a2 2 0 0 1 2.83 0 2 2 0 0 1 0 2.83l-.06.06a1.65 1.65 0 0 0-.33 1.82V9a1.65 1.65 0 0 0 1.51 1H21a2 2 0 0 1 2 2 2 2 0 0 1-2 2h-.09a1.65 1.65 0 0 0-1.51 1z'']"

definition IconUser :: "'e node" where
  "IconUser = stroke_icon
    [svg_path ''M20 21v-2a4 4 0 0 0-4-4H8a4 4 0 0 0-4 4v2'',
     svg_circle ''12'' ''7'' ''4'']"

definition IconUsers :: "'e node" where
  "IconUsers = stroke_icon
    [svg_path ''M17 21v-2a4 4 0 0 0-4-4H5a4 4 0 0 0-4 4v2'',
     svg_circle ''9'' ''7'' ''4'',
     svg_path ''M23 21v-2a4 4 0 0 0-3-3.87'',
     svg_path ''M16 3.13a4 4 0 0 1 0 7.75'']"

definition IconBuilding :: "'e node" where
  "IconBuilding = stroke_icon
    [El ''rect'' [Attr ''x'' (js ''4''), Attr ''y'' (js ''2''), Attr ''width'' (js ''16''),
        Attr ''height'' (js ''20''), Attr ''rx'' (js ''2''), Attr ''ry'' (js ''2'')] [],
     svg_path ''M9 22v-4h6v4'',
     svg_path ''M8 6h.01M16 6h.01M8 10h.01M16 10h.01M8 14h.01M16 14h.01'']"

definition IconLogOut :: "'e node" where
  "IconLogOut = stroke_icon
    [svg_path ''M9 21H5a2 2 0 0 1-2-2V5a2 2 0 0 1 2-2h4'',
     svg_points ''polyline'' ''16 17 21 12 16 7'',
     svg_line ''21'' ''12'' ''9'' ''12'']"

definition IconFilter :: "'e node" where
  "IconFilter = stroke_icon
    [svg_points ''polygon'' ''22 3 2 3 10 12.46 10 19 14 21 14 12.46 22 3'']"

definition IconPlay :: "'e node" where
  "IconPlay = stroke_icon
    [svg_points ''polygon'' ''5 3 19 12 5 21 5 3'']"

definition IconRefresh :: "'e node" where
  "IconRefresh = stroke_icon
    [svg_points ''polyline'' ''23 4 23 10 17 10'',
     svg_points ''polyline'' ''1 20 1 14 7 14'',
     svg_path ''M3.51 9a9 9 0 0 1 14.85-3.36L23 10M1 14l4.64 4.36A9 9 0 0 0 20.49 15'']"

definition IconSparkles :: "'e node" where
  "IconSparkles = stroke_icon
    [svg_path ''m12 3-1.9 5.8a2 2 0 0 1-1.3 1.3L3 12l5.8 1.9a2 2 0 0 1 1.3 1.3L12 21l1.9-5.8a2 2 0 0 1 1.3-1.3L21 12l-5.8-1.9a2 2 0 0 1-1.3-1.3L12 3z'']"

definition IconHash :: "'e node" where
  "IconHash = stroke_icon
    [svg_line ''4'' ''9'' ''20'' ''9'',
     svg_line ''4'' ''15'' ''20'' ''15'',
     svg_line ''10'' ''3'' ''8'' ''21'',
     svg_line ''16'' ''3'' ''14'' ''21'']"

definition IconClock :: "'e node" where
  "IconClock = stroke_icon
    [svg_circle ''12'' ''12'' ''10'',
     svg_points ''polyline'' ''12 6 12 12 14 14'']"

definition IconSun :: "'e node" where
  "IconSun = stroke_icon
    [svg_circle ''12'' ''12'' ''4'',
     svg_path ''M12 2v2M12 20v2M4.93 4.93l1.41 1.41M17.66 17.66l1.41 1.41M2 12h2M20 12h2M6.34 17.66l-1.41 1.41M19.07 4.93l-1.41 1.41'']"

definition IconMoon :: "'e node" where
  "IconMoon = stroke_icon
    [svg_path ''M21 12.79A9 9 0 1 1 11.21 3 7 7 0 0 0 21 12.79z'']"

definition IconMonitor :: "'e node" where
  "IconMonitor = stroke_icon
    [El ''rect'' [Attr ''x'' (js ''2''), Attr ''y'' (js ''3''), Attr ''width'' (js ''20''),
        Attr ''height'' (js ''14''), Attr ''rx'' (js ''2''), Attr ''ry'' (js ''2'')] [],
     svg_line ''8'' ''21'' ''16'' ''21'',
     svg_line ''12'' ''17'' ''12'' ''21'']"

definition IconAlertCircle :: "'e node" where
  "IconAlertCircle = stroke_icon
    [svg_circle ''12'' ''12'' ''10'',
     svg_line ''12'' ''8'' ''12'' ''12'',
     svg_line ''12'' ''16'' ''12.01'' ''16'']"

definition IconBarChart :: "'e node" where
  "IconBarChart = stroke_icon
    [svg_line ''12'' ''20'' ''12'' ''10'',
     svg_line ''18'' ''20'' ''18'' ''4'',
     svg_line ''6'' ''20'' ''6'' ''16'']"

definition IconFolder :: "'e node" where
  "IconFolder = stroke_icon
    [svg_path ''M22 19a2 2 0 0 1-2 2H4a2 2 0 0 1-2-2V5a2 2 0 0 1 2-2h5l2 3h9a2 2 0 0 1 2 2z'']"

definition IconGitHub :: "'e node" where
  "IconGitHub = El ''svg'' [Attr ''viewBox'' (js ''0 0 24 24''), Attr ''fill'' (js ''currentColor''),
        Attr ''xmlns'' (js ''http://www.w3.org/2000/svg''), Attr ''aria-hidden'' (js ''true'')]
    [El ''path'' [Attr ''fillRule'' (js ''evenodd''), Attr ''clipRule'' (js ''evenodd''),
        Attr ''d'' (js ''M12 2C6.477 2 2 6.484 2 12.017c0 4.425 2.865 8.18 6.839 9.504.5.092.682-.217.682-.483 0-.237-.008-.868-.013-1.703-2.782.605-3.369-1.343-3.369-1.343-.454-1.158-1.11-1.466-1.11-1.466-.908-.62.069-.608.069-.608 1.003.07 1.531 1.032 1.531 1.032.892 1.53 2.341 1.088 2.91.832.092-.647.35-1.088.636-1.338-2.22-.253-4.555-1.113-4.555-4.951 0-1.093.39-1.988 1.029-2.688-.103-.253-.446-1.272.098-2.65 0 0 .84-.27 2.75 1.026A9.564 9.564 0 0112 6.844c.85.004 1.705.115 2.504.337 1.909-1.296 2.747-1.027 2.747-1.027.546 1.379.202 2.398.1 2.651.64.7 1.028 1.595 1.028 2.688 0 3.848-2.339 4.695-4.566 4.943.359.309.678.92.678 1.855 0 1.338-.012 2.419-.012 2.747 0 .268.18.58.688.482A10.019 10.019 0 0022 12.017C22 6.484 17.522 2 12 2z'')] []]"

definition IconXLogo :: "'e node" where
  "IconXLogo = El ''svg'' [Attr ''viewBox'' (js ''0 0 24 24''), Attr ''fill'' (js ''currentColor''),
        Attr ''xmlns'' (js ''http://www.w3.org/2000/svg''), Attr ''aria-hidden'' (js ''true'')]
    [svg_path ''M18.244 2.25h3.308l-7.227 8.26 8.502 11.24H16.17l-5.214-6.817L4.99 21.75H1.68l7.73-8.835L1.254 2.25H8.08l4.713 6.231zm-1.161 17.52h1.833L7.084 4.126H5.117z'']"

definition icon_table :: "jstr option \<Rightarrow> (string \<times> 'e node) list" where
  "icon_table brandColor =
    [(''BabitLogo'', BabitLogo brandColor),
     (''IconCheck'', IconCheck),
     (''IconCheckCircle'', IconCheckCircle),
     (''IconXCircle'', IconXCircle),
     (''IconShieldCheck'', IconShieldCheck),
     (''IconShieldAlert'', IconShieldAlert),
     (''IconGitBranch'', IconGitBranch),
     (''IconKey'', IconKey),
     (''IconCpu'', IconCpu),
     (''IconDatabase'', IconDatabase),
     (''IconActivity'', IconActivity),
     (''IconTerminal'', IconTerminal),
     (''IconLayers'', IconLayers),
     (''IconFileText'', IconFileText),
     (''IconLock'', IconLock),
     (''IconCopy'', IconCopy),
     (''IconArrowRight'', IconArrowRight),
     (''IconArrowUpRight'', IconArrowUpRight),
     (''IconChevronDown'', IconChevronDown),
     (''IconChevronRight'', IconChevronRight),
     (''IconSearch'', IconSearch),
     (''IconBell'', IconBell),
     (''IconSettings'', IconSettings),
     (''IconUser'', IconUser),
     (''IconUsers'', IconUsers),
     (''IconBuilding'', IconBuilding),
     (''IconLogOut'', IconLogOut),
     (''IconFilter'', IconFilter),
     (''IconPlay'', IconPlay),
     (''IconRefresh'', IconRefresh),
     (''IconSparkles'', IconSparkles),
     (''IconHash'', IconHash),
     (''IconClock'', IconClock),
     (''IconSun'', IconSun),
     (''IconMoon'', IconMoon),
     (''IconMonitor'', IconMonitor),
     (''IconAlertCircle'', IconAlertCircle),
     (''IconBarChart'', IconBarChart),
     (''IconFolder'', IconFolder),
     (''IconGitHub'', IconGitHub),
     (''IconXLogo'', IconXLogo)]"

lemmas icon_defs =
  svg_path_def svg_line_def svg_circle_def svg_points_def stroke_icon_def
  BabitLogo_def IconCheck_def IconCheckCircle_def IconXCircle_def IconShieldCheck_def
  IconShieldAlert_def IconGitBranch_def IconKey_def IconCpu_def IconDatabase_def
  IconActivity_def IconTerminal_def IconLayers_def IconFileText_def IconLock_def
  IconCopy_def IconArrowRight_def IconArrowUpRight_def IconChevronDown_def IconChevronRight_def
  IconSearch_def IconBell_def IconSettings_def IconUser_def IconUsers_def
  IconBuilding_def IconLogOut_def IconFilter_def IconPlay_def IconRefresh_def
  IconSparkles_def IconHash_def IconClock_def IconSun_def IconMoon_def
  IconMonitor_def IconAlertCircle_def IconBarChart_def IconFolder_def IconGitHub_def
  IconXLogo_def

definition drawing :: "jstr option \<Rightarrow> string \<Rightarrow> 'e node option" where
  "drawing brandColor n = map_of (icon_table brandColor) n"

section \<open>Drawings say and do nothing\<close>

text \<open>A drawing has no text and no attribute but plain ones, on elements that are no buttons.\<close>

fun plain_attr :: "'e attr \<Rightarrow> bool" where
  "plain_attr (Attr k v) = True"
| "plain_attr _ = False"

fun drawn :: "'e node \<Rightarrow> bool" and drawn_in :: "'e node list \<Rightarrow> bool" where
  "drawn (Text s) = False"
| "drawn (El t as ks) = (t \<noteq> ''button'' \<and> list_all plain_attr as \<and> drawn_in ks)"
| "drawn_in [] = True"
| "drawn_in (k # ks) = (drawn k \<and> drawn_in ks)"

lemma plain_attrs_silent: "list_all plain_attr as \<Longrightarrow> \<not> attrs_fire r as e"
proof (induction as)
  case (Cons a as)
  then show ?case by (cases a) auto
qed simp

lemma drawn_silent:
  "drawn n \<Longrightarrow> texts n = [] \<and> \<not> can_fire n e \<and> \<not> submit_ready n"
  "drawn_in ks \<Longrightarrow> texts_of ks = [] \<and> \<not> fires_in ks e \<and> \<not> submit_ready_in ks"
  by (induction n and ks rule: drawn_drawn_in.induct) (auto simp: plain_attrs_silent)

lemma icon_table_drawn: "list_all (\<lambda>(n, d). drawn d) (icon_table c)"
  by (simp add: icon_table_def icon_defs Let_def)

lemma drawing_silent:
  assumes "drawing c n = Some d"
  shows "texts d = []" "\<not> can_fire d e" "\<not> submit_ready d"
proof -
  have "(n, d) \<in> set (icon_table c)" using assms unfolding drawing_def by (rule map_of_SomeD)
  then have "drawn d" using icon_table_drawn [of c] by (auto simp: list_all_iff)
  then show "texts d = []" "\<not> can_fire d e" "\<not> submit_ready d" using drawn_silent(1) [of d e] by simp_all
qed

section \<open>Screens with their drawings\<close>

fun draw_icons :: "jstr option \<Rightarrow> 'e node \<Rightarrow> 'e node"
  and draw_icons_in :: "jstr option \<Rightarrow> 'e node list \<Rightarrow> 'e node list" where
  "draw_icons c (Text s) = Text s"
| "draw_icons c (El n as ks) =
     (case drawing c n of
        Some d \<Rightarrow> if as = [] \<and> ks = [] then d else El n as (draw_icons_in c ks)
      | None \<Rightarrow> El n as (draw_icons_in c ks))"
| "draw_icons_in c [] = []"
| "draw_icons_in c (k # ks) = draw_icons c k # draw_icons_in c ks"

lemma drawing_icon: "drawing c n = Some d \<Longrightarrow> draw_icons c (icon n) = d"
  by (simp add: icon_def)

lemma draw_icons_silent:
  fixes t :: "'e node" and ks :: "'e node list"
  shows "texts (draw_icons c t) = texts t \<and> submit_ready (draw_icons c t) = submit_ready t"
  "texts_of (draw_icons_in c ks) = texts_of ks \<and> submit_ready_in (draw_icons_in c ks) = submit_ready_in ks"
  by (induction c t and c ks rule: draw_icons_draw_icons_in.induct)
     (auto simp: drawing_silent split: option.splits)

lemma draw_icons_fires:
  fixes t :: "'e node" and ks :: "'e node list"
  shows "can_fire (draw_icons c t) e = can_fire t e"
  "fires_in (draw_icons_in c ks) e = fires_in ks e"
  by (induction c t and c ks rule: draw_icons_draw_icons_in.induct)
     (auto simp: drawing_silent draw_icons_silent split: option.splits)

text \<open>Drawing the icons changes nothing that matters: on every screen, with the drawings in place of the
  icon leaves, the texts are the same, the same events can be fired, and a form can be submitted
  exactly when it could.
\<close>
theorem drawn_icons_are_silent:
  "texts (draw_icons c t) = texts t \<and> (can_fire (draw_icons c t) e \<longleftrightarrow> can_fire t e)
   \<and> (submit_ready (draw_icons c t) \<longleftrightarrow> submit_ready t)"
  by (simp add: draw_icons_silent draw_icons_fires)

text \<open>Each name has one drawing.\<close>

lemma icon_names_distinct: "distinct (map fst (icon_table c))"
  by (simp add: icon_table_def)

end
