(* ===== verification/MerkleSeal.thy ===== *)
theory MerkleSeal
  imports Numbers
begin

text \<open>
  \<open>src/components/viz/tokens.ts\<close> and \<open>src/components/viz/MerkleSeal.tsx\<close>: the figure of an
  inclusion proof that is tampered with and sealed again. The model computes the scene of a
  frame, the list of what is drawn, from the time; the calls that paint it are left out. Time
  and coordinates are exact rationals in place of doubles, colours are texts.
\<close>

section \<open>Design tokens\<close>

record palette_tokens =
  vp_fg :: jstr
  vp_muted :: jstr
  vp_border :: jstr
  vp_surface :: jstr
  vp_accent :: jstr
  vp_verified :: jstr
  vp_failed :: jstr

text \<open>\<open>look\<close> is the computed style's property value.\<close>

definition readToken :: "(string \<Rightarrow> jstr) \<Rightarrow> string \<Rightarrow> string \<Rightarrow> jstr" where
  "readToken look name fallback = or_str (Some (trim (look name))) (js fallback)"

definition vizPalette :: "(string \<Rightarrow> jstr) \<Rightarrow> palette_tokens" where
  "vizPalette look =
     \<lparr>vp_fg = readToken look ''--fg'' ''#111111'',
      vp_muted = readToken look ''--muted'' ''#6B6B6B'',
      vp_border = readToken look ''--border'' ''#E8E8E5'',
      vp_surface = readToken look ''--surface'' ''#FFFFFF'',
      vp_accent = readToken look ''--brand-accent'' ''#0D9488'',
      vp_verified = readToken look ''--color-verified'' ''#059669'',
      vp_failed = readToken look ''--color-failed'' ''#DC2626''\<rparr>"

section \<open>Pseudo-hashes\<close>

definition hex_char :: "uint32 \<Rightarrow> code_unit" where
  "hex_char x = js ''0123456789abcdef'' ! unat (and x 15)"

text \<open>One step of the generator, in double arithmetic and back to 32 bits.\<close>

definition lcg :: "uint32 \<Rightarrow> uint32" where
  "lcg x = to_uint32 (round_int (round_int (uint x * 1664525) + 1013904223))"

definition hash_start :: "int \<Rightarrow> uint32" where
  "hash_start seed = to_uint32 (round_int (seed * 2654435761))"

fun hash_digits :: "nat \<Rightarrow> nat \<Rightarrow> uint32 \<Rightarrow> jstr" where
  "hash_digits i 0 x = []"
| "hash_digits i (Suc n) x =
     (let y = lcg x in
      [hex_char (drop_bit (i * 3) y), hex_char (drop_bit (i * 3 + 4) y)] @ hash_digits (i + 1) n y)"

definition shortHash :: "int \<Rightarrow> jstr" where
  "shortHash seed = hash_digits 0 4 (hash_start seed)"

text \<open>The step is exact: no 32-bit value leaves the 53 bits of a double.\<close>

lemma lcg_exact: "lcg x = x * 1664525 + 1013904223"
proof -
  have x: "0 \<le> uint x" "uint x < 2 ^ 32" using uint_lt2p [of x] by simp_all
  then have "round_int (uint x * 1664525) = uint x * 1664525"
    by (intro round_int_small) simp
  moreover have "round_int (uint x * 1664525 + 1013904223) = uint x * 1664525 + 1013904223"
    using x by (intro round_int_small) simp
  ultimately have "lcg x = word_of_int (uint x * 1664525 + 1013904223)"
    by (simp add: lcg_def to_uint32_def)
  then show ?thesis by simp
qed

lemma length_hash_digits: "length (hash_digits i n x) = 2 * n"
  by (induction n arbitrary: i x) (simp_all add: Let_def)

section \<open>Colours\<close>

definition hexToRgb :: "jstr \<Rightarrow> (int option \<times> int option \<times> int option) option" where
  "hexToRgb hex =
     (let m = remove1 35 (trim hex); two = (\<lambda>i. parse_int16 (take 2 (drop i m)));
          twice = (\<lambda>i. parse_int16 [m ! i, m ! i]) in
      if length m = 6 then Some (two 0, two 2, two 4)
      else if length m = 3 then Some (twice 0, twice 1, twice 2)
      else None)"

definition js_round :: "rat \<Rightarrow> int" where
  "js_round x = \<lfloor>x + 1 / 2\<rfloor>"

definition clamp01 :: "rat \<Rightarrow> rat" where
  "clamp01 x = max 0 (min 1 x)"

definition mix_channel :: "rat \<Rightarrow> int option \<Rightarrow> int option \<Rightarrow> int option" where
  "mix_channel k a b = (case (a, b) of
     (Some x, Some y) \<Rightarrow> Some (js_round (of_int x + of_int (y - x) * k)) | _ \<Rightarrow> None)"

definition number_text :: "int option \<Rightarrow> jstr" where
  "number_text v = (case v of None \<Rightarrow> js ''NaN'' | Some i \<Rightarrow> int_text i)"

definition rgb_text :: "int option \<times> int option \<times> int option \<Rightarrow> jstr" where
  "rgb_text c = (case c of (r, g, b) \<Rightarrow> js ''rgb('' @ number_text r @ js '', '' @ number_text g
     @ js '', '' @ number_text b @ js '')'')"

definition mix :: "jstr \<Rightarrow> jstr \<Rightarrow> rat \<Rightarrow> jstr" where
  "mix from_c to_c amt = (case (hexToRgb from_c, hexToRgb to_c) of
     (Some (a0, a1, a2), Some (b0, b1, b2)) \<Rightarrow>
       (let k = clamp01 amt in
        rgb_text (mix_channel k a0 b0, mix_channel k a1 b1, mix_channel k a2 b2))
   | _ \<Rightarrow> from_c)"

lemma js_round_int [simp]: "js_round (of_int i) = i"
  by (simp add: js_round_def floor_unique)

lemma js_round_mono: "x \<le> y \<Longrightarrow> js_round x \<le> js_round y"
  by (simp add: js_round_def floor_mono)

lemma convex_between:
  fixes x y q :: rat
  assumes "0 \<le> q" "q \<le> 1"
  shows "min x y \<le> x + (y - x) * q" and "x + (y - x) * q \<le> max x y"
proof -
  have eq: "x + (y - x) * q = x * (1 - q) + y * q" by (simp add: algebra_simps)
  have one: "z = z * (1 - q) + z * q" for z by (simp add: algebra_simps)
  have "min x y * (1 - q) + min x y * q \<le> x * (1 - q) + y * q"
    using assms by (intro add_mono mult_right_mono) simp_all
  then show "min x y \<le> x + (y - x) * q" by (metis eq one)
  have "x * (1 - q) + y * q \<le> max x y * (1 - q) + max x y * q"
    using assms by (intro add_mono mult_right_mono) simp_all
  then show "x + (y - x) * q \<le> max x y" by (metis eq one)
qed

lemma mix_channel_between:
  assumes "mix_channel (clamp01 k) (Some a) (Some b) = Some c"
  shows "min a b \<le> c \<and> c \<le> max a b"
proof -
  have c: "c = js_round (of_int a + (of_int b - of_int a) * clamp01 k)"
    using assms by (simp add: mix_channel_def)
  have q: "0 \<le> clamp01 k" "clamp01 k \<le> 1" by (simp_all add: clamp01_def)
  have "js_round (of_int (min a b)) \<le> c" "c \<le> js_round (of_int (max a b))"
    unfolding c using convex_between [OF q, of "of_int a" "of_int b"]
    by (simp_all only: js_round_mono of_int_min of_int_max)
  then show ?thesis by (simp only: js_round_int)
qed

lemma mix_channel_ends: "mix_channel 0 (Some a) (Some b) = Some a"
  "mix_channel 1 (Some a) (Some b) = Some b"
  by (simp_all add: mix_channel_def flip: of_int_add)

section \<open>The cycle of tampering\<close>

abbreviation LEAVES :: nat where "LEAVES \<equiv> 4"

definition T_SEAL :: rat where "T_SEAL = 18 / 10"
definition T_STEP :: rat where "T_STEP = 55 / 100"
definition T_HOLD :: rat where "T_HOLD = 19 / 10"
definition T_RESET :: rat where "T_RESET = 9 / 10"
definition CYCLE :: rat where "CYCLE = T_SEAL + T_STEP * 4 + T_HOLD + T_RESET"

lemmas merkle_times = T_SEAL_def T_STEP_def T_HOLD_def T_RESET_def CYCLE_def

text \<open>\<open>breach\<close>: how many levels the mutation has reached; \<open>reset\<close>: how far it is resealed.\<close>

record tamper =
  tp_phase :: rat
  tp_leaf :: int
  tp_parent :: int
  tp_breach :: int
  tp_reset :: rat

definition breach_of :: "rat \<Rightarrow> int \<times> rat" where
  "breach_of afterSeal =
     (if afterSeal \<le> 0 then (0, 0)
      else if afterSeal < T_STEP * 4 then (min 4 (1 + \<lfloor>afterSeal / T_STEP\<rfloor>), 0)
      else if afterSeal < T_STEP * 4 + T_HOLD then (4, 0)
      else (4, min 1 ((afterSeal - T_STEP * 4 - T_HOLD) / T_RESET)))"

definition tamper_state :: "bool \<Rightarrow> rat \<Rightarrow> tamper" where
  "tamper_state reduced t =
     (let phase = (if reduced then 0 else js_fmod t CYCLE);
          leaf = (if reduced then - 1 else js_rem \<lfloor>t / CYCLE\<rfloor> (int LEAVES));
          parent = (if leaf \<ge> 0 then leaf div 2 else - 1);
          (breach, reset) = (if reduced then (0, 0) else breach_of (phase - T_SEAL))
      in \<lparr>tp_phase = phase, tp_leaf = leaf, tp_parent = parent, tp_breach = breach,
          tp_reset = reset\<rparr>)"

definition leaf_tampered :: "tamper \<Rightarrow> nat \<Rightarrow> bool" where
  "leaf_tampered s i \<longleftrightarrow> int i = tp_leaf s \<and> tp_breach s \<ge> 1 \<and> tp_reset s < 1"

definition mid_tampered :: "tamper \<Rightarrow> nat \<Rightarrow> bool" where
  "mid_tampered s i \<longleftrightarrow> int i = tp_parent s \<and> tp_breach s \<ge> 2 \<and> tp_reset s < 1"

definition root_bad :: "tamper \<Rightarrow> bool" where
  "root_bad s \<longleftrightarrow> tp_leaf s \<ge> 0 \<and> tp_breach s \<ge> 3 \<and> tp_reset s < 1"

definition anchor_bad :: "tamper \<Rightarrow> bool" where
  "anchor_bad s \<longleftrightarrow> tp_leaf s \<ge> 0 \<and> tp_breach s \<ge> 4 \<and> tp_reset s < 1"

definition failing :: "tamper \<Rightarrow> bool" where
  "failing s \<longleftrightarrow> tp_leaf s \<ge> 0 \<and> tp_breach s \<ge> 3 \<and> tp_reset s < 1 / 2"

definition failColor :: "palette_tokens \<Rightarrow> tamper \<Rightarrow> int \<Rightarrow> bool \<Rightarrow> jstr" where
  "failColor p s depth onPath =
     (if \<not> onPath \<or> tp_breach s < depth then vp_verified p
      else mix (vp_failed p) (vp_verified p) (tp_reset s))"

section \<open>The scene of a frame\<close>

type_synonym point = "rat \<times> rat"

datatype merkle_item =
    MsEdge point point jstr rat "point option"
  | MsNode point jstr jstr jstr rat
  | MsAnchor point jstr jstr jstr
  | MsText jstr point jstr

abbreviation NODE_W :: rat where "NODE_W \<equiv> 78"
abbreviation NODE_H :: rat where "NODE_H \<equiv> 22"

definition bez :: "rat \<Rightarrow> rat \<Rightarrow> rat \<Rightarrow> rat \<Rightarrow> rat \<Rightarrow> rat" where
  "bez a b c d t = (let mt = 1 - t in
     mt * mt * mt * a + 3 * mt * mt * t * b + 3 * mt * t * t * c + t * t * t * d)"

definition merkle_edge ::
  "palette_tokens \<Rightarrow> tamper \<Rightarrow> point \<Rightarrow> point \<Rightarrow> bool \<Rightarrow> bool \<Rightarrow> merkle_item" where
  "merkle_edge p s a b active live =
     (let x1 = fst a + NODE_W; y1 = snd a + NODE_H / 2; x2 = fst b; y2 = snd b + NODE_H / 2;
          mx = (x1 + x2) / 2;
          frac = max 0 (min 1 (js_fmod (tp_phase s - T_SEAL) T_STEP / T_STEP))
      in MsEdge (x1, y1) (x2, y2)
           (if active then mix (vp_failed p) (vp_border p) (tp_reset s) else vp_border p)
           (if active then 18 / 10 else 12 / 10)
           (if live then Some (bez x1 mx mx x2 frac, bez y1 y1 y2 y2 frac) else None))"

definition merkle_node ::
  "palette_tokens \<Rightarrow> tamper \<Rightarrow> point \<Rightarrow> int \<Rightarrow> bool \<Rightarrow> jstr \<Rightarrow> bool \<Rightarrow> merkle_item" where
  "merkle_node p s pt seed tampered colour emphasize =
     MsNode pt (shortHash (if tampered then js_xor seed 0x9e3779b9 else seed)) colour
       (if tampered then mix (vp_failed p) (vp_muted p) (tp_reset s) else vp_muted p)
       (if emphasize then 16 / 10 else 12 / 10)"

definition leaf_points :: "rat \<Rightarrow> point list" where
  "leaf_points height = map (\<lambda>i. (54,
     26 + (height - 26 * 2) * (of_nat i + 1 / 2) / of_nat LEAVES - NODE_H / 2)) [0..<LEAVES]"

definition mid_points :: "rat \<Rightarrow> rat \<Rightarrow> point list" where
  "mid_points width height = map (\<lambda>i. (width * (42 / 100),
     (snd (leaf_points height ! (i * 2)) + snd (leaf_points height ! (i * 2 + 1))) / 2))
     [0..<LEAVES div 2]"

definition root_point :: "rat \<Rightarrow> rat \<Rightarrow> point" where
  "root_point width height = (width * (66 / 100),
     (snd (mid_points width height ! 0) + snd (mid_points width height ! 1)) / 2)"

definition anchor_point :: "rat \<Rightarrow> rat \<Rightarrow> point" where
  "anchor_point width height = (width - 54 - NODE_W, snd (root_point width height))"

definition merkle_edges :: "palette_tokens \<Rightarrow> bool \<Rightarrow> rat \<Rightarrow> rat \<Rightarrow> tamper \<Rightarrow> merkle_item list" where
  "merkle_edges p reduced width height s =
     (let leaves = leaf_points height; mids = mid_points width height;
          root = root_point width height; anchor = anchor_point width height;
          breach = tp_breach s; onRoot = (tp_leaf s \<ge> 0) in
      map (\<lambda>i. let onPath = (int i = tp_leaf s) in
        merkle_edge p s (leaves ! i) (mids ! (i div 2)) (onPath \<and> breach \<ge> 1)
          (\<not> reduced \<and> onPath \<and> breach = 1)) [0..<LEAVES]
      @ map (\<lambda>i. let onPath = (int i = tp_parent s) in
        merkle_edge p s (mids ! i) root (onPath \<and> breach \<ge> 2)
          (\<not> reduced \<and> onPath \<and> breach = 2)) [0..<LEAVES div 2]
      @ [merkle_edge p s root anchor (onRoot \<and> breach \<ge> 3) (\<not> reduced \<and> onRoot \<and> breach = 3)])"

definition merkle_nodes :: "palette_tokens \<Rightarrow> rat \<Rightarrow> rat \<Rightarrow> tamper \<Rightarrow> merkle_item list" where
  "merkle_nodes p width height s =
     map (\<lambda>i. merkle_node p s (leaf_points height ! i) (11 + int i) (leaf_tampered s i)
        (failColor p s 1 (int i = tp_leaf s)) False) [0..<LEAVES]
     @ map (\<lambda>i. merkle_node p s (mid_points width height ! i) (71 + int i) (mid_tampered s i)
        (failColor p s 2 (int i = tp_parent s)) False) [0..<LEAVES div 2]
     @ [merkle_node p s (root_point width height) 907 (root_bad s)
          (failColor p s 3 (tp_leaf s \<ge> 0)) True]"

definition merkle_anchor :: "palette_tokens \<Rightarrow> rat \<Rightarrow> rat \<Rightarrow> tamper \<Rightarrow> merkle_item" where
  "merkle_anchor p width height s =
     MsAnchor (anchor_point width height) (js (if anchor_bad s then ''mismatch'' else ''anchored''))
       (failColor p s 4 (tp_leaf s \<ge> 0))
       (if anchor_bad s then mix (vp_failed p) (vp_surface p) (86 / 100) else vp_surface p)"

definition merkle_caption :: "tamper \<Rightarrow> jstr" where
  "merkle_caption s =
     (if failing s then js ''root mismatch '' @ [0xB7] @ js '' proof invalid''
      else js ''sealed '' @ [0xB7] @ js '' proof valid'')"

definition merkle_scene :: "palette_tokens \<Rightarrow> bool \<Rightarrow> rat \<Rightarrow> rat \<Rightarrow> rat \<Rightarrow> merkle_item list" where
  "merkle_scene p reduced width height t =
     (let s = tamper_state reduced t in
      merkle_edges p reduced width height s
      @ merkle_nodes p width height s
      @ [merkle_anchor p width height s,
         MsText (js ''content_hash'') (54, 26 - 8) (vp_muted p),
         MsText (js ''merkle_root'') (width * (66 / 100), snd (root_point width height) - 8) (vp_muted p),
         MsText (merkle_caption s) (54, height - 8)
           (if failing s then vp_failed p else vp_verified p)])"

text \<open>
  The animation: the first frame fixes the start; with reduced motion only that frame is drawn,
  and a resize draws again at time 0. A start of 0 counts as none.
\<close>

definition merkle_draw ::
  "palette_tokens \<Rightarrow> bool \<Rightarrow> rat \<Rightarrow> rat \<Rightarrow> rat \<Rightarrow> rat \<Rightarrow> rat \<times> merkle_item list" where
  "merkle_draw p reduced width height ts start =
     (let start' = (if start = 0 then ts else start) in
      (start', merkle_scene p reduced width height ((ts - start') / 1000)))"

text \<open>
  A frame that was requested runs once and requests the next unless motion is reduced; the
  observer's callback clears the canvas and, with reduced motion, draws at time 0.
\<close>

record merkle_seal =
  ms_w :: rat
  ms_h :: rat
  ms_startTs :: rat
  ms_requested :: bool
  ms_scene :: "merkle_item list"

definition merkle_mount :: "rat \<Rightarrow> rat \<Rightarrow> merkle_seal" where
  "merkle_mount w h =
     \<lparr>ms_w = w, ms_h = h, ms_startTs = 0, ms_requested = True, ms_scene = []\<rparr>"

definition merkle_paint :: "palette_tokens \<Rightarrow> bool \<Rightarrow> rat \<Rightarrow> merkle_seal \<Rightarrow> merkle_seal" where
  "merkle_paint p reduced ts s =
     (let (start, scene) = merkle_draw p reduced (ms_w s) (ms_h s) ts (ms_startTs s) in
      s\<lparr>ms_startTs := start, ms_scene := scene, ms_requested := (ms_requested s \<or> \<not> reduced)\<rparr>)"

datatype merkle_event = MsFrame rat | MsResize rat rat

fun merkle_step :: "palette_tokens \<Rightarrow> bool \<Rightarrow> merkle_seal \<Rightarrow> merkle_event \<Rightarrow> merkle_seal" where
  "merkle_step p reduced s (MsFrame ts) =
     (if ms_requested s then merkle_paint p reduced ts (s\<lparr>ms_requested := False\<rparr>) else s)"
| "merkle_step p reduced s (MsResize w h) =
     (let s = s\<lparr>ms_w := w, ms_h := h, ms_scene := []\<rparr> in
      if reduced then merkle_paint p reduced 0 s else s)"

section \<open>What the figure shows\<close>

lemma breach_range: "0 \<le> fst (breach_of a)" "fst (breach_of a) \<le> 4"
  and reset_range: "0 \<le> snd (breach_of a)" "snd (breach_of a) \<le> 1"
  by (auto simp: breach_of_def merkle_times)

lemma reset_early: "fst (breach_of a) < 4 \<Longrightarrow> snd (breach_of a) = 0"
  by (auto simp: breach_of_def split: if_splits)

lemma tamper_leaf_range:
  assumes "0 \<le> t"
  shows "0 \<le> tp_leaf (tamper_state False t)" "tp_leaf (tamper_state False t) < 4"
proof -
  have "0 \<le> \<lfloor>t / CYCLE\<rfloor>" using assms by (simp add: merkle_times)
  then show "0 \<le> tp_leaf (tamper_state False t)" "tp_leaf (tamper_state False t) < 4"
    by (simp_all add: tamper_state_def Let_def js_rem_def split_beta)
qed

lemma tamper_leaf: "0 \<le> t \<Longrightarrow> tp_leaf (tamper_state False t) = \<lfloor>t / CYCLE\<rfloor> mod 4"
  by (simp add: tamper_state_def Let_def js_rem_def split_beta merkle_times)

lemma tamper_parent: "0 \<le> t \<Longrightarrow> tp_parent (tamper_state False t) = tp_leaf (tamper_state False t) div 2"
  using tamper_leaf_range(1) [of t] by (simp add: tamper_state_def Let_def split_beta)

text \<open>
  The tampering climbs one path: what is wrong at a level is wrong because exactly one node
  below it is, down to one leaf.
\<close>

lemma one_of_range: "0 \<le> i \<Longrightarrow> i < int n \<Longrightarrow> filter (\<lambda>j. int j = i) [0..<n] = [nat i]"
  by (induction n) (auto simp: filter_empty_conv)

lemma tampered_path:
  assumes "0 \<le> t" and "s = tamper_state False t" and "root_bad s"
  shows "\<exists>i < LEAVES. filter (leaf_tampered s) [0..<LEAVES] = [i]
    \<and> filter (mid_tampered s) [0..<LEAVES div 2] = [i div 2]"
proof -
  have l: "0 \<le> tp_leaf s" "tp_leaf s < 4" "tp_parent s = tp_leaf s div 2"
    using tamper_leaf_range [OF assms(1)] tamper_parent [OF assms(1)] by (simp_all add: assms(2))
  have b: "tp_breach s \<ge> 3" "tp_reset s < 1" using assms(3) by (simp_all add: root_bad_def)
  have on: "leaf_tampered s = (\<lambda>j. int j = tp_leaf s)" "mid_tampered s = (\<lambda>j. int j = tp_parent s)"
    using b by (auto simp: leaf_tampered_def mid_tampered_def)
  have "filter (leaf_tampered s) [0..<LEAVES] = [nat (tp_leaf s)]"
    unfolding on by (rule one_of_range) (use l in simp_all)
  moreover have "filter (mid_tampered s) [0..<LEAVES div 2] = [nat (tp_parent s)]"
    unfolding on by (rule one_of_range) (use l in simp_all)
  moreover have "nat (tp_parent s) = nat (tp_leaf s) div 2" using l by (simp add: nat_div_distrib)
  moreover have "nat (tp_leaf s) < LEAVES" using l by simp
  ultimately show ?thesis by metis
qed

text \<open>The figure never shows a broken proof without its cause: when the anchor reads "mismatch" or the
  caption reads "proof invalid", the root's hash is shown changed, and below it exactly one leaf and
  exactly that leaf's parent.
\<close>
theorem merkle_failure_has_path:
  assumes "0 \<le> t" and "anchor_bad (tamper_state False t) \<or> failing (tamper_state False t)"
  shows "let s = tamper_state False t in root_bad s
    \<and> (\<exists>i < LEAVES. filter (leaf_tampered s) [0..<LEAVES] = [i]
         \<and> filter (mid_tampered s) [0..<LEAVES div 2] = [i div 2])"
proof -
  have "root_bad (tamper_state False t)"
    using assms(2) by (auto simp: anchor_bad_def failing_def root_bad_def)
  with tampered_path [OF assms(1) refl] show ?thesis by (simp add: Let_def)
qed

theorem merkle_failure_has_path_witness:
  "root_bad (tamper_state False 4)"
proof -
  have "\<lfloor>(4::rat) / CYCLE\<rfloor> = 0" by (simp add: merkle_times floor_eq_iff)
  moreover have "\<lfloor>(10::rat) / 17\<rfloor> = 0" by (simp add: floor_eq_iff)
  ultimately have "anchor_bad (tamper_state False 4)"
    by (simp add: anchor_bad_def tamper_state_def js_fmod_def js_rem_def breach_of_def Let_def
        merkle_times)
  then show ?thesis using merkle_failure_has_path [of 4] by (simp add: Let_def)
qed

text \<open>Every leaf has its turn: one cycle later the figure shows the same moment of the story with
  the next leaf, in the order of the leaves and around.
\<close>
theorem merkle_next_leaf:
  assumes "0 \<le> t"
  shows "let s = tamper_state False t; s' = tamper_state False (t + CYCLE) in
    tp_phase s' = tp_phase s \<and> tp_breach s' = tp_breach s \<and> tp_reset s' = tp_reset s
    \<and> tp_leaf s' = (tp_leaf s + 1) mod 4"
proof -
  have c: "0 < CYCLE" by (simp add: merkle_times)
  have "\<lfloor>(t + CYCLE) / CYCLE\<rfloor> = \<lfloor>t / CYCLE\<rfloor> + 1"
    using c by (simp add: add_divide_distrib)
  then have "tp_leaf (tamper_state False (t + CYCLE)) = (tp_leaf (tamper_state False t) + 1) mod 4"
    using assms c by (simp add: tamper_leaf mod_simps)
  moreover have "js_fmod (t + CYCLE) CYCLE = js_fmod t CYCLE"
    using assms c by (simp add: js_fmod_add)
  ultimately show ?thesis by (simp add: Let_def) (simp add: tamper_state_def Let_def split_beta)
qed

theorem merkle_next_leaf_witness: "tp_leaf (tamper_state False (4 + CYCLE)) = 1"
proof -
  have "\<lfloor>(4::rat) / CYCLE\<rfloor> = 0" by (simp add: merkle_times floor_eq_iff)
  then have "tp_leaf (tamper_state False 4) = 0"
    by (simp add: tamper_state_def js_rem_def Let_def split_beta)
  then show ?thesis using merkle_next_leaf [of 4] by (simp add: Let_def)
qed

text \<open>A changed node shows another text than the unchanged one, for every node of the figure.\<close>

definition merkle_seeds :: "int list" where
  "merkle_seeds = [11, 12, 13, 14, 71, 72, 907]"

lemma hash_digits_4: "hash_digits 0 4 x = hash_digits 0 (Suc (Suc (Suc (Suc 0)))) x"
  by (simp add: eval_nat_numeral)

lemmas shortHash_eval = shortHash_def hash_start_def round_int_def round_double_def bit_len.simps
  to_uint32_def lcg_exact hash_digits_4 hex_char_def js_def Let_def

lemma changed_seeds: "map (\<lambda>seed. js_xor seed 0x9e3779b9) merkle_seeds =
    [- 1640531534, - 1640531531, - 1640531532, - 1640531529, - 1640531458, - 1640531471, - 1640531406]"
  by (simp add: merkle_seeds_def js_xor_def to_uint32_def)

lemma changed_hash_pairs:
  "shortHash (- 1640531534) \<noteq> shortHash 11"
  "shortHash (- 1640531531) \<noteq> shortHash 12"
  "shortHash (- 1640531532) \<noteq> shortHash 13"
  "shortHash (- 1640531529) \<noteq> shortHash 14"
  "shortHash (- 1640531458) \<noteq> shortHash 71"
  "shortHash (- 1640531471) \<noteq> shortHash 72"
  "shortHash (- 1640531406) \<noteq> shortHash 907"
  by (simp_all add: shortHash_eval)

lemma changed_hash_differs:
  "list_all (\<lambda>seed. shortHash (js_xor seed 0x9e3779b9) \<noteq> shortHash seed) merkle_seeds"
  using changed_seeds changed_hash_pairs by (simp add: merkle_seeds_def)

text \<open>With reduced motion the figure is always the sealed one.\<close>

lemma reduced_sealed:
  "\<not> root_bad (tamper_state True t)" "\<not> anchor_bad (tamper_state True t)"
  "\<not> failing (tamper_state True t)"
  "0 < d \<Longrightarrow> failColor p (tamper_state True t) d b = vp_verified p"
  by (auto simp: root_bad_def anchor_bad_def failing_def tamper_state_def failColor_def Let_def)

text \<open>The observer's time 0 does no harm here: a reduced scene does not depend on the time.\<close>

lemma reduced_scene: "merkle_scene p True w h t = merkle_scene p True w h 0"
  by (simp add: merkle_scene_def tamper_state_def)

lemma reduced_canvas:
  "ms_scene (run (merkle_step p True) (merkle_mount w h) es)
     \<in> {[], merkle_scene p True (ms_w (run (merkle_step p True) (merkle_mount w h) es))
            (ms_h (run (merkle_step p True) (merkle_mount w h) es)) 0}"
proof -
  have "ms_scene (merkle_step p True s e) \<in>
      {[], merkle_scene p True (ms_w (merkle_step p True s e)) (ms_h (merkle_step p True s e)) 0}"
    if "ms_scene s \<in> {[], merkle_scene p True (ms_w s) (ms_h s) 0}" for s e
    using that
    by (cases e) (auto simp: merkle_paint_def merkle_draw_def Let_def intro: reduced_scene)
  then have "ms_scene s \<in> {[], merkle_scene p True (ms_w s) (ms_h s) 0} \<Longrightarrow>
      ms_scene (run (merkle_step p True) s es) \<in>
        {[], merkle_scene p True (ms_w (run (merkle_step p True) s es))
               (ms_h (run (merkle_step p True) s es)) 0}" for s
    by (induction es arbitrary: s) (simp_all only: foldl.simps)
  then show ?thesis by (simp add: merkle_mount_def)
qed

end
