(* ===== verification/Ledger.thy ===== *)
theory Ledger
  imports MerkleSeal
begin

text \<open>
  \<open>src/components/viz/EvidenceLedger.tsx\<close>: a chain of numbered blocks that drifts to the left,
  each with its pseudo-hash and its surface. The model computes the blocks of a frame and keeps
  the animation's state: when it started, whether a frame is requested, what the canvas shows.
\<close>

section \<open>A block\<close>

text \<open>Six digits here, one for each step of the generator.\<close>

fun ledger_digits :: "nat \<Rightarrow> nat \<Rightarrow> uint32 \<Rightarrow> jstr" where
  "ledger_digits i 0 x = []"
| "ledger_digits i (Suc n) x =
     (let y = lcg x in hex_char (drop_bit (i * 3) y) # ledger_digits (i + 1) n y)"

definition ledgerHash :: "int \<Rightarrow> jstr" where
  "ledgerHash seed = ledger_digits 0 6 (hash_start seed)"

definition SURFACES :: "jstr list" where
  "SURFACES = [js ''browser'', js ''sandbox'', js ''desktop'']"

text \<open>Drawing an index that is out of range writes the word "undefined".\<close>

definition surface_text :: "int \<Rightarrow> jstr" where
  "surface_text idx = nullish (array_at SURFACES (js_rem idx 3)) (js ''undefined'')"

definition NODE_GAP :: rat where
  "NODE_GAP = 132"

definition drift_speed :: rat where
  "drift_speed = 26"

record evidence_block =
  eb_index :: int
  eb_x :: rat
  eb_y :: rat
  eb_alpha :: rat
  eb_stroke :: jstr
  eb_seal :: "rat \<times> rat"
  eb_pulse :: "rat option"
  eb_hash :: jstr
  eb_sequence :: jstr
  eb_surface :: jstr

text \<open>\<open>x / width\<close> clamped; with an empty canvas the quotient is infinite or not a number.\<close>

definition block_life :: "rat \<Rightarrow> rat \<Rightarrow> rat" where
  "block_life x w = (if w = 0 then (if x > 0 then 1 else 0) else clamp01 (x / w))"

definition ledger_block ::
  "palette_tokens \<Rightarrow> bool \<Rightarrow> rat \<Rightarrow> rat \<Rightarrow> rat \<Rightarrow> rat \<Rightarrow> int \<Rightarrow> nat \<Rightarrow> evidence_block" where
  "ledger_block p reduced t w h offset baseIndex i =
     (let x = of_nat i * NODE_GAP - offset;
          idx = baseIndex + int i;
          nodeT = (if reduced then 1
                   else min 1 ((t * drift_speed - (of_int idx * NODE_GAP - w)) / 60));
          sealing = (\<not> reduced \<and> block_life x w > 82 / 100);
          nx = x - 92 / 2
      in \<lparr>eb_index = idx, eb_x = x, eb_y = h / 2, eb_alpha = 9 / 10 * min 1 (max (25 / 100) nodeT),
          eb_stroke = (if sealing then vp_accent p else vp_border p),
          eb_seal = (nx + 12, h / 2), eb_pulse = (if sealing then Some (t * 4) else None),
          eb_hash = ledgerHash idx, eb_sequence = js ''#'' @ int_text idx,
          eb_surface = surface_text idx\<rparr>)"

text \<open>The ring of a block being sealed, from the angle of its pulse.\<close>

definition pulse_of :: "rat \<Rightarrow> real" where
  "pulse_of angle = (sin (of_rat angle) + 1) / 2"

definition ring_radius :: "rat \<Rightarrow> real" where
  "ring_radius angle = 5 + pulse_of angle * 5"

definition ring_alpha :: "rat \<Rightarrow> real" where
  "ring_alpha angle = 1 / 2 * (1 - pulse_of angle)"

lemma ring_bounds: "5 \<le> ring_radius a \<and> ring_radius a \<le> 10" "0 \<le> ring_alpha a \<and> ring_alpha a \<le> 1 / 2"
proof -
  have half: "- 1 \<le> y \<Longrightarrow> 0 \<le> (y + 1) / 2" "y \<le> 1 \<Longrightarrow> (y + 1) / 2 \<le> 1" for y :: real by simp_all
  have "0 \<le> pulse_of a" "pulse_of a \<le> 1"
    unfolding pulse_of_def by (rule half, rule sin_ge_minus_one, rule half, rule sin_le_one)
  then show "5 \<le> ring_radius a \<and> ring_radius a \<le> 10" "0 \<le> ring_alpha a \<and> ring_alpha a \<le> 1 / 2"
    by (simp_all add: ring_radius_def ring_alpha_def)
qed

section \<open>The animation\<close>

record evidence_ledger =
  el_w :: rat
  el_h :: rat
  el_startTs :: rat
  el_offset :: rat
  el_requested :: bool
  el_blocks :: "evidence_block list"

definition ledger_mount :: "rat \<Rightarrow> rat \<Rightarrow> evidence_ledger" where
  "ledger_mount w h =
     \<lparr>el_w = w, el_h = h, el_startTs = 0, el_offset = 0, el_requested = True, el_blocks = []\<rparr>"

definition block_count :: "rat \<Rightarrow> int" where
  "block_count w = \<lceil>w / NODE_GAP\<rceil> + 2"

definition ledger_draw :: "palette_tokens \<Rightarrow> bool \<Rightarrow> rat \<Rightarrow> evidence_ledger \<Rightarrow> evidence_ledger" where
  "ledger_draw p reduced ts s =
     (let start = (if el_startTs s = 0 then ts else el_startTs s);
          t = (ts - start) / 1000;
          offset = (if reduced then el_offset s else js_fmod (t * drift_speed) NODE_GAP);
          baseIndex = \<lfloor>t * drift_speed / NODE_GAP\<rfloor>
      in s\<lparr>el_startTs := start, el_offset := offset,
           el_blocks := map (ledger_block p reduced t (el_w s) (el_h s) offset baseIndex)
             [0..<nat (block_count (el_w s))],
           el_requested := (el_requested s \<or> \<not> reduced)\<rparr>)"

text \<open>A requested frame runs once; the observer's callback clears the canvas and, with reduced motion,
  draws at time 0.\<close>

datatype ledger_event = ElFrame rat | ElResize rat rat

fun ledger_step :: "palette_tokens \<Rightarrow> bool \<Rightarrow> evidence_ledger \<Rightarrow> ledger_event \<Rightarrow> evidence_ledger" where
  "ledger_step p reduced s (ElFrame ts) =
     (if el_requested s then ledger_draw p reduced ts (s\<lparr>el_requested := False\<rparr>) else s)"
| "ledger_step p reduced s (ElResize w h) =
     (let s = s\<lparr>el_w := w, el_h := h, el_blocks := []\<rparr> in
      if reduced then ledger_draw p reduced 0 s else s)"

section \<open>A block keeps its identity while it drifts\<close>

lemma drift: "0 \<le> d \<Longrightarrow> js_fmod d NODE_GAP = d - NODE_GAP * of_int \<lfloor>d / NODE_GAP\<rfloor>"
  by (simp add: js_fmod_def)

lemma surface_defined: "0 \<le> idx \<Longrightarrow> surface_text idx = SURFACES ! nat (idx mod 3)"
proof -
  assume "0 \<le> idx"
  moreover have "nat (idx mod 3) < 3" by (simp add: nat_less_iff)
  ultimately show ?thesis by (simp add: surface_text_def js_rem_def array_at_def SURFACES_def)
qed

text \<open>The chain drifts as one: in every frame of the animation, block number \<open>n\<close> stands at \<open>n\<close> gaps minus
  the distance drifted, is labelled \<open>n\<close>, and carries the hash and the surface of \<open>n\<close>, so a hash
  stays with its block from frame to frame; the numbers are consecutive and start at the left edge.
\<close>
theorem ledger_blocks_drift:
  assumes "0 \<le> el_startTs s" and "el_startTs s \<le> ts" and "i < nat (block_count (el_w s))"
  shows "let s' = ledger_draw p False ts s; d = (ts - el_startTs s') / 1000 * drift_speed;
       n = \<lfloor>d / NODE_GAP\<rfloor> + int i; b = el_blocks s' ! i in
    eb_index b = n \<and> eb_x b = of_int n * NODE_GAP - d \<and> eb_hash b = ledgerHash n
    \<and> eb_sequence b = js ''#'' @ int_text n \<and> eb_surface b = SURFACES ! nat (n mod 3)"
proof -
  define d where "d = (ts - el_startTs (ledger_draw p False ts s)) / 1000 * drift_speed"
  have start: "el_startTs (ledger_draw p False ts s) = (if el_startTs s = 0 then ts else el_startTs s)"
    by (simp add: ledger_draw_def Let_def)
  have d: "0 \<le> d" using assms(2) by (simp add: d_def start drift_speed_def)
  define n where "n = \<lfloor>d / NODE_GAP\<rfloor> + int i"
  have n: "0 \<le> n" using d by (simp add: n_def NODE_GAP_def)
  have b: "el_blocks (ledger_draw p False ts s) ! i =
      ledger_block p False ((ts - el_startTs (ledger_draw p False ts s)) / 1000) (el_w s) (el_h s)
        (js_fmod d NODE_GAP) \<lfloor>d / NODE_GAP\<rfloor> i"
    using assms(3) by (simp add: ledger_draw_def Let_def d_def)
  have x: "of_nat i * NODE_GAP - js_fmod d NODE_GAP = of_int n * NODE_GAP - d"
    using d by (simp add: drift n_def algebra_simps)
  show ?thesis
    unfolding Let_def d_def [symmetric] n_def [symmetric]
    using n x by (simp add: b ledger_block_def Let_def surface_defined flip: n_def)
qed

definition demo_palette :: palette_tokens where
  "demo_palette = vizPalette (\<lambda>name. [])"

theorem ledger_blocks_drift_witness:
  "eb_surface (el_blocks (ledger_draw demo_palette False 7000 (ledger_mount 400 200)) ! 2) = js ''desktop''"
proof -
  have "\<lceil>100 / 33 :: rat\<rceil> = 4" by (simp add: ceiling_eq_iff)
  then have "2 < nat (block_count 400)" by (simp add: block_count_def NODE_GAP_def)
  then show ?thesis
    using ledger_blocks_drift [of "ledger_mount 400 200" 7000 2 demo_palette]
    by (simp add: Let_def ledger_mount_def ledger_draw_def NODE_GAP_def SURFACES_def)
qed

section \<open>The static chain of reduced motion\<close>

lemma surface_undefined: "idx < 0 \<Longrightarrow> idx mod 3 \<noteq> 0 \<Longrightarrow> surface_text idx = js ''undefined''"
proof -
  assume a: "idx < 0" "idx mod 3 \<noteq> 0"
  then have "(- idx) mod 3 \<noteq> 0" by presburger
  then have "0 < (- idx) mod 3" using pos_mod_sign [of 3 "- idx"] by linarith
  then show ?thesis using a by (simp add: surface_text_def js_rem_def array_at_def)
qed

text \<open>With reduced motion, where the code means to show a static sealed chain, the canvas shows a block of
  negative number with the word "undefined" for its surface: the observer's callback, which the
  browser also runs once after the mount, draws at time 0, before the start that the first frame
  has fixed.
\<close>
theorem reduced_chain_undefined:
  assumes "0 < ts" and "0 \<le> w'"
  shows "let s = run (ledger_step p True) (ledger_mount w h) [ElFrame ts, ElResize w' h'] in
    \<exists>b \<in> set (el_blocks s). eb_index b < 0 \<and> eb_surface b = js ''undefined''"
proof -
  define s where "s = run (ledger_step p True) (ledger_mount w h) [ElFrame ts, ElResize w' h']"
  define base where "base = \<lfloor>(0 - ts) / 1000 * drift_speed / NODE_GAP\<rfloor>"
  have neg: "base < 0" using assms(1) by (simp add: base_def drift_speed_def NODE_GAP_def)
  have blocks: "el_blocks s = map (ledger_block p True ((0 - ts) / 1000) w' h' 0 base)
      [0..<nat (block_count w')]"
    using assms(1) by (simp add: s_def ledger_mount_def ledger_draw_def Let_def base_def)
  have "0 \<le> w' / NODE_GAP" using assms(2) by (simp add: NODE_GAP_def)
  then have "2 \<le> block_count w'" unfolding block_count_def by linarith
  then have two: "2 \<le> nat (block_count w')" by simp
  obtain i :: nat where i: "i < 2" "base + int i < 0" "(base + int i) mod 3 \<noteq> 0"
  proof (cases "base mod 3 = 0")
    case True
    with neg have "base + int 1 < 0" "(base + int 1) mod 3 \<noteq> 0" by (simp_all, presburger+)
    then show ?thesis by (intro that [of 1]) simp_all
  next
    case False
    then show ?thesis using neg by (intro that [of 0]) simp_all
  qed
  let ?b = "ledger_block p True ((0 - ts) / 1000) w' h' 0 base i"
  have "?b \<in> set (el_blocks s)" using i(1) two by (auto simp: blocks)
  moreover have "eb_index ?b < 0" "eb_surface ?b = js ''undefined''"
    using i by (simp_all add: ledger_block_def Let_def surface_undefined)
  ultimately show ?thesis unfolding Let_def s_def [symmetric] by blast
qed

theorem reduced_chain_undefined_witness:
  "\<exists>b \<in> set (el_blocks (run (ledger_step demo_palette True) (ledger_mount 400 200)
      [ElFrame 1500, ElResize 400 200])). eb_surface b = js ''undefined''"
  using reduced_chain_undefined [of 1500 400 demo_palette 400 200 200] by (auto simp: Let_def)

end
