(* ===== verification/Lattice.thy ===== *)
theory Lattice
  imports Numbers
begin

text \<open>
  \<open>src/components/viz/EvidencePipeline.tsx\<close>, the moving lattice behind the hero and on the splash
  screen. A frame computes its scene from the nodes and moves them; coordinates are exact
  rationals in place of doubles. \<open>rnd i\<close> is the \<open>i\<close>-th number \<open>Math.random\<close> returns, and
  \<open>direction u\<close> the pair \<open>Math.cos\<close>, \<open>Math.sin\<close> of the angle \<open>u \<cdot> 2\<pi>\<close>.
\<close>

section \<open>Nodes\<close>

record lattice_node =
  la_x :: rat
  la_y :: rat
  la_vx :: rat
  la_vy :: rat
  la_r :: rat
  la_alpha :: rat

definition node_count :: nat where
  "node_count = 42"

definition linkDist :: rat where
  "linkDist = 160"

definition new_node :: "(rat \<Rightarrow> rat \<times> rat) \<Rightarrow> rat \<Rightarrow> rat \<Rightarrow> (nat \<Rightarrow> rat) \<Rightarrow> lattice_node" where
  "new_node direction w h rnd =
     (let (c, s) = direction (rnd 0); speed = 15 / 100 + rnd 1 * (45 / 100) in
      \<lparr>la_x = rnd 2 * w, la_y = rnd 3 * h, la_vx = c * speed, la_vy = s * speed,
       la_r = 3 / 2 + rnd 4 * (5 / 2), la_alpha = 35 / 100 + rnd 5 * (45 / 100)\<rparr>)"

definition initNodes :: "(rat \<Rightarrow> rat \<times> rat) \<Rightarrow> rat \<Rightarrow> rat \<Rightarrow> (nat \<Rightarrow> rat) \<Rightarrow> lattice_node list" where
  "initNodes direction w h rnd =
     map (\<lambda>i. new_node direction w h (\<lambda>j. rnd (6 * i + j))) [0..<node_count]"

text \<open>The two conditional assignments of a coordinate, in order.\<close>

definition wrap :: "rat \<Rightarrow> rat \<Rightarrow> rat" where
  "wrap extent x =
     (let x' = (if x < - 10 then extent + 10 else x) in if x' > extent + 10 then - 10 else x')"

definition move_node :: "rat \<Rightarrow> rat \<Rightarrow> lattice_node \<Rightarrow> lattice_node" where
  "move_node w h p = p\<lparr>la_x := wrap w (la_x p + la_vx p), la_y := wrap h (la_y p + la_vy p)\<rparr>"

section \<open>A frame\<close>

definition distSq :: "lattice_node \<Rightarrow> lattice_node \<Rightarrow> rat" where
  "distSq a b = (la_x a - la_x b) * (la_x a - la_x b) + (la_y a - la_y b) * (la_y a - la_y b)"

definition lattice_links :: "lattice_node list \<Rightarrow> (nat \<times> nat) list" where
  "lattice_links ns = concat (map (\<lambda>i.
     map (Pair i) (filter (\<lambda>j. distSq (ns ! i) (ns ! j) < linkDist * linkDist) [i + 1..<length ns]))
     [0..<length ns])"

text \<open>The opacity of a link fades with the distance.\<close>

definition link_alpha :: "lattice_node \<Rightarrow> lattice_node \<Rightarrow> real" where
  "link_alpha a b =
     22 / 100 * (1 - sqrt (of_rat (distSq a b)) / of_rat linkDist) * of_rat (la_alpha a + la_alpha b) / 2"

definition grid_axis :: "rat \<Rightarrow> rat \<Rightarrow> rat list" where
  "grid_axis spacing extent = map (\<lambda>i. of_nat i * spacing) [0..<nat \<lceil>extent / spacing\<rceil>]"

record lattice_scene =
  sc_accent :: string
  sc_grid :: "(rat \<times> rat) list"
  sc_lines :: "((rat \<times> rat) \<times> (rat \<times> rat)) list"
  sc_discs :: "((rat \<times> rat) \<times> rat \<times> rat) list"

definition lattice_draw ::
  "bool \<Rightarrow> bool \<Rightarrow> rat \<Rightarrow> rat \<Rightarrow> lattice_node list \<Rightarrow> lattice_scene \<times> lattice_node list" where
  "lattice_draw reduced dark w h ns =
     (let moved = (if reduced then ns else map (move_node w h) ns) in
      (\<lparr>sc_accent = (if dark then ''45, 212, 191'' else ''13, 148, 136''),
        sc_grid = concat (map (\<lambda>x. map (Pair x) (grid_axis 48 h)) (grid_axis 48 w)),
        sc_lines = map (\<lambda>(i, j). ((la_x (ns ! i), la_y (ns ! i)), (la_x (ns ! j), la_y (ns ! j))))
          (lattice_links ns),
        sc_discs = concat (map (\<lambda>p. [((la_x p, la_y p), la_r p, la_alpha p),
          ((la_x p, la_y p), la_r p + 5, la_alpha p * (35 / 100))]) moved)\<rparr>,
       moved))"

section \<open>The animation\<close>

record lattice =
  lt_w :: rat
  lt_h :: rat
  lt_dark :: bool
  lt_nodes :: "lattice_node list"
  lt_scene :: "lattice_scene option"

text \<open>A resize clears the canvas; the loop runs on every frame, with reduced motion too.\<close>

datatype lattice_event = LtFrame | LtResize rat rat | LtTheme bool

definition lattice_mount ::
  "(rat \<Rightarrow> rat \<times> rat) \<Rightarrow> (nat \<Rightarrow> rat) \<Rightarrow> rat \<Rightarrow> rat \<Rightarrow> bool \<Rightarrow> lattice" where
  "lattice_mount direction rnd w h dark =
     \<lparr>lt_w = w, lt_h = h, lt_dark = dark, lt_nodes = initNodes direction w h rnd, lt_scene = None\<rparr>"

fun lattice_step :: "bool \<Rightarrow> lattice \<Rightarrow> lattice_event \<Rightarrow> lattice" where
  "lattice_step reduced s LtFrame =
     (let (scene, ns) = lattice_draw reduced (lt_dark s) (lt_w s) (lt_h s) (lt_nodes s) in
      s\<lparr>lt_scene := Some scene, lt_nodes := ns\<rparr>)"
| "lattice_step reduced s (LtResize w h) = s\<lparr>lt_w := w, lt_h := h, lt_scene := None\<rparr>"
| "lattice_step reduced s (LtTheme dark) = s\<lparr>lt_dark := dark\<rparr>"

section \<open>What is linked\<close>

lemma lattice_links_iff: "(i, j) \<in> set (lattice_links ns) \<longleftrightarrow>
    i < j \<and> j < length ns \<and> distSq (ns ! i) (ns ! j) < linkDist * linkDist"
  by (auto simp: lattice_links_def image_iff)

lemma distinct_pairs:
  "distinct is \<Longrightarrow> (\<And>i. distinct (f i)) \<Longrightarrow> distinct (concat (map (\<lambda>i. map (Pair i) (f i)) is))"
  by (induction "is") (auto simp: distinct_map inj_on_def)

lemma distinct_lattice_links: "distinct (lattice_links ns)"
  unfolding lattice_links_def by (intro distinct_pairs) simp_all

lemma distSq_sym: "distSq a b = distSq b a"
  by (simp add: distSq_def algebra_simps)

lemma distSq_nonneg: "0 \<le> distSq a b"
  by (simp add: distSq_def)

text \<open>A link that is drawn is visible, and never stronger than the nodes it joins.\<close>

lemma link_alpha_bounds:
  assumes "distSq a b < linkDist * linkDist" and "0 < la_alpha a" "0 < la_alpha b"
    "la_alpha a \<le> 8 / 10" "la_alpha b \<le> 8 / 10"
  shows "0 < link_alpha a b" "link_alpha a b \<le> 22 / 100 * 8 / 10"
proof -
  define q where "q = sqrt (of_rat (distSq a b)) / 160"
  define m where "m = (of_rat (la_alpha a + la_alpha b) :: real) / 2"
  have "of_rat (distSq a b) < (of_rat (160 * 160) :: real)"
    using assms(1) by (simp only: linkDist_def of_rat_less)
  then have "sqrt (of_rat (distSq a b)) < sqrt (160 * 160)"
    by (simp only: real_sqrt_less_iff of_rat_mult of_rat_numeral_eq)
  then have q: "0 \<le> q" "q < 1" by (simp_all add: q_def distSq_nonneg)
  have "la_alpha a + la_alpha b \<le> 16 / 10" "0 < la_alpha a + la_alpha b" using assms(2-) by linarith+
  then have "(of_rat (la_alpha a + la_alpha b) :: real) \<le> of_rat (16 / 10)"
    "(0 :: real) < of_rat (la_alpha a + la_alpha b)" by (simp_all only: of_rat_less_eq zero_less_of_rat_iff)
  then have m: "0 < m" "m \<le> 8 / 10" by (simp_all add: m_def of_rat_divide)
  have eq: "link_alpha a b = 22 / 100 * ((1 - q) * m)"
    by (simp add: link_alpha_def linkDist_def q_def m_def)
  have "(1 - q) * m \<le> 1 * (8 / 10)" using q m by (intro mult_mono) simp_all
  then show "0 < link_alpha a b" "link_alpha a b \<le> 22 / 100 * 8 / 10"
    using q m by (simp_all add: eq mult.commute)
qed

section \<open>The nodes stay on the canvas\<close>

definition in_box :: "rat \<Rightarrow> rat \<Rightarrow> lattice_node \<Rightarrow> bool" where
  "in_box w h p \<longleftrightarrow> - 10 \<le> la_x p \<and> la_x p \<le> w + 10 \<and> - 10 \<le> la_y p \<and> la_y p \<le> h + 10"

definition motion :: "lattice_node \<Rightarrow> rat \<times> rat \<times> rat \<times> rat" where
  "motion p = (la_vx p, la_vy p, la_r p, la_alpha p)"

lemma wrap_range: "0 \<le> e \<Longrightarrow> - 10 \<le> wrap e x \<and> wrap e x \<le> e + 10"
  by (auto simp: wrap_def Let_def)

lemma move_in_box: "0 \<le> w \<Longrightarrow> 0 \<le> h \<Longrightarrow> in_box w h (move_node w h p)"
  by (simp add: in_box_def move_node_def wrap_range)

lemma motion_move [simp]: "motion (move_node w h p) = motion p"
  by (simp add: motion_def move_node_def)

lemma motion_step: "map motion (lt_nodes (lattice_step reduced s e)) = map motion (lt_nodes s)"
  by (cases e) (auto simp: lattice_draw_def Let_def)

lemma motion_run: "map motion (lt_nodes (run (lattice_step reduced) s es)) = map motion (lt_nodes s)"
  by (induction es arbitrary: s) (simp_all add: motion_step)

text \<open>Two nodes are joined exactly when they are closer than 160 pixels, and by one line.\<close>

lemma frame_lines:
  "set (sc_lines (fst (lattice_draw reduced dark w h ns))) =
     (\<lambda>(i, j). ((la_x (ns ! i), la_y (ns ! i)), (la_x (ns ! j), la_y (ns ! j)))) `
       {(i, j). i < j \<and> j < length ns \<and> distSq (ns ! i) (ns ! j) < linkDist * linkDist}"
  "length (sc_lines (fst (lattice_draw reduced dark w h ns))) =
     card {(i, j). i < j \<and> j < length ns \<and> distSq (ns ! i) (ns ! j) < linkDist * linkDist}"
proof -
  have links: "set (lattice_links ns) =
      {(i, j). i < j \<and> j < length ns \<and> distSq (ns ! i) (ns ! j) < linkDist * linkDist}"
    by (auto simp: lattice_links_iff)
  show "set (sc_lines (fst (lattice_draw reduced dark w h ns))) =
     (\<lambda>(i, j). ((la_x (ns ! i), la_y (ns ! i)), (la_x (ns ! j), la_y (ns ! j)))) `
       {(i, j). i < j \<and> j < length ns \<and> distSq (ns ! i) (ns ! j) < linkDist * linkDist}"
    by (simp add: lattice_draw_def Let_def flip: links)
  show "length (sc_lines (fst (lattice_draw reduced dark w h ns))) =
     card {(i, j). i < j \<and> j < length ns \<and> distSq (ns ! i) (ns ! j) < linkDist * linkDist}"
    unfolding links [symmetric] distinct_card [OF distinct_lattice_links]
    by (simp add: lattice_draw_def Let_def)
qed

text \<open>With reduced motion the nodes keep still and every frame shows the same scene.\<close>

lemma reduced_step: "lt_nodes (lattice_step True s e) = lt_nodes s"
  by (cases e) (auto simp: lattice_draw_def Let_def)

lemma reduced_still: "lt_nodes (run (lattice_step True) s es) = lt_nodes s"
  by (induction es arbitrary: s) (simp_all add: reduced_step)

section \<open>A whole run\<close>

text \<open>C31. The lattice behind the hero never loses a node: after any sequence of frames, resizes and theme
  changes, with or without reduced motion, there are 42 nodes with the velocities, sizes and
  opacities they started with. When the motion is not reduced, after every frame each of them lies on the
  canvas of that moment or at most ten pixels outside, wherever a resize had left it; when it is
  reduced, the nodes are where they were at the mount, also after a resize that leaves them outside.
\<close>
theorem lattice_stays:
  assumes "0 \<le> lt_w s" and "0 \<le> lt_h s"
    and "s = run (lattice_step reduced) (lattice_mount direction rnd w h dark) es"
  shows "let s' = lattice_step reduced s LtFrame in
    length (lt_nodes s') = 42
    \<and> map motion (lt_nodes s') = map motion (initNodes direction w h rnd)
    \<and> (if reduced then lt_nodes s' = initNodes direction w h rnd
       else list_all (in_box (lt_w s) (lt_h s)) (lt_nodes s'))"
proof -
  let ?s' = "lattice_step reduced s LtFrame"
  have m: "map motion (lt_nodes ?s') = map motion (initNodes direction w h rnd)"
    using motion_run [of reduced "lattice_mount direction rnd w h dark" es]
    by (simp only: motion_step assms(3)) (simp add: lattice_mount_def)
  have n: "length (lt_nodes ?s') = length (initNodes direction w h rnd)"
    using m by (metis length_map)
  have "list_all (in_box (lt_w s) (lt_h s)) (lt_nodes ?s')" if "\<not> reduced"
    using that assms(1,2) by (simp add: lattice_draw_def Let_def list_all_iff move_in_box)
  moreover have "lt_nodes ?s' = initNodes direction w h rnd" if reduced
    using that reduced_still [of "lattice_mount direction rnd w h dark" es]
    by (simp add: assms(3) lattice_draw_def Let_def) (simp add: lattice_mount_def)
  ultimately show ?thesis using m n by (simp add: Let_def initNodes_def node_count_def)
qed

theorem lattice_stays_witness:
  "let s = \<lambda>reduced. lattice_step reduced
       (lattice_step reduced (lattice_mount (\<lambda>u. (1, 0)) (\<lambda>i. 1 / 2) 300 200 True) (LtResize 100 50)) LtFrame in
   list_all (in_box 100 50) (lt_nodes (s False)) \<and> length (lt_nodes (s True)) = 42"
proof -
  define s where "s r = lattice_step r (lattice_mount (\<lambda>u. (1, 0)) (\<lambda>i. 1 / 2) 300 200 True) (LtResize 100 50)" for r
  have s: "s r = run (lattice_step r) (lattice_mount (\<lambda>u. (1, 0)) (\<lambda>i. 1 / 2) 300 200 True) [LtResize 100 50]"
    "lt_w (s r) = 100" "lt_h (s r) = 50" for r
    by (simp_all add: s_def)
  have "0 \<le> lt_w (s r)" "0 \<le> lt_h (s r)" for r by (simp_all only: s(2,3))
  note at = lattice_stays [OF this s(1), unfolded Let_def]
  have "list_all (in_box 100 50) (lt_nodes (lattice_step False (s False) LtFrame))"
    using at [of False] by (simp only: s(2,3) if_False)
  moreover have "length (lt_nodes (lattice_step True (s True) LtFrame)) = 42"
    using at [of True, unfolded if_True] by (rule conjunct1)
  ultimately show ?thesis unfolding Let_def s_def by (rule conjI)
qed

end
