(* ===== verification/SealStream.thy ===== *)
theory SealStream
  imports Lattice
begin

text \<open>
  \<open>src/components/viz/SealingStream.tsx\<close>: actions fall towards a line, are sealed when they cross
  it, and join a ledger of at most four blocks when they reach the bottom. Time is in
  milliseconds; time and coordinates are exact rationals in place of doubles. \<open>rnd i\<close> is the
  \<open>i\<close>-th number \<open>Math.random\<close> returns, at least 0 and below 1.
\<close>

section \<open>Particles and blocks\<close>

record particle =
  pa_x :: rat
  pa_y :: rat
  pa_vy :: rat
  pa_label :: jstr
  pa_sealed :: bool
  pa_sealFlash :: rat
  pa_life :: rat

record hash_block =
  hb_y :: rat
  hb_hash :: jstr
  hb_age :: rat

definition ACTIONS :: "jstr list" where
  "ACTIONS = map js [''approve.payout'', ''read.claim'', ''submit.report'', ''update.policy'',
     ''sign.contract'', ''verify.identity'']"

definition undefined_text :: jstr where
  "undefined_text = js ''undefined''"

definition fakeHash :: "(nat \<Rightarrow> rat) \<Rightarrow> jstr" where
  "fakeHash rnd = concat (map (\<lambda>i. case array_at (js ''0123456789abcdef'') \<lfloor>rnd i * 16\<rfloor> of
     Some c \<Rightarrow> [c] | None \<Rightarrow> undefined_text) [0..<6])"

definition spawn :: "(nat \<Rightarrow> rat) \<Rightarrow> rat \<Rightarrow> particle" where
  "spawn rnd w =
     \<lparr>pa_x = 30 + rnd 0 * (w - 60), pa_y = 0, pa_vy = 4 / 10 + rnd 1 * (3 / 10),
      pa_label = nullish (array_at ACTIONS \<lfloor>rnd 2 * of_nat (length ACTIONS)\<rfloor>) undefined_text,
      pa_sealed = False, pa_sealFlash = 0, pa_life = 1\<rparr>"

section \<open>A tick\<close>

abbreviation sealY :: "rat \<Rightarrow> rat" where
  "sealY h \<equiv> h * (45 / 100)"

definition move_particle :: "rat \<Rightarrow> rat \<Rightarrow> particle \<Rightarrow> particle" where
  "move_particle h dt p =
     (let p = p\<lparr>pa_y := pa_y p + pa_vy p * (dt / 16)\<rparr>;
          p = (if \<not> pa_sealed p \<and> pa_y p \<ge> sealY h then p\<lparr>pa_sealed := True, pa_sealFlash := 1\<rparr> else p)
      in if pa_sealFlash p > 0 then p\<lparr>pa_sealFlash := max 0 (pa_sealFlash p - dt / 400)\<rparr> else p)"

definition add_block :: "(nat \<Rightarrow> rat) \<Rightarrow> hash_block list \<Rightarrow> hash_block list" where
  "add_block rnd bs =
     (let bs = \<lparr>hb_y = 0, hb_hash = fakeHash rnd, hb_age = 0\<rparr> # bs in
      if length bs > 4 then butlast bs else bs)"

text \<open>The loop runs from the last particle to the first; \<open>n\<close> counts the random numbers used.\<close>

fun update_particles ::
  "(nat \<Rightarrow> rat) \<Rightarrow> rat \<Rightarrow> rat \<Rightarrow> particle list \<Rightarrow> hash_block list \<times> nat
     \<Rightarrow> particle list \<times> hash_block list \<times> nat" where
  "update_particles rnd h dt [] (bs, n) = ([], bs, n)"
| "update_particles rnd h dt (p # ps) (bs, n) =
     (let (ps', bs', n') = update_particles rnd h dt ps (bs, n); p' = move_particle h dt p in
      if pa_y p' > h - 20 then (ps', add_block (\<lambda>i. rnd (n' + i)) bs', n' + 6)
      else (p' # ps', bs', n'))"

definition age_blocks :: "rat \<Rightarrow> hash_block list \<Rightarrow> hash_block list" where
  "age_blocks dt bs =
     filter (\<lambda>b. \<not> hb_age b > 6000) (map (\<lambda>b. b\<lparr>hb_age := hb_age b + dt\<rparr>) bs)"

record seal_stream =
  sl_w :: rat
  sl_h :: rat
  sl_dark :: bool
  sl_particles :: "particle list"
  sl_blocks :: "hash_block list"
  sl_spawnTimer :: rat
  sl_lastTime :: rat
  sl_draws :: nat

definition stream_mount :: "rat \<Rightarrow> rat \<Rightarrow> bool \<Rightarrow> rat \<Rightarrow> seal_stream" where
  "stream_mount w h dark now =
     \<lparr>sl_w = w, sl_h = h, sl_dark = dark, sl_particles = [], sl_blocks = [], sl_spawnTimer = 0,
      sl_lastTime = now, sl_draws = 0\<rparr>"

definition spawn_due :: "(nat \<Rightarrow> rat) \<Rightarrow> bool \<Rightarrow> rat \<Rightarrow> seal_stream \<Rightarrow> seal_stream" where
  "spawn_due rnd reduced dt s =
     (if reduced then s
      else let s = s\<lparr>sl_spawnTimer := sl_spawnTimer s + dt\<rparr> in
        if sl_spawnTimer s > 1200 \<and> length (sl_particles s) < 4
        then s\<lparr>sl_spawnTimer := 0, sl_draws := sl_draws s + 3,
               sl_particles := sl_particles s @ [spawn (\<lambda>i. rnd (sl_draws s + i)) (sl_w s)]\<rparr>
        else s)"

definition stream_tick :: "(nat \<Rightarrow> rat) \<Rightarrow> bool \<Rightarrow> rat \<Rightarrow> seal_stream \<Rightarrow> seal_stream" where
  "stream_tick rnd reduced now s =
     (let dt = min (now - sl_lastTime s) 50;
          s = spawn_due rnd reduced dt (s\<lparr>sl_lastTime := now\<rparr>);
          (ps, bs, n) = update_particles rnd (sl_h s) dt (sl_particles s) (sl_blocks s, sl_draws s)
      in s\<lparr>sl_particles := ps, sl_blocks := age_blocks dt bs, sl_draws := n\<rparr>)"

datatype stream_event = SlTick rat | SlResize rat rat | SlTheme bool

fun stream_step :: "(nat \<Rightarrow> rat) \<Rightarrow> bool \<Rightarrow> seal_stream \<Rightarrow> stream_event \<Rightarrow> seal_stream" where
  "stream_step rnd reduced s (SlTick now) = stream_tick rnd reduced now s"
| "stream_step rnd reduced s (SlResize w h) = s\<lparr>sl_w := w, sl_h := h\<rparr>"
| "stream_step rnd reduced s (SlTheme dark) = s\<lparr>sl_dark := dark\<rparr>"

section \<open>What is drawn\<close>

definition stream_accent :: "bool \<Rightarrow> string" where
  "stream_accent dark = (if dark then ''45, 212, 191'' else ''13, 148, 136'')"

definition stream_idle :: "bool \<Rightarrow> string" where
  "stream_idle dark = (if dark then ''148, 163, 184'' else ''100, 116, 139'')"

record stream_background =
  bg_centre :: "rat \<times> rat"
  bg_radius :: rat
  bg_stops :: "string list"
  bg_dots :: "(rat \<times> rat) list"

definition drawBackground :: "bool \<Rightarrow> rat \<Rightarrow> rat \<Rightarrow> stream_background" where
  "drawBackground dark w h =
     \<lparr>bg_centre = (w / 2, h * (4 / 10)), bg_radius = w * (6 / 10),
      bg_stops = (if dark then [''rgba(10, 20, 19, 0.4)'', ''rgba(7, 11, 10, 0)'']
        else [''rgba(240, 253, 250, 0.4)'', ''rgba(245, 245, 243, 0)'']),
      bg_dots = concat (map (\<lambda>x. map (Pair x) (grid_axis 28 h)) (grid_axis 28 w))\<rparr>"

text \<open>The line's ends, its label and where the label stands.\<close>

definition drawSealLine :: "rat \<Rightarrow> rat \<Rightarrow> (rat \<times> rat) \<times> (rat \<times> rat) \<times> jstr \<times> (rat \<times> rat)" where
  "drawSealLine w h = ((0, sealY h), (w, sealY h), [0x25C7] @ js '' SEAL'', (12, sealY h - 8))"

record drawn_particle =
  dp_at :: "rat \<times> rat"
  dp_flash :: "((rat \<times> rat) \<times> rat) option"
  dp_trail :: "(rat \<times> rat) \<times> (rat \<times> rat)"
  dp_color :: string
  dp_radius :: rat
  dp_glow :: bool
  dp_label :: "jstr \<times> (rat \<times> rat)"

definition drawParticle :: "bool \<Rightarrow> rat \<Rightarrow> particle \<Rightarrow> drawn_particle" where
  "drawParticle dark h p =
     \<lparr>dp_at = (pa_x p, pa_y p),
      dp_flash = (if pa_sealFlash p > 0 then Some ((pa_x p, sealY h), pa_sealFlash p * (4 / 10)) else None),
      dp_trail = ((pa_x p, pa_y p - 25), (pa_x p, pa_y p)),
      dp_color = (if pa_sealed p then stream_accent dark else stream_idle dark),
      dp_radius = (if pa_sealed p then 3 else 2), dp_glow = pa_sealed p,
      dp_label = (pa_label p, (pa_x p, pa_y p - 10))\<rparr>"

record drawn_block =
  db_y :: rat
  db_opacity :: rat
  db_text :: jstr
  db_link :: bool

definition drawBlocks :: "rat \<Rightarrow> hash_block list \<Rightarrow> drawn_block list" where
  "drawBlocks h bs = concat (map (\<lambda>i.
     let b = bs ! i; opacity = max 0 (1 - hb_age b / 6000) in
     if opacity \<le> 0 then []
     else [\<lparr>db_y = sealY h + 70 + of_nat i * 26, db_opacity = opacity,
            db_text = js ''0x'' @ hb_hash b @ [0x2026], db_link = (i < length bs - 1)\<rparr>])
     [0..<length bs])"

section \<open>Bounds\<close>

definition particle_ok :: "particle \<Rightarrow> bool" where
  "particle_ok p \<longleftrightarrow> 0 \<le> pa_sealFlash p \<and> pa_sealFlash p \<le> 1 \<and> (pa_sealFlash p > 0 \<longrightarrow> pa_sealed p)
     \<and> 0 \<le> pa_y p \<and> 0 < pa_vy p"

definition block_ok :: "hash_block \<Rightarrow> bool" where
  "block_ok b \<longleftrightarrow> 0 \<le> hb_age b \<and> hb_age b \<le> 6000 \<and> length (hb_hash b) = 6
     \<and> set (hb_hash b) \<subseteq> set (js ''0123456789abcdef'')"

definition stream_inv :: "seal_stream \<Rightarrow> bool" where
  "stream_inv s \<longleftrightarrow> length (sl_particles s) \<le> 4 \<and> length (sl_blocks s) \<le> 4
     \<and> list_all particle_ok (sl_particles s) \<and> list_all block_ok (sl_blocks s)
     \<and> 0 \<le> sl_spawnTimer s"

text \<open>Documented of \<open>Math.random\<close>: its values are at least 0 and below 1.\<close>

definition random_unit :: "(nat \<Rightarrow> rat) \<Rightarrow> bool" where
  "random_unit rnd \<longleftrightarrow> (\<forall>i. 0 \<le> rnd i \<and> rnd i < 1)"

lemma random_index:
  assumes "random_unit rnd" and "0 < n"
  shows "0 \<le> \<lfloor>rnd i * of_nat n\<rfloor>" "nat \<lfloor>rnd i * of_nat n\<rfloor> < n"
proof -
  have r: "0 \<le> rnd i" "rnd i < 1" using assms(1) by (simp_all add: random_unit_def)
  then show a: "0 \<le> \<lfloor>rnd i * of_nat n\<rfloor>" by simp
  have "rnd i * of_nat n < 1 * of_nat n" using r assms(2) by (intro mult_strict_right_mono) simp_all
  then have "rnd i * of_nat n < of_int (int n)" by simp
  then have "\<lfloor>rnd i * of_nat n\<rfloor> < int n" by (simp only: floor_less_iff)
  with a show "nat \<lfloor>rnd i * of_nat n\<rfloor> < n" by linarith
qed

lemma random_unit_shift: "random_unit rnd \<Longrightarrow> random_unit (\<lambda>i. rnd (n + i))"
  by (simp add: random_unit_def)

lemma fakeHash_hex:
  assumes "random_unit rnd"
  shows "length (fakeHash rnd) = 6" "set (fakeHash rnd) \<subseteq> set (js ''0123456789abcdef'')"
proof -
  have "\<exists>c \<in> set (js ''0123456789abcdef''). array_at (js ''0123456789abcdef'') \<lfloor>rnd i * 16\<rfloor> = Some c" for i
    using random_index [OF assms, of 16 i] by (auto simp: array_at_def)
  then obtain f where f: "\<And>i. f i \<in> set (js ''0123456789abcdef'')"
    "\<And>i. array_at (js ''0123456789abcdef'') \<lfloor>rnd i * 16\<rfloor> = Some (f i)" by metis
  have "fakeHash rnd = map f [0..<6]" by (simp add: fakeHash_def f upt_rec)
  then show "length (fakeHash rnd) = 6" "set (fakeHash rnd) \<subseteq> set (js ''0123456789abcdef'')"
    using f(1) by auto
qed

lemma spawn_ok: "random_unit rnd \<Longrightarrow> particle_ok (spawn rnd w)"
  by (simp add: particle_ok_def spawn_def random_unit_def add_pos_nonneg)

lemma move_particle_ok: "particle_ok p \<Longrightarrow> 0 \<le> dt \<Longrightarrow> particle_ok (move_particle h dt p)"
  by (auto simp: particle_ok_def move_particle_def Let_def)

lemma add_block_ok:
  assumes "random_unit rnd" and "list_all block_ok bs" and "length bs \<le> 4"
  shows "list_all block_ok (add_block rnd bs)" "length (add_block rnd bs) \<le> 4"
  using assms fakeHash_hex [OF assms(1)]
  by (auto simp: add_block_def Let_def list_all_iff block_ok_def dest: in_set_butlastD split: if_splits)

lemma update_particles_ok:
  assumes "random_unit rnd" and "0 \<le> dt" and "list_all particle_ok ps"
    and "list_all block_ok bs" and "length bs \<le> 4"
    and "update_particles rnd h dt ps (bs, n) = (ps', bs', n')"
  shows "list_all particle_ok ps' \<and> length ps' \<le> length ps \<and> list_all block_ok bs' \<and> length bs' \<le> 4"
  using assms(3-)
proof (induction ps arbitrary: ps' bs' n')
  case Nil
  then show ?case by simp
next
  case (Cons p ps)
  obtain qs cs m where u: "update_particles rnd h dt ps (bs, n) = (qs, cs, m)" by (metis prod_cases3)
  then have "list_all particle_ok qs \<and> length qs \<le> length ps \<and> list_all block_ok cs \<and> length cs \<le> 4"
    using Cons by auto
  then show ?case
    using Cons.prems u assms(2) add_block_ok [OF random_unit_shift [OF assms(1)], of cs m]
    by (auto simp: Let_def move_particle_ok split: if_splits)
qed

lemma age_blocks_ok: "list_all block_ok bs \<Longrightarrow> 0 \<le> dt \<Longrightarrow> list_all block_ok (age_blocks dt bs)"
  by (auto simp: age_blocks_def list_all_iff block_ok_def subset_eq)

lemma length_age_blocks: "length (age_blocks dt bs) \<le> length bs"
  using length_filter_le by (fastforce simp: age_blocks_def)

lemma spawn_due_inv: "random_unit rnd \<Longrightarrow> 0 \<le> dt \<Longrightarrow> stream_inv s \<Longrightarrow> stream_inv (spawn_due rnd reduced dt s)"
  by (auto simp: stream_inv_def spawn_due_def Let_def spawn_ok random_unit_shift)

lemma stream_tick_inv:
  assumes "random_unit rnd" and "stream_inv s" and "sl_lastTime s \<le> now"
  shows "stream_inv (stream_tick rnd reduced now s)"
proof -
  define dt where "dt = min (now - sl_lastTime s) 50"
  have dt: "0 \<le> dt" using assms(3) by (simp add: dt_def)
  define t where "t = spawn_due rnd reduced dt (s\<lparr>sl_lastTime := now\<rparr>)"
  have t: "stream_inv t"
    unfolding t_def using assms(1,2) dt by (intro spawn_due_inv) (simp_all add: stream_inv_def)
  obtain ps bs n where u: "update_particles rnd (sl_h t) dt (sl_particles t) (sl_blocks t, sl_draws t) = (ps, bs, n)"
    by (metis prod_cases3)
  have "list_all particle_ok ps \<and> length ps \<le> length (sl_particles t) \<and> list_all block_ok bs \<and> length bs \<le> 4"
    using t by (intro update_particles_ok [OF assms(1) dt _ _ _ u]) (simp_all add: stream_inv_def)
  moreover have "stream_tick rnd reduced now s = t\<lparr>sl_particles := ps, sl_blocks := age_blocks dt bs, sl_draws := n\<rparr>"
    by (simp add: stream_tick_def Let_def u flip: dt_def t_def)
  ultimately show ?thesis
    using t dt length_age_blocks [of dt bs] by (auto simp: stream_inv_def age_blocks_ok)
qed

text \<open>The times of the frames never go back.\<close>

fun times_ordered :: "rat \<Rightarrow> stream_event list \<Rightarrow> bool" where
  "times_ordered t [] = True"
| "times_ordered t (SlTick now # es) = (t \<le> now \<and> times_ordered now es)"
| "times_ordered t (_ # es) = times_ordered t es"

lemma lastTime_tick [simp]: "sl_lastTime (stream_tick rnd reduced now s) = now"
  by (simp add: stream_tick_def spawn_due_def Let_def split: prod.splits)

lemma stream_run_inv:
  "random_unit rnd \<Longrightarrow> stream_inv s \<Longrightarrow> times_ordered (sl_lastTime s) es \<Longrightarrow>
     stream_inv (run (stream_step rnd reduced) s es)"
proof (induction es arbitrary: s)
  case (Cons e es)
  then show ?case by (cases e) (auto simp: stream_tick_inv, simp_all add: stream_inv_def)
qed simp

text \<open>C30. The sealing animation stays within bounds for ever: whatever the frame times, resizes and random
  numbers, at most four actions fall and at most four blocks are kept, none older than six
  seconds, each with a six-digit hexadecimal hash; a flash has an opacity between 0 and 1 and
  belongs to a sealed action.
\<close>
theorem stream_within_bounds:
  assumes "random_unit rnd" and "times_ordered now es"
  shows "stream_inv (run (stream_step rnd reduced) (stream_mount w h dark now) es)"
  using assms by (intro stream_run_inv) (simp_all add: stream_inv_def stream_mount_def)

theorem stream_within_bounds_witness:
  "stream_inv (run (stream_step (\<lambda>i. 1 / 2) False) (stream_mount 300 200 True 0) [SlTick 16, SlResize 200 100, SlTick 32])"
  by (rule stream_within_bounds) (simp_all add: random_unit_def)

section \<open>Nothing joins the ledger unsealed\<close>

text \<open>The particles of a tick that reach the bottom.\<close>

definition landed :: "rat \<Rightarrow> rat \<Rightarrow> particle list \<Rightarrow> particle list" where
  "landed h dt ps = filter (\<lambda>p. pa_y p > h - 20) (map (move_particle h dt) ps)"

lemma pa_y_move [simp]: "pa_y (move_particle h dt p) = pa_y p + pa_vy p * (dt / 16)"
  by (simp add: move_particle_def Let_def)

lemma moved_sealed: "sealY h \<le> pa_y (move_particle h dt p) \<Longrightarrow> pa_sealed (move_particle h dt p)"
proof -
  assume "sealY h \<le> pa_y (move_particle h dt p)"
  then have "sealY h \<le> pa_y p + pa_vy p * (dt / 16)" by (simp only: pa_y_move)
  then show ?thesis by (simp add: move_particle_def Let_def)
qed

lemma update_particles_splits:
  "update_particles rnd h dt ps (bs, n) = (ps', bs', n') \<Longrightarrow>
     ps' = filter (\<lambda>p. \<not> pa_y p > h - 20) (map (move_particle h dt) ps)
     \<and> n' = n + 6 * length (landed h dt ps)"
proof (induction ps arbitrary: ps' bs' n')
  case (Cons p ps)
  obtain qs cs m where u: "update_particles rnd h dt ps (bs, n) = (qs, cs, m)" by (metis prod_cases3)
  with Cons.IH have "qs = filter (\<lambda>p. \<not> pa_y p > h - 20) (map (move_particle h dt) ps)
      \<and> m = n + 6 * length (landed h dt ps)" by blast
  then show ?case using Cons.prems u by (auto simp: Let_def landed_def split: if_splits)
qed (simp add: landed_def)

text \<open>On a canvas high enough to hold the line above the bottom (37 pixels suffice) no action joins the
  ledger unsealed: every particle that a tick takes out of the stream has crossed the line; the
  others stay, in order, and each one taken out uses the six random digits of its block's hash.
\<close>
theorem ledger_only_sealed:
  assumes "update_particles rnd h dt ps (bs, n) = (ps', bs', n')" and "37 \<le> h"
  shows "list_all pa_sealed (landed h dt ps) \<and> length ps' + length (landed h dt ps) = length ps
    \<and> n' = n + 6 * length (landed h dt ps)"
proof -
  have s: "ps' = filter (\<lambda>p. \<not> pa_y p > h - 20) (map (move_particle h dt) ps)"
    "n' = n + 6 * length (landed h dt ps)"
    using update_particles_splits [OF assms(1)] by simp_all
  have "sealY h \<le> h - 20" using assms(2) by simp
  then have "pa_sealed q" if q: "q \<in> set (landed h dt ps)" for q
  proof -
    obtain p where "q = move_particle h dt p" "h - 20 < pa_y q"
      using q unfolding landed_def set_filter set_map by blast
    then show ?thesis using \<open>sealY h \<le> h - 20\<close> moved_sealed [of h dt p]
      by (metis less_imp_le order_trans)
  qed
  then have "list_all pa_sealed (landed h dt ps)" by (simp add: list_all_iff)
  moreover have "length ps' + length (landed h dt ps) = length (map (move_particle h dt) ps)"
    unfolding s(1) landed_def using sum_length_filter_compl [of "\<lambda>p. pa_y p > h - 20"] by (metis add.commute)
  ultimately show ?thesis using s(2) by simp
qed

theorem ledger_only_sealed_witness:
  "list_all pa_sealed (landed 200 50 [(spawn (\<lambda>i. 0) 300)\<lparr>pa_y := 179\<rparr>])"
proof -
  obtain ps' bs' n' where
    "update_particles (\<lambda>i. 0) 200 50 [(spawn (\<lambda>i. 0) 300)\<lparr>pa_y := 179\<rparr>] ([], 0) = (ps', bs', n')"
    by (metis prod_cases3)
  from ledger_only_sealed [OF this] show ?thesis by simp
qed

end
