(* ===== verification/Globe.thy ===== *)
theory Globe
  imports Complex_Main Prelude
begin

text \<open>
  \<open>src/components/viz/AnchorGlobe.tsx\<close>: the rotating globe of the sign-in pages and of the
  landing page. The projection uses sines and cosines, so the coordinates of this figure are
  real numbers in place of doubles.
\<close>

section \<open>Projection\<close>

record globe_point =
  gp_x :: real
  gp_y :: real
  gp_z :: real
  gp_visible :: bool

definition globe_project :: "real \<Rightarrow> real \<Rightarrow> real \<Rightarrow> real \<Rightarrow> real \<Rightarrow> real \<Rightarrow> globe_point" where
  "globe_project rotation lat lon r cx cy =
     (let latR = lat * pi / 180; lonR = (lon + rotation) * pi / 180;
          x = r * cos latR * cos lonR; y = r * sin latR; z = r * cos latR * sin lonR
      in \<lparr>gp_x = cx + x, gp_y = cy - y, gp_z = z, gp_visible = (z > - r * (3 / 10))\<rparr>)"

definition ANCHORS :: "(real \<times> real) list" where
  "ANCHORS =
     [(407 / 10, - 74), (515 / 10, - 1 / 10), (357 / 10, 1397 / 10), (13 / 10, 1038 / 10),
      (525 / 10, 134 / 10), (- 339 / 10, 1512 / 10), (378 / 10, - 1224 / 10), (191 / 10, 729 / 10),
      (558 / 10, 376 / 10), (- 235 / 10, - 466 / 10), (30, 312 / 10), (493 / 10, - 1231 / 10)]"

definition ARCS :: "(nat \<times> nat) list" where
  "ARCS = [(0, 1), (1, 4), (4, 5), (0, 6), (6, 2), (2, 3), (3, 7), (7, 8), (1, 8), (0, 9), (3, 10),
     (6, 11)]"

section \<open>What a frame draws\<close>

datatype path_command = MoveTo real real | LineTo real real | CurveTo real real real real

text \<open>The path through the points whose ends are both in front; it only starts at the first point.\<close>

definition front_path :: "real \<Rightarrow> globe_point list \<Rightarrow> path_command list" where
  "front_path r pts = concat (map (\<lambda>i.
     if gp_z (pts ! i) > - r * (2 / 10) \<and> gp_z (pts ! (i + 1)) > - r * (2 / 10)
     then (if i = 0 then [MoveTo (gp_x (pts ! i)) (gp_y (pts ! i))] else [])
          @ [LineTo (gp_x (pts ! (i + 1))) (gp_y (pts ! (i + 1)))]
     else []) [0..<length pts - 1])"

definition latitude_points :: "real \<Rightarrow> real \<Rightarrow> real \<Rightarrow> real \<Rightarrow> real \<Rightarrow> globe_point list" where
  "latitude_points rotation r cx cy lat =
     map (\<lambda>i. globe_project rotation lat (of_nat (i * 4) - 180) r cx cy) [0..<91]"

definition longitude_points :: "real \<Rightarrow> real \<Rightarrow> real \<Rightarrow> real \<Rightarrow> real \<Rightarrow> globe_point list" where
  "longitude_points rotation r cx cy lon =
     map (\<lambda>i. globe_project rotation (of_nat (i * 4) - 90) (lon - 180) r cx cy) [0..<46]"

definition globe_lines :: "real \<Rightarrow> real \<Rightarrow> real \<Rightarrow> real \<Rightarrow> path_command list list" where
  "globe_lines rotation r cx cy =
     map (\<lambda>i. front_path r (latitude_points rotation r cx cy (of_nat (i * 30) - 60))) [0..<5]
     @ map (\<lambda>i. front_path r (longitude_points rotation r cx cy (of_nat (i * 30)))) [0..<12]"

definition globe_arc :: "real \<Rightarrow> real \<Rightarrow> real \<Rightarrow> real \<Rightarrow> nat \<times> nat \<Rightarrow> path_command list" where
  "globe_arc rotation r cx cy a =
     (let (lat1, lon1) = ANCHORS ! fst a; (lat2, lon2) = ANCHORS ! snd a;
          p1 = globe_project rotation lat1 lon1 r cx cy; p2 = globe_project rotation lat2 lon2 r cx cy;
          mid = globe_project rotation ((lat1 + lat2) / 2) ((lon1 + lon2) / 2) (r * (115 / 100)) cx cy
      in if \<not> gp_visible p1 \<or> \<not> gp_visible p2 then []
         else [MoveTo (gp_x p1) (gp_y p1), CurveTo (gp_x mid) (gp_y mid) (gp_x p2) (gp_y p2)])"

definition globe_anchors :: "real \<Rightarrow> real \<Rightarrow> real \<Rightarrow> real \<Rightarrow> (real \<times> real) list" where
  "globe_anchors rotation r cx cy =
     map (\<lambda>p. (gp_x p, gp_y p)) (filter gp_visible
       (map (\<lambda>(lat, lon). globe_project rotation lat lon r cx cy) ANCHORS))"

record globe_scene =
  gs_accent :: string
  gs_centre :: "real \<times> real"
  gs_radius :: real
  gs_lines :: "path_command list list"
  gs_arcs :: "path_command list list"
  gs_anchors :: "(real \<times> real) list"

definition globe_draw :: "bool \<Rightarrow> real \<Rightarrow> real \<Rightarrow> real \<Rightarrow> globe_scene" where
  "globe_draw dark w h rotation =
     (let cx = w / 2; cy = h / 2; r = min w h * (48 / 100) in
      \<lparr>gs_accent = (if dark then ''45, 212, 191'' else ''13, 148, 136''),
       gs_centre = (cx, cy), gs_radius = r, gs_lines = globe_lines rotation r cx cy,
       gs_arcs = map (globe_arc rotation r cx cy) ARCS, gs_anchors = globe_anchors rotation r cx cy\<rparr>)"

section \<open>The animation\<close>

record globe =
  gl_w :: real
  gl_h :: real
  gl_dark :: bool
  gl_rotation :: real
  gl_scene :: "globe_scene option"

definition globe_mount :: "real \<Rightarrow> real \<Rightarrow> bool \<Rightarrow> globe" where
  "globe_mount w h dark = \<lparr>gl_w = w, gl_h = h, gl_dark = dark, gl_rotation = 0, gl_scene = None\<rparr>"

datatype globe_event = GlFrame | GlResize real real | GlTheme bool

fun globe_step :: "bool \<Rightarrow> globe \<Rightarrow> globe_event \<Rightarrow> globe" where
  "globe_step reduced s GlFrame =
     s\<lparr>gl_scene := Some (globe_draw (gl_dark s) (gl_w s) (gl_h s) (gl_rotation s)),
       gl_rotation := (if reduced then gl_rotation s else gl_rotation s + 15 / 100)\<rparr>"
| "globe_step reduced s (GlResize w h) = s\<lparr>gl_w := w, gl_h := h, gl_scene := None\<rparr>"
| "globe_step reduced s (GlTheme dark) = s\<lparr>gl_dark := dark\<rparr>"

section \<open>Everything drawn lies on the globe\<close>

lemma project_coords:
  "gp_x (globe_project a lat lon r cx cy) - cx
     = r * cos (lat * pi / 180) * cos ((lon + a) * pi / 180)"
  "gp_y (globe_project a lat lon r cx cy) - cy = - (r * sin (lat * pi / 180))"
  "gp_z (globe_project a lat lon r cx cy) = r * cos (lat * pi / 180) * sin ((lon + a) * pi / 180)"
  by (simp_all add: globe_project_def Let_def)

lemma sphere: "(r * cos u * cos v)\<^sup>2 + (- (r * sin u))\<^sup>2 + (r * cos u * sin v)\<^sup>2 = (r :: real)\<^sup>2"
proof -
  have "(r * cos u * cos v)\<^sup>2 + (- (r * sin u))\<^sup>2 + (r * cos u * sin v)\<^sup>2
      = r\<^sup>2 * ((cos u)\<^sup>2 * ((sin v)\<^sup>2 + (cos v)\<^sup>2) + (sin u)\<^sup>2)"
    by algebra
  then show ?thesis by simp
qed

lemma project_sphere:
  "(gp_x (globe_project a lat lon r cx cy) - cx)\<^sup>2 + (gp_y (globe_project a lat lon r cx cy) - cy)\<^sup>2
     + (gp_z (globe_project a lat lon r cx cy))\<^sup>2 = r\<^sup>2"
  unfolding project_coords by (rule sphere)

lemma project_in_disc:
  "(gp_x (globe_project a lat lon r cx cy) - cx)\<^sup>2 + (gp_y (globe_project a lat lon r cx cy) - cy)\<^sup>2 \<le> r\<^sup>2"
  using project_sphere [of a lat lon r cx cy] zero_le_power2 [of "gp_z (globe_project a lat lon r cx cy)"]
  by linarith

definition on_disc :: "globe_scene \<Rightarrow> real \<times> real \<Rightarrow> bool" where
  "on_disc sc q \<longleftrightarrow>
     (fst q - fst (gs_centre sc))\<^sup>2 + (snd q - snd (gs_centre sc))\<^sup>2 \<le> (gs_radius sc)\<^sup>2"

fun command_end :: "path_command \<Rightarrow> real \<times> real" where
  "command_end (MoveTo x y) = (x, y)"
| "command_end (LineTo x y) = (x, y)"
| "command_end (CurveTo a b x y) = (x, y)"

lemma front_path_points:
  assumes "c \<in> set (front_path r pts)"
  shows "\<exists>p \<in> set pts. command_end c = (gp_x p, gp_y p)"
proof -
  obtain i where "i < length pts - 1"
    "c = MoveTo (gp_x (pts ! i)) (gp_y (pts ! i)) \<or> c = LineTo (gp_x (pts ! (i + 1))) (gp_y (pts ! (i + 1)))"
    using assms by (fastforce simp: front_path_def split: if_splits)
  then show ?thesis by (auto intro: nth_mem)
qed

text \<open>A path has at most one start, so two visible runs of it are joined by a straight line.\<close>

lemma front_path_one_start: "length (filter (\<lambda>c. \<exists>x y. c = MoveTo x y) (front_path r pts)) \<le> 1"
proof -
  have tail: "filter (\<lambda>c. \<exists>x y. c = MoveTo x y) (concat (map f [Suc 0..<n])) = []"
    if "\<forall>i > 0. \<forall>c \<in> set (f i). \<forall>x y. c \<noteq> MoveTo x y" for f :: "nat \<Rightarrow> path_command list" and n
    using that by (auto simp: filter_empty_conv Suc_le_eq) blast
  show ?thesis
  proof (cases "length pts - 1")
    case 0
    then show ?thesis by (simp add: front_path_def)
  next
    case (Suc n)
    show ?thesis unfolding front_path_def Suc upt_conv_Cons [OF zero_less_Suc] list.map concat.simps filter_append
      by (subst tail) auto
  qed
qed

lemma latitude_points_on: "p \<in> set (latitude_points a r cx cy lat) \<Longrightarrow>
    (gp_x p - cx)\<^sup>2 + (gp_y p - cy)\<^sup>2 \<le> r\<^sup>2"
  by (auto simp: latitude_points_def project_in_disc)

lemma longitude_points_on: "p \<in> set (longitude_points a r cx cy lon) \<Longrightarrow>
    (gp_x p - cx)\<^sup>2 + (gp_y p - cy)\<^sup>2 \<le> r\<^sup>2"
  by (auto simp: longitude_points_def project_in_disc)

lemma arc_end_on: "c \<in> set (globe_arc a r cx cy e) \<Longrightarrow>
    (fst (command_end c) - cx)\<^sup>2 + (snd (command_end c) - cy)\<^sup>2 \<le> r\<^sup>2"
  by (auto simp: globe_arc_def Let_def project_in_disc split: prod.splits if_splits)

text \<open>Everything the globe shows is on the globe: for any size and rotation, every anchor and every end
  of a line or an arc lies within the drawn disc.
\<close>
theorem globe_on_disc:
  "let sc = globe_draw dark w h rotation in
   list_all (on_disc sc) (gs_anchors sc)
   \<and> list_all (\<lambda>path. list_all (on_disc sc \<circ> command_end) path) (gs_lines sc @ gs_arcs sc)"
proof -
  define sc where "sc = globe_draw dark w h rotation"
  define r where "r = min w h * (48 / 100)"
  have parts: "gs_centre sc = (w / 2, h / 2)" "gs_radius sc = r"
    "gs_anchors sc = globe_anchors rotation r (w / 2) (h / 2)"
    "gs_lines sc = globe_lines rotation r (w / 2) (h / 2)"
    "gs_arcs sc = map (globe_arc rotation r (w / 2) (h / 2)) ARCS"
    by (simp_all add: sc_def globe_draw_def Let_def r_def)
  have on: "on_disc sc q \<longleftrightarrow> (fst q - w / 2)\<^sup>2 + (snd q - h / 2)\<^sup>2 \<le> r\<^sup>2" for q
    by (simp add: on_disc_def parts)
  have "list_all (on_disc sc) (gs_anchors sc)"
    by (auto simp: on list_all_iff parts globe_anchors_def project_in_disc)
  moreover have "on_disc sc (command_end c)" if "path \<in> set (gs_lines sc)" "c \<in> set path" for path c
  proof -
    from that(1) consider lat where "path = front_path r (latitude_points rotation r (w / 2) (h / 2) lat)"
      | lon where "path = front_path r (longitude_points rotation r (w / 2) (h / 2) lon)"
      unfolding parts globe_lines_def set_append set_map by blast
    then obtain pts where "path = front_path r pts"
      "\<forall>p \<in> set pts. (gp_x p - w / 2)\<^sup>2 + (gp_y p - h / 2)\<^sup>2 \<le> r\<^sup>2"
      using latitude_points_on longitude_points_on by metis
    then show ?thesis using that(2) front_path_points [of c r pts] by (auto simp: on)
  qed
  moreover have "on_disc sc (command_end c)" if "path \<in> set (gs_arcs sc)" "c \<in> set path" for path c
    using that arc_end_on by (auto simp: on parts)
  ultimately show ?thesis by (auto simp: Let_def list_all_iff simp flip: sc_def)
qed

section \<open>The globe turns\<close>

lemma project_turn: "globe_project (a + 360) lat lon r cx cy = globe_project a lat lon r cx cy"
proof -
  have "(lon + (a + 360)) * pi / 180 = (lon + a) * pi / 180 + 2 * pi" by (simp add: field_simps)
  then show ?thesis unfolding globe_project_def Let_def by (simp only: sin_periodic cos_periodic)
qed

lemma draw_turn: "globe_draw dark w h (a + 360) = globe_draw dark w h a"
  by (simp add: globe_draw_def Let_def globe_lines_def latitude_points_def longitude_points_def
      globe_arc_def globe_anchors_def project_turn)

lemma rotation_after: "gl_rotation (run (globe_step False) s (replicate n GlFrame)) = gl_rotation s + of_nat n * (15 / 100)"
  by (induction n arbitrary: s) (simp_all add: algebra_simps)

lemma frames_keep: "gl_w (run (globe_step b) s (replicate n GlFrame)) = gl_w s"
  "gl_h (run (globe_step b) s (replicate n GlFrame)) = gl_h s"
  "gl_dark (run (globe_step b) s (replicate n GlFrame)) = gl_dark s"
  by (induction n arbitrary: s) simp_all

text \<open>The globe turns without a jump: after 2400 frames it shows exactly the scene it showed before them.
\<close>
theorem globe_full_turn:
  "gl_scene (globe_step False (run (globe_step False) s (replicate 2400 GlFrame)) GlFrame)
     = gl_scene (globe_step False s GlFrame)"
proof -
  have "gl_rotation (run (globe_step False) s (replicate 2400 GlFrame)) = gl_rotation s + 360"
    unfolding rotation_after by simp
  then show ?thesis by (simp add: frames_keep draw_turn)
qed

end
