(* ===== verification/Spec2Isabelle.thy ===== *)
theory Spec2Isabelle
  imports Console Layout Delegations Activity Sessions Projects Overview Theme ProjectCtx
    Journey Visits Access Endpoints Focus OpenapiTags Captures Icons MerkleSeal Ledger SealStream Lattice Globe
begin

text \<open>
  A model of the web console of Babit, \<open>src/frontend/src\<close> (TypeScript and React), with the
  theorems that make it correct. Babit records what software agents do in a notarized ledger;
  the console signs a user in, lists the grants, sessions, events and receipts of a project,
  manages projects and their keys, replays recorded sessions, and verifies receipts; its public
  pages present the product, with a demonstration receipt and animated figures. The
  ledger itself and its API server (\<open>internal\<close>, \<open>cmd\<close> and \<open>db\<close>, in Go) are behind the API and are
  not part of the model.

  \<^bold>\<open>How the program is modelled.\<close> Each page, hook or provider is a record (its React state, its
  pending awaits and the requests it has sent), a datatype of events (what the user does, the
  answers that arrive, the timers that fire) and a total step function, composed from one
  definition per handler. A handler with an \<open>await\<close> is split there: the part before it appends
  to the list of pending awaits, the part after it is run by the event that settles one of
  them, so answers come in any order, or never. An answer is \<open>Resolved data err\<close> (the client
  returns either) or \<open>Rejected e\<close> (the promise throws); a rejection that the code does not catch
  ends the handler where it stands. An effect with a cleanup flag keeps that flag with its
  pending await. A view is a function from the state to a tree of elements whose attributes carry
  the events they can fire, so that \<open>can_fire\<close> says what the user can do in a state, disabled
  buttons and unsubmittable forms included, and \<open>ui_reach\<close> is reachability by such events and
  by answers. Constant class names and styles are left out of the trees; icons, charts and the
  flow canvas are leaves. Strings are lists of 16-bit code units. What TypeScript asserts
  (non-null assertions, types of API answers) is taken at face value.

  \<^bold>\<open>Parameters.\<close> Locale-dependent formatting (dates, \<open>toLocaleString\<close>), the digest function of the
  browser's \<open>crypto.subtle\<close>, the clock, random numbers, the settings of a build and the sines of the
  lattice's directions are arguments of the definitions that use them. The only thing a property
  assumes of one of them is that random numbers are at least 0 and below 1.

  \<^bold>\<open>Theories and sources\<close> (paths below \<open>src/frontend/src\<close>).

  \<^item> \<open>Prelude\<close>: code units, strings, lists; runs of a machine; the locales \<open>machine\<close> (an invariant
    kept by every step) and \<open>tracker\<close> (a component that hosts another).
  \<^item> \<open>Json\<close>, \<open>JsonRound\<close>: \<open>JSON.parse\<close> and \<open>JSON.stringify\<close> with an indent; what is printed is read
    back. \<open>Streams\<close>: the streaming UTF-8 decoder, \<open>split\<close> on lines, \<open>atob\<close> and \<open>btoa\<close>.
  \<^item> \<open>Dom\<close>: element trees, their text and their events; the locale \<open>screen\<close>.
    \<open>Icons\<close>: \<open>lib/icons.tsx\<close>, the drawings behind the icon leaves.
    \<open>Ui\<close>: \<open>lib/ui.tsx\<close> and \<open>components/LoadMoreButton.tsx\<close>, with the dialog's focus handling and the locale \<open>focus_trap\<close>;
    \<open>Focus\<close>: what the keyboard reaches in the confirmation and in the palette.
  \<^item> \<open>Api\<close>: \<open>api/client.ts\<close> and the messages of \<open>api/schema.d.ts\<close> as records. \<open>Endpoints\<close>: the whole
    declared contract of that file (schemas, operations, paths) and the calls of the client.
  \<^item> \<open>Hooks\<close>: \<open>lib/usePagination.ts\<close>, \<open>lib/useCall.ts\<close>. \<open>ListPage\<close>: what the list pages share.
  \<^item> \<open>Router\<close>: \<open>lib/router.tsx\<close>, with the locale \<open>history_nav\<close>. \<open>Theme\<close>: \<open>lib/theme.ts\<close>,
    \<open>lib/ThemeToggle.tsx\<close>. \<open>Auth\<close>: \<open>lib/auth.tsx\<close>. \<open>ProjectCtx\<close>: \<open>lib/project.tsx\<close>.
  \<^item> \<open>Palette\<close>: \<open>lib/CommandPalette.tsx\<close>. \<open>Crypto\<close>: \<open>lib/crypto.ts\<close>.
  \<^item> \<open>App\<close>: \<open>App.tsx\<close>, the choice of the screen. \<open>Shell\<close>: the life of a document, from
    \<open>main.tsx\<close> and the rest of \<open>App.tsx\<close>: the splash screen's timer, the lazy screens, the error boundary.
    \<open>Layout\<close>: \<open>pages/dashboard/DashboardLayout.tsx\<close>, composed of session, project, palette,
    theme and router.
  \<^item> \<open>Verify\<close>, \<open>Receipts\<close>, \<open>Activity\<close>, \<open>Sessions\<close>, \<open>Replay\<close>, \<open>Delegations\<close>, \<open>Projects\<close>,
    \<open>Settings\<close>, \<open>Overview\<close>, \<open>Analytics\<close>: the pages of the same names in \<open>pages/dashboard\<close>
    (\<open>Verify\<close> is \<open>screens/Verify.tsx\<close>, \<open>Receipts\<close> holds \<open>ReceiptDetail.tsx\<close> too, \<open>Replay\<close> is
    \<open>ReplayModal.tsx\<close>). \<open>GrantViz\<close>: \<open>components/viz/GrantTree.tsx\<close> and
    \<open>components/viz/AuthorityGraph.tsx\<close>.
  \<^item> \<open>AuthPages\<close>: sign-in, sign-up and password pages and their layout. \<open>Pages\<close>: the creator's
    profile page, the error boundary, the skip link and the not-found page.
  \<^item> \<open>Marketing\<close>: what the public pages share: the primitives of \<open>pages/landing/Section.tsx\<close>,
    \<open>Nav.tsx\<close>, \<open>Footer.tsx\<close>, \<open>lib/links.ts\<close>. \<open>Landing\<close>: \<open>pages/Landing.tsx\<close> with its sections
    and the demonstration of \<open>Hero.tsx\<close>. \<open>Site\<close>: the pricing, security and contact pages, the API
    reference and the splash screen.
  \<^item> \<open>Numbers\<close>: reading and rounding of numbers, \<open>parseInt\<close>, \<open>%\<close> and 32-bit operations. The figures of
    \<open>components/viz\<close>: \<open>MerkleSeal\<close> (with \<open>tokens.ts\<close>), \<open>Ledger\<close> (\<open>EvidenceLedger.tsx\<close>), \<open>SealStream\<close>
    (\<open>SealingStream.tsx\<close>), \<open>Lattice\<close> (\<open>EvidencePipeline.tsx\<close>), \<open>Globe\<close> (\<open>AnchorGlobe.tsx\<close>).
  \<^item> \<open>Dashboard\<close>, \<open>Application\<close>: the whole of \<open>App.tsx\<close> and \<open>main.tsx\<close> as one machine, the layout with the
    page of its tab, and the page of every screen with the session, theme and router they share.
    \<open>Visits\<close>: what a visit to it shows, from the sign-in form to the console and back.
    \<open>Access\<close>: who is let into the console, as a specification that the application implements.
  \<^item> \<open>OpenapiTags\<close>: \<open>scripts/openapi-tags.mjs\<close> of the frontend. \<open>Captures\<close>: the scripts that take pictures
    of the console, \<open>shot_all\<close>, \<open>capture_dashboard\<close> and \<open>capture_social\<close>, of \<open>src/dev\<close> and of the
    frontend's \<open>scripts\<close>, run on the shell and the sign-in form, with the world's events between
    their commands.
  \<^item> \<open>Console\<close>, \<open>Journey\<close>: behaviour that spans components, such as the visit from the landing page
    through a sign-up to the dashboard, on the application's machine.

  \<^bold>\<open>How the parts interact.\<close> The session provider wraps everything: while it loads, \<open>App.tsx\<close>
  shows the splash screen instead of the dashboard, which unmounts the page under it. A list
  page hosts a pager; its fetcher closes over the project, so a change of project refreshes.
  The layout passes navigation to the router, whose path decides the page. A receipt travels
  from the receipts page over a file to the verification screen. A public page is composed of the
  navigation bar, its own content and the footer; buttons and routed links go through the router,
  plain anchors through the browser, which is why a section link meets the splash screen.
  \<open>Application\<close> puts all of them together: an event goes to the mounted page, whose changes of the
  session, theme and router reach the shell; the shell renders, which keeps the page or mounts
  another, and gives it the current values; what a page awaited when it went is counted, since its
  answer can still navigate or refresh the profile. Requests that a page that is gone has sent are
  not followed otherwise, and a page that the guard leaves in the render that mounts it is not mounted.

  \<^bold>\<open>What the lemmas show.\<close> For each component: an invariant kept by every operation (\<open>*_inv\<close>,
  through the locales \<open>machine\<close> and \<open>screen\<close>), what each view can fire (\<open>fires_*\<close>), and the
  behaviour of whole flows. \<open>Hooks\<close> refines the list on a page to a walk along the server's
  pages (\<open>served\<close>); \<open>Replay\<close> shows chunked reading equal to reading the whole stream
  (\<open>stream_events\<close>); \<open>JsonRound\<close> and \<open>Streams\<close> are round trips; \<open>Endpoints\<close> checks every call of the
  client against the contract; \<open>Access\<close> states who gets into the console as a machine of three
  states and shows, through the locale \<open>refines\<close>, that every visit to the application is a run of it;
  \<open>Visits\<close> shows that the page
  is the address's, that the console is behind the session, and that every console page keeps its own
  invariant inside the application. The properties, numbered
  C1 to C40, stand in the theory of their component. Some, and some further theorems, state what
  the code does where it is not what it means to do: a list asked for before the project was known replaces the project's, a sign-in left behind
  still takes the visitor away, a created
  key's secret is unmounted, the mark of a saved profile is never seen, a revocation's answer
  lands on another grant, the grant tree can recurse for ever, a \<open>null\<close> payload takes the page
  down, a failed profile request passes for a sign-in, a demonstration is called verified while
  it is being signed, a section link finds no section, a script that is to take pictures of the console takes none.

  A pager keeps the list of all it has asked for (\<open>pg_asked\<close>), which no code reads: with it
  the pages are shown to have asked for the project that is selected. The commit of a page and the
  effects that React runs after it are one step, so the single frame that a visitor without a
  session could see of the dashboard before the guard's effect navigates is not a state.

  \<^bold>\<open>Bounds and fuel.\<close> \<open>grant_tree\<close> draws as many levels as there are grants; \<open>None\<close> stands for a
  deeper recursion, which is proved impossible when entries of one id agree on their parent and
  proved to have no bound otherwise. \<open>json_parse\<close> runs on twice the length of the text and two;
  the round trip shows this enough for every printed value. Numbers of JSON texts keep their
  notation; counts are decimal 64-bit integers, read and rounded as IEEE doubles. The figures
  compute with exact rationals, the globe with reals, where the code has doubles; 32-bit words are
  words, and the products fed to them are rounded as doubles are.

  \<^bold>\<open>Not modelled.\<close> The painting of the figures (the calls on the canvas; their scenes are
  computed), CSS (class names and styles, the size and colour of an icon among them), and how the
  API client builds an address from a path and its parameters; what a browser makes of an address
  that is not plain (\<open>plain_address\<close> of \<open>Router\<close>); the order in which an engine compares the tags of a
  document when one of them has no name; charts, the flow canvas and the reference viewer, which
  third-party libraries draw. Case conversion is exact for Latin-1 only;
  a surface named like a member of \<open>Object.prototype\<close> is outside the model of the surface labels.
\<close>

end
